(* ===== verification/Prelude.thy ===== *)
theory Prelude
  imports Main "HOL-Library.AList" "HOL-Library.Word"
begin

text \<open>
  Shared vocabulary of the development: results (Rust's \<open>Result\<close>), the state-and-error
  monad in which every operation on the store is written, its weakest-precondition calculus,
  machine-integer helpers, and the generic list and association-list lemmas that the component
  theories use.
\<close>

named_theorems wp_simps \<open>weakest-precondition equations of the store monad\<close>
named_theorems disk_simps \<open>reads of a disk after its updates\<close>
named_theorems res_simps \<open>inversion of results\<close>

section \<open>Results\<close>

text \<open>\<open>Inl\<close> carries the error, \<open>Inr\<close> the value. \<open>rbind\<close> is Rust's question-mark operator.\<close>

type_synonym ('e, 'a) result = "'e + 'a"

fun rbind :: "('e, 'a) result \<Rightarrow> ('a \<Rightarrow> ('e, 'b) result) \<Rightarrow> ('e, 'b) result" where
  "rbind (Inl e) f = Inl e"
| "rbind (Inr x) f = f x"

definition ok_or :: "'a option \<Rightarrow> 'e \<Rightarrow> ('e, 'a) result" where
  "ok_or x e = (case x of None \<Rightarrow> Inl e | Some v \<Rightarrow> Inr v)"

definition ensure :: "bool \<Rightarrow> 'e \<Rightarrow> ('e, unit) result" where
  "ensure b e = (if b then Inr () else Inl e)"

definition map_err :: "('e \<Rightarrow> 'f) \<Rightarrow> ('e, 'a) result \<Rightarrow> ('f, 'a) result" where
  "map_err f r = (case r of Inl e \<Rightarrow> Inl (f e) | Inr x \<Rightarrow> Inr x)"

definition is_ok :: "('e, 'a) result \<Rightarrow> bool" where
  "is_ok r \<longleftrightarrow> (case r of Inl _ \<Rightarrow> False | Inr _ \<Rightarrow> True)"

text \<open>A \<open>for\<close> loop that stops at the first error, and the collecting variant.\<close>

fun rforeach :: "('a \<Rightarrow> ('e, unit) result) \<Rightarrow> 'a list \<Rightarrow> ('e, unit) result" where
  "rforeach f [] = Inr ()"
| "rforeach f (x # xs) = rbind (f x) (\<lambda>_. rforeach f xs)"

fun rcollect :: "('a \<Rightarrow> ('e, 'b) result) \<Rightarrow> 'a list \<Rightarrow> ('e, 'b list) result" where
  "rcollect f [] = Inr []"
| "rcollect f (x # xs) = rbind (f x) (\<lambda>y. rbind (rcollect f xs) (\<lambda>ys. Inr (y # ys)))"

fun rfold :: "('s \<Rightarrow> 'a \<Rightarrow> ('e, 's) result) \<Rightarrow> 's \<Rightarrow> 'a list \<Rightarrow> ('e, 's) result" where
  "rfold f s [] = Inr s"
| "rfold f s (x # xs) = rbind (f s x) (\<lambda>s'. rfold f s' xs)"

lemma rbind_Inr_iff [res_simps]: "rbind r f = Inr y \<longleftrightarrow> (\<exists>x. r = Inr x \<and> f x = Inr y)"
  by (cases r) auto

lemma rbind_Inl_iff [res_simps]:
  "rbind r f = Inl e \<longleftrightarrow> r = Inl e \<or> (\<exists>x. r = Inr x \<and> f x = Inl e)"
  by (cases r) auto

lemma ok_or_Inr_iff [simp, res_simps]: "ok_or x e = Inr v \<longleftrightarrow> x = Some v"
  by (simp add: ok_or_def split: option.splits)

lemma ok_or_Inl_iff [simp, res_simps]: "ok_or x e = Inl e' \<longleftrightarrow> x = None \<and> e' = e"
  by (auto simp add: ok_or_def split: option.splits)

lemma ok_or_simps [simp]: "ok_or None e = Inl e" "ok_or (Some v) e = Inr v"
  by (simp_all add: ok_or_def)

lemma ensure_Inr_iff [simp, res_simps]: "ensure b e = Inr u \<longleftrightarrow> b"
  by (simp add: ensure_def)

lemma ensure_Inl_iff [simp, res_simps]: "ensure b e = Inl e' \<longleftrightarrow> \<not> b \<and> e' = e"
  by (auto simp add: ensure_def)

lemma ensure_simps [simp]: "ensure True e = Inr ()" "ensure False e = Inl e"
  by (simp_all add: ensure_def)

lemma map_err_Inr_iff [simp, res_simps]: "map_err f r = Inr x \<longleftrightarrow> r = Inr x"
  by (cases r) (simp_all add: map_err_def)

lemma map_err_Inl_iff [res_simps]: "map_err f r = Inl e \<longleftrightarrow> (\<exists>e'. r = Inl e' \<and> e = f e')"
  by (cases r) (auto simp add: map_err_def)

lemma map_err_simps [simp]: "map_err f (Inl e) = Inl (f e)" "map_err f (Inr x) = Inr x"
  by (simp_all add: map_err_def)

lemma is_ok_iff: "is_ok r \<longleftrightarrow> (\<exists>x. r = Inr x)"
  by (cases r) (simp_all add: is_ok_def)

lemma is_ok_simps [simp]: "is_ok (Inl e) = False" "is_ok (Inr x) = True"
  by (simp_all add: is_ok_def)

lemma rforeach_Inr_iff [res_simps]:
  "rforeach f xs = Inr u \<longleftrightarrow> (\<forall>x\<in>set xs. f x = Inr ())"
  by (induction xs) (auto simp: rbind_Inr_iff)

lemma rcollect_Inr_iff [res_simps]:
  "rcollect f xs = Inr ys \<longleftrightarrow> list_all2 (\<lambda>x y. f x = Inr y) xs ys"
  by (induction xs arbitrary: ys) (auto simp: rbind_Inr_iff list_all2_Cons1)

section \<open>The store monad\<close>

text \<open>
  An operation takes the world and returns a result and the new world. An error keeps the
  effects performed so far: nothing is rolled back, as in the source.
\<close>

type_synonym ('w, 'e, 'a) io = "'w \<Rightarrow> ('e, 'a) result \<times> 'w"

definition ret :: "'a \<Rightarrow> ('w, 'e, 'a) io" where
  "ret x w = (Inr x, w)"

definition raise :: "'e \<Rightarrow> ('w, 'e, 'a) io" where
  "raise e w = (Inl e, w)"

definition lift :: "('e, 'a) result \<Rightarrow> ('w, 'e, 'a) io" where
  "lift r w = (r, w)"

definition bnd :: "('w, 'e, 'a) io \<Rightarrow> ('a \<Rightarrow> ('w, 'e, 'b) io) \<Rightarrow> ('w, 'e, 'b) io" where
  "bnd m f w = (case m w of (Inl e, w') \<Rightarrow> (Inl e, w') | (Inr x, w') \<Rightarrow> f x w')"

fun foreach :: "('a \<Rightarrow> ('w, 'e, unit) io) \<Rightarrow> 'a list \<Rightarrow> ('w, 'e, unit) io" where
  "foreach f [] = ret ()"
| "foreach f (x # xs) = bnd (f x) (\<lambda>_. foreach f xs)"

fun foldio :: "('s \<Rightarrow> 'a \<Rightarrow> ('w, 'e, 's) io) \<Rightarrow> 's \<Rightarrow> 'a list \<Rightarrow> ('w, 'e, 's) io" where
  "foldio f s [] = ret s"
| "foldio f s (x # xs) = bnd (f s x) (\<lambda>s'. foldio f s' xs)"

subsection \<open>Weakest preconditions\<close>

text \<open>
  \<open>wp m Q E w\<close>: run from \<open>w\<close>, the operation either returns a value and a world that satisfy
  \<open>Q\<close>, or fails with an error and a world that satisfy \<open>E\<close>.
\<close>

definition wp :: "('w, 'e, 'a) io \<Rightarrow> ('a \<Rightarrow> 'w \<Rightarrow> bool) \<Rightarrow> ('e \<Rightarrow> 'w \<Rightarrow> bool) \<Rightarrow> 'w \<Rightarrow> bool" where
  "wp m Q E w = (case m w of (Inl e, w') \<Rightarrow> E e w' | (Inr x, w') \<Rightarrow> Q x w')"

lemma wp_ret [wp_simps]: "wp (ret x) Q E w = Q x w"
  by (simp add: wp_def ret_def)

lemma wp_raise [wp_simps]: "wp (raise e) Q E w = E e w"
  by (simp add: wp_def raise_def)

lemma wp_lift [wp_simps]: "wp (lift r) Q E w = (case r of Inl e \<Rightarrow> E e w | Inr x \<Rightarrow> Q x w)"
  by (simp add: wp_def lift_def)

lemma wp_bnd [wp_simps]: "wp (bnd m f) Q E w = wp m (\<lambda>x. wp (f x) Q E) E w"
  by (auto simp: wp_def bnd_def split: prod.splits sum.splits)

lemma wp_if [wp_simps]: "wp (if b then m else n) Q E w = (if b then wp m Q E w else wp n Q E w)"
  by simp

lemma wp_mono:
  assumes "wp m Q E w" and "\<And>x w'. Q x w' \<Longrightarrow> Q' x w'" and "\<And>e w'. E e w' \<Longrightarrow> E' e w'"
  shows "wp m Q' E' w"
  using assms by (auto simp: wp_def split: prod.splits sum.splits)

lemma wp_conj: "wp m Q E w \<Longrightarrow> wp m Q' E' w \<Longrightarrow> wp m (\<lambda>x w. Q x w \<and> Q' x w) (\<lambda>e w. E e w \<and> E' e w) w"
  by (auto simp: wp_def split: prod.splits sum.splits)

lemma wp_Inr: "m w = (Inr x, w') \<Longrightarrow> wp m Q E w \<Longrightarrow> Q x w'"
  by (simp add: wp_def)

lemma wp_Inl: "m w = (Inl e, w') \<Longrightarrow> wp m Q E w \<Longrightarrow> E e w'"
  by (simp add: wp_def)

lemma wp_any: "wp m Q E w \<Longrightarrow> (\<And>x. Q x (snd (m w)) \<Longrightarrow> P) \<Longrightarrow> (\<And>e. E e (snd (m w)) \<Longrightarrow> P) \<Longrightarrow> P"
  by (cases "m w"; cases "fst (m w)") (auto simp: wp_def)

lemma wp_trivial: "wp m (\<lambda>_ _. True) (\<lambda>_ _. True) w"
  by (simp add: wp_def split: prod.splits sum.splits)

lemma wp_foreach:
  assumes "I w" and "\<And>x w. x \<in> set xs \<Longrightarrow> I w \<Longrightarrow> wp (f x) (\<lambda>_. I) (\<lambda>_. I) w"
  shows "wp (foreach f xs) (\<lambda>_. I) (\<lambda>_. I) w"
  using assms
proof (induction xs arbitrary: w)
  case Nil
  then show ?case by (simp add: wp_simps)
next
  case (Cons x xs)
  from Cons.prems(2)[of x w] Cons.prems(1)
  have "wp (f x) (\<lambda>_. I) (\<lambda>_. I) w" by simp
  then have "wp (f x) (\<lambda>_. wp (foreach f xs) (\<lambda>_. I) (\<lambda>_. I)) (\<lambda>_. I) w"
    by (rule wp_mono) (use Cons in auto)
  then show ?case by (simp add: wp_bnd)
qed

lemma bnd_Inr_iff [res_simps]:
  "bnd m f w = (Inr y, w') \<longleftrightarrow> (\<exists>x w1. m w = (Inr x, w1) \<and> f x w1 = (Inr y, w'))"
  by (auto simp: bnd_def split: prod.splits sum.splits)

lemma bnd_simps [simp]:
  "m w = (Inr x, w') \<Longrightarrow> bnd m f w = f x w'"
  "m w = (Inl e, w') \<Longrightarrow> bnd m f w = (Inl e, w')"
  by (simp_all add: bnd_def)

lemma bnd_lift [simp]: "bnd (lift (Inr x)) f = f x" "bnd (lift (Inl e)) f = raise e"
  by (simp_all add: bnd_def lift_def raise_def fun_eq_iff)

lemma bnd_ret [simp]: "bnd (ret x) f = f x"
  by (simp add: bnd_def ret_def fun_eq_iff)

lemma bnd_raise [simp]: "bnd (raise e) f = raise e"
  by (simp add: bnd_def raise_def fun_eq_iff)

section \<open>Machine integers\<close>

type_synonym u64 = "64 word"
type_synonym u32 = "32 word"

definition checked_add1 :: "u64 \<Rightarrow> u64 option" where
  "checked_add1 n = (if n = - 1 then None else Some (n + 1))"

definition saturating_add1 :: "u64 \<Rightarrow> u64" where
  "saturating_add1 n = (if n = - 1 then - 1 else n + 1)"

lemma checked_add1_Some: "checked_add1 n = Some m \<Longrightarrow> n < m \<and> unat m = unat n + 1"
proof -
  assume "checked_add1 n = Some m"
  then have neq: "n \<noteq> - 1" and m: "m = n + 1" by (auto simp: checked_add1_def split: if_splits)
  have "n + 1 \<noteq> 0" using neq by (metis add.commute add_eq_0_iff)
  then have "unat (n + 1) = unat n + 1" by (metis Suc_eq_plus1 unatSuc add.commute)
  with m show ?thesis by (simp add: word_less_nat_alt)
qed

lemma checked_add1_neq: "checked_add1 n = Some m \<Longrightarrow> m \<noteq> n"
  using checked_add1_Some by fastforce

section \<open>Lists and association lists\<close>

lemma find_Some_iff': "find P xs = Some x \<Longrightarrow> x \<in> set xs \<and> P x"
  by (auto simp: find_Some_iff)

lemma find_append: "find P (xs @ ys) = (case find P xs of None \<Rightarrow> find P ys | Some x \<Rightarrow> Some x)"
  by (induction xs) auto

text \<open>A directory: file names to contents, in listing order.\<close>

definition dir_get :: "(string \<times> 'a) list \<Rightarrow> string \<Rightarrow> 'a option" where
  "dir_get d k = map_of d k"

definition dir_put :: "string \<Rightarrow> 'a \<Rightarrow> (string \<times> 'a) list \<Rightarrow> (string \<times> 'a) list" where
  "dir_put k v d = AList.update k v d"

definition dir_del :: "string \<Rightarrow> (string \<times> 'a) list \<Rightarrow> (string \<times> 'a) list" where
  "dir_del k d = AList.delete k d"

lemma dir_get_put [disk_simps]:
  "dir_get (dir_put k v d) k' = (if k' = k then Some v else dir_get d k')"
  by (simp add: dir_get_def dir_put_def update_conv')

lemma dir_get_del [disk_simps]: "dir_get (dir_del k d) k' = (if k' = k then None else dir_get d k')"
  by (simp add: dir_get_def dir_del_def delete_conv')

lemma dir_get_Nil [disk_simps, simp]: "dir_get [] k = None"
  by (simp add: dir_get_def)

lemma dir_del_id: "dir_get d k = None \<Longrightarrow> dir_del k d = d"
  by (simp add: dir_get_def dir_del_def delete_id map_of_eq_None_iff)

lemma dir_del_put_fresh: "dir_get d k = None \<Longrightarrow> dir_del k (dir_put k v d) = d"
  by (simp add: dir_get_def dir_del_def dir_put_def map_of_eq_None_iff delete_update_same delete_id)

lemma dir_put_put: "dir_put k v' (dir_put k v d) = dir_put k v' d"
  by (simp add: dir_put_def update_last)

lemma dir_put_fresh: "dir_get d k = None \<Longrightarrow> dir_put k v d = d @ [(k, v)]"
  by (induction d) (auto simp: dir_get_def dir_put_def split: if_splits)

lemma dir_del_del: "dir_del k (dir_del k d) = dir_del k d"
  by (simp add: dir_del_def delete_idem)

text \<open>A directory without the files of some names.\<close>

definition without :: "string set \<Rightarrow> (string \<times> 'a) list \<Rightarrow> (string \<times> 'a) list" where
  "without P d = filter (\<lambda>e. fst e \<notin> P) d"

lemma without_put [simp]: "k \<in> P \<Longrightarrow> without P (dir_put k v d) = without P d"
  unfolding dir_put_def without_def by (induction d) auto

lemma without_del: "without {k} d = dir_del k d"
  by (simp add: without_def dir_del_def AList.delete_eq) (rule filter_cong; auto)

lemma without_without: "without P (without Q d) = without (P \<union> Q) d"
  by (simp add: without_def conj_commute)

lemma without_empty [simp]: "without {} d = d"
  by (simp add: without_def)

lemma without_fresh: "(\<And>k. k \<in> P \<Longrightarrow> dir_get d k = None) \<Longrightarrow> without P d = d"
  by (force simp: without_def dir_get_def map_of_eq_None_iff filter_id_conv)

lemma dir_get_without: "dir_get (without P d) k = (if k \<in> P then None else dir_get d k)"
  unfolding without_def dir_get_def by (induction d) auto

end
