(* ===== verification/Rust_Std.thy ===== *)
theory Rust_Std
  imports Prelude "HOL-Library.Char_ord" "HOL-Library.List_Lexorder" "HOL-Library.Sublist"
begin

text \<open>
  The parts of Rust's standard library that the crate uses on strings. A \<open>String\<close> is the list
  of its UTF-8 bytes, so that \<open>len()\<close> is \<open>length\<close> and byte tests are tests on characters;
  \<open>trim\<close> recognises the UTF-8 encodings of the Unicode white-space characters.
\<close>

type_synonym bytes = "char list"

section \<open>Prefixes and splitting\<close>

definition starts_with :: "string \<Rightarrow> string \<Rightarrow> bool" where
  "starts_with s p \<longleftrightarrow> take (length p) s = p"

definition strip_prefix :: "string \<Rightarrow> string \<Rightarrow> string option" where
  "strip_prefix s p = (if starts_with s p then Some (drop (length p) s) else None)"

fun split_on :: "char \<Rightarrow> string \<Rightarrow> string list" where
  "split_on c [] = [[]]"
| "split_on c (x # xs) =
     (if x = c then [] # split_on c xs
      else (case split_on c xs of [] \<Rightarrow> [[x]] | y # ys \<Rightarrow> (x # y) # ys))"

lemma starts_with_append [simp]: "starts_with (p @ s) p"
  by (simp add: starts_with_def)

lemma starts_with_iff: "starts_with s p \<longleftrightarrow> (\<exists>r. s = p @ r)"
proof
  assume "starts_with s p"
  then have "s = p @ drop (length p) s" by (metis append_take_drop_id starts_with_def)
  then show "\<exists>r. s = p @ r" ..
qed auto

lemma strip_prefix_Some_iff: "strip_prefix s p = Some r \<longleftrightarrow> s = p @ r"
  by (auto simp: strip_prefix_def starts_with_iff)

lemma strip_prefix_append [simp]: "strip_prefix (p @ s) p = Some s"
  by (simp add: strip_prefix_Some_iff)

lemma strip_prefix_Cons [simp]:
  "strip_prefix (x # s) [c] = (if x = c then Some s else None)"
  "strip_prefix [] [c] = None"
  by (auto simp: strip_prefix_def starts_with_def)

lemma starts_with_Cons1 [simp]:
  "starts_with (x # s) [c] \<longleftrightarrow> x = c" "\<not> starts_with [] [c]"
  by (auto simp: starts_with_def)

lemma split_on_not_Nil [simp]: "split_on c s \<noteq> []"
  by (induction s) (auto split: list.splits)

lemma hd_split_on: "hd (split_on c s) \<noteq> [] \<Longrightarrow> s \<noteq> [] \<and> hd (hd (split_on c s)) = hd s"
  by (cases s) (auto split: list.splits if_splits)

lemma split_on_eq_single: "split_on c s = [[]] \<longleftrightarrow> s = []"
  by (cases s) (auto split: list.splits)

lemma last_split_on: "last (split_on c s) \<noteq> [] \<Longrightarrow> s \<noteq> [] \<and> last (last (split_on c s)) = last s"
  by (induction s) (auto simp: split_on_eq_single split: list.splits if_splits)

lemma set_split_on: "set s \<subseteq> insert c (\<Union>l\<in>set (split_on c s). set l)"
proof (induction s)
  case (Cons x s)
  then show ?case by (cases "split_on c s") auto
qed simp

section \<open>Character classes\<close>

definition code :: "char \<Rightarrow> nat" where
  "code c = of_char c"

definition is_ascii_digit :: "char \<Rightarrow> bool" where
  "is_ascii_digit c \<longleftrightarrow> 48 \<le> code c \<and> code c \<le> 57"

definition is_ascii_alphanumeric :: "char \<Rightarrow> bool" where
  "is_ascii_alphanumeric c \<longleftrightarrow>
     is_ascii_digit c \<or> 65 \<le> code c \<and> code c \<le> 90 \<or> 97 \<le> code c \<and> code c \<le> 122"

definition is_ascii_hexdigit :: "char \<Rightarrow> bool" where
  "is_ascii_hexdigit c \<longleftrightarrow>
     is_ascii_digit c \<or> 65 \<le> code c \<and> code c \<le> 70 \<or> 97 \<le> code c \<and> code c \<le> 102"

section \<open>Trimming\<close>

text \<open>The UTF-8 encodings of the characters with the Unicode property White\_Space.\<close>

definition white_space :: "string list" where
  "white_space =
     [[CHR 0x20], [CHR 0x09], [CHR 0x0A], [CHR 0x0B], [CHR 0x0C], [CHR 0x0D],
      [CHR 0xC2, CHR 0x85], [CHR 0xC2, CHR 0xA0], [CHR 0xE1, CHR 0x9A, CHR 0x80],
      [CHR 0xE2, CHR 0x80, CHR 0x80], [CHR 0xE2, CHR 0x80, CHR 0x81],
      [CHR 0xE2, CHR 0x80, CHR 0x82], [CHR 0xE2, CHR 0x80, CHR 0x83],
      [CHR 0xE2, CHR 0x80, CHR 0x84], [CHR 0xE2, CHR 0x80, CHR 0x85],
      [CHR 0xE2, CHR 0x80, CHR 0x86], [CHR 0xE2, CHR 0x80, CHR 0x87],
      [CHR 0xE2, CHR 0x80, CHR 0x88], [CHR 0xE2, CHR 0x80, CHR 0x89],
      [CHR 0xE2, CHR 0x80, CHR 0x8A], [CHR 0xE2, CHR 0x80, CHR 0xA8],
      [CHR 0xE2, CHR 0x80, CHR 0xA9], [CHR 0xE2, CHR 0x80, CHR 0xAF],
      [CHR 0xE2, CHR 0x81, CHR 0x9F], [CHR 0xE3, CHR 0x80, CHR 0x80]]"

function strip_codes :: "string list \<Rightarrow> string \<Rightarrow> string" where
  "strip_codes codes s =
     (case find (\<lambda>c. c \<noteq> [] \<and> starts_with s c) codes of
        None \<Rightarrow> s
      | Some c \<Rightarrow> strip_codes codes (drop (length c) s))"
  by pat_completeness auto
termination
proof (relation "measure (\<lambda>(codes, s). length s)")
  fix codes s c
  assume "find (\<lambda>c. c \<noteq> [] \<and> starts_with s c) codes = Some c"
  then have "c \<noteq> []" and "starts_with s c" by (auto simp: find_Some_iff)
  then have "s \<noteq> []" "0 < length c" by (auto simp: starts_with_def)
  then show "((codes, drop (length c) s), codes, s) \<in> measure (\<lambda>(codes, s). length s)"
    by simp
qed simp

declare strip_codes.simps [simp del]

definition trim_start :: "string \<Rightarrow> string" where
  "trim_start s = strip_codes white_space s"

definition trim_end :: "string \<Rightarrow> string" where
  "trim_end s = rev (strip_codes (map rev white_space) (rev s))"

definition trim :: "string \<Rightarrow> string" where
  "trim s = trim_end (trim_start s)"

definition is_blank :: "string \<Rightarrow> bool" where
  "is_blank s \<longleftrightarrow> trim s = []"

lemma strip_codes_Nil [simp]: "strip_codes codes [] = []"
proof -
  have "find (\<lambda>c. c \<noteq> [] \<and> starts_with [] c) codes = None"
    by (auto simp: find_None_iff starts_with_def)
  then show ?thesis by (simp add: strip_codes.simps)
qed

lemma is_blank_Nil [simp]: "is_blank []"
  by (simp add: is_blank_def trim_def trim_start_def trim_end_def)

lemma strip_codes_id:
  "(\<And>c. c \<in> set codes \<Longrightarrow> c \<noteq> [] \<Longrightarrow> \<not> starts_with s c) \<Longrightarrow> strip_codes codes s = s"
  by (subst strip_codes.simps) (auto split: option.split dest: find_Some_iff')

lemma white_space_heads:
  "c \<in> set white_space \<Longrightarrow> c \<noteq> [] \<and> \<not> is_ascii_alphanumeric (hd c) \<and> \<not> is_ascii_alphanumeric (last c)
     \<and> hd c \<noteq> CHR ''-'' \<and> last c \<noteq> CHR ''-''"
  by (auto simp: white_space_def is_ascii_alphanumeric_def is_ascii_digit_def code_def)

text \<open>A string that starts and ends with an ASCII letter or digit is unchanged by \<open>trim\<close>.\<close>

lemma trim_id:
  assumes "s \<noteq> []" "is_ascii_alphanumeric (hd s)" "is_ascii_alphanumeric (last s)"
  shows "trim s = s"
proof -
  have 1: "trim_start s = s"
    unfolding trim_start_def
  proof (rule strip_codes_id)
    fix c assume c: "c \<in> set white_space" "c \<noteq> []"
    obtain x c' where "c = x # c'" using c(2) by (cases c) auto
    with white_space_heads [OF c(1)] assms(2) show "\<not> starts_with s c"
      by (cases s) (auto simp: starts_with_iff)
  qed
  have 2: "strip_codes (map rev white_space) (rev s) = rev s"
  proof (rule strip_codes_id)
    fix c assume c: "c \<in> set (map rev white_space)" "c \<noteq> []"
    then obtain d where d: "d \<in> set white_space" "c = rev d" by auto
    then have "hd c = last d" using c(2) by (simp add: hd_rev)
    with white_space_heads [OF d(1)] have "\<not> is_ascii_alphanumeric (hd c)" by simp
    moreover have "is_ascii_alphanumeric (hd (rev s))" using assms by (simp add: hd_rev)
    ultimately show "\<not> starts_with (rev s) c"
      using c(2) by (cases c) (auto simp: starts_with_iff)
  qed
  show ?thesis by (simp add: trim_def trim_end_def 1 2)
qed

lemma not_blank: "s \<noteq> [] \<Longrightarrow> is_ascii_alphanumeric (hd s) \<Longrightarrow> is_ascii_alphanumeric (last s) \<Longrightarrow> \<not> is_blank s"
  by (simp add: is_blank_def trim_id)

section \<open>Decimal numerals\<close>

definition digit_char :: "nat \<Rightarrow> char" where
  "digit_char d = char_of (48 + d)"

fun nat_to_string :: "nat \<Rightarrow> string" where
  "nat_to_string n =
     (if n < 10 then [digit_char n] else nat_to_string (n div 10) @ [digit_char (n mod 10)])"

declare nat_to_string.simps [simp del]

definition decimal_value :: "string \<Rightarrow> nat" where
  "decimal_value s = foldl (\<lambda>v c. 10 * v + (code c - 48)) 0 s"

lemma code_digit_char: "d < 10 \<Longrightarrow> code (digit_char d) = 48 + d"
  by (simp add: code_def digit_char_def)

lemma decimal_value_snoc: "decimal_value (s @ [c]) = 10 * decimal_value s + (code c - 48)"
  by (simp add: decimal_value_def)

lemma decimal_value_nat_to_string: "decimal_value (nat_to_string n) = n"
proof (induction n rule: nat_to_string.induct)
  case (1 n)
  show ?case
  proof (cases "n < 10")
    case True
    then show ?thesis
      by (subst nat_to_string.simps) (simp add: decimal_value_def code_digit_char)
  next
    case False
    with 1 show ?thesis
      by (subst nat_to_string.simps) (simp add: decimal_value_snoc code_digit_char)
  qed
qed

lemma nat_to_string_inject [simp]: "nat_to_string m = nat_to_string n \<longleftrightarrow> m = n"
  by (metis decimal_value_nat_to_string)

lemma nat_to_string_digits: "c \<in> set (nat_to_string n) \<Longrightarrow> is_ascii_digit c"
proof (induction n rule: nat_to_string.induct)
  case (1 n)
  show ?case
  proof (cases "n < 10")
    case True
    with 1(2) show ?thesis
      by (subst (asm) nat_to_string.simps) (simp add: is_ascii_digit_def code_digit_char)
  next
    case False
    with 1(2) have "c \<in> set (nat_to_string (n div 10)) \<or> c = digit_char (n mod 10)"
      by (subst (asm) nat_to_string.simps) auto
    with 1(1) False show ?thesis by (auto simp: is_ascii_digit_def code_digit_char)
  qed
qed

section \<open>IP addresses\<close>

text \<open>
  \<open>IpAddr::from_str\<close>, after the parser of the standard library: an IPv4 address is four
  decimal octets without leading zeros; an IPv6 address is at most eight groups of one to four
  hexadecimal digits with at most one elision, and may end in an embedded IPv4 address.
\<close>

definition read_octet :: "string \<Rightarrow> string option" where
  "read_octet s =
     (let r = takeWhile is_ascii_digit s in
      if 1 \<le> length r \<and> length r \<le> 3 \<and> (length r = 1 \<or> hd r \<noteq> CHR ''0'')
         \<and> decimal_value r \<le> 255
      then Some (drop (length r) s) else None)"

definition read_char :: "char \<Rightarrow> string \<Rightarrow> string option" where
  "read_char c s = strip_prefix s [c]"

definition read_ipv4_addr :: "string \<Rightarrow> string option" where
  "read_ipv4_addr s =
     Option.bind (read_octet s) (\<lambda>s. Option.bind (read_char CHR ''.'' s) (\<lambda>s.
     Option.bind (read_octet s) (\<lambda>s. Option.bind (read_char CHR ''.'' s) (\<lambda>s.
     Option.bind (read_octet s) (\<lambda>s. Option.bind (read_char CHR ''.'' s) (\<lambda>s.
     read_octet s))))))"

definition read_hex_group :: "string \<Rightarrow> string option" where
  "read_hex_group s =
     (let r = takeWhile is_ascii_hexdigit s in
      if 1 \<le> length r \<and> length r \<le> 4 then Some (drop (length r) s) else None)"

definition read_separator :: "nat \<Rightarrow> (string \<Rightarrow> string option) \<Rightarrow> string \<Rightarrow> string option" where
  "read_separator i f s = (if i = 0 then f s else Option.bind (read_char CHR '':'' s) f)"

text \<open>\<open>read_groups k i s\<close>: \<open>i\<close> groups are read and \<open>k\<close> may follow. The result is the number
  of groups, whether an IPv4 address ended the list, and the rest of the input.\<close>

fun read_groups :: "nat \<Rightarrow> nat \<Rightarrow> string \<Rightarrow> nat \<times> bool \<times> string" where
  "read_groups 0 i s = (i, False, s)"
| "read_groups (Suc k) i s =
     (case (if 0 < k then read_separator i read_ipv4_addr s else None) of
        Some s' \<Rightarrow> (i + 2, True, s')
      | None \<Rightarrow>
          (case read_separator i read_hex_group s of
             Some s' \<Rightarrow> read_groups k (Suc i) s'
           | None \<Rightarrow> (i, False, s)))"

definition read_ipv6_addr :: "string \<Rightarrow> string option" where
  "read_ipv6_addr s =
     (case read_groups 8 0 s of (n, v4, s') \<Rightarrow>
        if n = 8 then Some s'
        else if v4 then None
        else Option.bind (read_char CHR '':'' s') (\<lambda>s. Option.bind (read_char CHR '':'' s) (\<lambda>s.
          Some (snd (snd (read_groups (8 - (n + 1)) 0 s))))))"

definition is_ip_addr :: "string \<Rightarrow> bool" where
  "is_ip_addr s =
     (case read_ipv4_addr s of
        Some r \<Rightarrow> r = []
      | None \<Rightarrow> (case read_ipv6_addr s of Some r \<Rightarrow> r = [] | None \<Rightarrow> False))"

text \<open>Without a colon there is no IPv6 address.\<close>

lemma read_char_Some: "read_char c s = Some r \<Longrightarrow> s = c # r"
  by (simp add: read_char_def strip_prefix_Some_iff)

lemma read_octet_set: "read_octet s = Some r \<Longrightarrow> set r \<subseteq> set s"
  by (auto simp: read_octet_def Let_def split: if_splits dest: in_set_dropD)

lemma read_hex_group_set: "read_hex_group s = Some r \<Longrightarrow> set r \<subseteq> set s"
  by (auto simp: read_hex_group_def Let_def split: if_splits dest: in_set_dropD)

lemma read_ipv4_addr_set: "read_ipv4_addr s = Some r \<Longrightarrow> set r \<subseteq> set s"
  by (fastforce simp: read_ipv4_addr_def bind_eq_Some_conv dest!: read_octet_set read_char_Some)

lemma read_groups_later: "CHR '':'' \<notin> set s \<Longrightarrow> 0 < i \<Longrightarrow> read_groups k i s = (i, False, s)"
  by (cases k) (auto simp: read_separator_def bind_eq_Some_conv dest: read_char_Some
      split: option.splits)

lemma read_groups_no_colon:
  assumes "CHR '':'' \<notin> set s" and "read_groups k 0 s = (n, v4, r)"
  shows "n \<le> 2 \<and> set r \<subseteq> set s"
proof (cases k)
  case (Suc k')
  have hex: "read_groups k' (Suc 0) s' = (Suc 0, False, s')" if "read_hex_group s = Some s'" for s'
    using that assms(1) by (intro read_groups_later) (auto dest: read_hex_group_set)
  from assms(2) Suc show ?thesis
    by (auto simp: read_separator_def hex split: option.splits if_splits
        dest: read_ipv4_addr_set read_hex_group_set)
qed (use assms in simp)

lemma read_ipv6_addr_colon:
  assumes "read_ipv6_addr s = Some r"
  shows "CHR '':'' \<in> set s"
proof (rule ccontr)
  assume no: "CHR '':'' \<notin> set s"
  obtain n v4 s' where g: "read_groups 8 0 s = (n, v4, s')" by (cases "read_groups 8 0 s") auto
  from read_groups_no_colon [OF no g] have "n \<noteq> 8" "set s' \<subseteq> set s" by auto
  with g assms obtain t where "read_char CHR '':'' s' = Some t"
    by (auto simp: read_ipv6_addr_def bind_eq_Some_conv split: if_splits)
  with no \<open>set s' \<subseteq> set s\<close> show False by (auto dest: read_char_Some)
qed

section \<open>Ordered maps\<close>

text \<open>\<open>BTreeMap\<close>: an association list sorted by key.\<close>

type_synonym ('k, 'v) btree_map = "('k \<times> 'v) list"

definition btree_get :: "('k, 'v) btree_map \<Rightarrow> 'k \<Rightarrow> 'v option" where
  "btree_get m k = map_of m k"

fun btree_insert :: "'k::linorder \<Rightarrow> 'v \<Rightarrow> ('k, 'v) btree_map \<Rightarrow> ('k, 'v) btree_map" where
  "btree_insert k v [] = [(k, v)]"
| "btree_insert k v ((k', v') # m) =
     (if k = k' then (k, v) # m
      else if k < k' then (k, v) # (k', v') # m
      else (k', v') # btree_insert k v m)"

definition btree_remove :: "'k \<Rightarrow> ('k, 'v) btree_map \<Rightarrow> ('k, 'v) btree_map" where
  "btree_remove k m = filter (\<lambda>(k', _). k' \<noteq> k) m"

lemma btree_get_insert [simp]:
  "btree_get (btree_insert k v m) k' = (if k' = k then Some v else btree_get m k')"
  by (induction m) (auto simp: btree_get_def)

lemma btree_get_remove [simp]:
  "btree_get (btree_remove k m) k' = (if k' = k then None else btree_get m k')"
  by (induction m) (auto simp: btree_get_def btree_remove_def)

lemma btree_get_Nil [simp]: "btree_get [] k = None"
  by (simp add: btree_get_def)

text \<open>Well-formed maps: sorted, hence without duplicate keys. The operations keep them so.\<close>

definition sorted_map :: "('k::linorder, 'v) btree_map \<Rightarrow> bool" where
  "sorted_map m \<longleftrightarrow> sorted_wrt (<) (map fst m)"

lemma fst_btree_insert: "fst ` set (btree_insert k v m) = insert k (fst ` set m)"
  by (induction k v m rule: btree_insert.induct) (simp_all add: insert_commute)

lemma sorted_map_insert: "sorted_map m \<Longrightarrow> sorted_map (btree_insert k v m)"
proof (induction m)
  case (Cons kv m)
  obtain k' v' where kv: "kv = (k', v')" by (cases kv)
  with Cons.prems have lt: "\<forall>x\<in>fst ` set m. k' < x" and m: "sorted_map m"
    by (auto simp: sorted_map_def)
  consider "k = k'" | "k < k'" | "k' < k" by (rule linorder_cases)
  then show ?case
  proof cases
    case 3
    then have "\<forall>x\<in>fst ` set (btree_insert k v m). k' < x" using lt by (auto simp: fst_btree_insert)
    then have "sorted_map ((k', v') # btree_insert k v m)"
      using Cons.IH [OF m] by (auto simp: sorted_map_def)
    moreover have "k \<noteq> k'" "\<not> k < k'" using 3 by auto
    ultimately show ?thesis using kv by simp
  qed (use lt m kv in \<open>auto simp: sorted_map_def\<close>)
qed (simp add: sorted_map_def)

lemma sorted_map_remove: "sorted_map m \<Longrightarrow> sorted_map (btree_remove k m)"
  by (induction m) (auto simp: sorted_map_def btree_remove_def)

text \<open>Two sorted maps with the same lookups are the same map, so removing a key and comparing
  compares everything but that key.\<close>

lemma sorted_map_ext:
  assumes "sorted_map m" "sorted_map n" "\<And>k. btree_get m k = btree_get n k"
  shows "m = n"
  using assms
proof (induction m arbitrary: n)
  case Nil
  then have "btree_get n k = None" for k by (metis btree_get_Nil)
  from this [of "fst (hd n)"] show ?case by (cases n) (auto simp: btree_get_def)
next
  case (Cons kv m)
  obtain k v where kv: "kv = (k, v)" by (cases kv)
  have get: "btree_get ((k, v) # m) x = btree_get n x" for x using Cons.prems(3) kv by simp
  obtain k' v' n' where n: "n = (k', v') # n'"
    using get [of k] by (cases n) (auto simp: btree_get_def)
  have lt: "\<forall>x\<in>fst ` set m. k < x" "\<forall>x\<in>fst ` set n'. k' < x"
    using Cons.prems kv n by (auto simp: sorted_map_def)
  have "k = k'"
  proof (rule ccontr)
    assume "k \<noteq> k'"
    with get [of k] get [of k'] n have "map_of n' k = Some v" "map_of m k' = Some v'"
      by (simp_all add: btree_get_def)
    then have "k' < k" "k < k'" using lt by (auto dest!: map_of_SomeD)
    then show False by simp
  qed
  have notin: "map_of m k = None" "map_of n' k = None"
    using lt \<open>k = k'\<close> by (auto simp: map_of_eq_None_iff)
  have "btree_get m x = btree_get n' x" for x
    using get [of x] n notin \<open>k = k'\<close> by (cases "x = k") (auto simp: btree_get_def)
  then have "m = n'" using Cons.IH [of n'] Cons.prems kv n by (auto simp: sorted_map_def)
  moreover have "v = v'" using get [of k] n \<open>k = k'\<close> by (simp add: btree_get_def)
  ultimately show ?case using kv n \<open>k = k'\<close> by simp
qed

end
