(* ===== verification/Json.thy ===== *)
theory Json
  imports Rust_Std
begin

text \<open>
  \<open>serde_json::Value\<close>. An object is the crate's default map, a \<open>BTreeMap\<close>: an association list
  kept sorted by key, so that equality of values is equality of terms.
\<close>

datatype json_number = PosInt u64 | NegInt int | Float64 "64 word"

datatype json =
    JNull
  | JBool bool
  | JNumber json_number
  | JString string
  | JArray "json list"
  | JObject "(string \<times> json) list"

type_synonym json_map = "(string, json) btree_map"

definition contains_key :: "json_map \<Rightarrow> string \<Rightarrow> bool" where
  "contains_key m k \<longleftrightarrow> btree_get m k \<noteq> None"

definition json_object :: "(string \<times> json) list \<Rightarrow> json" where
  "json_object kvs = JObject (fold (\<lambda>(k, v). btree_insert k v) kvs [])"

fun as_object :: "json \<Rightarrow> json_map option" where
  "as_object (JObject m) = Some m"
| "as_object _ = None"

fun as_array :: "json \<Rightarrow> json list option" where
  "as_array (JArray xs) = Some xs"
| "as_array _ = None"

fun as_str :: "json \<Rightarrow> string option" where
  "as_str (JString s) = Some s"
| "as_str _ = None"

definition json_get :: "json \<Rightarrow> string \<Rightarrow> json option" where
  "json_get v k = Option.bind (as_object v) (\<lambda>m. btree_get m k)"

definition get_str :: "json \<Rightarrow> string \<Rightarrow> string option" where
  "get_str v k = Option.bind (json_get v k) as_str"

lemma json_get_JObject [simp]: "json_get (JObject m) k = btree_get m k"
  by (simp add: json_get_def)

end
