(* ===== verification/External.thy ===== *)
theory External
  imports Json
begin

text \<open>
  The code outside the repository that the crate calls: the \<open>anp\<close> crate, the cryptographic
  crates, \<open>base64\<close>, \<open>bs58\<close>, the JSON canonicaliser and the serialisation of a type of \<open>anp\<close>.
  They are the fields of one record, a parameter of every definition that uses them; nothing is
  assumed of them here. An operation that returns a Rust \<open>Result\<close> whose error the crate discards
  is modelled with \<open>None\<close> for the error.
\<close>

section \<open>Types of the anp crate\<close>

text \<open>\<open>PublicKeyMaterial\<close>; the crate tells apart only its two Curve25519 variants.\<close>

datatype public_key = Ed25519 bytes | X25519 bytes | OtherKey bytes

record device_manifest_entry =
  dm_device_id :: string
  dm_signing_key_id :: string
  dm_e2ee_key_id :: string
  dm_profiles :: "string list"

record device_manifest =
  dm_type :: string
  dm_devices :: "device_manifest_entry list"

datatype did_key_role =
    Anp_RootControl | Anp_DeviceSigning | Anp_RequestSigning | Anp_E2eeSigning | Anp_E2eeAgreement

datatype verification_relationship = Authentication | AssertionMethod | KeyAgreement

record supplied_did_key =
  sk_fragment :: string
  sk_role :: did_key_role
  sk_public_key :: public_key
  sk_relationships :: "verification_relationship list"

record e1_document_options =
  eo_port :: "16 word option"
  eo_path_segments :: "string list"
  eo_agent_description_url :: "string option"
  eo_services :: "json list"
  eo_root_key :: supplied_did_key
  eo_additional_keys :: "supplied_did_key list"

record proof_options =
  po_proof_purpose :: "string option"
  po_proof_type :: "string option"
  po_cryptosuite :: "string option"
  po_created :: "string option"
  po_domain :: "string option"
  po_challenge :: "string option"

text \<open>A prepared proof: what the completion needs, and the input to sign.\<close>

record prepared_proof =
  pp_state :: json
  signing_input :: bytes

record http_signature_options =
  ho_keyid :: "string option"
  ho_nonce :: "string option"
  ho_created :: "int option"
  ho_expires :: "int option"
  ho_covered_components :: "string list option"

text \<open>The options and the result of an origin proof.\<close>

record origin_proof_options =
  oo_created :: "int option"
  oo_expires :: "int option"
  oo_nonce :: "string option"
  oo_label :: "string option"

record origin_proof =
  op_content_digest :: string
  op_signature_input :: string
  op_signature :: string

section \<open>The external functions\<close>

text \<open>\<open>serde_error\<close> is the text of a parse error of \<open>serde_json\<close>.\<close>

record ext =
  build_did_web_resolution_url :: "string \<Rightarrow> string option"
  extract_public_key :: "json \<Rightarrow> public_key option"
  find_verification_method :: "json \<Rightarrow> string \<Rightarrow> json option"
  validate_device_manifest :: "json \<Rightarrow> device_manifest option option"
  validate_did_document_method :: "json \<Rightarrow> bool"
  validate_did_document_binding :: "json \<Rightarrow> bool"
  is_authentication_authorized :: "json \<Rightarrow> string \<Rightarrow> bool"
  is_assertion_method_authorized :: "json \<Rightarrow> string \<Rightarrow> bool"
  build_unsigned_e1_did_document :: "string \<Rightarrow> e1_document_options \<Rightarrow> json option"
  prepare_w3c_proof :: "json \<Rightarrow> public_key \<Rightarrow> string \<Rightarrow> proof_options \<Rightarrow> prepared_proof option"
  complete_w3c_proof :: "prepared_proof \<Rightarrow> bytes \<Rightarrow> json option"
  prepare_object_proof ::
    "json \<Rightarrow> public_key \<Rightarrow> string \<Rightarrow> string \<Rightarrow> string option \<Rightarrow> prepared_proof option"
  complete_object_proof :: "prepared_proof \<Rightarrow> bytes \<Rightarrow> json option"
  prepare_rfc9421_origin_proof ::
    "string \<Rightarrow> json \<Rightarrow> json \<Rightarrow> public_key \<Rightarrow> string \<Rightarrow> origin_proof_options \<Rightarrow> prepared_proof option"
  complete_rfc9421_origin_proof :: "prepared_proof \<Rightarrow> bytes \<Rightarrow> origin_proof option"
  prepare_legacy_did_wba_auth_header ::
    "json \<Rightarrow> string \<Rightarrow> string \<Rightarrow> string \<Rightarrow> prepared_proof option"
  complete_legacy_did_wba_auth_header :: "prepared_proof \<Rightarrow> bytes \<Rightarrow> string option"
  prepare_http_signature_headers ::
    "json \<Rightarrow> string \<Rightarrow> string \<Rightarrow> (string \<times> string) list option \<Rightarrow> bytes option
       \<Rightarrow> http_signature_options \<Rightarrow> prepared_proof option"
  complete_http_signature_headers :: "prepared_proof \<Rightarrow> bytes \<Rightarrow> (string \<times> string) list option"
  verify_message :: "public_key \<Rightarrow> bytes \<Rightarrow> bytes \<Rightarrow> bool"
  sign_message :: "bytes \<Rightarrow> bytes \<Rightarrow> bytes option"
  device_manifest_type :: string
  proof_type_data_integrity :: string
  cryptosuite_eddsa_jcs_2022 :: string
  device_manifest_from_value :: "json \<Rightarrow> device_manifest option"
  device_manifest_to_value :: "device_manifest \<Rightarrow> json option"
  canonicalizer_to_vec :: "json \<Rightarrow> (string, bytes) result"
  sha256 :: "bytes \<Rightarrow> bytes"
  b64u_encode :: "bytes \<Rightarrow> string"
  b64u_decode :: "string \<Rightarrow> bytes option"
  bs58_encode :: "bytes \<Rightarrow> string"
  ed25519_generate :: "bytes \<Rightarrow> bytes"
  x25519_random_secret :: "bytes \<Rightarrow> bytes"
  ed25519_verifying_key :: "bytes \<Rightarrow> bytes"
  ed25519_sign :: "bytes \<Rightarrow> bytes \<Rightarrow> bytes"
  x25519_public_key :: "bytes \<Rightarrow> bytes"
  x25519_diffie_hellman :: "bytes \<Rightarrow> bytes \<Rightarrow> bytes"
  hkdf_sha256_expand :: "bytes \<Rightarrow> bytes \<Rightarrow> bytes \<Rightarrow> bytes option"
  chacha20poly1305_encrypt :: "bytes \<Rightarrow> bytes \<Rightarrow> bytes \<Rightarrow> bytes \<Rightarrow> bytes option"
  chacha20poly1305_decrypt :: "bytes \<Rightarrow> bytes \<Rightarrow> bytes \<Rightarrow> bytes \<Rightarrow> bytes option"
  parse_rfc3339 :: "string \<Rightarrow> int option"
  format_rfc3339 :: "int \<Rightarrow> string"
  format_rfc3339_secs :: "int \<Rightarrow> string"
  serde_error :: string

end
