(* ===== verification/Error.thy ===== *)
theory Error
  imports Prelude
begin

text \<open>\<open>error.rs\<close>: the crate's error type.\<close>

datatype did_error =
    InvalidDomain
  | EmptyPath
  | InvalidPathSegment
  | InvalidKidFragment
  | InvalidManagedRootCount
  | ExternalRootControl
  | MissingManagedRequestSigning
  | ForeignKid
  | DuplicateKid
  | InvalidPublicKey
  | InvalidService
  | InvalidExtension
  | StoreNotFound
  | ProviderUnavailable
  | RootKeyMismatch
  | CorruptRecord
  | SecretNotFound
  | IdentityNotFound
  | DuplicateIdentity
  | KeyNotFound
  | ExternalKeyOperation
  | KeyRoleViolation
  | KeyNotUsable
  | KeyMaterialErased
  | InvalidRootTransfer
  | RootTransferExpired
  | RootCapabilityUnavailable
  | PendingRootTransferExists
  | InvalidPeerKey
  | VerificationFailed
  | PendingRevisionExists
  | PendingRevisionNotFound
  | InvalidPublicationState
  | InvalidIdentity
  | Conflict
  | Io string
  | Serialization string
  | Crypto
  | UnsupportedOperation

type_synonym 'a did_result = "(did_error, 'a) result"

end
