(* ===== verification/Input.thy ===== *)
theory Input
  imports External Error
begin

text \<open>
  \<open>input.rs\<close>: the specification from which an identity is created, its validation, and the
  canonical form of key identifiers.
\<close>

section \<open>Data\<close>

datatype did_profile = E1 | Web

datatype key_role = RootControl | DeviceSigning | RequestSigning | E2eeSigning | E2eeAgreement

text \<open>The derived order of \<open>KeyRole\<close> follows the order of the variants.\<close>

fun key_role_rank :: "key_role \<Rightarrow> nat" where
  "key_role_rank RootControl = 0"
| "key_role_rank DeviceSigning = 1"
| "key_role_rank RequestSigning = 2"
| "key_role_rank E2eeSigning = 3"
| "key_role_rank E2eeAgreement = 4"

lemma key_role_rank_inject: "key_role_rank a = key_role_rank b \<longleftrightarrow> a = b"
  by (cases a; cases b) simp_all

instantiation key_role :: linorder
begin

definition less_eq_key_role :: "key_role \<Rightarrow> key_role \<Rightarrow> bool" where
  "less_eq_key_role a b \<longleftrightarrow> key_role_rank a \<le> key_role_rank b"

definition less_key_role :: "key_role \<Rightarrow> key_role \<Rightarrow> bool" where
  "less_key_role a b \<longleftrightarrow> key_role_rank a < key_role_rank b"

instance
  by standard (auto simp: less_eq_key_role_def less_key_role_def key_role_rank_inject)

end

record capabilities =
  did_wba :: bool

record managed_key_spec =
  mk_fragment :: string
  mk_role :: key_role

record public_okp_jwk =
  jwk_kty :: string
  jwk_crv :: string
  jwk_x :: string

datatype external_public_key_material = Multibase string | Jwk public_okp_jwk

record external_public_key_spec =
  ek_kid :: string
  ek_role :: key_role
  ek_material :: external_public_key_material

record service_spec =
  sv_id :: string
  sv_type :: string
  sv_endpoint :: string
  sv_did :: "string option"
  sv_profiles :: "string list"
  sv_security_profiles :: "string list"

record device_manifest_entry_spec =
  de_device_id :: string
  de_signing_key_id :: string
  de_e2ee_key_id :: string
  de_profiles :: "string list"

datatype did_extension_spec = DeviceManifestExt "device_manifest_entry_spec list"

record did_create_spec =
  cs_profile :: did_profile
  cs_domain :: string
  cs_port :: "16 word option"
  cs_path_segments :: "string list"
  cs_capabilities :: capabilities
  cs_managed_keys :: "managed_key_spec list"
  cs_external_keys :: "external_public_key_spec list"
  cs_services :: "service_spec list"
  cs_agent_description_url :: "string option"
  cs_extensions :: "did_extension_spec list"

section \<open>Profiles\<close>

definition for_did :: "ext \<Rightarrow> string \<Rightarrow> did_profile did_result" where
  "for_did X did =
     (if starts_with did ''did:wba:'' then Inr E1
      else if starts_with did ''did:web:'' \<and> build_did_web_resolution_url X did \<noteq> None then Inr Web
      else Inl InvalidIdentity)"

definition supports_root_control :: "did_profile \<Rightarrow> bool" where
  "supports_root_control p \<longleftrightarrow> p = E1"

section \<open>Fragments, domains and key identifiers\<close>

definition MAX_DOMAIN_LEN :: nat where "MAX_DOMAIN_LEN = 253"
definition MAX_PATH_SEGMENT_LEN :: nat where "MAX_PATH_SEGMENT_LEN = 128"
definition MAX_KID_FRAGMENT_LEN :: nat where "MAX_KID_FRAGMENT_LEN = 128"
definition MAX_SERVICE_VALUE_LEN :: nat where "MAX_SERVICE_VALUE_LEN = 2048"

lemmas max_len_defs =
  MAX_DOMAIN_LEN_def MAX_PATH_SEGMENT_LEN_def MAX_KID_FRAGMENT_LEN_def MAX_SERVICE_VALUE_LEN_def

definition is_identifier_byte :: "char \<Rightarrow> bool" where
  "is_identifier_byte b \<longleftrightarrow>
     is_ascii_alphanumeric b \<or> b \<in> {CHR ''-'', CHR ''_'', CHR ''.'', CHR ''~''}"

definition valid_label :: "string \<Rightarrow> bool" where
  "valid_label label \<longleftrightarrow>
     label \<noteq> [] \<and> length label \<le> 63
     \<and> list_all (\<lambda>b. is_ascii_alphanumeric b \<or> b = CHR ''-'') label
     \<and> is_ascii_alphanumeric (hd label) \<and> is_ascii_alphanumeric (last label)"

definition validate_domain :: "string \<Rightarrow> unit did_result" where
  "validate_domain domain =
     (if domain = [] \<or> length domain > MAX_DOMAIN_LEN \<or> trim domain \<noteq> domain
         \<or> is_ip_addr domain \<or> \<not> list_all valid_label (split_on CHR ''.'' domain)
      then Inl InvalidDomain else Inr ())"

definition validate_path_segment :: "string \<Rightarrow> unit did_result" where
  "validate_path_segment segment =
     (if segment = [] \<or> length segment > MAX_PATH_SEGMENT_LEN \<or> \<not> list_all is_identifier_byte segment
      then Inl InvalidPathSegment else Inr ())"

definition validate_fragment :: "string \<Rightarrow> unit did_result" where
  "validate_fragment fragment =
     (if fragment = [] \<or> length fragment > MAX_KID_FRAGMENT_LEN
         \<or> \<not> list_all is_identifier_byte fragment
      then Inl InvalidKidFragment else Inr ())"

definition canonicalize_kid :: "string \<Rightarrow> string \<Rightarrow> string did_result" where
  "canonicalize_kid did kid =
     (let pre = did @ ''#'' in
      rbind
        (case strip_prefix kid ''#'' of
           Some fragment \<Rightarrow> Inr fragment
         | None \<Rightarrow>
             (case strip_prefix kid pre of
                Some fragment \<Rightarrow> Inr fragment
              | None \<Rightarrow>
                  if CHR '':'' \<notin> set kid \<and> CHR ''#'' \<notin> set kid then Inr kid
                  else Inl ForeignKid))
        (\<lambda>fragment. rbind (validate_fragment fragment) (\<lambda>_. Inr (pre @ fragment))))"

text \<open>The loop over a \<open>BTreeSet\<close> of the canonical identifiers seen so far.\<close>

fun unique_kids_loop :: "string \<Rightarrow> string set \<Rightarrow> string list \<Rightarrow> unit did_result" where
  "unique_kids_loop did canonical [] = Inr ()"
| "unique_kids_loop did canonical (kid # kids) =
     rbind (canonicalize_kid did kid) (\<lambda>c.
       if c \<in> canonical then Inl DuplicateKid
       else unique_kids_loop did (insert c canonical) kids)"

definition validate_unique_kids :: "string \<Rightarrow> string list \<Rightarrow> unit did_result" where
  "validate_unique_kids did kids = unique_kids_loop did {} kids"

section \<open>Keys, services and extensions\<close>

definition external_method_type :: "key_role \<Rightarrow> string did_result" where
  "external_method_type r =
     (case r of
        RootControl \<Rightarrow> Inl ExternalRootControl
      | E2eeAgreement \<Rightarrow> Inr ''X25519KeyAgreementKey2019''
      | _ \<Rightarrow> Inr ''Multikey'')"

definition jwk_json :: "public_okp_jwk \<Rightarrow> json" where
  "jwk_json j = json_object
     [(''kty'', JString (jwk_kty j)), (''crv'', JString (jwk_crv j)), (''x'', JString (jwk_x j))]"

fun key_fits_role :: "key_role \<Rightarrow> public_key \<Rightarrow> bool" where
  "key_fits_role DeviceSigning (Ed25519 _) = True"
| "key_fits_role RequestSigning (Ed25519 _) = True"
| "key_fits_role E2eeSigning (Ed25519 _) = True"
| "key_fits_role E2eeAgreement (X25519 _) = True"
| "key_fits_role _ _ = False"

definition parse_public_key :: "ext \<Rightarrow> external_public_key_spec \<Rightarrow> public_key did_result" where
  "parse_public_key X k =
     (if ek_role k = RootControl then Inl ExternalRootControl
      else rbind (external_method_type (ek_role k)) (\<lambda>method_type.
        let method =
          (case ek_material k of
             Multibase v \<Rightarrow> json_object
               [(''id'', JString ''#external''), (''type'', JString method_type),
                (''publicKeyMultibase'', JString v)]
           | Jwk j \<Rightarrow> json_object
               [(''id'', JString ''#external''), (''type'', JString ''JsonWebKey2020''),
                (''publicKeyJwk'', jwk_json j)])
        in rbind (ok_or (extract_public_key X method) InvalidPublicKey) (\<lambda>key.
          if key_fits_role (ek_role k) key then Inr key else Inl InvalidPublicKey)))"

definition validate_service :: "service_spec \<Rightarrow> unit did_result" where
  "validate_service s =
     (let fragment = (case strip_prefix (sv_id s) ''#'' of Some f \<Rightarrow> f | None \<Rightarrow> sv_id s) in
      if starts_with fragment ''#'' then Inl InvalidService
      else rbind (map_err (\<lambda>_. InvalidService) (validate_fragment fragment)) (\<lambda>_.
        if is_blank (sv_type s) \<or> is_blank (sv_endpoint s)
           \<or> length (sv_type s) > MAX_SERVICE_VALUE_LEN
           \<or> length (sv_endpoint s) > MAX_SERVICE_VALUE_LEN
        then Inl InvalidService
        else if (case sv_did s of None \<Rightarrow> False
                 | Some v \<Rightarrow> is_blank v \<or> trim v \<noteq> v \<or> length v > MAX_SERVICE_VALUE_LEN)
        then Inl InvalidService
        else Inr ()))"

definition device_entry_invalid :: "device_manifest_entry_spec \<Rightarrow> bool" where
  "device_entry_invalid d \<longleftrightarrow>
     is_blank (de_device_id d) \<or> length (de_device_id d) > MAX_KID_FRAGMENT_LEN
     \<or> is_blank (de_signing_key_id d) \<or> length (de_signing_key_id d) > MAX_SERVICE_VALUE_LEN
     \<or> is_blank (de_e2ee_key_id d) \<or> length (de_e2ee_key_id d) > MAX_SERVICE_VALUE_LEN
     \<or> de_profiles d = [] \<or> list_ex is_blank (de_profiles d)"

fun validate_extension :: "did_extension_spec \<Rightarrow> unit did_result" where
  "validate_extension (DeviceManifestExt devices) =
     (if devices = [] then Inl InvalidExtension
      else rforeach (\<lambda>d. if device_entry_invalid d then Inl InvalidExtension else Inr ()) devices)"

section \<open>The creation specification\<close>

fun unique_fragments_loop :: "string set \<Rightarrow> managed_key_spec list \<Rightarrow> unit did_result" where
  "unique_fragments_loop seen [] = Inr ()"
| "unique_fragments_loop seen (k # ks) =
     rbind (validate_fragment (mk_fragment k)) (\<lambda>_.
       if mk_fragment k \<in> seen then Inl DuplicateKid
       else unique_fragments_loop (insert (mk_fragment k) seen) ks)"

definition root_count :: "managed_key_spec list \<Rightarrow> nat" where
  "root_count ks = length (filter (\<lambda>k. mk_role k = RootControl) ks)"

definition validate_spec :: "ext \<Rightarrow> did_create_spec \<Rightarrow> unit did_result" where
  "validate_spec X spec =
     rbind (validate_domain (cs_domain spec)) (\<lambda>_.
     rbind (ensure (\<not> (cs_profile spec = E1 \<and> cs_path_segments spec = [])) EmptyPath) (\<lambda>_.
     rbind (rforeach validate_path_segment (cs_path_segments spec)) (\<lambda>_.
     rbind (ensure (root_count (cs_managed_keys spec)
                     = of_bool (supports_root_control (cs_profile spec)))
             InvalidManagedRootCount) (\<lambda>_.
     rbind (ensure (\<not> list_ex (\<lambda>k. ek_role k = RootControl) (cs_external_keys spec))
             ExternalRootControl) (\<lambda>_.
     rbind (ensure (\<not> (did_wba (cs_capabilities spec)
                     \<and> \<not> list_ex (\<lambda>k. mk_role k = DeviceSigning \<or> mk_role k = RequestSigning)
                            (cs_managed_keys spec)))
             MissingManagedRequestSigning) (\<lambda>_.
     rbind (unique_fragments_loop {} (cs_managed_keys spec)) (\<lambda>_.
     rbind (rforeach (\<lambda>k. rbind (parse_public_key X k) (\<lambda>_. Inr ())) (cs_external_keys spec)) (\<lambda>_.
     rbind (rforeach validate_service (cs_services spec)) (\<lambda>_.
     rbind (ensure (\<not> (case cs_agent_description_url spec of None \<Rightarrow> False
                     | Some v \<Rightarrow> is_blank v \<or> length v > MAX_SERVICE_VALUE_LEN))
             InvalidService) (\<lambda>_.
     rforeach validate_extension (cs_extensions spec)))))))))))"

definition validate_for_did :: "ext \<Rightarrow> did_create_spec \<Rightarrow> string \<Rightarrow> unit did_result" where
  "validate_for_did X spec did =
     rbind (validate_spec X spec) (\<lambda>_.
       validate_unique_kids did
         (map mk_fragment (cs_managed_keys spec) @ map ek_kid (cs_external_keys spec)))"

section \<open>Lemmas: domains\<close>

lemma valid_labels_trim:
  assumes "list_all valid_label (split_on CHR ''.'' d)"
  shows "trim d = d"
proof -
  let ?ls = "split_on CHR ''.'' d"
  have "hd ?ls \<in> set ?ls" "last ?ls \<in> set ?ls" by auto
  with assms have hdl: "valid_label (hd ?ls)" and lastl: "valid_label (last ?ls)"
    by (auto simp: list_all_iff)
  from hd_split_on [of "CHR ''.''" d] hdl have "d \<noteq> []" "is_ascii_alphanumeric (hd d)"
    by (auto simp: valid_label_def)
  moreover from last_split_on [of "CHR ''.''" d] lastl have "is_ascii_alphanumeric (last d)"
    by (auto simp: valid_label_def)
  ultimately show ?thesis by (rule trim_id)
qed

lemma valid_labels_no_colon:
  assumes "list_all valid_label (split_on CHR ''.'' d)"
  shows "CHR '':'' \<notin> set d"
proof
  assume "CHR '':'' \<in> set d"
  with set_split_on [of d "CHR ''.''"] obtain l where
    "l \<in> set (split_on CHR ''.'' d)" "CHR '':'' \<in> set l" by auto
  moreover have "\<not> is_ascii_alphanumeric CHR '':''"
    by (simp add: is_ascii_alphanumeric_def is_ascii_digit_def code_def)
  ultimately show False using assms by (auto simp: list_all_iff valid_label_def)
qed

text \<open>
  The guards of \<open>validate_domain\<close> on emptiness, on surrounding white space and on IPv6 follow
  from the guard on labels: only dotted quads need the test for IP addresses.
\<close>

lemma validate_domain_iff:
  "validate_domain d = Inr () \<longleftrightarrow>
     length d \<le> 253 \<and> (\<forall>l\<in>set (split_on CHR ''.'' d). valid_label l) \<and> read_ipv4_addr d \<noteq> Some []"
proof (cases "list_all valid_label (split_on CHR ''.'' d)")
  case True
  then have "d \<noteq> []" by (auto simp: valid_label_def)
  moreover have "trim d = d" using True by (rule valid_labels_trim)
  moreover have "is_ip_addr d \<longleftrightarrow> read_ipv4_addr d = Some []"
    using valid_labels_no_colon [OF True]
    by (auto simp: is_ip_addr_def split: option.splits dest: read_ipv6_addr_colon)
  ultimately show ?thesis using True
    by (auto simp: validate_domain_def MAX_DOMAIN_LEN_def list_all_iff)
next
  case False
  then show ?thesis by (auto simp: validate_domain_def list_all_iff)
qed

section \<open>Lemmas: key identifiers\<close>

lemma validate_fragment_Inr_iff:
  "validate_fragment f = Inr u \<longleftrightarrow> f \<noteq> [] \<and> length f \<le> 128 \<and> (\<forall>b\<in>set f. is_identifier_byte b)"
  by (auto simp: validate_fragment_def MAX_KID_FRAGMENT_LEN_def list_all_iff)

lemma validate_fragment_Inl: "validate_fragment f = Inl e \<Longrightarrow> e = InvalidKidFragment"
  by (auto simp: validate_fragment_def split: if_splits)

lemma fragment_no_separator:
  assumes "validate_fragment f = Inr ()"
  shows "CHR ''#'' \<notin> set f \<and> CHR '':'' \<notin> set f"
proof -
  have "\<not> is_identifier_byte CHR ''#''" "\<not> is_identifier_byte CHR '':''"
    by (simp_all add: is_identifier_byte_def is_ascii_alphanumeric_def is_ascii_digit_def code_def)
  with assms show ?thesis by (auto simp: validate_fragment_Inr_iff)
qed

lemma canonicalize_kid_Inr:
  assumes "canonicalize_kid did kid = Inr c"
  obtains f where "c = did @ ''#'' @ f" "validate_fragment f = Inr ()"
    "kid = ''#'' @ f \<or> kid = did @ ''#'' @ f \<or> kid = f"
  using assms
  by (auto simp: canonicalize_kid_def Let_def rbind_Inr_iff strip_prefix_Some_iff
      split: option.splits if_splits)

lemma canonicalize_kid_spellings:
  assumes "validate_fragment f = Inr ()"
  shows "canonicalize_kid did f = Inr (did @ ''#'' @ f)"
    and "canonicalize_kid did (''#'' @ f) = Inr (did @ ''#'' @ f)"
    and "\<not> starts_with did ''#'' \<Longrightarrow> did \<noteq> [] \<Longrightarrow>
           canonicalize_kid did (did @ ''#'' @ f) = Inr (did @ ''#'' @ f)"
proof -
  note sep = fragment_no_separator [OF assms]
  obtain b f' where f: "f = b # f'" using assms by (cases f) (auto simp: validate_fragment_def)
  have no: "strip_prefix f ''#'' = None" using sep f by auto
  have no2: "strip_prefix f (did @ ''#'') = None"
    using sep by (auto simp: strip_prefix_def starts_with_iff)
  show "canonicalize_kid did f = Inr (did @ ''#'' @ f)"
    using no no2 sep assms by (simp add: canonicalize_kid_def Let_def)
  show "canonicalize_kid did (''#'' @ f) = Inr (did @ ''#'' @ f)"
    using assms by (simp add: canonicalize_kid_def Let_def)
  assume "\<not> starts_with did ''#''" "did \<noteq> []"
  then obtain d did' where "did = d # did'" "d \<noteq> CHR ''#''" by (cases did) auto
  then have "strip_prefix (did @ ''#'' @ f) ''#'' = None" by simp
  moreover have "strip_prefix (did @ ''#'' @ f) (did @ ''#'') = Some f"
    by (simp add: strip_prefix_Some_iff)
  ultimately show "canonicalize_kid did (did @ ''#'' @ f) = Inr (did @ ''#'' @ f)"
    using assms by (simp add: canonicalize_kid_def Let_def)
qed

lemma append_sep_inject:
  "c \<notin> set a \<Longrightarrow> c \<notin> set b \<Longrightarrow> a @ c # x = b @ c # y \<Longrightarrow> a = b \<and> x = y"
proof (induction a arbitrary: b)
  case Nil
  then show ?case by (cases b) auto
next
  case (Cons a as)
  then show ?case by (cases b) auto
qed

lemma unique_kids_loop_Inr_iff:
  "unique_kids_loop did seen kids = Inr () \<longleftrightarrow>
     (case rcollect (canonicalize_kid did) kids of
        Inl _ \<Rightarrow> False
      | Inr cs \<Rightarrow> distinct cs \<and> set cs \<inter> seen = {})"
proof (induction kids arbitrary: seen)
  case (Cons k kids)
  show ?case
  proof (cases "canonicalize_kid did k")
    case (Inr c)
    then show ?thesis
      by (cases "rcollect (canonicalize_kid did) kids") (auto simp: Cons.IH)
  qed simp
qed simp

lemma unique_fragments_loop_Inr_iff:
  "unique_fragments_loop seen ks = Inr () \<longleftrightarrow>
     (\<forall>k\<in>set ks. validate_fragment (mk_fragment k) = Inr ()) \<and> distinct (map mk_fragment ks)
     \<and> mk_fragment ` set ks \<inter> seen = {}"
proof (induction ks arbitrary: seen)
  case (Cons k ks)
  show ?case
    by (cases "validate_fragment (mk_fragment k)") (auto simp: Cons.IH)
qed simp

lemma key_fits_role_iff:
  "key_fits_role r key \<longleftrightarrow>
     r = E2eeAgreement \<and> (\<exists>b. key = X25519 b)
     \<or> r \<in> {DeviceSigning, RequestSigning, E2eeSigning} \<and> (\<exists>b. key = Ed25519 b)"
  by (cases "(r, key)" rule: key_fits_role.cases) auto

lemma parse_public_key_Inr: "parse_public_key X k = Inr key \<Longrightarrow> key_fits_role (ek_role k) key"
  by (auto simp: parse_public_key_def Let_def rbind_Inr_iff split: if_splits)

end
