(* ===== verification/Records.thy ===== *)
theory Records
  imports Input
begin

text \<open>
  The records the store persists, as the source declares them: identity records, summaries,
  key metadata, pending operations, journals, the registry (\<open>registry.rs\<close>), the pending records
  of \<open>lifecycle.rs\<close>, \<open>adoption.rs\<close> and \<open>root_transfer.rs\<close>, secret references and encrypted records
  (\<open>keystore.rs\<close>) and the manifest (\<open>manifest.rs\<close>).
\<close>

section \<open>Keys\<close>

datatype key_origin = Managed | External

datatype key_state = Key_Pending | Key_Active | Key_Retired | Key_Revoked

datatype identity_state = Id_Creating | Id_Enrolling | Id_Active | Id_Revoked

datatype root_capability_state = Root_Absent | Root_Pending | Root_Active

record document_checkpoint =
  ck_document_version :: u64
  ck_registry_version :: u64
  ck_document_digest :: string

record key_metadata =
  km_kid :: string
  km_role :: key_role
  km_origin :: key_origin
  km_state :: key_state
  km_material_erased :: bool
  km_version :: u32
  km_public_key_multibase :: string
  km_created_at :: string

record secret_ref =
  sr_identity_id :: string
  sr_key_id :: string
  sr_role :: key_role
  sr_version :: u32

section \<open>Pending operations\<close>

datatype publication_state = Prepared | PublicationInFlight | PublicationUncertain | Published

record pending_revision_record =
  pr_revision_id :: string
  pr_parent_revision :: u64
  pr_candidate_document :: json
  pr_candidate_digest :: string
  pr_candidate_kids :: "string list"
  pr_pending_secret_refs :: "secret_ref list"
  pr_new_key_metadata :: "key_metadata list"
  pr_retired_kids :: "string list"
  pr_state :: publication_state
  pr_generation :: u64
  pr_created_at :: string

record local_authorization_record =
  la_device_id :: string
  la_signing_kid :: string
  la_e2ee_kid :: string
  la_profiles :: "string list"

record pending_enrollment_record =
  pe_enrollment_id :: string
  pe_local_authorization :: local_authorization_record
  pe_created_at :: string

record pending_request_signing_record =
  ps_enrollment_id :: string
  ps_request_signing_kid :: string
  ps_created_at :: string

record pending_root_transfer_record =
  pt_transfer_digest :: string
  pt_root_kid :: string
  pt_imported_at :: string

record root_transfer_replay_record =
  rr_nonce :: string
  rr_transfer_digest :: string
  rr_expires_at :: string

section \<open>Identities and the registry\<close>

record identity_summary =
  is_identity_id :: string
  is_did :: string
  is_state :: identity_state
  is_root_capability :: root_capability_state
  is_created_at :: string

record identity_record =
  ir_schema_version :: u32
  ir_identity_id :: string
  ir_did :: string
  ir_state :: identity_state
  ir_revision :: u64
  ir_generation :: u64
  ir_document :: json
  ir_keys :: "key_metadata list"
  ir_capabilities :: capabilities
  ir_root_capability :: root_capability_state
  ir_root_key_fingerprint :: "string option"
  ir_checkpoint :: "document_checkpoint option"
  ir_initial_publication_pending :: bool
  ir_local_authorization :: "local_authorization_record option"
  ir_local_request_signing_kid :: "string option"
  ir_pending_enrollment :: "pending_enrollment_record option"
  ir_pending_request_signing :: "pending_request_signing_record option"
  ir_pending_root_transfer :: "pending_root_transfer_record option"
  ir_root_transfer_replays :: "root_transfer_replay_record list"
  ir_retired_device_ids :: "string list"
  ir_created_at :: string
  ir_pending_revision :: "pending_revision_record option"

definition summary :: "identity_record \<Rightarrow> identity_summary" where
  "summary r =
     \<lparr>is_identity_id = ir_identity_id r, is_did = ir_did r, is_state = ir_state r,
      is_root_capability = ir_root_capability r, is_created_at = ir_created_at r\<rparr>"

record identity_registry =
  rg_schema_version :: u32
  rg_generation :: u64
  rg_identities :: "(string, identity_summary) btree_map"

section \<open>Journals\<close>

datatype creation_journal_kind = CJ_Create | CJ_StateTransition | CJ_RootImport | CJ_NamespaceDelete

record creation_journal =
  cj_schema_version :: u32
  cj_kind :: creation_journal_kind
  cj_transaction_id :: string
  cj_identity_id :: string
  cj_did :: string
  cj_secret_refs :: "secret_ref list"
  cj_created_at :: string

datatype update_journal_kind = UJ_Prepare | UJ_Cleanup

record update_journal =
  uj_schema_version :: u32
  uj_revision_id :: string
  uj_identity_id :: string
  uj_secret_refs :: "secret_ref list"
  uj_kind :: update_journal_kind
  uj_created_at :: string

datatype transition_journal_state =
    TJ_Prepared | TJ_PublicationInFlight | TJ_PublicationUncertain | TJ_Committed | TJ_Aborted

record identity_transition_journal =
  tj_schema_version :: u32
  tj_operation_id :: string
  tj_expected_current_did :: string
  tj_predecessor_identity_id :: string
  tj_predecessor_generation :: u64
  tj_successor_did :: string
  tj_successor_identity_id :: string
  tj_successor_generation :: u64
  tj_trusted_predecessor_document :: json
  tj_predecessor_document :: json
  tj_successor_document :: json
  tj_predecessor_digest :: string
  tj_successor_digest :: string
  tj_assurance :: string
  tj_state :: transition_journal_state
  tj_generation :: u64
  tj_created_at :: string

section \<open>Encrypted records and the manifest\<close>

record encrypted_record =
  er_schema_version :: u32
  er_secret_ref :: secret_ref
  er_cipher :: string
  er_kdf :: string
  er_nonce_b64u :: string
  er_aad_b64u :: string
  er_ciphertext_b64u :: string
  er_created_at :: string

datatype root_key_provider_kind = OsKeyring | Injected | LocalPrivateFile

record root_key_provider_binding =
  pb_kind :: root_key_provider_kind
  pb_key_id :: string
  pb_account :: "string option"

record store_manifest =
  sm_schema_version :: u32
  sm_store_id :: string
  sm_generation :: u64
  sm_provider :: root_key_provider_binding
  sm_root_key_fingerprint :: string
  sm_created_at :: string
  sm_rekey_generation :: u64

end
