(* ===== verification/Store_Io.thy ===== *)
theory Store_Io
  imports Records
begin

text \<open>
  The world an operation acts on: the directory of the store, the schedule of system-call
  failures, the source of randomness, the clock, and the passwords that the keyring of the operating
  system holds for each service and account; the helpers of \<open>fs_util.rs\<close> and the lock of
  \<open>store_lock.rs\<close>.

  A file holds either a value of the type its readers expect or bytes that do not parse. The
  failure schedule has one entry per system call: \<open>None\<close> lets it succeed, \<open>Some msg\<close> makes it
  fail with no effect; past the end of the schedule every call succeeds. An operation that is
  killed leaves the disk as a failure at the next system call does, since an error returns
  at once and undoes nothing.
\<close>

section \<open>State\<close>

datatype 'a content = Parsed 'a | Unparsable

type_synonym 'a dir = "(string \<times> 'a content) list"

record disk =
  d_manifest :: "store_manifest content option"
  d_registry :: "identity_registry content option"
  d_identities :: "identity_record dir"
  d_journals :: "creation_journal dir"
  d_update_journals :: "update_journal dir"
  d_transition_journals :: "identity_transition_journal dir"
  d_records :: "encrypted_record dir"
  d_root_key_file :: "(bytes \<times> nat) option"

record world =
  w_disk :: disk
  w_faults :: "string option list"
  w_random :: "nat \<Rightarrow> nat \<Rightarrow> bytes"
  w_draws :: nat
  w_clock :: "nat \<Rightarrow> int"
  w_ticks :: nat
  w_keyring :: "string \<Rightarrow> string \<Rightarrow> string option"

type_synonym 'a io = "(world, did_error, 'a) io"

section \<open>System calls\<close>

definition syscall :: "(disk \<Rightarrow> disk) \<Rightarrow> unit io" where
  "syscall f w =
     (case w_faults w of
        [] \<Rightarrow> (Inr (), w\<lparr>w_disk := f (w_disk w)\<rparr>)
      | None # fs \<Rightarrow> (Inr (), w\<lparr>w_disk := f (w_disk w), w_faults := fs\<rparr>)
      | Some msg # fs \<Rightarrow> (Inl (Io msg), w\<lparr>w_faults := fs\<rparr>))"

definition read_file :: "(disk \<Rightarrow> 'a) \<Rightarrow> 'a io" where
  "read_file g = bnd (syscall (\<lambda>d. d)) (\<lambda>_ w. (Inr (g (w_disk w)), w))"

definition fill_bytes :: "nat \<Rightarrow> bytes io" where
  "fill_bytes n w = (Inr (w_random w (w_draws w) n), w\<lparr>w_draws := Suc (w_draws w)\<rparr>)"

definition utc_now :: "int io" where
  "utc_now w = (Inr (w_clock w (w_ticks w)), w\<lparr>w_ticks := Suc (w_ticks w)\<rparr>)"

definition now_rfc3339 :: "ext \<Rightarrow> string io" where
  "now_rfc3339 X = bnd utc_now (\<lambda>t. ret (format_rfc3339 X t))"

definition random_id :: "ext \<Rightarrow> string io" where
  "random_id X = bnd (fill_bytes 16) (\<lambda>b. ret (b64u_encode X b))"

text \<open>\<open>map_err\<close> on the result of an operation.\<close>

definition mapio_err :: "(did_error \<Rightarrow> did_error) \<Rightarrow> 'a io \<Rightarrow> 'a io" where
  "mapio_err f m w = (case m w of (r, w') \<Rightarrow> (map_err f r, w'))"

text \<open>\<open>Path::exists\<close>: a failing query reads as absence.\<close>

definition path_exists :: "(disk \<Rightarrow> bool) \<Rightarrow> bool io" where
  "path_exists g w =
     (case syscall (\<lambda>d. d) w of
        (Inl _, w') \<Rightarrow> (Inr False, w')
      | (Inr _, w') \<Rightarrow> (Inr (g (w_disk w)), w'))"

section \<open>File helpers\<close>

text \<open>Creating the directory and setting its mode.\<close>

definition ensure_private_dir :: "unit io" where
  "ensure_private_dir = bnd (syscall (\<lambda>d. d)) (\<lambda>_. syscall (\<lambda>d. d))"

text \<open>
  A private directory, a temporary file created, written and synced, the rename that makes the
  content visible, and the mode of the target. The temporary file is removed at the end whatever
  happened; readers open files by their exact name and listings skip it.
\<close>

definition write_atomic_private :: "(disk \<Rightarrow> disk) \<Rightarrow> unit io" where
  "write_atomic_private f =
     bnd ensure_private_dir (\<lambda>_.
     bnd (syscall (\<lambda>d. d)) (\<lambda>_.
     bnd (syscall (\<lambda>d. d)) (\<lambda>_.
     bnd (syscall (\<lambda>d. d)) (\<lambda>_.
     bnd (syscall f) (\<lambda>_.
     syscall (\<lambda>d. d))))))"

definition remove_if_exists :: "(disk \<Rightarrow> disk) \<Rightarrow> unit io" where
  "remove_if_exists f = syscall f"

section \<open>The store lock\<close>

record store_lock =
  sl_store_root :: string
  sl_lock_path :: string

record store_write_guard =
  wg_store_root :: string

definition store_lock_new :: "string \<Rightarrow> store_lock" where
  "store_lock_new root =
     \<lparr>sl_store_root = root, sl_lock_path = root @ ''/.anp-identity.lock''\<rparr>"

definition open_private_lock_file :: "unit io" where
  "open_private_lock_file =
     bnd ensure_private_dir (\<lambda>_. bnd (syscall (\<lambda>d. d)) (\<lambda>_. syscall (\<lambda>d. d)))"

text \<open>Taking the lock blocks until no other holder is left; while it is held no other process
  changes the store, so the operation that holds it is one step of the system.\<close>

definition acquire_exclusive :: "store_lock \<Rightarrow> store_write_guard io" where
  "acquire_exclusive lock =
     bnd open_private_lock_file (\<lambda>_.
     bnd (syscall (\<lambda>d. d)) (\<lambda>_.
     ret \<lparr>wg_store_root = sl_store_root lock\<rparr>))"

definition require_store :: "store_write_guard \<Rightarrow> string \<Rightarrow> unit did_result" where
  "require_store guard root = ensure (wg_store_root guard = root) Conflict"

section \<open>Reasoning about the calls\<close>

text \<open>
  A world without failures left is calm: there every call succeeds. \<open>same_env\<close>: the two worlds
  differ at most in the failures left.
\<close>

definition calm :: "world \<Rightarrow> bool" where
  "calm w \<longleftrightarrow> w_faults w = []"

lemma syscall_calm [simp]: "calm w \<Longrightarrow> syscall f w = (Inr (), w\<lparr>w_disk := f (w_disk w)\<rparr>)"
  by (simp add: syscall_def calm_def)

lemma calm_updates [simp]:
  "calm (w\<lparr>w_disk := d\<rparr>) = calm w"
  "calm (w\<lparr>w_draws := n\<rparr>) = calm w"
  "calm (w\<lparr>w_ticks := n\<rparr>) = calm w"
  by (simp_all add: calm_def)

lemma read_file_calm [simp]: "calm w \<Longrightarrow> read_file g w = (Inr (g (w_disk w)), w)"
  by (simp add: read_file_def bnd_def)

lemma ensure_private_dir_calm [simp]: "calm w \<Longrightarrow> ensure_private_dir w = (Inr (), w)"
  by (simp add: ensure_private_dir_def bnd_def)

lemma write_atomic_private_calm [simp]:
  "calm w \<Longrightarrow> write_atomic_private f w = (Inr (), w\<lparr>w_disk := f (w_disk w)\<rparr>)"
  by (simp add: write_atomic_private_def bnd_def)

lemma remove_if_exists_calm [simp]:
  "calm w \<Longrightarrow> remove_if_exists f w = (Inr (), w\<lparr>w_disk := f (w_disk w)\<rparr>)"
  by (simp add: remove_if_exists_def)

lemma acquire_exclusive_calm [simp]:
  "calm w \<Longrightarrow> acquire_exclusive l w = (Inr \<lparr>wg_store_root = sl_store_root l\<rparr>, w)"
  by (simp add: acquire_exclusive_def open_private_lock_file_def bnd_def ret_def)

lemma fill_bytes_run [simp]:
  "fill_bytes n w = (Inr (w_random w (w_draws w) n), w\<lparr>w_draws := Suc (w_draws w)\<rparr>)"
  by (simp add: fill_bytes_def)

lemma utc_now_run [simp]:
  "utc_now w = (Inr (w_clock w (w_ticks w)), w\<lparr>w_ticks := Suc (w_ticks w)\<rparr>)"
  by (simp add: utc_now_def)

lemma path_exists_calm [simp]: "calm w \<Longrightarrow> path_exists g w = (Inr (g (w_disk w)), w)"
  by (simp add: path_exists_def)

lemma bnd_path_exists_calm [simp]: "calm w \<Longrightarrow> bnd (path_exists g) f w = f (g (w_disk w)) w"
  by (simp add: bnd_def)

lemma mapio_err_calm [simp]: "m w = (r, w') \<Longrightarrow> mapio_err f m w = (map_err f r, w')"
  by (simp add: mapio_err_def)

subsection \<open>Every failure schedule\<close>

text \<open>
  \<open>core w\<close> forgets the failures left. \<open>safe m Q E c\<close>: from the calm world \<open>c\<close>, under every
  failure schedule, the operation ends in a world whose core satisfies \<open>Q\<close> (with its value) or
  \<open>E\<close> (with its error). The rules read as a demonic calculus: each system call succeeds or fails.
\<close>

definition core :: "world \<Rightarrow> world" where
  "core w = w\<lparr>w_faults := []\<rparr>"

definition safe :: "'a io \<Rightarrow> ('a \<Rightarrow> world \<Rightarrow> bool) \<Rightarrow> (did_error \<Rightarrow> world \<Rightarrow> bool) \<Rightarrow> world \<Rightarrow> bool" where
  "safe m Q E c \<longleftrightarrow>
     (\<forall>fs. wp m (\<lambda>x w. Q x (core w)) (\<lambda>e w. E e (core w)) (c\<lparr>w_faults := fs\<rparr>))"

lemma core_calm [simp]: "calm (core w)" "calm c \<Longrightarrow> core c = c"
  by (simp_all add: core_def calm_def)

lemma core_faults [simp]: "core (w\<lparr>w_faults := fs\<rparr>) = core w" "core (core w) = core w"
  by (simp_all add: core_def)

lemma core_updates [simp]:
  "core (w\<lparr>w_disk := d\<rparr>) = (core w)\<lparr>w_disk := d\<rparr>"
  "core (w\<lparr>w_draws := n\<rparr>) = (core w)\<lparr>w_draws := n\<rparr>"
  "core (w\<lparr>w_ticks := n\<rparr>) = (core w)\<lparr>w_ticks := n\<rparr>"
  by (simp_all add: core_def)

lemma core_selects [simp]:
  "w_disk (core w) = w_disk w" "w_draws (core w) = w_draws w" "w_ticks (core w) = w_ticks w"
  "w_random (core w) = w_random w" "w_clock (core w) = w_clock w"
  by (simp_all add: core_def)

named_theorems safe_intros \<open>rules of the calculus over failure schedules\<close>

lemma safe_ret [safe_intros]: "calm c \<Longrightarrow> Q x c \<Longrightarrow> safe (ret x) Q E c"
  by (simp add: safe_def wp_ret)

lemma safe_raise [safe_intros]: "calm c \<Longrightarrow> E e c \<Longrightarrow> safe (raise e) Q E c"
  by (simp add: safe_def wp_raise)

lemma safe_lift [safe_intros]:
  "calm c \<Longrightarrow> (\<And>e. r = Inl e \<Longrightarrow> E e c) \<Longrightarrow> (\<And>x. r = Inr x \<Longrightarrow> Q x c) \<Longrightarrow> safe (lift r) Q E c"
  by (simp add: safe_def wp_lift split: sum.splits)

lemma safe_bnd [safe_intros]:
  assumes "safe m (\<lambda>x c'. calm c' \<longrightarrow> safe (f x) Q E c') E c"
  shows "safe (bnd m f) Q E c"
  unfolding safe_def
proof
  fix fs
  have step: "wp (f x) (\<lambda>x w. Q x (core w)) (\<lambda>e w. E e (core w)) w"
    if "safe (f x) Q E (core w)" for x w
    using that [unfolded safe_def, rule_format, of "w_faults w"] by (simp add: core_def)
  from assms have "wp m (\<lambda>x w. safe (f x) Q E (core w)) (\<lambda>e w. E e (core w)) (c\<lparr>w_faults := fs\<rparr>)"
    by (simp add: safe_def)
  then show "wp (bnd m f) (\<lambda>x w. Q x (core w)) (\<lambda>e w. E e (core w)) (c\<lparr>w_faults := fs\<rparr>)"
    unfolding wp_bnd by (rule wp_mono) (auto intro: step)
qed

lemma safe_mono:
  "safe m Q E c \<Longrightarrow> (\<And>x w. Q x w \<Longrightarrow> Q' x w) \<Longrightarrow> (\<And>e w. E e w \<Longrightarrow> E' e w) \<Longrightarrow> safe m Q' E' c"
  by (auto simp: safe_def intro: wp_mono)

lemma safe_syscall [safe_intros]:
  assumes "calm c" "Q () (c\<lparr>w_disk := f (w_disk c)\<rparr>)" "\<And>msg. E (Io msg) c"
  shows "safe (syscall f) Q E c"
  using assms by (auto simp: safe_def wp_def syscall_def split: list.splits option.splits)

lemma safe_read_file [safe_intros]:
  assumes "calm c" "Q (g (w_disk c)) c" "\<And>msg. E (Io msg) c"
  shows "safe (read_file g) Q E c"
  using assms
  by (auto simp: safe_def wp_def read_file_def bnd_def syscall_def split: list.splits option.splits)

lemma safe_fill_bytes [safe_intros]:
  assumes "calm c" "Q (w_random c (w_draws c) n) (c\<lparr>w_draws := Suc (w_draws c)\<rparr>)"
  shows "safe (fill_bytes n) Q E c"
  using assms by (simp add: safe_def wp_def)

lemma safe_utc_now [safe_intros]:
  assumes "calm c" "Q (w_clock c (w_ticks c)) (c\<lparr>w_ticks := Suc (w_ticks c)\<rparr>)"
  shows "safe utc_now Q E c"
  using assms by (simp add: safe_def wp_def utc_now_def)

lemma safe_ensure_private_dir [safe_intros]:
  assumes "calm c" "Q () c" "\<And>msg. E (Io msg) c"
  shows "safe ensure_private_dir Q E c"
  unfolding ensure_private_dir_def using assms by (intro safe_intros) (auto intro!: safe_intros)

lemma safe_write_atomic_private [safe_intros]:
  assumes "calm c" "Q () (c\<lparr>w_disk := f (w_disk c)\<rparr>)" "\<And>msg. E (Io msg) c"
    "\<And>msg. E (Io msg) (c\<lparr>w_disk := f (w_disk c)\<rparr>)"
  shows "safe (write_atomic_private f) Q E c"
  unfolding write_atomic_private_def using assms by (auto intro!: safe_intros)

lemma safe_remove_if_exists [safe_intros]:
  assumes "calm c" "Q () (c\<lparr>w_disk := f (w_disk c)\<rparr>)" "\<And>msg. E (Io msg) c"
  shows "safe (remove_if_exists f) Q E c"
  unfolding remove_if_exists_def using assms by (intro safe_intros)

lemma safe_acquire_exclusive [safe_intros]:
  assumes "calm c" "Q \<lparr>wg_store_root = sl_store_root l\<rparr> c" "\<And>msg. E (Io msg) c"
  shows "safe (acquire_exclusive l) Q E c"
  unfolding acquire_exclusive_def open_private_lock_file_def using assms
  by (auto intro!: safe_intros)

lemma safe_if [safe_intros]:
  "(b \<Longrightarrow> safe m Q E c) \<Longrightarrow> (\<not> b \<Longrightarrow> safe n Q E c) \<Longrightarrow> safe (if b then m else n) Q E c"
  by simp

lemma safe_mapio_err [safe_intros]:
  "safe m Q (\<lambda>e. E (f e)) c \<Longrightarrow> safe (mapio_err f m) Q E c"
  by (fastforce simp: safe_def wp_def mapio_err_def map_err_Inl_iff split: prod.splits sum.splits)

lemma safe_case_option [safe_intros]:
  "(x = None \<Longrightarrow> safe m Q E c) \<Longrightarrow> (\<And>y. x = Some y \<Longrightarrow> safe (n y) Q E c)
   \<Longrightarrow> safe (case x of None \<Rightarrow> m | Some y \<Rightarrow> n y) Q E c"
  by (cases x) simp_all

lemma safe_path_exists [safe_intros]:
  assumes "calm c" "Q (g (w_disk c)) c" "Q False c"
  shows "safe (path_exists g) Q E c"
  using assms
  by (auto simp: safe_def wp_def path_exists_def syscall_def split: list.splits option.splits)

lemma safe_foreach:
  assumes "calm c" "I c"
    and "\<And>x c. x \<in> set xs \<Longrightarrow> calm c \<Longrightarrow> I c \<Longrightarrow> safe (f x) (\<lambda>_. I) (\<lambda>_. I) c"
  shows "safe (foreach f xs) (\<lambda>_. I) (\<lambda>_. I) c"
  using assms
proof (induction xs arbitrary: c)
  case (Cons x xs)
  have "safe (f x) (\<lambda>_. I) (\<lambda>_. I) c" using Cons.prems by simp
  then have "safe (f x) (\<lambda>_ c'. calm c' \<longrightarrow> safe (foreach f xs) (\<lambda>_. I) (\<lambda>_. I) c') (\<lambda>_. I) c"
    by (rule safe_mono) (use Cons in auto)
  then show ?case by (simp add: safe_bnd)
qed (simp add: safe_ret)

lemma safe_foreach_check:
  assumes "calm c" "\<And>x. x \<in> set xs \<Longrightarrow> safe (f x) (\<lambda>_ c'. c' = c \<and> P x) (\<lambda>_ c'. c' = c) c"
  shows "safe (foreach f xs) (\<lambda>_ c'. c' = c \<and> (\<forall>x\<in>set xs. P x)) (\<lambda>_ c'. c' = c) c"
  using assms(2)
proof (induction xs)
  case (Cons x xs)
  have "safe (f x) (\<lambda>_ c'. c' = c \<and> P x) (\<lambda>_ c'. c' = c) c" using Cons.prems by simp
  then have "safe (f x) (\<lambda>_ c'. calm c' \<longrightarrow> safe (foreach f xs)
      (\<lambda>_ c'. c' = c \<and> (\<forall>x\<in>set (x # xs). P x)) (\<lambda>_ c'. c' = c) c') (\<lambda>_ c'. c' = c) c"
  proof (rule safe_mono)
    fix u c' assume c': "c' = c \<and> P x"
    have "safe (foreach f xs) (\<lambda>_ c'. c' = c \<and> (\<forall>x\<in>set xs. P x)) (\<lambda>_ c'. c' = c) c"
      using Cons by simp
    then have "safe (foreach f xs) (\<lambda>_ c'. c' = c \<and> (\<forall>x\<in>set (x # xs). P x)) (\<lambda>_ c'. c' = c) c"
      by (rule safe_mono) (use c' in auto)
    with c' show "calm c' \<longrightarrow> safe (foreach f xs)
      (\<lambda>_ c'. c' = c \<and> (\<forall>x\<in>set (x # xs). P x)) (\<lambda>_ c'. c' = c) c'" by simp
  qed
  then show ?case by (simp add: safe_bnd)
qed (simp add: safe_ret assms(1))

text \<open>From the calculus to a run: what holds of the core holds of the disk.\<close>

lemma safe_run:
  assumes "safe m Q E c" "calm c" "m (c\<lparr>w_faults := fs\<rparr>) = (r, w)"
  shows "case r of Inl e \<Rightarrow> E e (core w) | Inr x \<Rightarrow> Q x (core w)"
  using assms by (auto simp: safe_def wp_def split: prod.splits sum.splits dest: spec [of _ fs])

lemma safe_run_world:
  assumes "safe m Q E (core w)" "m w = (r, w')"
  shows "case r of Inl e \<Rightarrow> E e (core w') | Inr x \<Rightarrow> Q x (core w')"
  using safe_run [of m Q E "core w" "w_faults w" r w'] assms by (simp add: core_def calm_def)

end
