(* ===== verification/Document.thy ===== *)
theory Document
  imports Store_Io
begin

text \<open>
  \<open>document.rs\<close>: managed private keys, the construction of E1 and Web documents, the method
  check, fingerprints, digests and key metadata.
\<close>

section \<open>Keys\<close>

record managed_private_key =
  mp_fragment :: string
  mp_role :: key_role
  mp_bytes :: bytes

definition generate_key :: "ext \<Rightarrow> string \<Rightarrow> key_role \<Rightarrow> managed_private_key io" where
  "generate_key X fragment role =
     bnd (fill_bytes 32) (\<lambda>random.
       ret \<lparr>mp_fragment = fragment, mp_role = role,
         mp_bytes = (if role = E2eeAgreement then x25519_random_secret X random
                     else ed25519_generate X random)\<rparr>)"

fun generate_keys :: "ext \<Rightarrow> managed_key_spec list \<Rightarrow> managed_private_key list io" where
  "generate_keys X [] = ret []"
| "generate_keys X (k # ks) =
     bnd (generate_key X (mk_fragment k) (mk_role k)) (\<lambda>key.
     bnd (generate_keys X ks) (\<lambda>keys. ret (key # keys)))"

definition public_key_from_raw :: "ext \<Rightarrow> key_role \<Rightarrow> bytes \<Rightarrow> public_key" where
  "public_key_from_raw X role b =
     (if role = E2eeAgreement then X25519 (x25519_public_key X b)
      else Ed25519 (ed25519_verifying_key X b))"

definition managed_public_key :: "ext \<Rightarrow> managed_private_key \<Rightarrow> public_key" where
  "managed_public_key X k = public_key_from_raw X (mp_role k) (mp_bytes k)"

definition sign_with_root :: "ext \<Rightarrow> managed_private_key \<Rightarrow> bytes \<Rightarrow> bytes did_result" where
  "sign_with_root X k message =
     (if mp_role k \<noteq> RootControl then Inl InvalidIdentity
      else ok_or (sign_message X (mp_bytes k) message) Crypto)"

definition public_key_from_secret :: "ext \<Rightarrow> key_role \<Rightarrow> bytes \<Rightarrow> public_key did_result" where
  "public_key_from_secret X role secret =
     (if length secret \<noteq> 32 then Inl InvalidIdentity
      else Inr (public_key_from_raw X role secret))"

fun public_keys_equal :: "public_key \<Rightarrow> public_key \<Rightarrow> bool" where
  "public_keys_equal (Ed25519 a) (Ed25519 b) = (a = b)"
| "public_keys_equal (X25519 a) (X25519 b) = (a = b)"
| "public_keys_equal _ _ = False"

fun ed25519_public_multibase :: "ext \<Rightarrow> public_key \<Rightarrow> string did_result" where
  "ed25519_public_multibase X (Ed25519 b) =
     Inr (''z'' @ bs58_encode X ([CHR 0xED, CHR 0x01] @ b))"
| "ed25519_public_multibase X _ = Inl InvalidPublicKey"

fun public_key_multibase :: "ext \<Rightarrow> public_key \<Rightarrow> string did_result" where
  "public_key_multibase X (Ed25519 b) = ed25519_public_multibase X (Ed25519 b)"
| "public_key_multibase X (X25519 b) =
     Inr (''z'' @ bs58_encode X ([CHR 0xEC, CHR 0x01] @ b))"
| "public_key_multibase X _ = Inl InvalidPublicKey"

fun anp_role :: "key_role \<Rightarrow> did_key_role" where
  "anp_role RootControl = Anp_RootControl"
| "anp_role DeviceSigning = Anp_DeviceSigning"
| "anp_role RequestSigning = Anp_RequestSigning"
| "anp_role E2eeSigning = Anp_E2eeSigning"
| "anp_role E2eeAgreement = Anp_E2eeAgreement"

fun relationships :: "key_role \<Rightarrow> verification_relationship list" where
  "relationships RootControl = [Authentication, AssertionMethod]"
| "relationships DeviceSigning = [Authentication, AssertionMethod]"
| "relationships RequestSigning = [Authentication]"
| "relationships E2eeSigning = [AssertionMethod]"
| "relationships E2eeAgreement = [KeyAgreement]"

definition supplied_managed_key :: "ext \<Rightarrow> managed_private_key \<Rightarrow> supplied_did_key" where
  "supplied_managed_key X k =
     \<lparr>sk_fragment = mp_fragment k, sk_role = anp_role (mp_role k),
      sk_public_key = managed_public_key X k, sk_relationships = relationships (mp_role k)\<rparr>"

section \<open>Digests, fingerprints and the method check\<close>

definition document_digest :: "ext \<Rightarrow> json \<Rightarrow> string did_result" where
  "document_digest X doc =
     rbind (map_err Serialization (canonicalizer_to_vec X doc)) (\<lambda>canonical.
       Inr (''sha256:'' @ b64u_encode X (sha256 X canonical)))"

definition root_key_fingerprint :: "ext \<Rightarrow> json \<Rightarrow> string did_result" where
  "root_key_fingerprint X doc =
     rbind (ok_or (Option.bind (json_get doc ''proof'') (\<lambda>p. get_str p ''verificationMethod''))
              InvalidIdentity) (\<lambda>root_kid.
     rbind (ok_or (find_verification_method X doc root_kid) InvalidIdentity) (\<lambda>method.
     rbind (ok_or (extract_public_key X method) InvalidPublicKey) (\<lambda>public.
       case public of
         Ed25519 b \<Rightarrow> Inr (''sha256:'' @ b64u_encode X
            (sha256 X (''anp-identity:root-public-fingerprint:v1'' @ [CHR 0x00] @ b)))
       | _ \<Rightarrow> Inl InvalidPublicKey)))"

definition validate_method_document :: "ext \<Rightarrow> json \<Rightarrow> did_profile did_result" where
  "validate_method_document X doc =
     rbind (ok_or (get_str doc ''id'') InvalidIdentity) (\<lambda>did.
     rbind (for_did X did) (\<lambda>profile.
     rbind (ensure (validate_did_document_method X doc) InvalidIdentity) (\<lambda>_.
     rbind (if supports_root_control profile
            then rbind (root_key_fingerprint X doc) (\<lambda>_. Inr ()) else Inr ()) (\<lambda>_.
     Inr profile))))"

definition method_root_fingerprint :: "ext \<Rightarrow> json \<Rightarrow> string option did_result" where
  "method_root_fingerprint X doc =
     rbind (validate_method_document X doc) (\<lambda>profile.
       if supports_root_control profile
       then rbind (root_key_fingerprint X doc) (\<lambda>f. Inr (Some f)) else Inr None)"

section \<open>Metadata\<close>

definition key_metadata_from_public ::
  "ext \<Rightarrow> string \<Rightarrow> key_role \<Rightarrow> key_origin \<Rightarrow> key_state \<Rightarrow> public_key \<Rightarrow> string
     \<Rightarrow> key_metadata did_result" where
  "key_metadata_from_public X kid role origin state public created_at =
     rbind (public_key_multibase X public) (\<lambda>mb.
       Inr \<lparr>km_kid = kid, km_role = role, km_origin = origin, km_state = state,
            km_material_erased = False, km_version = 1, km_public_key_multibase = mb,
            km_created_at = created_at\<rparr>)"

definition mk_key_metadata ::
  "ext \<Rightarrow> json \<Rightarrow> string \<Rightarrow> key_role \<Rightarrow> key_origin \<Rightarrow> string \<Rightarrow> key_metadata did_result" where
  "mk_key_metadata X doc kid role origin created_at =
     rbind (ok_or (find_verification_method X doc kid) InvalidIdentity) (\<lambda>method.
     rbind (ok_or (get_str method ''publicKeyMultibase'') InvalidPublicKey) (\<lambda>mb.
       Inr \<lparr>km_kid = kid, km_role = role, km_origin = origin, km_state = Key_Active,
            km_material_erased = False, km_version = 1, km_public_key_multibase = mb,
            km_created_at = created_at\<rparr>))"

section \<open>Services and extensions\<close>

definition service_json :: "service_spec \<Rightarrow> json" where
  "service_json s =
     (let base = fold (\<lambda>(k, v). btree_insert k v)
            [(''id'', JString (if starts_with (sv_id s) ''#'' then sv_id s else ''#'' @ sv_id s)),
             (''type'', JString (sv_type s)),
             (''serviceEndpoint'', JString (sv_endpoint s))] [];
          with_did = (case sv_did s of None \<Rightarrow> base
                      | Some d \<Rightarrow> btree_insert ''serviceDid'' (JString d) base);
          with_profiles = (if sv_profiles s = [] then with_did
                      else btree_insert ''profiles'' (JArray (map JString (sv_profiles s))) with_did);
          with_security = (if sv_security_profiles s = [] then with_profiles
                      else btree_insert ''securityProfiles''
                             (JArray (map JString (sv_security_profiles s))) with_profiles)
      in JObject with_security)"

definition manifest_entry ::
  "string \<Rightarrow> device_manifest_entry_spec \<Rightarrow> device_manifest_entry did_result" where
  "manifest_entry did d =
     rbind (canonicalize_kid did (de_signing_key_id d)) (\<lambda>signing.
     rbind (canonicalize_kid did (de_e2ee_key_id d)) (\<lambda>e2ee.
       Inr \<lparr>dm_device_id = de_device_id d, dm_signing_key_id = signing, dm_e2ee_key_id = e2ee,
            dm_profiles = de_profiles d\<rparr>))"

fun apply_extension :: "ext \<Rightarrow> string \<Rightarrow> json_map \<Rightarrow> did_extension_spec \<Rightarrow> json_map did_result" where
  "apply_extension X did object (DeviceManifestExt devices) =
     (if contains_key object ''deviceManifest'' then Inl InvalidExtension
      else rbind (rcollect (manifest_entry did) devices) (\<lambda>entries.
        rbind (ok_or (device_manifest_to_value X
                 \<lparr>dm_type = device_manifest_type X, dm_devices = entries\<rparr>) InvalidExtension) (\<lambda>v.
          Inr (btree_insert ''deviceManifest'' v object))))"

definition apply_extensions :: "ext \<Rightarrow> json \<Rightarrow> string \<Rightarrow> did_extension_spec list \<Rightarrow> json did_result" where
  "apply_extensions X doc did extensions =
     rbind (ok_or (as_object doc) InvalidIdentity) (\<lambda>object.
     rbind (rfold (apply_extension X did) object extensions) (\<lambda>object'. Inr (JObject object')))"

section \<open>Building an identity\<close>

record built_identity =
  bi_did :: string
  bi_document :: json
  bi_managed_keys :: "managed_private_key list"
  bi_metadata :: "key_metadata list"
  bi_created_at :: string

definition random_challenge :: "ext \<Rightarrow> string io" where
  "random_challenge X = bnd (fill_bytes 16) (\<lambda>b. ret (b64u_encode X b))"

text \<open>The metadata of the managed and the external keys of a new document.\<close>

definition built_metadata ::
  "ext \<Rightarrow> json \<Rightarrow> string \<Rightarrow> managed_private_key list \<Rightarrow> external_public_key_spec list \<Rightarrow> string
     \<Rightarrow> key_metadata list did_result" where
  "built_metadata X doc did managed external created_at =
     rbind (rcollect (\<lambda>k. mk_key_metadata X doc (did @ ''#'' @ mp_fragment k) (mp_role k) Managed
              created_at) managed) (\<lambda>ms.
     rbind (rcollect (\<lambda>k. rbind (canonicalize_kid did (ek_kid k)) (\<lambda>kid.
              mk_key_metadata X doc kid (ek_role k) External created_at)) external) (\<lambda>es.
     Inr (ms @ es)))"

definition supplied_external_key ::
  "ext \<Rightarrow> string \<Rightarrow> external_public_key_spec \<Rightarrow> supplied_did_key did_result" where
  "supplied_external_key X did k =
     rbind (canonicalize_kid did (ek_kid k)) (\<lambda>kid.
     rbind (ok_or (strip_prefix kid (did @ ''#'')) ForeignKid) (\<lambda>fragment.
     rbind (parse_public_key X k) (\<lambda>public.
       Inr \<lparr>sk_fragment = fragment, sk_role = anp_role (ek_role k), sk_public_key = public,
            sk_relationships = relationships (ek_role k)\<rparr>)))"

definition w3c_options :: "ext \<Rightarrow> string \<Rightarrow> string option \<Rightarrow> string \<Rightarrow> proof_options" where
  "w3c_options X created domain challenge =
     \<lparr>po_proof_purpose = Some ''assertionMethod'',
      po_proof_type = Some (proof_type_data_integrity X),
      po_cryptosuite = Some (cryptosuite_eddsa_jcs_2022 X), po_created = Some created,
      po_domain = domain, po_challenge = Some challenge\<rparr>"

definition build_e1_identity :: "ext \<Rightarrow> did_create_spec \<Rightarrow> built_identity io" where
  "build_e1_identity X spec =
     bnd (generate_keys X (cs_managed_keys spec)) (\<lambda>managed_keys.
     bnd (lift (ok_or (find (\<lambda>k. mp_role k = RootControl) managed_keys) InvalidManagedRootCount)) (\<lambda>root.
     bnd (lift (ok_or (build_unsigned_e1_did_document X (cs_domain spec)
            \<lparr>eo_port = cs_port spec, eo_path_segments = cs_path_segments spec,
             eo_agent_description_url = None, eo_services = [],
             eo_root_key = supplied_managed_key X root, eo_additional_keys = []\<rparr>)
          InvalidIdentity)) (\<lambda>root_only.
     bnd (lift (ok_or (get_str root_only ''id'') InvalidIdentity)) (\<lambda>did.
     bnd (lift (validate_for_did X spec did)) (\<lambda>_.
     bnd (lift (rcollect (supplied_external_key X did) (cs_external_keys spec))) (\<lambda>external.
     bnd (lift (ok_or (build_unsigned_e1_did_document X (cs_domain spec)
            \<lparr>eo_port = cs_port spec, eo_path_segments = cs_path_segments spec,
             eo_agent_description_url = cs_agent_description_url spec,
             eo_services = map service_json (cs_services spec),
             eo_root_key = supplied_managed_key X root,
             eo_additional_keys =
               map (supplied_managed_key X) (filter (\<lambda>k. mp_role k \<noteq> RootControl) managed_keys)
               @ external\<rparr>)
          InvalidIdentity)) (\<lambda>unsigned.
     bnd (lift (apply_extensions X unsigned did (cs_extensions spec))) (\<lambda>unsigned.
     bnd (now_rfc3339 X) (\<lambda>created_at.
     bnd (random_challenge X) (\<lambda>challenge.
     bnd (lift (ok_or (prepare_w3c_proof X unsigned (managed_public_key X root)
            (did @ ''#'' @ mp_fragment root)
            (w3c_options X created_at (Some (cs_domain spec)) challenge)) InvalidIdentity)) (\<lambda>prepared.
     bnd (lift (sign_with_root X root (signing_input prepared))) (\<lambda>signature.
     bnd (lift (ok_or (complete_w3c_proof X prepared signature) InvalidIdentity)) (\<lambda>document.
     bnd (lift (ensure (validate_did_document_binding X document) InvalidIdentity)) (\<lambda>_.
     bnd (lift (ensure (validate_device_manifest X document \<noteq> None) InvalidExtension)) (\<lambda>_.
     bnd (lift (built_metadata X document did managed_keys (cs_external_keys spec) created_at)) (\<lambda>metadata.
     ret \<lparr>bi_did = did, bi_document = document, bi_managed_keys = managed_keys,
          bi_metadata = metadata, bi_created_at = created_at\<rparr>))))))))))))))))"

text \<open>The arrays a Web document is built from: methods, authentication, assertion, agreement.\<close>

type_synonym web_arrays = "json list \<times> string list \<times> string list \<times> string list"

fun add_relationship :: "string \<Rightarrow> verification_relationship \<Rightarrow> web_arrays \<Rightarrow> web_arrays" where
  "add_relationship kid Authentication (ms, au, asrt, ag) = (ms, au @ [kid], asrt, ag)"
| "add_relationship kid AssertionMethod (ms, au, asrt, ag) = (ms, au, asrt @ [kid], ag)"
| "add_relationship kid KeyAgreement (ms, au, asrt, ag) = (ms, au, asrt, ag @ [kid])"

definition add_web_key ::
  "ext \<Rightarrow> string \<Rightarrow> web_arrays \<Rightarrow> string \<times> key_role \<times> public_key \<Rightarrow> web_arrays did_result" where
  "add_web_key X did arrays key =
     (case (arrays, key) of ((ms, au, asrt, ag), (kid, role, public)) \<Rightarrow>
        rbind (public_key_multibase X public) (\<lambda>mb.
          Inr (fold (add_relationship kid) (relationships role)
                 (ms @ [json_object
                    [(''id'', JString kid), (''type'', JString ''Multikey''),
                     (''controller'', JString did), (''publicKeyMultibase'', JString mb)]],
                  au, asrt, ag))))"

definition web_did :: "did_create_spec \<Rightarrow> string" where
  "web_did spec =
     ''did:web:''
     @ (case cs_port spec of
          Some port \<Rightarrow> cs_domain spec @ ''%3A'' @ nat_to_string (unat port)
        | None \<Rightarrow> cs_domain spec)
     @ concat (map (\<lambda>segment. '':'' @ segment) (cs_path_segments spec))"

definition absolute_service_id :: "string \<Rightarrow> json \<Rightarrow> json did_result" where
  "absolute_service_id did service =
     rbind (ok_or (get_str service ''id'') InvalidService) (\<lambda>i.
       if starts_with i ''#''
       then (case service of JObject m \<Rightarrow> Inr (JObject (btree_insert ''id'' (JString (did @ i)) m))
             | _ \<Rightarrow> Inl InvalidService)
       else Inr service)"

definition web_object ::
  "string \<Rightarrow> json list \<Rightarrow> string list \<Rightarrow> string list \<Rightarrow> string list \<Rightarrow> json list \<Rightarrow> json_map" where
  "web_object did methods authentication assertion agreement services =
     (let base = fold (\<lambda>(k, v). btree_insert k v)
            [(''@context'', JArray [JString ''https://www.w3.org/ns/did/v1'',
                                    JString ''https://w3id.org/security/multikey/v1'']),
             (''id'', JString did), (''verificationMethod'', JArray methods),
             (''authentication'', JArray (map JString authentication)),
             (''assertionMethod'', JArray (map JString assertion)),
             (''keyAgreement'', JArray (map JString agreement))] []
      in if services = [] then base else btree_insert ''service'' (JArray services) base)"

definition build_web_identity :: "ext \<Rightarrow> did_create_spec \<Rightarrow> built_identity io" where
  "build_web_identity X spec =
     (let did = web_did spec in
     bnd (lift (ensure (build_did_web_resolution_url X did \<noteq> None) InvalidIdentity)) (\<lambda>_.
     bnd (lift (validate_for_did X spec did)) (\<lambda>_.
     bnd (generate_keys X (cs_managed_keys spec)) (\<lambda>managed_keys.
     bnd (lift (rfold (add_web_key X did) ([], [], [], [])
            (map (\<lambda>k. (did @ ''#'' @ mp_fragment k, mp_role k, managed_public_key X k)) managed_keys)))
       (\<lambda>arrays.
     bnd (lift (rfold (\<lambda>arrays k. rbind (canonicalize_kid did (ek_kid k)) (\<lambda>kid.
                  rbind (parse_public_key X k) (\<lambda>public.
                    add_web_key X did arrays (kid, ek_role k, public))))
            arrays (cs_external_keys spec))) (\<lambda>(methods, authentication, assertion, agreement).
     let services = map service_json (cs_services spec)
           @ (case cs_agent_description_url spec of None \<Rightarrow> []
              | Some url \<Rightarrow> [json_object [(''id'', JString ''#agent-description''),
                  (''type'', JString ''AgentDescription''), (''serviceEndpoint'', JString url)]])
     in
     bnd (lift (rcollect (absolute_service_id did) services)) (\<lambda>services.
     bnd (lift (apply_extensions X
            (JObject (web_object did methods authentication assertion agreement services))
            did (cs_extensions spec))) (\<lambda>document.
     bnd (lift (validate_method_document X document)) (\<lambda>_.
     bnd (lift (ensure (validate_device_manifest X document \<noteq> None) InvalidExtension)) (\<lambda>_.
     bnd (now_rfc3339 X) (\<lambda>created_at.
     bnd (lift (built_metadata X document did managed_keys (cs_external_keys spec) created_at)) (\<lambda>metadata.
     ret \<lparr>bi_did = did, bi_document = document, bi_managed_keys = managed_keys,
          bi_metadata = metadata, bi_created_at = created_at\<rparr>))))))))))))"

definition build_identity :: "ext \<Rightarrow> did_create_spec \<Rightarrow> built_identity io" where
  "build_identity X spec =
     bnd (lift (validate_spec X spec)) (\<lambda>_.
       if cs_profile spec = Web then build_web_identity X spec else build_e1_identity X spec)"

definition sign_root_document :: "ext \<Rightarrow> json \<Rightarrow> string \<Rightarrow> bytes \<Rightarrow> string option \<Rightarrow> json io" where
  "sign_root_document X document root_kid root_secret domain =
     bnd (lift (ensure (length root_secret = 32) InvalidIdentity)) (\<lambda>_.
     bnd (now_rfc3339 X) (\<lambda>created.
     bnd (random_challenge X) (\<lambda>challenge.
     bnd (lift (ok_or (prepare_w3c_proof X document (Ed25519 (ed25519_verifying_key X root_secret))
            root_kid (w3c_options X created domain challenge)) InvalidIdentity)) (\<lambda>prepared.
     bnd (lift (ok_or (sign_message X root_secret (signing_input prepared)) Crypto)) (\<lambda>signature.
     lift (ok_or (complete_w3c_proof X prepared signature) InvalidIdentity))))))"

section \<open>Lemmas\<close>

text \<open>
  What the creation of a document leaves on disk: nothing. It draws randomness and reads the
  clock, and makes no system call that can fail.
\<close>

definition disk_pure :: "'a io \<Rightarrow> bool" where
  "disk_pure m \<longleftrightarrow>
     (\<forall>w. w_disk (snd (m w)) = w_disk w \<and> w_random (snd (m w)) = w_random w
        \<and> w_clock (snd (m w)) = w_clock w)
     \<and> (\<forall>w fs. m (w\<lparr>w_faults := fs\<rparr>) = (fst (m w), (snd (m w))\<lparr>w_faults := fs\<rparr>))"

named_theorems pure_intros \<open>operations that leave the disk alone\<close>

lemma disk_pure_ret [pure_intros]: "disk_pure (ret x)"
  by (simp add: disk_pure_def ret_def)

lemma disk_pure_raise [pure_intros]: "disk_pure (raise e)"
  by (simp add: disk_pure_def raise_def)

lemma disk_pure_lift [pure_intros]: "disk_pure (lift r)"
  by (simp add: disk_pure_def lift_def)

lemma disk_pureD:
  assumes "disk_pure m" "m w = (r, w')"
  shows "w_disk w' = w_disk w" "w_random w' = w_random w" "w_clock w' = w_clock w"
    "m (w\<lparr>w_faults := fs\<rparr>) = (r, w'\<lparr>w_faults := fs\<rparr>)"
proof -
  have "w_disk (snd (m w)) = w_disk w \<and> w_random (snd (m w)) = w_random w
      \<and> w_clock (snd (m w)) = w_clock w"
    "m (w\<lparr>w_faults := fs\<rparr>) = (fst (m w), (snd (m w))\<lparr>w_faults := fs\<rparr>)"
    using assms(1) by (auto simp: disk_pure_def)
  with assms(2) show "w_disk w' = w_disk w" "w_random w' = w_random w" "w_clock w' = w_clock w"
    "m (w\<lparr>w_faults := fs\<rparr>) = (r, w'\<lparr>w_faults := fs\<rparr>)" by simp_all
qed

lemma disk_pure_bnd [pure_intros]:
  assumes "disk_pure m" "\<And>x. disk_pure (f x)"
  shows "disk_pure (bnd m f)"
  unfolding disk_pure_def
proof (intro conjI allI)
  fix w fs
  obtain r w1 where r: "m w = (r, w1)" by (cases "m w")
  note m = disk_pureD [OF assms(1) r]
  note n = disk_pureD [OF assms(2)]
  show "w_disk (snd (bnd m f w)) = w_disk w" "w_random (snd (bnd m f w)) = w_random w"
    "w_clock (snd (bnd m f w)) = w_clock w"
    using m n [OF prod.collapse [symmetric]] by (auto simp: bnd_def r split: sum.split)
  show "bnd m f (w\<lparr>w_faults := fs\<rparr>) = (fst (bnd m f w), snd (bnd m f w)\<lparr>w_faults := fs\<rparr>)"
    using m n(4) [OF prod.collapse [symmetric]] by (auto simp: bnd_def r split: sum.split)
qed

lemma disk_pure_case_prod [pure_intros]:
  "(\<And>a b. disk_pure (f a b)) \<Longrightarrow> disk_pure (case p of (a, b) \<Rightarrow> f a b)"
  by (cases p) simp

lemma safe_disk_pure:
  assumes "disk_pure m" "calm c"
    and "\<And>x c'. m c = (Inr x, c') \<Longrightarrow> calm c' \<Longrightarrow> w_disk c' = w_disk c \<Longrightarrow> w_random c' = w_random c
       \<Longrightarrow> Q x c'"
    and "\<And>e c'. m c = (Inl e, c') \<Longrightarrow> calm c' \<Longrightarrow> w_disk c' = w_disk c \<Longrightarrow> w_random c' = w_random c
       \<Longrightarrow> E e c'"
  shows "safe m Q E c"
proof -
  obtain r c' where r: "m c = (r, c')" by (cases "m c")
  have c: "c\<lparr>w_faults := []\<rparr> = c" using assms(2) by (simp add: calm_def)
  note run = disk_pureD(4) [OF assms(1) r]
  from run [of "[]"] r c have c': "c'\<lparr>w_faults := []\<rparr> = c'" by simp
  then have calm: "calm c'" by (metis calm_def world.select_convs(2) world.surjective
        world.update_convs(2))
  have same: "w_disk c' = w_disk c" "w_random c' = w_random c"
    using disk_pureD [OF assms(1) r] by simp_all
  show ?thesis
    using assms(3,4) r calm same c'
    by (cases r) (auto simp: safe_def wp_def run core_def)
qed

lemma disk_pure_if [pure_intros]: "disk_pure m \<Longrightarrow> disk_pure n \<Longrightarrow> disk_pure (if b then m else n)"
  by simp

lemma disk_pure_fill_bytes [pure_intros]: "disk_pure (fill_bytes n)"
  by (simp add: disk_pure_def)

lemma disk_pure_utc_now [pure_intros]: "disk_pure utc_now"
  by (simp add: disk_pure_def utc_now_def)

lemma disk_pure_now [pure_intros]: "disk_pure (now_rfc3339 X)"
  by (simp add: now_rfc3339_def pure_intros)

lemma disk_pure_random_id [pure_intros]: "disk_pure (random_id X)"
  by (simp add: random_id_def pure_intros)

lemma disk_pure_random_challenge [pure_intros]: "disk_pure (random_challenge X)"
  by (simp add: random_challenge_def pure_intros)

lemma disk_pure_generate_key [pure_intros]: "disk_pure (generate_key X f r)"
  by (simp add: generate_key_def pure_intros)

lemma disk_pure_generate_keys [pure_intros]: "disk_pure (generate_keys X ks)"
  by (induction ks) (simp_all add: pure_intros)

lemma disk_pure_build_e1_identity [pure_intros]: "disk_pure (build_e1_identity X spec)"
  unfolding build_e1_identity_def by (intro pure_intros)

lemma disk_pure_build_web_identity [pure_intros]: "disk_pure (build_web_identity X spec)"
  unfolding build_web_identity_def Let_def by (intro pure_intros)

lemma disk_pure_build_identity [pure_intros]: "disk_pure (build_identity X spec)"
  unfolding build_identity_def by (intro pure_intros)

lemma disk_pure_sign_root_document [pure_intros]: "disk_pure (sign_root_document X doc kid sec domain)"
  unfolding sign_root_document_def by (intro pure_intros)

end
