(* ===== verification/Local_Authorization.thy ===== *)
theory Local_Authorization
  imports Document
begin

text \<open>
  The checks of \<open>adoption.rs\<close> that do not touch the store: the evidence of a verified document, the
  progression of checkpoints, whether a document still authorises the keys of this device, and the
  one compatible change of a device's profiles.
\<close>

section \<open>Evidence and checkpoints\<close>

record verified_document_evidence =
  ev_document_version :: u64
  ev_registry_version :: u64
  ev_document_digest :: string

definition validate_verified_document ::
  "ext \<Rightarrow> json \<Rightarrow> verified_document_evidence \<Rightarrow> unit did_result" where
  "validate_verified_document X doc evidence =
     rbind (if ev_document_version evidence = 0 \<or> ev_registry_version evidence = 0
            then Inl InvalidIdentity
            else rbind (document_digest X doc) (\<lambda>d.
                   ensure (d = ev_document_digest evidence) InvalidIdentity)) (\<lambda>_.
     rbind (ensure (validate_device_manifest X doc \<noteq> None) InvalidExtension) (\<lambda>_.
     rbind (validate_method_document X doc) (\<lambda>_. Inr ())))"

definition validate_checkpoint_progression ::
  "document_checkpoint option \<Rightarrow> verified_document_evidence \<Rightarrow> unit did_result" where
  "validate_checkpoint_progression current next =
     (case current of
        None \<Rightarrow> Inr ()
      | Some current \<Rightarrow>
          if ev_document_version next < ck_document_version current
             \<or> ev_registry_version next < ck_registry_version current
             \<or> (ev_document_version next = ck_document_version current
                 \<and> ev_document_digest next \<noteq> ck_document_digest current)
          then Inl Conflict else Inr ())"

definition checkpoint :: "verified_document_evidence \<Rightarrow> document_checkpoint" where
  "checkpoint evidence =
     \<lparr>ck_document_version = ev_document_version evidence,
      ck_registry_version = ev_registry_version evidence,
      ck_document_digest = ev_document_digest evidence\<rparr>"

definition is_initial_proof_confirmation ::
  "identity_record \<Rightarrow> json \<Rightarrow> verified_document_evidence \<Rightarrow> bool did_result" where
  "is_initial_proof_confirmation r doc evidence =
     (if \<not> ir_initial_publication_pending r
         \<or> ir_state r \<noteq> Id_Active
         \<or> ir_root_capability r \<noteq> Root_Active
         \<or> ir_revision r \<noteq> 1
         \<or> ev_document_version evidence \<noteq> 1
         \<or> ev_registry_version evidence \<noteq> 1
         \<or> \<not> (case ir_checkpoint r of None \<Rightarrow> False
              | Some current \<Rightarrow> ck_document_version current = 1 \<and> ck_registry_version current = 1)
      then Inr False
      else rbind (ok_or (as_object (ir_document r)) InvalidIdentity) (\<lambda>before.
           rbind (ok_or (as_object doc) InvalidIdentity) (\<lambda>after.
             Inr (btree_remove ''proof'' before = btree_remove ''proof'' after))))"

section \<open>Root metadata\<close>

definition root_kid :: "json \<Rightarrow> string did_result" where
  "root_kid doc =
     ok_or (Option.bind (Option.bind (Option.bind (json_get doc ''proof'') as_object)
              (\<lambda>proof. btree_get proof ''verificationMethod'')) as_str) InvalidIdentity"

definition optional_root_metadata :: "ext \<Rightarrow> json \<Rightarrow> string \<Rightarrow> key_metadata option did_result" where
  "optional_root_metadata X doc created_at =
     rbind (validate_method_document X doc) (\<lambda>profile.
       if supports_root_control profile
       then rbind (root_kid doc) (\<lambda>kid.
              rbind (mk_key_metadata X doc kid RootControl External created_at) (\<lambda>m. Inr (Some m)))
       else Inr None)"

section \<open>The authorisation of this device\<close>

definition is_local_device :: "key_metadata list \<Rightarrow> device_manifest_entry \<Rightarrow> bool" where
  "is_local_device keys device \<longleftrightarrow>
     list_ex (\<lambda>k. km_origin k = Managed \<and> km_role k = DeviceSigning
                \<and> km_kid k = dm_signing_key_id device) keys
     \<and> list_ex (\<lambda>k. km_origin k = Managed \<and> km_role k = E2eeAgreement
                \<and> km_kid k = dm_e2ee_key_id device) keys"

definition infer_local_authorization ::
  "ext \<Rightarrow> json \<Rightarrow> key_metadata list \<Rightarrow> local_authorization_record option did_result" where
  "infer_local_authorization X doc keys =
     rbind (ok_or (validate_device_manifest X doc) InvalidExtension) (\<lambda>m.
       case m of
         None \<Rightarrow> Inr None
       | Some manifest \<Rightarrow>
           (case filter (is_local_device keys) (dm_devices manifest) of
              [] \<Rightarrow> Inr None
            | [device] \<Rightarrow> Inr (Some
                \<lparr>la_device_id = dm_device_id device, la_signing_kid = dm_signing_key_id device,
                 la_e2ee_kid = dm_e2ee_key_id device, la_profiles = dm_profiles device\<rparr>)
            | _ \<Rightarrow> Inl InvalidExtension))"

definition key_matches_document :: "ext \<Rightarrow> json \<Rightarrow> key_metadata \<Rightarrow> unit did_result" where
  "key_matches_document X doc metadata =
     rbind (ok_or (find_verification_method X doc (km_kid metadata)) InvalidIdentity) (\<lambda>method.
     rbind (ok_or (extract_public_key X method) InvalidPublicKey) (\<lambda>observed.
     rbind (public_key_multibase X observed) (\<lambda>expected.
       ensure (expected = km_public_key_multibase metadata) InvalidPublicKey)))"

definition relationship_contains :: "json \<Rightarrow> string \<Rightarrow> string \<Rightarrow> bool" where
  "relationship_contains doc name kid =
     (case Option.bind (json_get doc name) as_array of
        None \<Rightarrow> False
      | Some values \<Rightarrow>
          list_ex (\<lambda>v. as_str v = Some kid \<or> get_str v ''id'' = Some kid) values)"

definition p6_profiles :: "string list" where
  "p6_profiles = [''anp.core.binding.v1'', ''anp.identity.discovery.v1'', ''anp.group.e2ee.v2'']"

definition compatible_local_profiles :: "string list \<Rightarrow> string list \<Rightarrow> bool" where
  "compatible_local_profiles old new \<longleftrightarrow>
     old = new
     \<or> (list_all (\<lambda>p. list_ex (\<lambda>v. v = p) old) p6_profiles
         \<and> \<not> list_ex (\<lambda>p. p = ''anp.group.base.v2'') old
         \<and> length new = length old + 1
         \<and> prefix old new
         \<and> new \<noteq> [] \<and> last new = ''anp.group.base.v2'')"

definition local_authorization_matches ::
  "ext \<Rightarrow> identity_record \<Rightarrow> json \<Rightarrow> local_authorization_record \<Rightarrow> unit did_result" where
  "local_authorization_matches X r doc local =
     rbind (ok_or (find (\<lambda>k. km_kid k = la_signing_kid local) (ir_keys r)) KeyNotFound) (\<lambda>signing.
     rbind (ok_or (find (\<lambda>k. km_kid k = la_e2ee_kid local) (ir_keys r)) KeyNotFound) (\<lambda>e2ee.
     rbind (key_matches_document X doc signing) (\<lambda>_.
     rbind (key_matches_document X doc e2ee) (\<lambda>_.
     rbind (ensure (is_authentication_authorized X doc (km_kid signing)
                    \<and> is_assertion_method_authorized X doc (km_kid signing)
                    \<and> relationship_contains doc ''keyAgreement'' (km_kid e2ee)) KeyRoleViolation) (\<lambda>_.
     rbind (ok_or (validate_device_manifest X doc) InvalidExtension) (\<lambda>m.
     rbind (ok_or m InvalidExtension) (\<lambda>manifest.
       case filter (\<lambda>d. dm_device_id d = la_device_id local) (dm_devices manifest) of
         [device] \<Rightarrow>
           ensure (dm_signing_key_id device = la_signing_kid local
                   \<and> dm_e2ee_key_id device = la_e2ee_kid local
                   \<and> compatible_local_profiles (la_profiles local) (dm_profiles device)) InvalidExtension
       | _ \<Rightarrow> Inl InvalidExtension)))))))"

definition refresh_compatible_local_profiles :: "ext \<Rightarrow> identity_record \<Rightarrow> json \<Rightarrow> identity_record" where
  "refresh_compatible_local_profiles X r doc =
     (case ir_local_authorization r of
        None \<Rightarrow> r
      | Some local \<Rightarrow>
          if \<not> is_ok (local_authorization_matches X r doc local) then r
          else (case validate_device_manifest X doc of
             Some (Some manifest) \<Rightarrow>
               (case find (\<lambda>d. dm_device_id d = la_device_id local) (dm_devices manifest) of
                  None \<Rightarrow> r
                | Some device \<Rightarrow>
                    r\<lparr>ir_local_authorization := Some (local\<lparr>la_profiles := dm_profiles device\<rparr>)\<rparr>)
           | _ \<Rightarrow> r))"

definition request_signing_authorization_matches ::
  "ext \<Rightarrow> identity_record \<Rightarrow> json \<Rightarrow> string \<Rightarrow> unit did_result" where
  "request_signing_authorization_matches X r doc kid =
     rbind (ok_or (find (\<lambda>k. km_kid k = kid \<and> km_role k = RequestSigning) (ir_keys r)) KeyNotFound) (\<lambda>metadata.
     rbind (key_matches_document X doc metadata) (\<lambda>_.
       ensure (is_authentication_authorized X doc kid
               \<and> \<not> is_assertion_method_authorized X doc kid) KeyRoleViolation))"

definition local_authorized :: "ext \<Rightarrow> identity_record \<Rightarrow> json \<Rightarrow> bool" where
  "local_authorized X r doc =
     (case ir_local_authorization r of
        Some local \<Rightarrow> is_ok (local_authorization_matches X r doc local)
      | None \<Rightarrow> (case ir_local_request_signing_kid r of
          Some kid \<Rightarrow> is_ok (request_signing_authorization_matches X r doc kid)
        | None \<Rightarrow> True))"

definition revoke_local_authorization :: "identity_record \<Rightarrow> identity_record" where
  "revoke_local_authorization r =
     (let signing_kid = (case ir_local_authorization r of
            Some local \<Rightarrow> Some (la_signing_kid local) | None \<Rightarrow> ir_local_request_signing_kid r);
          e2ee_kid = map_option la_e2ee_kid (ir_local_authorization r)
      in r\<lparr>ir_keys := map (\<lambda>k. if signing_kid = Some (km_kid k) \<or> e2ee_kid = Some (km_kid k)
                               then k\<lparr>km_state := Key_Revoked\<rparr> else k) (ir_keys r)\<rparr>)"

section \<open>Lemmas\<close>

lemma checkpoint_progression_Inr_iff:
  "validate_checkpoint_progression (Some c) e = Inr () \<longleftrightarrow>
     ck_document_version c \<le> ev_document_version e
     \<and> ck_registry_version c \<le> ev_registry_version e
     \<and> (ev_document_version e = ck_document_version c \<longrightarrow>
          ev_document_digest e = ck_document_digest c)"
  by (auto simp: validate_checkpoint_progression_def not_less)

lemma checkpoint_progression_None [simp]: "validate_checkpoint_progression None e = Inr ()"
  by (simp add: validate_checkpoint_progression_def)

lemma checkpoint_simps [simp]:
  "ck_document_version (checkpoint e) = ev_document_version e"
  "ck_registry_version (checkpoint e) = ev_registry_version e"
  "ck_document_digest (checkpoint e) = ev_document_digest e"
  by (simp_all add: checkpoint_def)

lemma prefix_one_longer:
  assumes "prefix xs ys" "length ys = length xs + 1"
  shows "ys = xs @ [last ys]"
proof -
  from assms(1) obtain zs where ys: "ys = xs @ zs" by (auto simp: prefix_def)
  with assms(2) obtain z where "zs = [z]" by (auto simp: length_Suc_conv)
  with ys show ?thesis by simp
qed

lemma compatible_local_profiles_iff:
  "compatible_local_profiles old new \<longleftrightarrow>
     new = old
     \<or> set p6_profiles \<subseteq> set old \<and> ''anp.group.base.v2'' \<notin> set old \<and> new = old @ [''anp.group.base.v2'']"
  (is "?l \<longleftrightarrow> ?r")
proof
  assume ?l
  then show ?r
    using prefix_one_longer [of old new]
    by (auto simp: compatible_local_profiles_def list_all_iff list_ex_iff)
next
  assume ?r
  then show ?l
    by (auto simp: compatible_local_profiles_def list_all_iff list_ex_iff)
qed

lemma compatible_local_profiles_extends: "compatible_local_profiles old new \<Longrightarrow> prefix old new"
  by (auto simp: compatible_local_profiles_iff)

lemma validate_verified_document_Inr:
  assumes "validate_verified_document X doc e = Inr u"
  shows "ev_document_version e \<noteq> 0" "ev_registry_version e \<noteq> 0"
    "document_digest X doc = Inr (ev_document_digest e)"
    "validate_device_manifest X doc \<noteq> None" "is_ok (validate_method_document X doc)"
  using assms by (auto simp: validate_verified_document_def res_simps is_ok_iff split: if_splits)

end
