(* ===== verification/Registry.thy ===== *)
theory Registry
  imports Local_Authorization
begin

text \<open>
  \<open>registry.rs\<close>: reading, writing, listing and removing the registry, the identity records and
  the three kinds of journals, the constructors of journals and records, and the bookkeeping of
  retired devices.
\<close>

section \<open>Constants and file names\<close>

definition REGISTRY_SCHEMA_VERSION :: u32 where "REGISTRY_SCHEMA_VERSION = 1"
definition IDENTITY_SCHEMA_VERSION :: u32 where "IDENTITY_SCHEMA_VERSION = 1"
definition JOURNAL_SCHEMA_VERSION :: u32 where "JOURNAL_SCHEMA_VERSION = 1"
definition UPDATE_JOURNAL_SCHEMA_VERSION :: u32 where "UPDATE_JOURNAL_SCHEMA_VERSION = 1"
definition IDENTITY_TRANSITION_JOURNAL_SCHEMA_VERSION :: u32 where
  "IDENTITY_TRANSITION_JOURNAL_SCHEMA_VERSION = 1"

lemmas schema_defs =
  REGISTRY_SCHEMA_VERSION_def IDENTITY_SCHEMA_VERSION_def JOURNAL_SCHEMA_VERSION_def
  UPDATE_JOURNAL_SCHEMA_VERSION_def IDENTITY_TRANSITION_JOURNAL_SCHEMA_VERSION_def

definition storage_key :: "ext \<Rightarrow> string \<Rightarrow> string" where
  "storage_key X value = b64u_encode X (sha256 X value)"

text \<open>The name of a file within its directory.\<close>

definition json_name :: "string \<Rightarrow> string" where
  "json_name stem = stem @ ''.json''"

definition identity_path :: "ext \<Rightarrow> string \<Rightarrow> string" where
  "identity_path X identity_id = json_name (storage_key X identity_id)"

definition journal_path :: "ext \<Rightarrow> string \<Rightarrow> string" where
  "journal_path X transaction_id = json_name (storage_key X transaction_id)"

definition update_journal_path :: "ext \<Rightarrow> string \<Rightarrow> string" where
  "update_journal_path X revision_id = json_name (storage_key X revision_id)"

definition identity_transition_journal_path :: "ext \<Rightarrow> string \<Rightarrow> string" where
  "identity_transition_journal_path X operation_id = json_name (storage_key X operation_id)"

text \<open>\<open>Path::extension\<close>: what follows the last dot, unless that dot is the first character.\<close>

definition extension :: "string \<Rightarrow> string option" where
  "extension name =
     (let ext = takeWhile (\<lambda>c. c \<noteq> CHR ''.'') (rev name) in
      if length ext + 1 < length name then Some (rev ext) else None)"

section \<open>Devices\<close>

text \<open>The device identifiers a document lists.\<close>

definition device_ids :: "json \<Rightarrow> string set" where
  "device_ids doc =
     (case Option.bind (Option.bind (json_get doc ''deviceManifest'') (\<lambda>m. json_get m ''devices''))
             as_array of
        None \<Rightarrow> {}
      | Some devices \<Rightarrow> set (List.map_filter (\<lambda>d. get_str d ''device_id'') devices))"

text \<open>Sorting and removing duplicates, of the old list and the identifiers that disappear.\<close>

definition observe_devices :: "identity_record \<Rightarrow> json \<Rightarrow> identity_record did_result" where
  "observe_devices r next =
     (let next_ids = device_ids next in
      if list_ex (\<lambda>i. i \<in> next_ids) (ir_retired_device_ids r) then Inl InvalidExtension
      else Inr (r\<lparr>ir_retired_device_ids :=
        remdups_adj (sort (ir_retired_device_ids r
          @ sorted_list_of_set (device_ids (ir_document r) - next_ids)))\<rparr>))"

section \<open>Constructors\<close>

definition new_creation_journal ::
  "string \<Rightarrow> string \<Rightarrow> string \<Rightarrow> secret_ref list \<Rightarrow> string \<Rightarrow> creation_journal" where
  "new_creation_journal transaction_id identity_id did secret_refs created_at =
     \<lparr>cj_schema_version = JOURNAL_SCHEMA_VERSION, cj_kind = CJ_Create,
      cj_transaction_id = transaction_id, cj_identity_id = identity_id, cj_did = did,
      cj_secret_refs = secret_refs, cj_created_at = created_at\<rparr>"

definition new_state_transition :: "string \<Rightarrow> string \<Rightarrow> string \<Rightarrow> string \<Rightarrow> creation_journal" where
  "new_state_transition transaction_id identity_id did created_at =
     \<lparr>cj_schema_version = JOURNAL_SCHEMA_VERSION, cj_kind = CJ_StateTransition,
      cj_transaction_id = transaction_id, cj_identity_id = identity_id, cj_did = did,
      cj_secret_refs = [], cj_created_at = created_at\<rparr>"

definition new_root_import ::
  "string \<Rightarrow> string \<Rightarrow> string \<Rightarrow> secret_ref list \<Rightarrow> string \<Rightarrow> creation_journal" where
  "new_root_import transaction_id identity_id did secret_refs created_at =
     \<lparr>cj_schema_version = JOURNAL_SCHEMA_VERSION, cj_kind = CJ_RootImport,
      cj_transaction_id = transaction_id, cj_identity_id = identity_id, cj_did = did,
      cj_secret_refs = secret_refs, cj_created_at = created_at\<rparr>"

definition new_namespace_delete ::
  "string \<Rightarrow> string \<Rightarrow> string \<Rightarrow> secret_ref list \<Rightarrow> string \<Rightarrow> creation_journal" where
  "new_namespace_delete transaction_id identity_id did secret_refs created_at =
     \<lparr>cj_schema_version = JOURNAL_SCHEMA_VERSION, cj_kind = CJ_NamespaceDelete,
      cj_transaction_id = transaction_id, cj_identity_id = identity_id, cj_did = did,
      cj_secret_refs = secret_refs, cj_created_at = created_at\<rparr>"

definition new_update_journal ::
  "string \<Rightarrow> string \<Rightarrow> secret_ref list \<Rightarrow> update_journal_kind \<Rightarrow> string \<Rightarrow> update_journal" where
  "new_update_journal revision_id identity_id secret_refs kind created_at =
     \<lparr>uj_schema_version = UPDATE_JOURNAL_SCHEMA_VERSION, uj_revision_id = revision_id,
      uj_identity_id = identity_id, uj_secret_refs = secret_refs, uj_kind = kind,
      uj_created_at = created_at\<rparr>"

record new_identity_input =
  ni_identity_id :: string
  ni_did :: string
  ni_document :: json
  ni_keys :: "key_metadata list"
  ni_capabilities :: capabilities
  ni_root_capability :: root_capability_state
  ni_root_key_fingerprint :: "string option"
  ni_checkpoint :: document_checkpoint
  ni_local_authorization :: "local_authorization_record option"
  ni_created_at :: string

definition new_identity_record :: "new_identity_input \<Rightarrow> identity_record" where
  "new_identity_record i =
     \<lparr>ir_schema_version = IDENTITY_SCHEMA_VERSION, ir_identity_id = ni_identity_id i,
      ir_did = ni_did i, ir_state = Id_Creating, ir_revision = 1, ir_generation = 1,
      ir_document = ni_document i, ir_keys = ni_keys i, ir_capabilities = ni_capabilities i,
      ir_root_capability = ni_root_capability i,
      ir_root_key_fingerprint = ni_root_key_fingerprint i,
      ir_checkpoint = Some (ni_checkpoint i), ir_initial_publication_pending = False,
      ir_local_authorization = ni_local_authorization i, ir_local_request_signing_kid = None,
      ir_pending_enrollment = None, ir_pending_request_signing = None,
      ir_pending_root_transfer = None, ir_root_transfer_replays = [],
      ir_retired_device_ids = [], ir_created_at = ni_created_at i, ir_pending_revision = None\<rparr>"

definition default_registry :: identity_registry where
  "default_registry =
     \<lparr>rg_schema_version = REGISTRY_SCHEMA_VERSION, rg_generation = 0, rg_identities = []\<rparr>"

definition new_identity_transition_journal ::
  "string \<Rightarrow> string \<Rightarrow> string \<Rightarrow> u64 \<Rightarrow> string \<Rightarrow> string \<Rightarrow> u64 \<Rightarrow> json \<Rightarrow> json \<Rightarrow> json
     \<Rightarrow> string \<Rightarrow> string \<Rightarrow> string \<Rightarrow> string \<Rightarrow> identity_transition_journal" where
  "new_identity_transition_journal operation_id expected_current_did predecessor_identity_id
     predecessor_generation successor_did successor_identity_id successor_generation
     trusted_predecessor_document predecessor_document successor_document predecessor_digest
     successor_digest assurance created_at =
     \<lparr>tj_schema_version = IDENTITY_TRANSITION_JOURNAL_SCHEMA_VERSION,
      tj_operation_id = operation_id, tj_expected_current_did = expected_current_did,
      tj_predecessor_identity_id = predecessor_identity_id,
      tj_predecessor_generation = predecessor_generation, tj_successor_did = successor_did,
      tj_successor_identity_id = successor_identity_id,
      tj_successor_generation = successor_generation,
      tj_trusted_predecessor_document = trusted_predecessor_document,
      tj_predecessor_document = predecessor_document,
      tj_successor_document = successor_document, tj_predecessor_digest = predecessor_digest,
      tj_successor_digest = successor_digest, tj_assurance = assurance,
      tj_state = TJ_Prepared, tj_generation = 1, tj_created_at = created_at\<rparr>"

section \<open>The registry file\<close>

fun decode_registry :: "identity_registry content option \<Rightarrow> identity_registry did_result" where
  "decode_registry None = Inr default_registry"
| "decode_registry (Some Unparsable) = Inl InvalidIdentity"
| "decode_registry (Some (Parsed r)) =
     (if rg_schema_version r \<noteq> REGISTRY_SCHEMA_VERSION then Inl InvalidIdentity else Inr r)"

definition read_registry :: "identity_registry io" where
  "read_registry = bnd (read_file d_registry) (\<lambda>c. lift (decode_registry c))"

definition write_registry :: "string \<Rightarrow> store_write_guard \<Rightarrow> identity_registry \<Rightarrow> unit io" where
  "write_registry root guard registry =
     bnd (lift (require_store guard root)) (\<lambda>_.
       write_atomic_private (\<lambda>d. d\<lparr>d_registry := Some (Parsed registry)\<rparr>))"

section \<open>Identity records\<close>

text \<open>What a reader makes of the file of an identity, the defaults for older records included.\<close>

fun decode_identity ::
  "ext \<Rightarrow> string \<Rightarrow> identity_record content option \<Rightarrow> identity_record did_result" where
  "decode_identity X identity_id None = Inl IdentityNotFound"
| "decode_identity X identity_id (Some Unparsable) = Inl InvalidIdentity"
| "decode_identity X identity_id (Some (Parsed r)) =
     rbind (ensure (ir_schema_version r = IDENTITY_SCHEMA_VERSION \<and> ir_identity_id r = identity_id)
              InvalidIdentity) (\<lambda>_.
     rbind (for_did X (ir_did r)) (\<lambda>profile.
     rbind (if supports_root_control profile
               \<and> (case ir_root_key_fingerprint r of None \<Rightarrow> True | Some f \<Rightarrow> f = [])
            then rbind (root_key_fingerprint X (ir_document r)) (\<lambda>f.
                   Inr (r\<lparr>ir_root_key_fingerprint := Some f\<rparr>))
            else if \<not> supports_root_control profile
                    \<and> (ir_root_key_fingerprint r \<noteq> None \<or> ir_root_capability r \<noteq> Root_Absent
                        \<or> list_ex (\<lambda>k. km_role k = RootControl) (ir_keys r))
            then Inl InvalidIdentity
            else Inr r) (\<lambda>r.
     rbind (if ir_checkpoint r = None
            then rbind (document_digest X (ir_document r)) (\<lambda>digest.
                   Inr (r\<lparr>ir_checkpoint := Some \<lparr>ck_document_version = ir_revision r,
                     ck_registry_version = 1, ck_document_digest = digest\<rparr>\<rparr>))
            else Inr r) (\<lambda>r.
       if ir_local_authorization r = None
       then rbind (infer_local_authorization X (ir_document r) (ir_keys r)) (\<lambda>a.
              Inr (r\<lparr>ir_local_authorization := a\<rparr>))
       else Inr r))))"

definition read_identity :: "ext \<Rightarrow> string \<Rightarrow> identity_record io" where
  "read_identity X identity_id =
     bnd (read_file (\<lambda>d. dir_get (d_identities d) (identity_path X identity_id))) (\<lambda>c.
       lift (decode_identity X identity_id c))"

definition write_identity ::
  "ext \<Rightarrow> string \<Rightarrow> store_write_guard \<Rightarrow> identity_record \<Rightarrow> unit io" where
  "write_identity X root guard r =
     bnd (lift (require_store guard root)) (\<lambda>_.
     bnd ensure_private_dir (\<lambda>_.
       write_atomic_private (\<lambda>d. d\<lparr>d_identities :=
         dir_put (identity_path X (ir_identity_id r)) (Parsed r) (d_identities d)\<rparr>)))"

definition remove_identity :: "ext \<Rightarrow> string \<Rightarrow> store_write_guard \<Rightarrow> string \<Rightarrow> unit io" where
  "remove_identity X root guard identity_id =
     bnd (lift (require_store guard root)) (\<lambda>_.
       remove_if_exists (\<lambda>d. d\<lparr>d_identities :=
         dir_del (identity_path X identity_id) (d_identities d)\<rparr>))"

section \<open>Journals\<close>

text \<open>
  The loop the three listings share: entries whose extension is not \<open>json\<close> are skipped, a file
  that cannot be read or parsed or has another schema version ends the listing.
\<close>

fun load_entries :: "('a \<Rightarrow> bool) \<Rightarrow> 'a dir \<Rightarrow> 'a list io" where
  "load_entries valid [] = ret []"
| "load_entries valid ((name, c) # entries) =
     bnd (syscall (\<lambda>d. d)) (\<lambda>_.
       if extension name \<noteq> Some ''json'' then load_entries valid entries
       else bnd (mapio_err (\<lambda>_. InvalidIdentity) (syscall (\<lambda>d. d))) (\<lambda>_.
         case c of
           Unparsable \<Rightarrow> raise InvalidIdentity
         | Parsed j \<Rightarrow>
             if \<not> valid j then raise InvalidIdentity
             else bnd (load_entries valid entries) (\<lambda>js. ret (j # js))))"

definition write_journal ::
  "ext \<Rightarrow> string \<Rightarrow> store_write_guard \<Rightarrow> creation_journal \<Rightarrow> unit io" where
  "write_journal X root guard j =
     bnd (lift (require_store guard root)) (\<lambda>_.
     bnd ensure_private_dir (\<lambda>_.
       write_atomic_private (\<lambda>d. d\<lparr>d_journals :=
         dir_put (journal_path X (cj_transaction_id j)) (Parsed j) (d_journals d)\<rparr>)))"

definition list_journals :: "creation_journal list io" where
  "list_journals =
     bnd (read_file d_journals) (\<lambda>entries.
     bnd (load_entries (\<lambda>j. cj_schema_version j = JOURNAL_SCHEMA_VERSION) entries) (\<lambda>js.
       ret (sort_key cj_transaction_id js)))"

definition remove_journal :: "ext \<Rightarrow> string \<Rightarrow> store_write_guard \<Rightarrow> string \<Rightarrow> unit io" where
  "remove_journal X root guard transaction_id =
     bnd (lift (require_store guard root)) (\<lambda>_.
       remove_if_exists (\<lambda>d. d\<lparr>d_journals :=
         dir_del (journal_path X transaction_id) (d_journals d)\<rparr>))"

definition write_update_journal ::
  "ext \<Rightarrow> string \<Rightarrow> store_write_guard \<Rightarrow> update_journal \<Rightarrow> unit io" where
  "write_update_journal X root guard j =
     bnd (lift (require_store guard root)) (\<lambda>_.
     bnd ensure_private_dir (\<lambda>_.
       write_atomic_private (\<lambda>d. d\<lparr>d_update_journals :=
         dir_put (update_journal_path X (uj_revision_id j)) (Parsed j) (d_update_journals d)\<rparr>)))"

definition list_update_journals :: "update_journal list io" where
  "list_update_journals =
     bnd (read_file d_update_journals) (\<lambda>entries.
     bnd (load_entries (\<lambda>j. uj_schema_version j = UPDATE_JOURNAL_SCHEMA_VERSION) entries) (\<lambda>js.
       ret (sort_key uj_revision_id js)))"

definition remove_update_journal :: "ext \<Rightarrow> string \<Rightarrow> store_write_guard \<Rightarrow> string \<Rightarrow> unit io" where
  "remove_update_journal X root guard revision_id =
     bnd (lift (require_store guard root)) (\<lambda>_.
       remove_if_exists (\<lambda>d. d\<lparr>d_update_journals :=
         dir_del (update_journal_path X revision_id) (d_update_journals d)\<rparr>))"

definition write_identity_transition_journal ::
  "ext \<Rightarrow> string \<Rightarrow> store_write_guard \<Rightarrow> identity_transition_journal \<Rightarrow> unit io" where
  "write_identity_transition_journal X root guard j =
     bnd (lift (require_store guard root)) (\<lambda>_.
     bnd ensure_private_dir (\<lambda>_.
       write_atomic_private (\<lambda>d. d\<lparr>d_transition_journals :=
         dir_put (identity_transition_journal_path X (tj_operation_id j)) (Parsed j)
           (d_transition_journals d)\<rparr>)))"

fun decode_transition_journal ::
  "string \<Rightarrow> identity_transition_journal content option \<Rightarrow> identity_transition_journal did_result" where
  "decode_transition_journal operation_id None = Inl PendingRevisionNotFound"
| "decode_transition_journal operation_id (Some Unparsable) = Inl InvalidIdentity"
| "decode_transition_journal operation_id (Some (Parsed j)) =
     (if tj_schema_version j \<noteq> IDENTITY_TRANSITION_JOURNAL_SCHEMA_VERSION
         \<or> tj_operation_id j \<noteq> operation_id
      then Inl InvalidIdentity else Inr j)"

definition read_identity_transition_journal :: "ext \<Rightarrow> string \<Rightarrow> identity_transition_journal io" where
  "read_identity_transition_journal X operation_id =
     bnd (read_file (\<lambda>d. dir_get (d_transition_journals d)
            (identity_transition_journal_path X operation_id))) (\<lambda>c.
       lift (decode_transition_journal operation_id c))"

definition list_identity_transition_journals :: "identity_transition_journal list io" where
  "list_identity_transition_journals =
     bnd (read_file d_transition_journals) (\<lambda>entries.
     bnd (load_entries (\<lambda>j. tj_schema_version j = IDENTITY_TRANSITION_JOURNAL_SCHEMA_VERSION)
            entries) (\<lambda>js.
       ret (sort_key tj_operation_id js)))"

section \<open>Reading\<close>

text \<open>What the readers return, as functions of the disk.\<close>

abbreviation registry_at :: "disk \<Rightarrow> identity_registry did_result" where
  "registry_at d \<equiv> decode_registry (d_registry d)"

abbreviation identity_at :: "ext \<Rightarrow> disk \<Rightarrow> string \<Rightarrow> identity_record did_result" where
  "identity_at X d identity_id \<equiv>
     decode_identity X identity_id (dir_get (d_identities d) (identity_path X identity_id))"

definition decode_entry :: "('a \<Rightarrow> bool) \<Rightarrow> string \<times> 'a content \<Rightarrow> 'a did_result" where
  "decode_entry valid e =
     (case snd e of Unparsable \<Rightarrow> Inl InvalidIdentity
      | Parsed j \<Rightarrow> if valid j then Inr j else Inl InvalidIdentity)"

definition entries_of :: "('a \<Rightarrow> bool) \<Rightarrow> 'a dir \<Rightarrow> 'a list did_result" where
  "entries_of valid entries =
     rcollect (decode_entry valid) (filter (\<lambda>e. extension (fst e) = Some ''json'') entries)"

abbreviation cj_valid :: "creation_journal \<Rightarrow> bool" where
  "cj_valid \<equiv> \<lambda>j. cj_schema_version j = JOURNAL_SCHEMA_VERSION"

abbreviation uj_valid :: "update_journal \<Rightarrow> bool" where
  "uj_valid \<equiv> \<lambda>j. uj_schema_version j = UPDATE_JOURNAL_SCHEMA_VERSION"

abbreviation tj_valid :: "identity_transition_journal \<Rightarrow> bool" where
  "tj_valid \<equiv> \<lambda>j. tj_schema_version j = IDENTITY_TRANSITION_JOURNAL_SCHEMA_VERSION"

lemma decode_entry_Inr: "decode_entry valid e = Inr j \<longleftrightarrow> snd e = Parsed j \<and> valid j"
  by (auto simp: decode_entry_def split: content.splits)

lemma decode_entry_simps [simp]:
  "decode_entry valid (n, Parsed j) = (if valid j then Inr j else Inl InvalidIdentity)"
  "decode_entry valid (n, Unparsable) = Inl InvalidIdentity"
  by (simp_all add: decode_entry_def)

lemma entries_of_Cons:
  "entries_of valid (e # es) =
     (if extension (fst e) \<noteq> Some ''json'' then entries_of valid es
      else rbind (decode_entry valid e) (\<lambda>j. rbind (entries_of valid es) (\<lambda>js. Inr (j # js))))"
  by (simp add: entries_of_def)

lemma entries_of_Nil [simp]: "entries_of valid [] = Inr []"
  by (simp add: entries_of_def)

lemma set_rcollect: "rcollect f xs = Inr ys \<Longrightarrow> y \<in> set ys \<longleftrightarrow> (\<exists>x \<in> set xs. f x = Inr y)"
  by (induction xs arbitrary: ys) (auto simp: rbind_Inr_iff)

lemma set_entries_of:
  "entries_of valid es = Inr js \<Longrightarrow>
     j \<in> set js \<longleftrightarrow> (\<exists>n. (n, Parsed j) \<in> set es \<and> extension n = Some ''json'') \<and> valid j"
  unfolding entries_of_def by (drule set_rcollect [of _ _ _ j]) (force simp: decode_entry_Inr)

lemma json_name_extension [simp]: "stem \<noteq> [] \<Longrightarrow> extension (json_name stem) = Some ''json''"
  by (cases stem) (simp_all add: extension_def json_name_def)

lemma json_name_inject [simp]: "json_name a = json_name b \<longleftrightarrow> a = b"
  by (simp add: json_name_def)

lemma load_entries_calm [simp]: "calm w \<Longrightarrow> load_entries valid es w = (entries_of valid es, w)"
proof (induction es)
  case (Cons e es)
  obtain n c where e: "e = (n, c)" by (cases e)
  show ?case
    using Cons
    by (cases "entries_of valid es"; cases c)
       (simp_all add: e entries_of_Cons bnd_def mapio_err_def ret_def raise_def)
qed (simp add: ret_def)

lemma safe_load_entries [safe_intros]:
  assumes "calm c" "\<And>js. entries_of valid es = Inr js \<Longrightarrow> Q js c"
    "\<And>msg. E (Io msg) c" "E InvalidIdentity c"
  shows "safe (load_entries valid es) Q E c"
  using assms
proof (induction es arbitrary: Q)
  case (Cons e es)
  obtain n x where e: "e = (n, x)" by (cases e)
  show ?case
    using Cons.prems
    by (cases x) (auto simp: e entries_of_Cons intro!: safe_intros Cons.IH)
qed (simp add: safe_ret)

section \<open>Runs without failures\<close>

abbreviation guard_of :: "string \<Rightarrow> store_write_guard" where
  "guard_of root \<equiv> \<lparr>wg_store_root = root\<rparr>"

lemma require_store_same [simp]: "require_store (guard_of root) root = Inr ()"
  by (simp add: require_store_def)

lemma read_calm [simp]:
  assumes "calm w"
  shows "read_registry w = (registry_at (w_disk w), w)"
    "read_identity X i w = (identity_at X (w_disk w) i, w)"
    "read_identity_transition_journal X k w =
       (decode_transition_journal k
          (dir_get (d_transition_journals (w_disk w)) (identity_transition_journal_path X k)), w)"
  using assms
  by (simp_all add: read_registry_def read_identity_def read_identity_transition_journal_def
      bnd_def lift_def)

lemma list_calm [simp]:
  assumes "calm w"
  shows "list_journals w = (rbind (entries_of cj_valid (d_journals (w_disk w)))
      (\<lambda>js. Inr (sort_key cj_transaction_id js)), w)"
    "list_update_journals w = (rbind (entries_of uj_valid (d_update_journals (w_disk w)))
      (\<lambda>js. Inr (sort_key uj_revision_id js)), w)"
    "list_identity_transition_journals w =
      (rbind (entries_of tj_valid (d_transition_journals (w_disk w)))
      (\<lambda>js. Inr (sort_key tj_operation_id js)), w)"
  using assms
  by (simp_all add: list_journals_def list_update_journals_def
      list_identity_transition_journals_def bnd_def ret_def split: sum.split)

lemma write_calm [simp]:
  assumes "calm w"
  shows "write_registry root (guard_of root) g w =
      (Inr (), w\<lparr>w_disk := (w_disk w)\<lparr>d_registry := Some (Parsed g)\<rparr>\<rparr>)"
    "write_identity X root (guard_of root) r w =
      (Inr (), w\<lparr>w_disk := (w_disk w)\<lparr>d_identities :=
         dir_put (identity_path X (ir_identity_id r)) (Parsed r) (d_identities (w_disk w))\<rparr>\<rparr>)"
    "write_journal X root (guard_of root) j w =
      (Inr (), w\<lparr>w_disk := (w_disk w)\<lparr>d_journals :=
         dir_put (journal_path X (cj_transaction_id j)) (Parsed j) (d_journals (w_disk w))\<rparr>\<rparr>)"
    "write_update_journal X root (guard_of root) u w =
      (Inr (), w\<lparr>w_disk := (w_disk w)\<lparr>d_update_journals :=
         dir_put (update_journal_path X (uj_revision_id u)) (Parsed u)
           (d_update_journals (w_disk w))\<rparr>\<rparr>)"
    "write_identity_transition_journal X root (guard_of root) t w =
      (Inr (), w\<lparr>w_disk := (w_disk w)\<lparr>d_transition_journals :=
         dir_put (identity_transition_journal_path X (tj_operation_id t)) (Parsed t)
           (d_transition_journals (w_disk w))\<rparr>\<rparr>)"
  using assms
  by (simp_all add: write_registry_def write_identity_def write_journal_def
      write_update_journal_def write_identity_transition_journal_def)

lemma remove_calm [simp]:
  assumes "calm w"
  shows "remove_identity X root (guard_of root) i w =
      (Inr (), w\<lparr>w_disk := (w_disk w)\<lparr>d_identities :=
         dir_del (identity_path X i) (d_identities (w_disk w))\<rparr>\<rparr>)"
    "remove_journal X root (guard_of root) k w =
      (Inr (), w\<lparr>w_disk := (w_disk w)\<lparr>d_journals :=
         dir_del (journal_path X k) (d_journals (w_disk w))\<rparr>\<rparr>)"
    "remove_update_journal X root (guard_of root) k w =
      (Inr (), w\<lparr>w_disk := (w_disk w)\<lparr>d_update_journals :=
         dir_del (update_journal_path X k) (d_update_journals (w_disk w))\<rparr>\<rparr>)"
  using assms by (simp_all add: remove_identity_def remove_journal_def remove_update_journal_def)

section \<open>Runs under every failure schedule\<close>

lemma safe_read_registry [safe_intros]:
  assumes "calm c" "\<And>g. registry_at (w_disk c) = Inr g \<Longrightarrow> Q g c"
    "\<And>e. registry_at (w_disk c) = Inl e \<Longrightarrow> E e c" "\<And>msg. E (Io msg) c"
  shows "safe read_registry Q E c"
  unfolding read_registry_def using assms by (auto intro!: safe_intros)

lemma safe_read_identity [safe_intros]:
  assumes "calm c" "\<And>r. identity_at X (w_disk c) i = Inr r \<Longrightarrow> Q r c"
    "\<And>e. identity_at X (w_disk c) i = Inl e \<Longrightarrow> E e c" "\<And>msg. E (Io msg) c"
  shows "safe (read_identity X i) Q E c"
  unfolding read_identity_def using assms by (auto intro!: safe_intros)

lemma safe_write_registry [safe_intros]:
  assumes "calm c" "Q () (c\<lparr>w_disk := (w_disk c)\<lparr>d_registry := Some (Parsed g)\<rparr>\<rparr>)"
    "\<And>msg. E (Io msg) c"
    "\<And>msg. E (Io msg) (c\<lparr>w_disk := (w_disk c)\<lparr>d_registry := Some (Parsed g)\<rparr>\<rparr>)"
  shows "safe (write_registry root (guard_of root) g) Q E c"
  unfolding write_registry_def using assms by (auto intro!: safe_intros)

lemma safe_write_identity [safe_intros]:
  assumes "calm c" "Q () (c\<lparr>w_disk := (w_disk c)\<lparr>d_identities :=
      dir_put (identity_path X (ir_identity_id r)) (Parsed r) (d_identities (w_disk c))\<rparr>\<rparr>)"
    "\<And>msg. E (Io msg) c"
    "\<And>msg. E (Io msg) (c\<lparr>w_disk := (w_disk c)\<lparr>d_identities :=
      dir_put (identity_path X (ir_identity_id r)) (Parsed r) (d_identities (w_disk c))\<rparr>\<rparr>)"
  shows "safe (write_identity X root (guard_of root) r) Q E c"
  unfolding write_identity_def using assms by (auto intro!: safe_intros)

lemma safe_write_journal [safe_intros]:
  assumes "calm c" "Q () (c\<lparr>w_disk := (w_disk c)\<lparr>d_journals :=
      dir_put (journal_path X (cj_transaction_id j)) (Parsed j) (d_journals (w_disk c))\<rparr>\<rparr>)"
    "\<And>msg. E (Io msg) c"
    "\<And>msg. E (Io msg) (c\<lparr>w_disk := (w_disk c)\<lparr>d_journals :=
      dir_put (journal_path X (cj_transaction_id j)) (Parsed j) (d_journals (w_disk c))\<rparr>\<rparr>)"
  shows "safe (write_journal X root (guard_of root) j) Q E c"
  unfolding write_journal_def using assms by (auto intro!: safe_intros)

lemma safe_write_update_journal [safe_intros]:
  assumes "calm c" "Q () (c\<lparr>w_disk := (w_disk c)\<lparr>d_update_journals :=
      dir_put (update_journal_path X (uj_revision_id j)) (Parsed j) (d_update_journals (w_disk c))\<rparr>\<rparr>)"
    "\<And>msg. E (Io msg) c"
    "\<And>msg. E (Io msg) (c\<lparr>w_disk := (w_disk c)\<lparr>d_update_journals :=
      dir_put (update_journal_path X (uj_revision_id j)) (Parsed j) (d_update_journals (w_disk c))\<rparr>\<rparr>)"
  shows "safe (write_update_journal X root (guard_of root) j) Q E c"
  unfolding write_update_journal_def using assms by (auto intro!: safe_intros)

lemma safe_write_identity_transition_journal [safe_intros]:
  assumes "calm c" "Q () (c\<lparr>w_disk := (w_disk c)\<lparr>d_transition_journals :=
      dir_put (identity_transition_journal_path X (tj_operation_id j)) (Parsed j)
        (d_transition_journals (w_disk c))\<rparr>\<rparr>)"
    "\<And>msg. E (Io msg) c"
    "\<And>msg. E (Io msg) (c\<lparr>w_disk := (w_disk c)\<lparr>d_transition_journals :=
      dir_put (identity_transition_journal_path X (tj_operation_id j)) (Parsed j)
        (d_transition_journals (w_disk c))\<rparr>\<rparr>)"
  shows "safe (write_identity_transition_journal X root (guard_of root) j) Q E c"
  unfolding write_identity_transition_journal_def using assms by (auto intro!: safe_intros)

lemma safe_remove_identity [safe_intros]:
  assumes "calm c" "Q () (c\<lparr>w_disk := (w_disk c)\<lparr>d_identities :=
      dir_del (identity_path X i) (d_identities (w_disk c))\<rparr>\<rparr>)" "\<And>msg. E (Io msg) c"
  shows "safe (remove_identity X root (guard_of root) i) Q E c"
  unfolding remove_identity_def using assms by (auto intro!: safe_intros)

lemma safe_remove_journal [safe_intros]:
  assumes "calm c" "Q () (c\<lparr>w_disk := (w_disk c)\<lparr>d_journals :=
      dir_del (journal_path X i) (d_journals (w_disk c))\<rparr>\<rparr>)" "\<And>msg. E (Io msg) c"
  shows "safe (remove_journal X root (guard_of root) i) Q E c"
  unfolding remove_journal_def using assms by (auto intro!: safe_intros)

lemma safe_remove_update_journal [safe_intros]:
  assumes "calm c" "Q () (c\<lparr>w_disk := (w_disk c)\<lparr>d_update_journals :=
      dir_del (update_journal_path X i) (d_update_journals (w_disk c))\<rparr>\<rparr>)" "\<And>msg. E (Io msg) c"
  shows "safe (remove_update_journal X root (guard_of root) i) Q E c"
  unfolding remove_update_journal_def using assms by (auto intro!: safe_intros)

lemma safe_list_journals [safe_intros]:
  assumes "calm c"
    "\<And>js. entries_of cj_valid (d_journals (w_disk c)) = Inr js \<Longrightarrow> Q (sort_key cj_transaction_id js) c"
    "\<And>msg. E (Io msg) c" "E InvalidIdentity c"
  shows "safe list_journals Q E c"
  unfolding list_journals_def using assms by (auto intro!: safe_intros)

lemma safe_list_update_journals [safe_intros]:
  assumes "calm c"
    "\<And>js. entries_of uj_valid (d_update_journals (w_disk c)) = Inr js \<Longrightarrow> Q (sort_key uj_revision_id js) c"
    "\<And>msg. E (Io msg) c" "E InvalidIdentity c"
  shows "safe list_update_journals Q E c"
  unfolding list_update_journals_def using assms by (auto intro!: safe_intros)

lemma safe_list_identity_transition_journals [safe_intros]:
  assumes "calm c"
    "\<And>js. entries_of tj_valid (d_transition_journals (w_disk c)) = Inr js \<Longrightarrow> Q (sort_key tj_operation_id js) c"
    "\<And>msg. E (Io msg) c" "E InvalidIdentity c"
  shows "safe list_identity_transition_journals Q E c"
  unfolding list_identity_transition_journals_def using assms by (auto intro!: safe_intros)

section \<open>The contract of a journal directory\<close>

text \<open>
  What the transactions rely on: writing a journal replaces the file named after its key and
  nothing else, whatever fails; listing returns the valid entries sorted by key.
\<close>

locale listed_directory =
  fixes entries :: "disk \<Rightarrow> 'j dir"
    and set_entries :: "('j dir \<Rightarrow> 'j dir) \<Rightarrow> disk \<Rightarrow> disk"
    and path :: "string \<Rightarrow> string"
    and key :: "'j \<Rightarrow> string"
    and valid :: "'j \<Rightarrow> bool"
    and write_op :: "'j \<Rightarrow> unit io"
    and list_op :: "'j list io"
  assumes entries_set: "entries (set_entries f d) = f (entries d)"
    and set_set: "set_entries f (set_entries g d) = set_entries (\<lambda>x. f (g x)) d"
    and set_same: "f (entries d) = entries d \<Longrightarrow> set_entries f d = d"
    and write_run: "calm w \<Longrightarrow> write_op j w =
      (Inr (), w\<lparr>w_disk := set_entries (dir_put (path (key j)) (Parsed j)) (w_disk w)\<rparr>)"
    and write_any: "snd (write_op j w) = w'
      \<Longrightarrow> w_disk w' \<in> {w_disk w, set_entries (dir_put (path (key j)) (Parsed j)) (w_disk w)}"
    and list_run: "calm w \<Longrightarrow> list_op w =
      (rbind (entries_of valid (entries (w_disk w))) (\<lambda>js. Inr (sort_key key js)), w)"
begin

lemma list_sorted:
  assumes "calm w" "list_op w = (Inr js, w')"
  shows "sorted (map key js)" "w' = w"
  using assms by (auto simp: list_run rbind_Inr_iff)

lemma write_then_list:
  assumes "calm w" "valid j" "extension (path (key j)) = Some ''json''"
    and "write_op j w = (r, w1)" "list_op w1 = (Inr js, w2)"
  shows "j \<in> set js"
proof -
  from assms have w1: "w1 = w\<lparr>w_disk := set_entries (dir_put (path (key j)) (Parsed j)) (w_disk w)\<rparr>"
    by (simp add: write_run)
  with assms obtain es where es: "entries_of valid (dir_put (path (key j)) (Parsed j) (entries (w_disk w))) = Inr es"
    and js: "js = sort_key key es"
    by (auto simp: list_run entries_set rbind_Inr_iff)
  have "(path (key j), Parsed j) \<in> set (dir_put (path (key j)) (Parsed j) (entries (w_disk w)))"
    using dir_get_put [of "path (key j)" "Parsed j" "entries (w_disk w)" "path (key j)"]
    by (auto simp: dir_get_def dest: map_of_SomeD)
  with es assms have "j \<in> set es" by (auto simp: set_entries_of)
  with js show ?thesis by simp
qed

end

locale journal_directory = listed_directory +
  fixes remove_op :: "string \<Rightarrow> unit io"
  assumes remove_run: "calm w \<Longrightarrow> remove_op k w =
      (Inr (), w\<lparr>w_disk := set_entries (dir_del (path k)) (w_disk w)\<rparr>)"
begin

lemma write_remove_restores:
  assumes "calm w" "dir_get (entries (w_disk w)) (path (key j)) = None"
    and "write_op j w = (r1, w1)" "remove_op (key j) w1 = (r2, w2)"
  shows "w_disk w2 = w_disk w"
proof -
  from assms have "w_disk w2 =
      set_entries (dir_del (path (key j))) (set_entries (dir_put (path (key j)) (Parsed j)) (w_disk w))"
    by (auto simp: write_run remove_run)
  also have "\<dots> = w_disk w"
    using assms by (simp add: set_set set_same dir_del_put_fresh)
  finally show ?thesis .
qed

lemma remove_then_list:
  assumes "calm w" "remove_op k w = (r, w1)" "list_op w1 = (Inr js, w2)"
    and "\<And>n j. (n, Parsed j) \<in> set (entries (w_disk w)) \<Longrightarrow> n = path (key j)"
  shows "k \<notin> key ` set js"
proof
  assume "k \<in> key ` set js"
  then obtain j where j: "j \<in> set js" "k = key j" by auto
  from assms have "w1 = w\<lparr>w_disk := set_entries (dir_del (path k)) (w_disk w)\<rparr>"
    by (simp add: remove_run)
  with assms obtain es where es: "entries_of valid (dir_del (path k) (entries (w_disk w))) = Inr es"
    and "js = sort_key key es"
    by (auto simp: list_run entries_set rbind_Inr_iff)
  with j have "j \<in> set es" by simp
  with es obtain n where n: "(n, Parsed j) \<in> set (dir_del (path k) (entries (w_disk w)))"
    by (auto simp: set_entries_of)
  then have "(n, Parsed j) \<in> set (entries (w_disk w))" "n \<noteq> path k"
    by (auto simp: dir_del_def AList.delete_eq)
  with assms(4) j show False by blast
qed

end

text \<open>The three kinds of journals meet it.\<close>

lemma safe_disk_cases:
  assumes "\<And>c. calm c \<Longrightarrow> safe m (\<lambda>_ c'. w_disk c' \<in> D (w_disk c)) (\<lambda>_ c'. w_disk c' \<in> D (w_disk c)) c"
  shows "w_disk (snd (m w)) \<in> D (w_disk w)"
  using safe_run_world [OF assms [of "core w"], of "fst (m w)" "snd (m w)"]
  by (simp split: sum.splits)

interpretation creation_journals: journal_directory
  d_journals "\<lambda>f d. d\<lparr>d_journals := f (d_journals d)\<rparr>" "journal_path X" cj_transaction_id cj_valid
  "write_journal X root (guard_of root)" list_journals "remove_journal X root (guard_of root)"
  for X root
proof unfold_locales
  show "w_disk w' \<in> {w_disk w, (w_disk w)\<lparr>d_journals :=
      dir_put (journal_path X (cj_transaction_id j)) (Parsed j) (d_journals (w_disk w))\<rparr>}"
    if "snd (write_journal X root (guard_of root) j w) = w'" for j w w'
    unfolding that [symmetric] by (rule safe_disk_cases) (auto intro!: safe_intros)
qed simp_all

interpretation update_journals: journal_directory
  d_update_journals "\<lambda>f d. d\<lparr>d_update_journals := f (d_update_journals d)\<rparr>"
  "update_journal_path X" uj_revision_id uj_valid
  "write_update_journal X root (guard_of root)" list_update_journals
  "remove_update_journal X root (guard_of root)"
  for X root
proof unfold_locales
  show "w_disk w' \<in> {w_disk w, (w_disk w)\<lparr>d_update_journals :=
      dir_put (update_journal_path X (uj_revision_id j)) (Parsed j) (d_update_journals (w_disk w))\<rparr>}"
    if "snd (write_update_journal X root (guard_of root) j w) = w'" for j w w'
    unfolding that [symmetric] by (rule safe_disk_cases) (auto intro!: safe_intros)
qed simp_all

interpretation transition_journals: listed_directory
  d_transition_journals "\<lambda>f d. d\<lparr>d_transition_journals := f (d_transition_journals d)\<rparr>"
  "identity_transition_journal_path X" tj_operation_id tj_valid
  "write_identity_transition_journal X root (guard_of root)" list_identity_transition_journals
  for X root
proof unfold_locales
  show "w_disk w' \<in> {w_disk w, (w_disk w)\<lparr>d_transition_journals :=
      dir_put (identity_transition_journal_path X (tj_operation_id j)) (Parsed j)
        (d_transition_journals (w_disk w))\<rparr>}"
    if "snd (write_identity_transition_journal X root (guard_of root) j w) = w'" for j w w'
    unfolding that [symmetric] by (rule safe_disk_cases) (auto intro!: safe_intros)
qed simp_all

end
