(* ===== verification/Keystore.thy ===== *)
theory Keystore
  imports Registry
begin

text \<open>
  \<open>keystore.rs\<close>: the framing of secret references, sealing and opening encrypted records, and the
  file key store.
\<close>

section \<open>Names and framing\<close>

definition RECORD_SCHEMA_VERSION :: u32 where "RECORD_SCHEMA_VERSION = 1"
definition RECORD_NONCE_LEN :: nat where "RECORD_NONCE_LEN = 12"
definition RECORD_HKDF_SALT :: bytes where "RECORD_HKDF_SALT = ''anp-identity:keystore:hkdf-salt:v1''"

datatype seal_if_absent = Sealed | AlreadyExists

fun key_role_name :: "key_role \<Rightarrow> string" where
  "key_role_name RootControl = ''root-control''"
| "key_role_name DeviceSigning = ''device-signing''"
| "key_role_name RequestSigning = ''request-signing''"
| "key_role_name E2eeSigning = ''e2ee-signing''"
| "key_role_name E2eeAgreement = ''e2ee-agreement''"

definition push_field :: "string \<Rightarrow> string \<Rightarrow> bytes" where
  "push_field name value =
     name @ [CHR 0x00] @ nat_to_string (length value) @ [CHR 0x00] @ value @ [CHR 0xFF]"

definition aad_for_ref :: "u32 \<Rightarrow> secret_ref \<Rightarrow> bytes" where
  "aad_for_ref schema_version r =
     push_field ''domain'' ''anp-identity:keystore:v1''
     @ push_field ''schema'' (nat_to_string (unat schema_version))
     @ push_field ''identity'' (sr_identity_id r)
     @ push_field ''kid'' (sr_key_id r)
     @ push_field ''role'' (key_role_name (sr_role r))
     @ push_field ''version'' (nat_to_string (unat (sr_version r)))"

definition record_hash_input :: "secret_ref \<Rightarrow> bytes" where
  "record_hash_input r =
     push_field ''identity'' (sr_identity_id r)
     @ push_field ''kid'' (sr_key_id r)
     @ push_field ''role'' (key_role_name (sr_role r))
     @ push_field ''version'' (nat_to_string (unat (sr_version r)))"

definition record_storage_key :: "ext \<Rightarrow> secret_ref \<Rightarrow> string" where
  "record_storage_key X r = b64u_encode X (sha256 X (record_hash_input r))"

definition record_path :: "ext \<Rightarrow> secret_ref \<Rightarrow> string" where
  "record_path X r = json_name (record_storage_key X r)"

definition validate_secret_ref :: "secret_ref \<Rightarrow> unit did_result" where
  "validate_secret_ref r =
     ensure (\<not> (is_blank (sr_identity_id r) \<or> is_blank (sr_key_id r) \<or> sr_version r = 0))
       InvalidKidFragment"

section \<open>Encrypted records\<close>

definition derive_record_key :: "ext \<Rightarrow> bytes \<Rightarrow> bytes \<Rightarrow> bytes did_result" where
  "derive_record_key X root_key aad =
     ok_or (hkdf_sha256_expand X RECORD_HKDF_SALT root_key aad) Crypto"

definition seal_record :: "ext \<Rightarrow> bytes \<Rightarrow> secret_ref \<Rightarrow> bytes \<Rightarrow> encrypted_record io" where
  "seal_record X root_key r plaintext =
     (let aad = aad_for_ref RECORD_SCHEMA_VERSION r in
      bnd (lift (derive_record_key X root_key aad)) (\<lambda>record_key.
      bnd (fill_bytes RECORD_NONCE_LEN) (\<lambda>nonce.
      bnd (lift (ok_or (chacha20poly1305_encrypt X record_key nonce aad plaintext) Crypto)) (\<lambda>ciphertext.
      bnd (now_rfc3339 X) (\<lambda>created_at.
      ret \<lparr>er_schema_version = RECORD_SCHEMA_VERSION, er_secret_ref = r,
           er_cipher = ''chacha20-poly1305'', er_kdf = ''hkdf-sha256'',
           er_nonce_b64u = b64u_encode X nonce, er_aad_b64u = b64u_encode X aad,
           er_ciphertext_b64u = b64u_encode X ciphertext, er_created_at = created_at\<rparr>)))))"

definition open_record :: "ext \<Rightarrow> bytes \<Rightarrow> encrypted_record \<Rightarrow> bytes did_result" where
  "open_record X root_key e =
     rbind (ensure (er_schema_version e = RECORD_SCHEMA_VERSION
                    \<and> er_cipher e = ''chacha20-poly1305'' \<and> er_kdf e = ''hkdf-sha256'')
              CorruptRecord) (\<lambda>_.
     (let aad = aad_for_ref (er_schema_version e) (er_secret_ref e) in
      rbind (ensure (b64u_encode X aad = er_aad_b64u e) CorruptRecord) (\<lambda>_.
      rbind (ok_or (b64u_decode X (er_nonce_b64u e)) CorruptRecord) (\<lambda>nonce.
      rbind (ensure (length nonce = RECORD_NONCE_LEN) CorruptRecord) (\<lambda>_.
      rbind (ok_or (b64u_decode X (er_ciphertext_b64u e)) CorruptRecord) (\<lambda>ciphertext.
      rbind (derive_record_key X root_key aad) (\<lambda>record_key.
        ok_or (chacha20poly1305_decrypt X record_key nonce aad ciphertext) CorruptRecord)))))))"

section \<open>The file key store\<close>

record file_key_store =
  fk_store_root :: string
  fk_records_root :: string

definition file_key_store_new :: "string \<Rightarrow> file_key_store" where
  "file_key_store_new store_root =
     \<lparr>fk_store_root = store_root, fk_records_root = store_root @ ''/records''\<rparr>"

definition ks_seal_if_absent ::
  "ext \<Rightarrow> file_key_store \<Rightarrow> store_write_guard \<Rightarrow> bytes \<Rightarrow> secret_ref \<Rightarrow> bytes \<Rightarrow> seal_if_absent io" where
  "ks_seal_if_absent X ks guard root_key r plaintext =
     bnd (lift (require_store guard (fk_store_root ks))) (\<lambda>_.
     bnd (lift (validate_secret_ref r)) (\<lambda>_.
     bnd ensure_private_dir (\<lambda>_.
     bnd (path_exists (\<lambda>d. dir_get (d_records d) (record_path X r) \<noteq> None)) (\<lambda>found.
       if found then ret AlreadyExists
       else bnd (seal_record X root_key r plaintext) (\<lambda>e.
         bnd (write_atomic_private (\<lambda>d. d\<lparr>d_records :=
                dir_put (record_path X r) (Parsed e) (d_records d)\<rparr>)) (\<lambda>_.
         ret Sealed))))))"

fun decode_record ::
  "ext \<Rightarrow> bytes \<Rightarrow> secret_ref \<Rightarrow> encrypted_record content option \<Rightarrow> bytes did_result" where
  "decode_record X root_key r None = Inl SecretNotFound"
| "decode_record X root_key r (Some Unparsable) = Inl CorruptRecord"
| "decode_record X root_key r (Some (Parsed e)) =
     (if er_secret_ref e \<noteq> r then Inl CorruptRecord else open_record X root_key e)"

definition ks_open :: "ext \<Rightarrow> bytes \<Rightarrow> secret_ref \<Rightarrow> bytes io" where
  "ks_open X root_key r =
     bnd (lift (validate_secret_ref r)) (\<lambda>_.
     bnd (read_file (\<lambda>d. dir_get (d_records d) (record_path X r))) (\<lambda>c.
       lift (decode_record X root_key r c)))"

definition ks_delete :: "ext \<Rightarrow> file_key_store \<Rightarrow> store_write_guard \<Rightarrow> secret_ref \<Rightarrow> unit io" where
  "ks_delete X ks guard r =
     bnd (lift (require_store guard (fk_store_root ks))) (\<lambda>_.
       remove_if_exists (\<lambda>d. d\<lparr>d_records := dir_del (record_path X r) (d_records d)\<rparr>))"

section \<open>The framing is injective\<close>

lemma key_role_name_inject [simp]: "key_role_name a = key_role_name b \<longleftrightarrow> a = b"
  by (cases a; cases b) simp_all

lemma nat_to_string_no_nul: "CHR 0x00 \<notin> set (nat_to_string n)"
proof
  assume "CHR 0x00 \<in> set (nat_to_string n)"
  then have "is_ascii_digit (CHR 0x00)" by (rule nat_to_string_digits)
  then show False by (simp add: is_ascii_digit_def code_def)
qed

lemma push_field_inject:
  "push_field name v @ rest = push_field name v' @ rest' \<longleftrightarrow> v = v' \<and> rest = rest'"
  (is "?l \<longleftrightarrow> ?r")
proof
  assume ?l
  then have eq: "nat_to_string (length v) @ CHR 0x00 # (v @ CHR 0xFF # rest)
      = nat_to_string (length v') @ CHR 0x00 # (v' @ CHR 0xFF # rest')"
    by (simp add: push_field_def)
  from append_sep_inject [OF nat_to_string_no_nul nat_to_string_no_nul eq]
  have len: "length v = length v'" and app: "v @ CHR 0xFF # rest = v' @ CHR 0xFF # rest'" by simp_all
  from app [unfolded append_eq_append_conv [OF disjI1, OF len]] show ?r by simp
qed simp

lemma unat_to_string_inject: "nat_to_string (unat a) = nat_to_string (unat b) \<longleftrightarrow> a = b"
  by (simp add: word_unat_eq_iff)

lemma push_field_inject_last:
  "push_field name v = push_field name v' \<longleftrightarrow> v = v'"
  using push_field_inject [of name v "[]" v' "[]"] by simp

lemmas framing_inject = push_field_inject push_field_inject_last unat_to_string_inject

lemma record_hash_input_inject: "record_hash_input r = record_hash_input r' \<longleftrightarrow> r = r'"
  by (auto simp: record_hash_input_def framing_inject simp flip: word_unat_eq_iff intro: secret_ref.equality)

section \<open>Reading and writing\<close>

text \<open>What the code relies on of base64 and of the AEAD: decoding undoes encoding.\<close>

definition codec_ok :: "ext \<Rightarrow> bool" where
  "codec_ok X \<longleftrightarrow>
     (\<forall>b. b64u_decode X (b64u_encode X b) = Some b)
     \<and> (\<forall>k n a m c. chacha20poly1305_encrypt X k n a m = Some c
           \<longrightarrow> chacha20poly1305_decrypt X k n a c = Some m)"

text \<open>The random source fills buffers of the length asked for.\<close>

definition fills :: "world \<Rightarrow> bool" where
  "fills w \<longleftrightarrow> (\<forall>i n. length (w_random w i n) = n)"

abbreviation secret_at :: "ext \<Rightarrow> bytes \<Rightarrow> disk \<Rightarrow> secret_ref \<Rightarrow> bytes did_result" where
  "secret_at X root_key d r \<equiv> decode_record X root_key r (dir_get (d_records d) (record_path X r))"

lemma seal_record_Inr:
  assumes "seal_record X k r m w = (Inr e, w')"
  obtains key c where
    "derive_record_key X k (aad_for_ref RECORD_SCHEMA_VERSION r) = Inr key"
    "chacha20poly1305_encrypt X key (w_random w (w_draws w) RECORD_NONCE_LEN)
       (aad_for_ref RECORD_SCHEMA_VERSION r) m = Some c"
    "er_schema_version e = RECORD_SCHEMA_VERSION" "er_secret_ref e = r"
    "er_cipher e = ''chacha20-poly1305''" "er_kdf e = ''hkdf-sha256''"
    "er_nonce_b64u e = b64u_encode X (w_random w (w_draws w) RECORD_NONCE_LEN)"
    "er_aad_b64u e = b64u_encode X (aad_for_ref RECORD_SCHEMA_VERSION r)"
    "er_ciphertext_b64u e = b64u_encode X c" "w_disk w' = w_disk w"
  using assms that
  by (auto simp: seal_record_def Let_def bnd_Inr_iff lift_def ret_def now_rfc3339_def)

lemma seal_record_opens:
  assumes "codec_ok X" "fills w" "seal_record X k r m w = (Inr e, w')"
  shows "open_record X k e = Inr m" "er_secret_ref e = r" "w_disk w' = w_disk w"
proof -
  have dec: "b64u_decode X (b64u_encode X b) = Some b" for b
    using assms(1) by (simp add: codec_ok_def)
  have len: "length (w_random w i n) = n" for i n using assms(2) by (simp add: fills_def)
  show "open_record X k e = Inr m"
    using assms(3)
  proof (rule seal_record_Inr)
    fix key c
    assume *: "derive_record_key X k (aad_for_ref RECORD_SCHEMA_VERSION r) = Inr key"
      "chacha20poly1305_encrypt X key (w_random w (w_draws w) RECORD_NONCE_LEN)
         (aad_for_ref RECORD_SCHEMA_VERSION r) m = Some c"
      "er_schema_version e = RECORD_SCHEMA_VERSION" "er_secret_ref e = r"
      "er_cipher e = ''chacha20-poly1305''" "er_kdf e = ''hkdf-sha256''"
      "er_nonce_b64u e = b64u_encode X (w_random w (w_draws w) RECORD_NONCE_LEN)"
      "er_aad_b64u e = b64u_encode X (aad_for_ref RECORD_SCHEMA_VERSION r)"
      "er_ciphertext_b64u e = b64u_encode X c"
    from assms(1) *(2) have "chacha20poly1305_decrypt X key (w_random w (w_draws w) RECORD_NONCE_LEN)
        (aad_for_ref RECORD_SCHEMA_VERSION r) c = Some m"
      unfolding codec_ok_def by blast
    with * show ?thesis by (simp add: open_record_def dec len)
  qed
  show "er_secret_ref e = r" "w_disk w' = w_disk w"
    using assms(3) by (auto elim: seal_record_Inr)
qed

lemma disk_pure_seal_record [pure_intros]: "disk_pure (seal_record X k r m)"
  unfolding seal_record_def Let_def by (intro pure_intros)

lemma ks_open_calm [simp]:
  "calm w \<Longrightarrow> ks_open X k r w =
     (rbind (validate_secret_ref r) (\<lambda>_. secret_at X k (w_disk w) r), w)"
  by (simp add: ks_open_def bnd_def lift_def split: sum.split)

lemma ks_delete_calm [simp]:
  "calm w \<Longrightarrow> fk_store_root ks = root \<Longrightarrow> ks_delete X ks (guard_of root) r w =
     (Inr (), w\<lparr>w_disk := (w_disk w)\<lparr>d_records := dir_del (record_path X r) (d_records (w_disk w))\<rparr>\<rparr>)"
  by (simp add: ks_delete_def require_store_def)

lemma ks_delete_all_calm [simp]:
  assumes "calm w" "fk_store_root ks = root"
  shows "foreach (ks_delete X ks (guard_of root)) rs w = (Inr (), w\<lparr>w_disk := (w_disk w)\<lparr>d_records :=
     without (record_path X ` set rs) (d_records (w_disk w))\<rparr>\<rparr>)"
  using assms
proof (induction rs arbitrary: w)
  case (Cons r rs)
  then show ?case
    by (simp add: without_without flip: without_del)
qed (simp add: ret_def)

lemma ks_seal_absent_calm:
  assumes "calm w" "fk_store_root ks = root" "validate_secret_ref r = Inr ()"
    "dir_get (d_records (w_disk w)) (record_path X r) = None"
  shows "ks_seal_if_absent X ks (guard_of root) k r m w =
    bnd (seal_record X k r m) (\<lambda>e. bnd (write_atomic_private (\<lambda>d. d\<lparr>d_records :=
      dir_put (record_path X r) (Parsed e) (d_records d)\<rparr>)) (\<lambda>_. ret Sealed)) w"
  using assms by (simp add: ks_seal_if_absent_def require_store_def)

lemma ks_seal_present_calm:
  assumes "calm w" "fk_store_root ks = root" "validate_secret_ref r = Inr ()"
    "dir_get (d_records (w_disk w)) (record_path X r) \<noteq> None"
  shows "ks_seal_if_absent X ks (guard_of root) k r m w = (Inr AlreadyExists, w)"
  using assms by (simp add: ks_seal_if_absent_def require_store_def ret_def)

lemma safe_ks_open [safe_intros]:
  assumes "calm c" "validate_secret_ref r = Inl InvalidKidFragment \<Longrightarrow> E InvalidKidFragment c"
    "\<And>m. secret_at X k (w_disk c) r = Inr m \<Longrightarrow> Q m c"
    "\<And>e. secret_at X k (w_disk c) r = Inl e \<Longrightarrow> E e c" "\<And>msg. E (Io msg) c"
  shows "safe (ks_open X k r) Q E c"
  unfolding ks_open_def using assms
  by (auto intro!: safe_intros simp: validate_secret_ref_def)

lemma safe_ks_delete [safe_intros]:
  assumes "calm c" "fk_store_root ks = root"
    "Q () (c\<lparr>w_disk := (w_disk c)\<lparr>d_records := dir_del (record_path X r) (d_records (w_disk c))\<rparr>\<rparr>)"
    "\<And>msg. E (Io msg) c"
  shows "safe (ks_delete X ks (guard_of root) r) Q E c"
  unfolding ks_delete_def using assms by (auto intro!: safe_intros)

lemma safe_ks_seal:
  assumes "calm c" "fk_store_root ks = root"
    and errs: "\<And>e c'. calm c' \<Longrightarrow> w_disk c' = w_disk c \<Longrightarrow> w_random c' = w_random c \<Longrightarrow> E e c'"
    and found: "dir_get (d_records (w_disk c)) (record_path X r) \<noteq> None \<Longrightarrow> Q AlreadyExists c"
    and sealed: "\<And>e c' d'. calm c' \<Longrightarrow> w_disk c' = w_disk c \<Longrightarrow> w_random c' = w_random c
        \<Longrightarrow> d' = (w_disk c)\<lparr>d_records := dir_put (record_path X r) (Parsed e) (d_records (w_disk c))\<rparr>
        \<Longrightarrow> Q Sealed (c'\<lparr>w_disk := d'\<rparr>) \<and> (\<forall>msg. E (Io msg) (c'\<lparr>w_disk := d'\<rparr>))"
  shows "safe (ks_seal_if_absent X ks (guard_of root) k r m) Q E c"
proof -
  have wr: "safe (bnd (seal_record X k r m) (\<lambda>e.
      bnd (write_atomic_private (\<lambda>d. d\<lparr>d_records :=
        dir_put (record_path X r) (Parsed e) (d_records d)\<rparr>)) (\<lambda>_. ret Sealed))) Q E c"
    using assms(1)
    by (intro safe_bnd safe_disk_pure pure_intros)
       (auto intro!: safe_intros simp: sealed errs)
  show ?thesis
    unfolding ks_seal_if_absent_def
    using assms(1,2) wr found errs by (auto intro!: safe_intros)
qed

section \<open>The contract of a secret store\<close>

text \<open>
  What the operations on identities rely on: a sealed secret opens to what was sealed, sealing
  never replaces a secret, deleting makes a secret unknown, and neither touches another secret.
\<close>

locale secret_store =
  fixes seal :: "secret_ref \<Rightarrow> bytes \<Rightarrow> seal_if_absent io"
    and get :: "secret_ref \<Rightarrow> bytes io"
    and del :: "secret_ref \<Rightarrow> unit io"
    and name :: "secret_ref \<Rightarrow> string"
    and valid :: "secret_ref \<Rightarrow> bool"
    and ready :: "world \<Rightarrow> bool"
  assumes seal_ready: "ready w \<Longrightarrow> seal r m w = (s, w') \<Longrightarrow> ready w'"
    and seal_get: "ready w \<Longrightarrow> seal r m w = (Inr Sealed, w') \<Longrightarrow> get r w' = (Inr m, w')"
    and seal_present: "ready w \<Longrightarrow> valid r \<Longrightarrow> fst (get r w) \<noteq> Inl SecretNotFound
      \<Longrightarrow> seal r m w = (Inr AlreadyExists, w)"
    and seal_absent: "ready w \<Longrightarrow> fst (get r w) = Inl SecretNotFound
      \<Longrightarrow> fst (seal r m w) \<noteq> Inr AlreadyExists"
    and seal_frame: "ready w \<Longrightarrow> seal r m w = (s, w') \<Longrightarrow> name r' \<noteq> name r
      \<Longrightarrow> fst (get r' w') = fst (get r' w)"
    and del_run: "ready w \<Longrightarrow> \<exists>w'. del r w = (Inr (), w') \<and> ready w'"
    and del_get: "ready w \<Longrightarrow> valid r \<Longrightarrow> del r w = (u, w') \<Longrightarrow> fst (get r w') = Inl SecretNotFound"
    and del_frame: "ready w \<Longrightarrow> valid r' \<Longrightarrow> del r w = (u, w')
      \<Longrightarrow> fst (get r' w') \<in> {fst (get r' w), Inl SecretNotFound}"
    and del_other: "ready w \<Longrightarrow> del r w = (u, w') \<Longrightarrow> name r' \<noteq> name r
      \<Longrightarrow> fst (get r' w') = fst (get r' w)"
begin

lemma del_all_run:
  "ready w \<Longrightarrow> \<exists>w'. foreach del rs w = (Inr (), w') \<and> ready w'"
proof (induction rs arbitrary: w)
  case (Cons r rs)
  from del_run [OF Cons.prems, of r] obtain w1 where w1: "del r w = (Inr (), w1)" "ready w1" by blast
  with Cons.IH [OF w1(2)] show ?case by auto
qed (simp add: ret_def)

lemma del_all_keeps_unknown:
  "ready w \<Longrightarrow> valid r \<Longrightarrow> fst (get r w) = Inl SecretNotFound \<Longrightarrow> foreach del rs w = (s, w')
   \<Longrightarrow> fst (get r w') = Inl SecretNotFound"
proof (induction rs arbitrary: w)
  case (Cons r' rs)
  from del_run [OF Cons.prems(1), of r'] obtain w1 where w1: "del r' w = (Inr (), w1)" "ready w1"
    by blast
  have "fst (get r w1) = Inl SecretNotFound"
    using del_frame [OF Cons.prems(1,2) w1(1)] Cons.prems(3) by auto
  with Cons.IH [OF w1(2) Cons.prems(2)] Cons.prems(4) w1(1) show ?case by simp
qed (simp add: ret_def)

lemma del_all_unknown:
  "ready w \<Longrightarrow> r \<in> set rs \<Longrightarrow> valid r \<Longrightarrow> foreach del rs w = (s, w')
   \<Longrightarrow> fst (get r w') = Inl SecretNotFound"
proof (induction rs arbitrary: w)
  case (Cons r' rs)
  from del_run [OF Cons.prems(1), of r'] obtain w1 where w1: "del r' w = (Inr (), w1)" "ready w1"
    by blast
  from Cons.prems(4) w1(1) have rest: "foreach del rs w1 = (s, w')" by simp
  show ?case
  proof (cases "r = r'")
    case True
    with del_get [OF Cons.prems(1,3)] w1(1) have "fst (get r w1) = Inl SecretNotFound" by blast
    from del_all_keeps_unknown [OF w1(2) Cons.prems(3) this rest] show ?thesis .
  next
    case False
    with Cons.IH [OF w1(2) _ Cons.prems(3) rest] Cons.prems(2) show ?thesis by simp
  qed
qed simp

lemma del_all_other:
  "ready w \<Longrightarrow> foreach del rs w = (s, w') \<Longrightarrow> name r' \<notin> name ` set rs
   \<Longrightarrow> fst (get r' w') = fst (get r' w)"
proof (induction rs arbitrary: w)
  case (Cons r rs)
  from del_run [OF Cons.prems(1), of r] obtain w1 where w1: "del r w = (Inr (), w1)" "ready w1" by blast
  with Cons.IH [OF w1(2)] Cons.prems(2,3) del_other [OF Cons.prems(1) w1(1), of r'] show ?case by auto
qed (simp add: ret_def)

text \<open>Sealing fresh secrets one after the other, whatever is done with those that exist.\<close>

definition seal_new :: "(secret_ref \<Rightarrow> bytes \<Rightarrow> unit io) \<Rightarrow> secret_ref \<times> bytes \<Rightarrow> unit io" where
  "seal_new check p =
     bnd (seal (fst p) (snd p)) (\<lambda>s. if s = AlreadyExists then check (fst p) (snd p) else ret ())"

lemma seal_new_Inr:
  assumes "ready w" "fst (get r w) = Inl SecretNotFound" "seal_new check (r, m) w = (Inr u, w')"
  shows "seal r m w = (Inr Sealed, w')"
proof -
  from assms(3) obtain s w1 where s: "seal r m w = (Inr s, w1)"
    and rest: "(if s = AlreadyExists then check r m else ret ()) w1 = (Inr u, w')"
    unfolding seal_new_def fst_conv snd_conv bnd_Inr_iff by blast
  with seal_absent [OF assms(1,2), of m] have "s \<noteq> AlreadyExists" by auto
  with s rest show ?thesis by (cases s) (auto simp: ret_def)
qed

lemma seal_all_get:
  assumes "ready w" "distinct (map name (map fst ps))"
    and "\<And>r m. (r, m) \<in> set ps \<Longrightarrow> fst (get r w) = Inl SecretNotFound"
    and "foreach (seal_new check) ps w = (Inr u, w')"
  shows "ready w' \<and> (\<forall>(r, m) \<in> set ps. fst (get r w') = Inr m)
     \<and> (\<forall>r'. name r' \<notin> name ` fst ` set ps \<longrightarrow> fst (get r' w') = fst (get r' w))"
  using assms
proof (induction ps arbitrary: w)
  case (Cons p ps)
  obtain r m where p: "p = (r, m)" by (cases p)
  from Cons.prems(4) obtain w1 where w1: "seal_new check (r, m) w = (Inr (), w1)"
    and rest: "foreach (seal_new check) ps w1 = (Inr u, w')"
    by (auto simp: p bnd_Inr_iff)
  have fresh: "fst (get r w) = Inl SecretNotFound" using Cons.prems(3) [of r m] p by simp
  note seal = seal_new_Inr [OF Cons.prems(1) fresh w1]
  note frame = seal_frame [OF Cons.prems(1) seal]
  have "ready w1" using seal_ready [OF Cons.prems(1) seal] .
  moreover have "fst (get r' w1) = Inl SecretNotFound" if "(r', m') \<in> set ps" for r' m'
    using that Cons.prems(2,3) frame [of r'] p by force
  ultimately have IH: "ready w' \<and> (\<forall>(r, m) \<in> set ps. fst (get r w') = Inr m)
      \<and> (\<forall>r'. name r' \<notin> name ` fst ` set ps \<longrightarrow> fst (get r' w') = fst (get r' w1))"
    using Cons.prems(2) rest by (intro Cons.IH) auto
  moreover have "name r \<notin> name ` fst ` set ps" using Cons.prems(2) by (force simp: p)
  with IH have "fst (get r w') = Inr m" using seal_get [OF Cons.prems(1) seal] by simp
  ultimately show ?case using frame by (auto simp: p)
qed (simp add: ret_def)

end

lemma secret_at_not_found: "secret_at X k d r = Inl SecretNotFound \<longleftrightarrow> dir_get (d_records d) (record_path X r) = None"
proof (cases "dir_get (d_records d) (record_path X r)")
  case (Some c)
  then show ?thesis
    by (cases c) (auto simp: open_record_def derive_record_key_def Let_def rbind_Inl_iff)
qed simp

abbreviation store_ready :: "ext \<Rightarrow> world \<Rightarrow> bool" where
  "store_ready X w \<equiv> calm w \<and> codec_ok X \<and> fills w"

lemma disk_pure_calm:
  assumes "disk_pure m" "calm w" "m w = (r, w')"
  shows "calm w'" "fills w' = fills w"
proof -
  have "w\<lparr>w_faults := []\<rparr> = w" using assms(2) by (simp add: calm_def)
  with disk_pureD(4) [OF assms(1,3), of "[]"] assms(3) have "w' = w'\<lparr>w_faults := []\<rparr>" by simp
  then have "w_faults w' = w_faults (w'\<lparr>w_faults := []\<rparr>)" by (rule arg_cong)
  then show "calm w'" by (simp add: calm_def)
  show "fills w' = fills w" using disk_pureD(2) [OF assms(1,3)] by (simp add: fills_def)
qed

lemma ks_seal_cases:
  assumes "calm w" "fk_store_root ks = root" "ks_seal_if_absent X ks (guard_of root) k r m w = (s, w')"
  obtains (invalid) e where "s = Inl e" "validate_secret_ref r = Inl e" "w' = w"
  | (present) "s = Inr AlreadyExists" "w' = w" "validate_secret_ref r = Inr ()"
      "dir_get (d_records (w_disk w)) (record_path X r) \<noteq> None"
  | (failed) e where "s = Inl e" "seal_record X k r m w = (Inl e, w')"
      "dir_get (d_records (w_disk w)) (record_path X r) = None"
  | (sealed) e w1 where "s = Inr Sealed" "seal_record X k r m w = (Inr e, w1)"
      "w' = w1\<lparr>w_disk := (w_disk w)\<lparr>d_records := dir_put (record_path X r) (Parsed e) (d_records (w_disk w))\<rparr>\<rparr>"
      "validate_secret_ref r = Inr ()" "dir_get (d_records (w_disk w)) (record_path X r) = None"
proof (cases "validate_secret_ref r")
  case (Inl e)
  then show thesis
    using assms invalid [of e] by (auto simp add: ks_seal_if_absent_def require_store_def raise_def)
next
  case (Inr u)
  show thesis
  proof (cases "dir_get (d_records (w_disk w)) (record_path X r)")
    case (Some c)
    with ks_seal_present_calm [OF assms(1,2), of r X k m] Inr assms(3) present show thesis by simp
  next
    case None
    obtain q w1 where q: "seal_record X k r m w = (q, w1)" by (cases "seal_record X k r m w")
    have "calm w1" "w_disk w1 = w_disk w"
      using disk_pure_calm [OF disk_pure_seal_record assms(1) q] disk_pureD [OF disk_pure_seal_record q]
      by simp_all
    then show thesis
      using ks_seal_absent_calm [OF assms(1,2) _ None, of k m] Inr assms(3) q failed sealed None
      by (cases q) (auto simp: ret_def)
  qed
qed

lemma fills_disk [simp]: "fills (w\<lparr>w_disk := d\<rparr>) = fills w"
  by (simp add: fills_def)

lemma fk_root_new [simp]: "fk_store_root (file_key_store_new root) = root"
  by (simp add: file_key_store_new_def)

abbreviation ks_seal :: "ext \<Rightarrow> string \<Rightarrow> bytes \<Rightarrow> secret_ref \<Rightarrow> bytes \<Rightarrow> seal_if_absent io" where
  "ks_seal X root k \<equiv> ks_seal_if_absent X (file_key_store_new root) (guard_of root) k"

lemmas seal_record_calm = disk_pure_calm [OF disk_pure_seal_record]
lemmas seal_record_disk = disk_pureD [OF disk_pure_seal_record]

lemma ks_seal_ready:
  assumes "store_ready X w" "ks_seal X root k r m w = (s, w')"
  shows "store_ready X w'"
proof -
  from assms(1) have calm: "calm w" by simp
  from calm fk_root_new assms(2) show ?thesis
  proof (cases rule: ks_seal_cases)
    case (failed e)
    with seal_record_calm [OF calm failed(2)] assms(1) show ?thesis by simp
  next
    case (sealed e w1)
    with seal_record_calm [OF calm sealed(2)] assms(1) show ?thesis by simp
  qed (use assms(1) in simp_all)
qed

lemma ks_seal_opens:
  assumes "store_ready X w" "ks_seal X root k r m w = (Inr Sealed, w')"
  shows "ks_open X k r w' = (Inr m, w')"
proof -
  from assms(1) have calm: "calm w" by simp
  from calm fk_root_new assms(2) show ?thesis
  proof (cases rule: ks_seal_cases)
    case (sealed e w1)
    with seal_record_calm [OF calm sealed(2)] seal_record_opens [OF _ _ sealed(2)] assms(1)
    show ?thesis by (simp add: dir_get_put)
  qed simp_all
qed

lemma ks_seal_fresh:
  assumes "store_ready X w" "fst (ks_open X k r w) = Inl SecretNotFound"
  shows "fst (ks_seal X root k r m w) \<noteq> Inr AlreadyExists"
proof -
  from assms(1) have calm: "calm w" by simp
  have none: "validate_secret_ref r = Inr () \<Longrightarrow> dir_get (d_records (w_disk w)) (record_path X r) = None"
    using assms by (simp add: secret_at_not_found)
  from calm fk_root_new prod.collapse [symmetric, of "ks_seal X root k r m w"] show ?thesis
    by (cases rule: ks_seal_cases) (use none in simp_all)
qed

lemma ks_seal_frame:
  assumes "store_ready X w" "ks_seal X root k r m w = (s, w')" "record_path X r' \<noteq> record_path X r"
  shows "fst (ks_open X k r' w') = fst (ks_open X k r' w)"
proof -
  from assms(1) have calm: "calm w" by simp
  from calm fk_root_new assms(2) show ?thesis
  proof (cases rule: ks_seal_cases)
    case (failed e)
    with seal_record_calm [OF calm failed(2)] seal_record_disk [OF failed(2)] calm
    show ?thesis by simp
  next
    case (sealed e w1)
    with seal_record_calm [OF calm sealed(2)] calm assms(3) show ?thesis by (simp add: dir_get_put)
  qed simp_all
qed

lemma ks_seal_present:
  assumes "store_ready X w" "validate_secret_ref r = Inr ()" "fst (ks_open X k r w) \<noteq> Inl SecretNotFound"
  shows "ks_seal X root k r m w = (Inr AlreadyExists, w)"
  using assms by (intro ks_seal_present_calm) (auto simp: secret_at_not_found)

lemma ks_delete_other:
  assumes "store_ready X w" "ks_delete X (file_key_store_new root) (guard_of root) r w = (u, w')"
    "record_path X r' \<noteq> record_path X r"
  shows "fst (ks_open X k r' w') = fst (ks_open X k r' w)"
proof -
  from assms(1,2) have "w' = w\<lparr>w_disk := (w_disk w)\<lparr>d_records := dir_del (record_path X r) (d_records (w_disk w))\<rparr>\<rparr>"
    by simp
  with assms(1,3) show ?thesis by (simp add: dir_get_del)
qed

lemma ks_delete_get:
  assumes "store_ready X w" "validate_secret_ref r' = Inr ()"
    "ks_delete X (file_key_store_new root) (guard_of root) r w = (u, w')"
  shows "fst (ks_open X k r' w') =
    (if record_path X r' = record_path X r then Inl SecretNotFound else fst (ks_open X k r' w))"
proof -
  from assms have "w' = w\<lparr>w_disk := (w_disk w)\<lparr>d_records := dir_del (record_path X r) (d_records (w_disk w))\<rparr>\<rparr>"
    by simp
  with assms(1,2) show ?thesis by (simp add: dir_get_del)
qed

interpretation ks: secret_store
  "ks_seal X root k" "ks_open X k" "ks_delete X (file_key_store_new root) (guard_of root)"
  "record_path X" "\<lambda>r. validate_secret_ref r = Inr ()" "store_ready X"
  for X root k
proof (unfold_locales, goal_cases)
  case (6 w r)
  then show ?case by simp
next
  case (7 w r u w')
  then show ?case using ks_delete_get [OF 7] by simp
next
  case (8 w r' r u w')
  then show ?case using ks_delete_get [OF 8] by simp
qed (rule ks_seal_ready ks_seal_opens ks_seal_present ks_seal_fresh ks_seal_frame ks_delete_other; assumption)+

end
