(* ===== verification/Store.thy ===== *)
theory Store
  imports Keystore
begin

text \<open>
  \<open>platform.rs\<close>, \<open>manifest.rs\<close> and \<open>store.rs\<close>: root-key providers, the manifest that pins the
  provider and the fingerprint of the root key, and the runtime of an open store.
\<close>

section \<open>Root keys and providers\<close>

definition ROOT_KEY_LEN :: nat where "ROOT_KEY_LEN = 32"

definition root_key_generate :: "bytes io" where
  "root_key_generate = fill_bytes ROOT_KEY_LEN"

text \<open>\<open>u8::is_ascii_whitespace\<close>.\<close>

definition is_ascii_whitespace :: "char \<Rightarrow> bool" where
  "is_ascii_whitespace c \<longleftrightarrow> code c \<in> {9, 10, 12, 13, 32}"

definition trim_ascii_whitespace :: "bytes \<Rightarrow> bytes" where
  "trim_ascii_whitespace value =
     rev (dropWhile is_ascii_whitespace (rev (dropWhile is_ascii_whitespace value)))"

definition decode_root_key :: "ext \<Rightarrow> bytes \<Rightarrow> bytes did_result" where
  "decode_root_key X encoded =
     rbind (ok_or (b64u_decode X (trim_ascii_whitespace encoded)) RootKeyMismatch) (\<lambda>b.
     rbind (ensure (length b = ROOT_KEY_LEN) RootKeyMismatch) (\<lambda>_. Inr b))"

definition root_key_verifier :: "ext \<Rightarrow> bytes \<Rightarrow> string" where
  "root_key_verifier X root_key =
     b64u_encode X (sha256 X (''anp-identity:root-key-verifier:v1'' @ root_key))"

text \<open>The trait \<open>RootKeyProvider\<close>: a record of its three methods.\<close>

record root_key_provider =
  pv_binding :: root_key_provider_binding
  load_existing :: "bytes io"
  create_if_missing :: "store_write_guard \<Rightarrow> bytes io"

definition injected_provider :: "string \<Rightarrow> bytes \<Rightarrow> root_key_provider" where
  "injected_provider key_id root_key =
     \<lparr>pv_binding = \<lparr>pb_kind = Injected, pb_key_id = key_id, pb_account = None\<rparr>,
      load_existing = ret root_key, create_if_missing = (\<lambda>_. ret root_key)\<rparr>"

text \<open>The environment is an argument: the value of each variable that is set.\<close>

definition injected_from_env ::
  "ext \<Rightarrow> (string \<Rightarrow> string option) \<Rightarrow> string \<Rightarrow> string \<Rightarrow> root_key_provider did_result" where
  "injected_from_env X env key_id name =
     rbind (ok_or (env name) ProviderUnavailable) (\<lambda>encoded.
     rbind (decode_root_key X encoded) (\<lambda>b. Inr (injected_provider key_id b)))"

text \<open>The root-key file with its permission bits; 384 is octal 600.\<close>

definition require_private_file_mode :: "nat \<Rightarrow> unit did_result" where
  "require_private_file_mode mode = ensure (mode mod 512 = 384) ProviderUnavailable"

definition file_provider_read :: "ext \<Rightarrow> bytes io" where
  "file_provider_read X =
     bnd (mapio_err (\<lambda>_. ProviderUnavailable) (read_file d_root_key_file)) (\<lambda>content.
     bnd (lift (ok_or content ProviderUnavailable)) (\<lambda>(encoded, mode).
     bnd (syscall (\<lambda>d. d)) (\<lambda>_.
     bnd (lift (require_private_file_mode mode)) (\<lambda>_.
       lift (decode_root_key X encoded)))))"

definition write_private_if_absent :: "(disk \<Rightarrow> bool) \<Rightarrow> (disk \<Rightarrow> disk) \<Rightarrow> bool io" where
  "write_private_if_absent present f =
     bnd (path_exists present) (\<lambda>found.
       if found then ret False else bnd (write_atomic_private f) (\<lambda>_. ret True))"

text \<open>\<open>parent\<close> is the directory of the key file.\<close>

definition file_provider :: "ext \<Rightarrow> string \<Rightarrow> string \<Rightarrow> root_key_provider" where
  "file_provider X key_id parent =
     \<lparr>pv_binding = \<lparr>pb_kind = LocalPrivateFile, pb_key_id = key_id, pb_account = None\<rparr>,
      load_existing = file_provider_read X,
      create_if_missing = (\<lambda>guard.
        bnd (lift (require_store guard parent)) (\<lambda>_.
        bnd (path_exists (\<lambda>d. d_root_key_file d \<noteq> None)) (\<lambda>found.
          if found then file_provider_read X
          else bnd root_key_generate (\<lambda>root_key.
               bnd (write_private_if_absent (\<lambda>d. d_root_key_file d \<noteq> None)
                      (\<lambda>d. d\<lparr>d_root_key_file := Some (b64u_encode X root_key, 384)\<rparr>)) (\<lambda>written.
                 if \<not> written then file_provider_read X else ret root_key)))))\<rparr>"

text \<open>The operating system's keyring: opening an entry, reading it (\<open>None\<close>: no entry), writing it.\<close>

record keyring =
  kr_entry :: "string \<Rightarrow> string \<Rightarrow> unit io"
  kr_get_password :: "string \<Rightarrow> string \<Rightarrow> string option io"
  kr_set_password :: "string \<Rightarrow> string \<Rightarrow> string \<Rightarrow> unit io"

definition keyring_provider :: "ext \<Rightarrow> keyring \<Rightarrow> string \<Rightarrow> string \<Rightarrow> root_key_provider" where
  "keyring_provider X kr service account =
     (let unavailable = (\<lambda>_. ProviderUnavailable) in
     \<lparr>pv_binding = \<lparr>pb_kind = OsKeyring, pb_key_id = service, pb_account = Some account\<rparr>,
      load_existing =
        bnd (mapio_err unavailable (kr_entry kr service account)) (\<lambda>_.
        bnd (mapio_err unavailable (kr_get_password kr service account)) (\<lambda>password.
        bnd (lift (ok_or password ProviderUnavailable)) (\<lambda>value.
          lift (decode_root_key X value)))),
      create_if_missing = (\<lambda>_.
        bnd (mapio_err unavailable (kr_entry kr service account)) (\<lambda>_.
        bnd (mapio_err unavailable (kr_get_password kr service account)) (\<lambda>password.
          case password of
            Some value \<Rightarrow> lift (decode_root_key X value)
          | None \<Rightarrow>
              bnd root_key_generate (\<lambda>root_key.
              bnd (mapio_err unavailable
                     (kr_set_password kr service account (b64u_encode X root_key))) (\<lambda>_.
                ret root_key)))))\<rparr>)"

datatype provider_initialization =
    Required root_key_provider
  | Preferred root_key_provider root_key_provider

section \<open>The manifest\<close>

definition STORE_MANIFEST_SCHEMA_VERSION :: u32 where "STORE_MANIFEST_SCHEMA_VERSION = 1"

fun decode_manifest :: "ext \<Rightarrow> store_manifest content option \<Rightarrow> store_manifest did_result" where
  "decode_manifest X None = Inl StoreNotFound"
| "decode_manifest X (Some Unparsable) = Inl (Serialization (serde_error X))"
| "decode_manifest X (Some (Parsed m)) =
     (if sm_schema_version m \<noteq> STORE_MANIFEST_SCHEMA_VERSION
      then Inl (Serialization ''unsupported store manifest schema'') else Inr m)"

definition read_manifest :: "ext \<Rightarrow> store_manifest io" where
  "read_manifest X = bnd (read_file d_manifest) (\<lambda>c. lift (decode_manifest X c))"

definition write_manifest :: "string \<Rightarrow> store_write_guard \<Rightarrow> store_manifest \<Rightarrow> unit io" where
  "write_manifest root guard m =
     bnd (lift (require_store guard root)) (\<lambda>_.
       write_atomic_private (\<lambda>d. d\<lparr>d_manifest := Some (Parsed m)\<rparr>))"

definition random_store_id :: "ext \<Rightarrow> string io" where
  "random_store_id X = bnd (fill_bytes 16) (\<lambda>b. ret (b64u_encode X b))"

section \<open>The runtime\<close>

record store_runtime =
  rt_root :: string
  rt_lock :: store_lock
  rt_root_key :: bytes
  rt_manifest :: store_manifest
  rt_key_store :: file_key_store

definition runtime_of :: "string \<Rightarrow> bytes \<Rightarrow> store_manifest \<Rightarrow> store_runtime" where
  "runtime_of root root_key manifest =
     \<lparr>rt_root = root, rt_lock = store_lock_new root, rt_root_key = root_key,
      rt_manifest = manifest, rt_key_store = file_key_store_new root\<rparr>"

text \<open>Which provider creates the key: the fallback only when the primary is unavailable.\<close>

fun choose_provider ::
  "provider_initialization \<Rightarrow> store_write_guard \<Rightarrow> (root_key_provider \<times> bytes) io" where
  "choose_provider (Required provider) guard =
     bnd (create_if_missing provider guard) (\<lambda>key. ret (provider, key))"
| "choose_provider (Preferred primary fallback) guard = (\<lambda>w.
     case create_if_missing primary guard w of
       (Inr key, w') \<Rightarrow> (Inr (primary, key), w')
     | (Inl ProviderUnavailable, w') \<Rightarrow>
         bnd (create_if_missing fallback guard) (\<lambda>key. ret (fallback, key)) w'
     | (Inl e, w') \<Rightarrow> (Inl e, w'))"

definition runtime_initialize :: "ext \<Rightarrow> string \<Rightarrow> provider_initialization \<Rightarrow> store_runtime io" where
  "runtime_initialize X root initialization =
     bnd (acquire_exclusive (store_lock_new root)) (\<lambda>guard.
     bnd (path_exists (\<lambda>d. d_manifest d \<noteq> None)) (\<lambda>found.
       if found then raise Conflict
       else
         bnd (choose_provider initialization guard) (\<lambda>(provider, root_key).
         bnd (random_store_id X) (\<lambda>store_id.
         bnd (now_rfc3339 X) (\<lambda>created_at.
         let manifest = \<lparr>sm_schema_version = STORE_MANIFEST_SCHEMA_VERSION, sm_store_id = store_id,
               sm_generation = 1, sm_provider = pv_binding provider,
               sm_root_key_fingerprint = root_key_verifier X root_key,
               sm_created_at = created_at, sm_rekey_generation = 0\<rparr>
         in bnd (write_manifest root guard manifest) (\<lambda>_.
              ret (runtime_of root root_key manifest)))))))"

definition runtime_open :: "ext \<Rightarrow> string \<Rightarrow> root_key_provider list \<Rightarrow> store_runtime io" where
  "runtime_open X root providers =
     bnd (read_manifest X) (\<lambda>manifest.
     bnd (lift (ok_or (find (\<lambda>p. pv_binding p = sm_provider manifest) providers)
            ProviderUnavailable)) (\<lambda>provider.
     bnd (load_existing provider) (\<lambda>root_key.
     bnd (lift (ensure (root_key_verifier X root_key = sm_root_key_fingerprint manifest)
            RootKeyMismatch)) (\<lambda>_.
       ret (runtime_of root root_key manifest)))))"

definition acquire_write :: "store_runtime \<Rightarrow> store_write_guard io" where
  "acquire_write rt = acquire_exclusive (rt_lock rt)"

end
