(* ===== verification/Handle.thy ===== *)
theory Handle
  imports Store
begin

text \<open>
  The handles of \<open>identity.rs\<close>: an open store with the registry generation it last saw, an open
  identity with its copy of the record, and the lookups of keys and secrets that go through them.
\<close>

record did_store =
  ds_runtime :: store_runtime
  ds_registry_generation :: u64

record did_identity =
  di_runtime :: store_runtime
  di_record :: identity_record

definition di_identity_id :: "did_identity \<Rightarrow> string" where
  "di_identity_id i = ir_identity_id (di_record i)"

definition di_did :: "did_identity \<Rightarrow> string" where
  "di_did i = ir_did (di_record i)"

definition replace_record :: "did_identity \<Rightarrow> identity_record \<Rightarrow> did_identity" where
  "replace_record i r = i\<lparr>di_record := r\<rparr>"

definition find_key_metadata :: "did_identity \<Rightarrow> string \<Rightarrow> key_metadata did_result" where
  "find_key_metadata i kid =
     rbind (canonicalize_kid (ir_did (di_record i)) kid) (\<lambda>kid.
       ok_or (find (\<lambda>m. km_kid m = kid) (ir_keys (di_record i))) KeyNotFound)"

definition managed_key_metadata :: "did_identity \<Rightarrow> string \<Rightarrow> key_metadata did_result" where
  "managed_key_metadata i kid =
     rbind (find_key_metadata i kid) (\<lambda>m.
     rbind (ensure (km_origin m \<noteq> External) ExternalKeyOperation) (\<lambda>_. Inr m))"

definition key_secret_ref :: "string \<Rightarrow> key_metadata \<Rightarrow> secret_ref" where
  "key_secret_ref identity_id m =
     \<lparr>sr_identity_id = identity_id, sr_key_id = km_kid m, sr_role = km_role m,
      sr_version = km_version m\<rparr>"

definition load_managed_secret :: "ext \<Rightarrow> did_identity \<Rightarrow> key_metadata \<Rightarrow> bytes io" where
  "load_managed_secret X i m =
     ks_open X (rt_root_key (di_runtime i)) (key_secret_ref (di_identity_id i) m)"

definition verify_persisted_key :: "ext \<Rightarrow> store_runtime \<Rightarrow> secret_ref \<Rightarrow> public_key \<Rightarrow> unit io" where
  "verify_persisted_key X rt r expected =
     bnd (ks_open X (rt_root_key rt) r) (\<lambda>secret.
     bnd (lift (public_key_from_secret X (sr_role r) secret)) (\<lambda>actual.
       lift (ensure (public_keys_equal actual expected) InvalidIdentity)))"

section \<open>Well-formed runtimes\<close>

text \<open>Every runtime the constructors return has the lock and the key store of its own root.\<close>

definition wf_runtime :: "store_runtime \<Rightarrow> bool" where
  "wf_runtime rt \<longleftrightarrow> rt_lock rt = store_lock_new (rt_root rt)
     \<and> rt_key_store rt = file_key_store_new (rt_root rt)"

lemma wf_runtime_of [simp]: "wf_runtime (runtime_of root k m)"
  by (simp add: wf_runtime_def runtime_of_def)

lemma rt_lock_wf [simp]: "wf_runtime rt \<Longrightarrow> sl_store_root (rt_lock rt) = rt_root rt"
  by (simp add: wf_runtime_def store_lock_new_def)

lemma rt_key_store_wf [simp]: "wf_runtime rt \<Longrightarrow> rt_key_store rt = file_key_store_new (rt_root rt)"
  by (simp add: wf_runtime_def)

lemma acquire_write_calm [simp]:
  "wf_runtime rt \<Longrightarrow> calm w \<Longrightarrow> acquire_write rt w = (Inr (guard_of (rt_root rt)), w)"
  by (simp add: acquire_write_def)

lemma safe_acquire_write [safe_intros]:
  assumes "wf_runtime rt" "calm c" "Q (guard_of (rt_root rt)) c" "\<And>msg. E (Io msg) c"
  shows "safe (acquire_write rt) Q E c"
  unfolding acquire_write_def using assms by (intro safe_intros) simp_all

lemma wf_initialize:
  "runtime_initialize X root i w = (Inr rt, w') \<Longrightarrow> wf_runtime rt"
  by (auto simp: runtime_initialize_def bnd_Inr_iff raise_def Let_def ret_def
      split: if_splits prod.splits)

lemma wf_open: "runtime_open X root ps w = (Inr rt, w') \<Longrightarrow> wf_runtime rt"
  by (auto simp: runtime_open_def bnd_Inr_iff ret_def)

definition stored_key :: "ext \<Rightarrow> bytes \<Rightarrow> disk \<Rightarrow> secret_ref \<Rightarrow> public_key \<Rightarrow> bool" where
  "stored_key X k d r expected \<longleftrightarrow>
     (\<exists>secret actual. secret_at X k d r = Inr secret \<and>
        public_key_from_secret X (sr_role r) secret = Inr actual \<and> public_keys_equal actual expected)"

lemma verify_persisted_key_calm:
  assumes "calm w" "verify_persisted_key X rt r expected w = (u, w')"
  shows "w' = w" "u = Inr () \<Longrightarrow> validate_secret_ref r = Inr () \<and> stored_key X (rt_root_key rt) (w_disk w) r expected"
  using assms
  by (auto simp: verify_persisted_key_def bnd_def lift_def stored_key_def rbind_Inr_iff
      split: sum.splits)

lemma safe_verify_persisted_key [safe_intros]:
  assumes "calm c" "stored_key X (rt_root_key rt) (w_disk c) r expected \<Longrightarrow> Q () c" "\<And>e. E e c"
  shows "safe (verify_persisted_key X rt r expected) Q E c"
  unfolding verify_persisted_key_def using assms
  by (auto intro!: safe_intros simp: stored_key_def)

end
