(* ===== verification/Candidate.thy ===== *)
theory Candidate
  imports Handle
begin

text \<open>
  The part of \<open>lifecycle.rs\<close> that computes the candidate of an update: the rotation of a request
  signing key, the mutations of request signing keys and devices on the document, the services,
  and the signature of the result.
\<close>

section \<open>Requests\<close>

record request_signing_rotation =
  rot_old_kid :: string
  rot_new_fragment :: string

record public_key_spec =
  pk_kid :: string
  pk_public_key_multibase :: string

datatype request_signing_mutation = RS_Add public_key_spec | RS_Remove string

record device_add_spec =
  da_device_id :: string
  da_signing_key :: public_key_spec
  da_e2ee_key :: public_key_spec
  da_profiles :: "string list"

datatype device_mutation =
    Dev_Add device_add_spec
  | Dev_Remove string
  | Dev_AddProfiles string "string list"

record document_update_spec =
  us_request_signing_rotation :: "request_signing_rotation option"
  us_request_signing_mutations :: "request_signing_mutation list"
  us_device_mutations :: "device_mutation list"
  us_services :: "service_spec list option"

section \<open>Arrays of the document\<close>

text \<open>\<open>relationship_mut\<close> followed by a change of the vector it returns.\<close>

definition relationship_mut :: "string \<Rightarrow> (json list \<Rightarrow> json list) \<Rightarrow> json_map \<Rightarrow> json_map did_result" where
  "relationship_mut name f object =
     rbind (ok_or (Option.bind (btree_get object name) as_array) InvalidIdentity) (\<lambda>values.
       Inr (btree_insert name (JArray (f values)) object))"

definition methods_mut :: "(json list \<Rightarrow> json list) \<Rightarrow> json_map \<Rightarrow> json_map did_result" where
  "methods_mut f object =
     rbind (ok_or (Option.bind (btree_get object ''verificationMethod'') as_array) InvalidIdentity)
       (\<lambda>values. Inr (btree_insert ''verificationMethod'' (JArray (f values)) object))"

definition method_exists :: "json_map \<Rightarrow> string \<Rightarrow> bool" where
  "method_exists object kid =
     (case Option.bind (btree_get object ''verificationMethod'') as_array of
        None \<Rightarrow> False
      | Some methods \<Rightarrow> list_ex (\<lambda>m. get_str m ''id'' = Some kid) methods)"

definition method_json :: "string \<Rightarrow> string \<Rightarrow> string \<Rightarrow> string \<Rightarrow> json" where
  "method_json kid type controller multibase =
     json_object [(''id'', JString kid), (''type'', JString type),
       (''controller'', JString controller), (''publicKeyMultibase'', JString multibase)]"

section \<open>Request signing keys\<close>

record prepared_rotation =
  prt_old_kid :: string
  prt_new_kid :: string
  prt_new_key :: managed_private_key

definition prepare_rotation ::
  "ext \<Rightarrow> identity_record \<Rightarrow> request_signing_rotation \<Rightarrow> prepared_rotation io" where
  "prepare_rotation X r rotation =
     bnd (lift (canonicalize_kid (ir_did r) (rot_old_kid rotation))) (\<lambda>old_kid.
     bnd (lift (ok_or (find (\<lambda>m. km_kid m = old_kid) (ir_keys r)) KeyNotFound)) (\<lambda>old.
     bnd (lift (ensure (km_origin old \<noteq> External) ExternalKeyOperation)) (\<lambda>_.
     bnd (lift (ensure (km_role old \<noteq> RootControl) UnsupportedOperation)) (\<lambda>_.
     bnd (lift (ensure (km_role old = RequestSigning) KeyRoleViolation)) (\<lambda>_.
     bnd (lift (ensure (km_state old = Key_Active) KeyNotUsable)) (\<lambda>_.
     bnd (lift (validate_fragment (rot_new_fragment rotation))) (\<lambda>_.
     bnd (lift (canonicalize_kid (ir_did r) (rot_new_fragment rotation))) (\<lambda>new_kid.
     bnd (lift (ensure (\<not> list_ex (\<lambda>m. km_kid m = new_kid) (ir_keys r)) DuplicateKid)) (\<lambda>_.
     bnd (generate_key X (rot_new_fragment rotation) RequestSigning) (\<lambda>new_key.
     ret \<lparr>prt_old_kid = old_kid, prt_new_kid = new_kid, prt_new_key = new_key\<rparr>))))))))))"

text \<open>Added keys, retired kids.\<close>

type_synonym key_changes = "(string \<times> key_role) list \<times> string list"

definition validate_request_signing_public_key :: "ext \<Rightarrow> string \<Rightarrow> string \<Rightarrow> unit did_result" where
  "validate_request_signing_public_key X kid multibase =
     rbind (ok_or (extract_public_key X (json_object [(''id'', JString kid),
              (''type'', JString ''Multikey''), (''publicKeyMultibase'', JString multibase)]))
            InvalidPublicKey) (\<lambda>public.
       case public of Ed25519 _ \<Rightarrow> Inr () | _ \<Rightarrow> Inl InvalidPublicKey)"

fun apply_request_signing_mutation ::
  "ext \<Rightarrow> identity_record \<Rightarrow> json_map \<times> key_changes \<Rightarrow> request_signing_mutation
     \<Rightarrow> (json_map \<times> key_changes) did_result" where
  "apply_request_signing_mutation X r (object, added, retired) (RS_Add key) =
     rbind (canonicalize_kid (ir_did r) (pk_kid key)) (\<lambda>kid.
     rbind (ensure (\<not> (list_ex (\<lambda>m. km_kid m = kid) (ir_keys r) \<or> method_exists object kid))
              DuplicateKid) (\<lambda>_.
     rbind (validate_request_signing_public_key X kid (pk_public_key_multibase key)) (\<lambda>_.
     rbind (methods_mut (\<lambda>ms. ms @ [method_json kid ''Multikey'' (ir_did r)
              (pk_public_key_multibase key)]) object) (\<lambda>object.
     rbind (relationship_mut ''authentication'' (\<lambda>vs. vs @ [JString kid]) object) (\<lambda>object.
       Inr (object, added @ [(kid, RequestSigning)], retired))))))"
| "apply_request_signing_mutation X r (object, added, retired) (RS_Remove kid) =
     rbind (canonicalize_kid (ir_did r) kid) (\<lambda>kid.
     rbind (ok_or (find (\<lambda>m. km_kid m = kid) (ir_keys r)) KeyNotFound) (\<lambda>metadata.
     rbind (ensure (km_role metadata = RequestSigning) KeyRoleViolation) (\<lambda>_.
     rbind (ensure (km_origin metadata = External) UnsupportedOperation) (\<lambda>_.
     rbind (methods_mut (filter (\<lambda>m. get_str m ''id'' \<noteq> Some kid)) object) (\<lambda>object.
     rbind (relationship_mut ''authentication'' (filter (\<lambda>v. as_str v \<noteq> Some kid)) object) (\<lambda>object.
       Inr (object, added, retired @ [kid])))))))"

definition apply_request_signing_mutations ::
  "ext \<Rightarrow> json_map \<Rightarrow> identity_record \<Rightarrow> request_signing_mutation list
     \<Rightarrow> (json_map \<times> key_changes) did_result" where
  "apply_request_signing_mutations X object r mutations =
     rfold (apply_request_signing_mutation X r) (object, [], []) mutations"

section \<open>Devices\<close>

definition validate_device_add :: "device_add_spec \<Rightarrow> unit did_result" where
  "validate_device_add d =
     ensure (\<not> (is_blank (da_device_id d) \<or> trim (da_device_id d) \<noteq> da_device_id d
                \<or> da_profiles d = [] \<or> list_ex is_blank (da_profiles d))) InvalidExtension"

definition validate_device_public_key :: "ext \<Rightarrow> string \<Rightarrow> string \<Rightarrow> key_role \<Rightarrow> unit did_result" where
  "validate_device_public_key X kid multibase role =
     rbind (case role of
              DeviceSigning \<Rightarrow> Inr (json_object [(''id'', JString kid),
                (''type'', JString ''Multikey''), (''publicKeyMultibase'', JString multibase)])
            | E2eeAgreement \<Rightarrow> Inr (json_object [(''id'', JString kid),
                (''type'', JString ''X25519KeyAgreementKey2019''),
                (''publicKeyMultibase'', JString multibase)])
            | _ \<Rightarrow> Inl KeyRoleViolation) (\<lambda>method.
     rbind (ok_or (extract_public_key X method) InvalidPublicKey) (\<lambda>public.
       case (role, public) of
         (DeviceSigning, Ed25519 _) \<Rightarrow> Inr ()
       | (E2eeAgreement, X25519 _) \<Rightarrow> Inr ()
       | _ \<Rightarrow> Inl InvalidPublicKey))"

fun update_first :: "('a \<Rightarrow> bool) \<Rightarrow> ('a \<Rightarrow> 'a) \<Rightarrow> 'a list \<Rightarrow> 'a list option" where
  "update_first P f [] = None"
| "update_first P f (x # xs) =
     (if P x then Some (f x # xs) else map_option (Cons x) (update_first P f xs))"

definition add_profiles :: "string list \<Rightarrow> device_manifest_entry \<Rightarrow> device_manifest_entry" where
  "add_profiles profiles entry =
     fold (\<lambda>p e. if p \<in> set (dm_profiles e) then e else e\<lparr>dm_profiles := dm_profiles e @ [p]\<rparr>)
       profiles entry"

text \<open>The object, the manifest, the changes and the device identifiers retired so far.\<close>

type_synonym device_state = "json_map \<times> device_manifest option \<times> key_changes \<times> string list"

definition device_known :: "device_manifest option \<Rightarrow> string \<Rightarrow> bool" where
  "device_known manifest device_id =
     (case manifest of None \<Rightarrow> False
      | Some m \<Rightarrow> list_ex (\<lambda>e. dm_device_id e = device_id) (dm_devices m))"

fun apply_device_mutation ::
  "ext \<Rightarrow> identity_record \<Rightarrow> device_state \<Rightarrow> device_mutation \<Rightarrow> device_state did_result" where
  "apply_device_mutation X r (object, manifest, changes, gone) (Dev_AddProfiles device_id profiles) =
     rbind (ensure (\<not> (profiles = [] \<or> list_ex (\<lambda>p. is_blank p \<or> trim p \<noteq> p) profiles))
              InvalidExtension) (\<lambda>_.
     rbind (ok_or (Option.bind manifest (\<lambda>m. map_option (\<lambda>ds. m\<lparr>dm_devices := ds\<rparr>)
              (update_first (\<lambda>e. dm_device_id e = device_id) (add_profiles profiles) (dm_devices m))))
              KeyNotFound) (\<lambda>manifest.
       Inr (object, Some manifest, changes, gone)))"
| "apply_device_mutation X r (object, manifest, (added, retired), gone) (Dev_Add device) =
     rbind (validate_device_add device) (\<lambda>_.
     rbind (canonicalize_kid (ir_did r) (pk_kid (da_signing_key device))) (\<lambda>signing_kid.
     rbind (canonicalize_kid (ir_did r) (pk_kid (da_e2ee_key device))) (\<lambda>e2ee_kid.
     rbind (ensure (\<not> (da_device_id device \<in> set gone
                      \<or> signing_kid = e2ee_kid
                      \<or> list_ex (\<lambda>k. km_kid k = signing_kid \<or> km_kid k = e2ee_kid) (ir_keys r)
                      \<or> method_exists object signing_kid
                      \<or> method_exists object e2ee_kid
                      \<or> device_known manifest (da_device_id device))) DuplicateKid) (\<lambda>_.
     rbind (validate_device_public_key X signing_kid
              (pk_public_key_multibase (da_signing_key device)) DeviceSigning) (\<lambda>_.
     rbind (validate_device_public_key X e2ee_kid
              (pk_public_key_multibase (da_e2ee_key device)) E2eeAgreement) (\<lambda>_.
     rbind (methods_mut (\<lambda>ms. ms
              @ [method_json signing_kid ''Multikey'' (ir_did r)
                   (pk_public_key_multibase (da_signing_key device)),
                 method_json e2ee_kid ''X25519KeyAgreementKey2019'' (ir_did r)
                   (pk_public_key_multibase (da_e2ee_key device))]) object) (\<lambda>object.
     rbind (relationship_mut ''authentication'' (\<lambda>vs. vs @ [JString signing_kid]) object) (\<lambda>object.
     rbind (relationship_mut ''assertionMethod'' (\<lambda>vs. vs @ [JString signing_kid]) object) (\<lambda>object.
     rbind (relationship_mut ''keyAgreement'' (\<lambda>vs. vs @ [JString e2ee_kid]) object) (\<lambda>object.
     let m = (case manifest of Some m \<Rightarrow> m
              | None \<Rightarrow> \<lparr>dm_type = device_manifest_type X, dm_devices = []\<rparr>)
     in Inr (object,
             Some (m\<lparr>dm_devices := dm_devices m @
               [\<lparr>dm_device_id = da_device_id device, dm_signing_key_id = signing_kid,
                 dm_e2ee_key_id = e2ee_kid, dm_profiles = da_profiles device\<rparr>]\<rparr>),
             (added @ [(signing_kid, DeviceSigning), (e2ee_kid, E2eeAgreement)], retired),
             gone)))))))))))"
| "apply_device_mutation X r (object, manifest, (added, retired), gone) (Dev_Remove device_id) =
     rbind (ensure (\<not> (is_blank device_id \<or> trim device_id \<noteq> device_id)) InvalidExtension) (\<lambda>_.
     rbind (ensure (\<not> (case ir_local_authorization r of None \<Rightarrow> False
                       | Some local \<Rightarrow> la_device_id local = device_id)) UnsupportedOperation) (\<lambda>_.
     rbind (ok_or manifest KeyNotFound) (\<lambda>m.
     rbind (ok_or (find (\<lambda>e. dm_device_id e = device_id) (dm_devices m)) KeyNotFound) (\<lambda>removed.
     rbind (methods_mut (filter (\<lambda>v. get_str v ''id'' \<noteq> Some (dm_signing_key_id removed)
              \<and> get_str v ''id'' \<noteq> Some (dm_e2ee_key_id removed))) object) (\<lambda>object.
     rbind (relationship_mut ''authentication''
              (filter (\<lambda>v. as_str v \<noteq> Some (dm_signing_key_id removed))) object) (\<lambda>object.
     rbind (relationship_mut ''assertionMethod''
              (filter (\<lambda>v. as_str v \<noteq> Some (dm_signing_key_id removed))) object) (\<lambda>object.
     rbind (relationship_mut ''keyAgreement''
              (filter (\<lambda>v. as_str v \<noteq> Some (dm_e2ee_key_id removed))) object) (\<lambda>object.
       Inr (object, Some (m\<lparr>dm_devices := remove1 removed (dm_devices m)\<rparr>),
            (added, retired @ [dm_signing_key_id removed, dm_e2ee_key_id removed]),
            gone @ [dm_device_id removed])))))))))"

definition apply_device_mutations ::
  "ext \<Rightarrow> json_map \<Rightarrow> identity_record \<Rightarrow> device_mutation list \<Rightarrow> (json_map \<times> key_changes) did_result" where
  "apply_device_mutations X object r mutations =
     rbind (case btree_get object ''deviceManifest'' of
              None \<Rightarrow> Inr None
            | Some v \<Rightarrow> rbind (ok_or (device_manifest_from_value X v) InvalidExtension) (\<lambda>m. Inr (Some m)))
       (\<lambda>manifest.
     rbind (rfold (apply_device_mutation X r) (object, manifest, ([], []), ir_retired_device_ids r)
              mutations) (\<lambda>(object, manifest, changes, gone).
       case manifest of
         None \<Rightarrow> Inr (object, changes)
       | Some m \<Rightarrow>
           if dm_devices m = [] then Inr (btree_remove ''deviceManifest'' object, changes)
           else rbind (ok_or (device_manifest_to_value X m) InvalidExtension) (\<lambda>v.
                  Inr (btree_insert ''deviceManifest'' v object, changes))))"

section \<open>The candidate\<close>

record candidate_changes =
  cc_document :: json
  cc_added_keys :: "(string \<times> key_role) list"
  cc_retired_kids :: "string list"

definition apply_rotation :: "ext \<Rightarrow> string \<Rightarrow> prepared_rotation \<Rightarrow> json_map \<Rightarrow> json_map did_result" where
  "apply_rotation X did rotation object =
     rbind (ok_or (Option.bind (btree_get object ''verificationMethod'') as_array) InvalidIdentity) (\<lambda>_.
     rbind (ed25519_public_multibase X (managed_public_key X (prt_new_key rotation))) (\<lambda>multibase.
     rbind (methods_mut (\<lambda>ms. ms @ [method_json (prt_new_kid rotation) ''Multikey'' did multibase])
              object) (\<lambda>object.
       relationship_mut ''authentication'' (\<lambda>vs.
         filter (\<lambda>v. as_str v \<noteq> Some (prt_old_kid rotation)) vs @ [JString (prt_new_kid rotation)])
         object)))"

definition absolute_service :: "string \<Rightarrow> service_spec \<Rightarrow> json" where
  "absolute_service did s =
     (let v = service_json s in
      case get_str v ''id'' of
        Some i \<Rightarrow> if starts_with i ''#''
                  then (case v of JObject m \<Rightarrow> JObject (btree_insert ''id'' (JString (did @ i)) m)
                        | _ \<Rightarrow> v)
                  else v
      | None \<Rightarrow> v)"

definition replace_services :: "string \<Rightarrow> service_spec list option \<Rightarrow> json_map \<Rightarrow> json_map" where
  "replace_services did services object =
     (case services of
        None \<Rightarrow> object
      | Some services \<Rightarrow>
          let kept = (case Option.bind (btree_get object ''service'') as_array of
                        None \<Rightarrow> []
                      | Some vs \<Rightarrow> filter (\<lambda>v. get_str v ''type'' = Some ''AgentDescription'') vs)
          in btree_insert ''service'' (JArray (kept @ map (absolute_service did) services)) object)"

definition build_candidate_document ::
  "ext \<Rightarrow> did_identity \<Rightarrow> identity_record \<Rightarrow> prepared_rotation option \<Rightarrow> request_signing_mutation list
     \<Rightarrow> device_mutation list \<Rightarrow> service_spec list option \<Rightarrow> candidate_changes io" where
  "build_candidate_document X i r rotation request_signing_mutations device_mutations services =
     bnd (lift (ok_or (as_object (ir_document r)) InvalidIdentity)) (\<lambda>object.
     let proof_domain = Option.bind (btree_get object ''proof'') (\<lambda>p. get_str p ''domain'');
         object = btree_remove ''proof'' object
     in
     bnd (lift (case rotation of None \<Rightarrow> Inr object
                | Some rotation \<Rightarrow> apply_rotation X (ir_did r) rotation object)) (\<lambda>object.
     bnd (lift (apply_request_signing_mutations X object r request_signing_mutations))
       (\<lambda>(object, rs_added, rs_retired).
     bnd (lift (apply_device_mutations X object r device_mutations))
       (\<lambda>(object, dev_added, dev_retired).
     let document = JObject (replace_services (ir_did r) services object) in
     bnd (lift (for_did X (ir_did r))) (\<lambda>profile.
     bnd (if supports_root_control profile
          then bnd (lift (ok_or (find (\<lambda>m. km_role m = RootControl) (ir_keys r)) InvalidIdentity)) (\<lambda>root.
               bnd (load_managed_secret X i root) (\<lambda>secret.
                 sign_root_document X document (km_kid root) secret proof_domain))
          else ret document) (\<lambda>signed.
     bnd (lift (validate_method_document X signed)) (\<lambda>_.
     bnd (lift (ensure (validate_device_manifest X signed \<noteq> None) InvalidExtension)) (\<lambda>_.
     ret \<lparr>cc_document = signed, cc_added_keys = rs_added @ dev_added,
          cc_retired_kids = rs_retired @ dev_retired\<rparr>))))))))"

end
