(* ===== verification/Lifecycle.thy ===== *)
theory Lifecycle
  imports Candidate
begin

text \<open>
  The operations of \<open>lifecycle.rs\<close>: preparing an update, the publication state machine, committing,
  aborting and reconciling it, and the recovery of update journals.
\<close>

section \<open>Helpers\<close>

definition canonical_digest :: "ext \<Rightarrow> json \<Rightarrow> string did_result" where
  "canonical_digest X doc =
     rbind (map_err (\<lambda>_. InvalidIdentity) (canonicalizer_to_vec X doc)) (\<lambda>canonical.
       Inr (b64u_encode X (sha256 X canonical)))"

definition random_revision_id :: "ext \<Rightarrow> string io" where
  "random_revision_id X = bnd (fill_bytes 16) (\<lambda>b. ret (b64u_encode X b))"

definition required_pending :: "identity_record \<Rightarrow> string \<Rightarrow> pending_revision_record did_result" where
  "required_pending r revision_id =
     ok_or (Option.bind (ir_pending_revision r) (\<lambda>p.
       if pr_revision_id p = revision_id then Some p else None)) PendingRevisionNotFound"

text \<open>The record that was written, with its new generation.\<close>

definition persist_record ::
  "ext \<Rightarrow> store_runtime \<Rightarrow> store_write_guard \<Rightarrow> identity_record \<Rightarrow> identity_record io" where
  "persist_record X rt guard r =
     bnd (lift (ok_or (checked_add1 (ir_generation r)) Conflict)) (\<lambda>generation.
     let r = r\<lparr>ir_generation := generation\<rparr> in
     bnd (write_identity X (rt_root rt) guard r) (\<lambda>_. ret r))"

definition current_record_for_mutation :: "ext \<Rightarrow> did_identity \<Rightarrow> identity_record io" where
  "current_record_for_mutation X i =
     bnd (read_identity X (di_identity_id i)) (\<lambda>r.
     bnd (lift (ensure (ir_generation r = ir_generation (di_record i) \<and> ir_state r = Id_Active)
            Conflict)) (\<lambda>_. ret r))"

section \<open>Preparing an update\<close>

record prepared_update =
  pu_revision_id :: string
  pu_candidate_document :: json
  pu_candidate_digest :: string

text \<open>Sealing the new key of a rotation, or checking the one that is already there.\<close>

definition seal_rotation_key ::
  "ext \<Rightarrow> store_runtime \<Rightarrow> store_write_guard \<Rightarrow> prepared_rotation \<Rightarrow> secret_ref \<Rightarrow> unit io" where
  "seal_rotation_key X rt guard rotation secret_ref =
     bnd (ks_seal_if_absent X (rt_key_store rt) guard (rt_root_key rt) secret_ref
            (mp_bytes (prt_new_key rotation))) (\<lambda>sealed.
       if sealed = AlreadyExists
       then bnd (ks_open X (rt_root_key rt) secret_ref) (\<lambda>stored.
            bnd (lift (public_key_from_secret X RequestSigning stored)) (\<lambda>actual.
              lift (ensure (public_keys_equal actual (managed_public_key X (prt_new_key rotation)))
                InvalidIdentity)))
       else ret ())"

definition rotation_ref :: "string \<Rightarrow> prepared_rotation \<Rightarrow> key_metadata \<Rightarrow> secret_ref" where
  "rotation_ref identity_id rotation metadata =
     \<lparr>sr_identity_id = identity_id, sr_key_id = prt_new_kid rotation, sr_role = RequestSigning,
      sr_version = km_version metadata\<rparr>"

definition update_is_empty :: "document_update_spec \<Rightarrow> bool" where
  "update_is_empty spec \<longleftrightarrow>
     us_request_signing_rotation spec = None \<and> us_request_signing_mutations spec = []
     \<and> us_device_mutations spec = [] \<and> us_services spec = None"

definition prepare_update ::
  "ext \<Rightarrow> did_identity \<Rightarrow> document_update_spec \<Rightarrow> (did_identity \<times> prepared_update) io" where
  "prepare_update X i spec =
     (let rt = di_runtime i in
     bnd (lift (ensure (\<not> update_is_empty spec) UnsupportedOperation)) (\<lambda>_.
     bnd (lift (rforeach validate_service (case us_services spec of None \<Rightarrow> [] | Some s \<Rightarrow> s))) (\<lambda>_.
     bnd (acquire_write rt) (\<lambda>guard.
     bnd (current_record_for_mutation X i) (\<lambda>r.
     bnd (lift (case ir_pending_revision r of None \<Rightarrow> Inr ()
                | Some p \<Rightarrow> Inl (if pr_state p = PublicationUncertain then InvalidPublicationState
                                else PendingRevisionExists))) (\<lambda>_.
     bnd (case us_request_signing_rotation spec of None \<Rightarrow> ret None
          | Some rot \<Rightarrow> bnd (prepare_rotation X r rot) (\<lambda>p. ret (Some p))) (\<lambda>rotation.
     bnd (build_candidate_document X i r rotation (us_request_signing_mutations spec)
            (us_device_mutations spec) (us_services spec)) (\<lambda>changes.
     let candidate = cc_document changes in
     bnd (now_rfc3339 X) (\<lambda>created_at.
     bnd (lift (rcollect (\<lambda>(kid, role). mk_key_metadata X candidate kid role External created_at)
            (cc_added_keys changes))) (\<lambda>added_metadata.
     bnd (lift (case rotation of None \<Rightarrow> Inr ([], [])
                | Some rot \<Rightarrow>
                    rbind (mk_key_metadata X candidate (prt_new_kid rot) RequestSigning Managed created_at)
                      (\<lambda>m. Inr ([m], [rotation_ref (ir_identity_id r) rot m]))))
       (\<lambda>(rotation_metadata, secret_refs).
     bnd (random_revision_id X) (\<lambda>revision_id.
     bnd (write_update_journal X (rt_root rt) guard
            (new_update_journal revision_id (ir_identity_id r) secret_refs UJ_Prepare created_at)) (\<lambda>_.
     bnd (case (rotation, secret_refs) of
            (Some rot, ref # _) \<Rightarrow> seal_rotation_key X rt guard rot ref
          | _ \<Rightarrow> ret ()) (\<lambda>_.
     bnd (lift (canonical_digest X candidate)) (\<lambda>candidate_digest.
     let rotated = (case rotation of None \<Rightarrow> [] | Some rot \<Rightarrow> [rot]);
         pending = \<lparr>pr_revision_id = revision_id, pr_parent_revision = ir_revision r,
            pr_candidate_document = candidate, pr_candidate_digest = candidate_digest,
            pr_candidate_kids = map fst (cc_added_keys changes) @ map prt_new_kid rotated,
            pr_pending_secret_refs = secret_refs,
            pr_new_key_metadata = added_metadata @ rotation_metadata,
            pr_retired_kids = cc_retired_kids changes @ map prt_old_kid rotated,
            pr_state = Prepared, pr_generation = 1, pr_created_at = created_at\<rparr>
     in
     bnd (persist_record X rt guard (r\<lparr>ir_pending_revision := Some pending\<rparr>)) (\<lambda>r.
     bnd (remove_update_journal X (rt_root rt) guard revision_id) (\<lambda>_.
     ret (replace_record i r,
          \<lparr>pu_revision_id = revision_id, pu_candidate_document = candidate,
           pu_candidate_digest = candidate_digest\<rparr>))))))))))))))))))"

section \<open>Publication\<close>

definition transition_publication ::
  "ext \<Rightarrow> did_identity \<Rightarrow> string \<Rightarrow> publication_state \<Rightarrow> publication_state \<Rightarrow> did_identity io" where
  "transition_publication X i revision_id expected next =
     bnd (acquire_write (di_runtime i)) (\<lambda>guard.
     bnd (current_record_for_mutation X i) (\<lambda>r.
     bnd (lift (required_pending r revision_id)) (\<lambda>pending.
     bnd (lift (ensure (pr_state pending = expected) InvalidPublicationState)) (\<lambda>_.
     bnd (lift (ok_or (checked_add1 (pr_generation pending)) Conflict)) (\<lambda>generation.
     bnd (persist_record X (di_runtime i) guard
            (r\<lparr>ir_pending_revision := Some (pending\<lparr>pr_state := next, pr_generation := generation\<rparr>)\<rparr>)) (\<lambda>r.
     ret (replace_record i r)))))))"

definition begin_publication :: "ext \<Rightarrow> did_identity \<Rightarrow> string \<Rightarrow> did_identity io" where
  "begin_publication X i revision_id = transition_publication X i revision_id Prepared PublicationInFlight"

definition mark_publication_uncertain :: "ext \<Rightarrow> did_identity \<Rightarrow> string \<Rightarrow> did_identity io" where
  "mark_publication_uncertain X i revision_id =
     transition_publication X i revision_id PublicationInFlight PublicationUncertain"

definition reject_publication_before_acceptance :: "ext \<Rightarrow> did_identity \<Rightarrow> string \<Rightarrow> did_identity io" where
  "reject_publication_before_acceptance X i revision_id =
     transition_publication X i revision_id PublicationInFlight Prepared"

definition commit_allowed :: "pending_revision_record \<Rightarrow> bool \<Rightarrow> bool \<Rightarrow> bool" where
  "commit_allowed pending from_reconcile has_evidence \<longleftrightarrow>
     pr_state pending = Published
     \<or> (has_evidence \<and> \<not> from_reconcile \<and> pr_state pending = PublicationInFlight)
     \<or> (from_reconcile \<and> pr_state pending = PublicationUncertain)"

definition check_commit_evidence ::
  "ext \<Rightarrow> identity_record \<Rightarrow> json \<Rightarrow> verified_document_evidence option \<Rightarrow> unit did_result" where
  "check_commit_evidence X r candidate evidence =
     (case evidence of
        None \<Rightarrow> Inr ()
      | Some ev \<Rightarrow>
          rbind (validate_verified_document X candidate ev) (\<lambda>_.
          rbind (is_initial_proof_confirmation r candidate ev) (\<lambda>initial.
            if initial then Inr () else validate_checkpoint_progression (ir_checkpoint r) ev)))"

text \<open>The loop over the retired kids marks the first key with each kid.\<close>

definition retire_kid :: "string \<Rightarrow> key_metadata list \<Rightarrow> key_metadata list" where
  "retire_kid kid keys =
     (case update_first (\<lambda>m. km_kid m = kid) (\<lambda>m. m\<lparr>km_state := Key_Retired\<rparr>) keys of
        None \<Rightarrow> keys | Some keys' \<Rightarrow> keys')"

definition committed_record ::
  "ext \<Rightarrow> identity_record \<Rightarrow> pending_revision_record \<Rightarrow> verified_document_evidence option
     \<Rightarrow> identity_record did_result" where
  "committed_record X r pending evidence =
     (let r = r\<lparr>ir_keys := fold retire_kid (pr_retired_kids pending) (ir_keys r)\<rparr>;
          r = refresh_compatible_local_profiles X r (pr_candidate_document pending)
      in
      rbind (observe_devices r (pr_candidate_document pending)) (\<lambda>r.
      let r = r\<lparr>ir_keys := ir_keys r @ pr_new_key_metadata pending,
               ir_document := pr_candidate_document pending\<rparr> in
      rbind (case evidence of
               Some ev \<Rightarrow> Inr (ev_document_version ev)
             | None \<Rightarrow> ok_or (checked_add1 (ir_revision r)) Conflict) (\<lambda>revision.
      rbind (case evidence of
               Some ev \<Rightarrow> Inr (ev_registry_version ev)
             | None \<Rightarrow> ok_or (checked_add1
                 (case ir_checkpoint r of None \<Rightarrow> 0 | Some c \<Rightarrow> ck_registry_version c)) Conflict)
        (\<lambda>registry_version.
      rbind (document_digest X (ir_document r)) (\<lambda>digest.
        Inr (r\<lparr>ir_revision := revision,
               ir_checkpoint := Some \<lparr>ck_document_version = revision,
                 ck_registry_version = registry_version, ck_document_digest = digest\<rparr>,
               ir_pending_revision := None, ir_initial_publication_pending := False\<rparr>))))))"

definition commit_pending ::
  "ext \<Rightarrow> did_identity \<Rightarrow> string \<Rightarrow> bool \<Rightarrow> verified_document_evidence option \<Rightarrow> did_identity io" where
  "commit_pending X i revision_id from_reconcile evidence =
     bnd (acquire_write (di_runtime i)) (\<lambda>guard.
     bnd (current_record_for_mutation X i) (\<lambda>r.
     bnd (lift (required_pending r revision_id)) (\<lambda>pending.
     bnd (lift (ensure (commit_allowed pending from_reconcile (evidence \<noteq> None)
                  \<and> pr_parent_revision pending = ir_revision r) InvalidPublicationState)) (\<lambda>_.
     bnd (lift (check_commit_evidence X r (pr_candidate_document pending) evidence)) (\<lambda>_.
     bnd (lift (committed_record X r pending evidence)) (\<lambda>r.
     bnd (persist_record X (di_runtime i) guard r) (\<lambda>r.
     ret (replace_record i r))))))))"

definition commit_verified_update ::
  "ext \<Rightarrow> did_identity \<Rightarrow> string \<Rightarrow> bool \<Rightarrow> verified_document_evidence \<Rightarrow> did_identity io" where
  "commit_verified_update X i revision_id from_reconcile evidence =
     commit_pending X i revision_id from_reconcile (Some evidence)"

section \<open>Aborting and reconciling\<close>

record adopt_verified_document_spec =
  av_document :: json
  av_evidence :: verified_document_evidence

definition check_rejection ::
  "ext \<Rightarrow> did_identity \<Rightarrow> identity_record \<Rightarrow> pending_revision_record
     \<Rightarrow> adopt_verified_document_spec option \<Rightarrow> unit did_result" where
  "check_rejection X i r pending rejection =
     (case rejection of
        None \<Rightarrow> ensure (pr_state pending = Prepared) InvalidPublicationState
      | Some obs \<Rightarrow>
          rbind (ensure (pr_state pending = PublicationUncertain) InvalidPublicationState) (\<lambda>_.
          rbind (validate_verified_document X (av_document obs) (av_evidence obs)) (\<lambda>_.
          rbind (ensure (get_str (av_document obs) ''id'' = Some (di_did i)) InvalidIdentity) (\<lambda>_.
          rbind (method_root_fingerprint X (av_document obs)) (\<lambda>fingerprint.
          rbind (ensure (fingerprint = ir_root_key_fingerprint r) RootKeyMismatch) (\<lambda>_.
          rbind (validate_checkpoint_progression (ir_checkpoint r) (av_evidence obs)) (\<lambda>_.
          rbind (case ir_local_authorization r of
                   Some local \<Rightarrow> local_authorization_matches X r (av_document obs) local
                 | None \<Rightarrow> (case ir_local_request_signing_kid r of
                     Some kid \<Rightarrow> request_signing_authorization_matches X r (av_document obs) kid
                   | None \<Rightarrow> Inr ())) (\<lambda>_.
          rbind (ok_or (ir_checkpoint r) Conflict) (\<lambda>base.
            ensure (\<not> (ev_document_version (av_evidence obs) = ck_document_version base
                       \<and> ev_registry_version (av_evidence obs) = ck_registry_version base))
              Conflict)))))))))"

definition abort_update_inner ::
  "ext \<Rightarrow> did_identity \<Rightarrow> string \<Rightarrow> adopt_verified_document_spec option \<Rightarrow> did_identity io" where
  "abort_update_inner X i revision_id rejection =
     (let rt = di_runtime i in
     bnd (acquire_write rt) (\<lambda>guard.
     bnd (current_record_for_mutation X i) (\<lambda>r.
     bnd (lift (required_pending r revision_id)) (\<lambda>pending.
     bnd (lift (check_rejection X i r pending rejection)) (\<lambda>_.
     bnd (now_rfc3339 X) (\<lambda>created_at.
     bnd (write_update_journal X (rt_root rt) guard
            (new_update_journal (pr_revision_id pending) (ir_identity_id r)
              (pr_pending_secret_refs pending) UJ_Cleanup created_at)) (\<lambda>_.
     bnd (persist_record X rt guard (r\<lparr>ir_pending_revision := None\<rparr>)) (\<lambda>r.
     bnd (foreach (ks_delete X (rt_key_store rt) guard) (pr_pending_secret_refs pending)) (\<lambda>_.
     bnd (remove_update_journal X (rt_root rt) guard revision_id) (\<lambda>_.
     ret (replace_record i r)))))))))))"

definition abort_update :: "ext \<Rightarrow> did_identity \<Rightarrow> string \<Rightarrow> did_identity io" where
  "abort_update X i revision_id = abort_update_inner X i revision_id None"

definition reconcile_rejected_update ::
  "ext \<Rightarrow> did_identity \<Rightarrow> string \<Rightarrow> adopt_verified_document_spec \<Rightarrow> did_identity io" where
  "reconcile_rejected_update X i revision_id observation =
     abort_update_inner X i revision_id (Some observation)"

datatype reconcile_outcome = RemoteOld | Committed

definition reconcile_update ::
  "ext \<Rightarrow> did_identity \<Rightarrow> string \<Rightarrow> json \<Rightarrow> (did_identity \<times> reconcile_outcome) io" where
  "reconcile_update X i revision_id observed =
     bnd (lift (required_pending (di_record i) revision_id)) (\<lambda>pending.
     bnd (lift (ensure (pr_state pending = PublicationUncertain) InvalidPublicationState)) (\<lambda>_.
     bnd (lift (ensure (get_str observed ''id'' = Some (di_did i)
                  \<and> is_ok (validate_method_document X observed)) InvalidIdentity)) (\<lambda>_.
     bnd (lift (canonical_digest X observed)) (\<lambda>observed_digest.
       if observed_digest = pr_candidate_digest pending
       then bnd (commit_pending X i revision_id True None) (\<lambda>i. ret (i, Committed))
       else bnd (lift (canonical_digest X (ir_document (di_record i)))) (\<lambda>current_digest.
         if observed_digest = current_digest
         then bnd (lift (for_did X (di_did i))) (\<lambda>profile.
           if profile = Web then ret (i, RemoteOld)
           else bnd (transition_publication X i revision_id PublicationUncertain Prepared) (\<lambda>i.
                  ret (i, RemoteOld)))
         else raise Conflict)))))"

section \<open>Recovery of update journals\<close>

definition names_pending :: "identity_record \<Rightarrow> string \<Rightarrow> bool" where
  "names_pending r revision_id \<longleftrightarrow>
     (case ir_pending_revision r of None \<Rightarrow> False | Some p \<Rightarrow> pr_revision_id p = revision_id)"

definition recover_update_journal ::
  "ext \<Rightarrow> store_runtime \<Rightarrow> store_write_guard \<Rightarrow> update_journal \<Rightarrow> unit io" where
  "recover_update_journal X rt guard j =
     bnd (read_identity X (uj_identity_id j)) (\<lambda>r.
     bnd (case uj_kind j of
            UJ_Prepare \<Rightarrow>
              if \<not> names_pending r (uj_revision_id j)
              then foreach (ks_delete X (rt_key_store rt) guard) (uj_secret_refs j) else ret ()
          | UJ_Cleanup \<Rightarrow>
              bnd (if names_pending r (uj_revision_id j)
                   then bnd (persist_record X rt guard (r\<lparr>ir_pending_revision := None\<rparr>)) (\<lambda>_. ret ())
                   else ret ()) (\<lambda>_.
                foreach (ks_delete X (rt_key_store rt) guard) (uj_secret_refs j))) (\<lambda>_.
     remove_update_journal X (rt_root rt) guard (uj_revision_id j)))"

definition recover_update_journals :: "ext \<Rightarrow> store_runtime \<Rightarrow> store_write_guard \<Rightarrow> unit io" where
  "recover_update_journals X rt guard =
     bnd list_update_journals (\<lambda>js. foreach (recover_update_journal X rt guard) js)"

end
