(* ===== verification/Adoption.thy ===== *)
theory Adoption
  imports Lifecycle
begin

text \<open>
  The operations of \<open>adoption.rs\<close>: preparing the enrolment of a device or of a request signing key
  on a verified document, and adopting a newer verified document.
\<close>

section \<open>Requests and answers\<close>

record enrollment_spec =
  es_verified_document :: json
  es_evidence :: verified_document_evidence
  es_device_id :: string
  es_device_signing_fragment :: string
  es_device_e2ee_fragment :: string
  es_profiles :: "string list"
  es_capabilities :: capabilities

record enrollment_public_key =
  ep_kid :: string
  ep_role :: key_role
  ep_public_key_multibase :: string

record prepared_enrollment =
  pn_enrollment_id :: string
  pn_identity_id :: string
  pn_did :: string
  pn_device_id :: string
  pn_device_signing_key :: enrollment_public_key
  pn_device_e2ee_key :: enrollment_public_key
  pn_profiles :: "string list"
  pn_root_key_fingerprint :: "string option"
  pn_checkpoint :: document_checkpoint

record request_signing_enrollment_spec =
  rs_verified_document :: json
  rs_evidence :: verified_document_evidence
  rs_fragment :: string
  rs_capabilities :: capabilities

record prepared_request_signing_enrollment =
  pq_enrollment_id :: string
  pq_identity_id :: string
  pq_did :: string
  pq_request_signing_key :: enrollment_public_key
  pq_root_key_fingerprint :: "string option"
  pq_checkpoint :: document_checkpoint

datatype adopt_document_outcome = Activated | Updated | Unchanged | Revoked

definition validate_enrollment_spec :: "ext \<Rightarrow> enrollment_spec \<Rightarrow> unit did_result" where
  "validate_enrollment_spec X spec =
     rbind (validate_verified_document X (es_verified_document spec) (es_evidence spec)) (\<lambda>_.
     rbind (validate_fragment (es_device_signing_fragment spec)) (\<lambda>_.
     rbind (validate_fragment (es_device_e2ee_fragment spec)) (\<lambda>_.
       ensure (\<not> (is_blank (es_device_id spec) \<or> trim (es_device_id spec) \<noteq> es_device_id spec
                  \<or> es_profiles spec = [] \<or> list_ex is_blank (es_profiles spec))) InvalidExtension)))"

section \<open>Enrolment\<close>

text \<open>Sealing a fresh key; a secret already there must belong to the same public key.\<close>

definition seal_or_verify ::
  "ext \<Rightarrow> store_runtime \<Rightarrow> store_write_guard \<Rightarrow> managed_private_key \<times> secret_ref \<Rightarrow> unit io" where
  "seal_or_verify X rt guard p =
     bnd (ks_seal_if_absent X (rt_key_store rt) guard (rt_root_key rt) (snd p) (mp_bytes (fst p)))
       (\<lambda>sealed.
       if sealed = AlreadyExists
       then verify_persisted_key X rt (snd p) (managed_public_key X (fst p)) else ret ())"

text \<open>The registry entry of a new identity: the next generation with the summary inserted.\<close>

definition register_identity ::
  "string \<Rightarrow> store_write_guard \<Rightarrow> identity_registry \<Rightarrow> string \<Rightarrow> identity_summary \<Rightarrow> u64 io" where
  "register_identity root guard registry did s =
     bnd (lift (ok_or (checked_add1 (rg_generation registry)) Conflict)) (\<lambda>next_generation.
     bnd (write_registry root guard (registry\<lparr>rg_identities := btree_insert did s (rg_identities registry),
            rg_generation := next_generation\<rparr>)) (\<lambda>_.
       ret next_generation))"

definition enrollment_key :: "key_metadata \<Rightarrow> enrollment_public_key" where
  "enrollment_key m =
     \<lparr>ep_kid = km_kid m, ep_role = km_role m, ep_public_key_multibase = km_public_key_multibase m\<rparr>"

definition prepare_enrollment ::
  "ext \<Rightarrow> did_store \<Rightarrow> enrollment_spec \<Rightarrow> (did_store \<times> did_identity \<times> prepared_enrollment) io" where
  "prepare_enrollment X store spec =
     (let rt = ds_runtime store; document = es_verified_document spec in
     bnd (lift (validate_enrollment_spec X spec)) (\<lambda>_.
     bnd (lift (ok_or (get_str document ''id'') InvalidIdentity)) (\<lambda>did.
     bnd (lift (canonicalize_kid did (es_device_signing_fragment spec))) (\<lambda>signing_kid.
     bnd (lift (canonicalize_kid did (es_device_e2ee_fragment spec))) (\<lambda>e2ee_kid.
     bnd (lift (ensure (\<not> (signing_kid = e2ee_kid
                  \<or> find_verification_method X document signing_kid \<noteq> None
                  \<or> find_verification_method X document e2ee_kid \<noteq> None)) DuplicateKid)) (\<lambda>_.
     bnd (acquire_write rt) (\<lambda>guard.
     bnd read_registry (\<lambda>registry.
     bnd (lift (ensure (rg_generation registry = ds_registry_generation store) Conflict)) (\<lambda>_.
     bnd (lift (ensure (btree_get (rg_identities registry) did = None) DuplicateIdentity)) (\<lambda>_.
     bnd (random_id X) (\<lambda>identity_id.
     bnd (random_id X) (\<lambda>enrollment_id.
     bnd (random_id X) (\<lambda>transaction_id.
     bnd (now_rfc3339 X) (\<lambda>created_at.
     bnd (generate_key X (es_device_signing_fragment spec) DeviceSigning) (\<lambda>signing_key.
     bnd (generate_key X (es_device_e2ee_fragment spec) E2eeAgreement) (\<lambda>e2ee_key.
     let signing_ref = \<lparr>sr_identity_id = identity_id, sr_key_id = signing_kid,
           sr_role = DeviceSigning, sr_version = 1\<rparr>;
         e2ee_ref = \<lparr>sr_identity_id = identity_id, sr_key_id = e2ee_kid,
           sr_role = E2eeAgreement, sr_version = 1\<rparr>
     in
     bnd (write_journal X (rt_root rt) guard
            (new_creation_journal transaction_id identity_id did [signing_ref, e2ee_ref] created_at)) (\<lambda>_.
     bnd (foreach (seal_or_verify X rt guard) [(signing_key, signing_ref), (e2ee_key, e2ee_ref)]) (\<lambda>_.
     bnd (lift (optional_root_metadata X document created_at)) (\<lambda>root_metadata.
     bnd (lift (key_metadata_from_public X signing_kid DeviceSigning Managed Key_Pending
            (managed_public_key X signing_key) created_at)) (\<lambda>signing_metadata.
     bnd (lift (key_metadata_from_public X e2ee_kid E2eeAgreement Managed Key_Pending
            (managed_public_key X e2ee_key) created_at)) (\<lambda>e2ee_metadata.
     let local = \<lparr>la_device_id = es_device_id spec, la_signing_kid = signing_kid,
           la_e2ee_kid = e2ee_kid, la_profiles = es_profiles spec\<rparr>
     in
     bnd (lift (method_root_fingerprint X document)) (\<lambda>root_fingerprint.
     let r = (new_identity_record
           \<lparr>ni_identity_id = identity_id, ni_did = did, ni_document = document,
            ni_keys = (case root_metadata of None \<Rightarrow> [] | Some m \<Rightarrow> [m])
                        @ [signing_metadata, e2ee_metadata],
            ni_capabilities = es_capabilities spec, ni_root_capability = Root_Absent,
            ni_root_key_fingerprint = root_fingerprint,
            ni_checkpoint = checkpoint (es_evidence spec),
            ni_local_authorization = Some local, ni_created_at = created_at\<rparr>)
           \<lparr>ir_state := Id_Enrolling,
            ir_pending_enrollment := Some \<lparr>pe_enrollment_id = enrollment_id,
              pe_local_authorization = local, pe_created_at = created_at\<rparr>\<rparr>
     in
     bnd (write_identity X (rt_root rt) guard r) (\<lambda>_.
     bnd (register_identity (rt_root rt) guard registry did (summary r)) (\<lambda>next_generation.
     bnd (remove_journal X (rt_root rt) guard transaction_id) (\<lambda>_.
     ret (store\<lparr>ds_registry_generation := next_generation\<rparr>,
          \<lparr>di_runtime = rt, di_record = r\<rparr>,
          \<lparr>pn_enrollment_id = enrollment_id, pn_identity_id = identity_id, pn_did = did,
           pn_device_id = es_device_id spec,
           pn_device_signing_key = enrollment_key signing_metadata,
           pn_device_e2ee_key = enrollment_key e2ee_metadata,
           pn_profiles = es_profiles spec, pn_root_key_fingerprint = root_fingerprint,
           pn_checkpoint = checkpoint (es_evidence spec)\<rparr>))))))))))))))))))))))))))"

definition prepare_request_signing_enrollment ::
  "ext \<Rightarrow> did_store \<Rightarrow> request_signing_enrollment_spec
     \<Rightarrow> (did_store \<times> did_identity \<times> prepared_request_signing_enrollment) io" where
  "prepare_request_signing_enrollment X store spec =
     (let rt = ds_runtime store; document = rs_verified_document spec in
     bnd (lift (validate_verified_document X document (rs_evidence spec))) (\<lambda>_.
     bnd (lift (validate_fragment (rs_fragment spec))) (\<lambda>_.
     bnd (lift (ok_or (get_str document ''id'') InvalidIdentity)) (\<lambda>did.
     bnd (lift (canonicalize_kid did (rs_fragment spec))) (\<lambda>kid.
     bnd (lift (ensure (find_verification_method X document kid = None) DuplicateKid)) (\<lambda>_.
     bnd (acquire_write rt) (\<lambda>guard.
     bnd read_registry (\<lambda>registry.
     bnd (lift (ensure (rg_generation registry = ds_registry_generation store) Conflict)) (\<lambda>_.
     bnd (lift (ensure (btree_get (rg_identities registry) did = None) DuplicateIdentity)) (\<lambda>_.
     bnd (random_id X) (\<lambda>identity_id.
     bnd (random_id X) (\<lambda>enrollment_id.
     bnd (random_id X) (\<lambda>transaction_id.
     bnd (now_rfc3339 X) (\<lambda>created_at.
     bnd (generate_key X (rs_fragment spec) RequestSigning) (\<lambda>request_key.
     let secret_ref = \<lparr>sr_identity_id = identity_id, sr_key_id = kid,
           sr_role = RequestSigning, sr_version = 1\<rparr>
     in
     bnd (write_journal X (rt_root rt) guard
            (new_creation_journal transaction_id identity_id did [secret_ref] created_at)) (\<lambda>_.
     bnd (seal_or_verify X rt guard (request_key, secret_ref)) (\<lambda>_.
     bnd (lift (optional_root_metadata X document created_at)) (\<lambda>root_metadata.
     bnd (lift (key_metadata_from_public X kid RequestSigning Managed Key_Pending
            (managed_public_key X request_key) created_at)) (\<lambda>request_metadata.
     bnd (lift (method_root_fingerprint X document)) (\<lambda>root_fingerprint.
     let r = (new_identity_record
           \<lparr>ni_identity_id = identity_id, ni_did = did, ni_document = document,
            ni_keys = (case root_metadata of None \<Rightarrow> [] | Some m \<Rightarrow> [m]) @ [request_metadata],
            ni_capabilities = rs_capabilities spec, ni_root_capability = Root_Absent,
            ni_root_key_fingerprint = root_fingerprint,
            ni_checkpoint = checkpoint (rs_evidence spec),
            ni_local_authorization = None, ni_created_at = created_at\<rparr>)
           \<lparr>ir_state := Id_Enrolling, ir_local_request_signing_kid := Some kid,
            ir_pending_request_signing := Some \<lparr>ps_enrollment_id = enrollment_id,
              ps_request_signing_kid = kid, ps_created_at = created_at\<rparr>\<rparr>
     in
     bnd (write_identity X (rt_root rt) guard r) (\<lambda>_.
     bnd (register_identity (rt_root rt) guard registry did (summary r)) (\<lambda>next_generation.
     bnd (remove_journal X (rt_root rt) guard transaction_id) (\<lambda>_.
     ret (store\<lparr>ds_registry_generation := next_generation\<rparr>,
          \<lparr>di_runtime = rt, di_record = r\<rparr>,
          \<lparr>pq_enrollment_id = enrollment_id, pq_identity_id = identity_id, pq_did = did,
           pq_request_signing_key = enrollment_key request_metadata,
           pq_root_key_fingerprint = root_fingerprint,
           pq_checkpoint = checkpoint (rs_evidence spec)\<rparr>))))))))))))))))))))))))"

section \<open>Pending enrolments of an open identity\<close>

definition pending_enrollment :: "did_identity \<Rightarrow> prepared_enrollment option" where
  "pending_enrollment i =
     (let r = di_record i in
      Option.bind (ir_pending_enrollment r) (\<lambda>pending.
      Option.bind (ir_local_authorization r) (\<lambda>local.
      Option.bind (find (\<lambda>k. km_kid k = la_signing_kid local) (ir_keys r)) (\<lambda>signing.
      Option.bind (find (\<lambda>k. km_kid k = la_e2ee_kid local) (ir_keys r)) (\<lambda>e2ee.
      Option.bind (ir_checkpoint r) (\<lambda>cp.
        Some \<lparr>pn_enrollment_id = pe_enrollment_id pending, pn_identity_id = di_identity_id i,
              pn_did = di_did i, pn_device_id = la_device_id local,
              pn_device_signing_key = enrollment_key signing,
              pn_device_e2ee_key = enrollment_key e2ee, pn_profiles = la_profiles local,
              pn_root_key_fingerprint = ir_root_key_fingerprint r, pn_checkpoint = cp\<rparr>))))))"

definition pending_request_signing_enrollment ::
  "did_identity \<Rightarrow> prepared_request_signing_enrollment option" where
  "pending_request_signing_enrollment i =
     (let r = di_record i in
      Option.bind (ir_pending_request_signing r) (\<lambda>pending.
      Option.bind (find (\<lambda>k. km_kid k = ps_request_signing_kid pending) (ir_keys r)) (\<lambda>request.
      Option.bind (ir_checkpoint r) (\<lambda>cp.
        Some \<lparr>pq_enrollment_id = ps_enrollment_id pending, pq_identity_id = di_identity_id i,
              pq_did = di_did i, pq_request_signing_key = enrollment_key request,
              pq_root_key_fingerprint = ir_root_key_fingerprint r, pq_checkpoint = cp\<rparr>))))"

section \<open>Adopting a verified document\<close>

definition open_transition :: "string \<Rightarrow> identity_transition_journal \<Rightarrow> bool" where
  "open_transition identity_id j \<longleftrightarrow>
     (tj_predecessor_identity_id j = identity_id \<or> tj_successor_identity_id j = identity_id)
     \<and> tj_state j \<in> {TJ_Prepared, TJ_PublicationInFlight, TJ_PublicationUncertain}"

definition persist_state_transition ::
  "ext \<Rightarrow> store_runtime \<Rightarrow> store_write_guard \<Rightarrow> identity_record \<Rightarrow> identity_record io" where
  "persist_state_transition X rt guard r =
     bnd (random_id X) (\<lambda>transaction_id.
     bnd (now_rfc3339 X) (\<lambda>created_at.
     bnd (write_journal X (rt_root rt) guard
            (new_state_transition transaction_id (ir_identity_id r) (ir_did r) created_at)) (\<lambda>_.
     bnd (lift (ok_or (checked_add1 (ir_generation r)) Conflict)) (\<lambda>generation.
     let r = r\<lparr>ir_generation := generation\<rparr> in
     bnd (write_identity X (rt_root rt) guard r) (\<lambda>_.
     bnd read_registry (\<lambda>registry.
     bnd (lift (ensure (case btree_get (rg_identities registry) (ir_did r) of None \<Rightarrow> False
                  | Some s \<Rightarrow> is_identity_id s = ir_identity_id r) IdentityNotFound)) (\<lambda>_.
     bnd (lift (ok_or (checked_add1 (rg_generation registry)) Conflict)) (\<lambda>registry_generation.
     bnd (write_registry (rt_root rt) guard
            (registry\<lparr>rg_identities := btree_insert (ir_did r) (summary r) (rg_identities registry),
               rg_generation := registry_generation\<rparr>)) (\<lambda>_.
     bnd (remove_journal X (rt_root rt) guard transaction_id) (\<lambda>_.
     ret r))))))))))"

definition activate_pending_keys :: "identity_record \<Rightarrow> identity_record" where
  "activate_pending_keys r =
     r\<lparr>ir_keys := map (\<lambda>k. if km_state k = Key_Pending then k\<lparr>km_state := Key_Active\<rparr> else k) (ir_keys r),
       ir_pending_enrollment := None, ir_pending_request_signing := None, ir_state := Id_Active\<rparr>"

definition adoption_outcome ::
  "identity_record \<Rightarrow> bool \<Rightarrow> verified_document_evidence
     \<Rightarrow> (identity_record \<times> adopt_document_outcome) did_result" where
  "adoption_outcome r authorized evidence =
     (case ir_state r of
        Id_Creating \<Rightarrow> Inl InvalidIdentity
      | Id_Enrolling \<Rightarrow>
          if \<not> authorized \<or> ir_pending_enrollment r = None \<and> ir_pending_request_signing r = None
          then Inl InvalidIdentity
          else Inr (activate_pending_keys r, Activated)
      | Id_Active \<Rightarrow>
          if \<not> authorized
          then Inr ((revoke_local_authorization r)\<lparr>ir_state := Id_Revoked\<rparr>, Revoked)
          else if (case ir_checkpoint r of None \<Rightarrow> False
                   | Some c \<Rightarrow> ck_document_digest c = ev_document_digest evidence)
          then Inr (r, Unchanged) else Inr (r, Updated)
      | Id_Revoked \<Rightarrow> Inr (r, Revoked))"

definition adopted_record ::
  "ext \<Rightarrow> identity_record \<Rightarrow> adopt_verified_document_spec \<Rightarrow> identity_record did_result" where
  "adopted_record X r spec =
     rbind (observe_devices (refresh_compatible_local_profiles X r (av_document spec))
              (av_document spec)) (\<lambda>r.
       Inr (r\<lparr>ir_document := av_document spec, ir_checkpoint := Some (checkpoint (av_evidence spec)),
              ir_initial_publication_pending := False,
              ir_revision := ev_document_version (av_evidence spec)\<rparr>))"

definition checkpoint_unchanged :: "identity_record \<Rightarrow> verified_document_evidence \<Rightarrow> bool" where
  "checkpoint_unchanged r evidence =
     (case ir_checkpoint r of None \<Rightarrow> False
      | Some c \<Rightarrow> ck_document_version c = ev_document_version evidence
          \<and> ck_registry_version c = ev_registry_version evidence
          \<and> ck_document_digest c = ev_document_digest evidence)"

definition check_adoption_progress ::
  "identity_record \<Rightarrow> bool \<Rightarrow> adopt_verified_document_spec \<Rightarrow> unit did_result" where
  "check_adoption_progress r sibling_only spec =
     rbind (if sibling_only then Inr False
            else is_initial_proof_confirmation r (av_document spec) (av_evidence spec)) (\<lambda>initial.
       if initial then Inr () else validate_checkpoint_progression (ir_checkpoint r) (av_evidence spec))"

definition adopt_verified_document_inner ::
  "ext \<Rightarrow> did_identity \<Rightarrow> adopt_verified_document_spec \<Rightarrow> bool
     \<Rightarrow> (did_identity \<times> adopt_document_outcome) io" where
  "adopt_verified_document_inner X i spec sibling_only =
     (let rt = di_runtime i in
     bnd (lift (validate_verified_document X (av_document spec) (av_evidence spec))) (\<lambda>_.
     bnd (lift (ensure (get_str (av_document spec) ''id'' = Some (di_did i)) InvalidIdentity)) (\<lambda>_.
     bnd (acquire_write rt) (\<lambda>guard.
     bnd (read_identity X (di_identity_id i)) (\<lambda>r.
     bnd (lift (ensure (ir_generation r = ir_generation (di_record i)) Conflict)) (\<lambda>_.
     bnd (lift (ensure (ir_pending_revision r = None) PendingRevisionExists)) (\<lambda>_.
     bnd (if sibling_only
          then bnd (lift (ensure (ir_state r = Id_Active \<and> ir_root_capability r = Root_Active)
                  KeyNotUsable)) (\<lambda>_.
               bnd list_identity_transition_journals (\<lambda>js.
                 lift (ensure (\<not> list_ex (open_transition (ir_identity_id r)) js) Conflict)))
          else ret ()) (\<lambda>_.
     bnd (lift (check_adoption_progress r sibling_only spec)) (\<lambda>_.
     bnd (lift (method_root_fingerprint X (av_document spec))) (\<lambda>fingerprint.
     bnd (lift (ensure (fingerprint = ir_root_key_fingerprint r) RootKeyMismatch)) (\<lambda>_.
     let unchanged = checkpoint_unchanged r (av_evidence spec);
         authorized = local_authorized X r (av_document spec)
     in
     bnd (lift (ensure (\<not> (sibling_only \<and> \<not> authorized)) KeyRoleViolation)) (\<lambda>_.
     bnd (lift (adoption_outcome r authorized (av_evidence spec))) (\<lambda>(r, outcome).
       if outcome = Unchanged \<and> unchanged \<and> \<not> ir_initial_publication_pending r
       then ret (i, outcome)
       else
         bnd (lift (adopted_record X r spec)) (\<lambda>r.
         bnd (if sibling_only then persist_record X rt guard r
              else persist_state_transition X rt guard r) (\<lambda>r.
         ret (replace_record i r, outcome))))))))))))))))"

definition adopt_verified_document ::
  "ext \<Rightarrow> did_identity \<Rightarrow> adopt_verified_document_spec \<Rightarrow> (did_identity \<times> adopt_document_outcome) io" where
  "adopt_verified_document X i spec = adopt_verified_document_inner X i spec False"

definition adopt_verified_sibling_document ::
  "ext \<Rightarrow> did_identity \<Rightarrow> adopt_verified_document_spec \<Rightarrow> (did_identity \<times> adopt_document_outcome) io" where
  "adopt_verified_sibling_document X i spec = adopt_verified_document_inner X i spec True"

end
