(* ===== verification/Identity.thy ===== *)
theory Identity
  imports Adoption
begin

text \<open>
  The operations of \<open>identity.rs\<close>: creating an identity as a journalled transaction, recovering the
  store from interrupted transactions, and opening, listing and reloading.
\<close>

section \<open>Creating an identity\<close>

definition creation_refs :: "string \<Rightarrow> built_identity \<Rightarrow> secret_ref list" where
  "creation_refs identity_id built =
     map (\<lambda>k. \<lparr>sr_identity_id = identity_id, sr_key_id = bi_did built @ ''#'' @ mp_fragment k,
               sr_role = mp_role k, sr_version = 1\<rparr>) (bi_managed_keys built)"

definition verify_all_persisted_keys ::
  "ext \<Rightarrow> store_runtime \<Rightarrow> built_identity \<Rightarrow> secret_ref list \<Rightarrow> unit io" where
  "verify_all_persisted_keys X rt built refs =
     foreach (\<lambda>p. verify_persisted_key X rt (snd p) (managed_public_key X (fst p)))
       (zip (bi_managed_keys built) refs)"

text \<open>The record of a created identity, still in state \<open>Creating\<close>.\<close>

definition created_record ::
  "ext \<Rightarrow> did_create_spec \<Rightarrow> built_identity \<Rightarrow> string \<Rightarrow> identity_record did_result" where
  "created_record X spec built identity_id =
     rbind (method_root_fingerprint X (bi_document built)) (\<lambda>fingerprint.
     rbind (document_digest X (bi_document built)) (\<lambda>digest.
     rbind (infer_local_authorization X (bi_document built) (bi_metadata built)) (\<lambda>local.
       Inr ((new_identity_record
         \<lparr>ni_identity_id = identity_id, ni_did = bi_did built, ni_document = bi_document built,
          ni_keys = bi_metadata built, ni_capabilities = cs_capabilities spec,
          ni_root_capability =
            (if supports_root_control (cs_profile spec) then Root_Active else Root_Absent),
          ni_root_key_fingerprint = fingerprint,
          ni_checkpoint = \<lparr>ck_document_version = 1, ck_registry_version = 1,
            ck_document_digest = digest\<rparr>,
          ni_local_authorization = local, ni_created_at = bi_created_at built\<rparr>)
         \<lparr>ir_initial_publication_pending := True\<rparr>))))"

text \<open>The steps that follow the journal, in the order of the source.\<close>

definition create_identity_commit ::
  "ext \<Rightarrow> did_store \<Rightarrow> did_create_spec \<Rightarrow> store_write_guard \<Rightarrow> identity_registry \<Rightarrow> built_identity
     \<Rightarrow> string \<Rightarrow> string \<Rightarrow> (did_store \<times> did_identity) io" where
  "create_identity_commit X store spec guard registry built identity_id transaction_id =
     (let rt = ds_runtime store; refs = creation_refs identity_id built in
     bnd (foreach (seal_or_verify X rt guard) (zip (bi_managed_keys built) refs)) (\<lambda>_.
     bnd (verify_all_persisted_keys X rt built refs) (\<lambda>_.
     bnd (lift (created_record X spec built identity_id)) (\<lambda>r.
     bnd (write_identity X (rt_root rt) guard r) (\<lambda>_.
     bnd (register_identity (rt_root rt) guard registry (ir_did r)
            ((summary r)\<lparr>is_state := Id_Active\<rparr>)) (\<lambda>next_generation.
     let r = r\<lparr>ir_state := Id_Active\<rparr> in
     bnd (write_identity X (rt_root rt) guard r) (\<lambda>_.
     bnd (remove_journal X (rt_root rt) guard transaction_id) (\<lambda>_.
     ret (store\<lparr>ds_registry_generation := next_generation\<rparr>,
          \<lparr>di_runtime = rt, di_record = r\<rparr>)))))))))"

definition create_identity ::
  "ext \<Rightarrow> did_store \<Rightarrow> did_create_spec \<Rightarrow> (did_store \<times> did_identity) io" where
  "create_identity X store spec =
     (let rt = ds_runtime store in
     bnd (acquire_write rt) (\<lambda>guard.
     bnd read_registry (\<lambda>registry.
     bnd (lift (ensure (rg_generation registry = ds_registry_generation store) Conflict)) (\<lambda>_.
     bnd list_journals (\<lambda>journals.
     bnd (lift (ensure (journals = []) Conflict)) (\<lambda>_.
     bnd (build_identity X spec) (\<lambda>built.
     bnd (lift (ensure (btree_get (rg_identities registry) (bi_did built) = None)
            DuplicateIdentity)) (\<lambda>_.
     bnd (random_id X) (\<lambda>identity_id.
     bnd (random_id X) (\<lambda>transaction_id.
     bnd (write_journal X (rt_root rt) guard
            (new_creation_journal transaction_id identity_id (bi_did built)
               (creation_refs identity_id built) (bi_created_at built))) (\<lambda>_.
     create_identity_commit X store spec guard registry built identity_id transaction_id)))))))))))"

section \<open>Recovery\<close>

text \<open>The registry is the accumulator of the loop over the journals.\<close>

definition refresh_registry ::
  "string \<Rightarrow> store_write_guard \<Rightarrow> identity_registry \<Rightarrow> string \<Rightarrow> identity_summary \<Rightarrow> identity_registry io" where
  "refresh_registry root guard registry did s =
     (if btree_get (rg_identities registry) did \<noteq> Some s
      then bnd (lift (ok_or (checked_add1 (rg_generation registry)) Conflict)) (\<lambda>generation.
           let registry = registry\<lparr>rg_identities := btree_insert did s (rg_identities registry),
                 rg_generation := generation\<rparr>
           in bnd (write_registry root guard registry) (\<lambda>_. ret registry))
      else ret registry)"

definition names_identity :: "identity_registry \<Rightarrow> string \<Rightarrow> string \<Rightarrow> bool" where
  "names_identity registry did identity_id =
     (case btree_get (rg_identities registry) did of None \<Rightarrow> False
      | Some s \<Rightarrow> is_identity_id s = identity_id)"

definition root_import_committed :: "identity_record \<Rightarrow> bool" where
  "root_import_committed r \<longleftrightarrow>
     ir_root_capability r \<in> {Root_Pending, Root_Active}
     \<and> list_ex (\<lambda>k. km_role k = RootControl \<and> km_origin k = Managed \<and> \<not> km_material_erased k)
         (ir_keys r)"

definition recover_journal ::
  "ext \<Rightarrow> store_runtime \<Rightarrow> store_write_guard \<Rightarrow> identity_registry \<Rightarrow> creation_journal
     \<Rightarrow> identity_registry io" where
  "recover_journal X rt guard registry j =
     (let root = rt_root rt; delete_secrets = foreach (ks_delete X (rt_key_store rt) guard) (cj_secret_refs j);
          finish = (\<lambda>registry. bnd (remove_journal X root guard (cj_transaction_id j)) (\<lambda>_. ret registry))
      in
      case cj_kind j of
        CJ_StateTransition \<Rightarrow>
          bnd (read_identity X (cj_identity_id j)) (\<lambda>r.
          bnd (lift (ensure (ir_did r = cj_did j) InvalidIdentity)) (\<lambda>_.
          bnd (refresh_registry root guard registry (cj_did j) (summary r)) finish))
      | CJ_RootImport \<Rightarrow>
          bnd (read_identity X (cj_identity_id j)) (\<lambda>r.
          bnd (lift (ensure (ir_did r = cj_did j) InvalidIdentity)) (\<lambda>_.
          bnd (if root_import_committed r
               then refresh_registry root guard registry (cj_did j) (summary r)
               else bnd delete_secrets (\<lambda>_. ret registry)) finish))
      | CJ_NamespaceDelete \<Rightarrow>
          bnd delete_secrets (\<lambda>_.
          bnd (remove_identity X root guard (cj_identity_id j)) (\<lambda>_.
          bnd (if names_identity registry (cj_did j) (cj_identity_id j)
               then bnd (lift (ok_or (checked_add1 (rg_generation registry)) Conflict)) (\<lambda>generation.
                    let registry = registry\<lparr>rg_identities := btree_remove (cj_did j) (rg_identities registry),
                          rg_generation := generation\<rparr>
                    in bnd (write_registry root guard registry) (\<lambda>_. ret registry))
               else ret registry) finish))
      | CJ_Create \<Rightarrow>
          bnd (if names_identity registry (cj_did j) (cj_identity_id j)
               then bnd (read_identity X (cj_identity_id j)) (\<lambda>r.
                    bnd (lift (ensure (ir_did r = cj_did j) InvalidIdentity)) (\<lambda>_.
                      if ir_state r = Id_Creating
                      then write_identity X root guard (r\<lparr>ir_state := Id_Active\<rparr>) else ret ()))
               else bnd delete_secrets (\<lambda>_. remove_identity X root guard (cj_identity_id j))) (\<lambda>_.
          finish registry))"

definition recover :: "ext \<Rightarrow> store_runtime \<Rightarrow> identity_registry io" where
  "recover X rt =
     bnd (acquire_write rt) (\<lambda>guard.
     bnd read_registry (\<lambda>registry.
     bnd list_journals (\<lambda>journals.
     bnd (foldio (recover_journal X rt guard) registry journals) (\<lambda>_.
     bnd (recover_update_journals X rt guard) (\<lambda>_.
     read_registry)))))"

section \<open>Opening and reloading\<close>

definition from_runtime :: "ext \<Rightarrow> store_runtime \<Rightarrow> did_store io" where
  "from_runtime X rt =
     bnd (recover X rt) (\<lambda>registry.
       ret \<lparr>ds_runtime = rt, ds_registry_generation = rg_generation registry\<rparr>)"

definition initialize_injected :: "ext \<Rightarrow> string \<Rightarrow> string \<Rightarrow> bytes \<Rightarrow> did_store io" where
  "initialize_injected X root key_id root_key =
     bnd (runtime_initialize X root (Required (injected_provider key_id root_key))) (from_runtime X)"

definition open_injected :: "ext \<Rightarrow> string \<Rightarrow> string \<Rightarrow> bytes \<Rightarrow> did_store io" where
  "open_injected X root key_id root_key =
     bnd (runtime_open X root [injected_provider key_id root_key]) (from_runtime X)"

definition initialize_env ::
  "ext \<Rightarrow> (string \<Rightarrow> string option) \<Rightarrow> string \<Rightarrow> string \<Rightarrow> string \<Rightarrow> did_store io" where
  "initialize_env X env root key_id env_var =
     bnd (lift (injected_from_env X env key_id env_var)) (\<lambda>provider.
     bnd (runtime_initialize X root (Required provider)) (from_runtime X))"

definition open_env ::
  "ext \<Rightarrow> (string \<Rightarrow> string option) \<Rightarrow> string \<Rightarrow> string \<Rightarrow> string \<Rightarrow> did_store io" where
  "open_env X env root key_id env_var =
     bnd (lift (injected_from_env X env key_id env_var)) (\<lambda>provider.
     bnd (runtime_open X root [provider]) (from_runtime X))"

definition initialize_local_file :: "ext \<Rightarrow> string \<Rightarrow> did_store io" where
  "initialize_local_file X root =
     bnd (runtime_initialize X root (Required (file_provider X ''local-private-file'' root)))
       (from_runtime X)"

definition open_local_file :: "ext \<Rightarrow> string \<Rightarrow> did_store io" where
  "open_local_file X root =
     bnd (runtime_open X root [file_provider X ''local-private-file'' root]) (from_runtime X)"

definition initialize_keyring ::
  "ext \<Rightarrow> keyring \<Rightarrow> string \<Rightarrow> string \<Rightarrow> string \<Rightarrow> bool \<Rightarrow> did_store io" where
  "initialize_keyring X kr root service account fallback_to_local_file =
     (let keyring = keyring_provider X kr service account;
          file = file_provider X ''local-private-file'' root
      in bnd (runtime_initialize X root
                (if fallback_to_local_file then Preferred keyring file else Required keyring))
           (from_runtime X))"

definition reload_store :: "ext \<Rightarrow> did_store \<Rightarrow> did_store io" where
  "reload_store X store =
     bnd (recover X (ds_runtime store)) (\<lambda>registry.
       ret (store\<lparr>ds_registry_generation := rg_generation registry\<rparr>))"

definition list_identities :: "identity_summary list io" where
  "list_identities = bnd read_registry (\<lambda>registry. ret (map snd (rg_identities registry)))"

definition open_identity :: "ext \<Rightarrow> did_store \<Rightarrow> string \<Rightarrow> did_identity io" where
  "open_identity X store did =
     bnd read_registry (\<lambda>registry.
     bnd (lift (ok_or (btree_get (rg_identities registry) did) IdentityNotFound)) (\<lambda>s.
     bnd (read_identity X (is_identity_id s)) (\<lambda>r.
     bnd (lift (ensure (\<not> (ir_did r \<noteq> did \<or> ir_state r = Id_Creating \<or> ir_state r \<noteq> is_state s))
            InvalidIdentity)) (\<lambda>_.
     ret \<lparr>di_runtime = ds_runtime store, di_record = r\<rparr>))))"

definition reload_identity :: "ext \<Rightarrow> did_identity \<Rightarrow> did_identity io" where
  "reload_identity X i =
     bnd (recover X (di_runtime i)) (\<lambda>registry.
     bnd (lift (ensure (names_identity registry (di_did i) (di_identity_id i)) IdentityNotFound)) (\<lambda>_.
     bnd (read_identity X (di_identity_id i)) (\<lambda>r.
     bnd (lift (ok_or (btree_get (rg_identities registry) (di_did i)) IdentityNotFound)) (\<lambda>s.
     bnd (lift (ensure (\<not> (ir_did r \<noteq> di_did i \<or> ir_state r = Id_Creating \<or> ir_state r \<noteq> is_state s))
            InvalidIdentity)) (\<lambda>_.
     ret (replace_record i r))))))"

end
