(* ===== verification/Creation.thy ===== *)
theory Creation
  imports Identity
begin

text \<open>
  What the construction of an identity guarantees about its document and its record: the document
  carries the DID, the DID has the requested profile, and the record a creation writes reads back
  unchanged.
\<close>

section \<open>What is relied on of the anp crate\<close>

text \<open>
  The E1 builder returns a document whose \<open>id\<close> is a \<open>did:wba\<close> identifier determined by the domain,
  the port, the path and the root key; completing a proof keeps the \<open>id\<close>.
\<close>

definition anp_documents_ok :: "ext \<Rightarrow> bool" where
  "anp_documents_ok X \<longleftrightarrow>
     (\<forall>domain opts doc. build_unsigned_e1_did_document X domain opts = Some doc \<longrightarrow>
        (\<exists>did. get_str doc ''id'' = Some did \<and> starts_with did ''did:wba:''))
     \<and> (\<forall>domain opts opts' doc doc'. eo_port opts = eo_port opts'
          \<longrightarrow> eo_path_segments opts = eo_path_segments opts' \<longrightarrow> eo_root_key opts = eo_root_key opts'
          \<longrightarrow> build_unsigned_e1_did_document X domain opts = Some doc
          \<longrightarrow> build_unsigned_e1_did_document X domain opts' = Some doc'
          \<longrightarrow> get_str doc' ''id'' = get_str doc ''id'')
     \<and> (\<forall>doc key kid opts p signature doc'. prepare_w3c_proof X doc key kid opts = Some p
          \<longrightarrow> complete_w3c_proof X p signature = Some doc'
          \<longrightarrow> get_str doc' ''id'' = get_str doc ''id'')"

lemma anp_e1_wba:
  assumes "anp_documents_ok X" "build_unsigned_e1_did_document X domain opts = Some doc"
  shows "\<exists>did. get_str doc ''id'' = Some did \<and> starts_with did ''did:wba:''"
  using assms(1) [unfolded anp_documents_ok_def, THEN conjunct1, rule_format, OF assms(2)] .

lemma anp_e1_id_stable:
  assumes "anp_documents_ok X"
    "build_unsigned_e1_did_document X domain opts = Some doc"
    "build_unsigned_e1_did_document X domain opts' = Some doc'"
    "eo_port opts = eo_port opts'" "eo_path_segments opts = eo_path_segments opts'"
    "eo_root_key opts = eo_root_key opts'"
  shows "get_str doc' ''id'' = get_str doc ''id''"
  using assms(1) [unfolded anp_documents_ok_def, THEN conjunct2, THEN conjunct1, rule_format,
      OF assms(4,5,6,2,3)] .

lemma anp_proof_id:
  assumes "anp_documents_ok X" "prepare_w3c_proof X doc key kid opts = Some p"
    "complete_w3c_proof X p signature = Some doc'"
  shows "get_str doc' ''id'' = get_str doc ''id''"
  using assms(1) [unfolded anp_documents_ok_def, THEN conjunct2, THEN conjunct2, rule_format,
      OF assms(2,3)] .

lemma apply_extension_id:
  "apply_extension X did object e = Inr object' \<Longrightarrow> btree_get object' ''id'' = btree_get object ''id''"
  by (cases e) (auto simp: rbind_Inr_iff split: if_splits)

lemma rfold_apply_extension_id:
  "rfold (apply_extension X did) object es = Inr object'
   \<Longrightarrow> btree_get object' ''id'' = btree_get object ''id''"
  by (induction es arbitrary: object) (auto simp: rbind_Inr_iff dest: apply_extension_id)

lemma apply_extensions_id:
  "apply_extensions X doc did es = Inr doc' \<Longrightarrow> get_str doc' ''id'' = get_str doc ''id''"
  by (cases doc)
     (auto simp: apply_extensions_def rbind_Inr_iff get_str_def json_get_def
       dest: rfold_apply_extension_id)

section \<open>Roles of the metadata\<close>

lemma mk_key_metadata_role: "mk_key_metadata X doc kid role origin t = Inr m \<Longrightarrow> km_role m = role"
  by (auto simp: mk_key_metadata_def rbind_Inr_iff)

lemma generate_keys_roles:
  "generate_keys X ks w = (Inr keys, w') \<Longrightarrow> map mp_role keys = map mk_role ks"
  by (induction ks arbitrary: keys w)
     (auto simp: bnd_Inr_iff ret_def generate_key_def)

lemma built_metadata_roles:
  assumes "built_metadata X doc did managed external t = Inr ms"
  shows "km_role ` set ms \<subseteq> mp_role ` set managed \<union> ek_role ` set external"
proof -
  from assms obtain as bs where ms: "ms = as @ bs"
    and as: "rcollect (\<lambda>k. mk_key_metadata X doc (did @ ''#'' @ mp_fragment k) (mp_role k) Managed t)
        managed = Inr as"
    and bs: "rcollect (\<lambda>k. rbind (canonicalize_kid did (ek_kid k)) (\<lambda>kid.
        mk_key_metadata X doc kid (ek_role k) External t)) external = Inr bs"
    by (auto simp: built_metadata_def rbind_Inr_iff)
  have "km_role m \<in> mp_role ` set managed" if "m \<in> set as" for m
    using that set_rcollect [OF as, of m] by (auto dest: mk_key_metadata_role)
  moreover have "km_role m \<in> ek_role ` set external" if "m \<in> set bs" for m
    using that set_rcollect [OF bs, of m] by (auto simp: rbind_Inr_iff dest: mk_key_metadata_role)
  ultimately show ?thesis by (auto simp: ms)
qed

lemma web_spec_no_root:
  assumes "validate_spec X spec = Inr u" "cs_profile spec = Web"
  shows "RootControl \<notin> mk_role ` set (cs_managed_keys spec)"
    "RootControl \<notin> ek_role ` set (cs_external_keys spec)"
proof -
  from assms have "root_count (cs_managed_keys spec) = 0"
    and ext: "\<not> list_ex (\<lambda>k. ek_role k = RootControl) (cs_external_keys spec)"
    by (auto simp: validate_spec_def rbind_Inr_iff supports_root_control_def)
  then show "RootControl \<notin> mk_role ` set (cs_managed_keys spec)"
    by (auto simp: root_count_def filter_empty_conv)
  from ext show "RootControl \<notin> ek_role ` set (cs_external_keys spec)"
    by (auto simp: list_ex_iff)
qed

section \<open>Built identities\<close>

text \<open>What the rest of a creation relies on of a built identity.\<close>

definition well_built :: "ext \<Rightarrow> did_create_spec \<Rightarrow> built_identity \<Rightarrow> bool" where
  "well_built X spec built \<longleftrightarrow>
     get_str (bi_document built) ''id'' = Some (bi_did built)
     \<and> for_did X (bi_did built) = Inr (cs_profile spec)
     \<and> (cs_profile spec = Web \<longrightarrow> RootControl \<notin> km_role ` set (bi_metadata built))"

lemma well_built_e1:
  assumes "anp_documents_ok X" "cs_profile spec = E1" "build_e1_identity X spec w = (Inr built, w')"
  shows "well_built X spec built"
proof -
  from assms(3) obtain root opts opts' root_only unsigned ext_doc prepared kid po sig w1 where
    *: "build_unsigned_e1_did_document X (cs_domain spec) opts = Some root_only"
      "get_str root_only ''id'' = Some (bi_did built)"
      "build_unsigned_e1_did_document X (cs_domain spec) opts' = Some unsigned"
      "eo_port opts = eo_port opts'" "eo_path_segments opts = eo_path_segments opts'"
      "eo_root_key opts = eo_root_key opts'"
      "apply_extensions X unsigned (bi_did built) (cs_extensions spec) = Inr ext_doc"
      "prepare_w3c_proof X ext_doc (managed_public_key X root) kid po = Some prepared"
      "complete_w3c_proof X prepared sig = Some (bi_document built)"
    unfolding build_e1_identity_def bnd_Inr_iff lift_def ret_def prod.inject sum.inject
      ok_or_Inr_iff ensure_Inr_iff
    by clarsimp
  have "get_str (bi_document built) ''id'' = get_str ext_doc ''id''"
    by (rule anp_proof_id [OF assms(1) *(8,9)])
  also have "\<dots> = get_str unsigned ''id''" using *(7) by (rule apply_extensions_id)
  also have "\<dots> = get_str root_only ''id''"
    by (rule anp_e1_id_stable [OF assms(1) *(1,3,4,5,6)])
  finally have "get_str (bi_document built) ''id'' = Some (bi_did built)" using *(2) by simp
  moreover have "starts_with (bi_did built) ''did:wba:''"
    using anp_e1_wba [OF assms(1) *(1)] *(2) by simp
  ultimately show ?thesis using assms(2) by (simp add: well_built_def for_did_def)
qed

lemma web_object_id [simp]: "btree_get (web_object did ms au asrt ag ss) ''id'' = Some (JString did)"
  by (simp add: web_object_def Let_def del: btree_insert.simps)

lemma for_did_web:
  "build_did_web_resolution_url X (web_did spec) \<noteq> None \<Longrightarrow> for_did X (web_did spec) = Inr Web"
  by (simp add: for_did_def web_did_def starts_with_def)

lemma well_built_web:
  assumes "validate_spec X spec = Inr u" "cs_profile spec = Web"
    "build_web_identity X spec w = (Inr built, w')"
  shows "well_built X spec built"
proof -
  from assms(3) obtain managed w1 w2 base doc did where
    *: "bi_did built = web_did spec" "build_did_web_resolution_url X (web_did spec) \<noteq> None"
      "generate_keys X (cs_managed_keys spec) w1 = (Inr managed, w2)"
      "btree_get base ''id'' = Some (JString (web_did spec))"
      "apply_extensions X (JObject base) did (cs_extensions spec) = Inr (bi_document built)"
      "built_metadata X (bi_document built) (web_did spec) managed (cs_external_keys spec)
         (bi_created_at built) = Inr (bi_metadata built)"
    unfolding build_web_identity_def Let_def bnd_Inr_iff lift_def ret_def prod.inject sum.inject
      ok_or_Inr_iff ensure_Inr_iff
    by (clarsimp simp: bnd_Inr_iff lift_def ret_def split: prod.splits) (rule that; simp)
  from *(4,5) have "get_str (bi_document built) ''id'' = Some (web_did spec)"
    using apply_extensions_id [OF *(5)] by (simp add: get_str_def)
  moreover have "RootControl \<notin> km_role ` set (bi_metadata built)"
    using built_metadata_roles [OF *(6)] web_spec_no_root [OF assms(1,2)]
      arg_cong [OF generate_keys_roles [OF *(3)], of set] by auto
  ultimately show ?thesis using *(1,2) assms(2) by (simp add: well_built_def for_did_web)
qed

lemma build_identity_well_built:
  assumes "anp_documents_ok X" "build_identity X spec w = (Inr built, w')"
  shows "well_built X spec built"
proof (cases "cs_profile spec")
  case E1
  with assms(2) obtain w1 where "build_e1_identity X spec w1 = (Inr built, w')"
    by (auto simp: build_identity_def bnd_Inr_iff)
  with assms(1) E1 show ?thesis by (rule well_built_e1)
next
  case Web
  with assms(2) obtain w1 u where "validate_spec X spec = Inr u"
    "build_web_identity X spec w1 = (Inr built, w')"
    by (auto simp: build_identity_def bnd_Inr_iff lift_def)
  with Web show ?thesis by (blast intro: well_built_web)
qed

section \<open>The record reads back\<close>

lemma method_root_fingerprint_cases:
  assumes "method_root_fingerprint X doc = Inr f" "get_str doc ''id'' = Some did"
    "for_did X did = Inr profile"
  shows "if supports_root_control profile then \<exists>s. f = Some s \<and> s \<noteq> [] else f = None"
  using assms
  by (auto simp: method_root_fingerprint_def validate_method_document_def rbind_Inr_iff
      root_key_fingerprint_def split: if_splits public_key.splits)

lemma created_record_reads_back:
  assumes "well_built X spec built" "created_record X spec built i = Inr r"
  shows "decode_identity X i (Some (Parsed (r\<lparr>ir_state := s\<rparr>))) = Inr (r\<lparr>ir_state := s\<rparr>)"
proof -
  from assms(2) obtain f digest local where
    f: "method_root_fingerprint X (bi_document built) = Inr f"
    and d: "document_digest X (bi_document built) = Inr digest"
    and l: "infer_local_authorization X (bi_document built) (bi_metadata built) = Inr local"
    by (auto simp: created_record_def rbind_Inr_iff)
  from assms(1) have doc: "get_str (bi_document built) ''id'' = Some (bi_did built)"
    and did: "for_did X (bi_did built) = Inr (cs_profile spec)"
    and web: "\<And>k. cs_profile spec = Web \<Longrightarrow> k \<in> set (bi_metadata built) \<Longrightarrow> km_role k \<noteq> RootControl"
    by (force simp: well_built_def)+
  note fc = method_root_fingerprint_cases [OF f doc did]
  have r: "r = (new_identity_record
         \<lparr>ni_identity_id = i, ni_did = bi_did built, ni_document = bi_document built,
          ni_keys = bi_metadata built, ni_capabilities = cs_capabilities spec,
          ni_root_capability =
            (if supports_root_control (cs_profile spec) then Root_Active else Root_Absent),
          ni_root_key_fingerprint = f,
          ni_checkpoint = \<lparr>ck_document_version = 1, ck_registry_version = 1,
            ck_document_digest = digest\<rparr>,
          ni_local_authorization = local, ni_created_at = bi_created_at built\<rparr>)
         \<lparr>ir_initial_publication_pending := True\<rparr>"
    using assms(2) f d l by (simp add: created_record_def)
  show ?thesis
  proof (cases "cs_profile spec")
    case E1
    then show ?thesis using fc did l
      by (auto simp: r new_identity_record_def supports_root_control_def split: option.splits)
  next
    case Web
    then show ?thesis using fc did l web
      by (auto simp: r new_identity_record_def supports_root_control_def list_ex_iff)
  qed
qed

lemma created_record_fields:
  assumes "created_record X spec built i = Inr r"
  shows "ir_identity_id r = i" "ir_did r = bi_did built" "ir_state r = Id_Creating"
    "ir_keys r = bi_metadata built" "ir_document r = bi_document built"
  using assms by (auto simp: created_record_def rbind_Inr_iff new_identity_record_def)

end
