(* ===== verification/Sample.thy ===== *)
theory Sample
  imports Identity
begin

text \<open>
  A concrete instance on which the hypotheses of the properties are discharged: external functions
  that compute, a world without stored data, a runtime, and two specifications of identities.
  Hashing, base64 and base58 are transparent encodings, the AEAD prefixes the key, a signature is
  the key followed by the message, and documents are built from the supplied keys.
\<close>

section \<open>External functions\<close>

fun sample_print :: "json \<Rightarrow> bytes" where
  "sample_print JNull = ''n''"
| "sample_print (JBool b) = (if b then ''t'' else ''f'')"
| "sample_print (JNumber n) = ''0''"
| "sample_print (JString s) = ''<'' @ s @ ''>''"
| "sample_print (JArray xs) = ''['' @ concat (map sample_print xs) @ '']''"
| "sample_print (JObject kvs) =
     ''{'' @ concat (map (\<lambda>kv. fst kv @ ''='' @ sample_print (snd kv)) kvs) @ ''}''"

definition sample_extract :: "json \<Rightarrow> public_key option" where
  "sample_extract m =
     (case get_str m ''publicKeyMultibase'' of
        Some (z # tag # one # key) \<Rightarrow>
          if tag = CHR 0xED then Some (Ed25519 key)
          else if tag = CHR 0xEC then Some (X25519 key) else None
      | _ \<Rightarrow> None)"

definition sample_array :: "json \<Rightarrow> string \<Rightarrow> json list" where
  "sample_array doc k = (case Option.bind (json_get doc k) as_array of None \<Rightarrow> [] | Some xs \<Rightarrow> xs)"

definition sample_find :: "json \<Rightarrow> string \<Rightarrow> json option" where
  "sample_find doc kid =
     find (\<lambda>m. get_str m ''id'' = Some kid) (sample_array doc ''verificationMethod'')"

fun sample_key_text :: "public_key \<Rightarrow> string" where
  "sample_key_text (Ed25519 b) = ''z'' @ [CHR 0xED, CHR 0x01] @ b"
| "sample_key_text (X25519 b) = ''z'' @ [CHR 0xEC, CHR 0x01] @ b"
| "sample_key_text (OtherKey b) = ''z'' @ [CHR 0x00, CHR 0x01] @ b"

definition sample_e1 :: "string \<Rightarrow> e1_document_options \<Rightarrow> json option" where
  "sample_e1 domain opts =
     (let did = ''did:wba:'' @ domain @ '':e1'';
          keys = eo_root_key opts # eo_additional_keys opts;
          kid = (\<lambda>k. JString (did @ ''#'' @ sk_fragment k));
          refs = (\<lambda>r. JArray (map kid (filter (\<lambda>k. r \<in> set (sk_relationships k)) keys)))
      in Some (json_object
        [(''id'', JString did),
         (''verificationMethod'', JArray (map (\<lambda>k. json_object
            [(''id'', kid k), (''type'', JString ''Multikey''), (''controller'', JString did),
             (''publicKeyMultibase'', JString (sample_key_text (sk_public_key k)))]) keys)),
         (''authentication'', refs Authentication), (''assertionMethod'', refs AssertionMethod),
         (''keyAgreement'', refs KeyAgreement), (''service'', JArray (eo_services opts))]))"

definition sample_prepare :: "json \<Rightarrow> public_key \<Rightarrow> string \<Rightarrow> proof_options \<Rightarrow> prepared_proof option" where
  "sample_prepare doc key kid opts =
     Some \<lparr>pp_state = JArray [doc, JString kid], signing_input = sample_print doc\<rparr>"

definition sample_complete :: "prepared_proof \<Rightarrow> bytes \<Rightarrow> json option" where
  "sample_complete p signature =
     (case pp_state p of
        JArray [JObject m, JString kid] \<Rightarrow> Some (JObject (btree_insert ''proof''
          (json_object [(''verificationMethod'', JString kid), (''proofValue'', JString signature)]) m))
      | _ \<Rightarrow> None)"

definition sample_manifest_value :: "device_manifest \<Rightarrow> json option" where
  "sample_manifest_value m = Some (json_object
     [(''type'', JString (dm_type m)),
      (''devices'', JArray (map (\<lambda>d. json_object
         [(''device_id'', JString (dm_device_id d)), (''signing_key_id'', JString (dm_signing_key_id d)),
          (''e2ee_key_id'', JString (dm_e2ee_key_id d)),
          (''profiles'', JArray (map JString (dm_profiles d)))]) (dm_devices m)))])"

definition sample_device :: "json \<Rightarrow> device_manifest_entry option" where
  "sample_device d =
     (case (get_str d ''device_id'', get_str d ''signing_key_id'', get_str d ''e2ee_key_id'') of
        (Some i, Some s, Some e) \<Rightarrow> Some \<lparr>dm_device_id = i, dm_signing_key_id = s,
          dm_e2ee_key_id = e, dm_profiles = List.map_filter as_str (sample_array d ''profiles'')\<rparr>
      | _ \<Rightarrow> None)"

definition sample_manifest :: "json \<Rightarrow> device_manifest option" where
  "sample_manifest v = Option.bind (get_str v ''type'') (\<lambda>t.
     Some \<lparr>dm_type = t, dm_devices = List.map_filter sample_device (sample_array v ''devices'')\<rparr>)"

definition sample_ext :: ext where
  "sample_ext = \<lparr>
     build_did_web_resolution_url = (\<lambda>did. Some did),
     extract_public_key = sample_extract,
     find_verification_method = sample_find,
     validate_device_manifest = (\<lambda>doc. Some (Option.bind (json_get doc ''deviceManifest'') sample_manifest)),
     validate_did_document_method = (\<lambda>doc. True),
     validate_did_document_binding = (\<lambda>doc. True),
     is_authentication_authorized = (\<lambda>doc kid. JString kid \<in> set (sample_array doc ''authentication'')),
     is_assertion_method_authorized = (\<lambda>doc kid. JString kid \<in> set (sample_array doc ''assertionMethod'')),
     build_unsigned_e1_did_document = sample_e1,
     prepare_w3c_proof = sample_prepare,
     complete_w3c_proof = sample_complete,
     prepare_object_proof = (\<lambda>doc key kid did created.
       Some \<lparr>pp_state = JArray [doc, JString kid], signing_input = sample_print doc\<rparr>),
     complete_object_proof = sample_complete,
     prepare_rfc9421_origin_proof = (\<lambda>method meta body key kid opts.
       Some \<lparr>pp_state = JArray [body, JString kid], signing_input = sample_print body\<rparr>),
     complete_rfc9421_origin_proof = (\<lambda>p s. Some \<lparr>op_content_digest = [], op_signature_input = signing_input p, op_signature = s\<rparr>),
     prepare_legacy_did_wba_auth_header = (\<lambda>doc domain version kid.
       Some \<lparr>pp_state = JArray [doc, JString kid], signing_input = domain\<rparr>),
     complete_legacy_did_wba_auth_header = (\<lambda>p signature. Some signature),
     prepare_http_signature_headers = (\<lambda>doc url method headers body opts.
       Some \<lparr>pp_state = doc, signing_input = url\<rparr>),
     complete_http_signature_headers = (\<lambda>p signature. Some [(''Signature'', signature)]),
     verify_message = (\<lambda>key message signature.
       case key of Ed25519 k \<Rightarrow> signature = k @ message | _ \<Rightarrow> False),
     sign_message = (\<lambda>key message. Some (key @ message)),
     device_manifest_type = ''DeviceManifest'',
     proof_type_data_integrity = ''DataIntegrityProof'',
     cryptosuite_eddsa_jcs_2022 = ''eddsa-jcs-2022'',
     device_manifest_from_value = sample_manifest,
     device_manifest_to_value = sample_manifest_value,
     canonicalizer_to_vec = (\<lambda>v. Inr (sample_print v)),
     sha256 = (\<lambda>b. b),
     b64u_encode = (\<lambda>b. CHR ''u'' # b),
     b64u_decode = (\<lambda>s. case s of [] \<Rightarrow> None | c # b \<Rightarrow> if c = CHR ''u'' then Some b else None),
     bs58_encode = (\<lambda>b. b),
     ed25519_generate = (\<lambda>b. b),
     x25519_random_secret = (\<lambda>b. b),
     ed25519_verifying_key = (\<lambda>b. b),
     ed25519_sign = (\<lambda>key message. key @ message),
     x25519_public_key = (\<lambda>b. b),
     x25519_diffie_hellman = (\<lambda>a b. a @ b),
     hkdf_sha256_expand = (\<lambda>salt key info. Some key),
     chacha20poly1305_encrypt = (\<lambda>key nonce aad m. Some (key @ m)),
     chacha20poly1305_decrypt = (\<lambda>key nonce aad c.
       if take (length key) c = key then Some (drop (length key) c) else None),
     parse_rfc3339 = (\<lambda>s. Some (int (length s))),
     format_rfc3339 = (\<lambda>t. replicate (nat t) CHR ''t''),
     format_rfc3339_secs = (\<lambda>t. replicate (nat t) CHR ''t''),
     serde_error = ''parse error''\<rparr>"

lemma sample_ext_documents [simp]:
  "build_unsigned_e1_did_document sample_ext = sample_e1"
  "prepare_w3c_proof sample_ext = sample_prepare" "complete_w3c_proof sample_ext = sample_complete"
  by (simp_all add: sample_ext_def)

section \<open>Worlds, stores and specifications\<close>

definition empty_disk :: disk where
  "empty_disk = \<lparr>d_manifest = None, d_registry = None, d_identities = [], d_journals = [],
     d_update_journals = [], d_transition_journals = [], d_records = [], d_root_key_file = None\<rparr>"

definition sample_random :: "nat \<Rightarrow> nat \<Rightarrow> bytes" where
  "sample_random i n = replicate n (char_of i)"

definition sample_world :: "string option list \<Rightarrow> world" where
  "sample_world fs = \<lparr>w_disk = empty_disk, w_faults = fs, w_random = sample_random, w_draws = 1,
     w_clock = int, w_ticks = 0, w_keyring = (\<lambda>_ _. None)\<rparr>"

definition sample_key :: bytes where
  "sample_key = replicate 32 (CHR ''k'')"

definition sample_runtime :: store_runtime where
  "sample_runtime = runtime_of ''store'' sample_key
     \<lparr>sm_schema_version = 1, sm_store_id = ''s'', sm_generation = 1,
      sm_provider = \<lparr>pb_kind = Injected, pb_key_id = ''k'', pb_account = None\<rparr>,
      sm_root_key_fingerprint = root_key_verifier sample_ext sample_key, sm_created_at = [],
      sm_rekey_generation = 0\<rparr>"

definition sample_store :: did_store where
  "sample_store = \<lparr>ds_runtime = sample_runtime, ds_registry_generation = 0\<rparr>"

definition sample_web_spec :: did_create_spec where
  "sample_web_spec = \<lparr>cs_profile = Web, cs_domain = ''a.b'', cs_port = None, cs_path_segments = [],
     cs_capabilities = \<lparr>did_wba = True\<rparr>,
     cs_managed_keys = [\<lparr>mk_fragment = ''r'', mk_role = RequestSigning\<rparr>],
     cs_external_keys = [], cs_services = [], cs_agent_description_url = None, cs_extensions = []\<rparr>"

definition sample_e1_spec :: did_create_spec where
  "sample_e1_spec = \<lparr>cs_profile = E1, cs_domain = ''a.b'', cs_port = None, cs_path_segments = [''p''],
     cs_capabilities = \<lparr>did_wba = True\<rparr>,
     cs_managed_keys =
       [\<lparr>mk_fragment = ''root'', mk_role = RootControl\<rparr>, \<lparr>mk_fragment = ''sign'', mk_role = DeviceSigning\<rparr>,
        \<lparr>mk_fragment = ''e2ee'', mk_role = E2eeAgreement\<rparr>],
     cs_external_keys = [], cs_services = [], cs_agent_description_url = None,
     cs_extensions = [DeviceManifestExt [\<lparr>de_device_id = ''dev'', de_signing_key_id = ''sign'',
       de_e2ee_key_id = ''e2ee'', de_profiles = [''p'']\<rparr>]]\<rparr>"

section \<open>What the instance satisfies\<close>

lemma sample_codec_ok [simp]: "codec_ok sample_ext"
  by (simp add: codec_ok_def sample_ext_def)

lemma sample_fills [simp]: "fills (sample_world fs)"
  by (simp add: fills_def sample_world_def sample_random_def)

lemma sample_calm [simp]: "calm (sample_world [])"
  by (simp add: calm_def sample_world_def)

lemma sample_disk [simp]: "w_disk (sample_world fs) = empty_disk"
  by (simp add: sample_world_def)

lemma sample_wf [simp]: "wf_runtime sample_runtime"
  by (simp add: sample_runtime_def)

definition sample_ref :: secret_ref where
  "sample_ref = \<lparr>sr_identity_id = ''i'', sr_key_id = ''did:wba:a.b#r'', sr_role = RequestSigning, sr_version = 1\<rparr>"

end
