(* ===== verification/Crash_Safety.thy ===== *)
theory Crash_Safety
  imports Creation Sample
begin

text \<open>
  Creation of an identity under every failure schedule: the disks an interrupted creation can
  leave, what recovery makes of each of them, and the resulting atomicity.
\<close>

section \<open>Recovery of a store without journals\<close>

definition quiescent :: "disk \<Rightarrow> bool" where
  "quiescent d \<longleftrightarrow> entries_of cj_valid (d_journals d) = Inr []
     \<and> entries_of uj_valid (d_update_journals d) = Inr []"

lemma recover_update_journals_none:
  "calm w \<Longrightarrow> entries_of uj_valid (d_update_journals (w_disk w)) = Inr []
   \<Longrightarrow> recover_update_journals X rt guard w = (Inr (), w)"
  by (simp add: recover_update_journals_def ret_def)

lemma recover_quiescent:
  assumes "wf_runtime rt" "calm w" "quiescent (w_disk w)"
  shows "recover X rt w = (registry_at (w_disk w), w)"
  using assms
  by (cases "registry_at (w_disk w)")
     (simp_all add: recover_def quiescent_def bnd_def recover_update_journals_none ret_def)

section \<open>Recovery of an interrupted creation\<close>

lemma recover_one:
  assumes "wf_runtime rt" "calm w" "registry_at (w_disk w) = Inr g"
    and "entries_of cj_valid (d_journals (w_disk w)) = Inr [j]"
    and "recover_journal X rt (guard_of (rt_root rt)) g j w = (Inr g', w')" "calm w'"
    and "entries_of uj_valid (d_update_journals (w_disk w')) = Inr []"
  shows "recover X rt w = (registry_at (w_disk w'), w')"
  using assms by (simp add: recover_def bnd_def recover_update_journals_none ret_def)

lemma recover_journal_rollback:
  assumes "wf_runtime rt" "calm w" "cj_kind j = CJ_Create"
    "\<not> names_identity g (cj_did j) (cj_identity_id j)"
  shows "recover_journal X rt (guard_of (rt_root rt)) g j w = (Inr g, w\<lparr>w_disk := (w_disk w)
     \<lparr>d_records := without (record_path X ` set (cj_secret_refs j)) (d_records (w_disk w)),
      d_identities := dir_del (identity_path X (cj_identity_id j)) (d_identities (w_disk w)),
      d_journals := dir_del (journal_path X (cj_transaction_id j)) (d_journals (w_disk w))\<rparr>\<rparr>)"
  using assms by (simp add: recover_journal_def Let_def bnd_def ret_def)

lemma recover_journal_complete:
  assumes "wf_runtime rt" "calm w" "cj_kind j = CJ_Create"
    "names_identity g (cj_did j) (cj_identity_id j)"
    "identity_at X (w_disk w) (cj_identity_id j) = Inr r" "ir_did r = cj_did j"
    "ir_identity_id r = cj_identity_id j"
  shows "recover_journal X rt (guard_of (rt_root rt)) g j w = (Inr g, w\<lparr>w_disk := (w_disk w)
     \<lparr>d_identities := (if ir_state r = Id_Creating
        then dir_put (identity_path X (cj_identity_id j)) (Parsed (r\<lparr>ir_state := Id_Active\<rparr>))
               (d_identities (w_disk w))
        else d_identities (w_disk w)),
      d_journals := dir_del (journal_path X (cj_transaction_id j)) (d_journals (w_disk w))\<rparr>\<rparr>)"
  using assms by (auto simp: recover_journal_def Let_def bnd_def ret_def lift_def)

section \<open>The disks of a creation\<close>

text \<open>
  \<open>d\<close> is the disk before, \<open>j\<close> the journal. Before the registry is written nothing but the journal,
  the secrets the journal names and the file of the new identity differs; after it, the
  registry has the entry, the identity file holds the record, and every secret is stored.
\<close>

definition uncommitted :: "ext \<Rightarrow> disk \<Rightarrow> creation_journal \<Rightarrow> disk \<Rightarrow> bool" where
  "uncommitted X d j d' \<longleftrightarrow>
     d' = d\<lparr>d_journals := dir_put (journal_path X (cj_transaction_id j)) (Parsed j) (d_journals d),
            d_records := d_records d', d_identities := d_identities d'\<rparr>
     \<and> without (record_path X ` set (cj_secret_refs j)) (d_records d')
         = without (record_path X ` set (cj_secret_refs j)) (d_records d)
     \<and> dir_del (identity_path X (cj_identity_id j)) (d_identities d')
         = dir_del (identity_path X (cj_identity_id j)) (d_identities d)"

definition entry_added :: "identity_registry \<Rightarrow> identity_record \<Rightarrow> u64 \<Rightarrow> identity_registry" where
  "entry_added g r generation =
     g\<lparr>rg_identities := btree_insert (ir_did r) ((summary r)\<lparr>is_state := Id_Active\<rparr>) (rg_identities g),
       rg_generation := generation\<rparr>"

definition keys_stored :: "ext \<Rightarrow> bytes \<Rightarrow> built_identity \<Rightarrow> secret_ref list \<Rightarrow> disk \<Rightarrow> bool" where
  "keys_stored X k built refs d \<longleftrightarrow>
     (\<forall>p \<in> set (zip (bi_managed_keys built) refs).
        stored_key X k d (snd p) (managed_public_key X (fst p)))"

definition committed ::
  "ext \<Rightarrow> bytes \<Rightarrow> did_create_spec \<Rightarrow> built_identity \<Rightarrow> identity_registry \<Rightarrow> disk \<Rightarrow> string
     \<Rightarrow> identity_state \<Rightarrow> creation_journal dir \<Rightarrow> disk \<Rightarrow> bool" where
  "committed X k spec built g d i s js d' \<longleftrightarrow> (\<exists>r generation.
     created_record X spec built i = Inr r
     \<and> checked_add1 (rg_generation g) = Some generation
     \<and> d' = d\<lparr>d_journals := js, d_records := d_records d',
              d_registry := Some (Parsed (entry_added g r generation)),
              d_identities := dir_put (identity_path X i) (Parsed (r\<lparr>ir_state := s\<rparr>)) (d_identities d)\<rparr>
     \<and> without (record_path X ` set (creation_refs i built)) (d_records d')
         = without (record_path X ` set (creation_refs i built)) (d_records d)
     \<and> keys_stored X k built (creation_refs i built) d')"

section \<open>Creation under every failure schedule\<close>

text \<open>While the secrets are sealed only records of the given names change.\<close>

definition only_records :: "disk \<Rightarrow> string set \<Rightarrow> disk \<Rightarrow> bool" where
  "only_records d P d' \<longleftrightarrow>
     d' = d\<lparr>d_records := d_records d'\<rparr> \<and> without P (d_records d') = without P (d_records d)"

lemma only_records_refl [simp]: "only_records d P d"
  by (simp add: only_records_def)

lemma only_recordsE:
  assumes "only_records d P d'"
  obtains rs where "d' = d\<lparr>d_records := rs\<rparr>" "without P rs = without P (d_records d)"
  using assms by (auto simp: only_records_def)

lemma only_records_put:
  "only_records d P d' \<Longrightarrow> k \<in> P \<Longrightarrow> only_records d P (d'\<lparr>d_records := dir_put k v (d_records d')\<rparr>)"
  by (erule only_recordsE) (simp add: only_records_def)

lemma safe_seal_or_verify:
  assumes "wf_runtime rt" "calm c" "only_records d P (w_disk c)" "record_path X (snd p) \<in> P"
  shows "safe (seal_or_verify X rt (guard_of (rt_root rt)) p)
    (\<lambda>_ c'. only_records d P (w_disk c')) (\<lambda>_ c'. only_records d P (w_disk c')) c"
  unfolding seal_or_verify_def
  by (rule safe_bnd, rule safe_ks_seal)
     (use assms in \<open>auto intro!: safe_intros simp: only_records_put\<close>)

lemma safe_seal_all:
  assumes "wf_runtime rt" "calm c" "only_records d P (w_disk c)"
    "\<And>p. p \<in> set ps \<Longrightarrow> record_path X (snd p) \<in> P"
  shows "safe (foreach (seal_or_verify X rt (guard_of (rt_root rt))) ps)
    (\<lambda>_ c'. only_records d P (w_disk c')) (\<lambda>_ c'. only_records d P (w_disk c')) c"
  using assms by (intro safe_foreach) (auto intro: safe_seal_or_verify)

lemma safe_verify_all:
  assumes "calm c"
  shows "safe (verify_all_persisted_keys X rt built refs)
    (\<lambda>_ c'. c' = c \<and> keys_stored X (rt_root_key rt) built refs (w_disk c)) (\<lambda>_ c'. c' = c) c"
  unfolding verify_all_persisted_keys_def keys_stored_def using assms
  by (intro safe_foreach_check safe_intros) simp_all

lemma set_zip_creation_refs:
  "p \<in> set (zip ks (creation_refs i built)) \<Longrightarrow>
     record_path X (snd p) \<in> record_path X ` set (creation_refs i built)"
  by (cases p) (auto dest: set_zip_rightD)

text \<open>An interrupted creation: the journal is there, the rest as above.\<close>

definition interrupted ::
  "ext \<Rightarrow> bytes \<Rightarrow> did_create_spec \<Rightarrow> built_identity \<Rightarrow> identity_registry \<Rightarrow> disk \<Rightarrow> creation_journal
     \<Rightarrow> disk \<Rightarrow> bool" where
  "interrupted X k spec built g d j d' \<longleftrightarrow>
     (let js = dir_put (journal_path X (cj_transaction_id j)) (Parsed j) (d_journals d) in
      uncommitted X d j d'
      \<or> (\<exists>s \<in> {Id_Creating, Id_Active}. committed X k spec built g d (cj_identity_id j) s js d'))"

lemma interrupted_records:
  assumes "only_records (d\<lparr>d_journals := dir_put (journal_path X (cj_transaction_id j)) (Parsed j)
      (d_journals d)\<rparr>) (record_path X ` set (cj_secret_refs j)) d'"
  shows "interrupted X k spec built g d j d'"
  using assms unfolding interrupted_def Let_def
  by (intro disjI1) (auto elim!: only_recordsE simp: uncommitted_def)

lemma interrupted_identity:
  assumes "without (record_path X ` set (cj_secret_refs j)) rs
      = without (record_path X ` set (cj_secret_refs j)) (d_records d)"
    "d' = d\<lparr>d_journals := dir_put (journal_path X (cj_transaction_id j)) (Parsed j) (d_journals d),
      d_records := rs, d_identities := dir_put (identity_path X (cj_identity_id j)) v (d_identities d)\<rparr>"
  shows "interrupted X k spec built g d j d'"
  using assms unfolding interrupted_def Let_def
  by (intro disjI1) (simp add: uncommitted_def flip: without_del)

lemma committedI:
  assumes "created_record X spec built i = Inr r" "checked_add1 (rg_generation g) = Some generation"
    "without (record_path X ` set (creation_refs i built)) rs
       = without (record_path X ` set (creation_refs i built)) (d_records d)"
    "keys_stored X k built (creation_refs i built) (d\<lparr>d_records := rs\<rparr>)"
    "d' = d\<lparr>d_journals := js, d_records := rs,
       d_registry := Some (Parsed (entry_added g r generation)),
       d_identities := dir_put (identity_path X i) (Parsed (r\<lparr>ir_state := s\<rparr>)) (d_identities d)\<rparr>"
  shows "committed X k spec built g d i s js d'"
  using assms by (simp add: committed_def keys_stored_def stored_key_def)

lemma committedE:
  assumes "committed X k spec built g d i s js d'"
  obtains r n rs where "created_record X spec built i = Inr r" "checked_add1 (rg_generation g) = Some n"
    "d' = d\<lparr>d_journals := js, d_records := rs, d_registry := Some (Parsed (entry_added g r n)),
       d_identities := dir_put (identity_path X i) (Parsed (r\<lparr>ir_state := s\<rparr>)) (d_identities d)\<rparr>"
    "without (record_path X ` set (creation_refs i built)) rs
       = without (record_path X ` set (creation_refs i built)) (d_records d)"
    "keys_stored X k built (creation_refs i built) (d\<lparr>d_records := rs\<rparr>)"
  using assms by (auto simp: committed_def keys_stored_def stored_key_def)

lemma interrupted_committed:
  assumes "created_record X spec built i = Inr r" "checked_add1 (rg_generation g) = Some generation"
    "without (record_path X ` set (creation_refs i built)) rs
       = without (record_path X ` set (creation_refs i built)) (d_records d)"
    "keys_stored X k built (creation_refs i built) (d\<lparr>d_records := rs\<rparr>)"
    "i = cj_identity_id j" "s \<in> {Id_Creating, Id_Active}"
    "d' = d\<lparr>d_journals := dir_put (journal_path X (cj_transaction_id j)) (Parsed j) (d_journals d),
       d_records := rs, d_registry := Some (Parsed (entry_added g r generation)),
       d_identities := dir_put (identity_path X i) (Parsed (r\<lparr>ir_state := s\<rparr>)) (d_identities d)\<rparr>"
  shows "interrupted X k spec built g d j d'"
proof -
  have "committed X k spec built g d i s
      (dir_put (journal_path X (cj_transaction_id j)) (Parsed j) (d_journals d)) d'"
    using assms(1-4,7) by (rule committedI)
  with assms(5,6) show ?thesis unfolding interrupted_def Let_def by blast
qed

definition creation_journal_of ::
  "creation_journal \<Rightarrow> string \<Rightarrow> string \<Rightarrow> built_identity \<Rightarrow> bool" where
  "creation_journal_of j tid i built \<longleftrightarrow> cj_transaction_id j = tid \<and> cj_identity_id j = i
     \<and> cj_secret_refs j = creation_refs i built \<and> cj_did j = bi_did built
     \<and> cj_kind j = CJ_Create \<and> cj_valid j"

text \<open>What a creation that succeeds returns.\<close>

definition creation_result ::
  "ext \<Rightarrow> did_store \<Rightarrow> did_create_spec \<Rightarrow> built_identity \<Rightarrow> identity_registry \<Rightarrow> string
     \<Rightarrow> did_store \<times> did_identity \<Rightarrow> bool" where
  "creation_result X store spec built g i x \<longleftrightarrow> (\<exists>r generation.
     created_record X spec built i = Inr r \<and> checked_add1 (rg_generation g) = Some generation
     \<and> x = (store\<lparr>ds_registry_generation := generation\<rparr>,
           \<lparr>di_runtime = ds_runtime store, di_record = r\<lparr>ir_state := Id_Active\<rparr>\<rparr>))"

lemma safe_create_tail:
  fixes X store spec built g d i tid j
  defines "rt \<equiv> ds_runtime store"
  assumes "calm c" and j: "creation_journal_of j tid i built"
    and c: "w_disk c = d\<lparr>d_journals := dir_put (journal_path X tid) (Parsed j) (d_journals d), d_records := rs\<rparr>"
    and rs: "without (record_path X ` set (creation_refs i built)) rs
      = without (record_path X ` set (creation_refs i built)) (d_records d)"
    and stored: "keys_stored X (rt_root_key rt) built (creation_refs i built) (d\<lparr>d_records := rs\<rparr>)"
    and r: "created_record X spec built i = Inr r"
  shows "safe (
     bnd (write_identity X (rt_root rt) (guard_of (rt_root rt)) r) (\<lambda>_.
     bnd (register_identity (rt_root rt) (guard_of (rt_root rt)) g (ir_did r)
            ((summary r)\<lparr>is_state := Id_Active\<rparr>)) (\<lambda>next_generation.
     bnd (write_identity X (rt_root rt) (guard_of (rt_root rt)) (r\<lparr>ir_state := Id_Active\<rparr>)) (\<lambda>_.
     bnd (remove_journal X (rt_root rt) (guard_of (rt_root rt)) tid) (\<lambda>_.
     ret (store\<lparr>ds_registry_generation := next_generation\<rparr>,
          \<lparr>di_runtime = rt, di_record = r\<lparr>ir_state := Id_Active\<rparr>\<rparr>))))))
    (\<lambda>x c'. creation_result X store spec built g i x \<and> committed X (rt_root_key rt) spec built g d i Id_Active
       (dir_del (journal_path X tid) (dir_put (journal_path X tid) (Parsed j) (d_journals d))) (w_disk c'))
    (\<lambda>_ c'. interrupted X (rt_root_key rt) spec built g d j (w_disk c')) c"
proof -
  have jj: "cj_transaction_id j = tid" "cj_identity_id j = i" "cj_secret_refs j = creation_refs i built"
    using j by (simp_all add: creation_journal_of_def)
  have ri: "ir_identity_id r = i" "r\<lparr>ir_state := Id_Creating\<rparr> = r"
    using created_record_fields [OF r] by simp_all
  let ?J = "dir_put (journal_path X tid) (Parsed j) (d_journals d)"
  let ?ids = "\<lambda>r. dir_put (identity_path X i) (Parsed r) (d_identities d)"
  let ?int = "interrupted X (rt_root_key rt) spec built g d j"
  have A: "?int (d\<lparr>d_journals := ?J, d_records := rs\<rparr>)"
    by (rule interrupted_records) (simp add: jj only_records_def rs)
  have B: "?int (d\<lparr>d_journals := ?J, d_records := rs, d_identities := ?ids r\<rparr>)"
    by (rule interrupted_identity [where rs = rs]) (simp_all add: jj rs)
  note C = interrupted_committed [OF r _ rs stored jj(2) [symmetric]]
  have C1: "?int (d\<lparr>d_journals := ?J, d_records := rs, d_identities := ?ids r,
      d_registry := Some (Parsed (entry_added g r n))\<rparr>)"
    if "checked_add1 (rg_generation g) = Some n" for n
    by (rule C [OF that, where s = Id_Creating]) (simp_all add: jj ri)
  have C2: "?int (d\<lparr>d_journals := ?J, d_records := rs, d_registry := Some (Parsed (entry_added g r n)),
      d_identities := ?ids (r\<lparr>ir_state := Id_Active\<rparr>)\<rparr>)"
    if "checked_add1 (rg_generation g) = Some n" for n
    by (rule C [OF that, where s = Id_Active]) (simp_all add: jj ri)
  have D: "committed X (rt_root_key rt) spec built g d i Id_Active (dir_del (journal_path X tid) ?J)
      (d\<lparr>d_records := rs, d_registry := Some (Parsed (entry_added g r n)),
         d_identities := ?ids (r\<lparr>ir_state := Id_Active\<rparr>), d_journals := dir_del (journal_path X tid) ?J\<rparr>)"
    if "checked_add1 (rg_generation g) = Some n" for n
    by (rule committedI [OF r that rs stored]) simp
  show ?thesis
    using \<open>calm c\<close>
    by (auto intro!: safe_intros
        simp: register_identity_def c ri dir_put_put A B C1 C2 D creation_result_def r simp flip: entry_added_def rt_def)
qed

lemma safe_create_identity_commit:
  fixes X store spec built g d i tid j
  defines "rt \<equiv> ds_runtime store"
  assumes "wf_runtime rt" "calm c" and j: "creation_journal_of j tid i built"
    and c: "w_disk c = d\<lparr>d_journals := dir_put (journal_path X tid) (Parsed j) (d_journals d)\<rparr>"
  shows "safe (create_identity_commit X store spec (guard_of (rt_root rt)) g built i tid)
    (\<lambda>x c'. creation_result X store spec built g i x \<and> committed X (rt_root_key rt) spec built g d i Id_Active
       (dir_del (journal_path X tid) (dir_put (journal_path X tid) (Parsed j) (d_journals d))) (w_disk c'))
    (\<lambda>_ c'. interrupted X (rt_root_key rt) spec built g d j (w_disk c')) c"
proof -
  let ?P = "record_path X ` set (creation_refs i built)"
  have jj: "cj_transaction_id j = tid" "cj_secret_refs j = creation_refs i built"
    using j by (simp_all add: creation_journal_of_def)
  have int: "interrupted X (rt_root_key rt) spec built g d j d'" if "only_records (w_disk c) ?P d'" for d'
    using that by (intro interrupted_records) (simp add: c jj)
  let ?Q = "\<lambda>x c'. creation_result X store spec built g i x \<and> committed X (rt_root_key rt) spec built g d i Id_Active
       (dir_del (journal_path X tid) (dir_put (journal_path X tid) (Parsed j) (d_journals d))) (w_disk c')"
  let ?E = "\<lambda>_ c'. interrupted X (rt_root_key rt) spec built g d j (w_disk c')"
  let ?rest = "\<lambda>r. bnd (write_identity X (rt_root rt) (guard_of (rt_root rt)) r) (\<lambda>_.
     bnd (register_identity (rt_root rt) (guard_of (rt_root rt)) g (ir_did r)
            ((summary r)\<lparr>is_state := Id_Active\<rparr>)) (\<lambda>next_generation.
     bnd (write_identity X (rt_root rt) (guard_of (rt_root rt)) (r\<lparr>ir_state := Id_Active\<rparr>)) (\<lambda>_.
     bnd (remove_journal X (rt_root rt) (guard_of (rt_root rt)) tid) (\<lambda>_.
     ret (store\<lparr>ds_registry_generation := next_generation\<rparr>,
          \<lparr>di_runtime = rt, di_record = r\<lparr>ir_state := Id_Active\<rparr>\<rparr>)))))"
  have tail: "safe (bnd (lift (created_record X spec built i)) ?rest) ?Q ?E w"
    if w: "calm w" "only_records (w_disk c) ?P (w_disk w)"
      "keys_stored X (rt_root_key rt) built (creation_refs i built) (w_disk w)" for w
  proof (rule safe_bnd, rule safe_lift; (intro impI)?)
    from w(2) obtain rs where rs: "w_disk w = (w_disk c)\<lparr>d_records := rs\<rparr>"
      "without ?P rs = without ?P (d_records (w_disk c))" by (rule only_recordsE)
    fix r assume "created_record X spec built i = Inr r"
    with w(1,3) rs show "safe (?rest r) ?Q ?E w"
      unfolding rt_def
      by (intro safe_create_tail [where rs = rs and store = store, OF _ j])
         (simp_all add: c keys_stored_def stored_key_def)
  qed (use w int in auto)
  have mid: "safe (bnd (verify_all_persisted_keys X rt built (creation_refs i built)) (\<lambda>_.
      bnd (lift (created_record X spec built i)) ?rest)) ?Q ?E w"
    if w: "calm w" "only_records (w_disk c) ?P (w_disk w)" for w
    by (rule safe_bnd, rule safe_mono [OF safe_verify_all [OF w(1)]]) (use w tail int in auto)
  show ?thesis
    unfolding create_identity_commit_def Let_def rt_def [symmetric]
    by (rule safe_bnd, rule safe_mono [OF safe_seal_all [where d = "w_disk c" and P = ?P]])
       (use assms(2,3) mid int in \<open>auto dest: set_zip_creation_refs\<close>)
qed

section \<open>Atomicity\<close>

text \<open>
  The names a creation draws at random are new to the store, and the base64 text of a digest,
  which names every file, is not empty.
\<close>

definition fresh_names :: "ext \<Rightarrow> world \<Rightarrow> bool" where
  "fresh_names X w \<longleftrightarrow> (\<forall>n. let s = b64u_encode X (w_random w n 16) in
     dir_get (d_identities (w_disk w)) (identity_path X s) = None
     \<and> dir_get (d_journals (w_disk w)) (journal_path X s) = None
     \<and> (\<forall>r. sr_identity_id r = s \<longrightarrow> dir_get (d_records (w_disk w)) (record_path X r) = None))"

definition named_files :: "ext \<Rightarrow> bool" where
  "named_files X \<longleftrightarrow> (\<forall>s. storage_key X s \<noteq> [])"

text \<open>A creation on the disk \<open>d\<close> that left its journal behind.\<close>

definition unfinished ::
  "ext \<Rightarrow> bytes \<Rightarrow> did_create_spec \<Rightarrow> identity_registry \<Rightarrow> disk \<Rightarrow> disk \<Rightarrow> bool" where
  "unfinished X k spec g d d' \<longleftrightarrow> (\<exists>built i tid j.
     well_built X spec built \<and> btree_get (rg_identities g) (bi_did built) = None
     \<and> creation_journal_of j tid i built
     \<and> dir_get (d_identities d) (identity_path X i) = None
     \<and> dir_get (d_journals d) (journal_path X tid) = None
     \<and> (\<forall>r \<in> set (creation_refs i built). dir_get (d_records d) (record_path X r) = None)
     \<and> interrupted X k spec built g d j d')"

text \<open>A creation on the disk \<open>d\<close> that is complete.\<close>

definition created ::
  "ext \<Rightarrow> bytes \<Rightarrow> did_create_spec \<Rightarrow> built_identity \<Rightarrow> identity_registry \<Rightarrow> string \<Rightarrow> disk \<Rightarrow> disk \<Rightarrow> bool" where
  "created X k spec built g i d d' \<longleftrightarrow>
     well_built X spec built \<and> btree_get (rg_identities g) (bi_did built) = None
     \<and> committed X k spec built g d i Id_Active (d_journals d) d'"

lemma creation_refs_identity: "r \<in> set (creation_refs i built) \<Longrightarrow> sr_identity_id r = i"
  by (auto simp: creation_refs_def)

lemma safe_create_identity:
  fixes store defines "rt \<equiv> ds_runtime store"
  assumes rt: "wf_runtime rt" and X: "anp_documents_ok X" and c: "calm c" and fresh: "fresh_names X c"
    and g: "registry_at (w_disk c) = Inr g"
  shows "safe (create_identity X store spec)
    (\<lambda>x c'. \<exists>built i. creation_result X store spec built g i x
       \<and> created X (rt_root_key rt) spec built g i (w_disk c) (w_disk c'))
    (\<lambda>_ c'. w_disk c' = w_disk c \<or> unfinished X (rt_root_key rt) spec g (w_disk c) (w_disk c')) c"
    (is "safe _ ?Q ?E c")
proof -
  let ?j = "\<lambda>tid i built. new_creation_journal tid i (bi_did built) (creation_refs i built) (bi_created_at built)"
  have j: "creation_journal_of (?j tid i built) tid i built" for tid i built
    by (simp add: creation_journal_of_def new_creation_journal_def)
  have fresh_tid: "dir_get (d_journals (w_disk c)) (journal_path X (b64u_encode X (w_random c m 16))) = None" for m
    using fresh by (simp add: fresh_names_def Let_def)
  have left: "unfinished X (rt_root_key rt) spec g (w_disk c) d'"
    if "well_built X spec built" "btree_get (rg_identities g) (bi_did built) = None"
      "i = b64u_encode X (w_random c n 16)" "tid = b64u_encode X (w_random c m 16)"
      "interrupted X (rt_root_key rt) spec built g (w_disk c) (?j tid i built) d'" for built i tid d' n m
  proof -
    have "dir_get (d_identities (w_disk c)) (identity_path X i) = None"
      "dir_get (d_journals (w_disk c)) (journal_path X tid) = None"
      "\<And>r. r \<in> set (creation_refs i built) \<Longrightarrow> dir_get (d_records (w_disk c)) (record_path X r) = None"
      using fresh unfolding fresh_names_def Let_def that(3,4) by (blast dest: creation_refs_identity)+
    with that j show ?thesis unfolding unfinished_def by blast
  qed
  have written: "unfinished X (rt_root_key rt) spec g (w_disk c) ((w_disk c)\<lparr>d_journals :=
        dir_put (journal_path X tid) (Parsed (?j tid i built)) (d_journals (w_disk c))\<rparr>)"
    if "well_built X spec built" "btree_get (rg_identities g) (bi_did built) = None"
      "i = b64u_encode X (w_random c n 16)" "tid = b64u_encode X (w_random c m 16)" for built i tid n m
    by (rule left [OF that], rule interrupted_records) (simp add: new_creation_journal_def)
  have commit: "safe (create_identity_commit X store spec (guard_of (rt_root rt)) g built i tid) ?Q ?E w"
    if "calm w" "well_built X spec built" "btree_get (rg_identities g) (bi_did built) = None"
      "i = b64u_encode X (w_random c n 16)" "tid = b64u_encode X (w_random c m 16)"
      "w_disk w = (w_disk c)\<lparr>d_journals := dir_put (journal_path X tid)
        (Parsed (?j tid i built)) (d_journals (w_disk c))\<rparr>"
    for w built i tid n m
    by (intro safe_mono [OF safe_create_identity_commit
            [where store = store, folded rt_def, OF rt that(1) j that(6)]])
       (use left [OF that(2-5)] that(2,3) fresh_tid [of m] in \<open>auto simp: created_def dir_del_put_fresh that(5)\<close>)
  have tid: "cj_transaction_id (new_creation_journal tid i did refs t) = tid" for tid i did refs t
    by (simp add: new_creation_journal_def)
  show ?thesis
    unfolding create_identity_def Let_def rt_def [symmetric] random_id_def
    using rt c g
    by (intro safe_bnd safe_acquire_write safe_read_registry impI safe_lift safe_list_journals
        safe_disk_pure [OF disk_pure_build_identity] safe_fill_bytes safe_ret safe_write_journal)
       (simp_all add: tid commit [OF _ _ _ refl refl] written [OF _ _ refl refl]
          build_identity_well_built [OF X])
qed

subsection \<open>Recovery after an interruption\<close>

lemma entries_of_append:
  "entries_of valid es = Inr js \<Longrightarrow> entries_of valid (es @ fs) =
     rbind (entries_of valid fs) (\<lambda>ks. Inr (js @ ks))"
  by (induction es arbitrary: js)
     (auto simp: entries_of_Cons rbind_Inr_iff split: if_splits sum.splits, (case_tac "entries_of valid fs"; simp)+)

lemma entries_of_put_new:
  assumes "entries_of valid es = Inr []" "dir_get es k = None" "extension k = Some ''json''" "valid j"
  shows "entries_of valid (dir_put k (Parsed j) es) = Inr [j]"
  using assms by (simp add: dir_put_fresh entries_of_append entries_of_Cons decode_entry_def)

lemma decode_registry_entry_added:
  assumes "decode_registry c = Inr g"
  shows "decode_registry (Some (Parsed (entry_added g r n))) = Inr (entry_added g r n)"
  using assms
  by (cases c rule: decode_registry.cases)
     (auto simp: entry_added_def default_registry_def split: if_splits)

lemma recover_uncommitted:
  assumes "wf_runtime rt" "calm w" and d: "quiescent d" "registry_at d = Inr g"
    and j: "creation_journal_of j tid i built" "btree_get (rg_identities g) (bi_did built) = None"
      "extension (journal_path X tid) = Some ''json''"
    and new: "dir_get (d_identities d) (identity_path X i) = None"
      "dir_get (d_journals d) (journal_path X tid) = None"
      "\<And>r. r \<in> set (creation_refs i built) \<Longrightarrow> dir_get (d_records d) (record_path X r) = None"
    and u: "uncommitted X d j (w_disk w)"
  shows "recover X rt w = (Inr g, w\<lparr>w_disk := d\<rparr>)"
proof -
  let ?js = "dir_put (journal_path X tid) (Parsed j) (d_journals d)"
  let ?P = "record_path X ` set (creation_refs i built)"
  have jj: "cj_transaction_id j = tid" "cj_identity_id j = i" "cj_did j = bi_did built"
    "cj_secret_refs j = creation_refs i built" "cj_kind j = CJ_Create" "cj_valid j"
    using j(1) by (simp_all add: creation_journal_of_def)
  have clean: "without ?P (d_records d) = d_records d"
    "dir_del (identity_path X i) (d_identities d) = d_identities d"
    "dir_del (journal_path X tid) ?js = d_journals d"
    using new by (auto intro!: without_fresh simp: dir_del_id dir_del_put_fresh)
  define rs where "rs = d_records (w_disk w)"
  define ids where "ids = d_identities (w_disk w)"
  have w: "w_disk w = d\<lparr>d_journals := ?js, d_records := rs, d_identities := ids\<rparr>"
    and undo: "without ?P rs = d_records d" "dir_del (identity_path X i) ids = d_identities d"
    using u by (simp_all add: uncommitted_def jj clean rs_def ids_def)
  have "recover_journal X rt (guard_of (rt_root rt)) g j w = (Inr g, w\<lparr>w_disk := d\<rparr>)"
    by (subst recover_journal_rollback [OF assms(1,2)])
       (simp_all add: jj names_identity_def j(2) w undo clean)
  then have "recover X rt w = (registry_at (w_disk (w\<lparr>w_disk := d\<rparr>)), w\<lparr>w_disk := d\<rparr>)"
    by (rule recover_one [OF assms(1,2), rotated 2])
       (use d assms(2) j(3) new(2) jj in \<open>simp_all add: w quiescent_def entries_of_put_new\<close>)
  with d(2) show ?thesis by simp
qed

lemma recover_committed:
  assumes "wf_runtime rt" "calm w" and d: "quiescent d" "registry_at d = Inr g"
    and j: "creation_journal_of j tid i built" "well_built X spec built"
      "extension (journal_path X tid) = Some ''json''"
      "dir_get (d_journals d) (journal_path X tid) = None"
    and u: "committed X k spec built g d i s
      (dir_put (journal_path X tid) (Parsed j) (d_journals d)) (w_disk w)"
    and s: "s \<in> {Id_Creating, Id_Active}"
  shows "\<exists>g' d'. recover X rt w = (Inr g', w\<lparr>w_disk := d'\<rparr>)
    \<and> committed X k spec built g d i Id_Active (d_journals d) d'"
proof -
  let ?js = "dir_put (journal_path X tid) (Parsed j) (d_journals d)"
  have jj: "cj_transaction_id j = tid" "cj_identity_id j = i" "cj_did j = bi_did built"
    "cj_kind j = CJ_Create" "cj_valid j"
    using j(1) by (simp_all add: creation_journal_of_def)
  from u obtain r n rs where r: "created_record X spec built i = Inr r"
    and n: "checked_add1 (rg_generation g) = Some n"
    and w: "w_disk w = d\<lparr>d_journals := ?js, d_records := rs,
        d_registry := Some (Parsed (entry_added g r n)),
        d_identities := dir_put (identity_path X i) (Parsed (r\<lparr>ir_state := s\<rparr>)) (d_identities d)\<rparr>"
    and rs: "without (record_path X ` set (creation_refs i built)) rs
        = without (record_path X ` set (creation_refs i built)) (d_records d)"
    and stored: "keys_stored X k built (creation_refs i built) (d\<lparr>d_records := rs\<rparr>)"
    by (rule committedE)
  let ?d' = "d\<lparr>d_records := rs, d_registry := Some (Parsed (entry_added g r n)),
      d_identities := dir_put (identity_path X i) (Parsed (r\<lparr>ir_state := Id_Active\<rparr>)) (d_identities d)\<rparr>"
  note fields = created_record_fields [OF r]
  have g': "registry_at (w_disk w) = Inr (entry_added g r n)"
    using decode_registry_entry_added [OF d(2)] by (simp add: w)
  have at: "identity_at X (w_disk w) i = Inr (r\<lparr>ir_state := s\<rparr>)"
    using created_record_reads_back [OF j(2) r] by (simp add: w dir_get_put)
  have "recover_journal X rt (guard_of (rt_root rt)) (entry_added g r n) j w
      = (Inr (entry_added g r n), w\<lparr>w_disk := ?d'\<rparr>)"
    by (subst recover_journal_complete [OF assms(1,2), where r = "r\<lparr>ir_state := s\<rparr>"])
       (use at s fields in \<open>auto simp: jj names_identity_def entry_added_def summary_def w
          dir_put_put dir_del_put_fresh j(4)\<close>)
  then have "recover X rt w = (registry_at (w_disk (w\<lparr>w_disk := ?d'\<rparr>)), w\<lparr>w_disk := ?d'\<rparr>)"
    by (rule recover_one [OF assms(1,2) g', rotated])
       (use d assms(2) j jj in \<open>simp_all add: w quiescent_def entries_of_put_new\<close>)
  moreover have "registry_at ?d' = Inr (entry_added g r n)"
    using decode_registry_entry_added [OF d(2)] by simp
  moreover have "committed X k spec built g d i Id_Active (d_journals d) ?d'"
    by (rule committedI [OF r n rs stored]) simp
  ultimately show ?thesis by auto
qed

lemma recover_unfinished:
  assumes "wf_runtime rt" "calm w" "named_files X" "quiescent d" "registry_at d = Inr g"
    and "unfinished X (rt_root_key rt) spec g d (w_disk w)"
  shows "\<exists>g' d'. recover X rt w = (Inr g', w\<lparr>w_disk := d'\<rparr>)
    \<and> (d' = d \<or> (\<exists>built i. created X (rt_root_key rt) spec built g i d d'))"
proof -
  from assms(6) obtain built i tid j where
    u: "well_built X spec built" "btree_get (rg_identities g) (bi_did built) = None"
      "creation_journal_of j tid i built"
      "dir_get (d_identities d) (identity_path X i) = None"
      "dir_get (d_journals d) (journal_path X tid) = None"
      "\<And>r. r \<in> set (creation_refs i built) \<Longrightarrow> dir_get (d_records d) (record_path X r) = None"
    and int: "interrupted X (rt_root_key rt) spec built g d j (w_disk w)"
    unfolding unfinished_def by blast
  have ext: "extension (journal_path X tid) = Some ''json''"
    using assms(3) by (simp add: named_files_def journal_path_def)
  have jj: "cj_transaction_id j = tid" "cj_identity_id j = i"
    using u(3) by (simp_all add: creation_journal_of_def)
  from int consider "uncommitted X d j (w_disk w)"
    | s where "s \<in> {Id_Creating, Id_Active}" "committed X (rt_root_key rt) spec built g d i s
        (dir_put (journal_path X tid) (Parsed j) (d_journals d)) (w_disk w)"
    unfolding interrupted_def Let_def jj by blast
  then show ?thesis
  proof cases
    case 1
    with recover_uncommitted [OF assms(1,2,4,5) u(3,2) ext u(4-6)] show ?thesis by blast
  next
    case 2
    from recover_committed [OF assms(1,2,4,5) u(3,1) ext u(5) 2(2,1)] u(1,2) show ?thesis
      unfolding created_def by blast
  qed
qed

lemma created_quiescent:
  assumes "created X k spec built g i d d'" "quiescent d" "registry_at d = Inr g"
  shows "quiescent d'" "\<exists>g'. registry_at d' = Inr g'"
  using assms unfolding created_def
  by (auto elim!: committedE simp: quiescent_def decode_registry_entry_added
      simp del: decode_registry.simps)

text \<open>
  C1: Creating an identity is atomic under every schedule of system-call failures. Whatever call
  fails, the recovery that the next opening of the store runs succeeds; a creation that returned its
  result is fully there (registry entry, active record, every private key sealed and matching its
  public key); one that failed either left no trace, or is completed.
\<close>
theorem create_identity_crash_atomic:
  assumes "wf_runtime (ds_runtime store)" "anp_documents_ok X" "named_files X" "fresh_names X w"
    and "quiescent (w_disk w)" "registry_at (w_disk w) = Inr g"
    and run: "create_identity X store spec w = (r, w1)"
  shows "\<exists>g2 d2. recover X (ds_runtime store) (core w1) = (Inr g2, (core w1)\<lparr>w_disk := d2\<rparr>)
    \<and> (case r of
         Inr x \<Rightarrow> \<exists>built i. creation_result X store spec built g i x
           \<and> created X (rt_root_key (ds_runtime store)) spec built g i (w_disk w) d2
       | Inl _ \<Rightarrow> d2 = w_disk w
           \<or> (\<exists>built i. created X (rt_root_key (ds_runtime store)) spec built g i (w_disk w) d2))"
proof -
  have "fresh_names X (core w)" using assms(4) by (simp add: fresh_names_def)
  note out = safe_run_world [OF safe_create_identity [OF assms(1,2) core_calm(1) this,
        simplified, OF assms(6)] run]
  have still: "recover X (ds_runtime store) (core w1) = (registry_at (w_disk w1), core w1)"
    if "quiescent (w_disk w1)"
    using recover_quiescent [OF assms(1), of "core w1" X] that by simp
  show ?thesis
  proof (cases r)
    case (Inr x)
    with out obtain built i where "creation_result X store spec built g i x"
      and c: "created X (rt_root_key (ds_runtime store)) spec built g i (w_disk w) (w_disk w1)"
      by auto
    moreover obtain g' where "registry_at (w_disk w1) = Inr g'" "quiescent (w_disk w1)"
      using created_quiescent [OF c assms(5,6)] by auto
    ultimately show ?thesis using Inr still by (intro exI [of _ g'] exI [of _ "w_disk w1"]) auto
  next
    case (Inl e)
    with out consider "w_disk w1 = w_disk w"
      | "unfinished X (rt_root_key (ds_runtime store)) spec g (w_disk w) (w_disk (core w1))" by auto
    then show ?thesis
    proof cases
      case 1
      with still assms(5,6) Inl show ?thesis
        by (intro exI [of _ g] exI [of _ "w_disk w"]) simp
    next
      case 2
      from recover_unfinished [OF assms(1) core_calm(1) assms(3,5,6) 2] Inl show ?thesis by auto
    qed
  qed
qed

lemma sample_e1_id: "sample_e1 domain opts = Some doc \<Longrightarrow> get_str doc ''id'' = Some (''did:wba:'' @ domain @ '':e1'')"
  by (auto simp: sample_e1_def json_object_def Let_def get_str_def simp del: btree_insert.simps)

lemma sample_proof_id:
  "sample_prepare doc key kid opts = Some p \<Longrightarrow> sample_complete p sig = Some doc'
   \<Longrightarrow> get_str doc' ''id'' = get_str doc ''id''"
  by (cases doc)
     (auto simp: sample_prepare_def sample_complete_def get_str_def simp del: btree_insert.simps)

lemma sample_anp_documents_ok: "anp_documents_ok sample_ext"
  by (auto simp: anp_documents_ok_def starts_with_def sample_e1_id sample_proof_id)

lemma sample_fresh: "fresh_names sample_ext (sample_world fs)"
  by (simp add: fresh_names_def sample_world_def empty_disk_def)

lemma sample_named_files: "named_files sample_ext"
  by (simp add: named_files_def storage_key_def sample_ext_def)

lemma sample_quiescent: "quiescent (w_disk (sample_world fs))"
  by (simp add: quiescent_def sample_world_def empty_disk_def)

lemma sample_registry: "registry_at (w_disk (sample_world fs)) = Inr default_registry"
  by (simp add: sample_world_def empty_disk_def)

lemma sample_wf_runtime: "wf_runtime (ds_runtime sample_store)"
  by (simp add: sample_store_def sample_runtime_def)

theorem create_identity_crash_atomic_witness:
  "is_ok (fst (create_identity sample_ext sample_store sample_web_spec (sample_world [])))
   \<and> (\<exists>g2 d2 w1. w1 = core (snd (create_identity sample_ext sample_store sample_web_spec
          (sample_world (replicate 40 None @ [Some ''disk full'']))))
        \<and> recover sample_ext (ds_runtime sample_store) w1 = (Inr g2, w1\<lparr>w_disk := d2\<rparr>))"
proof
  show "is_ok (fst (create_identity sample_ext sample_store sample_web_spec (sample_world [])))"
    by code_simp
qed (use create_identity_crash_atomic [OF sample_wf_runtime sample_anp_documents_ok
      sample_named_files sample_fresh sample_quiescent sample_registry prod.collapse [symmetric],
      of sample_web_spec "replicate 40 None @ [Some ''disk full'']"] in blast)

end
