(* ===== verification/Secret_Properties.thy ===== *)
theory Secret_Properties
  imports Crash_Safety
begin

text \<open>
  Properties of the key store and of the store's root key: what is sealed opens again, nothing is
  overwritten, a record moved to another reference is rejected, and a store opens with the root
  key it was initialised with and with no other.
\<close>

section \<open>Framing\<close>

lemma aad_for_ref_inject_aux:
  "aad_for_ref v r = aad_for_ref v' r' \<longleftrightarrow> v = v' \<and> r = r'"
  by (auto simp: aad_for_ref_def framing_inject simp flip: word_unat_eq_iff intro: secret_ref.equality)

text \<open>
  C27: The associated data of a secret determines its reference and its schema version, whatever
  characters identity and key identifiers contain. Two different references have different file
  names unless SHA-256 collides on the bytes that are hashed into the names, which differ.
\<close>
theorem secret_framing_injective:
  assumes "codec_ok X"
  shows "(aad_for_ref v r = aad_for_ref v' r' \<longleftrightarrow> v = v' \<and> r = r')
   \<and> (record_path X r = record_path X r' \<longleftrightarrow> r = r'
       \<or> record_hash_input r \<noteq> record_hash_input r'
         \<and> sha256 X (record_hash_input r) = sha256 X (record_hash_input r'))"
proof -
  have "b64u_encode X a = b64u_encode X b \<longleftrightarrow> a = b" for a b
    using assms unfolding codec_ok_def by (metis option.inject)
  then show ?thesis
    by (auto simp: aad_for_ref_inject_aux record_hash_input_inject record_path_def record_storage_key_def
        json_name_def)
qed

theorem secret_framing_injective_witness:
  "record_path sample_ext sample_ref \<noteq> record_path sample_ext (sample_ref\<lparr>sr_version := 2\<rparr>)
   \<and> aad_for_ref 1 sample_ref \<noteq> aad_for_ref 2 sample_ref"
proof -
  have "sample_ref \<noteq> sample_ref\<lparr>sr_version := 2\<rparr>" by (simp add: sample_ref_def)
  moreover have "sha256 sample_ext a = sha256 sample_ext b \<longleftrightarrow> a = b" for a b by (simp add: sample_ext_def)
  ultimately show ?thesis by (simp add: secret_framing_injective [OF sample_codec_ok])
qed

section \<open>Sealing, opening, deleting\<close>

text \<open>
  C25: A secret that was sealed opens to the same bytes, every secret stored under another name
  reads as before, and sealing again under the same reference reports that it exists and changes
  nothing.
\<close>
theorem sealed_secret_opens:
  assumes "store_ready X w" "validate_secret_ref r = Inr ()"
    and "ks_seal_if_absent X (file_key_store_new root) (guard_of root) k r m w = (Inr Sealed, w')"
  shows "ks_open X k r w' = (Inr m, w')
    \<and> (record_path X r' \<noteq> record_path X r \<longrightarrow> fst (ks_open X k r' w') = fst (ks_open X k r' w))
    \<and> ks_seal_if_absent X (file_key_store_new root) (guard_of root) k r m' w' = (Inr AlreadyExists, w')"
proof (intro conjI impI)
  show opens: "ks_open X k r w' = (Inr m, w')" by (rule ks.seal_get [OF assms(1,3)])
  show "fst (ks_open X k r' w') = fst (ks_open X k r' w)" if "record_path X r' \<noteq> record_path X r"
    by (rule ks.seal_frame [OF assms(1,3) that])
  have "store_ready X w'" by (rule ks.seal_ready [OF assms(1,3)])
  then show "ks_seal_if_absent X (file_key_store_new root) (guard_of root) k r m' w' = (Inr AlreadyExists, w')"
    using opens assms(2) by (intro ks.seal_present) auto
qed

lemma sample_seals:
  "ks_seal_if_absent sample_ext (file_key_store_new ''store'') (guard_of ''store'') sample_key
     sample_ref ''secret'' (sample_world [])
   = (Inr Sealed, snd (ks_seal_if_absent sample_ext (file_key_store_new ''store'') (guard_of ''store'')
        sample_key sample_ref ''secret'' (sample_world [])))"
proof -
  have "fst (ks_seal_if_absent sample_ext (file_key_store_new ''store'') (guard_of ''store'') sample_key
     sample_ref ''secret'' (sample_world [])) = Inr Sealed" by code_simp
  then show ?thesis by (simp add: prod_eq_iff)
qed

lemma sample_ref_valid: "validate_secret_ref sample_ref = Inr ()"
  by code_simp

theorem sealed_secret_opens_witness:
  "\<exists>w'. ks_open sample_ext sample_key sample_ref w' = (Inr ''secret'', w')
     \<and> ks_seal_if_absent sample_ext (file_key_store_new ''store'') (guard_of ''store'') sample_key
         sample_ref ''other'' w' = (Inr AlreadyExists, w')"
  using sealed_secret_opens [OF _ sample_ref_valid sample_seals] by auto

text \<open>
  C28: Deleting the secrets of a list succeeds, makes every valid reference of the list unknown, and
  leaves everything else: every reference that is stored under another name reads as before, with
  whatever key, and no other part of the disk changes.
\<close>
theorem deleted_secrets_unknown:
  assumes "store_ready X w"
  shows "\<exists>w'. foreach (ks_delete X (file_key_store_new root) (guard_of root)) rs w = (Inr (), w')
     \<and> (\<forall>r k. r \<in> set rs \<and> validate_secret_ref r = Inr () \<longrightarrow> fst (ks_open X k r w') = Inl SecretNotFound)
     \<and> (\<forall>r k. record_path X r \<notin> record_path X ` set rs \<longrightarrow> fst (ks_open X k r w') = fst (ks_open X k r w))
     \<and> w' = w\<lparr>w_disk := (w_disk w)\<lparr>d_records := d_records (w_disk w')\<rparr>\<rparr>"
proof -
  from ks.del_all_run [OF assms, of root rs] obtain w' where
    run: "foreach (ks_delete X (file_key_store_new root) (guard_of root)) rs w = (Inr (), w')" by blast
  then have "w' = w\<lparr>w_disk := (w_disk w)\<lparr>d_records := d_records (w_disk w')\<rparr>\<rparr>" using assms by auto
  with ks.del_all_unknown [OF assms _ _ run] ks.del_all_other [OF assms run] run show ?thesis by blast
qed

lemma sample_seals_both:
  obtains w where "store_ready sample_ext w" "fst (ks_open sample_ext sample_key sample_ref w) = Inr ''secret''"
    "fst (ks_open sample_ext sample_key (sample_ref\<lparr>sr_version := 2\<rparr>) w) = Inr ''other''"
proof -
  let ?seal = "ks_seal_if_absent sample_ext (file_key_store_new ''store'') (guard_of ''store'') sample_key"
  let ?r2 = "sample_ref\<lparr>sr_version := 2\<rparr>"
  define w1 where "w1 = snd (?seal sample_ref ''secret'' (sample_world []))"
  define w2 where "w2 = snd (?seal ?r2 ''other'' w1)"
  have 1: "?seal sample_ref ''secret'' (sample_world []) = (Inr Sealed, w1)"
    unfolding w1_def by (rule sample_seals)
  have "fst (?seal ?r2 ''other'' w1) = Inr Sealed" unfolding w1_def by code_simp
  then have 2: "?seal ?r2 ''other'' w1 = (Inr Sealed, w2)" by (simp add: prod_eq_iff w2_def)
  have ready: "store_ready sample_ext w1" by (rule ks.seal_ready [OF _ 1]) simp
  have names: "record_path sample_ext sample_ref \<noteq> record_path sample_ext ?r2" by code_simp
  show thesis
  proof (rule that)
    show "store_ready sample_ext w2" by (rule ks.seal_ready [OF ready 2])
    show "fst (ks_open sample_ext sample_key ?r2 w2) = Inr ''other''"
      using ks.seal_get [OF ready 2] by simp
    show "fst (ks_open sample_ext sample_key sample_ref w2) = Inr ''secret''"
      using ks.seal_frame [OF ready 2 names] ks.seal_get [OF _ 1] by simp
  qed
qed

theorem deleted_secrets_unknown_witness:
  "\<exists>w w'. fst (ks_open sample_ext sample_key sample_ref w) = Inr ''secret''
     \<and> foreach (ks_delete sample_ext (file_key_store_new ''store'') (guard_of ''store'')) [sample_ref] w
         = (Inr (), w')
     \<and> fst (ks_open sample_ext sample_key sample_ref w') = Inl SecretNotFound
     \<and> fst (ks_open sample_ext sample_key (sample_ref\<lparr>sr_version := 2\<rparr>) w') = Inr ''other''"
proof -
  from sample_seals_both obtain w where w: "store_ready sample_ext w"
    "fst (ks_open sample_ext sample_key sample_ref w) = Inr ''secret''"
    "fst (ks_open sample_ext sample_key (sample_ref\<lparr>sr_version := 2\<rparr>) w) = Inr ''other''" .
  have "record_path sample_ext (sample_ref\<lparr>sr_version := 2\<rparr>) \<notin> record_path sample_ext ` set [sample_ref]"
    by code_simp
  with deleted_secrets_unknown [OF w(1), of "''store''" "[sample_ref]"] sample_ref_valid w(2,3)
  show ?thesis by (metis list.set_intros(1))
qed

text \<open>
  C26: A sealed record cannot be passed off as another secret of the store. Put under the name of
  another reference, opening that reference reports a corrupt record, and still does when the file
  was edited in any way that keeps its associated data, the reference inside the file included:
  the associated data is recomputed from the reference that is asked for.
\<close>
theorem moved_record_is_corrupt:
  assumes "codec_ok X" "seal_record X k r m w0 = (Inr e, w1)" "r' \<noteq> r" "validate_secret_ref r' = Inr ()"
    and "calm w" "dir_get (d_records (w_disk w)) (record_path X r') = Some (Parsed e')"
    and "er_aad_b64u e' = er_aad_b64u e"
  shows "ks_open X k' r' w = (Inl CorruptRecord, w)"
proof -
  have "aad_for_ref RECORD_SCHEMA_VERSION r' \<noteq> aad_for_ref RECORD_SCHEMA_VERSION r"
    using assms(3) by (simp add: aad_for_ref_inject_aux)
  moreover from assms(2) have "er_aad_b64u e = b64u_encode X (aad_for_ref RECORD_SCHEMA_VERSION r)"
    by (auto elim: seal_record_Inr)
  ultimately have "b64u_encode X (aad_for_ref RECORD_SCHEMA_VERSION r') \<noteq> er_aad_b64u e'"
    using assms(1,7) unfolding codec_ok_def by (metis option.inject)
  with assms(4-6) show ?thesis by (simp add: open_record_def Let_def ensure_def)
qed

theorem moved_record_is_corrupt_witness:
  "\<exists>e w. decode_record sample_ext sample_key sample_ref (Some (Parsed e)) = Inr ''secret''
     \<and> dir_get (d_records (w_disk w)) (record_path sample_ext (sample_ref\<lparr>sr_version := 2\<rparr>))
         = Some (Parsed (e\<lparr>er_secret_ref := sample_ref\<lparr>sr_version := 2\<rparr>\<rparr>))
     \<and> ks_open sample_ext sample_key (sample_ref\<lparr>sr_version := 2\<rparr>) w = (Inl CorruptRecord, w)"
proof -
  let ?run = "seal_record sample_ext sample_key sample_ref ''secret'' (sample_world [])"
  let ?r = "sample_ref\<lparr>sr_version := 2\<rparr>"
  have "is_ok (fst ?run)" by code_simp
  then obtain e where e: "?run = (Inr e, snd ?run)" by (cases "fst ?run") (auto simp: prod_eq_iff)
  let ?w = "(sample_world [])\<lparr>w_disk := empty_disk\<lparr>d_records :=
    [(record_path sample_ext ?r, Parsed (e\<lparr>er_secret_ref := ?r\<rparr>))]\<rparr>\<rparr>"
  have "?r \<noteq> sample_ref" by (simp add: sample_ref_def)
  moreover have "validate_secret_ref ?r = Inr ()" by code_simp
  moreover have at: "dir_get (d_records (w_disk ?w)) (record_path sample_ext ?r)
      = Some (Parsed (e\<lparr>er_secret_ref := ?r\<rparr>))" by (simp add: dir_get_def)
  ultimately have "ks_open sample_ext sample_key ?r ?w = (Inl CorruptRecord, ?w)"
    by (intro moved_record_is_corrupt [OF sample_codec_ok e _ _ _ at]) simp_all
  with at seal_record_opens [OF _ _ e] show ?thesis
    by (intro exI [of _ e] exI [of _ ?w]) simp
qed

section \<open>The root key of a store\<close>

text \<open>
  The providers write the key base64url-encoded and read it with surrounding white space removed:
  the encoding has none of its own.
\<close>

definition unspaced :: "ext \<Rightarrow> bool" where
  "unspaced X \<longleftrightarrow> (\<forall>b. \<forall>c \<in> set (b64u_encode X b). \<not> is_ascii_whitespace c)"

lemma trim_unspaced: "(\<forall>c \<in> set s. \<not> is_ascii_whitespace c) \<Longrightarrow> trim_ascii_whitespace s = s"
proof -
  assume s: "\<forall>c \<in> set s. \<not> is_ascii_whitespace c"
  have keep: "dropWhile is_ascii_whitespace t = t" if "\<forall>c \<in> set t. \<not> is_ascii_whitespace c" for t
    using that by (cases t) simp_all
  have "dropWhile is_ascii_whitespace s = s" "dropWhile is_ascii_whitespace (rev s) = rev s"
    using s by (intro keep; simp)+
  then show ?thesis by (simp only: trim_ascii_whitespace_def rev_rev_ident)
qed

abbreviation key_ready :: "ext \<Rightarrow> world \<Rightarrow> bool" where
  "key_ready X w \<equiv> store_ready X w \<and> unspaced X"

lemma decode_generated_key:
  assumes "key_ready X w"
  shows "decode_root_key X (b64u_encode X (w_random w i ROOT_KEY_LEN)) = Inr (w_random w i ROOT_KEY_LEN)"
proof -
  have "trim_ascii_whitespace (b64u_encode X b) = b64u_encode X b" for b
    using assms by (intro trim_unspaced) (simp add: unspaced_def)
  with assms show ?thesis by (simp add: decode_root_key_def codec_ok_def fills_def)
qed

text \<open>The end of the initialisation: the manifest for the key that a provider created.\<close>

definition store_manifest_for :: "ext \<Rightarrow> string \<Rightarrow> root_key_provider \<Rightarrow> bytes \<Rightarrow> store_runtime io" where
  "store_manifest_for X root provider root_key =
     bnd (random_store_id X) (\<lambda>store_id.
     bnd (now_rfc3339 X) (\<lambda>created_at.
     let manifest = \<lparr>sm_schema_version = STORE_MANIFEST_SCHEMA_VERSION, sm_store_id = store_id,
           sm_generation = 1, sm_provider = pv_binding provider,
           sm_root_key_fingerprint = root_key_verifier X root_key,
           sm_created_at = created_at, sm_rekey_generation = 0\<rparr>
     in bnd (write_manifest root (guard_of root) manifest) (\<lambda>_. ret (runtime_of root root_key manifest))))"

lemma runtime_initialize_Inr:
  assumes "calm w" "runtime_initialize X root init w = (Inr rt, w')"
  obtains p k w1 where "choose_provider init (guard_of root) w = (Inr (p, k), w1)"
    "store_manifest_for X root p k w1 = (Inr rt, w')"
proof -
  have lock: "sl_store_root (store_lock_new root) = root" by (simp add: store_lock_new_def)
  have "runtime_initialize X root init w =
      (if d_manifest (w_disk w) \<noteq> None then (Inl Conflict, w)
       else bnd (choose_provider init (guard_of root)) (\<lambda>(p, k). store_manifest_for X root p k) w)"
    using assms(1) by (simp add: runtime_initialize_def store_manifest_for_def lock raise_def)
  with assms(2) that show thesis by (auto simp: bnd_Inr_iff split: if_splits prod.splits)
qed

text \<open>
  What initialising and opening a store rely on of a provider: a key it created is the key it
  loads afterwards, also when the manifest was written and time passed in between, and neither
  success nor failure touches the manifest.
\<close>

locale stable_provider =
  fixes X :: ext
    and provider :: root_key_provider
    and root :: string
    and holds :: "bytes \<Rightarrow> world \<Rightarrow> bool"
  assumes create_run: "key_ready X w \<Longrightarrow> create_if_missing provider (guard_of root) w = (Inr k, w')
      \<Longrightarrow> key_ready X w' \<and> holds k w'"
    and create_fails: "key_ready X w \<Longrightarrow> create_if_missing provider (guard_of root) w = (Inl e, w')
      \<Longrightarrow> key_ready X w'"
    and load_run: "calm w \<Longrightarrow> holds k w \<Longrightarrow> load_existing provider w = (Inr k, w)"
    and holds_frame: "holds k w \<Longrightarrow>
      holds k (w\<lparr>w_disk := (w_disk w)\<lparr>d_manifest := m\<rparr>, w_draws := n, w_ticks := t\<rparr>)"
begin

text \<open>Writing the manifest of a key that the provider holds, and opening the store with it.\<close>

lemma manifest_written:
  assumes "key_ready X w" "holds k w" "store_manifest_for X root provider k w = (Inr rt, w')"
    and "find (\<lambda>p. pv_binding p = pv_binding provider) ps = Some provider"
  shows "runtime_open X root ps w' = (Inr rt, w')"
    "runtime_initialize X root init w' = (Inl Conflict, w')" "sm_provider (rt_manifest rt) = pv_binding provider"
proof -
  from assms(1,3) obtain m where m: "rt = runtime_of root k m" "sm_schema_version m = STORE_MANIFEST_SCHEMA_VERSION"
      "sm_provider m = pv_binding provider" "sm_root_key_fingerprint m = root_key_verifier X k"
    and w': "w' = w\<lparr>w_disk := (w_disk w)\<lparr>d_manifest := Some (Parsed m)\<rparr>,
      w_draws := Suc (w_draws w), w_ticks := Suc (w_ticks w)\<rparr>"
    by (auto simp: store_manifest_for_def random_store_id_def now_rfc3339_def write_manifest_def Let_def ret_def
        require_store_def bnd_def lift_def fill_bytes_def utc_now_def)
  have calm: "calm w'" using assms(1) by (simp add: w' calm_def)
  have "load_existing provider w' = (Inr k, w')"
    by (rule load_run [OF calm]) (unfold w', rule holds_frame [OF assms(2)])
  moreover have at: "d_manifest (w_disk w') = Some (Parsed m)" by (simp add: w')
  ultimately show "runtime_open X root ps w' = (Inr rt, w')"
    using m assms(4) calm by (simp add: runtime_open_def read_manifest_def ret_def bnd_def lift_def)
  show "runtime_initialize X root init w' = (Inl Conflict, w')"
    using calm at by (simp add: runtime_initialize_def raise_def)
  show "sm_provider (rt_manifest rt) = pv_binding provider" using m by (simp add: runtime_of_def)
qed

end

interpretation injected: stable_provider X "injected_provider key_id k" root "\<lambda>k' w. k' = k"
  for X key_id k root
  by unfold_locales (auto simp: injected_provider_def ret_def)

definition key_file_holds :: "ext \<Rightarrow> bytes \<Rightarrow> disk \<Rightarrow> bool" where
  "key_file_holds X k d \<longleftrightarrow>
     (\<exists>encoded mode. d_root_key_file d = Some (encoded, mode)
        \<and> require_private_file_mode mode = Inr () \<and> decode_root_key X encoded = Inr k)"

lemma file_provider_read_run:
  assumes "calm w"
  shows "file_provider_read X w = (Inr k, w') \<longleftrightarrow> w' = w \<and> key_file_holds X k (w_disk w)"
    "file_provider_read X w = (Inl e, w') \<Longrightarrow> w' = w"
  using assms
  by (auto simp: file_provider_read_def key_file_holds_def bnd_Inr_iff bnd_def lift_def raise_def ok_or_def mapio_err_def
      split: option.splits prod.splits sum.splits)

lemma file_provider_create:
  assumes "key_ready X w"
    and "create_if_missing (file_provider X key_id root) (guard_of root) w = (res, w')"
  shows "key_ready X w' \<and> (\<forall>k. res = Inr k \<longrightarrow> key_file_holds X k (w_disk w'))"
proof (cases "d_root_key_file (w_disk w)")
  case None
  with assms decode_generated_key [OF assms(1)] show ?thesis
    by (auto simp: file_provider_def root_key_generate_def write_private_if_absent_def ret_def
        bnd_def key_file_holds_def require_private_file_mode_def calm_def fills_def fill_bytes_def)
next
  case (Some p)
  with assms have "file_provider_read X w = (res, w')" by (simp add: file_provider_def)
  moreover have "calm w" using assms(1) by simp
  ultimately have "w' = w \<and> (\<forall>k. res = Inr k \<longrightarrow> key_file_holds X k (w_disk w))"
    using file_provider_read_run [of w X] by (cases res) auto
  with assms(1) show ?thesis by simp
qed

interpretation key_file: stable_provider X "file_provider X key_id root" root
  "\<lambda>k w. key_file_holds X k (w_disk w)" for X key_id root
proof unfold_locales
  fix w k assume "calm w" "key_file_holds X k (w_disk w)"
  then show "load_existing (file_provider X key_id root) w = (Inr k, w)"
    by (simp add: file_provider_def file_provider_read_run)
next
  fix w k w' assume "key_ready X w" "create_if_missing (file_provider X key_id root) (guard_of root) w = (Inr k, w')"
  from file_provider_create [OF this] show "key_ready X w' \<and> key_file_holds X k (w_disk w')" by simp
next
  fix w e w' assume "key_ready X w" "create_if_missing (file_provider X key_id root) (guard_of root) w = (Inl e, w')"
  from file_provider_create [OF this] show "key_ready X w'" by simp
qed (simp add: key_file_holds_def)

text \<open>
  What the code relies on of the keyring: an entry that can be opened is read as it was last
  written; a call that fails changes nothing; whether the service can be reached does not
  change while a store is initialised and opened again.
\<close>

definition keyring_answers :: "keyring \<Rightarrow> string \<Rightarrow> string \<Rightarrow> bool" where
  "keyring_answers kr service account \<longleftrightarrow>
     (\<forall>w. kr_entry kr service account w = (Inr (), w)
        \<and> kr_get_password kr service account w = (Inr (w_keyring w service account), w))"

definition keyring_ok :: "keyring \<Rightarrow> bool" where
  "keyring_ok kr \<longleftrightarrow> (\<forall>service account.
     (keyring_answers kr service account
      \<or> (\<forall>w. \<exists>e. kr_entry kr service account w = (Inl e, w)
             \<or> kr_entry kr service account w = (Inr (), w) \<and> kr_get_password kr service account w = (Inl e, w)))
     \<and> (\<forall>v w. (\<exists>e. kr_set_password kr service account v w = (Inl e, w))
          \<or> kr_set_password kr service account v w = (Inr (),
              w\<lparr>w_keyring := (w_keyring w)(service := (w_keyring w service)(account \<mapsto> v))\<rparr>)))"

definition keyring_holds :: "ext \<Rightarrow> keyring \<Rightarrow> string \<Rightarrow> string \<Rightarrow> bytes \<Rightarrow> world \<Rightarrow> bool" where
  "keyring_holds X kr service account k w \<longleftrightarrow> keyring_answers kr service account
     \<and> (\<exists>v. w_keyring w service account = Some v \<and> decode_root_key X v = Inr k)"

lemma keyring_provider_create:
  assumes "keyring_ok kr" "key_ready X w"
    and "create_if_missing (keyring_provider X kr service account) g w = (res, w')"
  shows "key_ready X w' \<and> (\<forall>k. res = Inr k \<longrightarrow> keyring_holds X kr service account k w')"
proof (cases "keyring_answers kr service account")
  case True
  from assms(1) have set: "(\<exists>e. kr_set_password kr service account v u = (Inl e, u))
      \<or> kr_set_password kr service account v u = (Inr (),
          u\<lparr>w_keyring := (w_keyring u)(service := (w_keyring u service)(account \<mapsto> v))\<rparr>)" for v u
    by (simp add: keyring_ok_def)
  show ?thesis
  proof (cases "w_keyring w service account")
    case None
    let ?k = "w_random w (w_draws w) ROOT_KEY_LEN"
    from True None assms(2,3) decode_generated_key [OF assms(2)]
      set [of "b64u_encode X ?k" "w\<lparr>w_draws := Suc (w_draws w)\<rparr>"] show ?thesis
      by (auto simp: keyring_provider_def Let_def keyring_answers_def keyring_holds_def mapio_err_def bnd_def
          root_key_generate_def fill_bytes_def ret_def calm_def fills_def)
  next
    case (Some v)
    with True assms(2,3) show ?thesis
      by (auto simp: keyring_provider_def Let_def keyring_answers_def keyring_holds_def mapio_err_def bnd_def lift_def raise_def ret_def)
  qed
next
  case False
  with assms(1) obtain e where "kr_entry kr service account w = (Inl e, w)
      \<or> kr_entry kr service account w = (Inr (), w) \<and> kr_get_password kr service account w = (Inl e, w)"
    unfolding keyring_ok_def by blast
  with assms(2,3) show ?thesis
    by (auto simp: keyring_provider_def Let_def mapio_err_def bnd_def)
qed

lemma keyring_stable:
  assumes "keyring_ok kr"
  shows "stable_provider X (keyring_provider X kr service account) root (keyring_holds X kr service account)"
proof unfold_locales
  fix w k assume "calm w" "keyring_holds X kr service account k w"
  then show "load_existing (keyring_provider X kr service account) w = (Inr k, w)"
    by (auto simp: keyring_provider_def Let_def keyring_holds_def keyring_answers_def mapio_err_def bnd_def lift_def ret_def)
next
  let ?p = "keyring_provider X kr service account"
  fix w k w' assume "key_ready X w" "create_if_missing ?p (guard_of root) w = (Inr k, w')"
  from keyring_provider_create [OF assms this]
  show "key_ready X w' \<and> keyring_holds X kr service account k w'" by simp
next
  let ?p = "keyring_provider X kr service account"
  fix w e w' assume "key_ready X w" "create_if_missing ?p (guard_of root) w = (Inl e, w')"
  from keyring_provider_create [OF assms this] show "key_ready X w'" by simp
qed (simp add: keyring_holds_def)

text \<open>The providers of \<open>platform.rs\<close>, and those an initialisation may choose from.\<close>

definition known_providers :: "ext \<Rightarrow> keyring \<Rightarrow> string \<Rightarrow> root_key_provider set" where
  "known_providers X kr root = {injected_provider key_id k | key_id k. True}
     \<union> {file_provider X key_id root | key_id. True} \<union> {keyring_provider X kr s a | s a. True}"

lemma known_provider_stable:
  assumes "keyring_ok kr" "p \<in> known_providers X kr root"
  shows "\<exists>holds. stable_provider X p root holds"
  using assms(2) keyring_stable [OF assms(1)] injected.stable_provider_axioms key_file.stable_provider_axioms
  unfolding known_providers_def by blast

fun candidates :: "provider_initialization \<Rightarrow> root_key_provider list" where
  "candidates (Required p) = [p]"
| "candidates (Preferred p q) = [p, q]"

lemma choose_provider_Inr:
  assumes "choose_provider init g w = (Inr (p, k), w')"
  obtains (first) "p = hd (candidates init)" "create_if_missing p g w = (Inr k, w')"
  | (fallback) q w1 where "init = Preferred q p" "create_if_missing q g w = (Inl ProviderUnavailable, w1)"
      "create_if_missing p g w1 = (Inr k, w')"
  using assms by (cases init) (auto simp: bnd_Inr_iff ret_def split: prod.splits sum.splits did_error.splits)

text \<open>
  C29: A store that was initialised with a provider of the crate (an injected key, a key file or the
  keyring of the operating system), or with a preferred provider and a fallback, opens again with
  the same providers and gives the same root key, manifest and runtime. The fallback is
  pinned only when the preferred provider was unavailable. The store cannot be initialised a second
  time, with whatever provider, and the attempt changes nothing.
\<close>
theorem initialized_store_reopens:
  assumes "store_ready X w" "unspaced X" "keyring_ok kr"
    and "set (candidates init) \<subseteq> known_providers X kr root" "distinct (map pv_binding (candidates init))"
    and "runtime_initialize X root init w = (Inr rt, w')"
  shows "runtime_open X root (candidates init) w' = (Inr rt, w')
     \<and> (\<forall>p q. init = Preferred p q \<and> sm_provider (rt_manifest rt) = pv_binding q
          \<longrightarrow> fst (create_if_missing p (guard_of root) w) = Inl ProviderUnavailable)
     \<and> runtime_initialize X root init' w' = (Inl Conflict, w')"
proof -
  have ready: "key_ready X w" using assms(1,2) by simp
  from assms(1) obtain p k w1 where chosen: "choose_provider init (guard_of root) w = (Inr (p, k), w1)"
    and rest: "store_manifest_for X root p k w1 = (Inr rt, w')"
    using runtime_initialize_Inr [OF _ assms(6)] by blast
  have p: "p \<in> set (candidates init)" using chosen
    by (rule choose_provider_Inr) (cases init; simp)+
  have found: "find (\<lambda>q. pv_binding q = pv_binding p) (candidates init) = Some p"
    using p assms(5) by (cases init) auto
  from p assms(4) obtain holds where stable: "stable_provider X p root holds"
    using known_provider_stable [OF assms(3)] by blast
  from chosen have held: "key_ready X w1 \<and> holds k w1"
  proof (cases rule: choose_provider_Inr)
    case first
    from stable_provider.create_run [OF stable ready first(2)] show ?thesis .
  next
    case (fallback q u)
    with assms(4) obtain h where "stable_provider X q root h"
      using known_provider_stable [OF assms(3), of q] by auto
    from stable_provider.create_fails [OF this ready fallback(2)]
    show ?thesis by (rule stable_provider.create_run [OF stable _ fallback(3)])
  qed
  note written = stable_provider.manifest_written [OF stable _ _ rest found]
  have "fst (create_if_missing a (guard_of root) w) = Inl ProviderUnavailable"
    if "init = Preferred a q" "sm_provider (rt_manifest rt) = pv_binding q" for a q
    using chosen
  proof (cases rule: choose_provider_Inr)
    case first
    with that written(3) held assms(5) show ?thesis by simp
  qed (use that in simp)
  with written(1,2) held show ?thesis by blast
qed

text \<open>An encoding without white space: the two halves of each byte as letters.\<close>

definition letters_encode :: "bytes \<Rightarrow> string" where
  "letters_encode b =
     concat (map (\<lambda>c. [char_of (97 + code c div 16), char_of (97 + code c mod 16)]) b)"

fun letters_decode :: "string \<Rightarrow> bytes option" where
  "letters_decode [] = Some []"
| "letters_decode [c] = None"
| "letters_decode (a # b # s) =
     map_option (Cons (char_of (16 * (code a - 97) + (code b - 97)))) (letters_decode s)"

definition letters_ext :: ext where
  "letters_ext = sample_ext\<lparr>b64u_encode := letters_encode, b64u_decode := letters_decode\<rparr>"

lemma code_char_of: "n < 256 \<Longrightarrow> code (char_of n) = n"
  by (simp add: code_def)

lemma code_less: "code c < 256"
  by (simp add: code_def)

lemma letters_roundtrip: "letters_decode (letters_encode b) = Some b"
proof (induction b)
  case (Cons c b)
  have "code c div 16 < 16" using code_less [of c] by simp
  with Cons show ?case by (simp add: letters_encode_def code_char_of) (simp add: code_def)
qed (simp add: letters_encode_def)

lemma letters_unspaced: "unspaced letters_ext"
proof -
  have "code (char_of (97 + code c div 16)) = 97 + code c div 16" for c
    using code_less [of c] by (intro code_char_of) simp
  then show ?thesis
    by (simp add: unspaced_def letters_ext_def letters_encode_def is_ascii_whitespace_def code_char_of)
qed

lemma letters_codec_ok: "codec_ok letters_ext"
  using sample_codec_ok by (simp add: codec_ok_def letters_ext_def letters_roundtrip)

definition sample_keyring :: keyring where
  "sample_keyring =
     \<lparr>kr_entry = (\<lambda>_ _. ret ()), kr_get_password = (\<lambda>s a w. (Inr (w_keyring w s a), w)),
      kr_set_password = (\<lambda>s a v w. (Inr (), w\<lparr>w_keyring := (w_keyring w)(s := (w_keyring w s)(a \<mapsto> v))\<rparr>))\<rparr>"

lemma sample_keyring_ok: "keyring_ok sample_keyring"
  by (simp add: keyring_ok_def keyring_answers_def sample_keyring_def ret_def)

theorem initialized_store_reopens_witness:
  "let providers = [keyring_provider letters_ext sample_keyring ''s'' ''a'', file_provider letters_ext ''k'' ''store'']
   in \<exists>rt w'. runtime_open letters_ext ''store'' providers w' = (Inr rt, w')
        \<and> pb_kind (sm_provider (rt_manifest rt)) = OsKeyring \<and> length (rt_root_key rt) = 32"
proof -
  let ?k = "keyring_provider letters_ext sample_keyring ''s'' ''a''"
  let ?f = "file_provider letters_ext ''k'' ''store''"
  let ?run = "runtime_initialize letters_ext ''store'' (Preferred ?k ?f) (sample_world [])"
  have "case fst ?run of Inr rt \<Rightarrow> length (rt_root_key rt) = 32 \<and> pb_kind (sm_provider (rt_manifest rt)) = OsKeyring
      | Inl _ \<Rightarrow> False"
    by (simp add: runtime_initialize_def keyring_provider_def sample_keyring_def mapio_err_def
        root_key_generate_def ROOT_KEY_LEN_def store_lock_new_def random_store_id_def now_rfc3339_def
        write_manifest_def runtime_of_def empty_disk_def sample_world_def sample_random_def calm_def
        bnd_def ret_def Let_def)
  then obtain rt where rt: "?run = (Inr rt, snd ?run)" "length (rt_root_key rt) = 32"
      "pb_kind (sm_provider (rt_manifest rt)) = OsKeyring"
    by (cases "fst ?run") (auto simp: prod_eq_iff)
  have "store_ready letters_ext (sample_world [])" by (simp add: letters_codec_ok)
  moreover have "set (candidates (Preferred ?k ?f)) \<subseteq> known_providers letters_ext sample_keyring ''store''"
    "distinct (map pv_binding (candidates (Preferred ?k ?f)))"
    by (auto simp: known_providers_def keyring_provider_def file_provider_def Let_def)
  ultimately have "runtime_open letters_ext ''store'' [?k, ?f] (snd ?run) = (Inr rt, snd ?run)"
    using initialized_store_reopens [OF _ letters_unspaced sample_keyring_ok _ _ rt(1)] by simp
  with rt(2,3) show ?thesis by (auto simp: Let_def)
qed

text \<open>
  C30: Whatever fails on the way, a store only opens with a provider that the manifest names and a
  root key whose fingerprint the manifest pins.
\<close>
theorem opened_store_has_pinned_key:
  assumes "runtime_open X root providers w = (Inr rt, w')"
  shows "\<exists>m p. d_manifest (w_disk w) = Some (Parsed m) \<and> rt = runtime_of root (rt_root_key rt) m
    \<and> p \<in> set providers \<and> pv_binding p = sm_provider m
    \<and> root_key_verifier X (rt_root_key rt) = sm_root_key_fingerprint m"
proof -
  from assms obtain m p w1 w2 where m: "read_manifest X w = (Inr m, w1)"
    and p: "find (\<lambda>p. pv_binding p = sm_provider m) providers = Some p"
    and k: "load_existing p w1 = (Inr (rt_root_key rt), w2)"
    "root_key_verifier X (rt_root_key rt) = sm_root_key_fingerprint m"
    "rt = runtime_of root (rt_root_key rt) m"
    by (auto simp: runtime_open_def bnd_Inr_iff ret_def lift_def runtime_of_def)
  from m have "d_manifest (w_disk w) = Some (Parsed m)"
    by (auto simp: read_manifest_def bnd_Inr_iff read_file_def syscall_def lift_def
        elim!: decode_manifest.elims split: list.splits option.splits if_splits)
  with p k show ?thesis by (auto simp: find_Some_iff intro: nth_mem)
qed

theorem opened_store_has_pinned_key_witness:
  "\<exists>w m. runtime_open sample_ext ''store'' [injected_provider ''k'' sample_key] w = (Inr sample_runtime, w)
     \<and> d_manifest (w_disk w) = Some (Parsed m)
     \<and> root_key_verifier sample_ext (rt_root_key sample_runtime) = sm_root_key_fingerprint m"
proof -
  let ?w = "(sample_world [])\<lparr>w_disk := empty_disk\<lparr>d_manifest := Some (Parsed (rt_manifest sample_runtime))\<rparr>\<rparr>"
  have run: "runtime_open sample_ext ''store'' [injected_provider ''k'' sample_key] ?w = (Inr sample_runtime, ?w)"
    by (simp add: runtime_open_def read_manifest_def injected_provider_def sample_runtime_def
        runtime_of_def STORE_MANIFEST_SCHEMA_VERSION_def bnd_def lift_def ret_def)
  from opened_store_has_pinned_key [OF run] run show ?thesis by blast
qed

end
