(* ===== verification/Input_Properties.thy ===== *)
theory Input_Properties
  imports Sample
begin

text \<open>
  Properties of the validation of inputs: which domains are accepted, and that key identifiers are
  compared by their fragment however they are spelled.
\<close>

section \<open>Key identifiers\<close>

definition spells :: "string \<Rightarrow> string \<Rightarrow> string \<Rightarrow> bool" where
  "spells did kid f \<longleftrightarrow> validate_fragment f = Inr () \<and> kid \<in> {f, ''#'' @ f, did @ ''#'' @ f}"

lemma canonicalize_kid_iff:
  assumes "did \<noteq> []" "\<not> starts_with did ''#''"
  shows "canonicalize_kid did kid = Inr c \<longleftrightarrow> (\<exists>f. c = did @ ''#'' @ f \<and> spells did kid f)"
proof
  assume "canonicalize_kid did kid = Inr c"
  then show "\<exists>f. c = did @ ''#'' @ f \<and> spells did kid f"
    by (rule canonicalize_kid_Inr) (auto simp: spells_def)
next
  assume "\<exists>f. c = did @ ''#'' @ f \<and> spells did kid f"
  with assms show "canonicalize_kid did kid = Inr c"
    by (auto simp: spells_def canonicalize_kid_spellings canonicalize_kid_spellings [simplified])
qed

lemma rcollect_canonicalize_iff:
  assumes "did \<noteq> []" "\<not> starts_with did ''#''"
  shows "rcollect (canonicalize_kid did) kids = Inr cs \<longleftrightarrow>
    (\<exists>fs. cs = map (\<lambda>f. did @ ''#'' @ f) fs \<and> list_all2 (spells did) kids fs)"
    (is "_ = (\<exists>fs. _ = map ?full fs \<and> _ fs)")
proof (induction kids arbitrary: cs)
  case (Cons kid kids)
  have "(\<exists>f fs. cs = ?full f # map ?full fs \<and> spells did kid f \<and> list_all2 (spells did) kids fs)
      \<longleftrightarrow> (\<exists>fs. cs = map ?full fs \<and> list_all2 (spells did) (kid # kids) fs)"
    (is "?l = ?r")
  proof
    assume ?l
    then obtain f fs where "cs = map ?full (f # fs)" "list_all2 (spells did) (kid # kids) (f # fs)" by auto
    then show ?r by blast
  qed (auto simp: list_all2_Cons1)
  then show ?case
    by (subst (asm) eq_commute, simp only:) (auto simp: rbind_Inr_iff canonicalize_kid_iff [OF assms] Cons.IH)
qed auto

lemma validate_unique_kids_iff:
  assumes "did \<noteq> []" "\<not> starts_with did ''#''"
  shows "validate_unique_kids did kids = Inr () \<longleftrightarrow>
    (\<exists>fs. list_all2 (spells did) kids fs \<and> distinct fs)"
proof -
  have inj: "distinct (map (\<lambda>f. did @ ''#'' @ f) fs) \<longleftrightarrow> distinct fs" for fs
    by (simp add: distinct_map inj_on_def)
  have "validate_unique_kids did kids = Inr ()
    \<longleftrightarrow> (\<exists>cs. rcollect (canonicalize_kid did) kids = Inr cs \<and> distinct cs)"
    by (auto simp: validate_unique_kids_def unique_kids_loop_Inr_iff split: sum.splits)
  with inj show ?thesis by (auto simp: rcollect_canonicalize_iff [OF assms])
qed

text \<open>
  C36: A list of key identifiers is accepted as free of duplicates exactly when each of them is one
  of the three spellings (bare fragment, hash and fragment, full identifier of this DID) of a valid
  fragment, and the fragments are pairwise different.
\<close>
theorem unique_kids_iff_distinct_fragments:
  assumes "did \<noteq> []" "\<not> starts_with did ''#''"
  shows "validate_unique_kids did kids = Inr () \<longleftrightarrow>
    (\<exists>fs. list_all2 (spells did) kids fs \<and> distinct fs)"
  using assms by (rule validate_unique_kids_iff)

theorem unique_kids_iff_distinct_fragments_witness:
  "(\<exists>fs. list_all2 (spells ''did:wba:a.b'') [''r'', ''#s''] fs \<and> distinct fs)
   \<and> \<not> (\<exists>fs. list_all2 (spells ''did:wba:a.b'') [''r'', ''did:wba:a.b#r''] fs \<and> distinct fs)"
proof -
  have did: "''did:wba:a.b'' \<noteq> []" "\<not> starts_with ''did:wba:a.b'' ''#''" by simp_all
  have "validate_unique_kids ''did:wba:a.b'' [''r'', ''#s''] = Inr ()" by code_simp
  moreover have "validate_unique_kids ''did:wba:a.b'' [''r'', ''did:wba:a.b#r''] \<noteq> Inr ()" by code_simp
  ultimately show ?thesis by (simp add: unique_kids_iff_distinct_fragments [OF did])
qed

section \<open>Domains\<close>

definition LETTERS_DIGITS :: string where
  "LETTERS_DIGITS = ''ABCDEFGHIJKLMNOPQRSTUVWXYZabcdefghijklmnopqrstuvwxyz0123456789''"

lemma alphanumeric_iff: "is_ascii_alphanumeric c \<longleftrightarrow> c \<in> set LETTERS_DIGITS"
proof -
  have "\<forall>c. is_ascii_alphanumeric c \<longleftrightarrow> c \<in> set LETTERS_DIGITS" by code_simp
  then show ?thesis ..
qed

lemma split_on_joined:
  assumes "c \<notin> set l" "\<forall>m \<in> set ls. c \<notin> set m"
  shows "split_on c (l @ concat (map (Cons c) ls)) = l # ls"
  using assms
proof (induction ls arbitrary: l)
  case Nil
  then show ?case by (induction l) auto
next
  case (Cons m ls)
  from Cons.prems(1) show ?case
    by (induction l) (use Cons in auto)
qed

lemma joined_split_on: "split_on c s = l # ls \<Longrightarrow> s = l @ concat (map (Cons c) ls)"
  by (induction s arbitrary: l ls) (auto split: list.splits if_splits)

lemma split_labels_iff:
  assumes "\<And>l. P l \<Longrightarrow> c \<notin> set l"
  shows "(\<forall>l \<in> set (split_on c s). P l) \<longleftrightarrow>
    (\<exists>l ls. s = l @ concat (map (Cons c) ls) \<and> (\<forall>m \<in> set (l # ls). P m))" (is "?l = ?r")
proof
  assume all: ?l
  obtain l ls where split: "split_on c s = l # ls" by (cases "split_on c s") auto
  with all joined_split_on [OF split] show ?r by auto
next
  assume ?r
  then obtain l ls where "s = l @ concat (map (Cons c) ls)" "\<forall>m \<in> set (l # ls). P m" by blast
  with split_on_joined [of c l ls] assms show ?l by auto
qed

lemma digit_char_zero: "d < 10 \<Longrightarrow> digit_char d = CHR ''0'' \<longleftrightarrow> d = 0"
proof -
  have z: "CHR ''0'' = digit_char 0" by code_simp
  assume "d < 10"
  then show ?thesis unfolding z by (metis code_digit_char add_left_cancel zero_less_numeral)
qed

lemma octet_numerals:
  assumes "n \<le> 255"
  shows "1 \<le> length (nat_to_string n) \<and> length (nat_to_string n) \<le> 3
     \<and> (length (nat_to_string n) = 1 \<or> hd (nat_to_string n) \<noteq> CHR ''0'')"
proof -
  consider "n < 10" | "10 \<le> n" "n < 100" | "100 \<le> n" by linarith
  then show ?thesis
  proof cases
    case 1
    then show ?thesis by (simp add: nat_to_string.simps [of n])
  next
    case 2
    then have "n div 10 < 10" "n div 10 \<noteq> 0" by auto
    with 2 show ?thesis
      by (simp add: nat_to_string.simps [of n] nat_to_string.simps [of "n div 10"] digit_char_zero)
  next
    case 3
    with assms have "n div 100 < 10" "n div 100 \<noteq> 0" "\<not> n div 10 < 10" by auto
    with 3 show ?thesis
      by (simp add: nat_to_string.simps [of n] nat_to_string.simps [of "n div 10"]
          nat_to_string.simps [of "n div 100"] digit_char_zero flip: div_mult2_eq)
  qed
qed

text \<open>Decimal numerals without leading zeros are the numerals that are printed.\<close>

lemma nat_to_string_decimal:
  assumes "s \<noteq> []" "\<forall>c \<in> set s. is_ascii_digit c" "length s = 1 \<or> hd s \<noteq> CHR ''0''"
  shows "nat_to_string (decimal_value s) = s"
  using assms
proof (induction s rule: rev_induct)
  case (snoc c s)
  have c: "48 \<le> code c" "code c \<le> 57" using snoc.prems(2) by (auto simp: is_ascii_digit_def)
  then have digit: "digit_char (code c - 48) = c" by (simp add: digit_char_def code_def)
  show ?case
  proof (cases "s = []")
    case True
    have "code c - 48 < 10" using c by simp
    with True digit show ?thesis by (simp add: decimal_value_def nat_to_string.simps [of "code c - 48"])
  next
    case False
    with snoc have s: "nat_to_string (decimal_value s) = s" "hd s \<noteq> CHR ''0''" by (auto simp: hd_append)
    have "decimal_value s \<noteq> 0"
    proof
      assume "decimal_value s = 0"
      with s(1) have "s = [digit_char 0]" by (simp add: nat_to_string.simps [of 0])
      with s(2) show False by (simp add: digit_char_zero)
    qed
    moreover obtain k where k: "code c = 48 + k" "k < 10" 
      using c that [of "code c - 48"] by simp
    ultimately have "\<not> decimal_value (s @ [c]) < 10" "decimal_value (s @ [c]) div 10 = decimal_value s"
      "decimal_value (s @ [c]) mod 10 = code c - 48"
      by (simp_all add: decimal_value_snoc)
    with s digit show ?thesis by (simp add: nat_to_string.simps [of "decimal_value (s @ [c])"])
  qed
qed simp

lemma read_octet_iff:
  "read_octet s = Some r \<longleftrightarrow>
     (\<exists>n \<le> 255. s = nat_to_string n @ r \<and> (r = [] \<or> \<not> is_ascii_digit (hd r)))" (is "?l = ?r")
proof
  let ?d = "takeWhile is_ascii_digit s"
  assume ?l
  then have d: "1 \<le> length ?d" "length ?d = 1 \<or> hd ?d \<noteq> CHR ''0''" "decimal_value ?d \<le> 255"
    and r: "r = dropWhile is_ascii_digit s"
    by (auto simp: read_octet_def Let_def dropWhile_eq_drop split: if_splits)
  have "nat_to_string (decimal_value ?d) = ?d"
    using d(1,2) by (intro nat_to_string_decimal) (auto dest: set_takeWhileD)
  with d(3) r hd_dropWhile [of is_ascii_digit s] show ?r
    by (intro exI [of _ "decimal_value ?d"]) auto
next
  assume ?r
  then obtain n where n: "n \<le> 255" "s = nat_to_string n @ r" "r = [] \<or> \<not> is_ascii_digit (hd r)" by blast
  then have "takeWhile is_ascii_digit s = nat_to_string n"
    by (cases r) (auto simp: takeWhile_append2 nat_to_string_digits)
  with n octet_numerals [OF n(1)] show ?l by (simp add: read_octet_def decimal_value_nat_to_string)
qed

lemma read_ipv4_iff:
  "read_ipv4_addr s = Some [] \<longleftrightarrow>
     (\<exists>a b c d. a \<le> 255 \<and> b \<le> 255 \<and> c \<le> 255 \<and> d \<le> 255
       \<and> s = nat_to_string a @ ''.'' @ nat_to_string b @ ''.'' @ nat_to_string c @ ''.'' @ nat_to_string d)"
proof -
  have dot: "\<not> is_ascii_digit CHR ''.''" by code_simp
  have char: "read_char CHR ''.'' t = Some u \<longleftrightarrow> t = CHR ''.'' # u" for t u
    by (auto simp: read_char_def strip_prefix_Some_iff)
  show ?thesis
    unfolding read_ipv4_addr_def bind_eq_Some_conv char read_octet_iff using dot by fastforce
qed

text \<open>
  C40: A domain is accepted exactly when it has at most 253 bytes, is a sequence of labels separated
  by dots, each of 1 to 63 letters, digits and hyphens that neither begins nor ends with a hyphen,
  and is not an IPv4 address, four decimal numbers up to 255 separated by dots. The other
  guards of the code (emptiness, surrounding white space, IPv6 addresses) add nothing.
\<close>
theorem domain_accepted_iff:
  "validate_domain domain = Inr () \<longleftrightarrow>
     length domain \<le> 253
     \<and> (\<exists>l ls. domain = l @ concat (map (\<lambda>m. ''.'' @ m) ls)
          \<and> list_all (\<lambda>m. 1 \<le> length m \<and> length m \<le> 63 \<and> set m \<subseteq> insert CHR ''-'' (set LETTERS_DIGITS)
               \<and> hd m \<noteq> CHR ''-'' \<and> last m \<noteq> CHR ''-'') (l # ls))
     \<and> \<not> (\<exists>a b c d. a \<le> 255 \<and> b \<le> 255 \<and> c \<le> 255 \<and> d \<le> 255
          \<and> domain = nat_to_string a @ ''.'' @ nat_to_string b @ ''.'' @ nat_to_string c @ ''.'' @ nat_to_string d)"
proof -
  have label: "valid_label m \<longleftrightarrow> 1 \<le> length m \<and> length m \<le> 63 \<and> set m \<subseteq> insert CHR ''-'' (set LETTERS_DIGITS)
      \<and> hd m \<noteq> CHR ''-'' \<and> last m \<noteq> CHR ''-''" for m
  proof -
    have "CHR ''-'' \<notin> set LETTERS_DIGITS" by code_simp
    moreover have "m \<noteq> [] \<Longrightarrow> hd m \<in> set m \<and> last m \<in> set m" by simp
    ultimately show ?thesis
      unfolding valid_label_def alphanumeric_iff list_all_iff by (cases m) (auto simp: Suc_le_eq)
  qed
  have "CHR ''.'' \<notin> insert CHR ''-'' (set LETTERS_DIGITS)" by code_simp
  then have "valid_label m \<Longrightarrow> CHR ''.'' \<notin> set m" for m unfolding label by blast
  from split_labels_iff [of valid_label, OF this] show ?thesis
    unfolding validate_domain_iff read_ipv4_iff by (simp add: label list_all_iff)
qed

section \<open>Specifications\<close>

text \<open>
  C35: A specification that passes validation for a DID names exactly one root-control key when its
  profile has a root and none otherwise, no external root key, distinct keys, external key material
  of the kind its role needs, and a key that can sign requests when the identity is to use them.
\<close>
theorem valid_spec_keys:
  assumes "validate_for_did X spec did = Inr ()" "did \<noteq> []" "\<not> starts_with did ''#''"
  shows "root_count (cs_managed_keys spec) = (if cs_profile spec = E1 then 1 else 0)
    \<and> (\<forall>k \<in> set (cs_external_keys spec). ek_role k \<noteq> RootControl
          \<and> (\<exists>key. parse_public_key X k = Inr key \<and> key_fits_role (ek_role k) key))
    \<and> (\<exists>fs. list_all2 (spells did) (map mk_fragment (cs_managed_keys spec) @ map ek_kid (cs_external_keys spec)) fs
          \<and> distinct fs)
    \<and> (did_wba (cs_capabilities spec) \<longrightarrow>
          (\<exists>k \<in> set (cs_managed_keys spec). mk_role k \<in> {DeviceSigning, RequestSigning}))"
proof -
  from assms(1) have spec: "validate_spec X spec = Inr ()" and unique: "validate_unique_kids did
      (map mk_fragment (cs_managed_keys spec) @ map ek_kid (cs_external_keys spec)) = Inr ()"
    by (auto simp: validate_for_did_def rbind_Inr_iff)
  from spec have "root_count (cs_managed_keys spec) = of_bool (supports_root_control (cs_profile spec))"
    "\<forall>k \<in> set (cs_external_keys spec). ek_role k \<noteq> RootControl \<and> is_ok (parse_public_key X k)"
    "did_wba (cs_capabilities spec) \<Longrightarrow>
       \<exists>k \<in> set (cs_managed_keys spec). mk_role k = DeviceSigning \<or> mk_role k = RequestSigning"
    by (auto simp: validate_spec_def res_simps list_ex_iff is_ok_iff)
  with unique show ?thesis
    by (auto simp: validate_unique_kids_iff [OF assms(2,3)] supports_root_control_def is_ok_iff)
       (use parse_public_key_Inr in blast)
qed

theorem valid_spec_keys_witness:
  "validate_for_did sample_ext sample_web_spec ''did:web:a.b'' = Inr ()
   \<and> root_count (cs_managed_keys sample_web_spec) = 0
   \<and> validate_for_did sample_ext sample_e1_spec ''did:wba:a.b'' = Inr ()
   \<and> root_count (cs_managed_keys sample_e1_spec) = 1"
proof -
  have w: "validate_for_did sample_ext sample_web_spec ''did:web:a.b'' = Inr ()" by code_simp
  have e: "validate_for_did sample_ext sample_e1_spec ''did:wba:a.b'' = Inr ()" by code_simp
  from valid_spec_keys [OF w] valid_spec_keys [OF e] w e show ?thesis
    by (simp add: sample_web_spec_def sample_e1_spec_def)
qed

end
