(* ===== verification/Crypto_Ops.thy ===== *)
theory Crypto_Ops
  imports Identity
begin

text \<open>
  \<open>crypto_ops.rs\<close>: signing, verification and key agreement with the keys of an open identity,
  each guarded by the current state of the identity, the origin, state and role of the key.
\<close>

section \<open>Guards\<close>

definition require_operational :: "ext \<Rightarrow> did_identity \<Rightarrow> unit io" where
  "require_operational X i =
     bnd (read_identity X (di_identity_id i)) (\<lambda>current.
     bnd (lift (ensure (ir_generation current = ir_generation (di_record i)) Conflict)) (\<lambda>_.
     lift (ensure (ir_state current = Id_Active) KeyNotUsable)))"

definition current_pending_enrollment :: "ext \<Rightarrow> did_identity \<Rightarrow> string \<Rightarrow> identity_record io" where
  "current_pending_enrollment X i enrollment_id =
     bnd (read_identity X (di_identity_id i)) (\<lambda>current.
     bnd (lift (ensure (ir_generation current = ir_generation (di_record i)) Conflict)) (\<lambda>_.
     bnd (lift (ensure (ir_state current = Id_Enrolling
            \<and> (case ir_pending_enrollment current of None \<Rightarrow> False
               | Some p \<Rightarrow> pe_enrollment_id p = enrollment_id)) KeyNotUsable)) (\<lambda>_.
     ret current)))"

definition require_active :: "key_metadata \<Rightarrow> unit did_result" where
  "require_active m = ensure (km_state m = Key_Active) KeyNotUsable"

definition request_signing_metadata :: "ext \<Rightarrow> did_identity \<Rightarrow> string \<Rightarrow> key_metadata io" where
  "request_signing_metadata X i kid =
     bnd (require_operational X i) (\<lambda>_.
     bnd (lift (managed_key_metadata i kid)) (\<lambda>m.
     bnd (lift (require_active m)) (\<lambda>_.
     bnd (lift (ensure (km_role m \<in> {DeviceSigning, RequestSigning}) KeyRoleViolation)) (\<lambda>_.
     ret m))))"

definition device_signing_metadata :: "ext \<Rightarrow> did_identity \<Rightarrow> string \<Rightarrow> key_metadata io" where
  "device_signing_metadata X i kid =
     bnd (require_operational X i) (\<lambda>_.
     bnd (lift (managed_key_metadata i kid)) (\<lambda>m.
     bnd (lift (require_active m)) (\<lambda>_.
     bnd (lift (ensure (km_role m = DeviceSigning) KeyRoleViolation)) (\<lambda>_.
     ret m))))"

definition ed25519_signing_key :: "bytes \<Rightarrow> bytes did_result" where
  "ed25519_signing_key secret = (if length secret \<noteq> 32 then Inl InvalidIdentity else Inr secret)"

definition x25519_private_key :: "bytes \<Rightarrow> bytes did_result" where
  "x25519_private_key secret = (if length secret \<noteq> 32 then Inl InvalidIdentity else Inr secret)"

definition sign_prepared :: "ext \<Rightarrow> did_identity \<Rightarrow> key_metadata \<Rightarrow> bytes \<Rightarrow> bytes io" where
  "sign_prepared X i m message =
     bnd (load_managed_secret X i m) (\<lambda>secret.
     bnd (lift (ed25519_signing_key secret)) (\<lambda>key.
     ret (ed25519_sign X key message)))"

definition method_public_key :: "ext \<Rightarrow> did_identity \<Rightarrow> string \<Rightarrow> public_key did_result" where
  "method_public_key X i kid =
     rbind (ok_or (find_verification_method X (ir_document (di_record i)) kid) InvalidIdentity) (\<lambda>method.
       ok_or (extract_public_key X method) InvalidPublicKey)"

definition agree :: "ext \<Rightarrow> did_identity \<Rightarrow> key_metadata \<Rightarrow> bytes \<Rightarrow> bytes io" where
  "agree X i m peer_public =
     bnd (lift (ensure (length peer_public = 32) InvalidPeerKey)) (\<lambda>_.
     bnd (load_managed_secret X i m) (\<lambda>secret.
     bnd (lift (x25519_private_key secret)) (\<lambda>private.
     let shared = x25519_diffie_hellman X private peer_public in
     bnd (lift (ensure (\<not> list_all (\<lambda>b. b = CHR 0x00) shared) InvalidPeerKey)) (\<lambda>_.
     ret shared))))"

section \<open>Operations of an active identity\<close>

definition sign :: "ext \<Rightarrow> did_identity \<Rightarrow> string \<Rightarrow> bytes \<Rightarrow> bytes io" where
  "sign X i kid message =
     bnd (require_operational X i) (\<lambda>_.
     bnd (lift (managed_key_metadata i kid)) (\<lambda>m.
     bnd (lift (require_active m)) (\<lambda>_.
     bnd (lift (ensure (km_role m \<in> {DeviceSigning, RequestSigning, E2eeSigning}) KeyRoleViolation)) (\<lambda>_.
     bnd (load_managed_secret X i m) (\<lambda>secret.
     bnd (lift (ed25519_signing_key secret)) (\<lambda>key.
     ret (ed25519_sign X key message)))))))"

definition sign_object_proof ::
  "ext \<Rightarrow> did_identity \<Rightarrow> string \<Rightarrow> json \<Rightarrow> string \<Rightarrow> string option \<Rightarrow> json io" where
  "sign_object_proof X i kid document issuer_did created =
     bnd (device_signing_metadata X i kid) (\<lambda>m.
     bnd (lift (method_public_key X i (km_kid m))) (\<lambda>public.
     bnd (lift (ok_or (prepare_object_proof X document public (km_kid m) issuer_did created) Crypto)) (\<lambda>prepared.
     bnd (sign_prepared X i m (signing_input prepared)) (\<lambda>signature.
     lift (ok_or (complete_object_proof X prepared signature) Crypto)))))"

definition sign_document_proof ::
  "ext \<Rightarrow> did_identity \<Rightarrow> json \<Rightarrow> string \<Rightarrow> proof_options \<Rightarrow> json io" where
  "sign_document_proof X i document verification_method options =
     bnd (require_operational X i) (\<lambda>_.
     bnd (lift (ensure (ir_root_capability (di_record i) = Root_Active) RootCapabilityUnavailable)) (\<lambda>_.
     bnd (lift (managed_key_metadata i verification_method)) (\<lambda>m.
     bnd (lift (require_active m)) (\<lambda>_.
     bnd (lift (ensure (km_role m = RootControl) KeyRoleViolation)) (\<lambda>_.
     bnd (lift (method_public_key X i (km_kid m))) (\<lambda>public.
     bnd (lift (ok_or (prepare_w3c_proof X document public (km_kid m) options) Crypto)) (\<lambda>prepared.
     bnd (sign_prepared X i m (signing_input prepared)) (\<lambda>signature.
     lift (ok_or (complete_w3c_proof X prepared signature) Crypto)))))))))"

definition sign_origin_proof ::
  "ext \<Rightarrow> did_identity \<Rightarrow> string \<Rightarrow> json \<Rightarrow> json \<Rightarrow> string \<Rightarrow> origin_proof_options \<Rightarrow> origin_proof io" where
  "sign_origin_proof X i method meta body kid options =
     bnd (request_signing_metadata X i kid) (\<lambda>m.
     bnd (lift (method_public_key X i (km_kid m))) (\<lambda>public.
     bnd (lift (ok_or (prepare_rfc9421_origin_proof X method meta body public (km_kid m) options) Crypto)) (\<lambda>prepared.
     bnd (sign_prepared X i m (signing_input prepared)) (\<lambda>signature.
     lift (ok_or (complete_rfc9421_origin_proof X prepared signature) Crypto)))))"

definition verify :: "ext \<Rightarrow> did_identity \<Rightarrow> string \<Rightarrow> bytes \<Rightarrow> bytes \<Rightarrow> unit did_result" where
  "verify X i kid message signature =
     rbind (find_key_metadata i kid) (\<lambda>m.
     rbind (ensure (km_state m \<noteq> Key_Revoked) KeyNotUsable) (\<lambda>_.
     rbind (ensure (km_role m \<noteq> E2eeAgreement) KeyRoleViolation) (\<lambda>_.
     rbind (method_public_key X i (km_kid m)) (\<lambda>public.
       ensure (verify_message X public message signature) VerificationFailed))))"

definition ecdh :: "ext \<Rightarrow> did_identity \<Rightarrow> string \<Rightarrow> bytes \<Rightarrow> bytes io" where
  "ecdh X i kid peer_public =
     bnd (require_operational X i) (\<lambda>_.
     bnd (lift (managed_key_metadata i kid)) (\<lambda>m.
     bnd (lift (require_active m)) (\<lambda>_.
     bnd (lift (ensure (km_role m = E2eeAgreement) KeyRoleViolation)) (\<lambda>_.
     agree X i m peer_public))))"

definition legacy_did_wba_header :: "ext \<Rightarrow> did_identity \<Rightarrow> string \<Rightarrow> string \<Rightarrow> string \<Rightarrow> string io" where
  "legacy_did_wba_header X i kid service_domain version =
     bnd (lift (for_did X (di_did i))) (\<lambda>profile.
     bnd (lift (ensure (profile = E1) UnsupportedOperation)) (\<lambda>_.
     bnd (request_signing_metadata X i kid) (\<lambda>m.
     bnd (lift (ok_or (prepare_legacy_did_wba_auth_header X (ir_document (di_record i))
            service_domain version (km_kid m)) InvalidIdentity)) (\<lambda>prepared.
     bnd (sign_prepared X i m (signing_input prepared)) (\<lambda>signature.
     lift (ok_or (complete_legacy_did_wba_auth_header X prepared signature) Crypto))))))"

definition http_signature_headers_with_options ::
  "ext \<Rightarrow> did_identity \<Rightarrow> string \<Rightarrow> string \<Rightarrow> string \<Rightarrow> (string \<times> string) list option
     \<Rightarrow> bytes option \<Rightarrow> http_signature_options \<Rightarrow> (string \<times> string) list io" where
  "http_signature_headers_with_options X i kid request_url request_method headers body options =
     bnd (request_signing_metadata X i kid) (\<lambda>m.
     bnd (lift (ok_or (prepare_http_signature_headers X (ir_document (di_record i)) request_url
            request_method headers body (options\<lparr>ho_keyid := Some (km_kid m)\<rparr>)) InvalidIdentity)) (\<lambda>prepared.
     bnd (sign_prepared X i m (signing_input prepared)) (\<lambda>signature.
     lift (ok_or (complete_http_signature_headers X prepared signature) Crypto))))"

section \<open>Operations of a pending enrolment or root transfer\<close>

definition sign_pending_root_object_proof ::
  "ext \<Rightarrow> did_identity \<Rightarrow> string \<Rightarrow> json \<Rightarrow> string \<Rightarrow> string option \<Rightarrow> json io" where
  "sign_pending_root_object_proof X i kid document issuer_did created =
     bnd (read_identity X (di_identity_id i)) (\<lambda>current.
     bnd (lift (ensure (ir_generation current = ir_generation (di_record i)) Conflict)) (\<lambda>_.
     bnd (lift (ensure (ir_state current = Id_Active \<and> ir_root_capability current = Root_Pending
            \<and> ir_pending_root_transfer current \<noteq> None) RootCapabilityUnavailable)) (\<lambda>_.
     bnd (lift (canonicalize_kid (ir_did current) kid)) (\<lambda>kid.
     bnd (lift (ok_or (find (\<lambda>m. km_kid m = kid) (ir_keys current)) KeyNotFound)) (\<lambda>m.
     bnd (lift (ensure (km_role m = RootControl \<and> km_origin m = Managed \<and> km_state m = Key_Pending
            \<and> \<not> km_material_erased m) RootCapabilityUnavailable)) (\<lambda>_.
     bnd (lift (method_public_key X i (km_kid m))) (\<lambda>public.
     bnd (lift (ok_or (prepare_object_proof X document public (km_kid m) issuer_did created) Crypto)) (\<lambda>prepared.
     bnd (sign_prepared X i m (signing_input prepared)) (\<lambda>signature.
     lift (ok_or (complete_object_proof X prepared signature) Crypto))))))))))"

text \<open>The key of a pending enrolment: the local one of the given role, managed and still pending.\<close>

definition enrollment_metadata ::
  "identity_record \<Rightarrow> string \<Rightarrow> (local_authorization_record \<Rightarrow> string) \<Rightarrow> key_role \<Rightarrow> key_metadata did_result" where
  "enrollment_metadata r kid expected role =
     rbind (ok_or (ir_local_authorization r) InvalidIdentity) (\<lambda>local.
     rbind (canonicalize_kid (ir_did r) kid) (\<lambda>kid.
     rbind (ensure (kid = expected local) KeyRoleViolation) (\<lambda>_.
     rbind (ok_or (find (\<lambda>m. km_kid m = kid) (ir_keys r)) KeyNotFound) (\<lambda>m.
     rbind (ensure (km_role m = role \<and> km_origin m = Managed \<and> km_state m = Key_Pending
            \<and> \<not> km_material_erased m) KeyNotUsable) (\<lambda>_.
     Inr m)))))"

definition sign_pending_enrollment :: "ext \<Rightarrow> did_identity \<Rightarrow> string \<Rightarrow> string \<Rightarrow> bytes \<Rightarrow> bytes io" where
  "sign_pending_enrollment X i enrollment_id kid message =
     bnd (current_pending_enrollment X i enrollment_id) (\<lambda>r.
     bnd (lift (enrollment_metadata r kid la_signing_kid DeviceSigning)) (\<lambda>m.
     sign_prepared X i m message))"

definition ecdh_pending_enrollment :: "ext \<Rightarrow> did_identity \<Rightarrow> string \<Rightarrow> string \<Rightarrow> bytes \<Rightarrow> bytes io" where
  "ecdh_pending_enrollment X i enrollment_id kid peer_public =
     bnd (current_pending_enrollment X i enrollment_id) (\<lambda>r.
     bnd (lift (enrollment_metadata r kid la_e2ee_kid E2eeAgreement)) (\<lambda>m.
     agree X i m peer_public))"

end
