(* ===== verification/Frames.thy ===== *)
theory Frames
  imports Crypto_Ops
begin

text \<open>
  Frame conditions: what part of the store an operation leaves as it was, whatever system calls
  fail. \<open>keeps f m\<close> says that running \<open>m\<close> never changes the part \<open>f\<close> of the disk; with the whole
  disk as the part, \<open>m\<close> is read-only.
\<close>

definition keeps :: "(disk \<Rightarrow> 'b) \<Rightarrow> 'a io \<Rightarrow> bool" where
  "keeps f m \<longleftrightarrow> (\<forall>w. f (w_disk (snd (m w))) = f (w_disk w))"

abbreviation read_only :: "'a io \<Rightarrow> bool" where
  "read_only m \<equiv> keeps (\<lambda>d. d) m"

lemma bnd_assoc: "bnd (bnd m f) g = bnd m (\<lambda>x. bnd (f x) g)"
  by (rule ext) (auto simp: bnd_def split: prod.splits sum.splits)

lemma bnd_ret_right [simp]: "bnd m ret = m"
  by (rule ext) (simp add: bnd_def ret_def split: prod.splits sum.splits)

named_theorems keeps_intros \<open>introduction rules for frame conditions\<close>

lemma keepsD: "keeps f m \<Longrightarrow> m w = (r, w') \<Longrightarrow> f (w_disk w') = f (w_disk w)"
  unfolding keeps_def by (metis snd_conv)

lemma read_only_keeps: "read_only m \<Longrightarrow> keeps f m"
  by (simp add: keeps_def)

lemma disk_pure_keeps: "disk_pure m \<Longrightarrow> keeps f m"
  unfolding keeps_def by (metis disk_pureD(1) prod.collapse)

lemma keeps_ret [keeps_intros]: "keeps f (ret x)"
  by (simp add: keeps_def ret_def)

lemma keeps_raise [keeps_intros]: "keeps f (raise e)"
  by (simp add: keeps_def raise_def)

lemma keeps_lift [keeps_intros]: "keeps f (lift r)"
  by (simp add: keeps_def lift_def)

lemma keeps_bnd [keeps_intros]: "keeps f m \<Longrightarrow> (\<And>x. keeps f (g x)) \<Longrightarrow> keeps f (bnd m g)"
  by (auto simp: keeps_def bnd_def split: prod.splits sum.splits) (metis snd_conv)+

lemma keeps_if [keeps_intros]: "(b \<Longrightarrow> keeps f m) \<Longrightarrow> (\<not> b \<Longrightarrow> keeps f n) \<Longrightarrow> keeps f (if b then m else n)"
  by simp

lemma keeps_case_option [keeps_intros]:
  "(x = None \<Longrightarrow> keeps f m) \<Longrightarrow> (\<And>y. x = Some y \<Longrightarrow> keeps f (n y))
   \<Longrightarrow> keeps f (case x of None \<Rightarrow> m | Some y \<Rightarrow> n y)"
  by (cases x) simp_all

lemma keeps_case_list [keeps_intros]:
  "(x = [] \<Longrightarrow> keeps f m) \<Longrightarrow> (\<And>y ys. x = y # ys \<Longrightarrow> keeps f (n y ys))
   \<Longrightarrow> keeps f (case x of [] \<Rightarrow> m | y # ys \<Rightarrow> n y ys)"
  by (cases x) simp_all

lemma keeps_case_prod [keeps_intros]:
  "(\<And>a b. p = (a, b) \<Longrightarrow> keeps f (g a b)) \<Longrightarrow> keeps f (case p of (a, b) \<Rightarrow> g a b)"
  by (cases p) simp

lemma keeps_foreach [keeps_intros]: "(\<And>x. keeps f (g x)) \<Longrightarrow> keeps f (foreach g xs)"
  by (induction xs) (auto intro: keeps_intros)

lemma keeps_mapio_err [keeps_intros]: "keeps f m \<Longrightarrow> keeps f (mapio_err h m)"
  by (simp add: keeps_def mapio_err_def split: prod.splits) (metis snd_conv)

lemma keeps_syscall: "(\<And>d. f (g d) = f d) \<Longrightarrow> keeps f (syscall g)"
  by (simp add: keeps_def syscall_def split: list.splits option.splits)

lemma keeps_pure [keeps_intros]: "keeps f (fill_bytes n)" "keeps f utc_now"
  by (simp_all add: keeps_def utc_now_def)

lemma keeps_read_file [keeps_intros]: "keeps f (read_file g)"
  unfolding read_file_def by (intro keeps_bnd keeps_syscall) (simp_all add: keeps_def)

lemma keeps_path_exists [keeps_intros]: "keeps f (path_exists g)"
  by (simp add: keeps_def path_exists_def syscall_def split: list.splits option.splits prod.splits sum.splits)

lemma keeps_ensure_private_dir [keeps_intros]: "keeps f ensure_private_dir"
  unfolding ensure_private_dir_def by (intro keeps_intros keeps_syscall) simp_all

lemma keeps_acquire_exclusive [keeps_intros]: "keeps f (acquire_exclusive l)"
  unfolding acquire_exclusive_def open_private_lock_file_def
  by (intro keeps_intros keeps_syscall) simp_all

lemma keeps_write_atomic_private: "(\<And>d. f (g d) = f d) \<Longrightarrow> keeps f (write_atomic_private g)"
  unfolding write_atomic_private_def by (intro keeps_intros keeps_syscall) simp_all

lemma keeps_remove_if_exists: "(\<And>d. f (g d) = f d) \<Longrightarrow> keeps f (remove_if_exists g)"
  unfolding remove_if_exists_def by (intro keeps_intros keeps_syscall) simp_all

section \<open>The store\<close>

lemma keeps_store_reads [keeps_intros]:
  "keeps f (acquire_write rt)" "keeps f (now_rfc3339 X)" "keeps f (random_id X)"
  "keeps f read_registry" "keeps f (read_identity X i)"
  unfolding acquire_write_def now_rfc3339_def random_id_def read_registry_def read_identity_def
  by (intro keeps_intros)+

lemma keeps_load_entries [keeps_intros]: "keeps f (load_entries valid es)"
proof (induction valid es rule: load_entries.induct)
  case (2 valid name c es)
  then show ?case
    by (auto intro!: keeps_intros keeps_syscall split: content.splits)
qed (simp add: keeps_ret)

lemma keeps_lists [keeps_intros]:
  "keeps f list_journals" "keeps f list_update_journals" "keeps f list_identity_transition_journals"
  "keeps f (read_identity_transition_journal X op)"
  unfolding list_journals_def list_update_journals_def list_identity_transition_journals_def
    read_identity_transition_journal_def
  by (intro keeps_intros)+

lemma keeps_writes:
  "(\<And>d x. f (d\<lparr>d_registry := x\<rparr>) = f d) \<Longrightarrow> keeps f (write_registry root g registry)"
  "(\<And>d x. f (d\<lparr>d_identities := x\<rparr>) = f d) \<Longrightarrow> keeps f (write_identity X root g r)"
  "(\<And>d x. f (d\<lparr>d_identities := x\<rparr>) = f d) \<Longrightarrow> keeps f (remove_identity X root g i)"
  "(\<And>d x. f (d\<lparr>d_journals := x\<rparr>) = f d) \<Longrightarrow> keeps f (write_journal X root g cj)"
  "(\<And>d x. f (d\<lparr>d_journals := x\<rparr>) = f d) \<Longrightarrow> keeps f (remove_journal X root g i)"
  "(\<And>d x. f (d\<lparr>d_update_journals := x\<rparr>) = f d) \<Longrightarrow> keeps f (write_update_journal X root g uj)"
  "(\<And>d x. f (d\<lparr>d_update_journals := x\<rparr>) = f d) \<Longrightarrow> keeps f (remove_update_journal X root g i)"
  unfolding write_registry_def write_identity_def remove_identity_def write_journal_def
    remove_journal_def write_update_journal_def remove_update_journal_def
  by (intro keeps_intros keeps_write_atomic_private keeps_remove_if_exists; simp)+

lemma keeps_ks_open [keeps_intros]: "keeps f (ks_open X k r)"
  unfolding ks_open_def by (intro keeps_intros)

lemma keeps_ks:
  assumes "\<And>d x. f (d\<lparr>d_records := x\<rparr>) = f d"
  shows "keeps f (ks_seal_if_absent X ks g k r m)" "keeps f (ks_delete X ks g r)"
  unfolding ks_seal_if_absent_def ks_delete_def
  using assms disk_pure_keeps [OF disk_pure_seal_record]
  by (auto intro!: keeps_intros keeps_write_atomic_private keeps_remove_if_exists)

lemma keeps_handle [keeps_intros]:
  "keeps f (load_managed_secret X i m)" "keeps f (verify_persisted_key X rt r key)"
  unfolding load_managed_secret_def verify_persisted_key_def by (intro keeps_intros)+

text \<open>Using a frame condition in the calculus over failure schedules.\<close>

lemma safe_keeps:
  assumes "keeps f m" "calm c"
    and "\<And>x c'. calm c' \<Longrightarrow> f (w_disk c') = f (w_disk c) \<Longrightarrow> Q x c'"
    and "\<And>e c'. calm c' \<Longrightarrow> f (w_disk c') = f (w_disk c) \<Longrightarrow> E e c'"
  shows "safe m Q E c"
  unfolding safe_def wp_def
proof (intro allI)
  fix fs
  obtain r w' where r: "m (c\<lparr>w_faults := fs\<rparr>) = (r, w')" by (cases "m (c\<lparr>w_faults := fs\<rparr>)")
  with keepsD [OF assms(1)] have "f (w_disk (core w')) = f (w_disk c)" by simp
  with assms(3,4) r show "case m (c\<lparr>w_faults := fs\<rparr>) of (Inl e, w') \<Rightarrow> E e (core w') | (Inr x, w') \<Rightarrow> Q x (core w')"
    by (cases r) simp_all
qed

section \<open>Reading a record\<close>

text \<open>Reading fills in the three fields that older files may lack and changes nothing else.\<close>

lemma decode_identity_shape:
  assumes "decode_identity X i c = Inr r"
  obtains q where "c = Some (Parsed q)" "ir_identity_id q = i" "is_ok (for_did X (ir_did q))"
    "ir_schema_version q = IDENTITY_SCHEMA_VERSION"
    "r = q\<lparr>ir_root_key_fingerprint := ir_root_key_fingerprint r, ir_checkpoint := ir_checkpoint r,
       ir_local_authorization := ir_local_authorization r\<rparr>"
proof -
  from assms obtain q where c: "c = Some (Parsed q)" by (cases c; cases "the c") simp_all
  have root: "y = x\<lparr>ir_root_key_fingerprint := ir_root_key_fingerprint y\<rparr>"
    if "(if b then rbind m (\<lambda>f. Inr (x\<lparr>ir_root_key_fingerprint := Some f\<rparr>)) else if b' then Inl e else Inr x) = Inr y"
    for x y :: identity_record and b b' and m :: "string did_result" and e
    using that by (auto simp: rbind_Inr_iff split: if_splits)
  have ck: "y = x\<lparr>ir_checkpoint := ir_checkpoint y\<rparr>"
    if "(if b then rbind m (\<lambda>f. Inr (x\<lparr>ir_checkpoint := Some (h f)\<rparr>)) else Inr x) = Inr y"
    for x y :: identity_record and b and m :: "string did_result" and h
    using that by (auto simp: rbind_Inr_iff split: if_splits)
  have la: "y = x\<lparr>ir_local_authorization := ir_local_authorization y\<rparr>"
    if "(if b then rbind m (\<lambda>f. Inr (x\<lparr>ir_local_authorization := f\<rparr>)) else Inr x) = Inr y"
    for x y :: identity_record and b m
    using that by (auto simp: rbind_Inr_iff split: if_splits)
  from assms obtain x y p where ok: "ir_schema_version q = IDENTITY_SCHEMA_VERSION" "ir_identity_id q = i"
    "for_did X (ir_did q) = Inr p"
    and x: "x = q\<lparr>ir_root_key_fingerprint := ir_root_key_fingerprint x\<rparr>"
    and y: "y = x\<lparr>ir_checkpoint := ir_checkpoint y\<rparr>" "r = y\<lparr>ir_local_authorization := ir_local_authorization r\<rparr>"
    unfolding c decode_identity.simps rbind_Inr_iff ensure_Inr_iff
    by (elim exE conjE) (drule root, drule ck, drule la, rule that, assumption+)
  have "r = q\<lparr>ir_root_key_fingerprint := ir_root_key_fingerprint r, ir_checkpoint := ir_checkpoint r,
       ir_local_authorization := ir_local_authorization r\<rparr>"
    using x y by (cases q, cases x, cases y, cases r) simp
  with c ok that show ?thesis by simp
qed

lemma identity_at_shape:
  assumes "identity_at X d i = Inr r"
  obtains q where "dir_get (d_identities d) (identity_path X i) = Some (Parsed q)" "ir_identity_id r = i"
    "ir_document r = ir_document q" "ir_pending_revision r = ir_pending_revision q"
    "ir_generation r = ir_generation q" "ir_state r = ir_state q" "ir_did r = ir_did q" "ir_keys r = ir_keys q"
proof -
  from decode_identity_shape [OF assms] obtain q where
    q: "dir_get (d_identities d) (identity_path X i) = Some (Parsed q)" "ir_identity_id q = i"
    and r: "r = q\<lparr>ir_root_key_fingerprint := ir_root_key_fingerprint r, ir_checkpoint := ir_checkpoint r,
       ir_local_authorization := ir_local_authorization r\<rparr>" by blast
  then have "ir_identity_id r = ir_identity_id q \<and> ir_document r = ir_document q
    \<and> ir_pending_revision r = ir_pending_revision q \<and> ir_generation r = ir_generation q
    \<and> ir_state r = ir_state q \<and> ir_did r = ir_did q \<and> ir_keys r = ir_keys q"
    by (cases r, cases q) simp
  with q that show ?thesis by metis
qed

lemma identity_at_id: "identity_at X d i = Inr r \<Longrightarrow> ir_identity_id r = i"
  by (rule identity_at_shape)

end
