(* ===== verification/Sample_Records.thy ===== *)
theory Sample_Records
  imports Sample
begin

text \<open>
  Stored identities on which the hypotheses of the properties are discharged: a \<open>did:web\<close> identity
  with one request signing key, the disk that holds it, and an open handle.
\<close>

definition sample_did :: string where
  "sample_did = ''did:web:a.b''"

definition sample_kid :: string where
  "sample_kid = sample_did @ ''#r''"

definition sample_document :: json where
  "sample_document = json_object
     [(''authentication'', JArray [JString sample_kid]), (''id'', JString sample_did),
      (''verificationMethod'', JArray [json_object [(''controller'', JString sample_did),
         (''id'', JString sample_kid),
         (''publicKeyMultibase'', JString (sample_key_text (Ed25519 sample_key))),
         (''type'', JString ''Multikey'')]])]"

definition sample_metadata :: key_metadata where
  "sample_metadata = \<lparr>km_kid = sample_kid, km_role = RequestSigning, km_origin = Managed,
     km_state = Key_Active, km_material_erased = False, km_version = 1,
     km_public_key_multibase = sample_key_text (Ed25519 sample_key), km_created_at = []\<rparr>"

definition sample_record :: identity_record where
  "sample_record = (new_identity_record
     \<lparr>ni_identity_id = ''i'', ni_did = sample_did, ni_document = sample_document,
      ni_keys = [sample_metadata], ni_capabilities = \<lparr>did_wba = True\<rparr>,
      ni_root_capability = Root_Absent, ni_root_key_fingerprint = None,
      ni_checkpoint = \<lparr>ck_document_version = 1, ck_registry_version = 1, ck_document_digest = ''d''\<rparr>,
      ni_local_authorization = None, ni_created_at = []\<rparr>)\<lparr>ir_state := Id_Active\<rparr>"

definition sample_revision :: pending_revision_record where
  "sample_revision = \<lparr>pr_revision_id = ''v'', pr_parent_revision = 1,
     pr_candidate_document = sample_document, pr_candidate_digest = ''e'', pr_candidate_kids = [],
     pr_pending_secret_refs = [], pr_new_key_metadata = [], pr_retired_kids = [],
     pr_state = Prepared, pr_generation = 1, pr_created_at = []\<rparr>"

text \<open>The disk that holds one record, with its entry in the registry.\<close>

definition holding :: "identity_record \<Rightarrow> disk" where
  "holding r = empty_disk\<lparr>
     d_identities := [(identity_path sample_ext (ir_identity_id r), Parsed r)],
     d_registry := Some (Parsed \<lparr>rg_schema_version = 1, rg_generation = 1,
       rg_identities = [(ir_did r, summary r)]\<rparr>)\<rparr>"

definition holding_world :: "identity_record \<Rightarrow> string option list \<Rightarrow> world" where
  "holding_world r fs = (sample_world fs)\<lparr>w_disk := holding r\<rparr>"

definition sample_handle :: "identity_record \<Rightarrow> did_identity" where
  "sample_handle r = \<lparr>di_runtime = sample_runtime, di_record = r\<rparr>"

lemma holding_world_simps [simp]:
  "w_disk (holding_world r fs) = holding r" "calm (holding_world r [])" "fills (holding_world r fs)"
  by (simp_all add: holding_world_def)

lemma sample_handle_simps [simp]:
  "di_record (sample_handle r) = r" "di_runtime (sample_handle r) = sample_runtime"
  "wf_runtime (di_runtime (sample_handle r))"
  "di_identity_id (sample_handle r) = ir_identity_id r" "di_did (sample_handle r) = ir_did r"
  by (simp_all add: sample_handle_def di_identity_id_def di_did_def)

definition sample_pending :: identity_record where
  "sample_pending = sample_record\<lparr>ir_pending_revision := Some sample_revision\<rparr>"

lemma sample_record_id: "ir_identity_id sample_record = ''i''"
  by code_simp

lemma sample_b64u: "b64u_encode sample_ext b = CHR ''u'' # b"
  by (simp add: sample_ext_def)

lemma sample_record_reads: "identity_at sample_ext (holding sample_record) ''i'' = Inr sample_record"
  by code_simp

lemma sample_pending_reads: "identity_at sample_ext (holding sample_pending) ''i'' = Inr sample_pending"
  by code_simp

section \<open>An identity with a root key\<close>

definition sample_root_did :: string where
  "sample_root_did = ''did:wba:a.b:p''"

definition sample_root_kid :: string where
  "sample_root_kid = sample_root_did @ ''#root''"

definition sample_root_document :: json where
  "sample_root_document = json_object
     [(''id'', JString sample_root_did),
      (''proof'', json_object [(''verificationMethod'', JString sample_root_kid)]),
      (''verificationMethod'', JArray [json_object [(''controller'', JString sample_root_did),
         (''id'', JString sample_root_kid),
         (''publicKeyMultibase'', JString (sample_key_text (Ed25519 sample_key))),
         (''type'', JString ''Multikey'')]])]"

definition sample_fingerprint :: "string option" where
  "sample_fingerprint = (case method_root_fingerprint sample_ext sample_root_document of Inr f \<Rightarrow> f | _ \<Rightarrow> None)"

definition sample_root_record :: identity_record where
  "sample_root_record = (new_identity_record
     \<lparr>ni_identity_id = ''i'', ni_did = sample_root_did, ni_document = sample_root_document,
      ni_keys = [sample_metadata\<lparr>km_kid := sample_root_kid, km_role := RootControl\<rparr>],
      ni_capabilities = \<lparr>did_wba = True\<rparr>,
      ni_root_capability = Root_Active, ni_root_key_fingerprint = sample_fingerprint,
      ni_checkpoint = \<lparr>ck_document_version = 1, ck_registry_version = 1, ck_document_digest = ''d''\<rparr>,
      ni_local_authorization = None, ni_created_at = []\<rparr>)\<lparr>ir_state := Id_Active\<rparr>"

lemma sample_root_reads:
  "identity_at sample_ext (holding sample_root_record) ''i'' = Inr sample_root_record"
  by code_simp

section \<open>Evidence\<close>

definition sample_evidence :: "json \<Rightarrow> u64 \<Rightarrow> verified_document_evidence" where
  "sample_evidence doc v = \<lparr>ev_document_version = v, ev_registry_version = v,
     ev_document_digest = (case document_digest sample_ext doc of Inr d \<Rightarrow> d | _ \<Rightarrow> [])\<rparr>"

definition sample_adopt :: "json \<Rightarrow> u64 \<Rightarrow> adopt_verified_document_spec" where
  "sample_adopt doc v = \<lparr>av_document = doc, av_evidence = sample_evidence doc v\<rparr>"

end
