(* ===== verification/Publication.thy ===== *)
theory Publication
  imports Frames Sample_Records
begin

text \<open>
  The life of a pending revision as a state machine, and that the operations of \<open>lifecycle.rs\<close>
  implement it: whatever fails on the way, the stored record either is the old one or has made one
  step of the machine.
\<close>

section \<open>The machine\<close>

record publication =
  pb_document :: json
  pb_pending :: "(string \<times> publication_state \<times> json) option"

inductive pub_step :: "publication \<Rightarrow> publication \<Rightarrow> bool" where
  prepare: "pb_pending s = None \<Longrightarrow> pub_step s (s\<lparr>pb_pending := Some (n, Prepared, doc)\<rparr>)"
| begin_pub: "pb_pending s = Some (n, Prepared, doc)
    \<Longrightarrow> pub_step s (s\<lparr>pb_pending := Some (n, PublicationInFlight, doc)\<rparr>)"
| lose_track: "pb_pending s = Some (n, PublicationInFlight, doc)
    \<Longrightarrow> pub_step s (s\<lparr>pb_pending := Some (n, PublicationUncertain, doc)\<rparr>)"
| step_back: "pb_pending s = Some (n, st, doc) \<Longrightarrow> st \<in> {PublicationInFlight, PublicationUncertain}
    \<Longrightarrow> pub_step s (s\<lparr>pb_pending := Some (n, Prepared, doc)\<rparr>)"
| commit: "pb_pending s = Some (n, st, doc) \<Longrightarrow> st \<noteq> Prepared
    \<Longrightarrow> pub_step s (s\<lparr>pb_document := doc, pb_pending := None\<rparr>)"
| abort: "pb_pending s = Some (n, st, doc) \<Longrightarrow> st \<in> {Prepared, PublicationUncertain}
    \<Longrightarrow> pub_step s (s\<lparr>pb_pending := None\<rparr>)"

inductive_cases pub_stepE: "pub_step s s'"

section \<open>The moves of each call\<close>

text \<open>The calls of the interface, and which steps each of them may make.\<close>

datatype update_call =
    Prepare document_update_spec
  | Begin string
  | Mark_Uncertain string
  | Reject_Before_Acceptance string
  | Commit_Verified string bool verified_document_evidence
  | Abort string
  | Reject_Observed string adopt_verified_document_spec
  | Reconcile string json

inductive pub_move :: "ext \<Rightarrow> update_call \<Rightarrow> publication \<Rightarrow> publication \<Rightarrow> bool" for X where
  prepares: "pb_pending s = None \<Longrightarrow> pub_move X (Prepare spec) s (s\<lparr>pb_pending := Some (n, Prepared, doc)\<rparr>)"
| begins: "pb_pending s = Some (n, Prepared, doc)
    \<Longrightarrow> pub_move X (Begin n) s (s\<lparr>pb_pending := Some (n, PublicationInFlight, doc)\<rparr>)"
| loses_track: "pb_pending s = Some (n, PublicationInFlight, doc)
    \<Longrightarrow> pub_move X (Mark_Uncertain n) s (s\<lparr>pb_pending := Some (n, PublicationUncertain, doc)\<rparr>)"
| steps_back: "pb_pending s = Some (n, PublicationInFlight, doc)
    \<Longrightarrow> pub_move X (Reject_Before_Acceptance n) s (s\<lparr>pb_pending := Some (n, Prepared, doc)\<rparr>)"
| commits: "pb_pending s = Some (n, st, doc)
    \<Longrightarrow> st \<in> {Published, if from_reconcile then PublicationUncertain else PublicationInFlight}
    \<Longrightarrow> validate_verified_document X doc ev = Inr ()
    \<Longrightarrow> pub_move X (Commit_Verified n from_reconcile ev) s (s\<lparr>pb_document := doc, pb_pending := None\<rparr>)"
| aborts: "pb_pending s = Some (n, Prepared, doc) \<Longrightarrow> pub_move X (Abort n) s (s\<lparr>pb_pending := None\<rparr>)"
| gives_up: "pb_pending s = Some (n, PublicationUncertain, doc)
    \<Longrightarrow> pub_move X (Reject_Observed n obs) s (s\<lparr>pb_pending := None\<rparr>)"
| retries: "pb_pending s = Some (n, PublicationUncertain, doc)
    \<Longrightarrow> pub_move X (Reconcile n observed) s (s\<lparr>pb_pending := Some (n, Prepared, doc)\<rparr>)"
| reconciles: "pb_pending s = Some (n, st, doc) \<Longrightarrow> st \<in> {Published, PublicationUncertain}
    \<Longrightarrow> pub_move X (Reconcile n observed) s (s\<lparr>pb_document := doc, pb_pending := None\<rparr>)"

lemma pub_move_step: "pub_move X call s s' \<Longrightarrow> pub_step s s'"
  by (auto elim!: pub_move.cases intro: pub_step.intros split: if_splits)

section \<open>The records\<close>

definition pub_of :: "identity_record \<Rightarrow> publication" where
  "pub_of r = \<lparr>pb_document = ir_document r,
     pb_pending = map_option (\<lambda>p. (pr_revision_id p, pr_state p, pr_candidate_document p))
       (ir_pending_revision r)\<rparr>"

text \<open>A step of the record: one of the machine, with the next generation of the same identity.\<close>

definition revised :: "identity_record \<Rightarrow> identity_record \<Rightarrow> bool" where
  "revised r r' \<longleftrightarrow> pub_step (pub_of r) (pub_of r')
     \<and> unat (ir_generation r') = unat (ir_generation r) + 1
     \<and> ir_identity_id r' = ir_identity_id r \<and> ir_did r' = ir_did r"

definition revised_as ::
  "(publication \<Rightarrow> publication \<Rightarrow> bool) \<Rightarrow> identity_record \<Rightarrow> identity_record \<Rightarrow> bool" where
  "revised_as M r r' \<longleftrightarrow> M (pub_of r) (pub_of r')
     \<and> unat (ir_generation r') = unat (ir_generation r) + 1
     \<and> ir_identity_id r' = ir_identity_id r \<and> ir_did r' = ir_did r"

lemma revised_as_move: "revised_as (pub_move X call) r r' \<Longrightarrow> revised r r'"
  by (auto simp: revised_as_def revised_def dest: pub_move_step)

text \<open>The files of the identities after an operation: unchanged, or one record replaced.\<close>

definition wrote :: "ext \<Rightarrow> identity_record \<Rightarrow> disk \<Rightarrow> disk \<Rightarrow> bool" where
  "wrote X r' d d' \<longleftrightarrow>
     d_identities d' = dir_put (identity_path X (ir_identity_id r')) (Parsed r') (d_identities d)"

definition evolves :: "ext \<Rightarrow> string \<Rightarrow> (identity_record \<Rightarrow> identity_record \<Rightarrow> bool) \<Rightarrow> disk \<Rightarrow> disk \<Rightarrow> bool" where
  "evolves X i R d d' \<longleftrightarrow> d_identities d' = d_identities d
     \<or> (\<exists>r r'. identity_at X d i = Inr r \<and> R r r' \<and> wrote X r' d d')"

lemma checked_add1_unat: "checked_add1 n = Some m \<Longrightarrow> unat m = unat n + 1"
  by (simp add: checked_add1_Some)

text \<open>Writing the next generation of a record.\<close>

lemma safe_persist_record:
  assumes "calm c" "wf_runtime rt" "\<And>e. E e c"
    and "\<And>n d'. unat n = unat (ir_generation r) + 1
       \<Longrightarrow> d' = (w_disk c)\<lparr>d_identities := dir_put (identity_path X (ir_identity_id r))
             (Parsed (r\<lparr>ir_generation := n\<rparr>)) (d_identities (w_disk c))\<rparr>
       \<Longrightarrow> Q (r\<lparr>ir_generation := n\<rparr>) (c\<lparr>w_disk := d'\<rparr>) \<and> (\<forall>msg. E (Io msg) (c\<lparr>w_disk := d'\<rparr>))"
  shows "safe (persist_record X rt (guard_of (rt_root rt)) r) Q E c"
proof -
  note written = assms(4) [OF checked_add1_unat refl]
  show ?thesis
    unfolding persist_record_def Let_def using assms(1-3) written by (auto intro!: safe_intros)
qed

text \<open>
  The shape the mutating operations share: the current record is read, steps that do not touch the
  records follow, a revised record is written, and again the records are left alone.
\<close>

named_theorems check_intros \<open>the checks at the start of an operation\<close>

lemma safe_check [check_intros]:
  assumes "calm c" "\<And>e. r = Inl e \<Longrightarrow> E e c" "\<And>x. r = Inr x \<Longrightarrow> safe (f x) Q E c"
  shows "safe (bnd (lift r) f) Q E c"
  using assms by (auto intro!: safe_bnd safe_lift)

lemma safe_locked [check_intros]:
  assumes "calm c" "wf_runtime rt" "\<And>msg. E (Io msg) c" "safe (f (guard_of (rt_root rt))) Q E c"
  shows "safe (bnd (acquire_write rt) f) Q E c"
  using assms by (auto intro!: safe_bnd safe_acquire_write)

lemma safe_reading [check_intros]:
  assumes "calm c" "\<And>e. E e c" "\<And>r. identity_at X (w_disk c) i = Inr r \<Longrightarrow> safe (f r) Q E c"
  shows "safe (bnd (read_identity X i) f) Q E c"
  using assms by (auto intro!: safe_intros)

lemma safe_current_record [check_intros]:
  assumes "calm c" "\<And>e. E e c"
    and "\<And>r. identity_at X (w_disk c) (di_identity_id i) = Inr r
      \<Longrightarrow> ir_generation r = ir_generation (di_record i) \<Longrightarrow> ir_state r = Id_Active \<Longrightarrow> safe (f r) Q E c"
  shows "safe (bnd (current_record_for_mutation X i) f) Q E c"
  unfolding current_record_for_mutation_def using assms by (auto intro!: safe_intros)

lemma safe_revise:
  assumes "calm c" "wf_runtime rt" "identity_at X d i = Inr r" "d_identities (w_disk c) = d_identities d"
    and "M (pub_of r) (pub_of r2)" "ir_generation r2 = ir_generation r"
    "ir_identity_id r2 = ir_identity_id r" "ir_did r2 = ir_did r"
  shows "safe (persist_record X rt (guard_of (rt_root rt)) r2)
    (\<lambda>r' w. revised_as M r r' \<and> wrote X r' d (w_disk w))
    (\<lambda>_ w. evolves X i (revised_as M) d (w_disk w)) c"
proof (rule safe_persist_record)
  fix n d'
  let ?r' = "r2\<lparr>ir_generation := n\<rparr>"
  assume n: "unat n = unat (ir_generation r2) + 1"
    and d': "d' = (w_disk c)\<lparr>d_identities := dir_put (identity_path X (ir_identity_id r2))
      (Parsed ?r') (d_identities (w_disk c))\<rparr>"
  have "pub_of ?r' = pub_of r2" by (simp add: pub_of_def)
  with n assms have "revised_as M r ?r'" by (simp add: revised_as_def)
  moreover have "wrote X ?r' d d'" using assms(4) by (simp add: wrote_def d')
  ultimately show "(revised_as M r ?r' \<and> wrote X ?r' d (w_disk (c\<lparr>w_disk := d'\<rparr>)))
      \<and> (\<forall>msg. evolves X i (revised_as M) d (w_disk (c\<lparr>w_disk := d'\<rparr>)))"
    using assms(3) by (auto simp: evolves_def)
qed (use assms in \<open>simp_all add: evolves_def\<close>)

definition stepped :: "(publication \<Rightarrow> publication \<Rightarrow> bool) \<Rightarrow> ext \<Rightarrow> string \<Rightarrow> disk \<Rightarrow> did_identity \<Rightarrow> world \<Rightarrow> bool" where
  "stepped M X i d x w \<longleftrightarrow> (\<exists>r. identity_at X d i = Inr r \<and> revised_as M r (di_record x) \<and> wrote X (di_record x) d (w_disk w))"

lemma safe_finish:
  assumes "safe m (\<lambda>r' w. revised_as M r r' \<and> wrote X r' d (w_disk w)) (\<lambda>_ w. evolves X i (revised_as M) d (w_disk w)) c"
    and "identity_at X d i = Inr r" "\<And>r'. keeps d_identities (f r')"
  shows "safe (bnd m (\<lambda>r'. bnd (f r') (\<lambda>_. ret (replace_record h r'))))
    (stepped M X i d) (\<lambda>_ w. evolves X i (revised_as M) d (w_disk w)) c"
proof (rule safe_bnd, rule safe_mono [OF assms(1)])
  fix r' and w :: world assume w: "revised_as M r r' \<and> wrote X r' d (w_disk w)"
  show "calm w \<longrightarrow> safe (bnd (f r') (\<lambda>_. ret (replace_record h r'))) (stepped M X i d)
      (\<lambda>_ w. evolves X i (revised_as M) d (w_disk w)) w"
    using w assms(2)
    by (intro impI safe_bnd safe_keeps [OF assms(3)] safe_ret)
       (auto simp: stepped_def wrote_def replace_record_def evolves_def)
qed

lemma safe_transition_publication:
  assumes "calm c" "wf_runtime (di_runtime i)"
    and "\<And>s doc. pb_pending s = Some (revision, expected, doc)
       \<Longrightarrow> M s (s\<lparr>pb_pending := Some (revision, next, doc)\<rparr>)"
  shows "safe (transition_publication X i revision expected next)
    (stepped M X (di_identity_id i) (w_disk c))
    (\<lambda>_ w. evolves X (di_identity_id i) (revised_as M) (w_disk c) (w_disk w)) c"
proof -
  let ?Q = "stepped M X (di_identity_id i) (w_disk c)"
  let ?E = "\<lambda>_ :: did_error. \<lambda>w. evolves X (di_identity_id i) (revised_as M) (w_disk c) (w_disk w)"
  have E: "?E e c" for e by (simp add: evolves_def)
  have final: "safe (bnd (persist_record X (di_runtime i) (guard_of (rt_root (di_runtime i)))
        (r\<lparr>ir_pending_revision := Some (p\<lparr>pr_state := next, pr_generation := g\<rparr>)\<rparr>))
        (\<lambda>r. ret (replace_record i r))) ?Q ?E c"
    if r: "identity_at X (w_disk c) (di_identity_id i) = Inr r"
      and p: "ir_pending_revision r = Some p" "pr_revision_id p = revision" "pr_state p = expected" for r p g
  proof -
    have "M (pub_of r) (pub_of (r\<lparr>ir_pending_revision := Some (p\<lparr>pr_state := next, pr_generation := g\<rparr>)\<rparr>))"
      using assms(3) [of "pub_of r" "pr_candidate_document p"] p by (simp add: pub_of_def)
    note safe_revise [where M = M, OF assms(1,2) r refl this, simplified]
    from safe_finish [OF this r keeps_ret, of "\<lambda>_. ()" i] show ?thesis by simp
  qed
  show ?thesis
    unfolding transition_publication_def required_pending_def using assms(1,2) E
    by (auto intro!: check_intros final simp: Option.bind_eq_Some_conv split: if_splits)
qed

section \<open>Committing and aborting\<close>

lemma refresh_fields [simp]:
  "ir_document (refresh_compatible_local_profiles X r doc) = ir_document r"
  "ir_generation (refresh_compatible_local_profiles X r doc) = ir_generation r"
  "ir_identity_id (refresh_compatible_local_profiles X r doc) = ir_identity_id r"
  "ir_did (refresh_compatible_local_profiles X r doc) = ir_did r"
  "ir_keys (refresh_compatible_local_profiles X r doc) = ir_keys r"
  "ir_state (refresh_compatible_local_profiles X r doc) = ir_state r"
  "ir_revision (refresh_compatible_local_profiles X r doc) = ir_revision r"
  "ir_checkpoint (refresh_compatible_local_profiles X r doc) = ir_checkpoint r"
  "ir_retired_device_ids (refresh_compatible_local_profiles X r doc) = ir_retired_device_ids r"
  by (simp_all add: refresh_compatible_local_profiles_def split: option.splits)

lemma observe_devices_Inr:
  assumes "observe_devices r doc = Inr r'"
  obtains ids where "r' = r\<lparr>ir_retired_device_ids := ids\<rparr>"
  using assms that by (auto simp: observe_devices_def Let_def split: if_splits)

lemma committed_record_fields:
  assumes "committed_record X r p ev = Inr r2"
  shows "pub_of r2 = \<lparr>pb_document = pr_candidate_document p, pb_pending = None\<rparr>"
    "ir_generation r2 = ir_generation r" "ir_identity_id r2 = ir_identity_id r" "ir_did r2 = ir_did r"
  using assms
  by (auto simp: committed_record_def Let_def rbind_Inr_iff pub_of_def elim!: observe_devices_Inr)

lemma pub_of_pending:
  "ir_pending_revision r = Some p
   \<Longrightarrow> pb_pending (pub_of r) = Some (pr_revision_id p, pr_state p, pr_candidate_document p)"
  by (simp add: pub_of_def)

lemma required_pending_Inr: "required_pending r n = Inr p \<Longrightarrow> ir_pending_revision r = Some p \<and> pr_revision_id p = n"
  by (auto simp: required_pending_def Option.bind_eq_Some_conv split: if_splits)

lemma safe_commit_pending:
  assumes "calm c" "wf_runtime (di_runtime i)"
    and "\<And>s st doc. pb_pending s = Some (revision, st, doc)
       \<Longrightarrow> st \<in> {Published, if from_reconcile then PublicationUncertain else PublicationInFlight}
       \<Longrightarrow> (\<forall>ev. evidence = Some ev \<longrightarrow> validate_verified_document X doc ev = Inr ())
       \<Longrightarrow> M s (s\<lparr>pb_document := doc, pb_pending := None\<rparr>)"
  shows "safe (commit_pending X i revision from_reconcile evidence)
    (stepped M X (di_identity_id i) (w_disk c))
    (\<lambda>_ w. evolves X (di_identity_id i) (revised_as M) (w_disk c) (w_disk w)) c"
proof -
  let ?E = "\<lambda>_ :: did_error. \<lambda>w. evolves X (di_identity_id i) (revised_as M) (w_disk c) (w_disk w)"
  have E: "?E e c" for e by (simp add: evolves_def)
  have final: "safe (bnd (persist_record X (di_runtime i) (guard_of (rt_root (di_runtime i))) r2)
        (\<lambda>r. ret (replace_record i r))) (stepped M X (di_identity_id i) (w_disk c)) ?E c"
    if r: "identity_at X (w_disk c) (di_identity_id i) = Inr r"
      and p: "required_pending r revision = Inr p" "commit_allowed p from_reconcile (evidence \<noteq> None)"
        "check_commit_evidence X r (pr_candidate_document p) evidence = Inr ()"
      and r2: "committed_record X r p evidence = Inr r2" for r p r2
  proof -
    note f = committed_record_fields [OF r2]
    have "pr_state p \<in> {Published, if from_reconcile then PublicationUncertain else PublicationInFlight}"
      using p(2) by (auto simp: commit_allowed_def)
    moreover have "\<forall>ev. evidence = Some ev \<longrightarrow> validate_verified_document X (pr_candidate_document p) ev = Inr ()"
      using p(3) by (auto simp: check_commit_evidence_def rbind_Inr_iff)
    moreover have "pub_of r2 = (pub_of r)\<lparr>pb_document := pr_candidate_document p, pb_pending := None\<rparr>"
      unfolding f(1) by (simp add: pub_of_def)
    ultimately have "M (pub_of r) (pub_of r2)"
      using required_pending_Inr [OF p(1)] assms(3) pub_of_pending by metis
    from safe_finish [OF safe_revise [where M = M, OF assms(1,2) r refl this f(2-4)] r keeps_ret, of "\<lambda>_. ()" i]
    show ?thesis by simp
  qed
  show ?thesis
    unfolding commit_pending_def using assms(1,2) E by (auto intro!: check_intros final)
qed

lemma safe_keeps_bnd:
  assumes "keeps d_identities m" "calm c" "d_identities (w_disk c) = d_identities d"
    and "\<And>e c'. d_identities (w_disk c') = d_identities d \<Longrightarrow> E e c'"
    and "\<And>x c'. calm c' \<Longrightarrow> d_identities (w_disk c') = d_identities d \<Longrightarrow> safe (f x) Q E c'"
  shows "safe (bnd m f) Q E c"
  by (rule safe_bnd, rule safe_keeps [OF assms(1,2)]) (use assms(3-5) in auto)

lemma keeps_update_journal:
  "keeps d_identities (write_update_journal X root g j)" "keeps d_identities (remove_update_journal X root g i)"
  "keeps d_identities (foreach (ks_delete X ks g) refs)"
  by (auto intro!: keeps_writes keeps_ks keeps_foreach)

lemma keeps_prepare:
  "keeps f (case rot of None \<Rightarrow> ret None | Some x \<Rightarrow> bnd (prepare_rotation X r x) (\<lambda>p. ret (Some p)))"
  "keeps f (build_candidate_document X i r rotation ms ds ss)" "keeps f (random_revision_id X)"
  unfolding prepare_rotation_def build_candidate_document_def random_revision_id_def Let_def
  by (intro keeps_intros disk_pure_keeps [OF disk_pure_generate_key]
      disk_pure_keeps [OF disk_pure_sign_root_document])+

lemma keeps_seal_rotation:
  "keeps d_identities (case (rotation, refs) of (Some rot, ref # _) \<Rightarrow> seal_rotation_key X rt g rot ref | _ \<Rightarrow> ret ())"
  "keeps d_identities (case refs of [] \<Rightarrow> ret () | ref # _ \<Rightarrow> seal_rotation_key X rt g rot ref)"
  by (auto simp: seal_rotation_key_def intro!: keeps_intros keeps_ks split: option.splits list.splits)

lemmas frame_steps =
  keeps_update_journal(1) [THEN safe_keeps_bnd] keeps_store_reads(2) [THEN safe_keeps_bnd]
  keeps_prepare [THEN safe_keeps_bnd] keeps_seal_rotation [THEN safe_keeps_bnd]

lemma safe_abort_update:
  assumes "calm c" "wf_runtime (di_runtime i)"
    and "\<And>s doc. pb_pending s = Some (revision, if rejection = None then Prepared else PublicationUncertain, doc)
       \<Longrightarrow> M s (s\<lparr>pb_pending := None\<rparr>)"
  shows "safe (abort_update_inner X i revision rejection)
    (stepped M X (di_identity_id i) (w_disk c))
    (\<lambda>_ w. evolves X (di_identity_id i) (revised_as M) (w_disk c) (w_disk w)) c"
proof -
  let ?rt = "di_runtime i"
  let ?g = "guard_of (rt_root ?rt)"
  let ?E = "\<lambda>_ :: did_error. \<lambda>w. evolves X (di_identity_id i) (revised_as M) (w_disk c) (w_disk w)"
  have E: "?E e c'" if "d_identities (w_disk c') = d_identities (w_disk c)" for e c'
    using that by (simp add: evolves_def)
  have final: "safe (bnd (persist_record X ?rt ?g (r\<lparr>ir_pending_revision := None\<rparr>)) (\<lambda>r.
        bnd (bnd (foreach (ks_delete X ks ?g) refs)
          (\<lambda>_. remove_update_journal X (rt_root ?rt) ?g revision)) (\<lambda>_. ret (replace_record i r))))
      (stepped M X (di_identity_id i) (w_disk c)) ?E c'"
    if r: "identity_at X (w_disk c) (di_identity_id i) = Inr r" "required_pending r revision = Inr p"
        "check_rejection X i r p rejection = Inr ()"
      and c': "calm c'" "d_identities (w_disk c') = d_identities (w_disk c)" for r p refs ks c'
  proof -
    have "pr_state p = (if rejection = None then Prepared else PublicationUncertain)"
      using r(3) by (auto simp: check_rejection_def rbind_Inr_iff split: option.splits)
    then have "M (pub_of r) (pub_of (r\<lparr>ir_pending_revision := None\<rparr>))"
      using required_pending_Inr [OF r(2)] assms(3) [of "pub_of r" "pr_candidate_document p"]
      by (simp add: pub_of_def)
    from safe_revise [where M = M, OF c'(1) assms(2) r(1) c'(2) this] show ?thesis
      by (intro safe_finish [OF _ r(1)] keeps_bnd keeps_update_journal) simp_all
  qed
  show ?thesis
    unfolding abort_update_inner_def Let_def using assms(1,2) E
    by (auto intro!: check_intros final [unfolded bnd_assoc] frame_steps [where d = "w_disk c"])
qed

lemma safe_reconcile_update:
  assumes "calm c" "wf_runtime (di_runtime i)"
  shows "safe (reconcile_update X i revision observed)
    (\<lambda>(i', _) w. stepped (pub_move X (Reconcile revision observed)) X (di_identity_id i) (w_disk c) i' w \<or> i' = i \<and> w_disk w = w_disk c)
    (\<lambda>_ w. evolves X (di_identity_id i) (revised_as (pub_move X (Reconcile revision observed))) (w_disk c) (w_disk w)) c"
proof -
  let ?E = "\<lambda>_ :: did_error. \<lambda>w. evolves X (di_identity_id i) (revised_as (pub_move X (Reconcile revision observed))) (w_disk c) (w_disk w)"
  let ?Q = "\<lambda>(i', _) w. stepped (pub_move X (Reconcile revision observed)) X (di_identity_id i) (w_disk c) i' w \<or> i' = i \<and> w_disk w = w_disk c"
  have E: "?E e c" for e by (simp add: evolves_def)
  have stay: "safe (ret (i, RemoteOld)) ?Q ?E c" using assms(1) by (intro safe_ret) simp_all
  have commit: "safe (bnd (commit_pending X i revision True None) (\<lambda>i. ret (i, Committed))) ?Q ?E c"
    by (rule safe_bnd, rule safe_mono [OF safe_commit_pending [OF assms]])
      (auto intro!: safe_ret intro: pub_move.reconciles)
  have "safe (transition_publication X i revision PublicationUncertain Prepared)
      (stepped (pub_move X (Reconcile revision observed)) X (di_identity_id i) (w_disk c)) ?E c"
    by (rule safe_transition_publication [OF assms]) (rule pub_move.retries)
  then have retry: "safe (bnd (transition_publication X i revision PublicationUncertain Prepared)
      (\<lambda>i. ret (i, RemoteOld))) ?Q ?E c"
    by (rule safe_bnd [OF safe_mono]) (auto intro!: safe_ret)
  show ?thesis
    unfolding reconcile_update_def using assms(1) E stay commit retry
    by (auto intro!: check_intros safe_if safe_raise)
qed

section \<open>Preparing\<close>

lemma safe_prepare_update:
  assumes "calm c" "wf_runtime (di_runtime i)"
  shows "safe (prepare_update X i spec)
    (\<lambda>(i', _). stepped (pub_move X (Prepare spec)) X (di_identity_id i) (w_disk c) i')
    (\<lambda>_ w. evolves X (di_identity_id i) (revised_as (pub_move X (Prepare spec))) (w_disk c) (w_disk w)) c"
proof -
  let ?rt = "di_runtime i"
  let ?g = "guard_of (rt_root ?rt)"
  let ?E = "\<lambda>_ :: did_error. \<lambda>w. evolves X (di_identity_id i) (revised_as (pub_move X (Prepare spec))) (w_disk c) (w_disk w)"
  let ?Q = "\<lambda>(i', _). stepped (pub_move X (Prepare spec)) X (di_identity_id i) (w_disk c) i'"
  have E: "?E e c'" if "d_identities (w_disk c') = d_identities (w_disk c)" for e c'
    using that by (simp add: evolves_def)
  have final: "safe (bnd (persist_record X ?rt ?g (r\<lparr>ir_pending_revision := Some p\<rparr>)) (\<lambda>r.
        bnd (remove_update_journal X (rt_root ?rt) ?g n) (\<lambda>_. ret (replace_record i r, u)))) ?Q ?E c'"
    if r: "identity_at X (w_disk c) (di_identity_id i) = Inr r" "ir_pending_revision r = None"
        "pr_state p = Prepared"
      and c': "calm c'" "d_identities (w_disk c') = d_identities (w_disk c)" for r p n u c'
  proof -
    have "pub_move X (Prepare spec) (pub_of r) (pub_of (r\<lparr>ir_pending_revision := Some p\<rparr>))"
      using r(2,3) pub_move.prepares [of "pub_of r"] by (simp add: pub_of_def)
    from safe_revise [where M = "pub_move X (Prepare spec)", OF c'(1) assms(2) r(1) c'(2) this]
    have "safe (bnd (persist_record X ?rt ?g (r\<lparr>ir_pending_revision := Some p\<rparr>)) (\<lambda>r.
        bnd (remove_update_journal X (rt_root ?rt) ?g n) (\<lambda>_. ret (replace_record i r))))
        (stepped (pub_move X (Prepare spec)) X (di_identity_id i) (w_disk c)) ?E c'"
      by (intro safe_finish [OF _ r(1)] keeps_update_journal) simp_all
    then have "safe (bnd (bnd (persist_record X ?rt ?g (r\<lparr>ir_pending_revision := Some p\<rparr>)) (\<lambda>r.
        bnd (remove_update_journal X (rt_root ?rt) ?g n) (\<lambda>_. ret (replace_record i r))))
        (\<lambda>i'. ret (i', u))) ?Q ?E c'"
      by (rule safe_bnd [OF safe_mono]) ( auto intro!: safe_ret)
    then show ?thesis by (simp add: bnd_assoc bnd_ret)
  qed
  show ?thesis
    unfolding prepare_update_def Let_def using assms E
    by (auto intro!: check_intros final frame_steps [where d = "w_disk c"] split: option.splits)
qed

section \<open>The refinement\<close>

text \<open>Running a call on a handle.\<close>

fun run_call :: "ext \<Rightarrow> update_call \<Rightarrow> did_identity \<Rightarrow> did_identity io" where
  "run_call X (Prepare spec) i = bnd (prepare_update X i spec) (\<lambda>p. ret (fst p))"
| "run_call X (Begin n) i = begin_publication X i n"
| "run_call X (Mark_Uncertain n) i = mark_publication_uncertain X i n"
| "run_call X (Reject_Before_Acceptance n) i = reject_publication_before_acceptance X i n"
| "run_call X (Commit_Verified n b ev) i = commit_verified_update X i n b ev"
| "run_call X (Abort n) i = abort_update X i n"
| "run_call X (Reject_Observed n obs) i = reconcile_rejected_update X i n obs"
| "run_call X (Reconcile n observed) i = bnd (reconcile_update X i n observed) (\<lambda>p. ret (fst p))"

lemma safe_run_call:
  assumes "calm c" "wf_runtime (di_runtime i)"
  shows "safe (run_call X call i)
    (\<lambda>i' w. stepped (pub_move X call) X (di_identity_id i) (w_disk c) i' w \<or> i' = i \<and> w_disk w = w_disk c)
    (\<lambda>_ w. evolves X (di_identity_id i) (revised_as (pub_move X call)) (w_disk c) (w_disk w)) c"
proof (cases call)
  case (Prepare spec)
  show ?thesis
    unfolding Prepare run_call.simps
    by (rule safe_bnd [OF safe_mono [OF safe_prepare_update [OF assms]]]) (auto intro!: safe_ret)
next
  case (Reconcile n observed)
  show ?thesis
    unfolding Reconcile run_call.simps
    by (rule safe_bnd [OF safe_mono [OF safe_reconcile_update [OF assms]]]) (auto intro!: safe_ret)
qed (auto simp: begin_publication_def mark_publication_uncertain_def
    reject_publication_before_acceptance_def commit_verified_update_def abort_update_def
    reconcile_rejected_update_def
    intro!: safe_mono [OF safe_transition_publication [where M = "pub_move X call", OF assms]]
      safe_mono [OF safe_commit_pending [where M = "pub_move X call", OF assms]] safe_mono [OF safe_abort_update [where M = "pub_move X call", OF assms]]
    intro: pub_move.intros)

text \<open>
  C2: Every call of the update interface, on any handle and under any schedule of failing system
  calls, leaves every stored identity record as it was or replaces exactly the record of the
  handle's identity by one that has made one step of the publication machine, with the next
  generation and the same identity; when the call succeeds, the handle it returns holds the record
  that is stored.
\<close>
theorem update_calls_refine_publication:
  assumes "wf_runtime (di_runtime i)" "run_call X call i w = (res, w')"
  shows "evolves X (di_identity_id i) revised (w_disk w) (w_disk w')
    \<and> (\<forall>i'. res = Inr i' \<longrightarrow> i' = i \<and> w_disk w' = w_disk w
         \<or> (\<exists>r. identity_at X (w_disk w) (di_identity_id i) = Inr r \<and> revised r (di_record i')
              \<and> wrote X (di_record i') (w_disk w) (w_disk w')))"
  using safe_run_world [OF safe_run_call [OF core_calm(1) assms(1)] assms(2)]
  by (auto simp: stepped_def evolves_def split: sum.splits dest: revised_as_move)

lemma sample_begins:
  "fst (run_call sample_ext (Begin ''v'') (sample_handle sample_pending) (holding_world sample_pending []))
   = Inr (sample_handle (sample_pending\<lparr>ir_generation := 2, ir_pending_revision :=
       Some (sample_revision\<lparr>pr_state := PublicationInFlight, pr_generation := 2\<rparr>)\<rparr>))"
  by code_simp

theorem update_calls_refine_publication_witness:
  "revised sample_pending (sample_pending\<lparr>ir_generation := 2, ir_pending_revision :=
       Some (sample_revision\<lparr>pr_state := PublicationInFlight, pr_generation := 2\<rparr>)\<rparr>)"
proof -
  let ?run = "run_call sample_ext (Begin ''v'') (sample_handle sample_pending) (holding_world sample_pending [])"
  let ?i' = "sample_handle (sample_pending\<lparr>ir_generation := 2, ir_pending_revision :=
       Some (sample_revision\<lparr>pr_state := PublicationInFlight, pr_generation := 2\<rparr>)\<rparr>)"
  have run: "?run = (Inr ?i', snd ?run)" using sample_begins by (simp add: prod_eq_iff)
  have id: "ir_identity_id sample_pending = ''i''" by code_simp
  have "di_record ?i' \<noteq> di_record (sample_handle sample_pending)" by code_simp
  then have "?i' \<noteq> sample_handle sample_pending" by metis
  with update_calls_refine_publication [OF _ run] sample_pending_reads show ?thesis by (simp add: id)
qed

section \<open>Histories of calls\<close>

text \<open>
  A history lists the calls made on an identity, by any handles and under any failures, each with
  the disk before and after it.
\<close>

inductive history :: "ext \<Rightarrow> string \<Rightarrow> disk \<Rightarrow> (update_call \<times> disk \<times> disk) list \<Rightarrow> disk \<Rightarrow> bool"
  for X identity_id d where
  start: "history X identity_id d [] d"
| call: "history X identity_id d es (w_disk w) \<Longrightarrow> wf_runtime (di_runtime i) \<Longrightarrow> di_identity_id i = identity_id
    \<Longrightarrow> run_call X call i w = (res, w')
    \<Longrightarrow> history X identity_id d (es @ [(call, w_disk w, w_disk w')]) (w_disk w')"

text \<open>The record as the file has it, and the revision it offers.\<close>

definition stored :: "ext \<Rightarrow> string \<Rightarrow> disk \<Rightarrow> identity_record \<Rightarrow> bool" where
  "stored X identity_id d q \<longleftrightarrow>
     dir_get (d_identities d) (identity_path X identity_id) = Some (Parsed q)"

definition offers :: "ext \<Rightarrow> string \<Rightarrow> disk \<Rightarrow> string \<Rightarrow> publication_state \<Rightarrow> json \<Rightarrow> bool" where
  "offers X identity_id d n st doc \<longleftrightarrow> (\<exists>q p. stored X identity_id d q \<and> ir_pending_revision q = Some p
     \<and> pr_revision_id p = n \<and> pr_state p = st \<and> pr_candidate_document p = doc)"

text \<open>
  A call has prepared the revision when none was pending; after that, a call has begun its
  publication.
\<close>

definition prepared_in :: "ext \<Rightarrow> string \<Rightarrow> (update_call \<times> disk \<times> disk) list \<Rightarrow> string \<Rightarrow> json \<Rightarrow> bool" where
  "prepared_in X identity_id es n doc \<longleftrightarrow> (\<exists>es1 spec e e' es2. es = es1 @ (Prepare spec, e, e') # es2
     \<and> (\<forall>m st c. \<not> offers X identity_id e m st c) \<and> offers X identity_id e' n Prepared doc)"

definition begun_in :: "ext \<Rightarrow> string \<Rightarrow> (update_call \<times> disk \<times> disk) list \<Rightarrow> string \<Rightarrow> json \<Rightarrow> bool" where
  "begun_in X identity_id es n doc \<longleftrightarrow> (\<exists>es1 e e' es2. es = es1 @ (Begin n, e, e') # es2
     \<and> prepared_in X identity_id es1 n doc
     \<and> offers X identity_id e n Prepared doc \<and> offers X identity_id e' n PublicationInFlight doc)"

lemma prepared_in_later: "prepared_in X i es n doc \<Longrightarrow> prepared_in X i (es @ fs) n doc"
  unfolding prepared_in_def by (metis append.assoc append_Cons)

lemma begun_in_later: "begun_in X i es n doc \<Longrightarrow> begun_in X i (es @ fs) n doc"
  unfolding begun_in_def by (metis append.assoc append_Cons)

lemma begun_in_prepared: "begun_in X i es n doc \<Longrightarrow> prepared_in X i es n doc"
  unfolding begun_in_def using prepared_in_later by blast

lemma stored_unique: "stored X i d q \<Longrightarrow> stored X i d q' \<Longrightarrow> q' = q"
  by (simp add: stored_def)

lemma stored_offers:
  "stored X i d q \<Longrightarrow> offers X i d n st doc \<longleftrightarrow> pb_pending (pub_of q) = Some (n, st, doc)"
  by (auto simp: offers_def pub_of_def dest: stored_unique)

text \<open>What the history must hold for the pending revision of a record.\<close>

definition accounted :: "ext \<Rightarrow> string \<Rightarrow> (update_call \<times> disk \<times> disk) list \<Rightarrow> publication \<Rightarrow> bool" where
  "accounted X i es s \<longleftrightarrow> (\<forall>n st doc. pb_pending s = Some (n, st, doc) \<longrightarrow>
     st = Prepared \<and> prepared_in X i es n doc
     \<or> st \<in> {PublicationInFlight, PublicationUncertain} \<and> begun_in X i es n doc)"

lemma accounted_later: "accounted X i es s \<Longrightarrow> accounted X i (es @ fs) s"
  unfolding accounted_def by (metis prepared_in_later begun_in_later)

lemma accounted_move:
  assumes "accounted X i es (pub_of q)" "pub_move X call (pub_of q) (pub_of q')"
    "stored X i e q" "stored X i e' q'"
  shows "accounted X i (es @ [(call, e, e')]) (pub_of q')"
proof -
  note o = stored_offers [OF assms(3)] stored_offers [OF assms(4)]
  note later = accounted_later [OF assms(1), of "[(call, e, e')]", unfolded accounted_def]
  from assms(2) show ?thesis
  proof cases
    case (prepares spec n doc)
    then have "prepared_in X i (es @ [(call, e, e')]) n doc"
      unfolding prepared_in_def using o by (metis option.distinct(1) publication.select_convs(2) publication.surjective publication.update_convs(2))
    with prepares show ?thesis by (simp add: accounted_def)
  next
    case (begins n doc)
    with assms(1) have "prepared_in X i es n doc" by (auto simp: accounted_def)
    then have "begun_in X i (es @ [(call, e, e')]) n doc"
      unfolding begun_in_def using o begins
      by (intro exI [of _ es] exI [of _ e] exI [of _ e'] exI [of _ "[]"]) simp
    with begins show ?thesis by (simp add: accounted_def)
  qed (use later in \<open>auto simp: accounted_def dest: begun_in_prepared\<close>)
qed

lemma run_call_moves:
  assumes "wf_runtime (di_runtime h)" "di_identity_id h = i" "run_call X call h w = (res, w')"
    "stored X i (w_disk w) q"
  shows "\<exists>q'. stored X i (w_disk w') q'
    \<and> (d_identities (w_disk w') = d_identities (w_disk w) \<or> pub_move X call (pub_of q) (pub_of q'))"
proof -
  from safe_run_world [OF safe_run_call [OF core_calm(1) assms(1)] assms(3)] assms(2)
  have "evolves X i (revised_as (pub_move X call)) (w_disk w) (w_disk w')"
    by (auto simp: stepped_def evolves_def split: sum.splits)
  then show ?thesis unfolding evolves_def
  proof (elim disjE exE conjE)
    fix r r' assume r: "identity_at X (w_disk w) i = Inr r" "revised_as (pub_move X call) r r'"
      "wrote X r' (w_disk w) (w_disk w')"
    from r(1) have "pub_of q = pub_of r"
      by (rule identity_at_shape) (use assms(4) in \<open>simp add: stored_def pub_of_def\<close>)
    moreover have "ir_identity_id r' = i" using r(2) identity_at_id [OF r(1)] by (simp add: revised_as_def)
    then have "stored X i (w_disk w') r'" using r(3) by (simp add: stored_def wrote_def disk_simps)
    ultimately show ?thesis using r(2) by (auto simp: revised_as_def)
  qed (use assms(4) in \<open>auto simp: stored_def\<close>)
qed

lemma history_accounted:
  assumes "history X i d es d'" "stored X i d q" "ir_pending_revision q = None"
  shows "\<exists>q'. stored X i d' q' \<and> accounted X i es (pub_of q')"
  using assms(1)
proof induction
  case start
  with assms(2,3) show ?case by (auto simp: accounted_def pub_of_def)
next
  case (call es w h c res w')
  from call.IH obtain q1 where q1: "stored X i (w_disk w) q1" "accounted X i es (pub_of q1)" by blast
  from run_call_moves [OF call.hyps(2-4) q1(1)] obtain q' where q': "stored X i (w_disk w') q'"
    and m: "d_identities (w_disk w') = d_identities (w_disk w) \<or> pub_move X c (pub_of q1) (pub_of q')" by blast
  from m show ?case
  proof
    assume "d_identities (w_disk w') = d_identities (w_disk w)"
    with q1 q' have "q' = q1" by (simp add: stored_def)
    with q1 q' accounted_later show ?case by blast
  next
    assume "pub_move X c (pub_of q1) (pub_of q')"
    from accounted_move [OF q1(2) this q1(1) q'] q' show ?case by blast
  qed
qed

lemma history_split:
  assumes "history X i d es d'" "es = before @ (c, e, e') # after"
  shows "\<exists>h w w' res. history X i d before e \<and> wf_runtime (di_runtime h) \<and> di_identity_id h = i
    \<and> run_call X c h w = (res, w') \<and> e = w_disk w \<and> e' = w_disk w'"
  using assms
proof (induction arbitrary: after)
  case (call es w h c' res w')
  show ?case
  proof (cases after rule: rev_cases)
    case Nil
    with call show ?thesis by auto
  next
    case (snoc after' x)
    with call.prems have "es = before @ (c, e, e') # after'" by simp
    from call.IH [OF this] show ?thesis .
  qed
qed simp

text \<open>
  C9: A document is only replaced by a revision that was prepared and published first. Take any
  history of calls on an identity with no pending revision, by any handles and under any failures.
  Whenever a call changes the stored document, the record had a pending revision with exactly the
  new document, in flight or uncertain; earlier in the history a call prepared that revision with
  that document, and after it a call began its publication; and the call that changes the document
  either commits that revision with evidence that verifies the document, or reconciles it while it
  is uncertain.
\<close>
theorem document_replaced_only_after_publication:
  assumes "history X identity_id d (before @ (call, e, e') # after) d'"
    and "stored X identity_id d q" "ir_pending_revision q = None"
    and "stored X identity_id e r" "stored X identity_id e' r'" "ir_document r' \<noteq> ir_document r"
  shows "\<exists>n st. offers X identity_id e n st (ir_document r') \<and> st \<in> {PublicationInFlight, PublicationUncertain}
    \<and> ir_pending_revision r' = None \<and> begun_in X identity_id before n (ir_document r')
    \<and> ((\<exists>b ev. call = Commit_Verified n b ev \<and> validate_verified_document X (ir_document r') ev = Inr ())
       \<or> (\<exists>observed. call = Reconcile n observed \<and> st = PublicationUncertain))"
proof -
  from history_split [OF assms(1) refl] obtain h w w' res where
    hist: "history X identity_id d before e" and run: "wf_runtime (di_runtime h)" "di_identity_id h = identity_id"
      "run_call X call h w = (res, w')" and disks: "e = w_disk w" "e' = w_disk w'" by blast
  from history_accounted [OF hist assms(2,3)] stored_unique [OF assms(4)]
  have acc: "accounted X identity_id before (pub_of r)" by blast
  from run_call_moves [OF run, of r] assms(4,5) disks stored_unique [OF assms(5)]
  have "d_identities (w_disk w') = d_identities (w_disk w) \<or> pub_move X call (pub_of r) (pub_of r')" by blast
  with assms(4-6) disks have "pub_move X call (pub_of r) (pub_of r')" by (auto simp: stored_def)
  moreover have "pb_document (pub_of r') \<noteq> pb_document (pub_of r)" using assms(6) by (simp add: pub_of_def)
  moreover have "ir_pending_revision r' = None \<longleftrightarrow> pb_pending (pub_of r') = None" by (simp add: pub_of_def)
  moreover have "ir_document r' = pb_document (pub_of r')" by (simp add: pub_of_def)
  ultimately show ?thesis
    using acc unfolding stored_offers [OF assms(4)]
    by (cases rule: pub_move.cases) (auto simp: accounted_def split: if_splits)
qed

text \<open>A history in which a service list is added to the document of the sample identity.\<close>

definition sample_change :: document_update_spec where
  "sample_change = \<lparr>us_request_signing_rotation = None, us_request_signing_mutations = [],
     us_device_mutations = [], us_services = Some []\<rparr>"

definition sample_serviced :: json where
  "sample_serviced = json_object [(''authentication'', JArray [JString sample_kid]), (''id'', JString sample_did),
     (''service'', JArray []), (''verificationMethod'', the (json_get sample_document ''verificationMethod''))]"

definition sample_name :: string where
  "sample_name = CHR ''u'' # replicate 16 (CHR 0x01)"

definition sample_call :: "update_call \<Rightarrow> did_identity \<times> world \<Rightarrow> did_identity \<times> world" where
  "sample_call c s = (case run_call sample_ext c (fst s) (snd s) of
     (Inr i, w) \<Rightarrow> (i, w) | (Inl _, w) \<Rightarrow> (fst s, w))"

definition sample_states :: "(did_identity \<times> world) list" where
  "sample_states =
     (let s0 = (sample_handle sample_record, holding_world sample_record []);
          s1 = sample_call (Prepare sample_change) s0;
          s2 = sample_call (Begin sample_name) s1;
          s3 = sample_call (Commit_Verified sample_name False (sample_evidence sample_serviced 2)) s2
      in [s0, s1, s2, s3])"

definition document_at :: "world \<Rightarrow> json option" where
  "document_at w = (case dir_get (d_identities (w_disk w)) (identity_path sample_ext ''i'') of
     Some (Parsed r) \<Rightarrow> Some (ir_document r) | _ \<Rightarrow> None)"

lemma document_at_stored: "document_at w = Some doc \<longleftrightarrow> (\<exists>r. stored sample_ext ''i'' (w_disk w) r \<and> ir_document r = doc)"
  by (auto simp: document_at_def stored_def split: option.splits content.splits)

lemma sample_states_computed:
  "map (document_at \<circ> snd) sample_states = [Some sample_document, Some sample_document, Some sample_document, Some sample_serviced]"
  "map (di_identity_id \<circ> fst) sample_states = [''i'', ''i'', ''i'', ''i'']"
  "list_all (wf_runtime \<circ> di_runtime \<circ> fst) sample_states"
  by code_simp+

lemma history_call:
  assumes "history sample_ext ''i'' d es (w_disk (snd s))" "wf_runtime (di_runtime (fst s))" "di_identity_id (fst s) = ''i''"
  shows "history sample_ext ''i'' d (es @ [(c, w_disk (snd s), w_disk (snd (sample_call c s)))]) (w_disk (snd (sample_call c s)))"
proof -
  obtain res w' where run: "run_call sample_ext c (fst s) (snd s) = (res, w')" by fastforce
  then have "snd (sample_call c s) = w'" by (simp add: sample_call_def split: sum.splits)
  with history.call [OF assms run] show ?thesis by simp
qed

theorem document_replaced_only_after_publication_witness:
  "\<exists>e1 e2. history sample_ext ''i'' (holding sample_record)
       [(Prepare sample_change, holding sample_record, e1), (Begin sample_name, e1, e2)] e2
     \<and> begun_in sample_ext ''i'' [(Prepare sample_change, holding sample_record, e1), (Begin sample_name, e1, e2)]
         sample_name sample_serviced
     \<and> validate_verified_document sample_ext sample_serviced (sample_evidence sample_serviced 2) = Inr ()"
proof -
  let ?commit = "Commit_Verified sample_name False (sample_evidence sample_serviced 2)"
  define s0 where "s0 = (sample_handle sample_record, holding_world sample_record [])"
  define s1 where "s1 = sample_call (Prepare sample_change) s0"
  define s2 where "s2 = sample_call (Begin sample_name) s1"
  define s3 where "s3 = sample_call ?commit s2"
  note states = sample_states_computed [unfolded sample_states_def Let_def, folded s0_def, folded s1_def,
      folded s2_def, folded s3_def, simplified]
  have d0: "w_disk (snd s0) = holding sample_record" by (simp add: s0_def)
  have h1: "history sample_ext ''i'' (holding sample_record) [(Prepare sample_change, holding sample_record, w_disk (snd s1))]
      (w_disk (snd s1))"
    using history_call [OF history.start, of s0 "Prepare sample_change"] states d0 by (simp add: s1_def)
  have h2: "history sample_ext ''i'' (holding sample_record)
      [(Prepare sample_change, holding sample_record, w_disk (snd s1)), (Begin sample_name, w_disk (snd s1), w_disk (snd s2))]
      (w_disk (snd s2))"
    using history_call [OF h1, of "Begin sample_name"] states by (simp add: s2_def)
  have h3: "history sample_ext ''i'' (holding sample_record)
      ([(Prepare sample_change, holding sample_record, w_disk (snd s1)), (Begin sample_name, w_disk (snd s1), w_disk (snd s2))]
        @ (?commit, w_disk (snd s2), w_disk (snd s3)) # []) (w_disk (snd s3))"
    using history_call [OF h2, of ?commit] states by (simp add: s3_def)
  obtain r r' where r: "stored sample_ext ''i'' (w_disk (snd s2)) r" "ir_document r = sample_document"
    and r': "stored sample_ext ''i'' (w_disk (snd s3)) r'" "ir_document r' = sample_serviced"
    using states by (auto simp: document_at_stored)
  have "stored sample_ext ''i'' (holding sample_record) sample_record" unfolding stored_def by code_simp
  moreover have "ir_pending_revision sample_record = None" by code_simp
  moreover have "ir_document r' \<noteq> ir_document r" unfolding r r' by code_simp
  ultimately show ?thesis
    using document_replaced_only_after_publication [OF h3 _ _ r(1) r'(1)] h2 r'(2) by auto
qed

section \<open>Stale handles\<close>

text \<open>
  A handle is stale when the stored record has another generation or is not active. Preparing and
  reconciling first check their arguments against the handle alone; the other calls go to the store.
\<close>

definition stale :: "ext \<Rightarrow> did_identity \<Rightarrow> disk \<Rightarrow> bool" where
  "stale X i d \<longleftrightarrow> (\<exists>r. identity_at X d (di_identity_id i) = Inr r
     \<and> (ir_generation r \<noteq> ir_generation (di_record i) \<or> ir_state r \<noteq> Id_Active))"

fun reaches_store :: "ext \<Rightarrow> did_identity \<Rightarrow> update_call \<Rightarrow> bool" where
  "reaches_store X i (Prepare spec) \<longleftrightarrow> \<not> update_is_empty spec
     \<and> rforeach validate_service (case us_services spec of None \<Rightarrow> [] | Some s \<Rightarrow> s) = Inr ()"
| "reaches_store X i (Reconcile n observed) \<longleftrightarrow> (\<exists>p digest.
     required_pending (di_record i) n = Inr p \<and> pr_state p = PublicationUncertain
     \<and> get_str observed ''id'' = Some (di_did i) \<and> is_ok (validate_method_document X observed)
     \<and> canonical_digest X observed = Inr digest
     \<and> (digest = pr_candidate_digest p
        \<or> canonical_digest X (ir_document (di_record i)) = Inr digest
          \<and> (\<exists>profile. for_did X (di_did i) = Inr profile \<and> profile \<noteq> Web)))"
| "reaches_store X i _ \<longleftrightarrow> True"

definition finds_old :: "ext \<Rightarrow> did_identity \<Rightarrow> update_call \<Rightarrow> bool" where
  "finds_old X i call \<longleftrightarrow> (\<exists>n observed. call = Reconcile n observed
     \<and> canonical_digest X observed = canonical_digest X (ir_document (di_record i))
     \<and> for_did X (di_did i) = Inr Web)"

definition conflict_or_io :: "did_error \<Rightarrow> bool" where
  "conflict_or_io e \<longleftrightarrow> e = Conflict \<or> (\<exists>msg. e = Io msg)"

lemma safe_stale:
  assumes "calm c" "stale X i (w_disk c)" "E Conflict c" "\<And>msg. E (Io msg) c"
  shows "safe (bnd (current_record_for_mutation X i) f) Q E c"
  unfolding current_record_for_mutation_def using assms by (auto intro!: safe_intros simp: stale_def)

lemma safe_run_call_stale:
  assumes "calm c" "wf_runtime (di_runtime i)" "stale X i (w_disk c)"
  shows "safe (run_call X call i)
    (\<lambda>i' w. w_disk w = w_disk c \<and> i' = i \<and> \<not> reaches_store X i call \<and> finds_old X i call)
    (\<lambda>e w. w_disk w = w_disk c \<and> (reaches_store X i call \<longrightarrow> conflict_or_io e)) c"
proof -
  let ?C = "\<lambda>e w. w_disk w = w_disk c \<and> conflict_or_io e"
  note start = safe_check safe_locked safe_stale [OF assms(1,3)]
  have t: "safe (transition_publication X i n a b) (\<lambda>_ _. False) ?C c" for n a b
    unfolding transition_publication_def using assms(1,2) by (intro start) (simp_all add: conflict_or_io_def)
  have m: "safe (commit_pending X i n b ev) (\<lambda>_ _. False) ?C c" for n b ev
    unfolding commit_pending_def using assms(1,2) by (intro start) (simp_all add: conflict_or_io_def)
  have a: "safe (abort_update_inner X i n obs) (\<lambda>_ _. False) ?C c" for n obs
    unfolding abort_update_inner_def Let_def using assms(1,2) by (intro start) (simp_all add: conflict_or_io_def)
  have p: "safe (prepare_update X i spec) (\<lambda>_ _. False)
      (\<lambda>e w. w_disk w = w_disk c \<and> (reaches_store X i (Prepare spec) \<longrightarrow> conflict_or_io e)) c" for spec
    unfolding prepare_update_def Let_def using assms(1,2) by (intro start) (auto simp: conflict_or_io_def)
  have r: "safe (reconcile_update X i n doc)
      (\<lambda>p w. w_disk w = w_disk c \<and> fst p = i \<and> \<not> reaches_store X i (Reconcile n doc)
        \<and> finds_old X i (Reconcile n doc))
      (\<lambda>e w. w_disk w = w_disk c \<and> (reaches_store X i (Reconcile n doc) \<longrightarrow> conflict_or_io e)) c" for n doc
    unfolding reconcile_update_def using assms(1)
    by (auto intro!: safe_check safe_if safe_raise safe_ret
        safe_bnd [OF safe_mono [OF m]]
        safe_bnd [OF safe_mono [OF t]]
        simp: conflict_or_io_def finds_old_def)
  show ?thesis
    by (cases call)
       (auto simp: begin_publication_def mark_publication_uncertain_def
          reject_publication_before_acceptance_def commit_verified_update_def abort_update_def
          reconcile_rejected_update_def intro!: safe_mono [OF t] safe_mono [OF m] safe_mono [OF a]
          safe_bnd [OF safe_mono [OF p]] safe_bnd [OF safe_mono [OF r]] safe_ret)
qed

lemma stale_current_record:
  "calm w \<Longrightarrow> stale X i (w_disk w) \<Longrightarrow> current_record_for_mutation X i w = (Inl Conflict, w)"
  by (auto simp: stale_def current_record_for_mutation_def bnd_def lift_def raise_def)

lemma run_call_stale_calm:
  assumes "calm w" "wf_runtime (di_runtime i)" "stale X i (w_disk w)" "reaches_store X i call"
  shows "run_call X call i w = (Inl Conflict, w)"
proof -
  note current = stale_current_record [OF assms(1,3)]
  have lock: "acquire_write (di_runtime i) w = (Inr (guard_of (rt_root (di_runtime i))), w)"
    using assms(1,2) by (simp add: acquire_write_calm)
  have t: "transition_publication X i n a b w = (Inl Conflict, w)" for n a b
    by (simp add: transition_publication_def bnd_def lock current)
  have m: "commit_pending X i n b ev w = (Inl Conflict, w)" for n b ev
    by (simp add: commit_pending_def bnd_def lock current)
  have u: "abort_update_inner X i n obs w = (Inl Conflict, w)" for n obs
    by (simp add: abort_update_inner_def Let_def bnd_def lock current)
  show ?thesis
    using assms(4)
    by (cases call)
       (auto simp: begin_publication_def mark_publication_uncertain_def
          reject_publication_before_acceptance_def commit_verified_update_def abort_update_def
          reconcile_rejected_update_def t m u prepare_update_def reconcile_update_def Let_def bnd_def lift_def
          lock current is_ok_iff ret_def)
qed

text \<open>
  C31: A call through a stale handle (someone else wrote the record in between, or the identity is
  not active) changes nothing on disk, whatever fails. It fails with a conflict or with
  the error of a system call, and with exactly a conflict when no system call fails, once the checks it
  makes on the handle alone have passed; when they have not, it fails as well, except for
  a reconciliation that finds the old document of a Web identity and returns its handle.
\<close>
theorem stale_handle_changes_nothing:
  assumes "wf_runtime (di_runtime i)" "stale X i (w_disk w)" "run_call X call i w = (res, w')"
  shows "w_disk w' = w_disk w
    \<and> (reaches_store X i call \<longrightarrow> res = Inl Conflict \<or> (\<exists>msg. res = Inl (Io msg)))
    \<and> (reaches_store X i call \<and> w_faults w = [] \<longrightarrow> res = Inl Conflict)
    \<and> (\<forall>i'. res = Inr i' \<longrightarrow> i' = i \<and> finds_old X i call)"
proof -
  from safe_run_world [OF safe_run_call_stale [OF core_calm(1) assms(1)] assms(3)] assms(2)
  have "w_disk w' = w_disk w \<and> (reaches_store X i call \<longrightarrow> res = Inl Conflict \<or> (\<exists>msg. res = Inl (Io msg)))
    \<and> (\<forall>i'. res = Inr i' \<longrightarrow> i' = i \<and> finds_old X i call)"
    by (cases res) (auto simp: conflict_or_io_def)
  moreover have "res = Inl Conflict" if "reaches_store X i call" "w_faults w = []"
    using run_call_stale_calm [OF _ assms(1,2) that(1)] that(2) assms(3) by (simp add: calm_def)
  ultimately show ?thesis by blast
qed

theorem stale_handle_changes_nothing_witness:
  "let run = run_call sample_ext (Abort ''v'') (sample_handle (sample_pending\<lparr>ir_generation := 9\<rparr>))
       (holding_world sample_pending [])
   in fst run = Inl Conflict \<and> w_disk (snd run) = holding sample_pending"
proof -
  have "ir_generation sample_pending \<noteq> 9" by code_simp
  moreover have id: "ir_identity_id sample_pending = ''i''" by code_simp
  ultimately have "stale sample_ext (sample_handle (sample_pending\<lparr>ir_generation := 9\<rparr>)) (holding sample_pending)"
    using sample_pending_reads by (simp add: stale_def id)
  then show ?thesis
    using stale_handle_changes_nothing [of "sample_handle (sample_pending\<lparr>ir_generation := 9\<rparr>)" sample_ext
        "holding_world sample_pending []" "Abort ''v''"]
    by (simp add: prod_eq_iff Let_def holding_world_def sample_world_def)
qed

end
