(* ===== verification/Adoption_Properties.thy ===== *)
theory Adoption_Properties
  imports Publication
begin

text \<open>
  Properties of the adoption of verified documents: what an adoption that succeeds has checked and
  stored, that checkpoints never go back, that devices once removed never return, and what the
  adoption by a sibling may not do.
\<close>

section \<open>A successful adoption\<close>

text \<open>What the checks before the outcome establish.\<close>

definition adoption_checked ::
  "ext \<Rightarrow> did_identity \<Rightarrow> adopt_verified_document_spec \<Rightarrow> bool \<Rightarrow> disk \<Rightarrow> identity_record \<Rightarrow> bool" where
  "adoption_checked X i spec sibling d r \<longleftrightarrow>
     validate_verified_document X (av_document spec) (av_evidence spec) = Inr ()
     \<and> get_str (av_document spec) ''id'' = Some (di_did i)
     \<and> identity_at X d (di_identity_id i) = Inr r
     \<and> ir_generation r = ir_generation (di_record i) \<and> ir_pending_revision r = None
     \<and> (sibling \<longrightarrow> ir_state r = Id_Active \<and> ir_root_capability r = Root_Active
          \<and> local_authorized X r (av_document spec))
     \<and> check_adoption_progress r sibling spec = Inr ()
     \<and> method_root_fingerprint X (av_document spec) = Inr (ir_root_key_fingerprint r)"

text \<open>What it leaves on disk: nothing new, or the adopted record in the place of the old one.\<close>

definition adoption_stored ::
  "ext \<Rightarrow> did_identity \<Rightarrow> adopt_verified_document_spec \<Rightarrow> bool \<Rightarrow> disk \<Rightarrow> identity_record
     \<Rightarrow> adopt_document_outcome \<Rightarrow> did_identity \<Rightarrow> disk \<Rightarrow> bool" where
  "adoption_stored X i spec sibling d r outcome i' d' \<longleftrightarrow>
     (\<exists>r1. adoption_outcome r (local_authorized X r (av_document spec)) (av_evidence spec) = Inr (r1, outcome)
        \<and> (outcome = Unchanged \<and> checkpoint_unchanged r (av_evidence spec) \<and> i' = i \<and> d' = d
           \<or> (\<exists>r2 n. adopted_record X r1 spec = Inr r2 \<and> di_record i' = r2\<lparr>ir_generation := n\<rparr>
                \<and> unat n = unat (ir_generation r2) + 1 \<and> wrote X (di_record i') d d'
                \<and> d_records d' = d_records d
                \<and> (sibling \<longrightarrow> d_registry d' = d_registry d \<and> d_journals d' = d_journals d))))"

lemma safe_persist_state_transition:
  assumes "calm c" "wf_runtime rt"
  shows "safe (persist_state_transition X rt (guard_of (rt_root rt)) r)
    (\<lambda>r' w. \<exists>n. r' = r\<lparr>ir_generation := n\<rparr> \<and> unat n = unat (ir_generation r) + 1
        \<and> wrote X r' (w_disk c) (w_disk w) \<and> d_records (w_disk w) = d_records (w_disk c))
    (\<lambda>_ _. True) c"
proof -
  have "safe (persist_state_transition X rt (guard_of (rt_root rt)) r)
    (\<lambda>r' w. r' = r\<lparr>ir_generation := ir_generation r'\<rparr>
        \<and> checked_add1 (ir_generation r) = Some (ir_generation r')
        \<and> wrote X r' (w_disk c) (w_disk w) \<and> d_records (w_disk w) = d_records (w_disk c))
    (\<lambda>_ _. True) c"
    unfolding persist_state_transition_def random_id_def now_rfc3339_def Let_def
    using assms by (auto intro!: safe_intros simp: wrote_def)
  then show ?thesis by (rule safe_mono) (metis checked_add1_unat, simp)
qed

lemma safe_persist_sibling:
  assumes "calm c" "wf_runtime rt"
  shows "safe (persist_record X rt (guard_of (rt_root rt)) r)
    (\<lambda>r' w. \<exists>n. r' = r\<lparr>ir_generation := n\<rparr> \<and> unat n = unat (ir_generation r) + 1
        \<and> wrote X r' (w_disk c) (w_disk w) \<and> d_records (w_disk w) = d_records (w_disk c)
        \<and> d_registry (w_disk w) = d_registry (w_disk c) \<and> d_journals (w_disk w) = d_journals (w_disk c))
    (\<lambda>_ _. True) c"
  using assms by (intro safe_persist_record) (auto simp: wrote_def)

lemma adoption_storedI:
  assumes "adoption_outcome r (local_authorized X r (av_document spec)) (av_evidence spec) = Inr (r1, outcome)"
    "adopted_record X r1 spec = Inr r2"
    "unat n = unat (ir_generation r2) + 1" "wrote X (r2\<lparr>ir_generation := n\<rparr>) d d'" "d_records d' = d_records d"
    "sibling \<Longrightarrow> d_registry d' = d_registry d \<and> d_journals d' = d_journals d"
  shows "adoption_stored X i spec sibling d r outcome (replace_record i (r2\<lparr>ir_generation := n\<rparr>)) d'"
  unfolding adoption_stored_def
  by (rule exI [of _ r1], intro conjI disjI2 exI [of _ r2] exI [of _ n])
     (use assms in \<open>simp_all add: replace_record_def\<close>)

lemma safe_adopt:
  assumes "calm c" "wf_runtime (di_runtime i)"
  shows "safe (adopt_verified_document_inner X i spec sibling)
    (\<lambda>(i', outcome) w. \<exists>r. adoption_checked X i spec sibling (w_disk c) r
        \<and> adoption_stored X i spec sibling (w_disk c) r outcome i' (w_disk w))
    (\<lambda>_ _. True) c"
  (is "safe _ ?Q ?E c")
proof -
  let ?rt = "di_runtime i"
  let ?g = "guard_of (rt_root ?rt)"
  have final: "safe (bnd (if sibling then persist_record X ?rt ?g r2 else persist_state_transition X ?rt ?g r2)
      (\<lambda>r. ret (replace_record i r, outcome))) ?Q ?E c"
    if "adoption_checked X i spec sibling (w_disk c) r" "adopted_record X r1 spec = Inr r2"
      "adoption_outcome r (local_authorized X r (av_document spec)) (av_evidence spec) = Inr (r1, outcome)"
    for r r1 r2 outcome
  proof -
    have "safe (if sibling then persist_record X ?rt ?g r2 else persist_state_transition X ?rt ?g r2)
      (\<lambda>r' w. \<exists>n. r' = r2\<lparr>ir_generation := n\<rparr> \<and> unat n = unat (ir_generation r2) + 1
        \<and> wrote X r' (w_disk c) (w_disk w) \<and> d_records (w_disk w) = d_records (w_disk c)
        \<and> (sibling \<longrightarrow> d_registry (w_disk w) = d_registry (w_disk c) \<and> d_journals (w_disk w) = d_journals (w_disk c)))
      ?E c"
      using safe_mono [OF safe_persist_sibling [OF assms]]
        safe_mono [OF safe_persist_state_transition [OF assms]] by auto
    then show ?thesis
    proof (rule safe_bnd [OF safe_mono])
      fix r' and w :: world
      assume "\<exists>n. r' = r2\<lparr>ir_generation := n\<rparr> \<and> unat n = unat (ir_generation r2) + 1
        \<and> wrote X r' (w_disk c) (w_disk w) \<and> d_records (w_disk w) = d_records (w_disk c)
        \<and> (sibling \<longrightarrow> d_registry (w_disk w) = d_registry (w_disk c) \<and> d_journals (w_disk w) = d_journals (w_disk c))"
      then have "adoption_stored X i spec sibling (w_disk c) r outcome (replace_record i r') (w_disk w)"
        using that(2,3) by (elim exE conjE) (simp add: adoption_storedI)
      with that(1) show "calm w \<longrightarrow> safe (ret (replace_record i r', outcome)) ?Q ?E w"
        by (intro impI safe_ret) auto
    qed simp
  qed
  have stay: "safe (ret (i, Unchanged)) ?Q ?E c"
    if "adoption_checked X i spec sibling (w_disk c) r" "checkpoint_unchanged r (av_evidence spec)"
      "adoption_outcome r (local_authorized X r (av_document spec)) (av_evidence spec) = Inr (r1, Unchanged)"
    for r r1
    using that assms(1) by (intro safe_ret) (auto simp: adoption_stored_def)
  have sibling_checks: "safe (bnd (if sibling
        then bnd (lift (ensure (ir_state r = Id_Active \<and> ir_root_capability r = Root_Active) KeyNotUsable)) (\<lambda>_.
             bnd list_identity_transition_journals (\<lambda>js.
               lift (ensure (\<not> list_ex (open_transition (ir_identity_id r)) js) Conflict)))
        else ret ()) f) ?Q ?E c"
    if "sibling \<longrightarrow> ir_state r = Id_Active \<and> ir_root_capability r = Root_Active \<Longrightarrow> safe (f ()) ?Q ?E c" for r f
    using that assms(1) by (auto intro!: safe_intros)
  have tail: "safe (bnd (lift (adoption_outcome r (local_authorized X r (av_document spec)) (av_evidence spec)))
      (\<lambda>(r1, outcome). if outcome = Unchanged \<and> checkpoint_unchanged r (av_evidence spec)
            \<and> \<not> ir_initial_publication_pending r1 then ret (i, outcome)
          else bnd (lift (adopted_record X r1 spec)) (\<lambda>r2.
               bnd (if sibling then persist_record X ?rt ?g r2 else persist_state_transition X ?rt ?g r2)
                 (\<lambda>r. ret (replace_record i r, outcome))))) ?Q ?E c"
    if checked: "adoption_checked X i spec sibling (w_disk c) r" for r
    using assms(1) stay [OF checked] final [OF checked] by (auto intro!: safe_check)
  show ?thesis
    unfolding adopt_verified_document_inner_def Let_def
    by (intro check_intros sibling_checks tail assms) (auto simp: adoption_checked_def)
qed

lemma adopt_run:
  assumes "wf_runtime (di_runtime i)" "adopt_verified_document_inner X i spec sibling w = (Inr (i', outcome), w')"
  obtains r where "adoption_checked X i spec sibling (w_disk w) r"
    "adoption_stored X i spec sibling (w_disk w) r outcome i' (w_disk w')"
  using safe_run_world [OF safe_adopt [OF core_calm(1) assms(1)] assms(2)] by auto

section \<open>Checkpoints\<close>

lemma initial_confirmation_versions:
  assumes "is_initial_proof_confirmation r doc ev = Inr True"
  shows "ev_document_version ev = 1" "ev_registry_version ev = 1" "ir_initial_publication_pending r"
    "\<exists>c. ir_checkpoint r = Some c \<and> ck_document_version c = 1 \<and> ck_registry_version c = 1"
  using assms by (auto simp: is_initial_proof_confirmation_def split: if_splits option.splits)

lemma check_adoption_progress_forward:
  assumes "check_adoption_progress r sibling spec = Inr ()" "ir_checkpoint r = Some c"
  shows "ck_document_version c \<le> ev_document_version (av_evidence spec)
    \<and> ck_registry_version c \<le> ev_registry_version (av_evidence spec)
    \<and> (ev_document_version (av_evidence spec) = ck_document_version c \<longrightarrow>
         ev_document_digest (av_evidence spec) = ck_document_digest c \<or> ir_initial_publication_pending r)"
proof -
  from assms(1) obtain initial where
    i: "(if sibling then Inr False else is_initial_proof_confirmation r (av_document spec) (av_evidence spec)) = Inr initial"
    and v: "\<not> initial \<Longrightarrow> validate_checkpoint_progression (ir_checkpoint r) (av_evidence spec) = Inr ()"
    unfolding check_adoption_progress_def rbind_Inr_iff by (metis (full_types))
  show ?thesis
  proof (cases initial)
    case True
    with i have "is_initial_proof_confirmation r (av_document spec) (av_evidence spec) = Inr True"
      by (auto split: if_splits)
    from initial_confirmation_versions [OF this] assms(2) show ?thesis by auto
  next
    case False
    with v assms(2) show ?thesis by (simp add: checkpoint_progression_Inr_iff)
  qed
qed

lemma adopted_record_fields:
  assumes "adopted_record X r spec = Inr r'"
  shows "ir_document r' = av_document spec" "ir_checkpoint r' = Some (checkpoint (av_evidence spec))"
    "ir_state r' = ir_state r" "ir_keys r' = ir_keys r" "ir_identity_id r' = ir_identity_id r"
    "ir_did r' = ir_did r" "\<not> ir_initial_publication_pending r'"
  using assms by (auto simp: adopted_record_def rbind_Inr_iff elim!: observe_devices_Inr)

text \<open>
  C17: An adoption that succeeds never goes back: neither version of the evidence is below the
  stored checkpoint, at the same document version the digest is the stored one (unless the first
  publication is being confirmed), the digest is that of the document, the document names this
  identity and carries the pinned root key; and what is stored is that document with that
  checkpoint, or nothing is written because it is already there.
\<close>
theorem adoption_moves_forward:
  assumes "wf_runtime (di_runtime i)" "adopt_verified_document_inner X i spec sibling w = (Inr (i', outcome), w')"
  shows "\<exists>r. identity_at X (w_disk w) (di_identity_id i) = Inr r
    \<and> get_str (av_document spec) ''id'' = Some (di_did i)
    \<and> document_digest X (av_document spec) = Inr (ev_document_digest (av_evidence spec))
    \<and> method_root_fingerprint X (av_document spec) = Inr (ir_root_key_fingerprint r)
    \<and> (\<forall>c. ir_checkpoint r = Some c \<longrightarrow>
         ck_document_version c \<le> ev_document_version (av_evidence spec)
         \<and> ck_registry_version c \<le> ev_registry_version (av_evidence spec)
         \<and> (ev_document_version (av_evidence spec) = ck_document_version c \<longrightarrow>
              ev_document_digest (av_evidence spec) = ck_document_digest c \<or> ir_initial_publication_pending r))
    \<and> (i' = i \<and> w_disk w' = w_disk w \<and> ir_checkpoint r = Some (checkpoint (av_evidence spec))
       \<or> wrote X (di_record i') (w_disk w) (w_disk w') \<and> ir_document (di_record i') = av_document spec
         \<and> ir_checkpoint (di_record i') = Some (checkpoint (av_evidence spec)))"
proof -
  from adopt_run [OF assms] obtain r where c: "adoption_checked X i spec sibling (w_disk w) r"
    and s: "adoption_stored X i spec sibling (w_disk w) r outcome i' (w_disk w')" .
  have "ir_checkpoint r = Some (checkpoint (av_evidence spec))"
    if "checkpoint_unchanged r (av_evidence spec)"
    using that by (auto simp: checkpoint_unchanged_def checkpoint_def split: option.splits)
  with s have "i' = i \<and> w_disk w' = w_disk w \<and> ir_checkpoint r = Some (checkpoint (av_evidence spec))
      \<or> wrote X (di_record i') (w_disk w) (w_disk w') \<and> ir_document (di_record i') = av_document spec
         \<and> ir_checkpoint (di_record i') = Some (checkpoint (av_evidence spec))"
    unfolding adoption_stored_def by (auto dest: adopted_record_fields)
  with c show ?thesis
    unfolding adoption_checked_def
    using validate_verified_document_Inr(3) check_adoption_progress_forward by blast
qed

lemma sample_adopts:
  obtains i' w' where "adopt_verified_document_inner sample_ext (sample_handle sample_record)
    (sample_adopt sample_document 2) False (holding_world sample_record []) = (Inr (i', Updated), w')"
proof -
  let ?run = "adopt_verified_document_inner sample_ext (sample_handle sample_record)
    (sample_adopt sample_document 2) False (holding_world sample_record [])"
  have "(case fst ?run of Inr p \<Rightarrow> snd p = Updated | Inl _ \<Rightarrow> False)" by code_simp
  then show ?thesis
    using that by (cases "fst ?run"; cases "snd ?run"; cases ?run) auto
qed

theorem adoption_moves_forward_witness:
  "\<exists>(i' :: did_identity) (w' :: world). ir_document (di_record i') = sample_document
     \<and> ir_checkpoint (di_record i') = Some (checkpoint (sample_evidence sample_document 2))
     \<and> wrote sample_ext (di_record i') (holding sample_record) (w_disk w')"
proof -
  from sample_adopts obtain i' w' where run: "adopt_verified_document_inner sample_ext (sample_handle sample_record)
    (sample_adopt sample_document 2) False (holding_world sample_record []) = (Inr (i', Updated), w')" .
  have "ir_checkpoint sample_record \<noteq> Some (checkpoint (sample_evidence sample_document 2))" by code_simp
  with adoption_moves_forward [OF _ run] sample_record_reads
  have "ir_document (di_record i') = sample_document
    \<and> ir_checkpoint (di_record i') = Some (checkpoint (sample_evidence sample_document 2))
    \<and> wrote sample_ext (di_record i') (holding sample_record) (w_disk w')"
    by (auto simp: sample_record_id sample_adopt_def)
  then show ?thesis by blast
qed

section \<open>Outcomes\<close>

text \<open>
  C19: What the outcome of an adoption says. Activated: the identity was enrolling, the document
  authorises its keys, and it is active with no pending key left. Updated or unchanged: it was
  active, stays active, and its keys are authorised. Revoked: it ends revoked, and if it was active
  its own signing and agreement keys are revoked, because the document no longer authorises them.
\<close>
theorem adoption_outcome_meaning:
  assumes "wf_runtime (di_runtime i)" "adopt_verified_document_inner X i spec sibling w = (Inr (i', outcome), w')"
  shows "\<exists>r r'. identity_at X (w_disk w) (di_identity_id i) = Inr r
    \<and> (outcome = Unchanged \<and> i' = i \<and> w_disk w' = w_disk w \<and> r' = r
       \<or> di_record i' = r' \<and> wrote X r' (w_disk w) (w_disk w'))
    \<and> (case outcome of
        Activated \<Rightarrow> ir_state r = Id_Enrolling \<and> local_authorized X r (av_document spec)
          \<and> ir_state r' = Id_Active \<and> (\<forall>k \<in> set (ir_keys r'). km_state k \<noteq> Key_Pending)
      | Revoked \<Rightarrow> ir_state r' = Id_Revoked
          \<and> (ir_state r = Id_Revoked \<or>
             ir_state r = Id_Active \<and> \<not> local_authorized X r (av_document spec)
             \<and> (\<forall>l. ir_local_authorization r = Some l \<longrightarrow>
                  (\<forall>k \<in> set (ir_keys r'). km_kid k \<in> {la_signing_kid l, la_e2ee_kid l} \<longrightarrow> km_state k = Key_Revoked)))
      | _ \<Rightarrow> ir_state r = Id_Active \<and> ir_state r' = Id_Active \<and> local_authorized X r (av_document spec))"
proof -
  from adopt_run [OF assms] obtain r where c: "adoption_checked X i spec sibling (w_disk w) r"
    and s: "adoption_stored X i spec sibling (w_disk w) r outcome i' (w_disk w')" .
  from s obtain r1 where o: "adoption_outcome r (local_authorized X r (av_document spec)) (av_evidence spec) = Inr (r1, outcome)"
    and cases: "outcome = Unchanged \<and> i' = i \<and> w_disk w' = w_disk w
      \<or> wrote X (di_record i') (w_disk w) (w_disk w')
        \<and> ir_state (di_record i') = ir_state r1 \<and> ir_keys (di_record i') = ir_keys r1"
    unfolding adoption_stored_def using adopted_record_fields(3,4) by force
  from cases show ?thesis
  proof (elim disjE conjE)
    assume "outcome = Unchanged" "i' = i" "w_disk w' = w_disk w"
    with o c show ?thesis
      by (intro exI [of _ r]) (auto simp: adoption_checked_def adoption_outcome_def split: identity_state.splits if_splits)
  next
    assume "wrote X (di_record i') (w_disk w) (w_disk w')"
      "ir_state (di_record i') = ir_state r1" "ir_keys (di_record i') = ir_keys r1"
    with o c show ?thesis
      by (intro exI [of _ r] exI [of _ "di_record i'"])
         (auto simp: adoption_checked_def adoption_outcome_def activate_pending_keys_def
            revoke_local_authorization_def Let_def split: identity_state.splits if_splits)
  qed
qed

theorem adoption_outcome_meaning_witness:
  "local_authorized sample_ext sample_record sample_document"
proof -
  from sample_adopts obtain i' w' where run: "adopt_verified_document_inner sample_ext (sample_handle sample_record)
    (sample_adopt sample_document 2) False (holding_world sample_record []) = (Inr (i', Updated), w')" .
  from adoption_outcome_meaning [OF _ run] sample_record_reads show ?thesis
    by (auto simp: sample_record_id sample_adopt_def)
qed

section \<open>Siblings\<close>

text \<open>
  C34: Adopting as a sibling needs an active identity with the root key and never revokes or
  activates: the outcome is an update or no change, and registry, journals and secrets stay as they
  were.
\<close>
theorem sibling_adoption_only_updates:
  assumes "wf_runtime (di_runtime i)" "adopt_verified_sibling_document X i spec w = (Inr (i', outcome), w')"
  shows "outcome \<in> {Updated, Unchanged}
    \<and> d_registry (w_disk w') = d_registry (w_disk w) \<and> d_journals (w_disk w') = d_journals (w_disk w)
    \<and> d_records (w_disk w') = d_records (w_disk w)
    \<and> (\<exists>r. identity_at X (w_disk w) (di_identity_id i) = Inr r \<and> ir_state r = Id_Active
         \<and> ir_root_capability r = Root_Active)"
proof -
  from adopt_run [OF assms(1) assms(2) [unfolded adopt_verified_sibling_document_def]] obtain r where
    c: "adoption_checked X i spec True (w_disk w) r"
    and s: "adoption_stored X i spec True (w_disk w) r outcome i' (w_disk w')" .
  then have "outcome \<in> {Updated, Unchanged}"
    by (auto simp: adoption_checked_def adoption_stored_def adoption_outcome_def split: if_splits option.splits)
  with c s show ?thesis by (auto simp: adoption_checked_def adoption_stored_def)
qed

theorem sibling_adoption_only_updates_witness:
  "\<exists>outcome w'. snd (adopt_verified_sibling_document sample_ext (sample_handle sample_root_record)
       (sample_adopt sample_root_document 2) (holding_world sample_root_record [])) = w'
     \<and> outcome \<in> {Updated, Unchanged} \<and> d_registry (w_disk w') = d_registry (holding sample_root_record)"
proof -
  let ?run = "adopt_verified_sibling_document sample_ext (sample_handle sample_root_record)
    (sample_adopt sample_root_document 2) (holding_world sample_root_record [])"
  have "is_ok (fst ?run)" by code_simp
  then obtain i' outcome where run: "?run = (Inr (i', outcome), snd ?run)"
    by (cases ?run) (auto simp: is_ok_iff)
  from sibling_adoption_only_updates [OF _ run] show ?thesis by auto
qed

section \<open>Removed devices\<close>

lemma observe_devices_iff:
  "observe_devices r doc = Inr r' \<longleftrightarrow>
     set (ir_retired_device_ids r) \<inter> device_ids doc = {}
     \<and> r' = r\<lparr>ir_retired_device_ids := remdups_adj (sort (ir_retired_device_ids r
          @ sorted_list_of_set (device_ids (ir_document r) - device_ids doc)))\<rparr>"
  by (auto simp: observe_devices_def Let_def list_ex_iff)

lemma finite_device_ids [simp]: "finite (device_ids doc)"
  by (simp add: device_ids_def split: option.splits)

text \<open>
  The changes of a record that watch the devices: adopting a document, committing a revision, and
  every change that leaves the document and the list of removed devices alone. The promotion of a root
  key (\<open>confirm_root_promotion\<close>) is not one of them: it replaces the document without looking.
\<close>

definition observed :: "ext \<Rightarrow> identity_record \<Rightarrow> identity_record \<Rightarrow> bool" where
  "observed X r r' \<longleftrightarrow> (\<exists>spec. adopted_record X r spec = Inr r') \<or> (\<exists>p ev. committed_record X r p ev = Inr r')
     \<or> ir_document r' = ir_document r \<and> ir_retired_device_ids r' = ir_retired_device_ids r"

lemma observed_devices:
  assumes "observed X r r'" "set (ir_retired_device_ids r) \<inter> device_ids (ir_document r) = {}"
  shows "set (ir_retired_device_ids r') = set (ir_retired_device_ids r)
       \<union> (device_ids (ir_document r) - device_ids (ir_document r'))
    \<and> set (ir_retired_device_ids r') \<inter> device_ids (ir_document r') = {}"
  using assms(1) unfolding observed_def
proof (elim disjE exE)
  fix spec assume "adopted_record X r spec = Inr r'"
  then show ?thesis by (auto simp: adopted_record_def rbind_Inr_iff observe_devices_iff)
next
  fix p ev assume "committed_record X r p ev = Inr r'"
  then show ?thesis by (auto simp: committed_record_def Let_def rbind_Inr_iff observe_devices_iff)
qed (use assms(2) in simp)

lemma removed_device_refused:
  assumes "device_ids doc \<inter> set (ir_retired_device_ids r) \<noteq> {}"
  shows "av_document spec = doc \<Longrightarrow> adopted_record X r spec = Inl InvalidExtension"
    "pr_candidate_document p = doc \<Longrightarrow> committed_record X r p ev = Inl InvalidExtension"
proof -
  have "observe_devices s doc = Inl InvalidExtension" if "ir_retired_device_ids s = ir_retired_device_ids r" for s
    using assms that by (auto simp: observe_devices_def Let_def list_ex_iff)
  then show "av_document spec = doc \<Longrightarrow> adopted_record X r spec = Inl InvalidExtension"
    "pr_candidate_document p = doc \<Longrightarrow> committed_record X r p ev = Inl InvalidExtension"
    by (simp_all add: adopted_record_def committed_record_def Let_def)
qed

lemma observed_run_devices:
  assumes "rs \<noteq> []" "successively (observed X) rs"
    "set (ir_retired_device_ids (hd rs)) \<inter> device_ids (ir_document (hd rs)) = {}"
  shows "set (ir_retired_device_ids (last rs)) = set (ir_retired_device_ids (hd rs))
       \<union> ((\<Union>r \<in> set rs. device_ids (ir_document r)) - device_ids (ir_document (last rs)))
    \<and> set (ir_retired_device_ids (last rs)) \<inter> device_ids (ir_document (last rs)) = {}"
  using assms
proof (induction rs rule: rev_induct)
  case (snoc r rs)
  show ?case
  proof (cases "rs = []")
    case False
    with snoc.prems have run: "successively (observed X) rs" "observed X (last rs) r"
      by (auto simp: successively_append_iff)
    with False snoc have IH: "set (ir_retired_device_ids (last rs)) = set (ir_retired_device_ids (hd rs))
         \<union> ((\<Union>r \<in> set rs. device_ids (ir_document r)) - device_ids (ir_document (last rs)))"
      "set (ir_retired_device_ids (last rs)) \<inter> device_ids (ir_document (last rs)) = {}" by auto
    have "device_ids (ir_document (last rs)) \<subseteq> (\<Union>r \<in> set rs. device_ids (ir_document r))"
      using last_in_set [OF False] by blast
    with observed_devices [OF run(2) IH(2)] IH False show ?thesis by auto
  qed (use snoc.prems in auto)
qed simp

text \<open>
  C18: Over adoptions of documents and commits of revisions, devices that are removed never return.
  After any sequence of them (and of changes that touch neither document nor list), the removed
  devices are exactly those known as removed at the start and those that some earlier document of the
  sequence listed and the current one does not; the current document lists none of them; and a
  document that lists one is refused, by an adoption and by a commit.
\<close>
theorem removed_devices_never_return:
  assumes "rs \<noteq> []" "successively (observed X) rs"
    and "set (ir_retired_device_ids (hd rs)) \<inter> device_ids (ir_document (hd rs)) = {}"
  shows "set (ir_retired_device_ids (last rs)) = set (ir_retired_device_ids (hd rs))
       \<union> ((\<Union>r \<in> set rs. device_ids (ir_document r)) - device_ids (ir_document (last rs)))
    \<and> set (ir_retired_device_ids (last rs)) \<inter> device_ids (ir_document (last rs)) = {}
    \<and> (\<forall>spec. device_ids (av_document spec) \<inter> set (ir_retired_device_ids (last rs)) \<noteq> {}
         \<longrightarrow> adopted_record X (last rs) spec = Inl InvalidExtension)
    \<and> (\<forall>p ev. device_ids (pr_candidate_document p) \<inter> set (ir_retired_device_ids (last rs)) \<noteq> {}
         \<longrightarrow> committed_record X (last rs) p ev = Inl InvalidExtension)"
  using observed_run_devices [OF assms] removed_device_refused by blast

definition sample_listing :: json where
  "sample_listing = json_object [(''deviceManifest'', json_object [(''devices'',
     JArray [json_object [(''device_id'', JString ''phone'')]])]), (''id'', JString sample_did)]"

theorem removed_devices_never_return_witness:
  "\<exists>r'. adopted_record sample_ext (sample_record\<lparr>ir_document := sample_listing\<rparr>)
       (sample_adopt sample_document 2) = Inr r' \<and> set (ir_retired_device_ids r') = {''phone''}
     \<and> adopted_record sample_ext r' (sample_adopt sample_listing 3) = Inl InvalidExtension"
proof -
  let ?r = "sample_record\<lparr>ir_document := sample_listing\<rparr>"
  have "is_ok (adopted_record sample_ext ?r (sample_adopt sample_document 2))" by code_simp
  then obtain r' where r': "adopted_record sample_ext ?r (sample_adopt sample_document 2) = Inr r'"
    by (auto simp: is_ok_iff)
  have doc: "ir_document r' = sample_document" using adopted_record_fields(1) [OF r'] by (simp add: sample_adopt_def)
  have ids: "device_ids sample_listing = {''phone''}" "device_ids sample_document = {}"
    "ir_retired_device_ids ?r = []" "av_document (sample_adopt sample_listing 3) = sample_listing"
    by code_simp+
  have "successively (observed sample_ext) [?r, r']" using r' by (auto simp: observed_def)
  from removed_devices_never_return [OF _ this] r' doc ids show ?thesis by auto
qed

section \<open>A rotated local key\<close>

text \<open>
  Committing a revision does not move the local request signing key to the key that replaced it. When
  the key was rotated, the next adoption of a document without the old key revokes the identity.
\<close>

theorem rotated_signing_key_revokes:
  assumes "committed_record X r pending evidence = Inr r'" "ir_state r = Id_Active"
    and "ir_local_authorization r = None" "ir_local_request_signing_kid r = Some kid"
    and "find_verification_method X document kid = None"
  shows "\<not> local_authorized X r' document
    \<and> (\<exists>r''. adoption_outcome r' (local_authorized X r' document) e = Inr (r'', Revoked))"
proof -
  have "ir_state r' = Id_Active" "ir_local_authorization r' = None" "ir_local_request_signing_kid r' = Some kid"
    using assms(1-4)
    by (auto simp: committed_record_def Let_def rbind_Inr_iff refresh_compatible_local_profiles_def observe_devices_def
        split: if_splits option.splits)
  then show ?thesis
    using assms(5)
    by (auto simp: local_authorized_def adoption_outcome_def request_signing_authorization_matches_def
        key_matches_document_def is_ok_iff rbind_Inr_iff find_Some_iff)
qed

end
