(* ===== verification/Crypto_Properties.thy ===== *)
theory Crypto_Properties
  imports Frames Sample_Records
begin

text \<open>
  Properties of the cryptographic operations: which keys they accept, that they only read, that a
  signature verifies with the key of the document, and that key agreement is symmetric.
\<close>

section \<open>Guards\<close>

text \<open>The operations that use a key of an active identity.\<close>

datatype key_use =
    Use_Sign bytes
  | Use_Object_Proof json string "string option"
  | Use_Document_Proof json proof_options
  | Use_Origin_Proof string json json origin_proof_options
  | Use_Legacy_Header string string
  | Use_Http_Headers string string "(string \<times> string) list option" "bytes option" http_signature_options
  | Use_Agreement bytes

fun run_use :: "ext \<Rightarrow> key_use \<Rightarrow> did_identity \<Rightarrow> string \<Rightarrow> unit io" where
  "run_use X (Use_Sign m) i kid = bnd (sign X i kid m) (\<lambda>_. ret ())"
| "run_use X (Use_Object_Proof doc issuer created) i kid =
     bnd (sign_object_proof X i kid doc issuer created) (\<lambda>_. ret ())"
| "run_use X (Use_Document_Proof doc opts) i kid =
     bnd (sign_document_proof X i doc kid opts) (\<lambda>_. ret ())"
| "run_use X (Use_Origin_Proof method meta body opts) i kid =
     bnd (sign_origin_proof X i method meta body kid opts) (\<lambda>_. ret ())"
| "run_use X (Use_Legacy_Header domain version) i kid =
     bnd (legacy_did_wba_header X i kid domain version) (\<lambda>_. ret ())"
| "run_use X (Use_Http_Headers url method headers body opts) i kid =
     bnd (http_signature_headers_with_options X i kid url method headers body opts) (\<lambda>_. ret ())"
| "run_use X (Use_Agreement peer) i kid = bnd (ecdh X i kid peer) (\<lambda>_. ret ())"

fun use_roles :: "key_use \<Rightarrow> key_role set" where
  "use_roles (Use_Sign _) = {DeviceSigning, RequestSigning, E2eeSigning}"
| "use_roles (Use_Object_Proof _ _ _) = {DeviceSigning}"
| "use_roles (Use_Document_Proof _ _) = {RootControl}"
| "use_roles (Use_Origin_Proof _ _ _ _) = {DeviceSigning, RequestSigning}"
| "use_roles (Use_Legacy_Header _ _) = {DeviceSigning, RequestSigning}"
| "use_roles (Use_Http_Headers _ _ _ _ _) = {DeviceSigning, RequestSigning}"
| "use_roles (Use_Agreement _) = {E2eeAgreement}"

lemma find_key_metadata_Inr:
  "find_key_metadata i kid = Inr m \<Longrightarrow>
     m \<in> set (ir_keys (di_record i)) \<and> canonicalize_kid (ir_did (di_record i)) kid = Inr (km_kid m)"
  by (auto simp: find_key_metadata_def rbind_Inr_iff find_Some_iff in_set_conv_nth)

definition usable_key :: "ext \<Rightarrow> did_identity \<Rightarrow> string \<Rightarrow> key_role set \<Rightarrow> disk \<Rightarrow> key_metadata \<Rightarrow> bool" where
  "usable_key X i kid roles d m \<longleftrightarrow>
     m \<in> set (ir_keys (di_record i)) \<and> canonicalize_kid (ir_did (di_record i)) kid = Inr (km_kid m)
     \<and> km_origin m = Managed \<and> km_state m = Key_Active \<and> km_role m \<in> roles
     \<and> (\<exists>r. identity_at X d (di_identity_id i) = Inr r \<and> ir_state r = Id_Active
          \<and> ir_generation r = ir_generation (di_record i))"

lemma read_identity_Inr:
  assumes "read_identity X i w = (Inr r, w')"
  shows "identity_at X (w_disk w) i = Inr r"
proof -
  have "safe (read_identity X i) (\<lambda>r _. identity_at X (w_disk w) i = Inr r) (\<lambda>_ _. True) (core w)"
    by (auto intro!: safe_intros)
  from safe_run_world [OF this assms] show ?thesis by simp
qed

lemma ks_open_Inr:
  assumes "ks_open X k r w = (Inr m, w')"
  shows "secret_at X k (w_disk w) r = Inr m"
proof -
  have "safe (ks_open X k r) (\<lambda>m _. secret_at X k (w_disk w) r = Inr m) (\<lambda>_ _. True) (core w)"
    by (auto intro!: safe_intros)
  from safe_run_world [OF this assms] show ?thesis by simp
qed

lemma managed_origin: "km_origin m \<noteq> External \<longleftrightarrow> km_origin m = Managed"
  by (cases "km_origin m") simp_all

lemma require_operational_Inr:
  assumes "require_operational X i w = (Inr u, w')"
  shows "\<exists>r. identity_at X (w_disk w) (di_identity_id i) = Inr r \<and> ir_state r = Id_Active
    \<and> ir_generation r = ir_generation (di_record i)"
  using assms by (auto simp: require_operational_def bnd_Inr_iff lift_def dest!: read_identity_Inr)

lemma managed_key_Inr:
  assumes "managed_key_metadata i kid = Inr m"
  shows "m \<in> set (ir_keys (di_record i))" "canonicalize_kid (ir_did (di_record i)) kid = Inr (km_kid m)"
    "km_origin m = Managed"
  using assms by (auto simp: managed_key_metadata_def rbind_Inr_iff managed_origin dest!: find_key_metadata_Inr)

lemma usable_keyI:
  assumes "require_operational X i w = (Inr u, w')" "managed_key_metadata i kid = Inr m"
    "require_active m = Inr v" "km_role m \<in> roles"
  shows "usable_key X i kid roles (w_disk w) m"
  using require_operational_Inr [OF assms(1)] managed_key_Inr [OF assms(2)] assms(3,4)
  by (simp add: usable_key_def require_active_def)

lemmas key_uses = sign_def sign_object_proof_def sign_document_proof_def sign_origin_proof_def
  legacy_did_wba_header_def http_signature_headers_with_options_def ecdh_def
  request_signing_metadata_def device_signing_metadata_def

lemma read_only_use: "read_only (run_use X u i kid)"
  by (cases u)
     (auto simp: key_uses sign_prepared_def agree_def require_operational_def Let_def intro!: keeps_intros)

text \<open>
  C20: Every use of a key (seven operations) that succeeds is by an identity that is stored as
  active in the generation of the handle, with a key of the handle that the given identifier names,
  whose private part is managed here, that is active and whose role admits the use: only signing
  keys sign, only the root key signs documents, only agreement keys agree. None of them, successful
  or not, changes anything on disk.
\<close>
theorem key_use_guarded:
  "w_disk (snd (run_use X u i kid w)) = w_disk w
   \<and> (is_ok (fst (run_use X u i kid w)) \<longrightarrow> (\<exists>m. usable_key X i kid (use_roles u) (w_disk w) m))"
proof
  show "w_disk (snd (run_use X u i kid w)) = w_disk w"
    using read_only_use [of X u i kid] by (simp add: keeps_def)
  show "is_ok (fst (run_use X u i kid w)) \<longrightarrow> (\<exists>m. usable_key X i kid (use_roles u) (w_disk w) m)"
  proof
    assume "is_ok (fst (run_use X u i kid w))"
    then obtain x w' where run: "run_use X u i kid w = (Inr x, w')"
      by (cases "run_use X u i kid w") (auto simp: is_ok_iff)
    then have "\<exists>w1 m. require_operational X i w = (Inr (), w1) \<and> managed_key_metadata i kid = Inr m
      \<and> require_active m = Inr () \<and> km_role m \<in> use_roles u"
      by (cases u) (auto simp: key_uses bnd_Inr_iff lift_def ret_def)
    then show "\<exists>m. usable_key X i kid (use_roles u) (w_disk w) m" using usable_keyI by blast
  qed
qed

text \<open>The disk of the sample identity with its secret.\<close>

definition keyed_world :: world where
  "keyed_world = snd (ks_seal_if_absent sample_ext (file_key_store_new ''store'') (guard_of ''store'')
     sample_key (key_secret_ref ''i'' sample_metadata) sample_key (holding_world sample_record []))"

lemma sample_signs:
  "fst (sign sample_ext (sample_handle sample_record) ''r'' ''hello'' keyed_world) = Inr (sample_key @ ''hello'')"
  by code_simp

theorem key_use_guarded_witness:
  "\<exists>m. usable_key sample_ext (sample_handle sample_record) ''r'' {DeviceSigning, RequestSigning, E2eeSigning}
     (w_disk keyed_world) m"
proof -
  have "is_ok (fst (run_use sample_ext (Use_Sign ''hello'') (sample_handle sample_record) ''r'' keyed_world))"
    using sample_signs by (cases "sign sample_ext (sample_handle sample_record) ''r'' ''hello'' keyed_world")
      (simp add: bnd_def ret_def)
  with key_use_guarded [of sample_ext "Use_Sign ''hello''" "sample_handle sample_record" "''r''" keyed_world]
  show ?thesis by simp
qed

section \<open>Signatures\<close>

text \<open>What the code relies on of Ed25519: a signature verifies with the public key of its key.\<close>

definition signatures_ok :: "ext \<Rightarrow> bool" where
  "signatures_ok X \<longleftrightarrow>
     (\<forall>k m. length k = 32 \<longrightarrow> verify_message X (Ed25519 (ed25519_verifying_key X k)) m (ed25519_sign X k m))"

lemma sign_Inr:
  assumes "sign X i kid message w = (Inr s, w')"
  obtains m w1 secret where "managed_key_metadata i kid = Inr m" "km_state m = Key_Active"
    "km_role m \<in> {DeviceSigning, RequestSigning, E2eeSigning}"
    "load_managed_secret X i m w1 = (Inr secret, w')" "w_disk w1 = w_disk w"
    "length secret = 32" "s = ed25519_sign X secret message"
proof -
  from assms obtain m w1 secret where
    "managed_key_metadata i kid = Inr m" "km_state m = Key_Active"
    "km_role m \<in> {DeviceSigning, RequestSigning, E2eeSigning}" "require_operational X i w = (Inr (), w1)"
    "load_managed_secret X i m w1 = (Inr secret, w')"
    "length secret = 32" "s = ed25519_sign X secret message"
    unfolding sign_def bnd_Inr_iff lift_def
    by (auto simp: require_active_def ed25519_signing_key_def ret_def split: if_splits)
  moreover have "read_only (require_operational X i)"
    unfolding require_operational_def by (intro keeps_intros)
  ultimately show ?thesis using that keepsD by metis
qed

text \<open>
  C22: A signature made with a key of an identity is accepted by the verification with the same
  identifier, when the document of the identity carries the public part of the stored secret.
\<close>
theorem signature_verifies:
  assumes "signatures_ok X" "sign X i kid message w = (Inr s, w')"
    and "\<And>m secret. managed_key_metadata i kid = Inr m
      \<Longrightarrow> secret_at X (rt_root_key (di_runtime i)) (w_disk w) (key_secret_ref (di_identity_id i) m) = Inr secret
      \<Longrightarrow> method_public_key X i (km_kid m) = Inr (Ed25519 (ed25519_verifying_key X secret))"
  shows "verify X i kid message s = Inr ()"
proof -
  from sign_Inr [OF assms(2)] obtain m w1 secret where
    m: "managed_key_metadata i kid = Inr m" "km_state m = Key_Active"
      "km_role m \<in> {DeviceSigning, RequestSigning, E2eeSigning}"
    and secret: "load_managed_secret X i m w1 = (Inr secret, w')" "w_disk w1 = w_disk w"
      "length secret = 32" "s = ed25519_sign X secret message" .
  have "secret_at X (rt_root_key (di_runtime i)) (w_disk w1) (key_secret_ref (di_identity_id i) m) = Inr secret"
    using secret(1) by (auto simp: load_managed_secret_def dest: ks_open_Inr)
  with assms(3) [OF m(1)] secret(2) have
    "method_public_key X i (km_kid m) = Inr (Ed25519 (ed25519_verifying_key X secret))" by simp
  moreover have "find_key_metadata i kid = Inr m"
    using m(1) by (auto simp: managed_key_metadata_def rbind_Inr_iff)
  ultimately show ?thesis
    using m(2,3) secret(3,4) assms(1) by (auto simp: verify_def signatures_ok_def)
qed

theorem signature_verifies_witness:
  "verify sample_ext (sample_handle sample_record) ''r'' ''hello'' (sample_key @ ''hello'') = Inr ()"
proof (rule signature_verifies [of _ _ _ _ keyed_world])
  show "signatures_ok sample_ext" by (simp add: signatures_ok_def sample_ext_def)
  show "sign sample_ext (sample_handle sample_record) ''r'' ''hello'' keyed_world = (Inr (sample_key @ ''hello''),
      snd (sign sample_ext (sample_handle sample_record) ''r'' ''hello'' keyed_world))"
    using sample_signs by (simp add: prod_eq_iff)
  fix m secret
  assume "managed_key_metadata (sample_handle sample_record) ''r'' = Inr m"
    "secret_at sample_ext (rt_root_key (di_runtime (sample_handle sample_record))) (w_disk keyed_world)
       (key_secret_ref (di_identity_id (sample_handle sample_record)) m) = Inr secret"
  moreover have "managed_key_metadata (sample_handle sample_record) ''r'' = Inr sample_metadata" by code_simp
  moreover have "secret_at sample_ext (rt_root_key (di_runtime (sample_handle sample_record))) (w_disk keyed_world)
       (key_secret_ref (di_identity_id (sample_handle sample_record)) sample_metadata) = Inr sample_key" by code_simp
  moreover have "method_public_key sample_ext (sample_handle sample_record) (km_kid sample_metadata)
      = Inr (Ed25519 (ed25519_verifying_key sample_ext sample_key))" by code_simp
  ultimately show "method_public_key sample_ext (sample_handle sample_record) (km_kid m)
      = Inr (Ed25519 (ed25519_verifying_key sample_ext secret))" by simp
qed

section \<open>Key agreement\<close>

text \<open>What the code relies on of X25519: both sides compute the same secret.\<close>

definition agreement_ok :: "ext \<Rightarrow> bool" where
  "agreement_ok X \<longleftrightarrow> (\<forall>a b. x25519_diffie_hellman X a (x25519_public_key X b)
     = x25519_diffie_hellman X b (x25519_public_key X a))"

definition holds_key :: "ext \<Rightarrow> did_identity \<Rightarrow> string \<Rightarrow> disk \<Rightarrow> bytes \<Rightarrow> bool" where
  "holds_key X i kid d secret \<longleftrightarrow> (\<exists>m. managed_key_metadata i kid = Inr m
     \<and> secret_at X (rt_root_key (di_runtime i)) d (key_secret_ref (di_identity_id i) m) = Inr secret)"

lemma ecdh_Inr:
  assumes "ecdh X i kid peer w = (Inr s, w')" "holds_key X i kid (w_disk w) a"
  shows "s = x25519_diffie_hellman X a peer \<and> length peer = 32 \<and> length a = 32
    \<and> \<not> list_all (\<lambda>b. b = CHR 0x00) s"
proof -
  from assms(1) obtain m w1 secret where m: "managed_key_metadata i kid = Inr m"
    and w1: "require_operational X i w = (Inr (), w1)"
    and s: "ks_open X (rt_root_key (di_runtime i)) (key_secret_ref (di_identity_id i) m) w1 = (Inr secret, w')"
    "s = x25519_diffie_hellman X secret peer" "length peer = 32" "length secret = 32"
    "\<not> list_all (\<lambda>b. b = CHR 0x00) s"
    unfolding ecdh_def agree_def load_managed_secret_def bnd_Inr_iff lift_def
    by (auto simp: x25519_private_key_def ret_def Let_def bnd_Inr_iff lift_def split: if_splits)
  have "read_only (require_operational X i)" unfolding require_operational_def by (intro keeps_intros)
  from keepsD [OF this w1] ks_open_Inr [OF s(1)] assms(2) m have "secret = a" by (auto simp: holds_key_def)
  with s show ?thesis by simp
qed

text \<open>
  C23: Two identities that agree on a key, each with the public part of the other's secret, obtain
  the same shared secret, and it is never all zero.
\<close>
theorem agreement_symmetric:
  assumes "agreement_ok X" "holds_key X i kid (w_disk w) a" "holds_key X j kid' (w_disk v) b"
    and "ecdh X i kid (x25519_public_key X b) w = (Inr s, w')"
    and "ecdh X j kid' (x25519_public_key X a) v = (Inr t, v')"
  shows "s = t \<and> \<not> list_all (\<lambda>b. b = CHR 0x00) s"
  using ecdh_Inr [OF assms(4,2)] ecdh_Inr [OF assms(5,3)] assms(1) by (metis agreement_ok_def)

text \<open>Two parties with different secrets, and a symmetric stand-in for X25519.\<close>

definition dh_ext :: ext where
  "dh_ext = sample_ext\<lparr>x25519_diffie_hellman := (\<lambda>a b. if a \<le> b then a @ b else b @ a)\<rparr>"

definition party :: "bytes \<Rightarrow> did_identity \<times> world" where
  "party secret =
     (let r = sample_record\<lparr>ir_keys := [sample_metadata\<lparr>km_role := E2eeAgreement\<rparr>]\<rparr> in
      (sample_handle r, snd (ks_seal_if_absent dh_ext (file_key_store_new ''store'') (guard_of ''store'')
         sample_key (key_secret_ref ''i'' (sample_metadata\<lparr>km_role := E2eeAgreement\<rparr>)) secret
         (holding_world r []))))"

definition other_key :: bytes where
  "other_key = replicate 32 CHR ''o''"

theorem agreement_symmetric_witness:
  "\<exists>s. fst (ecdh dh_ext (fst (party sample_key)) ''r'' other_key (snd (party sample_key))) = Inr s
     \<and> fst (ecdh dh_ext (fst (party other_key)) ''r'' sample_key (snd (party other_key))) = Inr s"
proof -
  let ?p = "ecdh dh_ext (fst (party sample_key)) ''r'' (x25519_public_key dh_ext other_key) (snd (party sample_key))"
  let ?q = "ecdh dh_ext (fst (party other_key)) ''r'' (x25519_public_key dh_ext sample_key) (snd (party other_key))"
  have pub: "x25519_public_key dh_ext k = k" for k by (simp add: dh_ext_def sample_ext_def)
  have ok: "agreement_ok dh_ext" by (auto simp: agreement_ok_def dh_ext_def sample_ext_def)
  have h: "holds_key dh_ext (fst (party sample_key)) ''r'' (w_disk (snd (party sample_key))) sample_key"
    "holds_key dh_ext (fst (party other_key)) ''r'' (w_disk (snd (party other_key))) other_key"
    unfolding holds_key_def
    by (rule exI [of _ "sample_metadata\<lparr>km_role := E2eeAgreement\<rparr>"], code_simp)+
  have "is_ok (fst ?p)" "is_ok (fst ?q)" by code_simp+
  then obtain s t where run: "?p = (Inr s, snd ?p)" "?q = (Inr t, snd ?q)"
    by (cases ?p; cases ?q) (auto simp: is_ok_iff)
  from agreement_symmetric [OF ok h run] run show ?thesis by (metis fst_conv pub)
qed

end
