(* ===== verification/Recovery.thy ===== *)
theory Recovery
  imports Crash_Safety Publication
begin

text \<open>
  What the proofs about interrupted operations share: deleting a list of secrets under failures,
  recovery of a store without journals, and recoveries that are interrupted themselves.
\<close>

lemma safe_delete_all:
  assumes "calm c" "fk_store_root ks = root" "I (w_disk c)"
    and "\<And>r d. r \<in> set refs \<Longrightarrow> I d \<Longrightarrow> I (d\<lparr>d_records := dir_del (record_path X r) (d_records d)\<rparr>)"
  shows "safe (foreach (ks_delete X ks (guard_of root)) refs)
    (\<lambda>_ w. I (w_disk w) \<and> w_disk w = (w_disk c)\<lparr>d_records :=
       without (record_path X ` set refs) (d_records (w_disk c))\<rparr>) (\<lambda>_ w. I (w_disk w)) c"
  using assms(1,3,4)
proof (induction refs arbitrary: c)
  case (Cons r refs)
  let ?d = "(w_disk c)\<lparr>d_records := dir_del (record_path X r) (d_records (w_disk c))\<rparr>"
  have "I ?d" using Cons.prems by simp
  then have rest: "safe (foreach (ks_delete X ks (guard_of root)) refs)
    (\<lambda>_ w. I (w_disk w) \<and> w_disk w = ?d\<lparr>d_records := without (record_path X ` set refs) (d_records ?d)\<rparr>)
    (\<lambda>_ w. I (w_disk w)) (c\<lparr>w_disk := ?d\<rparr>)"
    using Cons.IH [of "c\<lparr>w_disk := ?d\<rparr>"] Cons.prems by simp
  have "without (record_path X ` set refs) (dir_del (record_path X r) rs)
      = without (record_path X ` set (r # refs)) rs" for rs :: "encrypted_record dir"
    by (simp add: without_without flip: without_del)
  with rest have rest: "safe (foreach (ks_delete X ks (guard_of root)) refs)
    (\<lambda>_ w. I (w_disk w) \<and> w_disk w = (w_disk c)\<lparr>d_records :=
       without (record_path X ` set (r # refs)) (d_records (w_disk c))\<rparr>) (\<lambda>_ w. I (w_disk w)) (c\<lparr>w_disk := ?d\<rparr>)"
    by simp
  show ?case
    unfolding foreach.simps
    by (rule safe_bnd, rule safe_ks_delete [OF Cons.prems(1) assms(2)]) (use rest Cons.prems(2) in auto)
qed (auto intro!: safe_ret)

lemma safe_recover_quiescent:
  assumes "calm c" "wf_runtime rt" "quiescent (w_disk c)"
  shows "safe (recover X rt) (\<lambda>_ w. w_disk w = w_disk c) (\<lambda>_ w. w_disk w = w_disk c) c"
  unfolding recover_def recover_update_journals_def
  using assms by (auto intro!: safe_intros simp: quiescent_def)

text \<open>Any number of recoveries that fail somewhere.\<close>

inductive attempts :: "ext \<Rightarrow> store_runtime \<Rightarrow> disk \<Rightarrow> disk \<Rightarrow> bool" for X rt d where
  none: "attempts X rt d d"
| again: "attempts X rt d (w_disk w) \<Longrightarrow> recover X rt w = (res, w') \<Longrightarrow> attempts X rt d (w_disk w')"

lemma attempts_keep:
  assumes "attempts X rt d1 d2" "P d1"
    and "\<And>c. calm c \<Longrightarrow> P (w_disk c) \<Longrightarrow> safe (recover X rt) (\<lambda>_ w. P (w_disk w)) (\<lambda>_ w. P (w_disk w)) c"
  shows "P d2"
  using assms(1)
proof induction
  case (again w res w')
  then have "safe (recover X rt) (\<lambda>_ w. P (w_disk w)) (\<lambda>_ w. P (w_disk w)) (core w)"
    by (intro assms(3)) simp_all
  from safe_run_world [OF this again.hyps(2)] show ?case by (auto split: sum.splits)
qed (rule assms(2))

section \<open>Reading back a record\<close>

text \<open>A record that was read and written again with another generation and revision reads as itself.\<close>

lemma decode_identity_stable:
  assumes "decode_identity X i c = Inr r"
  shows "decode_identity X i (Some (Parsed (r\<lparr>ir_pending_revision := p, ir_generation := n\<rparr>)))
    = Inr (r\<lparr>ir_pending_revision := p, ir_generation := n\<rparr>)"
proof -
  from assms obtain q where c: "c = Some (Parsed q)" by (cases c; cases "the c") simp_all
  from assms obtain x y prof where q: "ir_schema_version q = IDENTITY_SCHEMA_VERSION" "ir_identity_id q = i"
    "for_did X (ir_did q) = Inr prof"
    and x: "(if supports_root_control prof
               \<and> (case ir_root_key_fingerprint q of None \<Rightarrow> True | Some f \<Rightarrow> f = [])
            then rbind (root_key_fingerprint X (ir_document q)) (\<lambda>f.
                   Inr (q\<lparr>ir_root_key_fingerprint := Some f\<rparr>))
            else if \<not> supports_root_control prof
                    \<and> (ir_root_key_fingerprint q \<noteq> None \<or> ir_root_capability q \<noteq> Root_Absent
                        \<or> list_ex (\<lambda>k. km_role k = RootControl) (ir_keys q))
            then Inl InvalidIdentity
            else Inr q) = Inr x"
    and y: "(if ir_checkpoint x = None
            then rbind (document_digest X (ir_document x)) (\<lambda>digest.
                   Inr (x\<lparr>ir_checkpoint := Some \<lparr>ck_document_version = ir_revision x,
                     ck_registry_version = 1, ck_document_digest = digest\<rparr>\<rparr>))
            else Inr x) = Inr y"
    and r: "(if ir_local_authorization y = None
       then rbind (infer_local_authorization X (ir_document y) (ir_keys y)) (\<lambda>a.
              Inr (y\<lparr>ir_local_authorization := a\<rparr>))
       else Inr y) = Inr r"
    unfolding c decode_identity.simps rbind_Inr_iff ensure_Inr_iff by blast
  have y': "ir_checkpoint y \<noteq> None" "y = x\<lparr>ir_checkpoint := ir_checkpoint y\<rparr>"
    using y by (auto simp: rbind_Inr_iff split: if_splits)
  have r': "r = y\<lparr>ir_local_authorization := ir_local_authorization r\<rparr>"
    "ir_local_authorization r = None \<Longrightarrow> infer_local_authorization X (ir_document y) (ir_keys y) = Inr None"
    using r by (auto simp: rbind_Inr_iff split: if_splits)
  have x': "x = q\<lparr>ir_root_key_fingerprint := ir_root_key_fingerprint x\<rparr>"
    "supports_root_control prof \<Longrightarrow> (case ir_root_key_fingerprint x of None \<Rightarrow> True | Some f \<Rightarrow> f = [])
       \<Longrightarrow> root_key_fingerprint X (ir_document q) = Inr [] \<and> ir_root_key_fingerprint x = Some []"
    "\<not> supports_root_control prof \<Longrightarrow> ir_root_key_fingerprint x = None \<and> ir_root_capability q = Root_Absent
       \<and> \<not> list_ex (\<lambda>k. km_role k = RootControl) (ir_keys q)"
    using x by (auto simp: rbind_Inr_iff split: if_splits option.splits)
  have f: "ir_schema_version r = ir_schema_version q" "ir_identity_id r = ir_identity_id q" "ir_did r = ir_did q"
    "ir_document r = ir_document q" "ir_keys r = ir_keys q" "ir_root_capability r = ir_root_capability q"
    "ir_checkpoint r = ir_checkpoint y" "ir_root_key_fingerprint r = ir_root_key_fingerprint x"
    "ir_document y = ir_document q" "ir_keys y = ir_keys q"
    using x'(1) y'(2) r'(1) by (cases q, cases x, cases y, cases r, simp)+
  show ?thesis
    using q f x'(2,3) y'(1) r'(2)
    by (cases "supports_root_control prof";
        cases "case ir_root_key_fingerprint x of None \<Rightarrow> True | Some f \<Rightarrow> f = []";
        cases "ir_local_authorization r") (auto simp: fun_upd_def)
qed

text \<open>A directory without journals has no file of a journal's name.\<close>

lemma entries_of_none:
  assumes "entries_of valid dir = Inr []" "extension k = Some ''json''"
  shows "dir_get dir k = None"
  using assms(1)
proof (induction dir)
  case (Cons e dir)
  then show ?case
    using assms(2)
    by (cases e) (auto simp: entries_of_Cons rbind_Inr_iff dir_get_def split: if_splits)
qed simp

end
