(* ===== verification/Namespace.thy ===== *)
theory Namespace
  imports Identity
begin

text \<open>\<open>namespace.rs\<close>: deleting an identity with its secrets, as a journalled transaction.\<close>

definition namespace_refs :: "identity_record \<Rightarrow> secret_ref list" where
  "namespace_refs r =
     map (key_secret_ref (ir_identity_id r))
       (filter (\<lambda>k. km_origin k = Managed \<and> \<not> km_material_erased k) (ir_keys r))"

text \<open>The journal, the deletions, the registry and the removal of the journal.\<close>

definition delete_record ::
  "ext \<Rightarrow> did_store \<Rightarrow> store_write_guard \<Rightarrow> identity_registry \<Rightarrow> string \<Rightarrow> identity_record \<Rightarrow> did_store io" where
  "delete_record X store guard registry did r =
     (let rt = ds_runtime store; refs = namespace_refs r in
     bnd (random_id X) (\<lambda>transaction_id.
     bnd (now_rfc3339 X) (\<lambda>created_at.
     bnd (write_journal X (rt_root rt) guard
            (new_namespace_delete transaction_id (ir_identity_id r) (ir_did r) refs created_at)) (\<lambda>_.
     bnd (foreach (ks_delete X (rt_key_store rt) guard) refs) (\<lambda>_.
     bnd (remove_identity X (rt_root rt) guard (ir_identity_id r)) (\<lambda>_.
     bnd (lift (ok_or (checked_add1 (rg_generation registry)) Conflict)) (\<lambda>generation.
     bnd (write_registry (rt_root rt) guard
            (registry\<lparr>rg_identities := btree_remove did (rg_identities registry),
               rg_generation := generation\<rparr>)) (\<lambda>_.
     bnd (remove_journal X (rt_root rt) guard transaction_id) (\<lambda>_.
     ret (store\<lparr>ds_registry_generation := generation\<rparr>))))))))))"

definition discard_unpublished_enrollment ::
  "ext \<Rightarrow> did_store \<Rightarrow> string \<Rightarrow> string \<Rightarrow> u64 \<Rightarrow> did_store io" where
  "discard_unpublished_enrollment X store did expected_identity_id expected_generation =
     bnd (acquire_write (ds_runtime store)) (\<lambda>guard.
     bnd read_registry (\<lambda>registry.
     bnd (lift (ensure (expected_generation = ds_registry_generation store
                  \<and> rg_generation registry = expected_generation) Conflict)) (\<lambda>_.
     bnd (lift (ok_or (btree_get (rg_identities registry) did) IdentityNotFound)) (\<lambda>s.
     bnd (read_identity X (is_identity_id s)) (\<lambda>r.
     bnd (lift (ensure (\<not> (ir_identity_id r \<noteq> expected_identity_id
                  \<or> ir_did r \<noteq> did
                  \<or> ir_state r \<noteq> Id_Enrolling
                  \<or> (ir_pending_enrollment r \<noteq> None) = (ir_pending_request_signing r \<noteq> None)
                  \<or> ir_pending_revision r \<noteq> None
                  \<or> ir_pending_root_transfer r \<noteq> None
                  \<or> ir_root_capability r \<noteq> Root_Absent)) InvalidPublicationState)) (\<lambda>_.
     delete_record X store guard registry did r))))))"

definition has_pending_change :: "identity_record \<Rightarrow> bool" where
  "has_pending_change r \<longleftrightarrow>
     ir_pending_revision r \<noteq> None \<or> ir_pending_enrollment r \<noteq> None
     \<or> ir_pending_request_signing r \<noteq> None \<or> ir_pending_root_transfer r \<noteq> None
     \<or> ir_root_capability r = Root_Pending"

definition delete_identity_namespace_inner ::
  "ext \<Rightarrow> did_store \<Rightarrow> string \<Rightarrow> u64 \<Rightarrow> bool \<Rightarrow> did_store io" where
  "delete_identity_namespace_inner X store did expected_generation discard_pending_changes =
     bnd (acquire_write (ds_runtime store)) (\<lambda>guard.
     bnd read_registry (\<lambda>registry.
       if expected_generation \<noteq> ds_registry_generation store
          \<or> rg_generation registry \<noteq> expected_generation
       then (if btree_get (rg_identities registry) did = None
                \<and> rg_generation registry = saturating_add1 expected_generation
             then ret (store\<lparr>ds_registry_generation := rg_generation registry\<rparr>)
             else raise Conflict)
       else
         bnd (lift (ok_or (btree_get (rg_identities registry) did) IdentityNotFound)) (\<lambda>s.
         bnd (read_identity X (is_identity_id s)) (\<lambda>r.
         bnd (lift (ensure (\<not> (ir_did r \<noteq> did \<or> ir_state r = Id_Creating
                      \<or> (\<not> discard_pending_changes \<and> has_pending_change r)))
                InvalidPublicationState)) (\<lambda>_.
         delete_record X store guard registry did r)))))"

definition delete_identity_namespace :: "ext \<Rightarrow> did_store \<Rightarrow> string \<Rightarrow> u64 \<Rightarrow> did_store io" where
  "delete_identity_namespace X store did expected_generation =
     delete_identity_namespace_inner X store did expected_generation False"

definition delete_identity_namespace_discarding_pending ::
  "ext \<Rightarrow> did_store \<Rightarrow> string \<Rightarrow> u64 \<Rightarrow> did_store io" where
  "delete_identity_namespace_discarding_pending X store did expected_generation =
     delete_identity_namespace_inner X store did expected_generation True"

end
