(* ===== verification/Namespace_Properties.thy ===== *)
theory Namespace_Properties
  imports Recovery Namespace
begin

text \<open>
  Properties of the deletion of an identity: what it removes, and that it is atomic under every
  schedule of failures, also when the recovery is itself interrupted any number of times.
\<close>

section \<open>The disks of a deletion\<close>

text \<open>\<open>d\<close> is the disk before, \<open>g\<close> its registry, \<open>r\<close> the record that goes, \<open>n\<close> the next generation.\<close>

definition entry_removed :: "identity_registry \<Rightarrow> identity_record \<Rightarrow> u64 \<Rightarrow> identity_registry" where
  "entry_removed g r n = g\<lparr>rg_identities := btree_remove (ir_did r) (rg_identities g), rg_generation := n\<rparr>"

abbreviation secret_names :: "ext \<Rightarrow> identity_record \<Rightarrow> string set" where
  "secret_names X r \<equiv> record_path X ` set (namespace_refs r)"

definition deleted :: "ext \<Rightarrow> disk \<Rightarrow> identity_registry \<Rightarrow> identity_record \<Rightarrow> u64 \<Rightarrow> disk" where
  "deleted X d g r n = d\<lparr>
     d_records := without (secret_names X r) (d_records d),
     d_identities := dir_del (identity_path X (ir_identity_id r)) (d_identities d),
     d_registry := Some (Parsed (entry_removed g r n))\<rparr>"

definition deletion_journal :: "creation_journal \<Rightarrow> identity_record \<Rightarrow> bool" where
  "deletion_journal j r \<longleftrightarrow> cj_kind j = CJ_NamespaceDelete \<and> cj_identity_id j = ir_identity_id r
     \<and> cj_did j = ir_did r \<and> cj_secret_refs j = namespace_refs r \<and> cj_valid j"

text \<open>A deletion under way: the journal is there, and any part of the work may be done.\<close>

definition deleting ::
  "ext \<Rightarrow> disk \<Rightarrow> identity_registry \<Rightarrow> identity_record \<Rightarrow> u64 \<Rightarrow> creation_journal \<Rightarrow> disk \<Rightarrow> bool" where
  "deleting X d g r n j d' \<longleftrightarrow> (\<exists>rs ids reg.
     d' = d\<lparr>d_journals := dir_put (journal_path X (cj_transaction_id j)) (Parsed j) (d_journals d),
            d_records := rs, d_identities := ids, d_registry := reg\<rparr>
     \<and> without (secret_names X r) rs = without (secret_names X r) (d_records d)
     \<and> dir_del (identity_path X (ir_identity_id r)) ids
         = dir_del (identity_path X (ir_identity_id r)) (d_identities d)
     \<and> (reg = d_registry d \<or> reg = Some (Parsed (entry_removed g r n))))"

lemma deletingI:
  assumes "d' = d\<lparr>d_journals := dir_put (journal_path X (cj_transaction_id j)) (Parsed j) (d_journals d),
      d_records := rs, d_identities := ids, d_registry := reg\<rparr>"
    "without (secret_names X r) rs = without (secret_names X r) (d_records d)"
    "dir_del (identity_path X (ir_identity_id r)) ids = dir_del (identity_path X (ir_identity_id r)) (d_identities d)"
    "reg = d_registry d \<or> reg = Some (Parsed (entry_removed g r n))"
  shows "deleting X d g r n j d'"
  unfolding deleting_def by (intro exI [of _ rs] exI [of _ ids] exI [of _ reg] conjI assms)

lemma deletingE:
  assumes "deleting X d g r n j d'"
  obtains rs ids reg where "d' = d\<lparr>d_journals := dir_put (journal_path X (cj_transaction_id j)) (Parsed j) (d_journals d),
      d_records := rs, d_identities := ids, d_registry := reg\<rparr>"
    "without (secret_names X r) rs = without (secret_names X r) (d_records d)"
    "dir_del (identity_path X (ir_identity_id r)) ids = dir_del (identity_path X (ir_identity_id r)) (d_identities d)"
    "reg = d_registry d \<or> reg = Some (Parsed (entry_removed g r n))"
  using assms unfolding deleting_def by blast

section \<open>Each step keeps the deletion under way\<close>

lemma deleting_steps:
  assumes "deleting X d g r n j d'"
  shows "p \<in> secret_names X r \<Longrightarrow> deleting X d g r n j (d'\<lparr>d_records := dir_del p (d_records d')\<rparr>)"
    and "deleting X d g r n j (d'\<lparr>d_identities := dir_del (identity_path X (ir_identity_id r)) (d_identities d')\<rparr>)"
    and "deleting X d g r n j (d'\<lparr>d_registry := Some (Parsed (entry_removed g r n))\<rparr>)"
proof -
  from assms obtain rs ids reg where d': "d' = d\<lparr>d_journals := dir_put (journal_path X (cj_transaction_id j)) (Parsed j) (d_journals d),
      d_records := rs, d_identities := ids, d_registry := reg\<rparr>"
    and s: "without (secret_names X r) rs = without (secret_names X r) (d_records d)"
    "dir_del (identity_path X (ir_identity_id r)) ids = dir_del (identity_path X (ir_identity_id r)) (d_identities d)"
    "reg = d_registry d \<or> reg = Some (Parsed (entry_removed g r n))"
    by (rule deletingE)
  have del: "without P (dir_del p rs) = without P rs" if "p \<in> P" for p P and rs :: "encrypted_record dir"
    using that by (simp add: without_without insert_absorb flip: without_del)
  show "deleting X d g r n j (d'\<lparr>d_records := dir_del p (d_records d')\<rparr>)" if "p \<in> secret_names X r"
    by (rule deletingI [where rs = "dir_del p rs" and ids = ids and reg = reg]) (use s del [OF that] in \<open>simp_all add: d'\<close>)
  show "deleting X d g r n j (d'\<lparr>d_identities := dir_del (identity_path X (ir_identity_id r)) (d_identities d')\<rparr>)"
    by (rule deletingI [where rs = rs and reg = reg and ids = "dir_del (identity_path X (ir_identity_id r)) ids"])
       (use s in \<open>simp_all add: d' without_without flip: without_del\<close>)
  show "deleting X d g r n j (d'\<lparr>d_registry := Some (Parsed (entry_removed g r n))\<rparr>)"
    by (rule deletingI [where rs = rs and ids = ids and reg = "Some (Parsed (entry_removed g r n))"]) (use s in \<open>simp_all add: d'\<close>)
qed

text \<open>The removal of the identity and of its entry, common to the deletion and to its recovery.\<close>

lemma deleted_eq:
  assumes "deleting X d g r n j d'" "dir_get (d_journals d) (journal_path X (cj_transaction_id j)) = None"
    "reg = Some (Parsed (entry_removed g r n))"
  shows "d'\<lparr>d_records := without (secret_names X r) (d_records d'),
      d_identities := dir_del (identity_path X (ir_identity_id r)) (d_identities d'),
      d_registry := reg,
      d_journals := dir_del (journal_path X (cj_transaction_id j)) (d_journals d')\<rparr> = deleted X d g r n"
  using assms(1) by (rule deletingE) (simp add: deleted_def assms dir_del_put_fresh)

lemma safe_deletion_steps:
  assumes "calm c" and I: "deleting X d g r n j (w_disk c)"
    and "fk_store_root ks = root" "\<And>w. calm w \<Longrightarrow> deleting X d g r n j (w_disk w)
      \<Longrightarrow> d_records (w_disk w) = without (secret_names X r) (d_records d)
      \<Longrightarrow> d_identities (w_disk w) = dir_del (identity_path X (ir_identity_id r)) (d_identities d)
      \<Longrightarrow> d_registry (w_disk w) = d_registry (w_disk c) \<Longrightarrow> safe (f ()) Q E w"
    and "\<And>e w. deleting X d g r n j (w_disk w) \<Longrightarrow> E e w"
  shows "safe (bnd (foreach (ks_delete X ks (guard_of root)) (namespace_refs r)) (\<lambda>_.
      bnd (remove_identity X root (guard_of root) (ir_identity_id r)) f)) Q E c"
proof (rule safe_bnd [OF safe_mono [OF safe_delete_all
        [where I = "deleting X d g r n j", OF assms(1,3) I]]])
  fix u and w :: world
  let ?d = "(w_disk w)\<lparr>d_identities := dir_del (identity_path X (ir_identity_id r)) (d_identities (w_disk w))\<rparr>"
  assume w: "deleting X d g r n j (w_disk w) \<and> w_disk w = (w_disk c)\<lparr>d_records :=
    without (secret_names X r) (d_records (w_disk c))\<rparr>"
  then have "deleting X d g r n j ?d" using deleting_steps(2) by blast
  moreover have "d_records ?d = without (secret_names X r) (d_records d)"
    "d_identities ?d = dir_del (identity_path X (ir_identity_id r)) (d_identities d)"
    using w I by (auto elim!: deletingE)
  ultimately show "calm w \<longrightarrow> safe (bnd (remove_identity X root (guard_of root) (ir_identity_id r)) f) Q E w"
    using w assms(4,5) by (auto intro!: safe_bnd safe_remove_identity)
qed (use deleting_steps(1) [OF _ imageI] assms(5) in auto)

lemma deleting_start:
  "deleting X d g r n j (d\<lparr>d_journals := dir_put (journal_path X (cj_transaction_id j)) (Parsed j) (d_journals d)\<rparr>)"
  by (rule deletingI [where rs = "d_records d" and ids = "d_identities d" and reg = "d_registry d"]) simp_all

lemma new_deletion_journal:
  "deletion_journal (new_namespace_delete tid (ir_identity_id r) (ir_did r) (namespace_refs r) t) r"
  "cj_transaction_id (new_namespace_delete tid i did refs t) = tid"
  by (simp_all add: deletion_journal_def new_namespace_delete_def)

section \<open>The deletion\<close>

text \<open>What a deletion may leave: the old disk, the final one, or one from which it can be resumed.\<close>

definition resumable :: "ext \<Rightarrow> disk \<Rightarrow> identity_registry \<Rightarrow> identity_record \<Rightarrow> u64 \<Rightarrow> disk \<Rightarrow> bool" where
  "resumable X d g r n d' \<longleftrightarrow> (\<exists>j. deletion_journal j r \<and> deleting X d g r n j d'
     \<and> dir_get (d_journals d) (journal_path X (cj_transaction_id j)) = None)"

lemma safe_delete_record:
  fixes store defines "rt \<equiv> ds_runtime store"
  assumes c: "calm c" and rt: "wf_runtime rt" and n: "checked_add1 (rg_generation g) = Some n"
    and fresh: "\<And>k. dir_get (d_journals (w_disk c)) (journal_path X (b64u_encode X (w_random c k 16))) = None"
  shows "safe (delete_record X store (guard_of (rt_root rt)) g (ir_did r) r)
    (\<lambda>store' w. w_disk w = deleted X (w_disk c) g r n \<and> store' = store\<lparr>ds_registry_generation := n\<rparr>)
    (\<lambda>_ w. w_disk w = w_disk c \<or> w_disk w = deleted X (w_disk c) g r n \<or> resumable X (w_disk c) g r n (w_disk w)) c"
    (is "safe _ ?Q ?E c")
proof -
  let ?g = "guard_of (rt_root rt)"
  have tail: "safe (bnd (lift (ok_or (checked_add1 (rg_generation g)) Conflict)) (\<lambda>generation.
      bnd (write_registry (rt_root rt) ?g (g\<lparr>rg_identities := btree_remove (ir_did r) (rg_identities g),
               rg_generation := generation\<rparr>)) (\<lambda>_.
      bnd (remove_journal X (rt_root rt) ?g (cj_transaction_id j)) (\<lambda>_.
      ret (store\<lparr>ds_registry_generation := generation\<rparr>))))) ?Q ?E w"
    if w: "calm w" "deleting X (w_disk c) g r n j (w_disk w)"
      "d_records (w_disk w) = without (secret_names X r) (d_records (w_disk c))"
      "d_identities (w_disk w) = dir_del (identity_path X (ir_identity_id r)) (d_identities (w_disk c))"
      and j: "deletion_journal j r" "dir_get (d_journals (w_disk c)) (journal_path X (cj_transaction_id j)) = None"
    for w j
  proof -
    have res: "resumable X (w_disk c) g r n d'" if "deleting X (w_disk c) g r n j d'" for d'
      using that j by (auto simp: resumable_def)
    note reg = deleting_steps(3) [OF w(2)]
    have "(w_disk w)\<lparr>d_registry := Some (Parsed (entry_removed g r n)),
        d_journals := dir_del (journal_path X (cj_transaction_id j)) (d_journals (w_disk w))\<rparr> = deleted X (w_disk c) g r n"
      using deleted_eq [OF reg j(2) refl] w(3,4) w(2) by (auto elim!: deletingE simp: without_without)
    with n w res [OF w(2)] res [OF reg] show ?thesis
      by (auto intro!: safe_bnd safe_lift safe_write_registry safe_remove_journal safe_ret
          simp: entry_removed_def)
  qed
  have body: "safe (bnd (foreach (ks_delete X (rt_key_store rt) ?g) (namespace_refs r)) (\<lambda>_.
      bnd (remove_identity X (rt_root rt) ?g (ir_identity_id r)) (\<lambda>_.
      bnd (lift (ok_or (checked_add1 (rg_generation g)) Conflict)) (\<lambda>generation.
      bnd (write_registry (rt_root rt) ?g (g\<lparr>rg_identities := btree_remove (ir_did r) (rg_identities g),
               rg_generation := generation\<rparr>)) (\<lambda>_.
      bnd (remove_journal X (rt_root rt) ?g (cj_transaction_id j)) (\<lambda>_.
      ret (store\<lparr>ds_registry_generation := generation\<rparr>))))))) ?Q ?E w"
    if "calm w" "deleting X (w_disk c) g r n j (w_disk w)" "deletion_journal j r"
      "dir_get (d_journals (w_disk c)) (journal_path X (cj_transaction_id j)) = None" for w j
    by (rule safe_deletion_steps [OF that(1,2)])
       (use rt that tail in \<open>auto simp: resumable_def\<close>)
  have start: "safe (bnd (write_journal X (rt_root rt) ?g j) (\<lambda>_.
      bnd (foreach (ks_delete X (rt_key_store rt) ?g) (namespace_refs r)) (\<lambda>_.
      bnd (remove_identity X (rt_root rt) ?g (ir_identity_id r)) (\<lambda>_.
      bnd (lift (ok_or (checked_add1 (rg_generation g)) Conflict)) (\<lambda>generation.
      bnd (write_registry (rt_root rt) ?g (g\<lparr>rg_identities := btree_remove (ir_did r) (rg_identities g),
               rg_generation := generation\<rparr>)) (\<lambda>_.
      bnd (remove_journal X (rt_root rt) ?g (cj_transaction_id j)) (\<lambda>_.
      ret (store\<lparr>ds_registry_generation := generation\<rparr>)))))))) ?Q ?E w"
    if "calm w" "w_disk w = w_disk c" "deletion_journal j r"
      "dir_get (d_journals (w_disk c)) (journal_path X (cj_transaction_id j)) = None" for w j
    by (rule safe_bnd, rule safe_write_journal)
       (use that body [OF _ _ that(3,4)] deleting_start [of X "w_disk c" g r n j] in \<open>auto simp: resumable_def\<close>)
  show ?thesis
    unfolding delete_record_def Let_def random_id_def now_rfc3339_def bnd_assoc bnd_ret rt_def [symmetric]
    using c fresh start [OF _ _ new_deletion_journal(1), unfolded new_deletion_journal(2)]
    by (auto intro!: safe_bnd [OF safe_fill_bytes] safe_bnd [OF safe_utc_now])
qed

section \<open>Recovery\<close>

lemma decode_entry_removed:
  assumes "decode_registry c = Inr g"
  shows "decode_registry (Some (Parsed (entry_removed g r n))) = Inr (entry_removed g r n)"
  using assms
  by (cases c rule: decode_registry.cases)
     (auto simp: entry_removed_def default_registry_def split: if_splits)

lemma not_named_removed: "\<not> names_identity (entry_removed g r n) (ir_did r) i"
  by (simp add: names_identity_def entry_removed_def)

lemma deleting_registry:
  assumes "deleting X d g r n j d'" "registry_at d = Inr g"
  shows "registry_at d' = Inr g \<and> d_registry d' = d_registry d
    \<or> registry_at d' = Inr (entry_removed g r n) \<and> d_registry d' = Some (Parsed (entry_removed g r n))"
  using assms(1) by (rule deletingE)
    (use assms(2) decode_entry_removed [OF assms(2)] in \<open>auto simp del: decode_registry.simps\<close>)

text \<open>The facts about the disk before that recovery rests on.\<close>

definition deletion_ready ::
  "ext \<Rightarrow> disk \<Rightarrow> identity_registry \<Rightarrow> identity_record \<Rightarrow> u64 \<Rightarrow> bool" where
  "deletion_ready X d g r n \<longleftrightarrow> quiescent d \<and> registry_at d = Inr g
     \<and> names_identity g (ir_did r) (ir_identity_id r) \<and> checked_add1 (rg_generation g) = Some n
     \<and> named_files X"

lemma deleting_journals:
  assumes "deletion_ready X d g r n" "deletion_journal j r" "deleting X d g r n j d'"
    "dir_get (d_journals d) (journal_path X (cj_transaction_id j)) = None"
  shows "entries_of cj_valid (d_journals d') = Inr [j]"
    "entries_of uj_valid (d_update_journals d') = Inr []"
proof -
  have json: "extension (journal_path X (cj_transaction_id j)) = Some ''json''"
    using assms(1) by (simp add: deletion_ready_def journal_path_def named_files_def)
  show "entries_of cj_valid (d_journals d') = Inr [j]"
    by (rule deletingE [OF assms(3)])
       (use json assms(1,2,4) in \<open>simp add: entries_of_put_new deletion_ready_def quiescent_def deletion_journal_def\<close>)
  show "entries_of uj_valid (d_update_journals d') = Inr []"
    by (rule deletingE [OF assms(3)]) (use assms(1) in \<open>simp add: deletion_ready_def quiescent_def\<close>)
qed

lemma deleted_quiescent:
  assumes "deletion_ready X d g r n"
  shows "quiescent (deleted X d g r n)" "registry_at (deleted X d g r n) = Inr (entry_removed g r n)"
  using assms decode_entry_removed [of "d_registry d" g r n]
  by (simp_all add: deletion_ready_def quiescent_def deleted_def del: decode_registry.simps)

lemma safe_recover_journal_deletion:
  assumes "calm c" "wf_runtime rt" "deletion_ready X d g r n" "deletion_journal j r"
    "deleting X d g r n j (w_disk c)" "registry_at (w_disk c) = Inr g1"
    "dir_get (d_journals d) (journal_path X (cj_transaction_id j)) = None"
  shows "safe (recover_journal X rt (guard_of (rt_root rt)) g1 j)
    (\<lambda>_ w. w_disk w = deleted X d g r n)
    (\<lambda>_ w. deleting X d g r n j (w_disk w)) c"
    (is "safe _ ?Q ?E c")
proof -
  let ?g = "guard_of (rt_root rt)"
  let ?finish = "\<lambda>registry. bnd (remove_journal X (rt_root rt) ?g (cj_transaction_id j)) (\<lambda>_. ret registry)"
  have ready: "registry_at d = Inr g" "names_identity g (ir_did r) (ir_identity_id r)"
    "checked_add1 (rg_generation g) = Some n" using assms(3) by (simp_all add: deletion_ready_def)
  have finish: "safe (?finish x) ?Q ?E w"
    if "calm w" "deleting X d g r n j (w_disk w)" "d_registry (w_disk w) = Some (Parsed (entry_removed g r n))"
      "d_records (w_disk w) = without (secret_names X r) (d_records d)"
      "d_identities (w_disk w) = dir_del (identity_path X (ir_identity_id r)) (d_identities d)" for x w
  proof -
    have "(w_disk w)\<lparr>d_journals := dir_del (journal_path X (cj_transaction_id j)) (d_journals (w_disk w))\<rparr>
        = deleted X d g r n"
      using that(2) by (rule deletingE) (use that(3-5) assms(7) in \<open>simp add: deleted_def dir_del_put_fresh\<close>)
    with that(1,2) show ?thesis by (auto intro!: safe_bnd safe_remove_journal safe_ret)
  qed
  have entry: "safe (bnd (if names_identity g1 (ir_did r) (ir_identity_id r)
       then bnd (lift (ok_or (checked_add1 (rg_generation g1)) Conflict)) (\<lambda>generation.
            let registry = g1\<lparr>rg_identities := btree_remove (ir_did r) (rg_identities g1), rg_generation := generation\<rparr>
            in bnd (write_registry (rt_root rt) ?g registry) (\<lambda>_. ret registry))
       else ret g1) ?finish) ?Q ?E w"
    if w: "calm w" "deleting X d g r n j (w_disk w)" "d_registry (w_disk w) = d_registry (w_disk c)"
      "d_records (w_disk w) = without (secret_names X r) (d_records d)"
      "d_identities (w_disk w) = dir_del (identity_path X (ir_identity_id r)) (d_identities d)" for w
    using deleting_registry [OF assms(5) ready(1)]
  proof (elim disjE conjE)
    assume "registry_at (w_disk c) = Inr g"
    with assms(6) have g1: "g1 = g" by simp
    show ?thesis
      unfolding g1 using ready(2,3) w(1,2) deleting_steps(3) [OF w(2)]
        finish [of "w\<lparr>w_disk := (w_disk w)\<lparr>d_registry := Some (Parsed (entry_removed g r n))\<rparr>\<rparr>"] w(4,5)
      by (auto intro!: safe_bnd [OF safe_write_registry] simp: Let_def bnd_assoc entry_removed_def)
  next
    assume r: "registry_at (w_disk c) = Inr (entry_removed g r n)"
      "d_registry (w_disk c) = Some (Parsed (entry_removed g r n))"
    with assms(6) have "g1 = entry_removed g r n" by simp
    with finish [OF w(1,2) _ w(4,5)] w(3) r(2) show ?thesis by (simp add: not_named_removed)
  qed
  have j: "cj_kind j = CJ_NamespaceDelete" "cj_identity_id j = ir_identity_id r" "cj_did j = ir_did r"
    "cj_secret_refs j = namespace_refs r" using assms(4) by (simp_all add: deletion_journal_def)
  show ?thesis
    unfolding recover_journal_def Let_def j creation_journal_kind.case
    by (rule safe_deletion_steps [OF assms(1,5)])
       (simp add: assms(2), rule entry [unfolded Let_def], assumption+)
qed

lemma safe_recover_deleting:
  assumes "calm c" "wf_runtime rt" "deletion_ready X d g r n" "resumable X d g r n (w_disk c)"
  shows "safe (recover X rt) (\<lambda>_ w. w_disk w = deleted X d g r n)
    (\<lambda>_ w. w_disk w = deleted X d g r n \<or> resumable X d g r n (w_disk w)) c"
proof -
  from assms(4) obtain j where j: "deletion_journal j r" "deleting X d g r n j (w_disk c)"
    "dir_get (d_journals d) (journal_path X (cj_transaction_id j)) = None" by (auto simp: resumable_def)
  have res: "resumable X d g r n d'" if "deleting X d g r n j d'" for d'
    using that j by (auto simp: resumable_def)
  note js = deleting_journals [OF assms(3) j]
  have tail: "safe (bnd (recover_update_journals X rt (guard_of (rt_root rt))) (\<lambda>_. read_registry))
      (\<lambda>_ w. w_disk w = deleted X d g r n) (\<lambda>_ w. w_disk w = deleted X d g r n \<or> resumable X d g r n (w_disk w)) w"
    if "calm w" "w_disk w = deleted X d g r n" for w
    unfolding recover_update_journals_def
    using that deleted_quiescent(1) [OF assms(3)]
    by (auto intro!: safe_intros simp: quiescent_def)
  show ?thesis
    unfolding recover_def using assms(1,2) js res [OF j(2)] tail
    by (auto intro!: safe_bnd [OF safe_acquire_write] safe_bnd [OF safe_read_registry]
        safe_bnd [OF safe_list_journals]
        safe_bnd [OF safe_mono [OF safe_recover_journal_deletion [OF _ _ assms(3) j(1) _ _ j(3)]]]
        simp: j(2) bnd_assoc res)
qed

text \<open>Without failures recovery also succeeds.\<close>

lemma recover_journal_deletion:
  assumes "calm w" "wf_runtime rt" "deletion_ready X d g r n" "deletion_journal j r"
    "deleting X d g r n j (w_disk w)" "registry_at (w_disk w) = Inr g1"
    "dir_get (d_journals d) (journal_path X (cj_transaction_id j)) = None"
  shows "\<exists>g2. recover_journal X rt (guard_of (rt_root rt)) g1 j w = (Inr g2, w\<lparr>w_disk := deleted X d g r n\<rparr>)"
proof -
  have ready: "registry_at d = Inr g" "names_identity g (ir_did r) (ir_identity_id r)"
    "checked_add1 (rg_generation g) = Some n" using assms(3) by (simp_all add: deletion_ready_def)
  have j: "cj_kind j = CJ_NamespaceDelete" "cj_identity_id j = ir_identity_id r" "cj_did j = ir_did r"
    "cj_secret_refs j = namespace_refs r" using assms(4) by (simp_all add: deletion_journal_def)
  have names: "names_identity g1 (ir_did r) (ir_identity_id r) \<Longrightarrow> g1 = g"
    "\<not> names_identity g1 (ir_did r) (ir_identity_id r) \<Longrightarrow> g1 = entry_removed g r n
       \<and> d_registry (w_disk w) = Some (Parsed (entry_removed g r n))"
    using deleting_registry [OF assms(5) ready(1)] ready(2) assms(6) not_named_removed by auto
  note final = deleted_eq [OF assms(5,7)]
  show ?thesis
  proof (cases "names_identity g1 (ir_did r) (ir_identity_id r)")
    case True
    with names(1) ready(3) assms(1,2) final [OF refl] show ?thesis
      by (simp add: recover_journal_def j Let_def bnd_def ret_def entry_removed_def)
  next
    case False
    have "(w_disk w)\<lparr>d_records := without (secret_names X r) (d_records (w_disk w)),
        d_identities := dir_del (identity_path X (ir_identity_id r)) (d_identities (w_disk w)),
        d_journals := dir_del (journal_path X (cj_transaction_id j)) (d_journals (w_disk w))\<rparr> = deleted X d g r n"
      by (rule deletingE [OF assms(5)])
         (use names(2) [OF False] assms(7) in \<open>simp add: deleted_def dir_del_put_fresh\<close>)
    with False assms(1,2) show ?thesis
      by (simp add: recover_journal_def j Let_def bnd_def ret_def)
  qed
qed

lemma recover_resumable:
  assumes "calm w" "wf_runtime rt" "deletion_ready X d g r n" "resumable X d g r n (w_disk w)"
  shows "recover X rt w = (Inr (entry_removed g r n), w\<lparr>w_disk := deleted X d g r n\<rparr>)"
proof -
  from assms(4) obtain j where j: "deletion_journal j r" "deleting X d g r n j (w_disk w)"
    "dir_get (d_journals d) (journal_path X (cj_transaction_id j)) = None" by (auto simp: resumable_def)
  have "registry_at d = Inr g" using assms(3) by (simp add: deletion_ready_def)
  then obtain g1 where g1: "registry_at (w_disk w) = Inr g1"
    using deleting_registry [OF j(2)] by blast
  from recover_journal_deletion [OF assms(1-3) j(1,2) g1 j(3)] obtain g2 where
    "recover_journal X rt (guard_of (rt_root rt)) g1 j w = (Inr g2, w\<lparr>w_disk := deleted X d g r n\<rparr>)" by blast
  from recover_one [OF assms(2,1) g1 deleting_journals(1) [OF assms(3) j] this]
    deleted_quiescent [OF assms(3)] assms(1)
  show ?thesis by (simp add: quiescent_def)
qed

lemma safe_delete_namespace:
  fixes store defines "rt \<equiv> ds_runtime store"
  assumes "calm c" "wf_runtime rt"
    and "\<And>k. dir_get (d_journals (w_disk c)) (journal_path X (b64u_encode X (w_random c k 16))) = None"
    and "registry_at (w_disk c) = Inr g" "btree_get (rg_identities g) did = Some s"
    and "identity_at X (w_disk c) (is_identity_id s) = Inr r" "ir_did r = did"
    and "checked_add1 (rg_generation g) = Some n"
  shows "safe (delete_identity_namespace_inner X store did expected discard)
    (\<lambda>store' w. w_disk w = deleted X (w_disk c) g r n \<and> store' = store\<lparr>ds_registry_generation := n\<rparr>
        \<and> expected = rg_generation g)
    (\<lambda>_ w. w_disk w = w_disk c \<or> w_disk w = deleted X (w_disk c) g r n \<or> resumable X (w_disk c) g r n (w_disk w)) c"
proof -
  have del: "safe (delete_record X store (guard_of (rt_root rt)) g did r)
    (\<lambda>store' w. w_disk w = deleted X (w_disk c) g r n \<and> store' = store\<lparr>ds_registry_generation := n\<rparr>)
    (\<lambda>_ w. w_disk w = w_disk c \<or> w_disk w = deleted X (w_disk c) g r n \<or> resumable X (w_disk c) g r n (w_disk w)) c"
    using safe_delete_record [of c store, folded rt_def, OF assms(2,3) assms(9,4), of r] assms(8)
    by (auto elim!: safe_mono)
  show ?thesis
    unfolding delete_identity_namespace_inner_def rt_def [symmetric] using assms(2-9) del
    by (auto intro!: check_intros safe_bnd [OF safe_read_registry] safe_if safe_raise safe_ret)
qed

text \<open>
  C3: Deleting an identity is atomic and restartable. Whatever system call fails in the deletion,
  and however often the recovery that follows is itself interrupted, the first recovery that is not
  interrupted succeeds and leaves either the store as it was, or the store without the identity: its
  record, its registry entry and the secrets of its managed keys are gone and nothing else changed.
  A deletion that returned is of the second kind.
\<close>
theorem deletion_atomic_and_restartable:
  assumes "wf_runtime (ds_runtime store)" "named_files X" "fresh_names X w" "quiescent (w_disk w)"
    and "registry_at (w_disk w) = Inr g" "btree_get (rg_identities g) did = Some s"
    and "identity_at X (w_disk w) (is_identity_id s) = Inr r" "ir_did r = did"
    and "checked_add1 (rg_generation g) = Some n"
    and "delete_identity_namespace_inner X store did expected discard w = (res, w1)"
    and "attempts X (ds_runtime store) (w_disk w1) d1" "calm w2" "w_disk w2 = d1"
  shows "\<exists>g2 d2. recover X (ds_runtime store) w2 = (Inr g2, w2\<lparr>w_disk := d2\<rparr>)
    \<and> (d2 = w_disk w \<or> d2 = deleted X (w_disk w) g r n)
    \<and> (is_ok res \<longrightarrow> d2 = deleted X (w_disk w) g r n)"
proof -
  let ?rt = "ds_runtime store"
  let ?d = "w_disk w"
  have ready: "deletion_ready X ?d g r n"
    using assms(2,4-9) identity_at_id [OF assms(7)] by (simp add: deletion_ready_def names_identity_def)
  have "dir_get (d_journals ?d) (journal_path X (b64u_encode X (w_random (core w) k 16))) = None" for k
    using assms(3) by (simp add: fresh_names_def Let_def)
  then have "safe (delete_identity_namespace_inner X store did expected discard)
    (\<lambda>store' w'. w_disk w' = deleted X ?d g r n \<and> store' = store\<lparr>ds_registry_generation := n\<rparr>
        \<and> expected = rg_generation g)
    (\<lambda>_ w'. w_disk w' = ?d \<or> w_disk w' = deleted X ?d g r n \<or> resumable X ?d g r n (w_disk w')) (core w)"
    using safe_delete_namespace [of "core w" store X g did s r n] assms(1,5-9) by simp
  from safe_run_world [OF this assms(10)]
  have out: "w_disk w1 = ?d \<or> w_disk w1 = deleted X ?d g r n \<or> resumable X ?d g r n (w_disk w1)"
    "is_ok res \<Longrightarrow> w_disk w1 = deleted X ?d g r n"
    by (auto split: sum.splits simp: is_ok_iff)
  have still: "recover X ?rt w2 = (Inr g', w2\<lparr>w_disk := d'\<rparr>)"
    if "w_disk w2 = d'" "quiescent d'" "registry_at d' = Inr g'" for d' g'
    using recover_quiescent [OF assms(1,12), of X] that by simp
  have keep: "d1 = d'" if "w_disk w1 = d'" "quiescent d'" for d'
    by (rule attempts_keep [where P = "\<lambda>x. x = d'", OF assms(11) that(1)])
       (use safe_recover_quiescent [OF _ assms(1)] that(2) in auto)
  note quiet = deleted_quiescent [OF ready]
  from out(1) show ?thesis
  proof (elim disjE)
    assume 1: "w_disk w1 = ?d"
    with keep [OF 1 assms(4)] assms(13) have "w_disk w2 = ?d" by simp
    from still [OF this assms(4,5)] out(2) 1 show ?thesis by metis
  next
    assume 1: "w_disk w1 = deleted X ?d g r n"
    with keep [OF 1 quiet(1)] assms(13) have "w_disk w2 = deleted X ?d g r n" by simp
    from still [OF this quiet] show ?thesis by blast
  next
    assume 1: "resumable X ?d g r n (w_disk w1)"
    have "d1 = deleted X ?d g r n \<or> resumable X ?d g r n d1"
    proof (rule attempts_keep [where P = "\<lambda>x. x = deleted X ?d g r n \<or> resumable X ?d g r n x", OF assms(11)])
      fix c :: world assume c: "calm c" "w_disk c = deleted X ?d g r n \<or> resumable X ?d g r n (w_disk c)"
      let ?P = "\<lambda>w. w_disk w = deleted X ?d g r n \<or> resumable X ?d g r n (w_disk w)"
      from c(2) show "safe (recover X ?rt) (\<lambda>_. ?P) (\<lambda>_. ?P) c"
      proof
        assume d: "w_disk c = deleted X ?d g r n"
        show ?thesis
          by (rule safe_mono [OF safe_recover_quiescent [OF c(1) assms(1)]]) (simp_all add: d quiet)
      next
        assume "resumable X ?d g r n (w_disk c)"
        from safe_recover_deleting [OF c(1) assms(1) ready this] show ?thesis by (rule safe_mono) simp_all
      qed
    qed (simp add: 1)
    with still [OF _ quiet] recover_resumable [OF assms(12,1) ready] assms(13) show ?thesis by blast
  qed
qed

text \<open>A store with one identity and its secret.\<close>

definition delete_world :: "string option list \<Rightarrow> world" where
  "delete_world fs = (holding_world sample_record fs)\<lparr>w_disk := (holding sample_record)\<lparr>d_records :=
     [(record_path sample_ext (key_secret_ref ''i'' sample_metadata), Unparsable)]\<rparr>\<rparr>"

abbreviation sample_summary :: identity_summary where
  "sample_summary \<equiv> summary sample_record"

definition sample_registry_one :: identity_registry where
  "sample_registry_one = \<lparr>rg_schema_version = 1, rg_generation = 1, rg_identities = [(sample_did, sample_summary)]\<rparr>"

lemma delete_world_facts:
  "named_files sample_ext" "fresh_names sample_ext (delete_world fs)" "quiescent (w_disk (delete_world fs))"
  "registry_at (w_disk (delete_world fs)) = Inr sample_registry_one"
  "btree_get (rg_identities sample_registry_one) sample_did = Some sample_summary"
  "identity_at sample_ext (w_disk (delete_world fs)) (is_identity_id sample_summary) = Inr sample_record"
  "ir_did sample_record = sample_did" "checked_add1 (rg_generation sample_registry_one) = Some 2"
proof -
  show "named_files sample_ext" by (rule sample_named_files)
  have key: "storage_key sample_ext (CHR ''u'' # replicate 16 c) \<noteq> storage_key sample_ext ''i''" for c
    by (simp add: storage_key_def sample_ext_def)
  have "record_path sample_ext r \<noteq> record_path sample_ext (key_secret_ref ''i'' sample_metadata)"
    if "sr_identity_id r = CHR ''u'' # replicate 16 c" for r c
  proof
    assume "record_path sample_ext r = record_path sample_ext (key_secret_ref ''i'' sample_metadata)"
    then have "r = key_secret_ref ''i'' sample_metadata"
      by (simp add: record_path_def record_storage_key_def sample_ext_def record_hash_input_inject)
    with that show False by (auto simp: key_secret_ref_def)
  qed
  with key show "fresh_names sample_ext (delete_world fs)"
    by (auto simp: fresh_names_def Let_def delete_world_def holding_def holding_world_def empty_disk_def
        sample_world_def sample_random_def dir_get_def sample_b64u identity_path_def sample_record_id)
  show "quiescent (w_disk (delete_world fs))"
    by (simp add: quiescent_def delete_world_def holding_def empty_disk_def)
  show "registry_at (w_disk (delete_world fs)) = Inr sample_registry_one"
    unfolding delete_world_def holding_world_def sample_world_def by code_simp
  show "btree_get (rg_identities sample_registry_one) sample_did = Some sample_summary" by code_simp
  show "identity_at sample_ext (w_disk (delete_world fs)) (is_identity_id sample_summary) = Inr sample_record"
    unfolding delete_world_def by simp code_simp
  show "ir_did sample_record = sample_did" "checked_add1 (rg_generation sample_registry_one) = Some 2"
    by code_simp+
qed

theorem deletion_atomic_and_restartable_witness:
  "\<exists>g2 d2 w1. w1 = snd (delete_identity_namespace_inner sample_ext (sample_store\<lparr>ds_registry_generation := 1\<rparr>)
       sample_did 1 False (delete_world (replicate 20 None @ [Some ''disk full''])))
     \<and> recover sample_ext sample_runtime (core w1) = (Inr g2, (core w1)\<lparr>w_disk := d2\<rparr>)
     \<and> (d2 = w_disk (delete_world []) \<or> d2 = deleted sample_ext (w_disk (delete_world [])) sample_registry_one sample_record 2)"
proof -
  let ?store = "sample_store\<lparr>ds_registry_generation := 1\<rparr>"
  let ?w = "delete_world (replicate 20 None @ [Some ''disk full''])"
  let ?run = "delete_identity_namespace_inner sample_ext ?store sample_did 1 False ?w"
  have rt: "ds_runtime ?store = sample_runtime" by (simp add: sample_store_def)
  have same: "w_disk ?w = w_disk (delete_world [])" by (simp add: delete_world_def)
  have "\<exists>g2 d2. recover sample_ext sample_runtime (core (snd ?run)) = (Inr g2, (core (snd ?run))\<lparr>w_disk := d2\<rparr>)
    \<and> (d2 = w_disk ?w \<or> d2 = deleted sample_ext (w_disk ?w) sample_registry_one sample_record 2)"
    using deletion_atomic_and_restartable [where store = ?store, OF _ delete_world_facts
        prod.collapse [symmetric] attempts.none core_calm(1) core_selects(1)] by (fastforce simp: rt)
  then show ?thesis unfolding same by blast
qed

section \<open>Retries and discards\<close>

text \<open>
  C32: Deleting is idempotent: when the caller repeats a deletion that returned, with the generation
  it had used, the call succeeds, changes nothing and brings the handle up to date.
\<close>
theorem deletion_retry_succeeds:
  assumes "wf_runtime (ds_runtime store)" "fresh_names X w"
    and "registry_at (w_disk w) = Inr g" "btree_get (rg_identities g) did = Some s"
    and "identity_at X (w_disk w) (is_identity_id s) = Inr r" "ir_did r = did"
    and "checked_add1 (rg_generation g) = Some n"
    and "delete_identity_namespace_inner X store did expected discard w = (Inr store', w')"
  shows "delete_identity_namespace_inner X store did expected discard' (core w') = (Inr store', core w')"
proof -
  have fresh: "dir_get (d_journals (w_disk (core w))) (journal_path X (b64u_encode X (w_random (core w) k 16))) = None" for k
    using assms(2) by (simp add: fresh_names_def Let_def)
  from safe_run_world [OF safe_delete_namespace [OF core_calm(1) assms(1) fresh _ assms(4) _ assms(6,7)] assms(8)]
    assms(3,5) have d: "w_disk w' = deleted X (w_disk w) g r n" and s: "store' = store\<lparr>ds_registry_generation := n\<rparr>"
    and e: "expected = rg_generation g" by auto
  have reg: "registry_at (w_disk w') = Inr (entry_removed g r n)"
    unfolding d using decode_entry_removed [OF assms(3)] by (simp add: deleted_def del: decode_registry.simps)
  have "n \<noteq> expected" "n = saturating_add1 expected"
    using assms(7) by (auto simp: e checked_add1_def saturating_add1_def split: if_splits)
  with reg assms(1,6) s show ?thesis
    unfolding delete_identity_namespace_inner_def
    by (auto simp: entry_removed_def bnd_def ret_def)
qed

theorem deletion_retry_succeeds_witness:
  "\<exists>store' w'. delete_identity_namespace_inner sample_ext (sample_store\<lparr>ds_registry_generation := 1\<rparr>)
      sample_did 1 False (delete_world []) = (Inr store', w')
    \<and> delete_identity_namespace_inner sample_ext (sample_store\<lparr>ds_registry_generation := 1\<rparr>)
      sample_did 1 True (core w') = (Inr store', core w')"
proof -
  let ?run = "delete_identity_namespace_inner sample_ext (sample_store\<lparr>ds_registry_generation := 1\<rparr>)
      sample_did 1 False (delete_world [])"
  have "is_ok (fst ?run)" by code_simp
  then obtain store' w' where run: "?run = (Inr store', w')" by (cases ?run) (auto simp: is_ok_iff)
  have rt: "wf_runtime (ds_runtime (sample_store\<lparr>ds_registry_generation := 1\<rparr>))" by (simp add: sample_store_def)
  from deletion_retry_succeeds [OF rt delete_world_facts(2,4-8) run] run show ?thesis by blast
qed

text \<open>
  C33: Discarding an enrolment only ever removes an identity that is still enrolling, was never
  given root control and has no revision under way: on any other identity it fails and changes
  nothing, whatever fails on the way.
\<close>
theorem discard_only_unpublished:
  assumes "wf_runtime (ds_runtime store)" "registry_at (w_disk w) = Inr g"
    "btree_get (rg_identities g) did = Some s" "identity_at X (w_disk w) (is_identity_id s) = Inr r"
    "ir_state r \<noteq> Id_Enrolling \<or> ir_root_capability r \<noteq> Root_Absent \<or> ir_pending_revision r \<noteq> None
      \<or> ir_identity_id r \<noteq> expected_id"
    "discard_unpublished_enrollment X store did expected_id expected w = (res, w')"
  shows "\<not> is_ok res \<and> w_disk w' = w_disk w"
proof -
  have "safe (discard_unpublished_enrollment X store did expected_id expected)
    (\<lambda>_ _. False) (\<lambda>_ w'. w_disk w' = w_disk w) (core w)"
    unfolding discard_unpublished_enrollment_def using assms(1-5)
    by (auto intro!: check_intros safe_bnd [OF safe_read_registry])
  from safe_run_world [OF this assms(6)] show ?thesis by (auto split: sum.splits simp: is_ok_iff)
qed

theorem discard_only_unpublished_witness:
  "\<not> is_ok (fst (discard_unpublished_enrollment sample_ext (sample_store\<lparr>ds_registry_generation := 1\<rparr>)
      sample_did ''i'' 1 (delete_world [])))"
proof -
  have rt: "wf_runtime (ds_runtime (sample_store\<lparr>ds_registry_generation := 1\<rparr>))" by (simp add: sample_store_def)
  have "ir_state sample_record \<noteq> Id_Enrolling" by code_simp
  from discard_only_unpublished [OF rt delete_world_facts(4-6) disjI1 [OF this] prod.collapse [symmetric]]
  show ?thesis by blast
qed

section \<open>What deletion leaves behind\<close>

text \<open>
  An update that fails after writing its journal leaves the journal; a deletion of the identity
  ignores it, and recovery, which reads the identity of every update journal, then fails for good:
  the store cannot be opened any more.
\<close>

definition service_update :: document_update_spec where
  "service_update = \<lparr>us_request_signing_rotation = None, us_request_signing_mutations = [],
     us_device_mutations = [], us_services = Some []\<rparr>"

definition interrupted_update :: world where
  "interrupted_update = core (snd (prepare_update sample_ext (sample_handle sample_record) service_update
     (holding_world sample_record (replicate 15 None @ [Some ''disk full'']))))"

definition deleted_after_update :: "(did_error + did_store) \<times> world" where
  "deleted_after_update = delete_identity_namespace sample_ext (sample_store\<lparr>ds_registry_generation := 1\<rparr>)
     sample_did 1 interrupted_update"

theorem leftover_update_journal_blocks_store:
  "is_ok (fst deleted_after_update)
   \<and> fst (recover sample_ext sample_runtime (snd deleted_after_update)) = Inl IdentityNotFound"
  by code_simp

text \<open>
  Deleting an identity while discarding a pending rotation leaves the new private key sealed in the
  key store: it is named by the pending revision only, and the deletion goes by the key list.
\<close>

definition rotation_secret :: secret_ref where
  "rotation_secret = \<lparr>sr_identity_id = ''i'', sr_key_id = sample_did @ ''#new'', sr_role = RequestSigning, sr_version = 1\<rparr>"

definition rotating_record :: identity_record where
  "rotating_record = sample_record\<lparr>ir_pending_revision :=
     Some (sample_revision\<lparr>pr_pending_secret_refs := [rotation_secret]\<rparr>)\<rparr>"

definition rotating_world :: world where
  "rotating_world = snd (ks_seal_if_absent sample_ext (file_key_store_new ''store'') (guard_of ''store'')
     sample_key rotation_secret ''private'' (holding_world rotating_record []))"

definition discarded :: "(did_error + did_store) \<times> world" where
  "discarded = delete_identity_namespace_discarding_pending sample_ext
     (sample_store\<lparr>ds_registry_generation := 1\<rparr>) sample_did 1 rotating_world"

theorem discarded_rotation_key_survives:
  "is_ok (fst discarded) \<and> d_identities (w_disk (snd discarded)) = []
   \<and> fst (ks_open sample_ext sample_key rotation_secret (snd discarded)) = Inr ''private''"
  by code_simp

end
