(* ===== verification/Update_Recovery.thy ===== *)
theory Update_Recovery
  imports Recovery
begin

text \<open>
  Preparing and aborting a revision under every failure schedule: the disks an interruption can
  leave, what the recovery of update journals makes of them, and the resulting atomicity.
\<close>

section \<open>Common parts\<close>

abbreviation ref_names :: "ext \<Rightarrow> secret_ref list \<Rightarrow> string set" where
  "ref_names X refs \<equiv> record_path X ` set refs"

text \<open>
  An update under way on the disk \<open>d\<close> with journal \<open>j\<close>: besides the journal, only the secrets the
  journal names and the identity files differ, and these two satisfy \<open>P\<close>.
\<close>

definition working ::
  "ext \<Rightarrow> disk \<Rightarrow> update_journal \<Rightarrow> (encrypted_record dir \<Rightarrow> identity_record dir \<Rightarrow> bool) \<Rightarrow> disk \<Rightarrow> bool" where
  "working X d j P d' \<longleftrightarrow> (\<exists>rs ids.
     d' = d\<lparr>d_update_journals := dir_put (update_journal_path X (uj_revision_id j)) (Parsed j) (d_update_journals d),
            d_records := rs, d_identities := ids\<rparr>
     \<and> without (ref_names X (uj_secret_refs j)) rs = without (ref_names X (uj_secret_refs j)) (d_records d)
     \<and> P rs ids)"

lemma workingI:
  assumes "d' = d\<lparr>d_update_journals := dir_put (update_journal_path X (uj_revision_id j)) (Parsed j) (d_update_journals d),
      d_records := rs, d_identities := ids\<rparr>"
    "without (ref_names X (uj_secret_refs j)) rs = without (ref_names X (uj_secret_refs j)) (d_records d)" "P rs ids"
  shows "working X d j P d'"
  unfolding working_def by (intro exI [of _ rs] exI [of _ ids] conjI assms)

lemma workingE:
  assumes "working X d j P d'"
  obtains rs ids where "d' = d\<lparr>d_update_journals := dir_put (update_journal_path X (uj_revision_id j)) (Parsed j) (d_update_journals d),
      d_records := rs, d_identities := ids\<rparr>"
    "without (ref_names X (uj_secret_refs j)) rs = without (ref_names X (uj_secret_refs j)) (d_records d)" "P rs ids"
  using assms unfolding working_def by blast

lemma working_journals:
  assumes "quiescent d" "named_files X" "uj_valid j" "working X d j P d'"
  shows "entries_of cj_valid (d_journals d') = Inr []" "entries_of uj_valid (d_update_journals d') = Inr [j]"
    "dir_get (d_update_journals d) (update_journal_path X (uj_revision_id j)) = None"
proof -
  have json: "extension (update_journal_path X (uj_revision_id j)) = Some ''json''"
    using assms(2) by (simp add: update_journal_path_def named_files_def)
  show none: "dir_get (d_update_journals d) (update_journal_path X (uj_revision_id j)) = None"
    using assms(1) json unfolding quiescent_def by (blast intro: entries_of_none)
  show "entries_of cj_valid (d_journals d') = Inr []"
    by (rule workingE [OF assms(4)]) (use assms(1) in \<open>simp add: quiescent_def\<close>)
  show "entries_of uj_valid (d_update_journals d') = Inr [j]"
    by (rule workingE [OF assms(4)])
       (use none json assms(1,3) in \<open>simp add: quiescent_def entries_of_put_new\<close>)
qed

text \<open>Recovery of a store whose only journal is one of an update.\<close>

lemma safe_recover_update:
  assumes "calm c" "wf_runtime rt" "quiescent d" "named_files X" "uj_valid j" "working X d j P (w_disk c)"
    and work: "\<And>c. calm c \<Longrightarrow> working X d j P (w_disk c) \<Longrightarrow>
      safe (recover_update_journal X rt (guard_of (rt_root rt)) j) (\<lambda>_ w. F (w_disk w)) (\<lambda>_ w. working X d j P (w_disk w)) c"
  shows "safe (recover X rt) (\<lambda>_ w. F (w_disk w)) (\<lambda>_ w. F (w_disk w) \<or> working X d j P (w_disk w)) c"
proof -
  note js = working_journals [OF assms(3-6)]
  have "safe (bnd (recover_update_journal X rt (guard_of (rt_root rt)) j) ret)
      (\<lambda>_ w. F (w_disk w)) (\<lambda>_ w. F (w_disk w) \<or> working X d j P (w_disk w)) c"
    by (rule safe_bnd [OF safe_mono [OF work [OF assms(1,6)]]]) (auto intro!: safe_ret)
  then have "safe (recover_update_journals X rt (guard_of (rt_root rt)))
      (\<lambda>_ w. F (w_disk w)) (\<lambda>_ w. F (w_disk w) \<or> working X d j P (w_disk w)) c"
    unfolding recover_update_journals_def using assms(1,6) js
    by (auto intro!: safe_bnd [OF safe_list_update_journals])
  then have tail: "safe (bnd (recover_update_journals X rt (guard_of (rt_root rt))) (\<lambda>_. read_registry))
      (\<lambda>_ w. F (w_disk w)) (\<lambda>_ w. F (w_disk w) \<or> working X d j P (w_disk w)) c"
    by (rule safe_bnd [OF safe_mono]) (auto intro!: safe_read_registry)
  show ?thesis
    unfolding recover_def using assms(1,2,6) js tail
    by (auto intro!: safe_bnd [OF safe_acquire_write] safe_bnd [OF safe_read_registry] safe_bnd [OF safe_list_journals])
qed

lemma recover_update_ok:
  assumes "calm w" "wf_runtime rt" "quiescent d" "named_files X" "uj_valid j" "working X d j P (w_disk w)"
    and "recover_update_journal X rt (guard_of (rt_root rt)) j w = (Inr u, w')" "calm w'"
    and "registry_at d = Inr g" "d_registry (w_disk w') = d_registry d"
  shows "recover X rt w = (Inr g, w')"
proof -
  note js = working_journals [OF assms(3-6)]
  have "d_registry (w_disk w) = d_registry d" by (rule workingE [OF assms(6)]) simp
  with assms(1,2,7-) js show ?thesis
    by (simp add: recover_def recover_update_journals_def bnd_def ret_def)
qed

text \<open>
  An interrupted update settles: after any recoveries that failed, the next one that runs without
  failures ends on a disk satisfying \<open>F\<close>, or on the disk before the update.
\<close>

lemma update_settles:
  assumes rt: "wf_runtime rt" and d: "quiescent d" "named_files X" "registry_at d = Inr g"
    and F: "\<And>x. F x \<Longrightarrow> quiescent x \<and> d_registry x = d_registry d"
    and work: "\<And>c. uj_valid j \<Longrightarrow> calm c \<Longrightarrow> working X d j P (w_disk c) \<Longrightarrow>
      safe (recover_update_journal X rt (guard_of (rt_root rt)) j) (\<lambda>_ w. F (w_disk w)) (\<lambda>_ w. working X d j P (w_disk w)) c"
      "\<And>c. uj_valid j \<Longrightarrow> calm c \<Longrightarrow> working X d j P (w_disk c) \<Longrightarrow>
        \<exists>d'. recover_update_journal X rt (guard_of (rt_root rt)) j c = (Inr (), c\<lparr>w_disk := d'\<rparr>)"
    and run: "d1 = d \<or> F d1 \<or> uj_valid j \<and> working X d j P d1" "attempts X rt d1 (w_disk w)" "calm w"
  shows "is_ok (fst (recover X rt w)) \<and> (w_disk (snd (recover X rt w)) = d \<or> F (w_disk (snd (recover X rt w))))
    \<and> (F d1 \<longrightarrow> F (w_disk (snd (recover X rt w))))"
proof -
  have still: "recover X rt w = (Inr g, w)" if "quiescent (w_disk w)" "d_registry (w_disk w) = d_registry d"
    using recover_quiescent [OF rt run(3) that(1), of X] that(2) d(3) by simp
  have keep: "w_disk w = d1" if "quiescent d1"
    by (rule attempts_keep [where P = "\<lambda>x. x = d1", OF run(2)])
       (use safe_recover_quiescent [OF _ rt] that in auto)
  show ?thesis
  proof (cases "d1 = d \<or> F d1")
    case True
    with d(1) F have "quiescent d1" "d_registry d1 = d_registry d" by blast+
    with keep still True show ?thesis by auto
  next
    case False
    with run(1) have j: "uj_valid j" "working X d j P d1" by auto
    have "F (w_disk w) \<or> working X d j P (w_disk w)"
    proof (rule attempts_keep [where P = "\<lambda>x. F x \<or> working X d j P x", OF run(2)])
      fix c :: world assume c: "calm c" "F (w_disk c) \<or> working X d j P (w_disk c)"
      let ?P = "\<lambda>w. F (w_disk w) \<or> working X d j P (w_disk w)"
      from c(2) show "safe (recover X rt) (\<lambda>_. ?P) (\<lambda>_. ?P) c"
      proof
        assume x: "F (w_disk c)"
        show ?thesis by (rule safe_mono [OF safe_recover_quiescent [OF c(1) rt]]) (use x F in auto)
      next
        assume "working X d j P (w_disk c)"
        from safe_recover_update [OF c(1) rt d(1,2) j(1) this work(1) [OF j(1)]] show ?thesis
          by (rule safe_mono) auto
      qed
    qed (use j in simp)
    then show ?thesis
    proof
      assume x: "F (w_disk w)"
      with F still show ?thesis by simp
    next
      assume x: "working X d j P (w_disk w)"
      from work(2) [OF j(1) run(3) x] obtain d2 where
        r: "recover_update_journal X rt (guard_of (rt_root rt)) j w = (Inr (), w\<lparr>w_disk := d2\<rparr>)" ..
      from work(1) [OF j(1) run(3) x] have
        "safe (recover_update_journal X rt (guard_of (rt_root rt)) j) (\<lambda>_ w. F (w_disk w)) (\<lambda>_ w. working X d j P (w_disk w)) (core w)"
        using run(3) by simp
      from safe_run_world [OF this r] have w': "F d2" by simp
      have c: "calm (w\<lparr>w_disk := d2\<rparr>)" using run(3) by simp
      from recover_update_ok [OF run(3) rt d(1,2) j(1) x r c d(3)] F [OF w']
      show ?thesis using w' by simp
    qed
  qed
qed

text \<open>Deleting secrets that the journal names keeps the update under way.\<close>

lemma working_del:
  assumes "working X d j P d'" "r \<in> set (uj_secret_refs j)"
    and "\<And>rs ids. P rs ids \<Longrightarrow> P (dir_del (record_path X r) rs) ids"
  shows "working X d j P (d'\<lparr>d_records := dir_del (record_path X r) (d_records d')\<rparr>)"
proof (rule workingE [OF assms(1)])
  fix rs ids
  assume d': "d' = d\<lparr>d_update_journals := dir_put (update_journal_path X (uj_revision_id j)) (Parsed j) (d_update_journals d),
      d_records := rs, d_identities := ids\<rparr>"
    and s: "without (ref_names X (uj_secret_refs j)) rs = without (ref_names X (uj_secret_refs j)) (d_records d)" "P rs ids"
  have "without (ref_names X (uj_secret_refs j)) (dir_del (record_path X r) rs) = without (ref_names X (uj_secret_refs j)) rs"
    using assms(2) by (simp add: without_without insert_absorb flip: without_del)
  with s assms(3) show ?thesis
    by (intro workingI [where rs = "dir_del (record_path X r) rs" and ids = ids]) (simp_all add: d')
qed

lemma working_ids:
  assumes "working X d j P d'" "\<And>rs ids'. P rs ids' \<Longrightarrow> P rs ids"
  shows "working X d j P (d'\<lparr>d_identities := ids\<rparr>)"
proof (rule workingE [OF assms(1)])
  fix rs ids'
  assume "d' = d\<lparr>d_update_journals := dir_put (update_journal_path X (uj_revision_id j)) (Parsed j) (d_update_journals d),
      d_records := rs, d_identities := ids'\<rparr>"
    "without (ref_names X (uj_secret_refs j)) rs = without (ref_names X (uj_secret_refs j)) (d_records d)" "P rs ids'"
  with assms(2) show ?thesis by (intro workingI [where rs = rs and ids = ids]) simp_all
qed

lemma working_start:
  assumes "P (d_records d) (d_identities d)"
  shows "working X d j P (d\<lparr>d_update_journals :=
    dir_put (update_journal_path X (uj_revision_id j)) (Parsed j) (d_update_journals d)\<rparr>)"
  by (rule workingI [where rs = "d_records d" and ids = "d_identities d"]) (use assms in simp_all)

section \<open>Aborting\<close>

abbreviation cleared :: "identity_record \<Rightarrow> u64 \<Rightarrow> identity_record" where
  "cleared r n \<equiv> r\<lparr>ir_pending_revision := None, ir_generation := n\<rparr>"

abbreviation put_cleared :: "ext \<Rightarrow> identity_record \<Rightarrow> u64 \<Rightarrow> identity_record dir \<Rightarrow> identity_record dir" where
  "put_cleared X r n ids \<equiv> dir_put (identity_path X (ir_identity_id r)) (Parsed (cleared r n)) ids"

text \<open>The disk after an abort: the record without the revision, and without its secrets.\<close>

definition aborted :: "ext \<Rightarrow> disk \<Rightarrow> identity_record \<Rightarrow> pending_revision_record \<Rightarrow> u64 \<Rightarrow> disk" where
  "aborted X d r p n = d\<lparr>
     d_records := without (ref_names X (pr_pending_secret_refs p)) (d_records d),
     d_identities := put_cleared X r n (d_identities d)\<rparr>"

abbreviation abort_part :: "ext \<Rightarrow> disk \<Rightarrow> identity_record \<Rightarrow> u64 \<Rightarrow> encrypted_record dir \<Rightarrow> identity_record dir \<Rightarrow> bool" where
  "abort_part X d r n rs ids \<equiv> ids = d_identities d \<or> ids = put_cleared X r n (d_identities d)"

definition cleanup_journal :: "update_journal \<Rightarrow> identity_record \<Rightarrow> pending_revision_record \<Rightarrow> bool" where
  "cleanup_journal j r p \<longleftrightarrow> uj_kind j = UJ_Cleanup \<and> uj_identity_id j = ir_identity_id r
     \<and> uj_revision_id j = pr_revision_id p \<and> uj_secret_refs j = pr_pending_secret_refs p \<and> uj_valid j"

text \<open>What holds of the disk before an abort of revision \<open>p\<close> of the record \<open>r\<close>.\<close>

definition abort_ready ::
  "ext \<Rightarrow> disk \<Rightarrow> identity_record \<Rightarrow> pending_revision_record \<Rightarrow> u64 \<Rightarrow> bool" where
  "abort_ready X d r p n \<longleftrightarrow> quiescent d \<and> named_files X
     \<and> identity_at X d (ir_identity_id r) = Inr r \<and> ir_pending_revision r = Some p
     \<and> checked_add1 (ir_generation r) = Some n"

lemma abort_reads:
  assumes "abort_ready X d r p n" "working X d j (abort_part X d r n) d'"
  shows "d_identities d' = d_identities d \<and> identity_at X d' (ir_identity_id r) = Inr r
    \<or> d_identities d' = put_cleared X r n (d_identities d)
      \<and> identity_at X d' (ir_identity_id r) = Inr (cleared r n)"
proof (rule workingE [OF assms(2)])
  fix rs ids
  assume "d' = d\<lparr>d_update_journals := dir_put (update_journal_path X (uj_revision_id j)) (Parsed j) (d_update_journals d),
      d_records := rs, d_identities := ids\<rparr>" "abort_part X d r n rs ids"
  moreover have r: "identity_at X d (ir_identity_id r) = Inr r" using assms(1) by (simp add: abort_ready_def)
  ultimately show ?thesis
    using decode_identity_stable [OF r, where n = n and p = None] by (auto simp: disk_simps simp del: decode_identity.simps)
qed

lemma aborted_eq:
  assumes "working X d j (abort_part X d r n) d'" "cleanup_journal j r p"
    "dir_get (d_update_journals d) (update_journal_path X (uj_revision_id j)) = None"
  shows "d'\<lparr>d_records := without (ref_names X (pr_pending_secret_refs p)) (d_records d'),
      d_identities := put_cleared X r n (d_identities d),
      d_update_journals := dir_del (update_journal_path X (uj_revision_id j)) (d_update_journals d')\<rparr> = aborted X d r p n"
  using assms(1) by (rule workingE)
    (use assms(2,3) in \<open>simp add: aborted_def dir_del_put_fresh cleanup_journal_def\<close>)

text \<open>One recovery of the cleanup journal.\<close>

lemma safe_delete_pending:
  assumes "calm w" "fk_store_root ks = root" "abort_ready X d r p n" "cleanup_journal j r p"
    and w: "working X d j (abort_part X d r n) (w_disk w)"
      "d_identities (w_disk w) = put_cleared X r n (d_identities d)"
    and f: "\<And>v. calm v \<Longrightarrow> w_disk v = aborted X d r p n \<Longrightarrow> safe (f ()) Q E v"
      "\<And>e v. working X d j (abort_part X d r n) (w_disk v) \<Longrightarrow> E e v"
  shows "safe (bnd (foreach (ks_delete X ks (guard_of root)) (pr_pending_secret_refs p)) (\<lambda>_.
      bnd (remove_update_journal X root (guard_of root) (uj_revision_id j)) f)) Q E w"
proof (rule safe_bnd [OF safe_mono [OF safe_delete_all
        [where I = "working X d j (abort_part X d r n)", OF assms(1,2) w(1)]]])
  let ?refs = "pr_pending_secret_refs p"
  have j: "uj_secret_refs j = ?refs" "uj_valid j" and ready: "quiescent d" "named_files X"
    using assms(3,4) by (simp_all add: cleanup_journal_def abort_ready_def)
  note none = working_journals(3) [OF ready j(2) w(1)]
  fix u and v :: world
  assume v: "working X d j (abort_part X d r n) (w_disk v) \<and> w_disk v = (w_disk w)\<lparr>d_records :=
    without (ref_names X ?refs) (d_records (w_disk w))\<rparr>"
  have "(w_disk v)\<lparr>d_update_journals := dir_del (update_journal_path X (uj_revision_id j))
      (d_update_journals (w_disk v))\<rparr> = aborted X d r p n"
    by (rule workingE [OF w(1)]) (use v w(2) none j in \<open>simp add: aborted_def dir_del_put_fresh\<close>)
  with v f show "calm v \<longrightarrow> safe (bnd (remove_update_journal X root (guard_of root) (uj_revision_id j)) f) Q E v"
    by (auto intro!: safe_bnd [OF safe_remove_update_journal])
qed (use assms(4) f(2) working_del in \<open>auto simp: cleanup_journal_def\<close>)

lemma safe_clear_record:
  assumes "calm c" "wf_runtime rt" "abort_ready X d r p n" "cleanup_journal j r p"
    and w: "working X d j (abort_part X d r n) (w_disk c)" "d_identities (w_disk c) = d_identities d"
    and f: "\<And>v. calm v \<Longrightarrow> working X d j (abort_part X d r n) (w_disk v)
        \<Longrightarrow> d_identities (w_disk v) = put_cleared X r n (d_identities d) \<Longrightarrow> safe (f (cleared r n)) Q E v"
      "\<And>e v. working X d j (abort_part X d r n) (w_disk v) \<Longrightarrow> E e v"
  shows "safe (bnd (persist_record X rt (guard_of (rt_root rt)) (r\<lparr>ir_pending_revision := None\<rparr>)) f) Q E c"
proof -
  have "working X d j (abort_part X d r n) ((w_disk c)\<lparr>d_identities := put_cleared X r n (d_identities d)\<rparr>)"
    by (rule working_ids [OF w(1)]) simp
  moreover have "checked_add1 (ir_generation r) = Some n" using assms(3) by (simp add: abort_ready_def)
  ultimately show ?thesis
    unfolding persist_record_def Let_def using assms(1) w f
    by (auto intro!: check_intros safe_bnd [OF safe_write_identity] simp: bnd_assoc)
qed

text \<open>One recovery of the cleanup journal.\<close>

lemma safe_recover_cleanup:
  assumes "calm c" "wf_runtime rt" "abort_ready X d r p n" "cleanup_journal j r p"
    "working X d j (abort_part X d r n) (w_disk c)"
  shows "safe (recover_update_journal X rt (guard_of (rt_root rt)) j)
    (\<lambda>_ w. w_disk w = aborted X d r p n) (\<lambda>_ w. working X d j (abort_part X d r n) (w_disk w)) c"
    (is "safe _ ?Q ?E c")
proof -
  have j: "uj_kind j = UJ_Cleanup" "uj_identity_id j = ir_identity_id r" "uj_secret_refs j = pr_pending_secret_refs p"
    "uj_revision_id j = pr_revision_id p"
    using assms(4) by (simp_all add: cleanup_journal_def)
  have pend: "ir_pending_revision r = Some p" using assms(3) by (simp add: abort_ready_def)
  have delete: "safe (bnd (foreach (ks_delete X (rt_key_store rt) (guard_of (rt_root rt))) (pr_pending_secret_refs p)) (\<lambda>_.
      remove_update_journal X (rt_root rt) (guard_of (rt_root rt)) (uj_revision_id j))) ?Q ?E w"
    if "calm w" "working X d j (abort_part X d r n) (w_disk w)"
      "d_identities (w_disk w) = put_cleared X r n (d_identities d)" for w
    using safe_delete_pending [OF that(1) _ assms(3,4) that(2,3), of "rt_key_store rt" "rt_root rt" ret ?Q ?E]
      assms(2) by (auto intro: safe_ret)
  from abort_reads [OF assms(3,5)] show ?thesis
  proof (elim disjE conjE)
    assume "d_identities (w_disk c) = d_identities d" "identity_at X (w_disk c) (ir_identity_id r) = Inr r"
    with assms(1,5) pend delete show ?thesis
      unfolding recover_update_journal_def j(1-3)
      by (auto intro!: check_intros safe_clear_record [OF assms(1-5)] simp: names_pending_def j(4) bnd_assoc)
  next
    assume "d_identities (w_disk c) = put_cleared X r n (d_identities d)"
      "identity_at X (w_disk c) (ir_identity_id r) = Inr (cleared r n)"
    with delete [OF assms(1,5)] assms(1,5) show ?thesis
      unfolding recover_update_journal_def j(1-3)
      by (auto intro!: check_intros simp: names_pending_def bnd_assoc)
  qed
qed

lemma recover_cleanup_calm:
  assumes "calm c" "wf_runtime rt" "abort_ready X d r p n" "cleanup_journal j r p"
    "working X d j (abort_part X d r n) (w_disk c)"
  shows "\<exists>d'. recover_update_journal X rt (guard_of (rt_root rt)) j c = (Inr (), c\<lparr>w_disk := d'\<rparr>)"
proof -
  have j: "uj_kind j = UJ_Cleanup" "uj_identity_id j = ir_identity_id r" "uj_revision_id j = pr_revision_id p"
    "ir_pending_revision r = Some p" "checked_add1 (ir_generation r) = Some n"
    using assms(3,4) by (simp_all add: cleanup_journal_def abort_ready_def)
  from abort_reads [OF assms(3,5)] j assms(1,2) show ?thesis
    by (auto simp: recover_update_journal_def persist_record_def bnd_def ret_def names_pending_def Let_def)
qed

lemma aborted_settled:
  assumes "abort_ready X d r p n"
  shows "quiescent (aborted X d r p n) \<and> d_registry (aborted X d r p n) = d_registry d"
  using assms by (simp add: abort_ready_def aborted_def quiescent_def)

text \<open>The abort itself, under every failure schedule.\<close>

lemma safe_abort:
  fixes c defines "d \<equiv> w_disk c"
  assumes "calm c" "wf_runtime (di_runtime i)" "abort_ready X d r p n"
    and "di_identity_id i = ir_identity_id r" "pr_revision_id p = revision_id"
  shows "safe (abort_update_inner X i revision_id rejection) (\<lambda>i' w. w_disk w = aborted X d r p n \<and> di_record i' = cleared r n)
    (\<lambda>_ w. w_disk w = d \<or> w_disk w = aborted X d r p n
      \<or> (\<exists>j. cleanup_journal j r p \<and> working X d j (abort_part X d r n) (w_disk w))) c"
    (is "safe _ ?Q ?E c")
proof -
  let ?rt = "di_runtime i"
  let ?g = "guard_of (rt_root ?rt)"
  let ?j = "new_update_journal (pr_revision_id p) (ir_identity_id r) (pr_pending_secret_refs p) UJ_Cleanup"
  have j: "cleanup_journal (?j t) r p" for t
    by (simp add: cleanup_journal_def new_update_journal_def UPDATE_JOURNAL_SCHEMA_VERSION_def)
  have ready: "identity_at X (w_disk c) (ir_identity_id r) = Inr r" "ir_pending_revision r = Some p"
    using assms(4) by (simp_all add: abort_ready_def d_def)
  have tail: "safe (bnd (persist_record X ?rt ?g (r\<lparr>ir_pending_revision := None\<rparr>)) (\<lambda>r.
      bnd (foreach (ks_delete X ks ?g) (pr_pending_secret_refs p)) (\<lambda>_.
      bnd (remove_update_journal X (rt_root ?rt) ?g (pr_revision_id p)) (\<lambda>_. ret (replace_record i r))))) ?Q ?E v"
    if ks: "fk_store_root ks = rt_root ?rt" and v: "calm v" "working X d (?j t) (abort_part X d r n) (w_disk v)"
      "d_identities (w_disk v) = d_identities d" for ks v t
  proof (rule safe_clear_record [OF v(1) assms(3,4) j v(2,3)])
    fix w assume w: "calm w" "working X d (?j t) (abort_part X d r n) (w_disk w)"
      "d_identities (w_disk w) = put_cleared X r n (d_identities d)"
    have rev: "pr_revision_id p = uj_revision_id (?j t)" by (simp add: new_update_journal_def)
    show "safe (bnd (foreach (ks_delete X ks ?g) (pr_pending_secret_refs p)) (\<lambda>_.
      bnd (remove_update_journal X (rt_root ?rt) ?g (pr_revision_id p)) (\<lambda>_. ret (replace_record i (cleared r n))))) ?Q ?E w"
      by (subst rev, rule safe_delete_pending [OF w(1) ks assms(4) j w(2,3)])
         (use j in \<open>auto intro!: safe_ret simp: replace_record_def\<close>)
  qed (use j in blast)
  have start: "safe (bnd (write_update_journal X (rt_root ?rt) ?g (?j t)) (\<lambda>_.
      bnd (persist_record X ?rt ?g (r\<lparr>ir_pending_revision := None\<rparr>)) (\<lambda>r.
      bnd (foreach (ks_delete X ks ?g) (pr_pending_secret_refs p)) (\<lambda>_.
      bnd (remove_update_journal X (rt_root ?rt) ?g (pr_revision_id p)) (\<lambda>_. ret (replace_record i r)))))) ?Q ?E v"
    if "fk_store_root ks = rt_root ?rt" "calm v" "w_disk v = w_disk c" for ks v t
  proof (rule safe_bnd [OF safe_write_update_journal])
    let ?v = "v\<lparr>w_disk := (w_disk v)\<lparr>d_update_journals :=
      dir_put (update_journal_path X (uj_revision_id (?j t))) (Parsed (?j t)) (d_update_journals (w_disk v))\<rparr>\<rparr>"
    have v: "calm ?v" "working X d (?j t) (abort_part X d r n) (w_disk ?v)" "d_identities (w_disk ?v) = d_identities d"
      using that working_start [of "abort_part X d r n" d X "?j t"] by (simp_all add: d_def)
    show "calm ?v \<longrightarrow> safe (bnd (persist_record X ?rt ?g (r\<lparr>ir_pending_revision := None\<rparr>)) (\<lambda>r.
      bnd (foreach (ks_delete X ks ?g) (pr_pending_secret_refs p)) (\<lambda>_.
      bnd (remove_update_journal X (rt_root ?rt) ?g (pr_revision_id p)) (\<lambda>_. ret (replace_record i r))))) ?Q ?E ?v"
      by (intro impI tail [OF that(1) v])
    show "?E (Io msg) ?v" "?E (Io msg) v" for msg using that(3) v(2) j by (auto simp: d_def)
  qed (rule that(2))
  show ?thesis
    unfolding abort_update_inner_def Let_def using assms(2,3,5,6) ready
    by (auto intro!: check_intros safe_bnd [OF safe_disk_pure [OF disk_pure_now]] start [unfolded d_def]
        dest!: required_pending_Inr simp: d_def)
qed

text \<open>
  C4: Aborting a revision is atomic and restartable. Whatever fails during the abort or during any
  number of recoveries after it, the next recovery without failures succeeds, and then the record
  either still has the revision, with all its secrets, or has lost it together with the secrets it
  had sealed; the latter always when the abort reported success.
\<close>
theorem abort_atomic_and_restartable:
  assumes "wf_runtime (di_runtime i)" "named_files X" "quiescent (w_disk w)"
    and "registry_at (w_disk w) = Inr g" "identity_at X (w_disk w) (di_identity_id i) = Inr r"
    and "ir_pending_revision r = Some p" "pr_revision_id p = revision_id" "checked_add1 (ir_generation r) = Some n"
    and "abort_update_inner X i revision_id rejection w = (res, w1)"
    and "attempts X (di_runtime i) (w_disk w1) (w_disk w2)" "calm w2"
  shows "is_ok (fst (recover X (di_runtime i) w2))
    \<and> (w_disk (snd (recover X (di_runtime i) w2)) = w_disk w
       \<or> w_disk (snd (recover X (di_runtime i) w2)) = aborted X (w_disk w) r p n)
    \<and> (is_ok res \<longrightarrow> w_disk (snd (recover X (di_runtime i) w2)) = aborted X (w_disk w) r p n)"
proof -
  let ?d = "w_disk w"
  have id: "di_identity_id i = ir_identity_id r" using identity_at_id [OF assms(5)] by simp
  have ready: "abort_ready X ?d r p n" using assms(2,3,5,6,8) id by (simp add: abort_ready_def)
  have "abort_ready X (w_disk (core w)) r p n" using ready by simp
  from safe_run_world [OF safe_abort [OF core_calm(1) assms(1) this id assms(7)] assms(9)]
  obtain j where out: "w_disk w1 = ?d \<or> w_disk w1 = aborted X ?d r p n
      \<or> cleanup_journal j r p \<and> working X ?d j (abort_part X ?d r n) (w_disk w1)"
    "is_ok res \<Longrightarrow> w_disk w1 = aborted X ?d r p n"
    by (auto split: sum.splits simp: is_ok_iff)
  have P: "working X ?d j (\<lambda>rs ids. cleanup_journal j r p \<and> abort_part X ?d r n rs ids)
    = (\<lambda>d'. cleanup_journal j r p \<and> working X ?d j (abort_part X ?d r n) d')"
    by (rule ext) (auto simp: working_def)
  have "is_ok (fst (recover X (di_runtime i) w2)) \<and> (w_disk (snd (recover X (di_runtime i) w2)) = ?d
       \<or> w_disk (snd (recover X (di_runtime i) w2)) = aborted X ?d r p n)
    \<and> (w_disk w1 = aborted X ?d r p n \<longrightarrow> w_disk (snd (recover X (di_runtime i) w2)) = aborted X ?d r p n)"
  proof (rule update_settles [where j = j and P = "\<lambda>rs ids. cleanup_journal j r p \<and> abort_part X ?d r n rs ids"
        and ?d1.0 = "w_disk w1" and F = "\<lambda>x. x = aborted X ?d r p n", OF assms(1,3,2,4) _ _ _ _ assms(10,11)], goal_cases)
    case (2 c)
    then show ?case unfolding P using safe_recover_cleanup [OF _ assms(1) ready] by (auto intro: safe_mono)
  next
    case (3 c)
    then show ?case unfolding P using recover_cleanup_calm [OF _ assms(1) ready] by blast
  next
    case 4
    then show ?case unfolding P using out(1) by (auto simp: cleanup_journal_def)
  qed (use aborted_settled [OF ready] in blast)
  with out(2) show ?thesis by blast
qed

lemma pending_world_facts:
  "named_files sample_ext" "quiescent (w_disk (holding_world sample_pending fs))"
  "registry_at (w_disk (holding_world sample_pending fs)) = Inr \<lparr>rg_schema_version = 1, rg_generation = 1,
     rg_identities = [(sample_did, summary sample_pending)]\<rparr>"
  "identity_at sample_ext (w_disk (holding_world sample_pending fs)) (di_identity_id (sample_handle sample_pending))
     = Inr sample_pending"
  "ir_pending_revision sample_pending = Some sample_revision" "pr_revision_id sample_revision = ''v''"
  "checked_add1 (ir_generation sample_pending) = Some 2"
proof -
  show "named_files sample_ext" by (rule sample_named_files)
  show "quiescent (w_disk (holding_world sample_pending fs))"
    by (simp add: quiescent_def holding_def empty_disk_def)
  show "registry_at (w_disk (holding_world sample_pending fs)) = Inr \<lparr>rg_schema_version = 1, rg_generation = 1,
     rg_identities = [(sample_did, summary sample_pending)]\<rparr>"
    unfolding holding_world_simps by code_simp
  show "identity_at sample_ext (w_disk (holding_world sample_pending fs)) (di_identity_id (sample_handle sample_pending))
     = Inr sample_pending"
    unfolding holding_world_simps sample_handle_simps by code_simp
  show "checked_add1 (ir_generation sample_pending) = Some 2" by code_simp
qed (simp_all add: sample_pending_def sample_revision_def)

lemma attempts_core: "attempts X rt (w_disk w) (w_disk (core w))"
  by (simp add: attempts.none)

theorem abort_atomic_and_restartable_witness:
  "\<exists>w1. w1 = snd (abort_update_inner sample_ext (sample_handle sample_pending) ''v'' None
       (holding_world sample_pending (replicate 12 None @ [Some ''disk full''])))
     \<and> is_ok (fst (recover sample_ext sample_runtime (core w1)))
     \<and> (w_disk (snd (recover sample_ext sample_runtime (core w1))) = holding sample_pending
       \<or> w_disk (snd (recover sample_ext sample_runtime (core w1)))
         = aborted sample_ext (holding sample_pending) sample_pending sample_revision 2)"
  using abort_atomic_and_restartable [OF sample_handle_simps(3) pending_world_facts prod.collapse [symmetric]
      attempts_core core_calm(1)] by simp

end
