(* ===== verification/Root_Transfer.thy ===== *)
theory Root_Transfer
  imports Crypto_Ops
begin

text \<open>
  \<open>root_transfer.rs\<close>: importing a wrapped root key (envelope checks, time window, key derivation,
  the journalled commit with its replay window), confirming the promotion, exporting the root key.
  Instants are counted in nanoseconds.
\<close>

section \<open>Constants and records\<close>

definition WRAPPED_ROOT_ENVELOPE_TYPE :: string where
  "WRAPPED_ROOT_ENVELOPE_TYPE = ''anp.identity.root-transfer.wrapped''"
definition WRAPPED_ROOT_ENVELOPE_VERSION :: u32 where "WRAPPED_ROOT_ENVELOPE_VERSION = 1"
definition MAX_TTL_SECONDS :: int where "MAX_TTL_SECONDS = 600"
definition CLOCK_SKEW_SECONDS :: int where "CLOCK_SKEW_SECONDS = 120"
definition NONCE_LEN :: nat where "NONCE_LEN = 12"
definition MAX_REPLAY_RECORDS :: nat where "MAX_REPLAY_RECORDS = 256"
definition KDF_SALT_LABEL :: bytes where
  "KDF_SALT_LABEL = ''anp-identity:root-transfer:salt:v1'' @ [CHR 0x00]"
definition KDF_INFO_LABEL :: bytes where
  "KDF_INFO_LABEL = ''anp-identity:root-transfer:aead:v1'' @ [CHR 0x00]"
definition SIGNATURE_LABEL :: bytes where
  "SIGNATURE_LABEL = ''anp-identity:root-transfer:signature:v1'' @ [CHR 0x00]"
definition ED25519_PKCS8_PREFIX :: bytes where
  "ED25519_PKCS8_PREFIX =
     [CHR 0x30, CHR 0x2E, CHR 0x02, CHR 0x01, CHR 0x00, CHR 0x30, CHR 0x05, CHR 0x06,
      CHR 0x03, CHR 0x2B, CHR 0x65, CHR 0x70, CHR 0x04, CHR 0x22, CHR 0x04, CHR 0x20]"

record root_transfer_context =
  rc_source_did :: string
  rc_target_did :: string
  rc_sender_device_id :: string
  rc_recipient_device_id :: string
  rc_recipient_agreement_kid :: string
  rc_root_kid :: string
  rc_checkpoint :: document_checkpoint
  rc_created_at :: string
  rc_expires_at :: string

record wrapped_root_envelope =
  we_envelope_type :: string
  we_version :: u32
  we_context :: root_transfer_context
  we_ephemeral_public_b64u :: string
  we_nonce_b64u :: string
  we_ciphertext_b64u :: string
  we_signature_b64u :: string

datatype root_transfer_import_outcome = Import_Pending | Import_Active

record root_promotion_spec =
  rp_document :: json
  rp_evidence :: verified_document_evidence

section \<open>Serialisation\<close>

definition json_u32 :: "u32 \<Rightarrow> json" where "json_u32 n = JNumber (PosInt (ucast n))"
definition json_u64 :: "u64 \<Rightarrow> json" where "json_u64 n = JNumber (PosInt n)"

definition checkpoint_json :: "document_checkpoint \<Rightarrow> json" where
  "checkpoint_json c =
     json_object [(''document_version'', json_u64 (ck_document_version c)),
       (''registry_version'', json_u64 (ck_registry_version c)),
       (''document_digest'', JString (ck_document_digest c))]"

definition context_json :: "root_transfer_context \<Rightarrow> json" where
  "context_json c =
     json_object [(''source_did'', JString (rc_source_did c)), (''target_did'', JString (rc_target_did c)),
       (''sender_device_id'', JString (rc_sender_device_id c)),
       (''recipient_device_id'', JString (rc_recipient_device_id c)),
       (''recipient_agreement_kid'', JString (rc_recipient_agreement_kid c)),
       (''root_kid'', JString (rc_root_kid c)), (''checkpoint'', checkpoint_json (rc_checkpoint c)),
       (''created_at'', JString (rc_created_at c)), (''expires_at'', JString (rc_expires_at c))]"

definition envelope_json :: "wrapped_root_envelope \<Rightarrow> json" where
  "envelope_json e =
     json_object [(''type'', JString (we_envelope_type e)), (''version'', json_u32 (we_version e)),
       (''context'', context_json (we_context e)),
       (''ephemeral_public_b64u'', JString (we_ephemeral_public_b64u e)),
       (''nonce_b64u'', JString (we_nonce_b64u e)),
       (''ciphertext_b64u'', JString (we_ciphertext_b64u e)),
       (''signature_b64u'', JString (we_signature_b64u e))]"

definition canonical :: "ext \<Rightarrow> json \<Rightarrow> bytes did_result" where
  "canonical X v = map_err Serialization (canonicalizer_to_vec X v)"

definition digest_serialized :: "ext \<Rightarrow> json \<Rightarrow> string did_result" where
  "digest_serialized X v =
     rbind (canonical X v) (\<lambda>b. Inr (''sha256:'' @ b64u_encode X (sha256 X b)))"

definition envelope_aad :: "ext \<Rightarrow> root_transfer_context \<Rightarrow> bytes \<Rightarrow> bytes \<Rightarrow> bytes did_result" where
  "envelope_aad X c ephemeral_public nonce =
     canonical X (json_object [(''type'', JString WRAPPED_ROOT_ENVELOPE_TYPE),
       (''version'', json_u32 WRAPPED_ROOT_ENVELOPE_VERSION), (''context'', context_json c),
       (''ephemeral_public_b64u'', JString (b64u_encode X ephemeral_public)),
       (''nonce_b64u'', JString (b64u_encode X nonce))])"

definition envelope_signature_input :: "ext \<Rightarrow> wrapped_root_envelope \<Rightarrow> bytes did_result" where
  "envelope_signature_input X e =
     rbind (canonical X (json_object [(''type'', JString (we_envelope_type e)),
              (''version'', json_u32 (we_version e)), (''context'', context_json (we_context e)),
              (''ephemeral_public_b64u'', JString (we_ephemeral_public_b64u e)),
              (''nonce_b64u'', JString (we_nonce_b64u e)),
              (''ciphertext_b64u'', JString (we_ciphertext_b64u e))])) (\<lambda>b.
       Inr (SIGNATURE_LABEL @ b))"

definition derive_transfer_key :: "ext \<Rightarrow> bytes \<Rightarrow> bytes \<Rightarrow> bytes did_result" where
  "derive_transfer_key X shared aad =
     ok_or (hkdf_sha256_expand X (sha256 X (KDF_SALT_LABEL @ aad)) shared (KDF_INFO_LABEL @ aad)) Crypto"

definition decode_fixed :: "ext \<Rightarrow> nat \<Rightarrow> string \<Rightarrow> bytes did_result" where
  "decode_fixed X n value =
     rbind (ok_or (b64u_decode X value) InvalidRootTransfer) (\<lambda>b.
     rbind (ensure (length b = n) InvalidRootTransfer) (\<lambda>_. Inr b))"

section \<open>Checks\<close>

definition parse_timestamp :: "ext \<Rightarrow> string \<Rightarrow> int did_result" where
  "parse_timestamp X value = ok_or (parse_rfc3339 X value) InvalidRootTransfer"

text \<open>\<open>chrono\<close>'s \<open>Duration::seconds\<close> and \<open>num_seconds\<close>, which rounds towards zero.\<close>

definition seconds :: "int \<Rightarrow> int" where "seconds n = n * 1000000000"

definition num_seconds :: "int \<Rightarrow> int" where
  "num_seconds ns = (if 0 \<le> ns then ns div 1000000000 else - ((- ns) div 1000000000))"

definition validate_time_window :: "ext \<Rightarrow> root_transfer_context \<Rightarrow> int \<Rightarrow> unit did_result" where
  "validate_time_window X c now =
     rbind (parse_timestamp X (rc_created_at c)) (\<lambda>created.
     rbind (parse_timestamp X (rc_expires_at c)) (\<lambda>expires.
     let ttl = num_seconds (expires - created) in
       ensure (\<not> (ttl \<le> 0 \<or> ttl > MAX_TTL_SECONDS
                  \<or> now < created - seconds CLOCK_SKEW_SECONDS
                  \<or> now > expires + seconds CLOCK_SKEW_SECONDS)) RootTransferExpired))"

definition validate_wrapped_envelope ::
  "ext \<Rightarrow> did_identity \<Rightarrow> wrapped_root_envelope \<Rightarrow> int \<Rightarrow> bool \<Rightarrow> unit did_result" where
  "validate_wrapped_envelope X i e now known_replay =
     (let c = we_context e in
     rbind (ensure (\<not> (we_envelope_type e \<noteq> WRAPPED_ROOT_ENVELOPE_TYPE
                       \<or> we_version e \<noteq> WRAPPED_ROOT_ENVELOPE_VERSION
                       \<or> rc_source_did c \<noteq> di_did i \<or> rc_target_did c \<noteq> di_did i
                       \<or> is_blank (rc_sender_device_id c) \<or> is_blank (rc_recipient_device_id c)))
              InvalidRootTransfer) (\<lambda>_.
     rbind (ok_or (ir_local_authorization (di_record i)) InvalidRootTransfer) (\<lambda>local.
     rbind (ensure (\<not> (la_device_id local \<noteq> rc_recipient_device_id c
                       \<or> la_e2ee_kid local \<noteq> rc_recipient_agreement_kid c
                       \<or> (\<not> known_replay \<and> ir_checkpoint (di_record i) \<noteq> Some (rc_checkpoint c))))
              InvalidRootTransfer) (\<lambda>_.
     rbind (validate_time_window X c now) (\<lambda>_.
     rbind (find_key_metadata i (rc_root_kid c)) (\<lambda>root.
     rbind (ensure (km_role root = RootControl) KeyRoleViolation) (\<lambda>_.
     rbind (method_public_key X i (km_kid root)) (\<lambda>public.
     rbind (ok_or (b64u_decode X (we_signature_b64u e)) InvalidRootTransfer) (\<lambda>signature.
     rbind (envelope_signature_input X e) (\<lambda>message.
       ensure (verify_message X public message signature) InvalidRootTransfer))))))))))"

definition verify_root_public :: "ext \<Rightarrow> identity_record \<Rightarrow> string \<Rightarrow> public_key \<Rightarrow> unit did_result" where
  "verify_root_public X r the_root_kid public =
     rbind (ok_or (find_verification_method X (ir_document r) the_root_kid) KeyNotFound) (\<lambda>method.
     rbind (ok_or (extract_public_key X method) InvalidPublicKey) (\<lambda>expected.
     rbind (ensure (public_keys_equal public expected) InvalidPublicKey) (\<lambda>_.
     rbind (root_key_fingerprint X (ir_document r)) (\<lambda>fingerprint.
       ensure (Some fingerprint = ir_root_key_fingerprint r) InvalidPublicKey))))"

definition rt_validate_checkpoint_progression ::
  "document_checkpoint option \<Rightarrow> verified_document_evidence \<Rightarrow> unit did_result" where
  "rt_validate_checkpoint_progression current next =
     rbind (ok_or current InvalidIdentity) (\<lambda>current.
       if ev_document_version next < ck_document_version current
          \<or> ev_registry_version next < ck_registry_version current
          \<or> (ev_document_version next = ck_document_version current
              \<and> ev_document_digest next \<noteq> ck_document_digest current)
       then Inl Conflict else Inr ())"

definition push_replay :: "identity_record \<Rightarrow> string \<Rightarrow> string \<Rightarrow> string \<Rightarrow> identity_record" where
  "push_replay r nonce transfer_digest expires_at =
     (let replays = ir_root_transfer_replays r @
            [\<lparr>rr_nonce = nonce, rr_transfer_digest = transfer_digest, rr_expires_at = expires_at\<rparr>]
      in r\<lparr>ir_root_transfer_replays :=
            (if length replays > MAX_REPLAY_RECORDS
             then drop (length replays - MAX_REPLAY_RECORDS) replays else replays)\<rparr>)"

section \<open>Importing a root key\<close>

definition timestamp :: "ext \<Rightarrow> int \<Rightarrow> string" where
  "timestamp X t = format_rfc3339_secs X t"

text \<open>\<open>position\<close> of the root key, and the change of the key at that index.\<close>

definition mark_root_pending :: "string \<Rightarrow> identity_record \<Rightarrow> identity_record did_result" where
  "mark_root_pending the_root_kid r =
     rbind (ok_or (update_first (\<lambda>k. km_role k = RootControl \<and> km_kid k = the_root_kid)
              (\<lambda>k. k\<lparr>km_origin := Managed, km_state := Key_Pending\<rparr>) (ir_keys r)) KeyNotFound) (\<lambda>keys.
       Inr (r\<lparr>ir_keys := keys, ir_root_capability := Root_Pending\<rparr>))"

definition seal_root_key ::
  "ext \<Rightarrow> store_runtime \<Rightarrow> store_write_guard \<Rightarrow> secret_ref \<Rightarrow> bytes \<Rightarrow> public_key \<Rightarrow> unit io" where
  "seal_root_key X rt guard secret_ref raw public =
     bnd (ks_seal_if_absent X (rt_key_store rt) guard (rt_root_key rt) secret_ref raw) (\<lambda>sealed.
       if sealed = AlreadyExists
       then bnd (ks_open X (rt_root_key rt) secret_ref) (\<lambda>persisted.
            bnd (lift (public_key_from_secret X RootControl persisted)) (\<lambda>actual.
              lift (ensure (public_keys_equal actual public) InvalidIdentity)))
       else ret ())"

text \<open>The registry entry of an existing identity, replaced by its new summary.\<close>

definition update_summary :: "string \<Rightarrow> store_write_guard \<Rightarrow> identity_record \<Rightarrow> unit io" where
  "update_summary root guard r =
     bnd read_registry (\<lambda>registry.
     bnd (lift (ensure (names_identity registry (ir_did r) (ir_identity_id r)) IdentityNotFound)) (\<lambda>_.
     bnd (lift (ok_or (checked_add1 (rg_generation registry)) Conflict)) (\<lambda>generation.
       write_registry root guard
         (registry\<lparr>rg_identities := btree_insert (ir_did r) (summary r) (rg_identities registry),
            rg_generation := generation\<rparr>))))"

definition import_new_root ::
  "ext \<Rightarrow> did_identity \<Rightarrow> store_write_guard \<Rightarrow> identity_record \<Rightarrow> string \<Rightarrow> bytes \<Rightarrow> public_key
     \<Rightarrow> string \<Rightarrow> string \<Rightarrow> string \<Rightarrow> (did_identity \<times> root_transfer_import_outcome) io" where
  "import_new_root X i guard r the_root_kid raw public replay_nonce transfer_digest replay_expires_at =
     (let rt = di_runtime i in
     bnd (lift (verify_root_public X r the_root_kid public)) (\<lambda>_.
     bnd (lift (ok_or (find (\<lambda>k. km_role k = RootControl \<and> km_kid k = the_root_kid) (ir_keys r))
            KeyNotFound)) (\<lambda>root.
     let secret_ref = \<lparr>sr_identity_id = ir_identity_id r, sr_key_id = the_root_kid,
           sr_role = RootControl, sr_version = km_version root\<rparr>
     in
     bnd (random_id X) (\<lambda>transaction_id.
     bnd utc_now (\<lambda>now.
     bnd (write_journal X (rt_root rt) guard
            (new_root_import transaction_id (ir_identity_id r) (ir_did r) [secret_ref] (timestamp X now))) (\<lambda>_.
     bnd (seal_root_key X rt guard secret_ref raw public) (\<lambda>_.
     bnd (lift (mark_root_pending the_root_kid r)) (\<lambda>r.
     let r = push_replay (r\<lparr>ir_pending_root_transfer :=
               Some \<lparr>pt_transfer_digest = transfer_digest, pt_root_kid = the_root_kid,
                     pt_imported_at = timestamp X now\<rparr>\<rparr>) replay_nonce transfer_digest replay_expires_at
     in
     bnd (lift (ok_or (checked_add1 (ir_generation r)) Conflict)) (\<lambda>generation.
     let r = r\<lparr>ir_generation := generation\<rparr> in
     bnd (write_identity X (rt_root rt) guard r) (\<lambda>_.
     bnd (update_summary (rt_root rt) guard r) (\<lambda>_.
     bnd (remove_journal X (rt_root rt) guard transaction_id) (\<lambda>_.
     ret (replace_record i r, Import_Pending)))))))))))))"

definition commit_pending_root ::
  "ext \<Rightarrow> did_identity \<Rightarrow> string \<Rightarrow> bytes \<Rightarrow> public_key \<Rightarrow> string \<Rightarrow> string \<Rightarrow> string
     \<Rightarrow> (did_identity \<times> root_transfer_import_outcome) io" where
  "commit_pending_root X i the_root_kid raw public replay_nonce transfer_digest replay_expires_at =
     bnd (acquire_write (di_runtime i)) (\<lambda>guard.
     bnd (read_identity X (di_identity_id i)) (\<lambda>r.
     bnd (lift (ensure (ir_generation r = ir_generation (di_record i) \<and> ir_state r = Id_Active) Conflict)) (\<lambda>_.
     bnd (lift (ensure (ir_pending_revision r = None) PendingRevisionExists)) (\<lambda>_.
       case find (\<lambda>p. rr_nonce p = replay_nonce) (ir_root_transfer_replays r) of
         Some replay \<Rightarrow>
           if rr_transfer_digest replay \<noteq> transfer_digest then raise InvalidRootTransfer
           else (case ir_root_capability r of
                   Root_Pending \<Rightarrow> ret (i, Import_Pending)
                 | Root_Active \<Rightarrow> ret (i, Import_Active)
                 | Root_Absent \<Rightarrow> raise InvalidIdentity)
       | None \<Rightarrow>
           if ir_root_capability r = Root_Active
           then bnd (lift (verify_root_public X r the_root_kid public)) (\<lambda>_.
                bnd (persist_state_transition X (di_runtime i) guard
                       (push_replay r replay_nonce transfer_digest replay_expires_at)) (\<lambda>r.
                ret (replace_record i r, Import_Active)))
           else (case ir_pending_root_transfer r of
                   Some pending \<Rightarrow>
                     if pt_transfer_digest pending = transfer_digest then ret (i, Import_Pending)
                     else raise PendingRootTransferExists
                 | None \<Rightarrow>
                     if ir_root_capability r \<noteq> Root_Absent then raise RootCapabilityUnavailable
                     else import_new_root X i guard r the_root_kid raw public replay_nonce
                            transfer_digest replay_expires_at)))))"

definition import_wrapped_root_at ::
  "ext \<Rightarrow> did_identity \<Rightarrow> wrapped_root_envelope \<Rightarrow> int
     \<Rightarrow> (did_identity \<times> root_transfer_import_outcome) io" where
  "import_wrapped_root_at X i e now =
     bnd (lift (digest_serialized X (envelope_json e))) (\<lambda>digest.
     let known_replay = list_ex (\<lambda>p. rr_nonce p = we_nonce_b64u e \<and> rr_transfer_digest p = digest)
           (ir_root_transfer_replays (di_record i))
     in
     bnd (lift (validate_wrapped_envelope X i e now known_replay)) (\<lambda>_.
     bnd (lift (decode_fixed X 32 (we_ephemeral_public_b64u e))) (\<lambda>ephemeral_public.
     bnd (lift (decode_fixed X NONCE_LEN (we_nonce_b64u e))) (\<lambda>nonce.
     bnd (lift (ok_or (b64u_decode X (we_ciphertext_b64u e)) InvalidRootTransfer)) (\<lambda>ciphertext.
     bnd (lift (managed_key_metadata i (rc_recipient_agreement_kid (we_context e)))) (\<lambda>agreement.
     bnd (lift (ensure (km_role agreement = E2eeAgreement \<and> km_state agreement = Key_Active)
            KeyRoleViolation)) (\<lambda>_.
     bnd (load_managed_secret X i agreement) (\<lambda>agreement_secret.
     bnd (lift (x25519_private_key agreement_secret)) (\<lambda>private.
     let shared = x25519_diffie_hellman X private ephemeral_public in
     bnd (lift (ensure (\<not> list_all (\<lambda>b. b = CHR 0x00) shared) InvalidPeerKey)) (\<lambda>_.
     bnd (lift (envelope_aad X (we_context e) ephemeral_public nonce)) (\<lambda>aad.
     bnd (lift (derive_transfer_key X shared aad)) (\<lambda>key.
     bnd (lift (ok_or (chacha20poly1305_decrypt X key nonce aad ciphertext) InvalidRootTransfer)) (\<lambda>raw.
     bnd (lift (ensure (length raw = 32) InvalidRootTransfer)) (\<lambda>_.
     commit_pending_root X i (rc_root_kid (we_context e)) raw (Ed25519 (ed25519_verifying_key X raw))
       (we_nonce_b64u e) digest (rc_expires_at (we_context e))))))))))))))))"

definition import_wrapped_root ::
  "ext \<Rightarrow> did_identity \<Rightarrow> wrapped_root_envelope \<Rightarrow> (did_identity \<times> root_transfer_import_outcome) io" where
  "import_wrapped_root X i e = bnd utc_now (\<lambda>now. import_wrapped_root_at X i e now)"

section \<open>Promotion and export\<close>

definition promoted_record ::
  "identity_record \<Rightarrow> root_promotion_spec \<Rightarrow> identity_record did_result" where
  "promoted_record r spec =
     rbind (ok_or (update_first (\<lambda>k. km_role k = RootControl \<and> km_origin k = Managed)
              (\<lambda>k. k\<lparr>km_state := Key_Active\<rparr>) (ir_keys r)) RootCapabilityUnavailable) (\<lambda>keys.
       Inr (r\<lparr>ir_keys := keys, ir_root_capability := Root_Active, ir_pending_root_transfer := None,
              ir_document := rp_document spec, ir_initial_publication_pending := False,
              ir_checkpoint := Some (checkpoint (rp_evidence spec)),
              ir_revision := ev_document_version (rp_evidence spec)\<rparr>))"

definition confirm_root_promotion :: "ext \<Rightarrow> did_identity \<Rightarrow> root_promotion_spec \<Rightarrow> did_identity io" where
  "confirm_root_promotion X i spec =
     bnd (lift (validate_verified_document X (rp_document spec) (rp_evidence spec))) (\<lambda>_.
     bnd (lift (ensure (get_str (rp_document spec) ''id'' = Some (di_did i)) InvalidRootTransfer)) (\<lambda>_.
     bnd (lift (root_key_fingerprint X (rp_document spec))) (\<lambda>fingerprint.
     bnd (lift (ensure (Some fingerprint = ir_root_key_fingerprint (di_record i)) InvalidRootTransfer)) (\<lambda>_.
     bnd (acquire_write (di_runtime i)) (\<lambda>guard.
     bnd (read_identity X (di_identity_id i)) (\<lambda>r.
     bnd (lift (ensure (ir_generation r = ir_generation (di_record i)) Conflict)) (\<lambda>_.
       if ir_root_capability r = Root_Active \<and> ir_pending_root_transfer r = None then ret i
       else
         bnd (lift (ensure (\<not> (ir_root_capability r \<noteq> Root_Pending \<or> ir_pending_root_transfer r = None))
                RootCapabilityUnavailable)) (\<lambda>_.
         bnd (lift (rt_validate_checkpoint_progression (ir_checkpoint r) (rp_evidence spec))) (\<lambda>_.
         bnd (lift (promoted_record r spec)) (\<lambda>r.
         bnd (persist_state_transition X (di_runtime i) guard r) (\<lambda>r.
         ret (replace_record i r))))))))))))"

definition export_root_private_key :: "ext \<Rightarrow> did_identity \<Rightarrow> string \<Rightarrow> bytes io" where
  "export_root_private_key X i the_root_kid =
     bnd (lift (ensure (ir_state (di_record i) = Id_Active \<and> ir_root_capability (di_record i) = Root_Active)
            RootCapabilityUnavailable)) (\<lambda>_.
     bnd (lift (managed_key_metadata i the_root_kid)) (\<lambda>root.
     bnd (lift (ensure (km_role root = RootControl \<and> km_state root = Key_Active)
            RootCapabilityUnavailable)) (\<lambda>_.
     bnd (load_managed_secret X i root) (\<lambda>secret.
     bnd (lift (ensure (length secret = 32) InvalidIdentity)) (\<lambda>_.
     ret (ED25519_PKCS8_PREFIX @ secret))))))"

section \<open>The sender\<close>

text \<open>The sender of an envelope, which the crate builds for its tests only.\<close>

record root_transfer_export_spec =
  rx_target_did :: string
  rx_sender_device_id :: string
  rx_recipient_device_id :: string
  rx_recipient_agreement_kid :: string
  rx_recipient_agreement_public :: bytes
  rx_root_kid :: string
  rx_ttl_seconds :: u32

definition root_signing_key :: "bytes \<Rightarrow> bytes did_result" where
  "root_signing_key secret = (if length secret \<noteq> 32 then Inl InvalidIdentity else Inr secret)"

definition validate_export_recipient ::
  "ext \<Rightarrow> did_identity \<Rightarrow> root_transfer_export_spec \<Rightarrow> unit did_result" where
  "validate_export_recipient X i spec =
     (let document = ir_document (di_record i); kid = rx_recipient_agreement_kid spec in
     rbind (canonicalize_kid (di_did i) kid) (\<lambda>canonical_kid.
     rbind (ensure (canonical_kid = kid) InvalidRootTransfer) (\<lambda>_.
     rbind (ensure (case ir_local_authorization (di_record i) of None \<Rightarrow> True
              | Some local \<Rightarrow> la_device_id local = rx_sender_device_id spec) InvalidRootTransfer) (\<lambda>_.
     rbind (ok_or (find_verification_method X document kid) InvalidRootTransfer) (\<lambda>method.
     rbind (ok_or (extract_public_key X method) InvalidPublicKey) (\<lambda>expected.
     rbind (ensure (public_keys_equal expected (X25519 (rx_recipient_agreement_public spec))
              \<and> relationship_contains document ''keyAgreement'' kid) InvalidRootTransfer) (\<lambda>_.
     rbind (ok_or (Option.bind (validate_device_manifest X document) (\<lambda>m. m)) InvalidRootTransfer) (\<lambda>manifest.
     let matches = filter (\<lambda>d. dm_device_id d = rx_recipient_device_id spec) (dm_devices manifest) in
       ensure (length matches = 1 \<and> dm_e2ee_key_id (hd matches) = kid) InvalidRootTransfer))))))))"

definition export_wrapped_root_inner ::
  "ext \<Rightarrow> did_identity \<Rightarrow> root_transfer_export_spec \<Rightarrow> int \<Rightarrow> bytes \<Rightarrow> bytes \<Rightarrow> wrapped_root_envelope io" where
  "export_wrapped_root_inner X i spec created_at ephemeral nonce =
     bnd (lift (ensure (\<not> (ir_state (di_record i) \<noteq> Id_Active
            \<or> ir_root_capability (di_record i) \<noteq> Root_Active
            \<or> rx_ttl_seconds spec = 0 \<or> int (unat (rx_ttl_seconds spec)) > MAX_TTL_SECONDS
            \<or> rx_target_did spec \<noteq> di_did i
            \<or> is_blank (rx_sender_device_id spec) \<or> is_blank (rx_recipient_device_id spec)))
            RootCapabilityUnavailable)) (\<lambda>_.
     bnd (lift (managed_key_metadata i (rx_root_kid spec))) (\<lambda>root.
     bnd (lift (ensure (km_role root = RootControl \<and> km_state root = Key_Active)
            RootCapabilityUnavailable)) (\<lambda>_.
     bnd (lift (ok_or (ir_checkpoint (di_record i)) InvalidIdentity)) (\<lambda>checkpoint.
     let c = \<lparr>rc_source_did = di_did i, rc_target_did = rx_target_did spec,
           rc_sender_device_id = rx_sender_device_id spec,
           rc_recipient_device_id = rx_recipient_device_id spec,
           rc_recipient_agreement_kid = rx_recipient_agreement_kid spec, rc_root_kid = km_kid root,
           rc_checkpoint = checkpoint, rc_created_at = timestamp X created_at,
           rc_expires_at = timestamp X (created_at + seconds (int (unat (rx_ttl_seconds spec))))\<rparr>;
         ephemeral_public = x25519_public_key X ephemeral;
         shared = x25519_diffie_hellman X ephemeral (rx_recipient_agreement_public spec)
     in
     bnd (lift (ensure (\<not> list_all (\<lambda>b. b = CHR 0x00) shared) InvalidPeerKey)) (\<lambda>_.
     bnd (lift (validate_export_recipient X i spec)) (\<lambda>_.
     bnd (lift (envelope_aad X c ephemeral_public nonce)) (\<lambda>aad.
     bnd (lift (derive_transfer_key X shared aad)) (\<lambda>key.
     bnd (load_managed_secret X i root) (\<lambda>root_secret.
     bnd (lift (ok_or (chacha20poly1305_encrypt X key nonce aad root_secret) Crypto)) (\<lambda>ciphertext.
     let e = \<lparr>we_envelope_type = WRAPPED_ROOT_ENVELOPE_TYPE, we_version = WRAPPED_ROOT_ENVELOPE_VERSION,
           we_context = c, we_ephemeral_public_b64u = b64u_encode X ephemeral_public,
           we_nonce_b64u = b64u_encode X nonce, we_ciphertext_b64u = b64u_encode X ciphertext,
           we_signature_b64u = []\<rparr>
     in
     bnd (lift (envelope_signature_input X e)) (\<lambda>signature_input.
     bnd (lift (root_signing_key root_secret)) (\<lambda>signing_key.
     ret (e\<lparr>we_signature_b64u := b64u_encode X (ed25519_sign X signing_key signature_input)\<rparr>)))))))))))))"

end
