(* ===== verification/Host_External.thy ===== *)
theory Host_External
  imports External
begin

text \<open>
  The code outside the repository that only the outer layers call: the parsing of private keys, the
  verification of identity transitions and the sealed hand-off of the \<open>anp\<close> crate, the keyed hash
  of \<open>hmac\<close> and the field parser of \<open>serde_json\<close>. Like \<^typ>\<open>ext\<close>, the functions are the fields of a
  record that the definitions take as a parameter, and nothing is assumed of them here.
\<close>

section \<open>Types of the anp crate\<close>

text \<open>\<open>PrivateKeyMaterial\<close>; the crate accepts only its two Curve25519 variants.\<close>

datatype private_key = Ed25519_Private bytes | X25519_Private bytes | Other_Private bytes

datatype transition_assurance =
    Assurance_Verified | Assurance_RecoveryVerified | Assurance_ProviderAsserted | Assurance_Unverified

record sealed_identity_ctx =
  sic_store_id :: string
  sic_identity_id :: string
  sic_did :: string

record sealed_authorization_context =
  sac_provider_instance_id :: string
  sac_parent_lease_id :: string
  sac_consumer :: string
  sac_capability :: string
  sac_store_id :: string
  sac_expires_at :: int

text \<open>\<open>SealedOperationBinding\<close>; the binding of an import of identity material has no \<open>kid\<close>.\<close>

record sealed_binding =
  sb_capability :: string
  sb_identity_id :: string
  sb_operation :: string
  sb_kid :: string
  sb_request_id :: string
  sb_recipient_public_key :: bytes
  sb_operation_input_digest :: string

datatype sealed_private_key_encoding = Sealed_Raw32 | Sealed_Pkcs8Der

datatype sealed_key_purpose =
    Sealed_RootControl | Sealed_Authentication | Sealed_DeviceAssertion
  | Sealed_ApplicationAssertion | Sealed_KeyAgreement

record sealed_material_key =
  smk_kid :: string
  smk_purpose :: sealed_key_purpose
  smk_encoding :: sealed_private_key_encoding

record sealed_root_evidence =
  sre_transfer_id :: string
  sre_source_did :: string
  sre_target_did :: string
  sre_sender_device_id :: string
  sre_recipient_device_id :: string
  sre_recipient_agreement_kid :: string
  sre_root_kid :: string
  sre_document_version :: "64 word"
  sre_registry_version :: "64 word"
  sre_document_digest :: string
  sre_accepted_at :: string

text \<open>\<open>SealedHandoff\<close>: the encapsulated key and the ciphertext.\<close>

record sealed_handoff =
  sh_encapped_key :: bytes
  sh_ciphertext :: bytes

section \<open>The external functions\<close>

text \<open>
  Sealing and generating a recipient take the random bytes they draw. The input of a structure is a
  JSON object, given by its fields in the order of the text with duplicates, or a JSON array, whose
  elements are the fields by position.
\<close>

record host_ext =
  private_key_from_pkcs8_der :: "bytes \<Rightarrow> private_key option"
  verify_active_e1_document :: "string \<Rightarrow> json \<Rightarrow> bool"
  verify_transition_hop :: "json \<Rightarrow> json \<Rightarrow> json option \<Rightarrow> transition_assurance option"
  hmac_sha256 :: "bytes \<Rightarrow> bytes \<Rightarrow> bytes option"
  serde_struct_input :: "bytes \<Rightarrow> ((string \<times> json) list + json list) option"
  sealed_recipient_public_key_digest :: "bytes \<Rightarrow> string"
  identity_ecdh_binding ::
    "sealed_identity_ctx \<Rightarrow> string \<Rightarrow> bytes \<Rightarrow> bytes \<Rightarrow> string \<Rightarrow> sealed_binding option"
  identity_enrollment_ecdh_binding ::
    "sealed_identity_ctx \<Rightarrow> string \<Rightarrow> string \<Rightarrow> bytes \<Rightarrow> bytes \<Rightarrow> string \<Rightarrow> sealed_binding option"
  identity_root_export_binding ::
    "sealed_identity_ctx \<Rightarrow> string \<Rightarrow> bytes \<Rightarrow> string \<Rightarrow> bool \<Rightarrow> sealed_binding option"
  identity_root_import_binding ::
    "sealed_identity_ctx \<Rightarrow> sealed_root_evidence \<Rightarrow> sealed_private_key_encoding \<Rightarrow> bytes \<Rightarrow> string
       \<Rightarrow> sealed_binding option"
  identity_material_import_binding ::
    "sealed_identity_ctx \<Rightarrow> string \<Rightarrow> bytes \<Rightarrow> bool \<Rightarrow> string \<Rightarrow> 64 word \<Rightarrow> 64 word
       \<Rightarrow> sealed_material_key list \<Rightarrow> sealed_binding option"
  identity_operation_aad ::
    "sealed_authorization_context \<Rightarrow> sealed_binding \<Rightarrow> sealed_identity_ctx \<Rightarrow> bytes option"
  identity_material_import_item_aad ::
    "sealed_authorization_context \<Rightarrow> sealed_binding \<Rightarrow> sealed_identity_ctx \<Rightarrow> nat \<Rightarrow> string \<Rightarrow> bytes option"
  sealed_seal :: "bytes \<Rightarrow> bytes \<Rightarrow> bytes \<Rightarrow> bytes \<Rightarrow> bytes \<Rightarrow> sealed_handoff option"
  sealed_from_parts :: "bytes \<Rightarrow> bytes \<Rightarrow> sealed_handoff option"
  sealed_recipient_generate :: "bytes \<Rightarrow> bytes"
  sealed_recipient_public :: "bytes \<Rightarrow> bytes"
  sealed_open :: "bytes \<Rightarrow> sealed_handoff \<Rightarrow> bytes \<Rightarrow> bytes \<Rightarrow> bytes option"
  sealed_secret_protocol :: string
  sealed_secret_info :: bytes
  sealed_handoff_suite :: string
  ecdh_sealed_operation :: string
  enrollment_ecdh_sealed_operation :: string
  root_export_sealed_operation :: string
  root_import_sealed_operation :: string

end
