(* ===== verification/Key_Import.thy ===== *)
theory Key_Import
  imports Root_Transfer Host_External
begin

text \<open>
  \<open>key_import.rs\<close>: importing an existing identity with its private keys, and the part of
  \<open>root_transfer.rs\<close> that imports a root key accepted by an older client.
\<close>

section \<open>Private keys\<close>

datatype private_key_encoding = Raw32 | Pkcs8Der

record imported_private_key =
  ip_kid :: string
  ip_role :: key_role
  ip_encoding :: private_key_encoding
  ip_secret :: bytes

record identity_import_spec =
  ii_verified_document :: json
  ii_evidence :: verified_document_evidence
  ii_capabilities :: capabilities
  ii_private_keys :: "imported_private_key list"

record request_signing_identity_import_spec =
  ri_verified_document :: json
  ri_evidence :: verified_document_evidence
  ri_capabilities :: capabilities
  ri_private_key :: imported_private_key

record device_identity_import_spec =
  dv_verified_document :: json
  dv_evidence :: verified_document_evidence
  dv_capabilities :: capabilities
  dv_signing_key :: imported_private_key
  dv_e2ee_key :: imported_private_key

record prepared_imported_key =
  pk_prepared_kid :: string
  pk_prepared_role :: key_role
  pk_raw :: bytes
  pk_public :: public_key

fun key_material_fits :: "key_role \<Rightarrow> private_key \<Rightarrow> bool" where
  "key_material_fits role (X25519_Private _) = (role = E2eeAgreement)"
| "key_material_fits role (Ed25519_Private _) = (role \<noteq> E2eeAgreement)"
| "key_material_fits role (Other_Private _) = False"

definition parse_private_key ::
  "host_ext \<Rightarrow> key_role \<Rightarrow> private_key_encoding \<Rightarrow> bytes \<Rightarrow> private_key did_result" where
  "parse_private_key H role encoding secret =
     rbind (case encoding of
              Raw32 \<Rightarrow>
                if length secret \<noteq> 32 then Inl InvalidIdentity
                else Inr (if role = E2eeAgreement then X25519_Private secret else Ed25519_Private secret)
            | Pkcs8Der \<Rightarrow> ok_or (private_key_from_pkcs8_der H secret) InvalidIdentity) (\<lambda>material.
     rbind (ensure (key_material_fits role material) KeyRoleViolation) (\<lambda>_. Inr material))"

fun raw_private_key :: "private_key \<Rightarrow> key_role \<Rightarrow> bytes did_result" where
  "raw_private_key (X25519_Private b) role = (if role = E2eeAgreement then Inr b else Inl KeyRoleViolation)"
| "raw_private_key (Ed25519_Private b) role = (if role \<noteq> E2eeAgreement then Inr b else Inl KeyRoleViolation)"
| "raw_private_key (Other_Private _) role = Inl KeyRoleViolation"

text \<open>\<open>PrivateKeyMaterial::public_key\<close>, on the two variants the crate lets through.\<close>

fun private_public_key :: "ext \<Rightarrow> private_key \<Rightarrow> public_key" where
  "private_public_key X (Ed25519_Private b) = Ed25519 (ed25519_verifying_key X b)"
| "private_public_key X (X25519_Private b) = X25519 (x25519_public_key X b)"
| "private_public_key X (Other_Private b) = OtherKey b"

definition prepare_imported_key ::
  "ext \<Rightarrow> host_ext \<Rightarrow> string \<Rightarrow> json \<Rightarrow> prepared_imported_key list \<Rightarrow> imported_private_key
     \<Rightarrow> prepared_imported_key list did_result" where
  "prepare_imported_key X H did document output key =
     rbind (canonicalize_kid did (ip_kid key)) (\<lambda>kid.
     rbind (ensure (\<not> list_ex (\<lambda>e. pk_prepared_kid e = kid) output) DuplicateKid) (\<lambda>_.
     rbind (parse_private_key H (ip_role key) (ip_encoding key) (ip_secret key)) (\<lambda>material.
     let public = private_public_key X material in
     rbind (ok_or (find_verification_method X document kid) KeyNotFound) (\<lambda>method.
     rbind (ok_or (extract_public_key X method) InvalidPublicKey) (\<lambda>expected.
     rbind (ensure (public_keys_equal public expected) InvalidPublicKey) (\<lambda>_.
     rbind (raw_private_key material (ip_role key)) (\<lambda>raw.
       Inr (output @ [\<lparr>pk_prepared_kid = kid, pk_prepared_role = ip_role key, pk_raw = raw,
                       pk_public = public\<rparr>]))))))))"

definition prepare_imported_keys ::
  "ext \<Rightarrow> host_ext \<Rightarrow> string \<Rightarrow> json \<Rightarrow> imported_private_key list
     \<Rightarrow> prepared_imported_key list did_result" where
  "prepare_imported_keys X H did document keys =
     (if keys = [] then Inl KeyNotFound
      else rfold (prepare_imported_key X H did document) [] keys)"

section \<open>What the import variants share\<close>

definition import_refs :: "string \<Rightarrow> prepared_imported_key list \<Rightarrow> secret_ref list" where
  "import_refs identity_id imported =
     map (\<lambda>k. \<lparr>sr_identity_id = identity_id, sr_key_id = pk_prepared_kid k,
               sr_role = pk_prepared_role k, sr_version = 1\<rparr>) imported"

definition seal_imported_key ::
  "ext \<Rightarrow> store_runtime \<Rightarrow> store_write_guard \<Rightarrow> prepared_imported_key \<times> secret_ref \<Rightarrow> unit io" where
  "seal_imported_key X rt guard p =
     bnd (ks_seal_if_absent X (rt_key_store rt) guard (rt_root_key rt) (snd p) (pk_raw (fst p)))
       (\<lambda>sealed.
       if sealed = AlreadyExists
       then bnd (ks_open X (rt_root_key rt) (snd p)) (\<lambda>persisted.
            bnd (lift (public_key_from_secret X (pk_prepared_role (fst p)) persisted)) (\<lambda>actual.
              lift (ensure (public_keys_equal actual (pk_public (fst p))) InvalidIdentity)))
       else ret ())"

definition managed_import_metadata ::
  "ext \<Rightarrow> json \<Rightarrow> string \<Rightarrow> prepared_imported_key list \<Rightarrow> key_metadata list did_result" where
  "managed_import_metadata X document created_at imported =
     rcollect (\<lambda>k. mk_key_metadata X document (pk_prepared_kid k) (pk_prepared_role k) Managed created_at)
       imported"

text \<open>
  The transaction: lock, checks on the registry, journal, secrets, record, registry entry. The
  variants differ in how the record is made (\<open>build\<close>, from the identity id and the time) and in
  where the identity id comes from.
\<close>

definition import_transaction ::
  "ext \<Rightarrow> did_store \<Rightarrow> string \<Rightarrow> prepared_imported_key list \<Rightarrow> string io
     \<Rightarrow> (string \<Rightarrow> string \<Rightarrow> identity_record did_result) \<Rightarrow> (did_store \<times> did_identity) io" where
  "import_transaction X store did imported fresh_id build =
     (let rt = ds_runtime store in
     bnd (acquire_write rt) (\<lambda>guard.
     bnd read_registry (\<lambda>registry.
     bnd (lift (ensure (rg_generation registry = ds_registry_generation store) Conflict)) (\<lambda>_.
     bnd (lift (ensure (btree_get (rg_identities registry) did = None) DuplicateIdentity)) (\<lambda>_.
     bnd fresh_id (\<lambda>identity_id.
     bnd (random_id X) (\<lambda>transaction_id.
     bnd (now_rfc3339 X) (\<lambda>created_at.
     let refs = import_refs identity_id imported in
     bnd (write_journal X (rt_root rt) guard
            (new_creation_journal transaction_id identity_id did refs created_at)) (\<lambda>_.
     bnd (foreach (seal_imported_key X rt guard) (zip imported refs)) (\<lambda>_.
     bnd (lift (build identity_id created_at)) (\<lambda>r.
     bnd (write_identity X (rt_root rt) guard r) (\<lambda>_.
     bnd (register_identity (rt_root rt) guard registry did (summary r)) (\<lambda>next_generation.
     bnd (remove_journal X (rt_root rt) guard transaction_id) (\<lambda>_.
     ret (store\<lparr>ds_registry_generation := next_generation\<rparr>,
          \<lparr>di_runtime = rt, di_record = r\<rparr>)))))))))))))))"

definition imported_record :: "new_identity_input \<Rightarrow> identity_record" where
  "imported_record n = (new_identity_record n)\<lparr>ir_state := Id_Active\<rparr>"

section \<open>Importing a device\<close>

definition check_device_import ::
  "ext \<Rightarrow> json \<Rightarrow> prepared_imported_key list \<Rightarrow> unit did_result" where
  "check_device_import X document imported =
     rbind (ok_or (find (\<lambda>k. pk_prepared_role k = DeviceSigning) imported) KeyRoleViolation) (\<lambda>signing.
     rbind (ok_or (find (\<lambda>k. pk_prepared_role k = E2eeAgreement) imported) KeyRoleViolation) (\<lambda>e2ee.
       ensure (\<not> (length imported \<noteq> 2 \<or> pk_prepared_kid signing = pk_prepared_kid e2ee
          \<or> \<not> is_authentication_authorized X document (pk_prepared_kid signing)
          \<or> \<not> is_assertion_method_authorized X document (pk_prepared_kid signing))) KeyRoleViolation))"

definition device_import_record ::
  "ext \<Rightarrow> device_identity_import_spec \<Rightarrow> string \<Rightarrow> string \<Rightarrow> prepared_imported_key list
     \<Rightarrow> string \<Rightarrow> string \<Rightarrow> identity_record did_result" where
  "device_import_record X spec did the_root_kid imported identity_id created_at =
     (let document = dv_verified_document spec in
     rbind (mk_key_metadata X document the_root_kid RootControl External created_at) (\<lambda>root_metadata.
     rbind (managed_import_metadata X document created_at imported) (\<lambda>managed.
     let metadata = root_metadata # managed in
     rbind (infer_local_authorization X document metadata) (\<lambda>inferred.
     rbind (ok_or inferred InvalidIdentity) (\<lambda>local_authorization.
     rbind (root_key_fingerprint X document) (\<lambda>root_fingerprint.
       Inr (imported_record
         \<lparr>ni_identity_id = identity_id, ni_did = did, ni_document = document, ni_keys = metadata,
          ni_capabilities = dv_capabilities spec, ni_root_capability = Root_Absent,
          ni_root_key_fingerprint = Some root_fingerprint,
          ni_checkpoint = checkpoint (dv_evidence spec),
          ni_local_authorization = Some local_authorization, ni_created_at = created_at\<rparr>)))))))"

definition import_device_identity ::
  "ext \<Rightarrow> host_ext \<Rightarrow> did_store \<Rightarrow> device_identity_import_spec \<Rightarrow> (did_store \<times> did_identity) io" where
  "import_device_identity X H store spec =
     (let document = dv_verified_document spec in
     bnd (lift (validate_verified_document X document (dv_evidence spec))) (\<lambda>_.
     bnd (lift (ok_or (get_str document ''id'') InvalidIdentity)) (\<lambda>did.
     bnd (lift (prepare_imported_keys X H did document [dv_signing_key spec, dv_e2ee_key spec])) (\<lambda>imported.
     bnd (lift (check_device_import X document imported)) (\<lambda>_.
     bnd (lift (root_kid document)) (\<lambda>the_root_kid.
     import_transaction X store did imported (random_id X)
       (device_import_record X spec did the_root_kid imported)))))))"

section \<open>Importing a request signing key\<close>

definition check_request_import ::
  "ext \<Rightarrow> json \<Rightarrow> prepared_imported_key \<Rightarrow> unit did_result" where
  "check_request_import X document request =
     ensure (\<not> (pk_prepared_role request \<noteq> RequestSigning
        \<or> \<not> is_authentication_authorized X document (pk_prepared_kid request)
        \<or> is_assertion_method_authorized X document (pk_prepared_kid request))) KeyRoleViolation"

definition request_import_record ::
  "ext \<Rightarrow> request_signing_identity_import_spec \<Rightarrow> string \<Rightarrow> string \<Rightarrow> prepared_imported_key
     \<Rightarrow> string \<Rightarrow> string \<Rightarrow> identity_record did_result" where
  "request_import_record X spec did the_root_kid request identity_id created_at =
     (let document = ri_verified_document spec in
     rbind (mk_key_metadata X document the_root_kid RootControl External created_at) (\<lambda>root_metadata.
     rbind (mk_key_metadata X document (pk_prepared_kid request) RequestSigning Managed created_at)
       (\<lambda>request_metadata.
     rbind (root_key_fingerprint X document) (\<lambda>root_fingerprint.
       Inr ((imported_record
         \<lparr>ni_identity_id = identity_id, ni_did = did, ni_document = document,
          ni_keys = [root_metadata, request_metadata],
          ni_capabilities = ri_capabilities spec, ni_root_capability = Root_Absent,
          ni_root_key_fingerprint = Some root_fingerprint,
          ni_checkpoint = checkpoint (ri_evidence spec),
          ni_local_authorization = None, ni_created_at = created_at\<rparr>)
         \<lparr>ir_local_request_signing_kid := Some (pk_prepared_kid request)\<rparr>)))))"

definition import_request_signing_identity ::
  "ext \<Rightarrow> host_ext \<Rightarrow> did_store \<Rightarrow> request_signing_identity_import_spec
     \<Rightarrow> (did_store \<times> did_identity) io" where
  "import_request_signing_identity X H store spec =
     (let document = ri_verified_document spec in
     bnd (lift (validate_verified_document X document (ri_evidence spec))) (\<lambda>_.
     bnd (lift (ok_or (get_str document ''id'') InvalidIdentity)) (\<lambda>did.
     bnd (lift (prepare_imported_keys X H did document [ri_private_key spec])) (\<lambda>imported.
     bnd (lift (if imported = [] then Inl KeyNotFound else Inr (last imported))) (\<lambda>request.
     bnd (lift (check_request_import X document request)) (\<lambda>_.
     bnd (lift (root_kid document)) (\<lambda>the_root_kid.
     import_transaction X store did [request] (random_id X)
       (request_import_record X spec did the_root_kid request))))))))"

section \<open>Importing a whole identity\<close>

definition validate_imported_roles ::
  "json \<Rightarrow> capabilities \<Rightarrow> prepared_imported_key list \<Rightarrow> unit did_result" where
  "validate_imported_roles document capabilities keys =
     rbind (root_kid document) (\<lambda>the_root_kid.
     let roots = filter (\<lambda>k. pk_prepared_role k = RootControl) keys in
     rbind (ensure (length roots = 1 \<and> pk_prepared_kid (hd roots) = the_root_kid)
              InvalidManagedRootCount) (\<lambda>_.
       ensure (\<not> (did_wba capabilities
                  \<and> \<not> list_ex (\<lambda>k. pk_prepared_role k \<in> {DeviceSigning, RequestSigning}) keys))
         MissingManagedRequestSigning))"

definition root_key_fingerprint_from_import ::
  "ext \<Rightarrow> prepared_imported_key list \<Rightarrow> string did_result" where
  "root_key_fingerprint_from_import X keys =
     rbind (ok_or (find (\<lambda>k. pk_prepared_role k = RootControl) keys) InvalidManagedRootCount) (\<lambda>root.
     rbind (public_key_multibase X (pk_public root)) (\<lambda>mb.
       root_key_fingerprint X (json_object
         [(''proof'', json_object [(''verificationMethod'', JString (pk_prepared_kid root))]),
          (''verificationMethod'', JArray [json_object
             [(''id'', JString (pk_prepared_kid root)), (''type'', JString ''Multikey''),
              (''publicKeyMultibase'', JString mb)]])])))"

definition identity_import_record ::
  "ext \<Rightarrow> identity_import_spec \<Rightarrow> string \<Rightarrow> prepared_imported_key list
     \<Rightarrow> string \<Rightarrow> string \<Rightarrow> identity_record did_result" where
  "identity_import_record X spec did imported identity_id created_at =
     (let document = ii_verified_document spec in
     rbind (managed_import_metadata X document created_at imported) (\<lambda>metadata.
     rbind (infer_local_authorization X document metadata) (\<lambda>local_authorization.
     rbind (root_key_fingerprint_from_import X imported) (\<lambda>root_fingerprint.
       Inr (imported_record
         \<lparr>ni_identity_id = identity_id, ni_did = did, ni_document = document, ni_keys = metadata,
          ni_capabilities = ii_capabilities spec, ni_root_capability = Root_Active,
          ni_root_key_fingerprint = Some root_fingerprint,
          ni_checkpoint = checkpoint (ii_evidence spec),
          ni_local_authorization = local_authorization, ni_created_at = created_at\<rparr>)))))"

definition import_identity_with_id ::
  "ext \<Rightarrow> host_ext \<Rightarrow> did_store \<Rightarrow> identity_import_spec \<Rightarrow> string \<Rightarrow> (did_store \<times> did_identity) io" where
  "import_identity_with_id X H store spec identity_id =
     (let document = ii_verified_document spec in
     bnd (lift (validate_verified_document X document (ii_evidence spec))) (\<lambda>_.
     bnd (lift (ok_or (get_str document ''id'') InvalidIdentity)) (\<lambda>did.
     bnd (lift (prepare_imported_keys X H did document (ii_private_keys spec))) (\<lambda>imported.
     bnd (lift (validate_imported_roles document (ii_capabilities spec) imported)) (\<lambda>_.
     import_transaction X store did imported (ret identity_id)
       (identity_import_record X spec did imported))))))"

definition import_identity ::
  "ext \<Rightarrow> host_ext \<Rightarrow> did_store \<Rightarrow> identity_import_spec \<Rightarrow> (did_store \<times> did_identity) io" where
  "import_identity X H store spec =
     bnd (random_id X) (\<lambda>identity_id. import_identity_with_id X H store spec identity_id)"

section \<open>A root key accepted by an older client\<close>

record legacy_root_transfer_evidence =
  lt_transfer_id :: string
  lt_source_did :: string
  lt_target_did :: string
  lt_sender_device_id :: string
  lt_recipient_device_id :: string
  lt_recipient_agreement_kid :: string
  lt_root_kid :: string
  lt_checkpoint :: document_checkpoint
  lt_accepted_at :: string

record legacy_root_transfer_import_spec =
  ls_evidence :: legacy_root_transfer_evidence
  ls_encoding :: private_key_encoding
  ls_root_key :: bytes

definition legacy_evidence_json :: "legacy_root_transfer_evidence \<Rightarrow> json" where
  "legacy_evidence_json e =
     json_object [(''transfer_id'', JString (lt_transfer_id e)), (''source_did'', JString (lt_source_did e)),
       (''target_did'', JString (lt_target_did e)), (''sender_device_id'', JString (lt_sender_device_id e)),
       (''recipient_device_id'', JString (lt_recipient_device_id e)),
       (''recipient_agreement_kid'', JString (lt_recipient_agreement_kid e)),
       (''root_kid'', JString (lt_root_kid e)), (''checkpoint'', checkpoint_json (lt_checkpoint e)),
       (''accepted_at'', JString (lt_accepted_at e))]"

definition validate_legacy_evidence ::
  "ext \<Rightarrow> did_identity \<Rightarrow> legacy_root_transfer_evidence \<Rightarrow> unit did_result" where
  "validate_legacy_evidence X i e =
     rbind (ok_or (ir_local_authorization (di_record i)) InvalidRootTransfer) (\<lambda>local.
     rbind (ensure (\<not> (is_blank (lt_transfer_id e) \<or> lt_source_did e \<noteq> di_did i
              \<or> lt_target_did e \<noteq> di_did i \<or> is_blank (lt_sender_device_id e)
              \<or> lt_recipient_device_id e \<noteq> la_device_id local
              \<or> lt_recipient_agreement_kid e \<noteq> la_e2ee_kid local
              \<or> ir_checkpoint (di_record i) \<noteq> Some (lt_checkpoint e)
              \<or> parse_rfc3339 X (lt_accepted_at e) = None)) InvalidRootTransfer) (\<lambda>_.
     rbind (find_key_metadata i (lt_root_kid e)) (\<lambda>root.
       ensure (km_role root = RootControl) KeyRoleViolation)))"

definition import_legacy_root_transfer ::
  "ext \<Rightarrow> host_ext \<Rightarrow> did_identity \<Rightarrow> legacy_root_transfer_import_spec
     \<Rightarrow> (did_identity \<times> root_transfer_import_outcome) io" where
  "import_legacy_root_transfer X H i spec =
     (let e = ls_evidence spec in
     bnd (lift (validate_legacy_evidence X i e)) (\<lambda>_.
     bnd (lift (parse_private_key H RootControl (ls_encoding spec) (ls_root_key spec))) (\<lambda>material.
     bnd (lift (raw_private_key material RootControl)) (\<lambda>raw.
     bnd (lift (digest_serialized X (legacy_evidence_json e))) (\<lambda>digest.
     commit_pending_root X i (lt_root_kid e) raw (private_public_key X material)
       (''legacy:'' @ lt_transfer_id e) digest (lt_accepted_at e))))))"

end
