(* ===== verification/Facade.thy ===== *)
theory Facade
  imports Key_Import Namespace
begin

text \<open>
  The application interface (\<open>facade/error.rs\<close>, \<open>facade/types.rs\<close>, \<open>facade/identity.rs\<close>,
  \<open>facade/manager.rs\<close>): the stable error categories, the public data types and their conversions,
  and the manager of a store.
\<close>

section \<open>Errors\<close>

datatype identity_error =
    IE_InvalidRequest
  | IE_StoreNotFound
  | IE_ProviderUnavailable
  | IE_RootKeyMismatch
  | IE_CorruptState
  | IE_IdentityNotFound
  | IE_IdentityAlreadyExists
  | IE_KeyNotFound
  | IE_KeyUnavailable
  | IE_KeyPurposeViolation
  | IE_AmbiguousKey
  | IE_VerificationFailed
  | IE_PendingDocumentChange
  | IE_DocumentChangeNotFound
  | IE_InvalidDocumentChangeState
  | IE_Conflict
  | IE_CapabilityUnavailable
  | IE_Unsupported
  | IE_Storage
  | IE_Internal

type_synonym 'a identity_result = "(identity_error, 'a) result"

fun error_category :: "did_error \<Rightarrow> identity_error" where
  "error_category InvalidDomain = IE_InvalidRequest"
| "error_category EmptyPath = IE_InvalidRequest"
| "error_category InvalidPathSegment = IE_InvalidRequest"
| "error_category InvalidKidFragment = IE_InvalidRequest"
| "error_category InvalidManagedRootCount = IE_InvalidRequest"
| "error_category ExternalRootControl = IE_InvalidRequest"
| "error_category MissingManagedRequestSigning = IE_InvalidRequest"
| "error_category ForeignKid = IE_InvalidRequest"
| "error_category DuplicateKid = IE_InvalidRequest"
| "error_category InvalidPublicKey = IE_InvalidRequest"
| "error_category InvalidService = IE_InvalidRequest"
| "error_category InvalidExtension = IE_InvalidRequest"
| "error_category InvalidPeerKey = IE_InvalidRequest"
| "error_category InvalidRootTransfer = IE_InvalidRequest"
| "error_category RootTransferExpired = IE_InvalidRequest"
| "error_category StoreNotFound = IE_StoreNotFound"
| "error_category ProviderUnavailable = IE_ProviderUnavailable"
| "error_category RootKeyMismatch = IE_RootKeyMismatch"
| "error_category CorruptRecord = IE_CorruptState"
| "error_category (Serialization _) = IE_CorruptState"
| "error_category InvalidIdentity = IE_CorruptState"
| "error_category SecretNotFound = IE_KeyNotFound"
| "error_category KeyNotFound = IE_KeyNotFound"
| "error_category IdentityNotFound = IE_IdentityNotFound"
| "error_category DuplicateIdentity = IE_IdentityAlreadyExists"
| "error_category ExternalKeyOperation = IE_KeyUnavailable"
| "error_category KeyNotUsable = IE_KeyUnavailable"
| "error_category KeyMaterialErased = IE_KeyUnavailable"
| "error_category KeyRoleViolation = IE_KeyPurposeViolation"
| "error_category VerificationFailed = IE_VerificationFailed"
| "error_category PendingRevisionExists = IE_PendingDocumentChange"
| "error_category PendingRootTransferExists = IE_PendingDocumentChange"
| "error_category PendingRevisionNotFound = IE_DocumentChangeNotFound"
| "error_category InvalidPublicationState = IE_InvalidDocumentChangeState"
| "error_category Conflict = IE_Conflict"
| "error_category RootCapabilityUnavailable = IE_CapabilityUnavailable"
| "error_category UnsupportedOperation = IE_Unsupported"
| "error_category (Io _) = IE_Storage"
| "error_category Crypto = IE_Internal"

section \<open>Actions on a handle\<close>

text \<open>
  The interface holds its engine (an open store or identity) behind a lock that several values
  share; an action runs on the engine and the world. What it changes of the engine stays changed
  when it fails later, as with the shared engine of the code. A lock is only poisoned by a panic,
  which the model does not have.
\<close>

type_synonym ('s, 'a) act = "('s \<times> world, identity_error, 'a) Prelude.io"

definition engine :: "('s, 's) act" where
  "engine s = (Inr (fst s), s)"

definition ask :: "('s \<Rightarrow> 'a io) \<Rightarrow> ('s, 'a) act" where
  "ask m s = (case m (fst s) (snd s) of (r, w) \<Rightarrow> (map_err error_category r, (fst s, w)))"

definition modify :: "('s \<Rightarrow> ('s \<times> 'a) io) \<Rightarrow> ('s, 'a) act" where
  "modify m s =
     (case m (fst s) (snd s) of
        (Inl e, w) \<Rightarrow> (Inl (error_category e), (fst s, w))
      | (Inr (s', x), w) \<Rightarrow> (Inr x, (s', w)))"

definition modify_only :: "('s \<Rightarrow> 's io) \<Rightarrow> ('s, unit) act" where
  "modify_only m = modify (\<lambda>s. bnd (m s) (\<lambda>s'. ret (s', ())))"

definition facade_io :: "'a io \<Rightarrow> (world, identity_error, 'a) Prelude.io" where
  "facade_io m w = (case m w of (r, w') \<Rightarrow> (map_err error_category r, w'))"

definition from_engine :: "'a did_result \<Rightarrow> 'a identity_result" where
  "from_engine r = map_err error_category r"

section \<open>Types\<close>

datatype create_identity_profile = CP_E1 | CP_Web

datatype managed_key_role =
    MR_RootControl | MR_DeviceSigning | MR_RequestSigning | MR_E2eeSigning | MR_E2eeAgreement

record managed_key_input =
  mki_fragment :: string
  mki_role :: managed_key_role

record okp_public_jwk =
  okp_kty :: string
  okp_crv :: string
  okp_x :: string

datatype external_public_key_input_material = In_Multibase string | In_Jwk okp_public_jwk

record external_public_key_input =
  xki_kid :: string
  xki_role :: managed_key_role
  xki_material :: external_public_key_input_material

record device_manifest_entry_input =
  dmi_device_id :: string
  dmi_signing_key_id :: string
  dmi_e2ee_key_id :: string
  dmi_profiles :: "string list"

datatype create_identity_extension = In_DeviceManifest "device_manifest_entry_input list"

record identity_service =
  isv_id :: string
  isv_service_type :: string
  isv_service_endpoint :: string
  isv_service_did :: "string option"
  isv_profiles :: "string list"
  isv_security_profiles :: "string list"

definition service_spec_of :: "identity_service \<Rightarrow> service_spec" where
  "service_spec_of s =
     \<lparr>sv_id = isv_id s, sv_type = isv_service_type s, sv_endpoint = isv_service_endpoint s,
      sv_did = isv_service_did s, sv_profiles = isv_profiles s,
      sv_security_profiles = isv_security_profiles s\<rparr>"

record create_identity_request =
  cr_profile :: create_identity_profile
  cr_domain :: string
  cr_port :: "16 word option"
  cr_path_segments :: "string list"
  cr_did_wba :: bool
  cr_managed_keys :: "managed_key_input list"
  cr_external_keys :: "external_public_key_input list"
  cr_services :: "identity_service list"
  cr_agent_description_url :: "string option"
  cr_extensions :: "create_identity_extension list"

fun key_role_of :: "managed_key_role \<Rightarrow> key_role" where
  "key_role_of MR_RootControl = RootControl"
| "key_role_of MR_DeviceSigning = DeviceSigning"
| "key_role_of MR_RequestSigning = RequestSigning"
| "key_role_of MR_E2eeSigning = E2eeSigning"
| "key_role_of MR_E2eeAgreement = E2eeAgreement"

fun material_of :: "external_public_key_input_material \<Rightarrow> external_public_key_material" where
  "material_of (In_Multibase value) = Multibase value"
| "material_of (In_Jwk jwk) = Jwk \<lparr>jwk_kty = okp_kty jwk, jwk_crv = okp_crv jwk, jwk_x = okp_x jwk\<rparr>"

fun extension_of :: "create_identity_extension \<Rightarrow> did_extension_spec" where
  "extension_of (In_DeviceManifest devices) =
     DeviceManifestExt (map (\<lambda>d. \<lparr>de_device_id = dmi_device_id d,
       de_signing_key_id = dmi_signing_key_id d, de_e2ee_key_id = dmi_e2ee_key_id d,
       de_profiles = dmi_profiles d\<rparr>) devices)"

definition create_spec_of :: "create_identity_request \<Rightarrow> did_create_spec" where
  "create_spec_of v =
     \<lparr>cs_profile = (case cr_profile v of CP_E1 \<Rightarrow> E1 | CP_Web \<Rightarrow> Web),
      cs_domain = cr_domain v, cs_port = cr_port v, cs_path_segments = cr_path_segments v,
      cs_capabilities = \<lparr>did_wba = cr_did_wba v\<rparr>,
      cs_managed_keys = map (\<lambda>k. \<lparr>mk_fragment = mki_fragment k, mk_role = key_role_of (mki_role k)\<rparr>)
        (cr_managed_keys v),
      cs_external_keys = map (\<lambda>k. \<lparr>ek_kid = xki_kid k, ek_role = key_role_of (xki_role k),
        ek_material = material_of (xki_material k)\<rparr>) (cr_external_keys v),
      cs_services = map service_spec_of (cr_services v),
      cs_agent_description_url = cr_agent_description_url v,
      cs_extensions = map extension_of (cr_extensions v)\<rparr>"

datatype root_key_source =
    Src_Keyring string string bool
  | Src_LocalPrivateFile
  | Src_Environment string string
  | Src_Injected string bytes

record identity_manager_config =
  mc_state_root :: string
  mc_root_key :: root_key_source

record identity_ref =
  ref_store_id :: string
  ref_identity_id :: string
  ref_did :: string

datatype public_identity_state = Pub_Enrolling | Pub_Active | Pub_Revoked

fun public_state :: "identity_state \<Rightarrow> public_identity_state identity_result" where
  "public_state Id_Enrolling = Inr Pub_Enrolling"
| "public_state Id_Active = Inr Pub_Active"
| "public_state Id_Revoked = Inr Pub_Revoked"
| "public_state Id_Creating = Inl IE_CorruptState"

record identity_descriptor =
  idd_reference :: identity_ref
  idd_state :: public_identity_state

datatype key_algorithm = Alg_Ed25519 | Alg_X25519

datatype key_purpose =
    Purpose_RootControl | Purpose_Authentication | Purpose_DeviceAssertion
  | Purpose_ApplicationAssertion | Purpose_KeyAgreement

record public_key_descriptor =
  pkd_kid :: string
  pkd_algorithm :: key_algorithm
  pkd_purposes :: "key_purpose list"

fun role_descriptor :: "key_role \<Rightarrow> key_algorithm \<times> key_purpose list" where
  "role_descriptor RootControl = (Alg_Ed25519, [Purpose_RootControl])"
| "role_descriptor DeviceSigning = (Alg_Ed25519, [Purpose_Authentication, Purpose_DeviceAssertion])"
| "role_descriptor RequestSigning = (Alg_Ed25519, [Purpose_Authentication, Purpose_ApplicationAssertion])"
| "role_descriptor E2eeSigning = (Alg_Ed25519, [Purpose_ApplicationAssertion])"
| "role_descriptor E2eeAgreement = (Alg_X25519, [Purpose_KeyAgreement])"

definition descriptor_from_metadata :: "key_metadata \<Rightarrow> public_key_descriptor option" where
  "descriptor_from_metadata m =
     (if km_state m \<noteq> Key_Active \<or> km_material_erased m then None
      else Some \<lparr>pkd_kid = km_kid m, pkd_algorithm = fst (role_descriptor (km_role m)),
                 pkd_purposes = snd (role_descriptor (km_role m))\<rparr>)"

record public_identity =
  pi_reference :: identity_ref
  pi_state :: public_identity_state
  pi_revision :: u64
  pi_document :: json
  pi_active_keys :: "public_key_descriptor list"
  pi_did_wba :: bool

record store_info =
  sti_store_id :: string
  sti_schema_compatible :: bool
  sti_identity_count :: nat

section \<open>Managed identities\<close>

text \<open>A managed identity without its engine, which its actions run on.\<close>

record managed_identity =
  mi_store_id :: string
  mi_reference :: identity_ref

definition project_public_identity :: "string \<Rightarrow> did_identity \<Rightarrow> public_identity identity_result" where
  "project_public_identity store_id i =
     rbind (public_state (ir_state (di_record i))) (\<lambda>state.
       Inr \<lparr>pi_reference = \<lparr>ref_store_id = store_id, ref_identity_id = di_identity_id i, ref_did = di_did i\<rparr>,
            pi_state = state, pi_revision = ir_revision (di_record i),
            pi_document = ir_document (di_record i),
            pi_active_keys = List.map_filter descriptor_from_metadata (ir_keys (di_record i)),
            pi_did_wba = did_wba (ir_capabilities (di_record i))\<rparr>)"

definition mi_public_identity :: "managed_identity \<Rightarrow> (did_identity, public_identity) act" where
  "mi_public_identity m = bnd engine (\<lambda>i. lift (project_public_identity (mi_store_id m) i))"

section \<open>The manager\<close>

definition store_id :: "did_store \<Rightarrow> string" where
  "store_id store = sm_store_id (rt_manifest (ds_runtime store))"

definition wrap :: "did_store \<Rightarrow> did_identity \<Rightarrow> managed_identity \<times> did_identity" where
  "wrap store i =
     (\<lparr>mi_store_id = store_id store,
       mi_reference = \<lparr>ref_store_id = store_id store, ref_identity_id = di_identity_id i,
         ref_did = di_did i\<rparr>\<rparr>, i)"

definition manager_initialize ::
  "ext \<Rightarrow> keyring \<Rightarrow> (string \<Rightarrow> string option) \<Rightarrow> identity_manager_config \<Rightarrow> (world, identity_error, did_store) Prelude.io" where
  "manager_initialize X kr env config =
     facade_io (let root = mc_state_root config in
      case mc_root_key config of
        Src_Injected key_id bytes \<Rightarrow> initialize_injected X root key_id bytes
      | Src_Environment key_id variable \<Rightarrow> initialize_env X env root key_id variable
      | Src_LocalPrivateFile \<Rightarrow> initialize_local_file X root
      | Src_Keyring service account fallback \<Rightarrow> initialize_keyring X kr root service account fallback)"

definition open_keyring :: "ext \<Rightarrow> keyring \<Rightarrow> string \<Rightarrow> string \<Rightarrow> string \<Rightarrow> bool \<Rightarrow> did_store io" where
  "open_keyring X kr root service account fallback =
     (let keyring = keyring_provider X kr service account;
          file = file_provider X ''local-private-file'' root
      in bnd (runtime_open X root (if fallback then [keyring, file] else [keyring])) (from_runtime X))"

definition manager_open ::
  "ext \<Rightarrow> keyring \<Rightarrow> (string \<Rightarrow> string option) \<Rightarrow> identity_manager_config \<Rightarrow> (world, identity_error, did_store) Prelude.io" where
  "manager_open X kr env config =
     facade_io (let root = mc_state_root config in
      case mc_root_key config of
        Src_Injected key_id bytes \<Rightarrow> open_injected X root key_id bytes
      | Src_Environment key_id variable \<Rightarrow> open_env X env root key_id variable
      | Src_LocalPrivateFile \<Rightarrow> open_local_file X root
      | Src_Keyring service account fallback \<Rightarrow> open_keyring X kr root service account fallback)"

definition manager_info :: "(did_store, store_info) act" where
  "manager_info =
     bnd engine (\<lambda>store.
     bnd (ask (\<lambda>_. list_identities)) (\<lambda>summaries.
     ret \<lparr>sti_store_id = store_id store, sti_schema_compatible = True,
          sti_identity_count = length summaries\<rparr>))"

definition descriptor :: "string \<Rightarrow> identity_summary \<Rightarrow> identity_descriptor identity_result" where
  "descriptor the_store_id s =
     rbind (public_state (is_state s)) (\<lambda>state.
       Inr \<lparr>idd_reference = \<lparr>ref_store_id = the_store_id, ref_identity_id = is_identity_id s,
              ref_did = is_did s\<rparr>, idd_state = state\<rparr>)"

definition manager_list :: "(did_store, identity_descriptor list) act" where
  "manager_list =
     bnd engine (\<lambda>store.
     bnd (ask (\<lambda>_. list_identities)) (\<lambda>summaries.
     lift (rcollect (descriptor (store_id store)) summaries)))"

definition manager_create ::
  "ext \<Rightarrow> create_identity_request \<Rightarrow> (did_store, managed_identity \<times> did_identity) act" where
  "manager_create X request =
     bnd (modify (\<lambda>store. create_identity X store (create_spec_of request))) (\<lambda>i.
     bnd engine (\<lambda>store. ret (wrap store i)))"

definition validate_store :: "did_store \<Rightarrow> identity_ref \<Rightarrow> unit identity_result" where
  "validate_store store reference = ensure (ref_store_id reference = store_id store) IE_IdentityNotFound"

definition manager_get ::
  "ext \<Rightarrow> identity_ref \<Rightarrow> (did_store, managed_identity \<times> did_identity) act" where
  "manager_get X reference =
     bnd engine (\<lambda>store.
     bnd (lift (validate_store store reference)) (\<lambda>_.
     bnd (ask (\<lambda>store. open_identity X store (ref_did reference))) (\<lambda>i.
     bnd (lift (ensure (di_identity_id i = ref_identity_id reference) IE_IdentityNotFound)) (\<lambda>_.
     ret (wrap store i)))))"

definition manager_delete :: "ext \<Rightarrow> identity_ref \<Rightarrow> bool \<Rightarrow> (did_store, unit) act" where
  "manager_delete X reference discard_pending_changes =
     bnd engine (\<lambda>store.
     bnd (lift (validate_store store reference)) (\<lambda>_.
     bnd (modify_only (reload_store X)) (\<lambda>_.
     bnd (ask (\<lambda>store. open_identity X store (ref_did reference))) (\<lambda>i.
     bnd (lift (ensure (di_identity_id i = ref_identity_id reference) IE_IdentityNotFound)) (\<lambda>_.
     modify_only (\<lambda>store.
       (if discard_pending_changes
        then delete_identity_namespace_discarding_pending X store (ref_did reference)
               (ds_registry_generation store)
        else delete_identity_namespace X store (ref_did reference)
               (ds_registry_generation store))))))))"

definition manager_recover :: "ext \<Rightarrow> (did_store, nat) act" where
  "manager_recover X =
     bnd (modify_only (reload_store X)) (\<lambda>_.
     bnd (ask (\<lambda>_. list_identities)) (\<lambda>summaries. ret (length summaries)))"

end
