(* ===== verification/Document_Change.thy ===== *)
theory Document_Change
  imports Facade
begin

text \<open>
  \<open>facade/document_change.rs\<close>: sessions that prepare, publish and reconcile a change of the
  document, and the phase that \<open>host/document_change.rs\<close> reports of them.
\<close>

section \<open>Requests and answers\<close>

record public_key_input =
  pki_kid :: string
  pki_public_key_multibase :: string

record device_input =
  dei_device_id :: string
  dei_signing_key :: public_key_input
  dei_agreement_key :: public_key_input
  dei_profiles :: "string list"

datatype document_change =
    RotateSigningKey string string
  | AddAuthenticationKey public_key_input
  | RemoveAuthenticationKey string
  | AddDevice device_input
  | RemoveDevice string
  | AddDeviceProfiles string "string list"
  | ReplaceServices "identity_service list"

record prepared_document_change =
  pdc_operation_id :: string
  pdc_candidate_document :: json
  pdc_candidate_digest :: string

record verified_publication_evidence =
  vpe_document_version :: u64
  vpe_registry_version :: u64
  vpe_document_digest :: string

record verified_remote_document =
  vrd_document :: json
  vrd_evidence :: verified_publication_evidence

record publication_attempt =
  pa_operation_id :: string
  pa_candidate_digest :: string
  pa_publication_generation :: u64

datatype publication_result =
    Confirmed verified_publication_evidence | RejectedBeforeAcceptance | Unknown

datatype document_change_outcome =
    Out_ReadyForPublication | Out_PublicationUncertain | Out_Committed public_identity | Out_Aborted

text \<open>A session without the engine it shares with its identity.\<close>

record document_change_session =
  dcs_store_id :: string
  dcs_reference :: identity_ref
  dcs_candidate :: prepared_document_change

section \<open>The request as an update of the engine\<close>

definition public_key_spec_of :: "public_key_input \<Rightarrow> public_key_spec" where
  "public_key_spec_of k =
     \<lparr>pk_kid = pki_kid k, pk_public_key_multibase = pki_public_key_multibase k\<rparr>"

fun add_change ::
  "document_update_spec \<Rightarrow> document_change \<Rightarrow> document_update_spec identity_result" where
  "add_change spec (RotateSigningKey old_kid new_fragment) =
     (if us_request_signing_rotation spec \<noteq> None then Inl IE_InvalidRequest
      else Inr (spec\<lparr>us_request_signing_rotation :=
             Some \<lparr>rot_old_kid = old_kid, rot_new_fragment = new_fragment\<rparr>\<rparr>))"
| "add_change spec (AddAuthenticationKey key) =
     Inr (spec\<lparr>us_request_signing_mutations :=
       us_request_signing_mutations spec @ [RS_Add (public_key_spec_of key)]\<rparr>)"
| "add_change spec (RemoveAuthenticationKey kid) =
     Inr (spec\<lparr>us_request_signing_mutations := us_request_signing_mutations spec @ [RS_Remove kid]\<rparr>)"
| "add_change spec (AddDevice device) =
     Inr (spec\<lparr>us_device_mutations := us_device_mutations spec @
       [Dev_Add \<lparr>da_device_id = dei_device_id device,
          da_signing_key = public_key_spec_of (dei_signing_key device),
          da_e2ee_key = public_key_spec_of (dei_agreement_key device),
          da_profiles = dei_profiles device\<rparr>]\<rparr>)"
| "add_change spec (RemoveDevice device_id) =
     Inr (spec\<lparr>us_device_mutations := us_device_mutations spec @ [Dev_Remove device_id]\<rparr>)"
| "add_change spec (AddDeviceProfiles device_id profiles) =
     Inr (spec\<lparr>us_device_mutations := us_device_mutations spec @ [Dev_AddProfiles device_id profiles]\<rparr>)"
| "add_change spec (ReplaceServices services) =
     (if us_services spec \<noteq> None then Inl IE_InvalidRequest
      else Inr (spec\<lparr>us_services := Some (map service_spec_of services)\<rparr>))"

definition into_engine_spec :: "document_change list \<Rightarrow> document_update_spec identity_result" where
  "into_engine_spec changes =
     (if changes = [] then Inl IE_InvalidRequest
      else rfold add_change
        \<lparr>us_request_signing_rotation = None, us_request_signing_mutations = [],
         us_device_mutations = [], us_services = None\<rparr> changes)"

section \<open>Evidence\<close>

definition engine_evidence :: "verified_publication_evidence \<Rightarrow> verified_document_evidence" where
  "engine_evidence e =
     \<lparr>ev_document_version = vpe_document_version e, ev_registry_version = vpe_registry_version e,
      ev_document_digest =
        (if starts_with (vpe_document_digest e) ''sha256:'' then vpe_document_digest e
         else ''sha256:'' @ vpe_document_digest e)\<rparr>"

definition validate_publication_evidence ::
  "verified_publication_evidence \<Rightarrow> string \<Rightarrow> unit identity_result" where
  "validate_publication_evidence e expected_digest =
     ensure (\<not> (vpe_document_version e = 0 \<or> vpe_registry_version e = 0
                \<or> vpe_document_digest e \<noteq> expected_digest)) IE_InvalidRequest"

section \<open>Sessions\<close>

definition prepare_document_change ::
  "ext \<Rightarrow> managed_identity \<Rightarrow> document_change list \<Rightarrow> (did_identity, document_change_session) act" where
  "prepare_document_change X m changes =
     bnd (lift (into_engine_spec changes)) (\<lambda>spec.
     bnd (modify (\<lambda>i. prepare_update X i spec)) (\<lambda>prepared.
     ret \<lparr>dcs_store_id = mi_store_id m, dcs_reference = mi_reference m,
          dcs_candidate = \<lparr>pdc_operation_id = pu_revision_id prepared,
            pdc_candidate_document = pu_candidate_document prepared,
            pdc_candidate_digest = pu_candidate_digest prepared\<rparr>\<rparr>))"

definition resume_document_change ::
  "managed_identity \<Rightarrow> (did_identity, document_change_session option) act" where
  "resume_document_change m =
     bnd engine (\<lambda>i.
     ret (map_option (\<lambda>pending.
       \<lparr>dcs_store_id = mi_store_id m, dcs_reference = mi_reference m,
        dcs_candidate = \<lparr>pdc_operation_id = pr_revision_id pending,
          pdc_candidate_document = pr_candidate_document pending,
          pdc_candidate_digest = pr_candidate_digest pending\<rparr>\<rparr>)
       (ir_pending_revision (di_record i))))"

definition session_pending ::
  "document_change_session \<Rightarrow> did_identity \<Rightarrow> pending_revision_record identity_result" where
  "session_pending s i =
     rbind (ok_or (ir_pending_revision (di_record i)) IE_DocumentChangeNotFound) (\<lambda>pending.
     rbind (ensure (\<not> (pr_revision_id pending \<noteq> pdc_operation_id (dcs_candidate s)
              \<or> pr_candidate_digest pending \<noteq> pdc_candidate_digest (dcs_candidate s)
              \<or> di_identity_id i \<noteq> ref_identity_id (dcs_reference s)
              \<or> di_did i \<noteq> ref_did (dcs_reference s))) IE_Conflict) (\<lambda>_.
       Inr pending))"

definition validate_session_attempt ::
  "document_change_session \<Rightarrow> publication_attempt \<Rightarrow> pending_revision_record \<Rightarrow> unit identity_result" where
  "validate_session_attempt s attempt pending =
     ensure (\<not> (pa_operation_id attempt \<noteq> pdc_operation_id (dcs_candidate s)
                \<or> pa_candidate_digest attempt \<noteq> pdc_candidate_digest (dcs_candidate s)
                \<or> pa_publication_generation attempt \<noteq> pr_generation pending)) IE_Conflict"

definition session_publication_state :: "document_change_session \<Rightarrow> (did_identity, publication_state) act" where
  "session_publication_state s =
     bnd engine (\<lambda>i. bnd (lift (session_pending s i)) (\<lambda>pending. ret (pr_state pending)))"

definition session_begin_publication ::
  "ext \<Rightarrow> document_change_session \<Rightarrow> (did_identity, publication_attempt) act" where
  "session_begin_publication X s =
     (let operation = pdc_operation_id (dcs_candidate s) in
     bnd engine (\<lambda>i.
     bnd (lift (session_pending s i)) (\<lambda>pending.
     bnd (case pr_state pending of
            Prepared \<Rightarrow> modify_only (\<lambda>i. begin_publication X i operation)
          | PublicationInFlight \<Rightarrow> ret ()
          | Published \<Rightarrow> ret ()
          | PublicationUncertain \<Rightarrow> raise IE_InvalidDocumentChangeState) (\<lambda>_.
     bnd engine (\<lambda>i.
     bnd (lift (session_pending s i)) (\<lambda>pending.
     ret \<lparr>pa_operation_id = operation, pa_candidate_digest = pdc_candidate_digest (dcs_candidate s),
          pa_publication_generation = pr_generation pending\<rparr>))))))"

definition committed_outcome :: "document_change_session \<Rightarrow> (did_identity, document_change_outcome) act" where
  "committed_outcome s =
     bnd engine (\<lambda>i.
     bnd (lift (project_public_identity (dcs_store_id s) i)) (\<lambda>p. ret (Out_Committed p)))"

definition session_complete ::
  "ext \<Rightarrow> document_change_session \<Rightarrow> publication_attempt \<Rightarrow> publication_result
     \<Rightarrow> (did_identity, document_change_outcome) act" where
  "session_complete X s attempt result =
     (let operation = pdc_operation_id (dcs_candidate s) in
     bnd engine (\<lambda>i.
     bnd (lift (session_pending s i)) (\<lambda>pending.
     bnd (lift (validate_session_attempt s attempt pending)) (\<lambda>_.
     case result of
       Confirmed evidence \<Rightarrow>
         bnd (lift (validate_publication_evidence evidence (pdc_candidate_digest (dcs_candidate s)))) (\<lambda>_.
         bnd (lift (ensure (pr_state pending \<in> {PublicationInFlight, Published})
                IE_InvalidDocumentChangeState)) (\<lambda>_.
         bnd (modify_only (\<lambda>i. commit_verified_update X i operation False (engine_evidence evidence))) (\<lambda>_.
         committed_outcome s)))
     | RejectedBeforeAcceptance \<Rightarrow>
         bnd (lift (ensure (pr_state pending = PublicationInFlight) IE_InvalidDocumentChangeState)) (\<lambda>_.
         bnd (modify_only (\<lambda>i. reject_publication_before_acceptance X i operation)) (\<lambda>_.
         bnd (modify_only (\<lambda>i. abort_update X i operation)) (\<lambda>_.
         ret Out_Aborted)))
     | Unknown \<Rightarrow>
         bnd (lift (ensure (pr_state pending = PublicationInFlight) IE_InvalidDocumentChangeState)) (\<lambda>_.
         bnd (modify_only (\<lambda>i. mark_publication_uncertain X i operation)) (\<lambda>_.
         ret Out_PublicationUncertain))))))"

definition validate_observation ::
  "ext \<Rightarrow> verified_remote_document \<Rightarrow> unit identity_result" where
  "validate_observation X observation =
     rbind (from_engine (document_digest X (vrd_document observation))) (\<lambda>digest.
       validate_publication_evidence (vrd_evidence observation) digest)"

definition session_reconcile ::
  "ext \<Rightarrow> document_change_session \<Rightarrow> verified_remote_document \<Rightarrow> (did_identity, document_change_outcome) act" where
  "session_reconcile X s observation =
     (let operation = pdc_operation_id (dcs_candidate s) in
     bnd (lift (validate_observation X observation)) (\<lambda>_.
     bnd engine (\<lambda>i.
     bnd (lift (session_pending s i)) (\<lambda>pending.
     bnd (lift (ensure (pr_state pending = PublicationUncertain) IE_InvalidDocumentChangeState)) (\<lambda>_.
     bnd (if vrd_document observation = pdc_candidate_document (dcs_candidate s)
          then bnd (modify_only (\<lambda>i. commit_verified_update X i operation True
                      (engine_evidence (vrd_evidence observation)))) (\<lambda>_. ret Committed)
          else modify (\<lambda>i. reconcile_update X i operation (vrd_document observation))) (\<lambda>outcome.
     case outcome of
       RemoteOld \<Rightarrow>
         bnd engine (\<lambda>i.
         bnd (lift (session_pending s i)) (\<lambda>pending.
         ret (if pr_state pending = PublicationUncertain then Out_PublicationUncertain
              else Out_ReadyForPublication)))
     | Committed \<Rightarrow> committed_outcome s))))))"

definition session_reconcile_rejected ::
  "ext \<Rightarrow> document_change_session \<Rightarrow> verified_remote_document \<Rightarrow> (did_identity, document_change_outcome) act" where
  "session_reconcile_rejected X s observation =
     bnd (lift (validate_observation X observation)) (\<lambda>_.
     bnd engine (\<lambda>i.
     bnd (lift (session_pending s i)) (\<lambda>_.
     bnd (modify_only (\<lambda>i. reconcile_rejected_update X i (pdc_operation_id (dcs_candidate s))
            \<lparr>av_document = vrd_document observation,
             av_evidence = engine_evidence (vrd_evidence observation)\<rparr>)) (\<lambda>_.
     ret Out_Aborted))))"

section \<open>The phase a host sees\<close>

datatype host_document_change_phase =
    Phase_Prepared | Phase_PublicationInFlight | Phase_PublicationUncertain | Phase_Published

fun host_phase_of :: "publication_state \<Rightarrow> host_document_change_phase" where
  "host_phase_of Prepared = Phase_Prepared"
| "host_phase_of PublicationInFlight = Phase_PublicationInFlight"
| "host_phase_of PublicationUncertain = Phase_PublicationUncertain"
| "host_phase_of Published = Phase_Published"

definition host_phase :: "document_change_session \<Rightarrow> (did_identity, host_document_change_phase) act" where
  "host_phase s = bnd (session_publication_state s) (\<lambda>state. ret (host_phase_of state))"

end
