(* ===== verification/Signing.thy ===== *)
theory Signing
  imports Document_Change Local_Authorization
begin

text \<open>
  The uses of keys by purpose: \<open>facade/signing.rs\<close> and the ports \<open>host/key_agreement.rs\<close>,
  \<open>host/proofs.rs\<close>, \<open>host/http_signing.rs\<close>, each a selection of one key followed by the operation of
  the engine with it.
\<close>

section \<open>Requests and answers\<close>

definition APPLICATION_ASSERTION_PREFIX :: bytes where
  "APPLICATION_ASSERTION_PREFIX = ''anp.identity.application-assertion.v1'' @ [CHR 0x00]"

definition MAX_DOMAIN_BYTES :: nat where "MAX_DOMAIN_BYTES = 256"

datatype key_selector = Sel_Default | Sel_Kid string

datatype signing_purpose = Sign_Authentication | Sign_DeviceAssertion | Sign_ApplicationAssertion string

record sign_request =
  sq_purpose :: signing_purpose
  sq_key :: key_selector
  sq_payload :: bytes

record signature =
  sg_kid :: string
  sg_algorithm :: key_algorithm
  sg_bytes :: bytes

record verify_request =
  vq_purpose :: signing_purpose
  vq_kid :: string
  vq_payload :: bytes
  vq_signature :: bytes

datatype verification_outcome = Signature_Valid | Signature_Invalid

record origin_proof_request =
  oq_method :: string
  oq_meta :: json
  oq_body :: json
  oq_key :: key_selector
  oq_created :: "int option"
  oq_expires :: "int option"
  oq_nonce :: "string option"

section \<open>Purposes\<close>

definition validate_assertion_domain :: "string \<Rightarrow> unit identity_result" where
  "validate_assertion_domain domain =
     ensure (\<not> (domain = [] \<or> trim domain \<noteq> domain \<or> length domain > MAX_DOMAIN_BYTES
                \<or> CHR 0x00 \<in> set domain)) IE_InvalidRequest"

fun purpose_role :: "signing_purpose \<Rightarrow> key_role identity_result" where
  "purpose_role Sign_Authentication = Inr RequestSigning"
| "purpose_role Sign_DeviceAssertion = Inr DeviceSigning"
| "purpose_role (Sign_ApplicationAssertion domain) =
     rbind (validate_assertion_domain domain) (\<lambda>_. Inr E2eeSigning)"

text \<open>\<open>(n as u16).to_be_bytes()\<close>.\<close>

definition be16 :: "nat \<Rightarrow> bytes" where
  "be16 n = (let v = n mod 65536 in [char_of (v div 256), char_of (v mod 256)])"

fun payload_for_purpose :: "signing_purpose \<Rightarrow> bytes \<Rightarrow> bytes identity_result" where
  "payload_for_purpose (Sign_ApplicationAssertion domain) payload =
     rbind (validate_assertion_domain domain) (\<lambda>_.
       Inr (APPLICATION_ASSERTION_PREFIX @ be16 (length domain) @ domain @ payload))"
| "payload_for_purpose Sign_Authentication payload = Inr payload"
| "payload_for_purpose Sign_DeviceAssertion payload = Inr payload"

section \<open>Selecting a key\<close>

text \<open>The default of a selection: the only candidate.\<close>

definition select_only :: "('m \<Rightarrow> bool) \<Rightarrow> 'm list \<Rightarrow> identity_error \<Rightarrow> 'm identity_result" where
  "select_only usable keys absent =
     (case filter usable keys of [] \<Rightarrow> Inl absent | [m] \<Rightarrow> Inr m | _ \<Rightarrow> Inl IE_AmbiguousKey)"

definition ready_key :: "key_metadata \<Rightarrow> bool" where
  "ready_key m \<longleftrightarrow> km_origin m = Managed \<and> km_state m = Key_Active \<and> \<not> km_material_erased m"

fun relationship_authorizes :: "ext \<Rightarrow> did_identity \<Rightarrow> key_metadata \<Rightarrow> key_role \<Rightarrow> bool" where
  "relationship_authorizes X i m RequestSigning =
     is_authentication_authorized X (ir_document (di_record i)) (km_kid m)"
| "relationship_authorizes X i m DeviceSigning =
     is_assertion_method_authorized X (ir_document (di_record i)) (km_kid m)"
| "relationship_authorizes X i m E2eeSigning =
     is_assertion_method_authorized X (ir_document (di_record i)) (km_kid m)"
| "relationship_authorizes X i m RootControl = False"
| "relationship_authorizes X i m E2eeAgreement = False"

definition require_role :: "key_metadata \<Rightarrow> key_role \<Rightarrow> unit identity_result" where
  "require_role m role = ensure (km_role m = role) IE_KeyPurposeViolation"

definition require_relationship ::
  "ext \<Rightarrow> did_identity \<Rightarrow> key_metadata \<Rightarrow> key_role \<Rightarrow> unit identity_result" where
  "require_relationship X i m role = ensure (relationship_authorizes X i m role) IE_KeyPurposeViolation"

definition select_key ::
  "ext \<Rightarrow> did_identity \<Rightarrow> key_selector \<Rightarrow> key_role \<Rightarrow> key_metadata identity_result" where
  "select_key X i selector role =
     (case selector of
        Sel_Kid kid \<Rightarrow>
          rbind (from_engine (find_key_metadata i kid)) (\<lambda>m.
          rbind (require_role m role) (\<lambda>_.
          rbind (require_relationship X i m role) (\<lambda>_.
          rbind (ensure (ready_key m) IE_KeyUnavailable) (\<lambda>_. Inr m))))
      | Sel_Default \<Rightarrow>
          select_only (\<lambda>m. km_role m = role \<and> ready_key m \<and> relationship_authorizes X i m role)
            (ir_keys (di_record i)) IE_KeyUnavailable)"

definition require_origin_proof_key :: "ext \<Rightarrow> did_identity \<Rightarrow> key_metadata \<Rightarrow> unit identity_result" where
  "require_origin_proof_key X i m =
     rbind (ensure (km_role m \<in> {DeviceSigning, RequestSigning}) IE_KeyPurposeViolation) (\<lambda>_.
     rbind (require_relationship X i m (km_role m)) (\<lambda>_.
       ensure (ready_key m) IE_KeyUnavailable))"

definition select_origin_proof_key ::
  "ext \<Rightarrow> did_identity \<Rightarrow> key_selector \<Rightarrow> key_metadata identity_result" where
  "select_origin_proof_key X i selector =
     (case selector of
        Sel_Kid kid \<Rightarrow>
          rbind (from_engine (find_key_metadata i kid)) (\<lambda>m.
          rbind (require_origin_proof_key X i m) (\<lambda>_. Inr m))
      | Sel_Default \<Rightarrow>
          select_only (\<lambda>m. is_ok (require_origin_proof_key X i m)) (ir_keys (di_record i))
            IE_KeyUnavailable)"

text \<open>
  The selection of the ports: a key that is usable, with one error for a key of the right role
  that is not usable and another for a key of the wrong role.
\<close>

definition select_usable ::
  "did_identity \<Rightarrow> key_selector \<Rightarrow> (key_metadata \<Rightarrow> bool) \<Rightarrow> key_role set \<Rightarrow> key_metadata identity_result" where
  "select_usable i selector usable roles =
     (case selector of
        Sel_Kid kid \<Rightarrow>
          rbind (from_engine (find_key_metadata i kid)) (\<lambda>m.
            if \<not> usable m
            then Inl (if km_role m \<in> roles then IE_KeyUnavailable else IE_KeyPurposeViolation)
            else Inr m)
      | Sel_Default \<Rightarrow> select_only usable (ir_keys (di_record i)) IE_KeyUnavailable)"

definition select_agreement_key :: "did_identity \<Rightarrow> key_selector \<Rightarrow> string identity_result" where
  "select_agreement_key i selector =
     rbind (select_usable i selector (\<lambda>m. km_role m = E2eeAgreement \<and> ready_key m
              \<and> relationship_contains (ir_document (di_record i)) ''keyAgreement'' (km_kid m))
              {E2eeAgreement}) (\<lambda>m. Inr (km_kid m))"

definition select_root_key :: "did_identity \<Rightarrow> key_selector \<Rightarrow> string identity_result" where
  "select_root_key i selector =
     rbind (select_usable i selector (\<lambda>m. km_role m = RootControl \<and> ready_key m) {RootControl}) (\<lambda>m.
       Inr (km_kid m))"

definition select_authentication_key ::
  "ext \<Rightarrow> did_identity \<Rightarrow> key_selector \<Rightarrow> key_metadata identity_result" where
  "select_authentication_key X i selector =
     select_usable i selector (\<lambda>m. km_role m \<in> {DeviceSigning, RequestSigning} \<and> ready_key m
       \<and> is_authentication_authorized X (ir_document (di_record i)) (km_kid m))
       {DeviceSigning, RequestSigning}"

section \<open>Signing and verifying\<close>

definition mi_sign :: "ext \<Rightarrow> sign_request \<Rightarrow> (did_identity, signature) act" where
  "mi_sign X request =
     bnd (lift (purpose_role (sq_purpose request))) (\<lambda>role.
     bnd (lift (payload_for_purpose (sq_purpose request) (sq_payload request))) (\<lambda>payload.
     bnd engine (\<lambda>i.
     bnd (lift (select_key X i (sq_key request) role)) (\<lambda>m.
     bnd (ask (\<lambda>i. sign X i (km_kid m) payload)) (\<lambda>b.
     ret \<lparr>sg_kid = km_kid m, sg_algorithm = Alg_Ed25519, sg_bytes = b\<rparr>)))))"

definition mi_sign_origin_proof :: "ext \<Rightarrow> origin_proof_request \<Rightarrow> (did_identity, origin_proof) act" where
  "mi_sign_origin_proof X request =
     bnd engine (\<lambda>i.
     bnd (lift (select_origin_proof_key X i (oq_key request))) (\<lambda>m.
     ask (\<lambda>i. sign_origin_proof X i (oq_method request) (oq_meta request) (oq_body request) (km_kid m)
       \<lparr>oo_created = oq_created request, oo_expires = oq_expires request, oo_nonce = oq_nonce request,
        oo_label = None\<rparr>)))"

definition mi_verify :: "ext \<Rightarrow> verify_request \<Rightarrow> (did_identity, verification_outcome) act" where
  "mi_verify X request =
     bnd (lift (purpose_role (vq_purpose request))) (\<lambda>role.
     bnd engine (\<lambda>i.
     bnd (lift (from_engine (find_key_metadata i (vq_kid request)))) (\<lambda>m.
     bnd (lift (require_role m role)) (\<lambda>_.
     bnd (lift (require_relationship X i m role)) (\<lambda>_.
     bnd (lift (ensure (\<not> (km_state m = Key_Revoked \<or> km_material_erased m)) IE_KeyUnavailable)) (\<lambda>_.
     bnd (lift (payload_for_purpose (vq_purpose request) (vq_payload request))) (\<lambda>payload.
       case verify X i (km_kid m) payload (vq_signature request) of
         Inr () \<Rightarrow> ret Signature_Valid
       | Inl e \<Rightarrow> if e = VerificationFailed then ret Signature_Invalid else raise (error_category e))))))))"

section \<open>Key agreement\<close>

record key_agreement_request =
  kq_key :: key_selector
  kq_peer_public :: bytes

definition derive_shared_secret :: "ext \<Rightarrow> key_agreement_request \<Rightarrow> (did_identity, bytes) act" where
  "derive_shared_secret X request =
     bnd engine (\<lambda>i.
     bnd (lift (select_agreement_key i (kq_key request))) (\<lambda>kid.
     ask (\<lambda>i. ecdh X i kid (kq_peer_public request))))"

section \<open>Proofs\<close>

record object_proof_request =
  bq_key :: key_selector
  bq_document :: json
  bq_issuer_did :: string
  bq_created :: "string option"

record document_proof_request =
  dq_key :: key_selector
  dq_document :: json
  dq_options :: proof_options

definition port_sign_object_proof :: "ext \<Rightarrow> object_proof_request \<Rightarrow> (did_identity, json) act" where
  "port_sign_object_proof X request =
     bnd engine (\<lambda>i.
     bnd (lift (select_key X i (bq_key request) DeviceSigning)) (\<lambda>m.
     ask (\<lambda>i. sign_object_proof X i (km_kid m) (bq_document request) (bq_issuer_did request)
       (bq_created request))))"

definition port_sign_document_proof :: "ext \<Rightarrow> document_proof_request \<Rightarrow> (did_identity, json) act" where
  "port_sign_document_proof X request =
     bnd engine (\<lambda>i.
     bnd (lift (select_root_key i (dq_key request))) (\<lambda>kid.
     ask (\<lambda>i. sign_document_proof X i (dq_document request) kid (dq_options request))))"

section \<open>HTTP signatures\<close>

definition MAX_HTTP_SIGNING_BODY_BYTES :: nat where "MAX_HTTP_SIGNING_BODY_BYTES = 4 * 1024 * 1024"

definition MANAGED_HEADERS :: "string list" where
  "MANAGED_HEADERS = [''authorization'', ''content-digest'', ''signature'', ''signature-input'']"

record http_header =
  hh_name :: string
  hh_value :: string

record http_request_signing_options =
  hs_nonce :: "string option"
  hs_created :: "int option"
  hs_expires :: "int option"
  hs_covered_components :: "string list option"

record exact_http_request =
  hq_key :: key_selector
  hq_url :: string
  hq_method :: string
  hq_headers :: "http_header list"
  hq_body :: "bytes option"
  hq_options :: http_request_signing_options

record prepared_http_signature_attempt =
  ha_binding_digest :: string
  ha_kid :: string
  ha_header_patch :: "http_header list"

definition ascii_lowercase_char :: "char \<Rightarrow> char" where
  "ascii_lowercase_char c = (if CHR ''A'' \<le> c \<and> c \<le> CHR ''Z'' then char_of (of_char c + 32 :: nat) else c)"

definition to_ascii_lowercase :: "string \<Rightarrow> string" where
  "to_ascii_lowercase = map ascii_lowercase_char"

text \<open>The set of names is the set of keys of the map built so far.\<close>

definition normalize_header ::
  "(string, string) btree_map \<Rightarrow> http_header \<Rightarrow> (string, string) btree_map identity_result" where
  "normalize_header normalized header =
     (let name = to_ascii_lowercase (trim (hh_name header)) in
      rbind (ensure (\<not> (name = [] \<or> CHR 0x0D \<in> set (hh_value header) \<or> CHR 0x0A \<in> set (hh_value header)
               \<or> name \<in> set MANAGED_HEADERS \<or> btree_get normalized name \<noteq> None)) IE_InvalidRequest) (\<lambda>_.
        Inr (btree_insert name (hh_value header) normalized)))"

definition normalize_headers :: "http_header list \<Rightarrow> (string, string) btree_map identity_result" where
  "normalize_headers headers = rfold normalize_header [] headers"

definition request_binding_digest ::
  "ext \<Rightarrow> exact_http_request \<Rightarrow> (string, string) btree_map \<Rightarrow> string identity_result" where
  "request_binding_digest X request headers =
     (let body_digest = b64u_encode X (sha256 X (case hq_body request of None \<Rightarrow> [] | Some b \<Rightarrow> b)) in
      rbind (map_err (\<lambda>_. IE_Internal) (canonicalizer_to_vec X (json_object
               [(''url'', JString (hq_url request)), (''method'', JString (hq_method request)),
                (''headers'', JObject (map (\<lambda>(k, v). (k, JString v)) headers)),
                (''body_digest'', JString body_digest)]))) (\<lambda>canonical.
        Inr (''sha256:'' @ b64u_encode X (sha256 X canonical))))"

definition prepare_http_signature ::
  "ext \<Rightarrow> exact_http_request \<Rightarrow> (did_identity, prepared_http_signature_attempt) act" where
  "prepare_http_signature X request =
     bnd (lift (normalize_headers (hq_headers request))) (\<lambda>headers.
     bnd (lift (ensure (\<not> (is_blank (hq_method request) \<or> trim (hq_url request) \<noteq> hq_url request))
            IE_InvalidRequest)) (\<lambda>_.
     bnd (lift (ensure (case hq_body request of None \<Rightarrow> True
              | Some body \<Rightarrow> length body \<le> MAX_HTTP_SIGNING_BODY_BYTES) IE_InvalidRequest)) (\<lambda>_.
     bnd engine (\<lambda>i.
     bnd (lift (select_authentication_key X i (hq_key request))) (\<lambda>m.
     bnd (lift (request_binding_digest X request headers)) (\<lambda>binding_digest.
     bnd (ask (\<lambda>i. http_signature_headers_with_options X i (km_kid m) (hq_url request)
            (hq_method request) (Some headers) (hq_body request)
            \<lparr>ho_keyid = None, ho_nonce = hs_nonce (hq_options request),
             ho_created = hs_created (hq_options request), ho_expires = hs_expires (hq_options request),
             ho_covered_components = hs_covered_components (hq_options request)\<rparr>)) (\<lambda>patch.
     ret \<lparr>ha_binding_digest = binding_digest, ha_kid = km_kid m,
          ha_header_patch = map (\<lambda>(n, v). \<lparr>hh_name = n, hh_value = v\<rparr>) patch\<rparr>)))))))"

definition prepare_legacy_did_wba :: "ext \<Rightarrow> key_selector \<Rightarrow> string \<Rightarrow> string \<Rightarrow> (did_identity, string) act" where
  "prepare_legacy_did_wba X key service_domain version =
     bnd (lift (ensure (\<not> (is_blank service_domain \<or> is_blank version)) IE_InvalidRequest)) (\<lambda>_.
     bnd engine (\<lambda>i.
     bnd (lift (select_authentication_key X i key)) (\<lambda>m.
     ask (\<lambda>i. legacy_did_wba_header X i (km_kid m) service_domain version))))"

end
