(* ===== verification/Host_Ports.thy ===== *)
theory Host_Ports
  imports Signing
begin

text \<open>
  The ports a host uses beside the application interface: status (\<open>host/status.rs\<close>), convergence
  (\<open>host/convergence.rs\<close>), enrolment (\<open>host/enrollment.rs\<close>), migration (\<open>host/migration.rs\<close>) and root
  transfer (\<open>host/root_transfer.rs\<close>).
\<close>

section \<open>Status\<close>

datatype host_root_capability = Host_Absent | Host_Pending | Host_Active

record host_document_checkpoint =
  hc_document_version :: u64
  hc_registry_version :: u64
  hc_document_digest :: string

record identity_host_status =
  hst_root_capability :: host_root_capability
  hst_root_key_fingerprint :: "string option"
  hst_checkpoint :: "host_document_checkpoint option"

fun host_root_capability_of :: "root_capability_state \<Rightarrow> host_root_capability" where
  "host_root_capability_of Root_Absent = Host_Absent"
| "host_root_capability_of Root_Pending = Host_Pending"
| "host_root_capability_of Root_Active = Host_Active"

definition host_checkpoint :: "document_checkpoint \<Rightarrow> host_document_checkpoint" where
  "host_checkpoint c =
     \<lparr>hc_document_version = ck_document_version c, hc_registry_version = ck_registry_version c,
      hc_document_digest = ck_document_digest c\<rparr>"

definition host_status :: "(did_identity, identity_host_status) act" where
  "host_status =
     bnd engine (\<lambda>i.
     ret \<lparr>hst_root_capability = host_root_capability_of (ir_root_capability (di_record i)),
          hst_root_key_fingerprint = ir_root_key_fingerprint (di_record i),
          hst_checkpoint = map_option host_checkpoint (ir_checkpoint (di_record i))\<rparr>)"

definition recover_identity :: "ext \<Rightarrow> (did_identity, unit) act" where
  "recover_identity X = modify_only (reload_identity X)"

section \<open>Convergence\<close>

datatype convergence_outcome = Conv_Activated | Conv_Updated | Conv_Unchanged | Conv_Revoked

definition evidence :: "verified_publication_evidence \<Rightarrow> verified_document_evidence" where
  "evidence v =
     \<lparr>ev_document_version = vpe_document_version v, ev_registry_version = vpe_registry_version v,
      ev_document_digest = vpe_document_digest v\<rparr>"

definition adoption_of :: "verified_remote_document \<Rightarrow> adopt_verified_document_spec" where
  "adoption_of remote = \<lparr>av_document = vrd_document remote, av_evidence = evidence (vrd_evidence remote)\<rparr>"

fun convergence_outcome_of :: "adopt_document_outcome \<Rightarrow> convergence_outcome" where
  "convergence_outcome_of Activated = Conv_Activated"
| "convergence_outcome_of Updated = Conv_Updated"
| "convergence_outcome_of Unchanged = Conv_Unchanged"
| "convergence_outcome_of Revoked = Conv_Revoked"

definition converge :: "ext \<Rightarrow> verified_remote_document \<Rightarrow> (did_identity, convergence_outcome) act" where
  "converge X remote =
     bnd (modify (\<lambda>i. adopt_verified_document X i (adoption_of remote))) (\<lambda>outcome.
     ret (convergence_outcome_of outcome))"

definition converge_sibling ::
  "ext \<Rightarrow> verified_remote_document \<Rightarrow> (did_identity, convergence_outcome) act" where
  "converge_sibling X remote =
     bnd (modify (\<lambda>i. adopt_verified_sibling_document X i (adoption_of remote))) (\<lambda>outcome.
     case outcome of
       Updated \<Rightarrow> ret Conv_Updated
     | Unchanged \<Rightarrow> ret Conv_Unchanged
     | _ \<Rightarrow> raise IE_InvalidDocumentChangeState)"

section \<open>Enrolment\<close>

record device_enrollment_request =
  deq_remote :: verified_remote_document
  deq_device_id :: string
  deq_device_signing_fragment :: string
  deq_device_agreement_fragment :: string
  deq_profiles :: "string list"
  deq_did_wba :: bool

record request_signing_enrollment_request =
  req_remote :: verified_remote_document
  req_fragment :: string
  req_did_wba :: bool

record proposal_public_key =
  ppk_kid :: string
  ppk_public_key_multibase :: string

datatype enrollment_proposal_kind =
    Proposal_Device string proposal_public_key proposal_public_key "string list"
  | Proposal_RequestSigning proposal_public_key

record enrollment_proposal =
  epr_enrollment_id :: string
  epr_identity :: identity_ref
  epr_kind :: enrollment_proposal_kind
  epr_root_key_fingerprint :: "string option"
  epr_checkpoint :: host_document_checkpoint

text \<open>A session without the engine of its identity.\<close>

record enrollment_session =
  ens_identity :: managed_identity
  ens_proposal :: enrollment_proposal

definition proposal_key :: "enrollment_public_key \<Rightarrow> proposal_public_key" where
  "proposal_key k = \<lparr>ppk_kid = ep_kid k, ppk_public_key_multibase = ep_public_key_multibase k\<rparr>"

definition device_proposal :: "identity_ref \<Rightarrow> prepared_enrollment \<Rightarrow> enrollment_proposal" where
  "device_proposal identity prepared =
     \<lparr>epr_enrollment_id = pn_enrollment_id prepared, epr_identity = identity,
      epr_kind = Proposal_Device (pn_device_id prepared) (proposal_key (pn_device_signing_key prepared))
        (proposal_key (pn_device_e2ee_key prepared)) (pn_profiles prepared),
      epr_root_key_fingerprint = pn_root_key_fingerprint prepared,
      epr_checkpoint = host_checkpoint (pn_checkpoint prepared)\<rparr>"

definition request_signing_proposal ::
  "identity_ref \<Rightarrow> prepared_request_signing_enrollment \<Rightarrow> enrollment_proposal" where
  "request_signing_proposal identity prepared =
     \<lparr>epr_enrollment_id = pq_enrollment_id prepared, epr_identity = identity,
      epr_kind = Proposal_RequestSigning (proposal_key (pq_request_signing_key prepared)),
      epr_root_key_fingerprint = pq_root_key_fingerprint prepared,
      epr_checkpoint = host_checkpoint (pq_checkpoint prepared)\<rparr>"

definition begin_device_enrollment ::
  "ext \<Rightarrow> device_enrollment_request \<Rightarrow> (did_store, enrollment_session \<times> did_identity) act" where
  "begin_device_enrollment X request =
     bnd (modify (\<lambda>store. prepare_enrollment X store
            \<lparr>es_verified_document = vrd_document (deq_remote request),
             es_evidence = evidence (vrd_evidence (deq_remote request)),
             es_device_id = deq_device_id request,
             es_device_signing_fragment = deq_device_signing_fragment request,
             es_device_e2ee_fragment = deq_device_agreement_fragment request,
             es_profiles = deq_profiles request,
             es_capabilities = \<lparr>did_wba = deq_did_wba request\<rparr>\<rparr>)) (\<lambda>(i, prepared).
     bnd engine (\<lambda>store.
     let identity = fst (wrap store i) in
     ret (\<lparr>ens_identity = identity,
           ens_proposal = device_proposal (mi_reference identity) prepared\<rparr>, i)))"

definition begin_request_signing_enrollment ::
  "ext \<Rightarrow> request_signing_enrollment_request \<Rightarrow> (did_store, enrollment_session \<times> did_identity) act" where
  "begin_request_signing_enrollment X request =
     bnd (modify (\<lambda>store. prepare_request_signing_enrollment X store
            \<lparr>rs_verified_document = vrd_document (req_remote request),
             rs_evidence = evidence (vrd_evidence (req_remote request)),
             rs_fragment = req_fragment request,
             rs_capabilities = \<lparr>did_wba = req_did_wba request\<rparr>\<rparr>)) (\<lambda>(i, prepared).
     bnd engine (\<lambda>store.
     let identity = fst (wrap store i) in
     ret (\<lparr>ens_identity = identity,
           ens_proposal = request_signing_proposal (mi_reference identity) prepared\<rparr>, i)))"

definition resume_enrollment ::
  "ext \<Rightarrow> identity_ref \<Rightarrow> (did_store, (enrollment_session \<times> did_identity) option) act" where
  "resume_enrollment X reference =
     bnd (manager_get X reference) (\<lambda>(identity, i).
     let proposal =
       (case pending_enrollment i of
          Some prepared \<Rightarrow> Some (device_proposal reference prepared)
        | None \<Rightarrow> map_option (request_signing_proposal reference) (pending_request_signing_enrollment i))
     in ret (map_option (\<lambda>p. (\<lparr>ens_identity = identity, ens_proposal = p\<rparr>, i)) proposal))"

definition sign_device_assertion ::
  "ext \<Rightarrow> enrollment_session \<Rightarrow> bytes \<Rightarrow> (did_identity, bytes) act" where
  "sign_device_assertion X s payload =
     (case epr_kind (ens_proposal s) of
        Proposal_RequestSigning _ \<Rightarrow> raise IE_CapabilityUnavailable
      | Proposal_Device _ signing_key _ _ \<Rightarrow>
          ask (\<lambda>i. sign_pending_enrollment X i (epr_enrollment_id (ens_proposal s))
            (ppk_kid signing_key) payload))"

definition derive_device_shared_secret ::
  "ext \<Rightarrow> enrollment_session \<Rightarrow> bytes \<Rightarrow> (did_identity, bytes) act" where
  "derive_device_shared_secret X s peer_public =
     (case epr_kind (ens_proposal s) of
        Proposal_RequestSigning _ \<Rightarrow> raise IE_CapabilityUnavailable
      | Proposal_Device _ _ agreement_key _ \<Rightarrow>
          ask (\<lambda>i. ecdh_pending_enrollment X i (epr_enrollment_id (ens_proposal s))
            (ppk_kid agreement_key) peer_public))"

definition activate ::
  "ext \<Rightarrow> verified_remote_document \<Rightarrow> (did_identity, convergence_outcome) act" where
  "activate X remote =
     bnd (converge X remote) (\<lambda>outcome.
     bnd (lift (ensure (outcome = Conv_Activated) IE_InvalidDocumentChangeState)) (\<lambda>_.
     ret outcome))"

definition cancel :: "ext \<Rightarrow> enrollment_session \<Rightarrow> (did_store, unit) act" where
  "cancel X s =
     (let identity = epr_identity (ens_proposal s) in
     bnd engine (\<lambda>store.
     bnd (lift (ensure (store_id store = ref_store_id identity) IE_IdentityNotFound)) (\<lambda>_.
     modify_only (\<lambda>store. discard_unpublished_enrollment X store (ref_did identity)
       (ref_identity_id identity) (ds_registry_generation store)))))"

section \<open>Migration\<close>

datatype migration_private_key_encoding = Migrate_Raw32 | Migrate_Pkcs8Der

datatype migration_key_purpose =
    Migrate_RootControl | Migrate_Authentication | Migrate_DeviceAssertion
  | Migrate_ApplicationAssertion | Migrate_KeyAgreement

record migration_private_key =
  mp_kid :: string
  mp_purpose :: migration_key_purpose
  mp_encoding :: migration_private_key_encoding
  mp_secret :: bytes

record full_identity_import_request =
  fi_remote :: verified_remote_document
  fi_did_wba :: bool
  fi_private_keys :: "migration_private_key list"

record device_identity_import_request =
  di_remote :: verified_remote_document
  di_did_wba :: bool
  di_signing_key :: migration_private_key
  di_agreement_key :: migration_private_key

record request_signing_identity_import_request =
  rq_remote :: verified_remote_document
  rq_did_wba :: bool
  rq_signing_key :: migration_private_key

fun migration_role :: "migration_key_purpose \<Rightarrow> key_role" where
  "migration_role Migrate_RootControl = RootControl"
| "migration_role Migrate_Authentication = RequestSigning"
| "migration_role Migrate_DeviceAssertion = DeviceSigning"
| "migration_role Migrate_ApplicationAssertion = E2eeSigning"
| "migration_role Migrate_KeyAgreement = E2eeAgreement"

fun migration_encoding :: "migration_private_key_encoding \<Rightarrow> private_key_encoding" where
  "migration_encoding Migrate_Raw32 = Raw32"
| "migration_encoding Migrate_Pkcs8Der = Pkcs8Der"

definition imported_key :: "migration_private_key \<Rightarrow> imported_private_key" where
  "imported_key v =
     \<lparr>ip_kid = mp_kid v, ip_role = migration_role (mp_purpose v),
      ip_encoding = migration_encoding (mp_encoding v), ip_secret = mp_secret v\<rparr>"

definition full_import_spec :: "full_identity_import_request \<Rightarrow> identity_import_spec" where
  "full_import_spec request =
     \<lparr>ii_verified_document = vrd_document (fi_remote request),
      ii_evidence = evidence (vrd_evidence (fi_remote request)),
      ii_capabilities = \<lparr>did_wba = fi_did_wba request\<rparr>,
      ii_private_keys = map imported_key (fi_private_keys request)\<rparr>"

definition wrapped :: "(did_store \<Rightarrow> (did_store \<times> did_identity) io)
     \<Rightarrow> (did_store, managed_identity \<times> did_identity) act" where
  "wrapped m = bnd (modify m) (\<lambda>i. bnd engine (\<lambda>store. ret (wrap store i)))"

definition port_import_full_identity ::
  "ext \<Rightarrow> host_ext \<Rightarrow> full_identity_import_request \<Rightarrow> (did_store, managed_identity \<times> did_identity) act" where
  "port_import_full_identity X H request =
     wrapped (\<lambda>store. import_identity X H store (full_import_spec request))"

definition import_full_identity_with_id ::
  "ext \<Rightarrow> host_ext \<Rightarrow> string \<Rightarrow> full_identity_import_request
     \<Rightarrow> (did_store, managed_identity \<times> did_identity) act" where
  "import_full_identity_with_id X H identity_id request =
     wrapped (\<lambda>store. import_identity_with_id X H store (full_import_spec request) identity_id)"

definition port_import_device_identity ::
  "ext \<Rightarrow> host_ext \<Rightarrow> device_identity_import_request \<Rightarrow> (did_store, managed_identity \<times> did_identity) act" where
  "port_import_device_identity X H request =
     wrapped (\<lambda>store. import_device_identity X H store
       \<lparr>dv_verified_document = vrd_document (di_remote request),
        dv_evidence = evidence (vrd_evidence (di_remote request)),
        dv_capabilities = \<lparr>did_wba = di_did_wba request\<rparr>,
        dv_signing_key = imported_key (di_signing_key request),
        dv_e2ee_key = imported_key (di_agreement_key request)\<rparr>)"

definition port_import_request_signing_identity ::
  "ext \<Rightarrow> host_ext \<Rightarrow> request_signing_identity_import_request
     \<Rightarrow> (did_store, managed_identity \<times> did_identity) act" where
  "port_import_request_signing_identity X H request =
     wrapped (\<lambda>store. import_request_signing_identity X H store
       \<lparr>ri_verified_document = vrd_document (rq_remote request),
        ri_evidence = evidence (vrd_evidence (rq_remote request)),
        ri_capabilities = \<lparr>did_wba = rq_did_wba request\<rparr>,
        ri_private_key = imported_key (rq_signing_key request)\<rparr>)"

section \<open>Root transfer\<close>

datatype host_import_outcome = Host_Import_Pending | Host_Import_Active

fun host_import_outcome_of :: "root_transfer_import_outcome \<Rightarrow> host_import_outcome" where
  "host_import_outcome_of Import_Pending = Host_Import_Pending"
| "host_import_outcome_of Import_Active = Host_Import_Active"

definition import_wrapped_root_envelope ::
  "ext \<Rightarrow> wrapped_root_envelope \<Rightarrow> (did_identity, host_import_outcome) act" where
  "import_wrapped_root_envelope X envelope =
     bnd (modify (\<lambda>i. import_wrapped_root X i envelope)) (\<lambda>outcome.
     ret (host_import_outcome_of outcome))"

definition port_confirm_root_promotion :: "ext \<Rightarrow> verified_remote_document \<Rightarrow> (did_identity, unit) act" where
  "port_confirm_root_promotion X remote =
     modify_only (\<lambda>i. confirm_root_promotion X i
       \<lparr>rp_document = vrd_document remote, rp_evidence = evidence (vrd_evidence remote)\<rparr>)"

definition select_pending_root_key :: "did_identity \<Rightarrow> key_selector \<Rightarrow> string identity_result" where
  "select_pending_root_key i selector =
     (let usable = (\<lambda>m. km_role m = RootControl \<and> km_origin m = Managed \<and> km_state m = Key_Pending
            \<and> \<not> km_material_erased m)
      in
      rbind (case selector of
               Sel_Kid kid \<Rightarrow>
                 rbind (from_engine (find_key_metadata i kid)) (\<lambda>m.
                 rbind (ensure (usable m) IE_CapabilityUnavailable) (\<lambda>_. Inr m))
             | Sel_Default \<Rightarrow> select_only usable (ir_keys (di_record i)) IE_CapabilityUnavailable)
        (\<lambda>m. Inr (km_kid m)))"

definition port_sign_pending_root_object_proof ::
  "ext \<Rightarrow> object_proof_request \<Rightarrow> (did_identity, json) act" where
  "port_sign_pending_root_object_proof X request =
     bnd engine (\<lambda>i.
     bnd (lift (select_pending_root_key i (bq_key request))) (\<lambda>kid.
     ask (\<lambda>i. sign_pending_root_object_proof X i kid (bq_document request) (bq_issuer_did request)
       (bq_created request))))"

definition export_root_for_legacy_envelope ::
  "ext \<Rightarrow> key_selector \<Rightarrow> bool \<Rightarrow> (did_identity, bytes) act" where
  "export_root_for_legacy_envelope X key user_presence_confirmed =
     bnd (lift (ensure user_presence_confirmed IE_CapabilityUnavailable)) (\<lambda>_.
     bnd engine (\<lambda>i.
     bnd (lift (select_root_key i key)) (\<lambda>kid.
     ask (\<lambda>i. export_root_private_key X i kid))))"

datatype root_private_key_encoding = Root_Raw32 | Root_Pkcs8Der

record legacy_root_import_evidence =
  lre_transfer_id :: string
  lre_source_did :: string
  lre_target_did :: string
  lre_sender_device_id :: string
  lre_recipient_device_id :: string
  lre_recipient_agreement_kid :: string
  lre_root_kid :: string
  lre_checkpoint :: host_document_checkpoint
  lre_accepted_at :: string

record legacy_root_import_request =
  lrq_evidence :: legacy_root_import_evidence
  lrq_encoding :: root_private_key_encoding
  lrq_root_key :: bytes

fun root_encoding :: "root_private_key_encoding \<Rightarrow> private_key_encoding" where
  "root_encoding Root_Raw32 = Raw32"
| "root_encoding Root_Pkcs8Der = Pkcs8Der"

definition engine_checkpoint :: "host_document_checkpoint \<Rightarrow> document_checkpoint" where
  "engine_checkpoint c =
     \<lparr>ck_document_version = hc_document_version c, ck_registry_version = hc_registry_version c,
      ck_document_digest = hc_document_digest c\<rparr>"

definition legacy_evidence_of :: "legacy_root_import_evidence \<Rightarrow> legacy_root_transfer_evidence" where
  "legacy_evidence_of e =
     \<lparr>lt_transfer_id = lre_transfer_id e, lt_source_did = lre_source_did e,
      lt_target_did = lre_target_did e, lt_sender_device_id = lre_sender_device_id e,
      lt_recipient_device_id = lre_recipient_device_id e,
      lt_recipient_agreement_kid = lre_recipient_agreement_kid e, lt_root_kid = lre_root_kid e,
      lt_checkpoint = engine_checkpoint (lre_checkpoint e), lt_accepted_at = lre_accepted_at e\<rparr>"

definition import_legacy_root ::
  "ext \<Rightarrow> host_ext \<Rightarrow> legacy_root_import_request \<Rightarrow> (did_identity, host_import_outcome) act" where
  "import_legacy_root X H request =
     bnd (modify (\<lambda>i. import_legacy_root_transfer X H i
            \<lparr>ls_evidence = legacy_evidence_of (lrq_evidence request),
             ls_encoding = root_encoding (lrq_encoding request),
             ls_root_key = lrq_root_key request\<rparr>)) (\<lambda>outcome.
     ret (host_import_outcome_of outcome))"

end
