(* ===== verification/Provider_Authorization.thy ===== *)
theory Provider_Authorization
  imports Host_External Root_Transfer
begin

text \<open>
  \<open>host/provider_authorization.rs\<close>: leases of capabilities and one-time tokens, the authority that
  guards the operations of an external provider. The authority lives in one process; its key is
  random and never stored.
\<close>

section \<open>Data\<close>

definition TOKEN_VERSION :: string where "TOKEN_VERSION = ''anp-identity-capability/1''"
definition MAX_TOKEN_BYTES :: nat where "MAX_TOKEN_BYTES = 16 * 1024"
definition MAX_LEASE_TTL_SECONDS :: int where "MAX_LEASE_TTL_SECONDS = 24 * 60 * 60"
definition MAX_OPERATION_TTL_SECONDS :: int where "MAX_OPERATION_TTL_SECONDS = 5 * 60"

record one_time_operation_binding =
  ob_capability :: string
  ob_identity_id :: string
  ob_operation :: string
  ob_kid :: "string option"
  ob_request_id :: string
  ob_recipient_public_key :: bytes
  ob_operation_input_digest :: string

record provider_capability_lease =
  pl_provider_instance_id :: string
  pl_lease_id :: string

record issued_authorization_context =
  iac_provider_instance_id :: string
  iac_parent_lease_id :: string
  iac_consumer :: string
  iac_capability :: string
  iac_store_id :: string
  iac_expires_at :: int

record issued_one_time_authorization =
  io_token :: string
  io_context :: issued_authorization_context

datatype provider_authorization_error =
    PA_LeaseInvalid | PA_CapabilityDenied | PA_TokenInvalid | PA_TokenExpired | PA_TokenConsumed
  | PA_Internal

record lease_state =
  lst_consumer :: string
  lst_capabilities :: "string set"
  lst_store_id :: string
  lst_expires_at :: int

text \<open>The two hash maps of the state are maps: the code never iterates over them in order.\<close>

record authorization_state =
  ast_leases :: "string \<rightharpoonup> lease_state"
  ast_consumed_tokens :: "bytes \<rightharpoonup> int"

record provider_authorization =
  au_provider_instance_id :: string
  au_hmac_key :: bytes
  au_state :: authorization_state

record token_claims =
  tc_version :: string
  tc_provider_instance_id :: string
  tc_parent_lease_id :: string
  tc_consumer :: string
  tc_capability :: string
  tc_store_id :: string
  tc_identity_id :: string
  tc_operation :: string
  tc_kid :: "string option"
  tc_request_id :: string
  tc_recipient_public_key_digest :: string
  tc_operation_input_digest :: string
  tc_expires_at :: int

section \<open>Actions\<close>

text \<open>
  Every method takes the authority by shared reference and locks its state; the lock is poisoned
  only by a panic, which the model does not have.
\<close>

type_synonym 'a authorization_result = "(provider_authorization_error, 'a) result"

type_synonym 'a auth = "(provider_authorization \<times> world, provider_authorization_error, 'a) Prelude.io"

definition authority :: "provider_authorization auth" where
  "authority s = (Inr (fst s), s)"

definition set_state :: "authorization_state \<Rightarrow> unit auth" where
  "set_state st s = (Inr (), ((fst s)\<lparr>au_state := st\<rparr>, snd s))"

text \<open>The clock and the random numbers cannot fail.\<close>

definition outside :: "'a io \<Rightarrow> 'a auth" where
  "outside m s = (case m (snd s) of (r, w) \<Rightarrow> (map_err (\<lambda>_. PA_Internal) r, (fst s, w)))"

text \<open>\<open>Utc::now().timestamp()\<close>: whole seconds, rounded down.\<close>

definition unix_now :: "int io" where
  "unix_now = bnd utc_now (\<lambda>t. ret (t div seconds 1))"

section \<open>Claims and their encoding\<close>

definition json_i64 :: "int \<Rightarrow> json" where
  "json_i64 n = JNumber (if 0 \<le> n then PosInt (word_of_int n) else NegInt n)"

definition claims_fields :: "token_claims \<Rightarrow> (string \<times> json) list" where
  "claims_fields c =
     [(''version'', JString (tc_version c)),
      (''provider_instance_id'', JString (tc_provider_instance_id c)),
      (''parent_lease_id'', JString (tc_parent_lease_id c)),
      (''consumer'', JString (tc_consumer c)), (''capability'', JString (tc_capability c)),
      (''store_id'', JString (tc_store_id c)), (''identity_id'', JString (tc_identity_id c)),
      (''operation'', JString (tc_operation c)),
      (''kid'', (case tc_kid c of None \<Rightarrow> JNull | Some kid \<Rightarrow> JString kid)),
      (''request_id'', JString (tc_request_id c)),
      (''recipient_public_key_digest'', JString (tc_recipient_public_key_digest c)),
      (''operation_input_digest'', JString (tc_operation_input_digest c)),
      (''expires_at'', json_i64 (tc_expires_at c))]"

definition claims_json :: "token_claims \<Rightarrow> json" where
  "claims_json c = json_object (claims_fields c)"

text \<open>
  The derived \<open>Deserialize\<close> with \<open>deny_unknown_fields\<close>: no field twice, no unknown field, and every
  field but the optional one present. An array gives all fields by position.
\<close>

definition claims_field_names :: "string list" where
  "claims_field_names =
     [''version'', ''provider_instance_id'', ''parent_lease_id'', ''consumer'', ''capability'',
      ''store_id'', ''identity_id'', ''operation'', ''kid'', ''request_id'',
      ''recipient_public_key_digest'', ''operation_input_digest'', ''expires_at'']"

fun opt_str :: "json option \<Rightarrow> string option option" where
  "opt_str None = Some None"
| "opt_str (Some JNull) = Some None"
| "opt_str (Some (JString s)) = Some (Some s)"
| "opt_str (Some _) = None"

fun as_i64 :: "json \<Rightarrow> int option" where
  "as_i64 (JNumber (PosInt n)) = (if uint n < 2 ^ 63 then Some (uint n) else None)"
| "as_i64 (JNumber (NegInt n)) = Some n"
| "as_i64 _ = None"

definition claims_of :: "(string \<Rightarrow> json option) \<Rightarrow> token_claims option" where
  "claims_of field =
     (let str = (\<lambda>k. Option.bind (field k) as_str) in
     Option.bind (str ''version'') (\<lambda>version.
     Option.bind (str ''provider_instance_id'') (\<lambda>provider_instance_id.
     Option.bind (str ''parent_lease_id'') (\<lambda>parent_lease_id.
     Option.bind (str ''consumer'') (\<lambda>consumer.
     Option.bind (str ''capability'') (\<lambda>capability.
     Option.bind (str ''store_id'') (\<lambda>store_id.
     Option.bind (str ''identity_id'') (\<lambda>identity_id.
     Option.bind (str ''operation'') (\<lambda>operation.
     Option.bind (opt_str (field ''kid'')) (\<lambda>kid.
     Option.bind (str ''request_id'') (\<lambda>request_id.
     Option.bind (str ''recipient_public_key_digest'') (\<lambda>recipient.
     Option.bind (str ''operation_input_digest'') (\<lambda>operation_input.
     Option.bind (Option.bind (field ''expires_at'') as_i64) (\<lambda>expires_at.
       Some \<lparr>tc_version = version, tc_provider_instance_id = provider_instance_id,
             tc_parent_lease_id = parent_lease_id, tc_consumer = consumer,
             tc_capability = capability, tc_store_id = store_id, tc_identity_id = identity_id,
             tc_operation = operation, tc_kid = kid, tc_request_id = request_id,
             tc_recipient_public_key_digest = recipient,
             tc_operation_input_digest = operation_input, tc_expires_at = expires_at\<rparr>))))))))))))))"

definition claims_from_slice :: "host_ext \<Rightarrow> bytes \<Rightarrow> token_claims option" where
  "claims_from_slice H payload =
     Option.bind (serde_struct_input H payload) (\<lambda>input.
       case input of
         Inl kvs \<Rightarrow>
           if distinct (map fst kvs) \<and> set (map fst kvs) \<subseteq> set claims_field_names
           then claims_of (map_of kvs) else None
       | Inr vs \<Rightarrow>
           if length vs = length claims_field_names
           then claims_of (map_of (zip claims_field_names vs)) else None)"

definition recipient_public_key_digest :: "host_ext \<Rightarrow> bytes \<Rightarrow> string" where
  "recipient_public_key_digest H public_key = sealed_recipient_public_key_digest H public_key"

section \<open>Checks\<close>

definition validate_nonempty :: "string \<Rightarrow> unit authorization_result" where
  "validate_nonempty value = ensure (\<not> is_blank value) PA_TokenInvalid"

definition validate_binding :: "one_time_operation_binding \<Rightarrow> unit authorization_result" where
  "validate_binding b =
     rbind (validate_nonempty (ob_capability b)) (\<lambda>_.
     rbind (validate_nonempty (ob_identity_id b)) (\<lambda>_.
     rbind (validate_nonempty (ob_operation b)) (\<lambda>_.
     rbind (validate_nonempty (ob_request_id b)) (\<lambda>_.
     rbind (validate_nonempty (ob_operation_input_digest b)) (\<lambda>_.
       ensure (case ob_kid b of None \<Rightarrow> True | Some kid \<Rightarrow> \<not> is_blank kid) PA_TokenInvalid)))))"

definition sign_payload :: "host_ext \<Rightarrow> provider_authorization \<Rightarrow> bytes \<Rightarrow> bytes authorization_result" where
  "sign_payload H au payload = ok_or (hmac_sha256 H (au_hmac_key au) payload) PA_Internal"

definition verify_payload ::
  "host_ext \<Rightarrow> provider_authorization \<Rightarrow> bytes \<Rightarrow> bytes \<Rightarrow> unit authorization_result" where
  "verify_payload H au payload tag =
     rbind (ok_or (hmac_sha256 H (au_hmac_key au) payload) PA_Internal) (\<lambda>expected.
       ensure (expected = tag) PA_TokenInvalid)"

section \<open>Leases\<close>

definition new_provider_authorization :: "ext \<Rightarrow> provider_authorization io" where
  "new_provider_authorization X =
     bnd (fill_bytes 32) (\<lambda>key.
     bnd (random_id X) (\<lambda>instance.
     ret \<lparr>au_provider_instance_id = instance, au_hmac_key = key,
          au_state = \<lparr>ast_leases = Map.empty, ast_consumed_tokens = Map.empty\<rparr>\<rparr>))"

definition acquire_lease_at ::
  "ext \<Rightarrow> string \<Rightarrow> string list \<Rightarrow> string \<Rightarrow> int \<Rightarrow> int \<Rightarrow> provider_capability_lease auth" where
  "acquire_lease_at X consumer capabilities the_store_id ttl_seconds now =
     bnd (lift (validate_nonempty consumer)) (\<lambda>_.
     bnd (lift (validate_nonempty the_store_id)) (\<lambda>_.
     bnd (lift (ensure (1 \<le> ttl_seconds \<and> ttl_seconds \<le> MAX_LEASE_TTL_SECONDS) PA_LeaseInvalid)) (\<lambda>_.
     bnd (lift (ensure (\<not> (capabilities = [] \<or> list_ex is_blank capabilities)) PA_LeaseInvalid)) (\<lambda>_.
     bnd (outside (random_id X)) (\<lambda>lease_id.
     bnd authority (\<lambda>au.
     bnd (set_state ((au_state au)\<lparr>ast_leases := (ast_leases (au_state au))(lease_id \<mapsto>
            \<lparr>lst_consumer = consumer, lst_capabilities = set capabilities, lst_store_id = the_store_id,
             lst_expires_at = now + ttl_seconds\<rparr>)\<rparr>)) (\<lambda>_.
     ret \<lparr>pl_provider_instance_id = au_provider_instance_id au, pl_lease_id = lease_id\<rparr>)))))))"

definition acquire_lease ::
  "ext \<Rightarrow> string \<Rightarrow> string list \<Rightarrow> string \<Rightarrow> int \<Rightarrow> provider_capability_lease auth" where
  "acquire_lease X consumer capabilities the_store_id ttl_seconds =
     bnd (outside unix_now) (\<lambda>now. acquire_lease_at X consumer capabilities the_store_id ttl_seconds now)"

definition dispose_lease :: "provider_capability_lease \<Rightarrow> unit auth" where
  "dispose_lease lease =
     bnd authority (\<lambda>au.
     bnd (lift (ensure (pl_provider_instance_id lease = au_provider_instance_id au) PA_LeaseInvalid)) (\<lambda>_.
     let removed = ast_leases (au_state au) (pl_lease_id lease) in
     bnd (set_state ((au_state au)\<lparr>ast_leases := (ast_leases (au_state au))(pl_lease_id lease := None)\<rparr>)) (\<lambda>_.
     lift (ensure (removed \<noteq> None) PA_LeaseInvalid))))"

definition authorize :: "provider_capability_lease \<Rightarrow> string \<Rightarrow> unit auth" where
  "authorize lease capability =
     bnd authority (\<lambda>au.
     bnd (lift (ensure (\<not> (pl_provider_instance_id lease \<noteq> au_provider_instance_id au
              \<or> is_blank capability)) PA_LeaseInvalid)) (\<lambda>_.
     bnd (lift (ok_or (ast_leases (au_state au) (pl_lease_id lease)) PA_LeaseInvalid)) (\<lambda>parent.
     bnd (outside unix_now) (\<lambda>now.
     bnd (lift (ensure (\<not> lst_expires_at parent \<le> now) PA_LeaseInvalid)) (\<lambda>_.
     lift (ensure (capability \<in> lst_capabilities parent) PA_CapabilityDenied))))))"

section \<open>One-time tokens\<close>

definition new_claims ::
  "host_ext \<Rightarrow> provider_authorization \<Rightarrow> provider_capability_lease \<Rightarrow> lease_state
     \<Rightarrow> one_time_operation_binding \<Rightarrow> int \<Rightarrow> token_claims" where
  "new_claims H au lease parent b expires_at =
     \<lparr>tc_version = TOKEN_VERSION, tc_provider_instance_id = au_provider_instance_id au,
      tc_parent_lease_id = pl_lease_id lease, tc_consumer = lst_consumer parent,
      tc_capability = ob_capability b, tc_store_id = lst_store_id parent,
      tc_identity_id = ob_identity_id b, tc_operation = ob_operation b, tc_kid = ob_kid b,
      tc_request_id = ob_request_id b,
      tc_recipient_public_key_digest = recipient_public_key_digest H (ob_recipient_public_key b),
      tc_operation_input_digest = ob_operation_input_digest b, tc_expires_at = expires_at\<rparr>"

text \<open>The context an authorisation was issued or consumed in: the same fields of its claims.\<close>

definition claims_context :: "token_claims \<Rightarrow> issued_authorization_context" where
  "claims_context c =
     \<lparr>iac_provider_instance_id = tc_provider_instance_id c, iac_parent_lease_id = tc_parent_lease_id c,
      iac_consumer = tc_consumer c, iac_capability = tc_capability c, iac_store_id = tc_store_id c,
      iac_expires_at = tc_expires_at c\<rparr>"

definition issue_one_time_with_context_at ::
  "ext \<Rightarrow> host_ext \<Rightarrow> provider_capability_lease \<Rightarrow> one_time_operation_binding \<Rightarrow> int \<Rightarrow> int
     \<Rightarrow> issued_one_time_authorization auth" where
  "issue_one_time_with_context_at X H lease b ttl_seconds now =
     bnd authority (\<lambda>au.
     bnd (lift (validate_binding b)) (\<lambda>_.
     bnd (lift (ensure (\<not> (pl_provider_instance_id lease \<noteq> au_provider_instance_id au
              \<or> \<not> (1 \<le> ttl_seconds \<and> ttl_seconds \<le> MAX_OPERATION_TTL_SECONDS))) PA_LeaseInvalid)) (\<lambda>_.
     bnd (lift (ok_or (ast_leases (au_state au) (pl_lease_id lease)) PA_LeaseInvalid)) (\<lambda>parent.
     bnd (lift (ensure (\<not> lst_expires_at parent \<le> now) PA_LeaseInvalid)) (\<lambda>_.
     bnd (lift (ensure (ob_capability b \<in> lst_capabilities parent) PA_CapabilityDenied)) (\<lambda>_.
     let claims = new_claims H au lease parent b (min (now + ttl_seconds) (lst_expires_at parent)) in
     bnd (lift (map_err (\<lambda>_. PA_Internal) (canonicalizer_to_vec X (claims_json claims)))) (\<lambda>payload.
     bnd (lift (sign_payload H au payload)) (\<lambda>tag.
     ret \<lparr>io_token = b64u_encode X payload @ ''.'' @ b64u_encode X tag,
          io_context = claims_context claims\<rparr>))))))))"

definition issue_one_time_with_context ::
  "ext \<Rightarrow> host_ext \<Rightarrow> provider_capability_lease \<Rightarrow> one_time_operation_binding \<Rightarrow> int
     \<Rightarrow> issued_one_time_authorization auth" where
  "issue_one_time_with_context X H lease b ttl_seconds =
     bnd (outside unix_now) (\<lambda>now. issue_one_time_with_context_at X H lease b ttl_seconds now)"

definition issue_one_time ::
  "ext \<Rightarrow> host_ext \<Rightarrow> provider_capability_lease \<Rightarrow> one_time_operation_binding \<Rightarrow> int \<Rightarrow> string auth" where
  "issue_one_time X H lease b ttl_seconds =
     bnd (issue_one_time_with_context X H lease b ttl_seconds) (\<lambda>issued. ret (io_token issued))"

text \<open>\<open>split_once('.')\<close> with a second part that has no dot.\<close>

definition split_token :: "string \<Rightarrow> (string \<times> string) option" where
  "split_token token = (case split_on CHR ''.'' token of [p, t] \<Rightarrow> Some (p, t) | _ \<Rightarrow> None)"

definition claims_match ::
  "host_ext \<Rightarrow> provider_authorization \<Rightarrow> token_claims \<Rightarrow> one_time_operation_binding \<Rightarrow> bool" where
  "claims_match H au c expected \<longleftrightarrow>
     \<not> (tc_version c \<noteq> TOKEN_VERSION \<or> tc_provider_instance_id c \<noteq> au_provider_instance_id au
        \<or> tc_capability c \<noteq> ob_capability expected \<or> tc_identity_id c \<noteq> ob_identity_id expected
        \<or> tc_operation c \<noteq> ob_operation expected \<or> tc_kid c \<noteq> ob_kid expected
        \<or> tc_request_id c \<noteq> ob_request_id expected
        \<or> tc_recipient_public_key_digest c
            \<noteq> recipient_public_key_digest H (ob_recipient_public_key expected)
        \<or> tc_operation_input_digest c \<noteq> ob_operation_input_digest expected)"

text \<open>The checks that do not look at the state of the authority.\<close>

definition read_token ::
  "ext \<Rightarrow> host_ext \<Rightarrow> provider_authorization \<Rightarrow> string \<Rightarrow> one_time_operation_binding \<Rightarrow> int
     \<Rightarrow> token_claims authorization_result" where
  "read_token X H au token expected now =
     rbind (validate_binding expected) (\<lambda>_.
     rbind (ensure (\<not> length token > MAX_TOKEN_BYTES) PA_TokenInvalid) (\<lambda>_.
     rbind (ok_or (split_token token) PA_TokenInvalid) (\<lambda>(payload_text, tag_text).
     rbind (ok_or (b64u_decode X payload_text) PA_TokenInvalid) (\<lambda>payload.
     rbind (ok_or (b64u_decode X tag_text) PA_TokenInvalid) (\<lambda>tag.
     rbind (verify_payload H au payload tag) (\<lambda>_.
     rbind (ok_or (claims_from_slice H payload) PA_TokenInvalid) (\<lambda>claims.
     rbind (ensure (claims_match H au claims expected) PA_TokenInvalid) (\<lambda>_.
     rbind (ensure (\<not> tc_expires_at claims \<le> now) PA_TokenExpired) (\<lambda>_.
       Inr claims)))))))))"

definition retain_unexpired :: "int \<Rightarrow> (bytes \<rightharpoonup> int) \<Rightarrow> (bytes \<rightharpoonup> int)" where
  "retain_unexpired now m = (\<lambda>k. Option.bind (m k) (\<lambda>e. if e > now then Some e else None))"

definition consume_for_operation_at ::
  "ext \<Rightarrow> host_ext \<Rightarrow> string \<Rightarrow> one_time_operation_binding \<Rightarrow> int \<Rightarrow> issued_authorization_context auth" where
  "consume_for_operation_at X H token expected now =
     bnd authority (\<lambda>au.
     bnd (lift (read_token X H au token expected now)) (\<lambda>claims.
     let token_digest = sha256 X token; state = au_state au in
     bnd (lift (ok_or (ast_leases state (tc_parent_lease_id claims)) PA_LeaseInvalid)) (\<lambda>parent.
     bnd (lift (ensure (\<not> (lst_expires_at parent \<le> now \<or> lst_consumer parent \<noteq> tc_consumer claims
              \<or> lst_store_id parent \<noteq> tc_store_id claims
              \<or> tc_capability claims \<notin> lst_capabilities parent)) PA_LeaseInvalid)) (\<lambda>_.
     let retained = retain_unexpired now (ast_consumed_tokens state) in
     bnd (set_state (state\<lparr>ast_consumed_tokens := retained(token_digest \<mapsto> tc_expires_at claims)\<rparr>)) (\<lambda>_.
     bnd (lift (ensure (retained token_digest = None) PA_TokenConsumed)) (\<lambda>_.
     ret (claims_context claims)))))))"

definition consume_for_operation ::
  "ext \<Rightarrow> host_ext \<Rightarrow> string \<Rightarrow> one_time_operation_binding \<Rightarrow> issued_authorization_context auth" where
  "consume_for_operation X H token expected =
     bnd (outside unix_now) (\<lambda>now. consume_for_operation_at X H token expected now)"

definition consume_one_time :: "ext \<Rightarrow> host_ext \<Rightarrow> string \<Rightarrow> one_time_operation_binding \<Rightarrow> unit auth" where
  "consume_one_time X H token expected =
     bnd (consume_for_operation X H token expected) (\<lambda>_. ret ())"

end
