(* ===== verification/Sealed_Handoff.thy ===== *)
theory Sealed_Handoff
  imports Host_Ports Provider_Authorization
begin

text \<open>
  \<open>host/sealed_handoff.rs\<close>: the operations of an external provider that return or accept a secret.
  Each consumes a one-time token bound to its request, works on the identity, and seals its result
  to the recipient, or opens a sealed secret with a key only the provider holds.
\<close>

section \<open>Data\<close>

record sealed_secret_envelope =
  sse_protocol :: string
  sse_suite :: string
  sse_encapped_key_b64u :: string
  sse_ciphertext_b64u :: string

record sealed_secret_delivery =
  ssd_envelope :: sealed_secret_envelope
  ssd_authorization :: issued_authorization_context
  ssd_aad :: string

record sealed_key_agreement_request =
  kar_identity :: identity_ref
  kar_kid :: string
  kar_peer_public :: bytes
  kar_recipient_public_key :: bytes
  kar_request_id :: string
  kar_token :: string

record sealed_enrollment_key_agreement_request =
  ear_identity :: identity_ref
  ear_enrollment_id :: string
  ear_kid :: string
  ear_peer_public :: bytes
  ear_recipient_public_key :: bytes
  ear_request_id :: string
  ear_token :: string

record sealed_root_export_request =
  xer_identity :: identity_ref
  xer_kid :: string
  xer_recipient_public_key :: bytes
  xer_request_id :: string
  xer_user_presence_confirmed :: bool
  xer_token :: string

record sealed_root_import_preparation =
  rip_identity :: identity_ref
  rip_evidence :: legacy_root_import_evidence
  rip_encoding :: root_private_key_encoding
  rip_request_id :: string

record sealed_import_offer =
  sio_recipient_public_key :: bytes
  sio_request_id :: string
  sio_token :: string
  sio_authorization :: issued_authorization_context
  sio_aad_b64u :: string

record prepared_sealed_root_import =
  psr_recipient :: bytes
  psr_preparation :: sealed_root_import_preparation
  psr_binding :: one_time_operation_binding
  psr_aad :: bytes

record sealed_identity_material_key_spec =
  sks_kid :: string
  sks_purpose :: migration_key_purpose
  sks_encoding :: migration_private_key_encoding

record sealed_identity_material_import_preparation =
  mip_remote :: verified_remote_document
  mip_did_wba :: bool
  mip_keys :: "sealed_identity_material_key_spec list"
  mip_request_id :: string

record sealed_identity_material_import_offer =
  mio_target :: identity_ref
  mio_recipient_public_key :: bytes
  mio_request_id :: string
  mio_token :: string
  mio_authorization :: issued_authorization_context
  mio_item_aad_b64u :: "string list"

record prepared_sealed_identity_material_import =
  psm_recipient :: bytes
  psm_target :: identity_ref
  psm_preparation :: sealed_identity_material_import_preparation
  psm_binding :: one_time_operation_binding
  psm_item_aad :: "bytes list"

datatype sealed_provider_error =
    SP_Authorization | SP_IdentityBinding | SP_InvalidRequest | SP_Identity | SP_EnvelopeInvalid

type_synonym 'a sealed_result = "(sealed_provider_error, 'a) result"

section \<open>Actions\<close>

text \<open>
  An operation works on the authority, on the engine of the identity or of the store, and on the
  world. The conversions of errors forget everything but the side that failed.
\<close>

type_synonym ('s, 'a) sealed = "((provider_authorization \<times> 's) \<times> world, sealed_provider_error, 'a) Prelude.io"

definition authorized :: "'a auth \<Rightarrow> ('s, 'a) sealed" where
  "authorized m s =
     (case m (fst (fst s), snd s) of
        (r, (au, w)) \<Rightarrow> (map_err (\<lambda>_. SP_Authorization) r, ((au, snd (fst s)), w)))"

definition on_engine :: "('s, 'a) act \<Rightarrow> ('s, 'a) sealed" where
  "on_engine m s =
     (case m (snd (fst s), snd s) of
        (r, (e, w)) \<Rightarrow> (map_err (\<lambda>_. SP_Identity) r, ((fst (fst s), e), w)))"

definition sealed_engine :: "('s, 's) sealed" where
  "sealed_engine s = (Inr (snd (fst s)), s)"

text \<open>Random bytes drawn by the sealing crate.\<close>

definition draw :: "nat \<Rightarrow> ('s, bytes) sealed" where
  "draw n s = (case fill_bytes n (snd s) of (r, w) \<Rightarrow> (map_err (\<lambda>_. SP_Identity) r, (fst s, w)))"

section \<open>Envelopes\<close>

definition from_handoff :: "ext \<Rightarrow> host_ext \<Rightarrow> sealed_handoff \<Rightarrow> sealed_secret_envelope" where
  "from_handoff X H handoff =
     \<lparr>sse_protocol = sealed_secret_protocol H, sse_suite = sealed_handoff_suite H,
      sse_encapped_key_b64u = b64u_encode X (sh_encapped_key handoff),
      sse_ciphertext_b64u = b64u_encode X (sh_ciphertext handoff)\<rparr>"

definition to_handoff :: "ext \<Rightarrow> host_ext \<Rightarrow> sealed_secret_envelope \<Rightarrow> sealed_handoff sealed_result" where
  "to_handoff X H e =
     rbind (ensure (\<not> (sse_protocol e \<noteq> sealed_secret_protocol H \<or> sse_suite e \<noteq> sealed_handoff_suite H))
              SP_EnvelopeInvalid) (\<lambda>_.
     rbind (ok_or (b64u_decode X (sse_encapped_key_b64u e)) SP_EnvelopeInvalid) (\<lambda>encapped.
     rbind (ok_or (b64u_decode X (sse_ciphertext_b64u e)) SP_EnvelopeInvalid) (\<lambda>ciphertext.
       ok_or (sealed_from_parts H encapped ciphertext) SP_EnvelopeInvalid)))"

definition sealed_delivery ::
  "ext \<Rightarrow> host_ext \<Rightarrow> sealed_handoff \<Rightarrow> bytes \<Rightarrow> issued_authorization_context \<Rightarrow> sealed_secret_delivery" where
  "sealed_delivery X H handoff aad consumed =
     \<lparr>ssd_envelope = from_handoff X H handoff, ssd_authorization = consumed,
      ssd_aad = b64u_encode X aad\<rparr>"

section \<open>Bindings\<close>

definition sealed_identity_context :: "identity_ref \<Rightarrow> sealed_identity_ctx" where
  "sealed_identity_context r =
     \<lparr>sic_store_id = ref_store_id r, sic_identity_id = ref_identity_id r, sic_did = ref_did r\<rparr>"

definition shared_operation_binding :: "sealed_binding \<Rightarrow> one_time_operation_binding" where
  "shared_operation_binding b =
     \<lparr>ob_capability = sb_capability b, ob_identity_id = sb_identity_id b,
      ob_operation = sb_operation b, ob_kid = Some (sb_kid b), ob_request_id = sb_request_id b,
      ob_recipient_public_key = sb_recipient_public_key b,
      ob_operation_input_digest = sb_operation_input_digest b\<rparr>"

definition sealed_key_agreement_binding ::
  "host_ext \<Rightarrow> identity_ref \<Rightarrow> string \<Rightarrow> bytes \<Rightarrow> bytes \<Rightarrow> string \<Rightarrow> one_time_operation_binding sealed_result" where
  "sealed_key_agreement_binding H identity kid peer_public recipient request_id =
     ok_or (map_option shared_operation_binding
       (identity_ecdh_binding H (sealed_identity_context identity) kid peer_public recipient request_id))
       SP_InvalidRequest"

definition sealed_enrollment_key_agreement_binding ::
  "host_ext \<Rightarrow> identity_ref \<Rightarrow> string \<Rightarrow> string \<Rightarrow> bytes \<Rightarrow> bytes \<Rightarrow> string
     \<Rightarrow> one_time_operation_binding sealed_result" where
  "sealed_enrollment_key_agreement_binding H identity enrollment_id kid peer_public recipient request_id =
     ok_or (map_option shared_operation_binding
       (identity_enrollment_ecdh_binding H (sealed_identity_context identity) enrollment_id kid
          peer_public recipient request_id)) SP_InvalidRequest"

definition sealed_root_export_binding ::
  "host_ext \<Rightarrow> identity_ref \<Rightarrow> string \<Rightarrow> bytes \<Rightarrow> string \<Rightarrow> bool \<Rightarrow> one_time_operation_binding sealed_result" where
  "sealed_root_export_binding H identity kid recipient request_id user_presence_confirmed =
     ok_or (map_option shared_operation_binding
       (identity_root_export_binding H (sealed_identity_context identity) kid recipient request_id
          user_presence_confirmed))
       (if user_presence_confirmed then SP_InvalidRequest else SP_Authorization)"

definition sealed_evidence :: "legacy_root_import_evidence \<Rightarrow> sealed_root_evidence" where
  "sealed_evidence e =
     \<lparr>sre_transfer_id = lre_transfer_id e, sre_source_did = lre_source_did e,
      sre_target_did = lre_target_did e, sre_sender_device_id = lre_sender_device_id e,
      sre_recipient_device_id = lre_recipient_device_id e,
      sre_recipient_agreement_kid = lre_recipient_agreement_kid e, sre_root_kid = lre_root_kid e,
      sre_document_version = hc_document_version (lre_checkpoint e),
      sre_registry_version = hc_registry_version (lre_checkpoint e),
      sre_document_digest = hc_document_digest (lre_checkpoint e),
      sre_accepted_at = lre_accepted_at e\<rparr>"

fun sealed_root_encoding :: "root_private_key_encoding \<Rightarrow> sealed_private_key_encoding" where
  "sealed_root_encoding Root_Raw32 = Sealed_Raw32"
| "sealed_root_encoding Root_Pkcs8Der = Sealed_Pkcs8Der"

definition sealed_root_import_binding ::
  "host_ext \<Rightarrow> sealed_root_import_preparation \<Rightarrow> bytes \<Rightarrow> one_time_operation_binding sealed_result" where
  "sealed_root_import_binding H p recipient =
     ok_or (map_option shared_operation_binding
       (identity_root_import_binding H (sealed_identity_context (rip_identity p))
          (sealed_evidence (rip_evidence p)) (sealed_root_encoding (rip_encoding p)) recipient
          (rip_request_id p)))
       (if lre_target_did (rip_evidence p) \<noteq> ref_did (rip_identity p) then SP_IdentityBinding
        else SP_InvalidRequest)"

fun sealed_purpose :: "migration_key_purpose \<Rightarrow> sealed_key_purpose" where
  "sealed_purpose Migrate_RootControl = Sealed_RootControl"
| "sealed_purpose Migrate_Authentication = Sealed_Authentication"
| "sealed_purpose Migrate_DeviceAssertion = Sealed_DeviceAssertion"
| "sealed_purpose Migrate_ApplicationAssertion = Sealed_ApplicationAssertion"
| "sealed_purpose Migrate_KeyAgreement = Sealed_KeyAgreement"

fun sealed_encoding :: "migration_private_key_encoding \<Rightarrow> sealed_private_key_encoding" where
  "sealed_encoding Migrate_Raw32 = Sealed_Raw32"
| "sealed_encoding Migrate_Pkcs8Der = Sealed_Pkcs8Der"

definition sealed_identity_material_import_binding ::
  "ext \<Rightarrow> host_ext \<Rightarrow> identity_ref \<Rightarrow> sealed_identity_material_import_preparation \<Rightarrow> bytes
     \<Rightarrow> one_time_operation_binding sealed_result" where
  "sealed_identity_material_import_binding X H target p recipient =
     (let document = vrd_document (mip_remote p); e = vrd_evidence (mip_remote p) in
     rbind (if get_str document ''id'' \<noteq> Some (ref_did target) then Inl SP_IdentityBinding
            else rbind (map_err (\<lambda>_. SP_Identity) (document_digest X document)) (\<lambda>digest.
              ensure (digest = vpe_document_digest e) SP_IdentityBinding)) (\<lambda>_.
     let keys = map (\<lambda>k. \<lparr>smk_kid = sks_kid k, smk_purpose = sealed_purpose (sks_purpose k),
                          smk_encoding = sealed_encoding (sks_encoding k)\<rparr>) (mip_keys p)
     in
     rbind (ok_or (identity_material_import_binding H (sealed_identity_context target)
              (mip_request_id p) recipient (mip_did_wba p) (vpe_document_digest e)
              (vpe_document_version e) (vpe_registry_version e) keys) SP_InvalidRequest) (\<lambda>b.
       Inr ((shared_operation_binding b)\<lparr>ob_kid := None\<rparr>))))"

section \<open>Associated data\<close>

definition sealed_authorization_of :: "issued_authorization_context \<Rightarrow> sealed_authorization_context" where
  "sealed_authorization_of c =
     \<lparr>sac_provider_instance_id = iac_provider_instance_id c,
      sac_parent_lease_id = iac_parent_lease_id c, sac_consumer = iac_consumer c,
      sac_capability = iac_capability c, sac_store_id = iac_store_id c,
      sac_expires_at = iac_expires_at c\<rparr>"

text \<open>The values of a context with the store of the identity in place of its own.\<close>

definition sealed_aad_values ::
  "host_ext \<Rightarrow> string \<Rightarrow> identity_ref \<Rightarrow> string \<Rightarrow> string \<Rightarrow> string \<Rightarrow> bytes
     \<Rightarrow> issued_authorization_context \<Rightarrow> bytes sealed_result" where
  "sealed_aad_values H operation identity kid request_id operation_input_digest recipient c =
     ok_or (identity_operation_aad H
       (sealed_authorization_of (c\<lparr>iac_store_id := ref_store_id identity\<rparr>))
       \<lparr>sb_capability = iac_capability c, sb_identity_id = ref_identity_id identity,
        sb_operation = operation, sb_kid = kid, sb_request_id = request_id,
        sb_recipient_public_key = recipient,
        sb_operation_input_digest = operation_input_digest\<rparr>
       (sealed_identity_context identity)) SP_InvalidRequest"

definition sealed_aad ::
  "host_ext \<Rightarrow> string \<Rightarrow> identity_ref \<Rightarrow> string \<Rightarrow> string \<Rightarrow> string \<Rightarrow> bytes
     \<Rightarrow> issued_authorization_context \<Rightarrow> bytes sealed_result" where
  "sealed_aad H operation identity kid request_id operation_input_digest recipient consumed =
     sealed_aad_values H operation identity kid request_id operation_input_digest recipient consumed"

definition sealed_operation_aad ::
  "host_ext \<Rightarrow> issued_authorization_context \<Rightarrow> one_time_operation_binding \<Rightarrow> identity_ref
     \<Rightarrow> bytes sealed_result" where
  "sealed_operation_aad H c b identity =
     rbind (ensure (\<not> (iac_store_id c \<noteq> ref_store_id identity \<or> iac_capability c \<noteq> ob_capability b))
              SP_IdentityBinding) (\<lambda>_.
     rbind (ok_or (ob_kid b) SP_InvalidRequest) (\<lambda>kid.
       sealed_aad_values H (ob_operation b) identity kid (ob_request_id b)
         (ob_operation_input_digest b) (ob_recipient_public_key b) c))"

definition sealed_identity_material_item_aad ::
  "host_ext \<Rightarrow> issued_authorization_context \<Rightarrow> one_time_operation_binding \<Rightarrow> identity_ref
     \<Rightarrow> nat \<Rightarrow> string \<Rightarrow> bytes sealed_result" where
  "sealed_identity_material_item_aad H c b target index kid =
     ok_or (identity_material_import_item_aad H (sealed_authorization_of c)
       \<lparr>sb_capability = ob_capability b, sb_identity_id = ob_identity_id b,
        sb_operation = ob_operation b, sb_kid = [], sb_request_id = ob_request_id b,
        sb_recipient_public_key = ob_recipient_public_key b,
        sb_operation_input_digest = ob_operation_input_digest b\<rparr>
       (sealed_identity_context target) index kid) SP_IdentityBinding"

definition validate_identity_binding ::
  "identity_ref \<Rightarrow> identity_ref \<Rightarrow> issued_authorization_context \<Rightarrow> unit sealed_result" where
  "validate_identity_binding actual requested consumed =
     ensure (\<not> (actual \<noteq> requested \<or> iac_store_id consumed \<noteq> ref_store_id requested)) SP_IdentityBinding"

section \<open>Operations that return a secret\<close>

text \<open>Sealing draws the randomness of an ephemeral key.\<close>

definition seal_to_recipient ::
  "ext \<Rightarrow> host_ext \<Rightarrow> bytes \<Rightarrow> bytes \<Rightarrow> issued_authorization_context \<Rightarrow> bytes
     \<Rightarrow> ('s, sealed_secret_delivery) sealed" where
  "seal_to_recipient X H recipient aad consumed secret =
     bnd (draw 32) (\<lambda>randomness.
     bnd (lift (ok_or (sealed_seal H randomness recipient (sealed_secret_info H) aad secret)
            SP_EnvelopeInvalid)) (\<lambda>handoff.
     ret (sealed_delivery X H handoff aad consumed)))"

definition derive_shared_secret_sealed ::
  "ext \<Rightarrow> host_ext \<Rightarrow> managed_identity \<Rightarrow> sealed_key_agreement_request
     \<Rightarrow> (did_identity, sealed_secret_delivery) sealed" where
  "derive_shared_secret_sealed X H m request =
     bnd (lift (sealed_key_agreement_binding H (kar_identity request) (kar_kid request)
            (kar_peer_public request) (kar_recipient_public_key request) (kar_request_id request))) (\<lambda>b.
     bnd (authorized (consume_for_operation X H (kar_token request) b)) (\<lambda>consumed.
     bnd (lift (validate_identity_binding (mi_reference m) (kar_identity request) consumed)) (\<lambda>_.
     bnd (on_engine (derive_shared_secret X
            \<lparr>kq_key = Sel_Kid (kar_kid request), kq_peer_public = kar_peer_public request\<rparr>)) (\<lambda>shared.
     bnd (lift (sealed_aad H (ecdh_sealed_operation H) (kar_identity request) (kar_kid request)
            (kar_request_id request) (ob_operation_input_digest b) (kar_recipient_public_key request)
            consumed)) (\<lambda>aad.
     seal_to_recipient X H (kar_recipient_public_key request) aad consumed shared)))))"

definition derive_device_shared_secret_sealed ::
  "ext \<Rightarrow> host_ext \<Rightarrow> enrollment_session \<Rightarrow> sealed_enrollment_key_agreement_request
     \<Rightarrow> (did_identity, sealed_secret_delivery) sealed" where
  "derive_device_shared_secret_sealed X H s request =
     (let proposal = ens_proposal s in
     bnd (lift (sealed_enrollment_key_agreement_binding H (ear_identity request)
            (ear_enrollment_id request) (ear_kid request) (ear_peer_public request)
            (ear_recipient_public_key request) (ear_request_id request))) (\<lambda>b.
     bnd (authorized (consume_for_operation X H (ear_token request) b)) (\<lambda>consumed.
     bnd (lift (case epr_kind proposal of
            Proposal_RequestSigning _ \<Rightarrow> Inl SP_IdentityBinding
          | Proposal_Device _ _ agreement_key _ \<Rightarrow>
              ensure (\<not> (epr_identity proposal \<noteq> ear_identity request
                 \<or> epr_enrollment_id proposal \<noteq> ear_enrollment_id request
                 \<or> ppk_kid agreement_key \<noteq> ear_kid request)) SP_IdentityBinding)) (\<lambda>_.
     bnd (lift (validate_identity_binding (epr_identity proposal) (ear_identity request) consumed)) (\<lambda>_.
     bnd (on_engine (derive_device_shared_secret X s (ear_peer_public request))) (\<lambda>shared.
     bnd (lift (sealed_aad H (enrollment_ecdh_sealed_operation H) (ear_identity request)
            (ear_kid request) (ear_request_id request) (ob_operation_input_digest b)
            (ear_recipient_public_key request) consumed)) (\<lambda>aad.
     seal_to_recipient X H (ear_recipient_public_key request) aad consumed shared)))))))"

definition export_root_key_sealed ::
  "ext \<Rightarrow> host_ext \<Rightarrow> managed_identity \<Rightarrow> sealed_root_export_request
     \<Rightarrow> (did_identity, sealed_secret_delivery) sealed" where
  "export_root_key_sealed X H m request =
     bnd (lift (sealed_root_export_binding H (xer_identity request) (xer_kid request)
            (xer_recipient_public_key request) (xer_request_id request)
            (xer_user_presence_confirmed request))) (\<lambda>b.
     bnd (authorized (consume_for_operation X H (xer_token request) b)) (\<lambda>consumed.
     bnd (lift (validate_identity_binding (mi_reference m) (xer_identity request) consumed)) (\<lambda>_.
     bnd (on_engine (export_root_for_legacy_envelope X (Sel_Kid (xer_kid request))
            (xer_user_presence_confirmed request))) (\<lambda>exported.
     bnd (lift (sealed_aad H (root_export_sealed_operation H) (xer_identity request) (xer_kid request)
            (xer_request_id request) (ob_operation_input_digest b) (xer_recipient_public_key request)
            consumed)) (\<lambda>aad.
     seal_to_recipient X H (xer_recipient_public_key request) aad consumed exported)))))"

section \<open>Operations that accept a secret\<close>

definition generate_recipient :: "host_ext \<Rightarrow> ('s, bytes) sealed" where
  "generate_recipient H = bnd (draw 32) (\<lambda>b. ret (sealed_recipient_generate H b))"

definition prepare_sealed_root_import ::
  "ext \<Rightarrow> host_ext \<Rightarrow> provider_capability_lease \<Rightarrow> sealed_root_import_preparation \<Rightarrow> int
     \<Rightarrow> ('s, prepared_sealed_root_import \<times> sealed_import_offer) sealed" where
  "prepare_sealed_root_import X H lease p ttl_seconds =
     bnd (generate_recipient H) (\<lambda>recipient.
     let public = sealed_recipient_public H recipient in
     bnd (lift (sealed_root_import_binding H p public)) (\<lambda>b.
     bnd (authorized (issue_one_time_with_context X H lease b ttl_seconds)) (\<lambda>issued.
     bnd (lift (sealed_operation_aad H (io_context issued) b (rip_identity p))) (\<lambda>aad.
     ret (\<lparr>psr_recipient = recipient, psr_preparation = p, psr_binding = b, psr_aad = aad\<rparr>,
          \<lparr>sio_recipient_public_key = public, sio_request_id = rip_request_id p,
           sio_token = io_token issued, sio_authorization = io_context issued,
           sio_aad_b64u = b64u_encode X aad\<rparr>)))))"

definition open_sealed ::
  "ext \<Rightarrow> host_ext \<Rightarrow> bytes \<Rightarrow> sealed_secret_envelope \<Rightarrow> bytes \<Rightarrow> bytes sealed_result" where
  "open_sealed X H recipient envelope aad =
     rbind (to_handoff X H envelope) (\<lambda>handoff.
       ok_or (sealed_open H recipient handoff (sealed_secret_info H) aad) SP_EnvelopeInvalid)"

definition complete_sealed_root_import ::
  "ext \<Rightarrow> host_ext \<Rightarrow> prepared_sealed_root_import \<Rightarrow> managed_identity \<Rightarrow> string
     \<Rightarrow> sealed_secret_envelope \<Rightarrow> (did_identity, host_import_outcome) sealed" where
  "complete_sealed_root_import X H p m token envelope =
     (let q = psr_preparation p in
     bnd (authorized (consume_for_operation X H token (psr_binding p))) (\<lambda>consumed.
     bnd (lift (validate_identity_binding (mi_reference m) (rip_identity q) consumed)) (\<lambda>_.
     bnd (lift (sealed_aad H (root_import_sealed_operation H) (rip_identity q)
            (lre_root_kid (rip_evidence q)) (rip_request_id q)
            (ob_operation_input_digest (psr_binding p))
            (sealed_recipient_public H (psr_recipient p)) consumed)) (\<lambda>expected_aad.
     bnd (lift (ensure (expected_aad = psr_aad p) SP_Authorization)) (\<lambda>_.
     bnd (lift (open_sealed X H (psr_recipient p) envelope (psr_aad p))) (\<lambda>root_key.
     on_engine (import_legacy_root X H
       \<lparr>lrq_evidence = rip_evidence q, lrq_encoding = rip_encoding q, lrq_root_key = root_key\<rparr>)))))))"

definition prepare_sealed_identity_material_import ::
  "ext \<Rightarrow> host_ext \<Rightarrow> provider_capability_lease \<Rightarrow> sealed_identity_material_import_preparation \<Rightarrow> int
     \<Rightarrow> (did_store, prepared_sealed_identity_material_import \<times> sealed_identity_material_import_offer) sealed" where
  "prepare_sealed_identity_material_import X H lease p ttl_seconds =
     bnd (lift (ok_or (get_str (vrd_document (mip_remote p)) ''id'') SP_InvalidRequest)) (\<lambda>did.
     bnd sealed_engine (\<lambda>store.
     bnd (draw 16) (\<lambda>id_bytes.
     let target = \<lparr>ref_store_id = store_id store, ref_identity_id = b64u_encode X id_bytes, ref_did = did\<rparr> in
     bnd (generate_recipient H) (\<lambda>recipient.
     let public = sealed_recipient_public H recipient in
     bnd (lift (sealed_identity_material_import_binding X H target p public)) (\<lambda>b.
     bnd (authorized (issue_one_time_with_context X H lease b ttl_seconds)) (\<lambda>issued.
     bnd (lift (rcollect (\<lambda>(index, k). sealed_identity_material_item_aad H (io_context issued) b target
              index (sks_kid k)) (enumerate 0 (mip_keys p)))) (\<lambda>item_aad.
     ret (\<lparr>psm_recipient = recipient, psm_target = target, psm_preparation = p, psm_binding = b,
           psm_item_aad = item_aad\<rparr>,
          \<lparr>mio_target = target, mio_recipient_public_key = public, mio_request_id = mip_request_id p,
           mio_token = io_token issued, mio_authorization = io_context issued,
           mio_item_aad_b64u = map (b64u_encode X) item_aad\<rparr>))))))))"

definition open_sealed_key ::
  "ext \<Rightarrow> host_ext \<Rightarrow> bytes \<Rightarrow> (sealed_identity_material_key_spec \<times> bytes) \<times> sealed_secret_envelope
     \<Rightarrow> migration_private_key sealed_result" where
  "open_sealed_key X H recipient item =
     (case item of ((k, aad), envelope) \<Rightarrow>
        rbind (open_sealed X H recipient envelope aad) (\<lambda>secret.
          Inr \<lparr>mp_kid = sks_kid k, mp_purpose = sks_purpose k, mp_encoding = sks_encoding k,
               mp_secret = secret\<rparr>))"

definition complete_sealed_identity_material_import ::
  "ext \<Rightarrow> host_ext \<Rightarrow> prepared_sealed_identity_material_import \<Rightarrow> string
     \<Rightarrow> sealed_secret_envelope list \<Rightarrow> (did_store, managed_identity \<times> did_identity) sealed" where
  "complete_sealed_identity_material_import X H p token envelopes =
     (let q = psm_preparation p; target = psm_target p in
     bnd (authorized (consume_for_operation X H token (psm_binding p))) (\<lambda>consumed.
     bnd sealed_engine (\<lambda>store.
     bnd (lift (ensure (\<not> (store_id store \<noteq> ref_store_id target
              \<or> iac_store_id consumed \<noteq> ref_store_id target
              \<or> length envelopes \<noteq> length (mip_keys q))) SP_IdentityBinding)) (\<lambda>_.
     bnd (lift (rcollect (open_sealed_key X H (psm_recipient p))
              (zip (zip (mip_keys q) (psm_item_aad p)) envelopes))) (\<lambda>private_keys.
     bnd (on_engine (import_full_identity_with_id X H (ref_identity_id target)
            \<lparr>fi_remote = mip_remote q, fi_did_wba = mip_did_wba q, fi_private_keys = private_keys\<rparr>)) (\<lambda>imported.
     bnd (lift (ensure (mi_reference (fst imported) = target) SP_IdentityBinding)) (\<lambda>_.
     ret imported)))))))"

end
