(* ===== verification/Identity_Transition.thy ===== *)
theory Identity_Transition
  imports Facade
begin

text \<open>
  \<open>facade/identity_transition.rs\<close>: the publication of a transition from one identity of the store to
  another, kept in a journal of its own.
\<close>

section \<open>Requests and answers\<close>

definition MAX_OPERATION_ID_BYTES :: nat where "MAX_OPERATION_ID_BYTES = 256"

record identity_transition_request =
  itr_expected_current_did :: string
  itr_operation_id :: string
  itr_successor :: identity_ref
  itr_transition_document :: "json option"

record prepared_identity_transition =
  pit_operation_id :: string
  pit_expected_current_did :: string
  pit_successor_did :: string
  pit_predecessor_document :: json
  pit_successor_document :: json
  pit_predecessor_digest :: string
  pit_successor_digest :: string
  pit_assurance :: string

record transition_attempt =
  ta_operation_id :: string
  ta_predecessor_digest :: string
  ta_successor_digest :: string
  ta_publication_generation :: u64

record transition_evidence =
  te_predecessor_digest :: string
  te_successor_digest :: string

datatype transition_publication_result =
    Tr_Confirmed transition_evidence | Tr_RejectedBeforeAcceptance | Tr_Unknown

datatype transition_observation = Tr_RemoteOld json | Tr_Published json json

datatype transition_outcome =
    Tr_ReadyForPublication | Tr_PublicationUncertain | Tr_Committed string | Tr_Aborted

record identity_transition_session =
  its_runtime :: store_runtime
  its_journal :: identity_transition_journal
  its_candidate :: prepared_identity_transition

section \<open>Checks\<close>

definition validate_transition_request :: "identity_transition_request \<Rightarrow> string \<Rightarrow> unit identity_result" where
  "validate_transition_request request the_store_id =
     ensure (\<not> (itr_expected_current_did request = [] \<or> itr_operation_id request = []
                \<or> length (itr_operation_id request) > MAX_OPERATION_ID_BYTES
                \<or> CHR 0x00 \<in> set (itr_operation_id request)
                \<or> ref_store_id (itr_successor request) \<noteq> the_store_id
                \<or> ref_did (itr_successor request) = itr_expected_current_did request)) IE_InvalidRequest"

definition journal_matches_request ::
  "ext \<Rightarrow> identity_transition_journal \<Rightarrow> identity_transition_request \<Rightarrow> bool" where
  "journal_matches_request X j request \<longleftrightarrow>
     tj_operation_id j = itr_operation_id request
     \<and> tj_expected_current_did j = itr_expected_current_did request
     \<and> tj_successor_did j = ref_did (itr_successor request)
     \<and> tj_successor_identity_id j = ref_identity_id (itr_successor request)
     \<and> (case itr_transition_document request of
          None \<Rightarrow> True
        | Some document \<Rightarrow> document_digest X document = Inr (tj_predecessor_digest j))"

definition candidate_from_journal ::
  "ext \<Rightarrow> identity_transition_journal \<Rightarrow> prepared_identity_transition identity_result" where
  "candidate_from_journal X j =
     rbind (from_engine (document_digest X (tj_predecessor_document j))) (\<lambda>predecessor_digest.
     rbind (if predecessor_digest \<noteq> tj_predecessor_digest j then Inl IE_CorruptState
            else rbind (from_engine (document_digest X (tj_successor_document j))) (\<lambda>successor_digest.
              ensure (successor_digest = tj_successor_digest j) IE_CorruptState)) (\<lambda>_.
       Inr \<lparr>pit_operation_id = tj_operation_id j,
            pit_expected_current_did = tj_expected_current_did j,
            pit_successor_did = tj_successor_did j,
            pit_predecessor_document = tj_predecessor_document j,
            pit_successor_document = tj_successor_document j,
            pit_predecessor_digest = tj_predecessor_digest j,
            pit_successor_digest = tj_successor_digest j, pit_assurance = tj_assurance j\<rparr>))"

definition session_from_journal ::
  "ext \<Rightarrow> store_runtime \<Rightarrow> identity_transition_journal \<Rightarrow> identity_transition_session identity_result" where
  "session_from_journal X rt j =
     rbind (candidate_from_journal X j) (\<lambda>candidate.
       Inr \<lparr>its_runtime = rt, its_journal = j, its_candidate = candidate\<rparr>)"

definition attempt_from_journal :: "identity_transition_journal \<Rightarrow> transition_attempt" where
  "attempt_from_journal j =
     \<lparr>ta_operation_id = tj_operation_id j, ta_predecessor_digest = tj_predecessor_digest j,
      ta_successor_digest = tj_successor_digest j, ta_publication_generation = tj_generation j\<rparr>"

definition validate_transition_attempt ::
  "transition_attempt \<Rightarrow> identity_transition_journal \<Rightarrow> unit identity_result" where
  "validate_transition_attempt attempt j =
     ensure (\<not> (ta_operation_id attempt \<noteq> tj_operation_id j
                \<or> ta_predecessor_digest attempt \<noteq> tj_predecessor_digest j
                \<or> ta_successor_digest attempt \<noteq> tj_successor_digest j
                \<or> ta_publication_generation attempt \<noteq> tj_generation j)) IE_Conflict"

definition validate_transition_evidence ::
  "transition_evidence \<Rightarrow> identity_transition_journal \<Rightarrow> unit identity_result" where
  "validate_transition_evidence e j =
     ensure (\<not> (te_predecessor_digest e \<noteq> tj_predecessor_digest j
                \<or> te_successor_digest e \<noteq> tj_successor_digest j)) IE_VerificationFailed"

definition next_generation :: "u64 \<Rightarrow> u64 identity_result" where
  "next_generation generation = ok_or (checked_add1 generation) IE_Conflict"

fun assurance_name :: "transition_assurance \<Rightarrow> string" where
  "assurance_name Assurance_Verified = ''verified''"
| "assurance_name Assurance_RecoveryVerified = ''recovery_verified''"
| "assurance_name Assurance_ProviderAsserted = ''provider_asserted''"
| "assurance_name Assurance_Unverified = ''unverified''"

section \<open>Preparing\<close>

text \<open>\<open>if let Ok(x) = \<dots>\<close>: any failure reads as absence.\<close>

definition attempt :: "'a io \<Rightarrow> 'a option io" where
  "attempt m w = (case m w of (Inl _, w') \<Rightarrow> (Inr None, w') | (Inr x, w') \<Rightarrow> (Inr (Some x), w'))"

definition create_verified_transition_document ::
  "ext \<Rightarrow> identity_record \<Rightarrow> string \<Rightarrow> string \<Rightarrow> (did_store, json) act" where
  "create_verified_transition_document X predecessor successor_did created_at =
     bnd (lift (ok_or (as_object (ir_document predecessor)) IE_CorruptState)) (\<lambda>object.
     let unsigned = JObject (btree_insert ''successorDid'' (JString successor_did)
           (btree_insert ''deactivated'' (JBool True) (btree_remove ''proof'' object)))
     in
     bnd (lift (ok_or (find (\<lambda>k. km_role k = RootControl \<and> km_origin k = Managed
              \<and> km_state k = Key_Active \<and> \<not> km_material_erased k) (ir_keys predecessor))
            IE_KeyUnavailable)) (\<lambda>root.
     ask (\<lambda>store. sign_document_proof X \<lparr>di_runtime = ds_runtime store, di_record = predecessor\<rparr>
       unsigned (km_kid root)
       \<lparr>po_proof_purpose = Some ''assertionMethod'',
        po_proof_type = Some (proof_type_data_integrity X),
        po_cryptosuite = Some (cryptosuite_eddsa_jcs_2022 X), po_created = Some created_at,
        po_domain = None, po_challenge = None\<rparr>)))"

text \<open>The part after the journals are known not to interfere.\<close>

definition prepare_transition_journal ::
  "ext \<Rightarrow> host_ext \<Rightarrow> identity_transition_request \<Rightarrow> store_write_guard \<Rightarrow> identity_registry
     \<Rightarrow> (did_store, identity_transition_journal) act" where
  "prepare_transition_journal X H request guard registry =
     bnd (lift (ok_or (btree_get (rg_identities registry) (itr_expected_current_did request))
            IE_IdentityNotFound)) (\<lambda>predecessor_summary.
     bnd (lift (ok_or (btree_get (rg_identities registry) (ref_did (itr_successor request)))
            IE_IdentityNotFound)) (\<lambda>successor_summary.
     bnd (lift (ensure (\<not> (is_identity_id successor_summary \<noteq> ref_identity_id (itr_successor request)
              \<or> is_identity_id predecessor_summary = is_identity_id successor_summary))
            IE_InvalidRequest)) (\<lambda>_.
     bnd (ask (\<lambda>_. read_identity X (is_identity_id predecessor_summary))) (\<lambda>predecessor.
     bnd (ask (\<lambda>_. read_identity X (is_identity_id successor_summary))) (\<lambda>successor.
     bnd (lift (ensure (verify_active_e1_document H (ir_did predecessor) (ir_document predecessor))
            IE_InvalidRequest)) (\<lambda>_.
     bnd (lift (ensure (verify_active_e1_document H (ir_did successor) (ir_document successor))
            IE_InvalidRequest)) (\<lambda>_.
     bnd (ask (\<lambda>_. utc_now)) (\<lambda>now.
     let created_at = format_rfc3339_secs X now in
     bnd (case itr_transition_document request of
            Some document \<Rightarrow> ret document
          | None \<Rightarrow> create_verified_transition_document X predecessor (ir_did successor) created_at)
       (\<lambda>predecessor_document.
     bnd (lift (ok_or (verify_transition_hop H predecessor_document (ir_document successor)
              (Some (ir_document predecessor))) IE_InvalidRequest)) (\<lambda>assurance.
     bnd (lift (from_engine (document_digest X predecessor_document))) (\<lambda>predecessor_digest.
     bnd (lift (from_engine (document_digest X (ir_document successor)))) (\<lambda>successor_digest.
     let j = new_identity_transition_journal (itr_operation_id request)
           (itr_expected_current_did request) (ir_identity_id predecessor) (ir_generation predecessor)
           (ir_did successor) (ir_identity_id successor) (ir_generation successor)
           (ir_document predecessor) predecessor_document (ir_document successor)
           predecessor_digest successor_digest (assurance_name assurance) created_at
     in
     bnd (ask (\<lambda>store. write_identity_transition_journal X (rt_root (ds_runtime store)) guard j)) (\<lambda>_.
     ret j)))))))))))))"

definition prepare_identity_transition ::
  "ext \<Rightarrow> host_ext \<Rightarrow> identity_transition_request \<Rightarrow> (did_store, identity_transition_session) act" where
  "prepare_identity_transition X H request =
     bnd engine (\<lambda>store.
     let rt = ds_runtime store in
     bnd (lift (validate_transition_request request (store_id store))) (\<lambda>_.
     bnd (ask (\<lambda>_. acquire_write rt)) (\<lambda>guard.
     bnd (ask (\<lambda>_. read_registry)) (\<lambda>registry.
     bnd (lift (ensure (rg_generation registry = ds_registry_generation store) IE_Conflict)) (\<lambda>_.
     bnd (ask (\<lambda>_. attempt (read_identity_transition_journal X (itr_operation_id request)))) (\<lambda>existing.
     case existing of
       Some j \<Rightarrow>
         if journal_matches_request X j request then lift (session_from_journal X rt j)
         else raise IE_Conflict
     | None \<Rightarrow>
         bnd (ask (\<lambda>_. list_identity_transition_journals)) (\<lambda>js.
         bnd (lift (ensure (\<not> list_ex (\<lambda>j. tj_expected_current_did j = itr_expected_current_did request
                  \<and> tj_state j \<noteq> TJ_Aborted) js) IE_Conflict)) (\<lambda>_.
         bnd (prepare_transition_journal X H request guard registry) (\<lambda>j.
         lift (session_from_journal X rt j))))))))))"

definition resume_identity_transition ::
  "ext \<Rightarrow> string \<Rightarrow> (did_store, identity_transition_session option) act" where
  "resume_identity_transition X expected_current_did =
     bnd (modify_only (reload_store X)) (\<lambda>_.
     bnd engine (\<lambda>store.
     bnd (ask (\<lambda>_. list_identity_transition_journals)) (\<lambda>js.
     case filter (\<lambda>j. tj_expected_current_did j = expected_current_did
            \<and> tj_state j \<in> {TJ_Prepared, TJ_PublicationInFlight, TJ_PublicationUncertain}) js of
       [] \<Rightarrow> ret None
     | [j] \<Rightarrow> bnd (lift (session_from_journal X (ds_runtime store) j)) (\<lambda>s. ret (Some s))
     | _ \<Rightarrow> raise IE_CorruptState)))"

section \<open>Sessions\<close>

definition reload_and_validate ::
  "ext \<Rightarrow> (identity_transition_session, identity_transition_journal) act" where
  "reload_and_validate X =
     bnd engine (\<lambda>s.
     let mine = its_journal s in
     bnd (ask (\<lambda>_. read_identity_transition_journal X (tj_operation_id mine))) (\<lambda>j.
     bnd (lift (ensure (\<not> (tj_generation j \<noteq> tj_generation mine
              \<or> tj_expected_current_did j \<noteq> tj_expected_current_did mine
              \<or> tj_successor_did j \<noteq> tj_successor_did mine
              \<or> tj_predecessor_digest j \<noteq> tj_predecessor_digest mine
              \<or> tj_successor_digest j \<noteq> tj_successor_digest mine)) IE_Conflict)) (\<lambda>_.
     bnd (ask (\<lambda>_. read_identity X (tj_predecessor_identity_id j))) (\<lambda>predecessor.
     bnd (ask (\<lambda>_. read_identity X (tj_successor_identity_id j))) (\<lambda>successor.
     bnd (lift (ensure (\<not> (ir_generation predecessor \<noteq> tj_predecessor_generation j
              \<or> ir_did predecessor \<noteq> tj_expected_current_did j
              \<or> ir_generation successor \<noteq> tj_successor_generation j
              \<or> ir_did successor \<noteq> tj_successor_did j)) IE_Conflict)) (\<lambda>_.
     ret j))))))"

text \<open>The journal with its next state and generation, written and kept by the session.\<close>

definition store_transition ::
  "ext \<Rightarrow> store_write_guard \<Rightarrow> identity_transition_journal \<Rightarrow> transition_journal_state
     \<Rightarrow> (identity_transition_session, unit) act" where
  "store_transition X guard j state =
     bnd (lift (next_generation (tj_generation j))) (\<lambda>generation.
     let j = j\<lparr>tj_state := state, tj_generation := generation\<rparr> in
     modify_only (\<lambda>s. bnd (write_identity_transition_journal X (rt_root (its_runtime s)) guard j) (\<lambda>_.
       ret (s\<lparr>its_journal := j\<rparr>))))"

definition keep_journal :: "identity_transition_journal \<Rightarrow> (identity_transition_session, unit) act" where
  "keep_journal j = modify_only (\<lambda>s. ret (s\<lparr>its_journal := j\<rparr>))"

definition begin_transition_publication ::
  "ext \<Rightarrow> (identity_transition_session, transition_attempt) act" where
  "begin_transition_publication X =
     bnd (ask (\<lambda>s. acquire_write (its_runtime s))) (\<lambda>guard.
     bnd (reload_and_validate X) (\<lambda>j.
     bnd (case tj_state j of
            TJ_Prepared \<Rightarrow> store_transition X guard j TJ_PublicationInFlight
          | TJ_PublicationInFlight \<Rightarrow> keep_journal j
          | _ \<Rightarrow> raise IE_InvalidDocumentChangeState) (\<lambda>_.
     bnd engine (\<lambda>s. ret (attempt_from_journal (its_journal s))))))"

fun publication_step ::
  "identity_transition_journal \<Rightarrow> transition_publication_result
     \<Rightarrow> (transition_journal_state \<times> transition_outcome) identity_result" where
  "publication_step j (Tr_Confirmed evidence) =
     rbind (validate_transition_evidence evidence j) (\<lambda>_.
       Inr (TJ_Committed, Tr_Committed (tj_successor_did j)))"
| "publication_step j Tr_RejectedBeforeAcceptance = Inr (TJ_Aborted, Tr_Aborted)"
| "publication_step j Tr_Unknown = Inr (TJ_PublicationUncertain, Tr_PublicationUncertain)"

definition complete_transition ::
  "ext \<Rightarrow> transition_attempt \<Rightarrow> transition_publication_result
     \<Rightarrow> (identity_transition_session, transition_outcome) act" where
  "complete_transition X tried result =
     bnd (ask (\<lambda>s. acquire_write (its_runtime s))) (\<lambda>guard.
     bnd (reload_and_validate X) (\<lambda>j.
     bnd (lift (validate_transition_attempt tried j)) (\<lambda>_.
     bnd (lift (ensure (tj_state j = TJ_PublicationInFlight) IE_InvalidDocumentChangeState)) (\<lambda>_.
     bnd (lift (publication_step j result)) (\<lambda>(state, outcome).
     bnd (store_transition X guard j state) (\<lambda>_.
     ret outcome))))))"

fun reconcile_step ::
  "ext \<Rightarrow> host_ext \<Rightarrow> identity_transition_journal \<Rightarrow> transition_observation
     \<Rightarrow> (transition_journal_state \<times> transition_outcome) identity_result" where
  "reconcile_step X H j (Tr_RemoteOld current) =
     rbind (ensure (verify_active_e1_document H (tj_expected_current_did j) current)
              IE_VerificationFailed) (\<lambda>_.
     rbind (from_engine (document_digest X current)) (\<lambda>digest.
     rbind (from_engine (document_digest X (tj_trusted_predecessor_document j))) (\<lambda>trusted.
     rbind (ensure (digest = trusted) IE_VerificationFailed) (\<lambda>_.
       Inr (TJ_Prepared, Tr_ReadyForPublication)))))"
| "reconcile_step X H j (Tr_Published predecessor successor) =
     rbind (from_engine (document_digest X predecessor)) (\<lambda>predecessor_digest.
     rbind (if predecessor_digest \<noteq> tj_predecessor_digest j then Inl IE_VerificationFailed
            else rbind (from_engine (document_digest X successor)) (\<lambda>successor_digest.
              ensure (successor_digest = tj_successor_digest j) IE_VerificationFailed)) (\<lambda>_.
     rbind (ok_or (verify_transition_hop H predecessor successor
              (Some (tj_trusted_predecessor_document j))) IE_VerificationFailed) (\<lambda>assurance.
     rbind (ensure (assurance_name assurance = tj_assurance j) IE_VerificationFailed) (\<lambda>_.
       Inr (TJ_Committed, Tr_Committed (tj_successor_did j))))))"

definition reconcile_transition ::
  "ext \<Rightarrow> host_ext \<Rightarrow> transition_observation \<Rightarrow> (identity_transition_session, transition_outcome) act" where
  "reconcile_transition X H observation =
     bnd (ask (\<lambda>s. acquire_write (its_runtime s))) (\<lambda>guard.
     bnd (reload_and_validate X) (\<lambda>j.
     bnd (lift (ensure (tj_state j = TJ_PublicationUncertain) IE_InvalidDocumentChangeState)) (\<lambda>_.
     bnd (lift (reconcile_step X H j observation)) (\<lambda>(state, outcome).
     bnd (store_transition X guard j state) (\<lambda>_.
     ret outcome)))))"

end
