(* ===== verification/Node_Binding.thy ===== *)
theory Node_Binding
  imports Sealed_Handoff Identity_Transition
begin

text \<open>
  \<open>bindings/node/src/lib.rs\<close>: the classes a Node process sees, over the application interface and
  the ports of a host. The provider classes check the capability of a lease before every operation.
  The derived conversions between JSON values and requests are a parameter; results are kept as the
  values that the derived conversions print. The errors carry a code that \<open>bindings/node/provider.js\<close>
  takes apart again.
\<close>

section \<open>Decoders\<close>

text \<open>\<open>serde_json::from_value\<close> at the request types; \<open>None\<close> is a value of the wrong shape.\<close>

record node_ext =
  decode_create :: "json \<Rightarrow> create_identity_request option"
  decode_transition :: "json \<Rightarrow> identity_transition_request option"
  decode_changes :: "json \<Rightarrow> document_change list option"
  decode_attempt :: "json \<Rightarrow> publication_attempt option"
  decode_result :: "json \<Rightarrow> publication_result option"
  decode_remote :: "json \<Rightarrow> verified_remote_document option"
  decode_transition_attempt :: "json \<Rightarrow> transition_attempt option"
  decode_transition_result :: "json \<Rightarrow> transition_publication_result option"
  decode_observation :: "json \<Rightarrow> transition_observation option"
  decode_object_proof :: "json \<Rightarrow> object_proof_request option"
  decode_document_proof :: "json \<Rightarrow> document_proof_request option"
  decode_device_enrollment :: "json \<Rightarrow> device_enrollment_request option"
  decode_request_enrollment :: "json \<Rightarrow> request_signing_enrollment_request option"
  decode_wrapped_root :: "json \<Rightarrow> wrapped_root_envelope option"
  decode_promotion :: "json \<Rightarrow> verified_remote_document option"
  decode_root_evidence :: "json \<Rightarrow> legacy_root_import_evidence option"
  decode_material_keys :: "json \<Rightarrow> sealed_identity_material_key_spec list option"
  decode_envelope :: "json \<Rightarrow> sealed_secret_envelope option"
  decode_envelopes :: "json \<Rightarrow> sealed_secret_envelope list option"

section \<open>Errors\<close>

definition js_error :: "string \<Rightarrow> string \<Rightarrow> string" where
  "js_error error_code message = ''ANP_IDENTITY_CODE:'' @ error_code @ '':'' @ message"

fun identity_error_text :: "identity_error \<Rightarrow> string" where
  "identity_error_text IE_InvalidRequest = ''the identity request is invalid''"
| "identity_error_text IE_StoreNotFound = ''the identity store is not initialized''"
| "identity_error_text IE_ProviderUnavailable = ''the configured root-key provider is unavailable''"
| "identity_error_text IE_RootKeyMismatch = ''the root key does not match this identity store''"
| "identity_error_text IE_CorruptState = ''the identity store contains invalid or damaged state''"
| "identity_error_text IE_IdentityNotFound = ''the requested identity does not exist''"
| "identity_error_text IE_IdentityAlreadyExists = ''the requested identity already exists''"
| "identity_error_text IE_KeyNotFound = ''the requested key does not exist''"
| "identity_error_text IE_KeyUnavailable = ''the requested key cannot perform this operation''"
| "identity_error_text IE_KeyPurposeViolation = ''the requested key is not authorized for this purpose''"
| "identity_error_text IE_AmbiguousKey = ''more than one key matches the request''"
| "identity_error_text IE_VerificationFailed = ''signature verification failed''"
| "identity_error_text IE_PendingDocumentChange = ''the identity already has a pending document change''"
| "identity_error_text IE_DocumentChangeNotFound = ''the pending document change does not exist''"
| "identity_error_text IE_InvalidDocumentChangeState =
     ''the document change is not in a valid state for this operation''"
| "identity_error_text IE_Conflict = ''the identity store changed concurrently''"
| "identity_error_text IE_CapabilityUnavailable = ''the requested capability is unavailable''"
| "identity_error_text IE_Unsupported = ''the operation is not supported''"
| "identity_error_text IE_Storage = ''identity storage failed''"
| "identity_error_text IE_Internal = ''identity processing failed''"

fun identity_error_code :: "identity_error \<Rightarrow> string" where
  "identity_error_code IE_InvalidRequest = ''invalid_request''"
| "identity_error_code IE_StoreNotFound = ''store_not_found''"
| "identity_error_code IE_ProviderUnavailable = ''provider_unavailable''"
| "identity_error_code IE_RootKeyMismatch = ''root_key_mismatch''"
| "identity_error_code IE_CorruptState = ''corrupt_state''"
| "identity_error_code IE_IdentityNotFound = ''identity_not_found''"
| "identity_error_code IE_IdentityAlreadyExists = ''identity_already_exists''"
| "identity_error_code IE_KeyNotFound = ''key_not_found''"
| "identity_error_code IE_KeyUnavailable = ''key_unavailable''"
| "identity_error_code IE_KeyPurposeViolation = ''key_purpose_violation''"
| "identity_error_code IE_AmbiguousKey = ''ambiguous_key''"
| "identity_error_code IE_VerificationFailed = ''verification_failed''"
| "identity_error_code IE_PendingDocumentChange = ''pending_document_change''"
| "identity_error_code IE_DocumentChangeNotFound = ''document_change_not_found''"
| "identity_error_code IE_InvalidDocumentChangeState = ''invalid_document_change_state''"
| "identity_error_code IE_Conflict = ''conflict''"
| "identity_error_code IE_CapabilityUnavailable = ''capability_unavailable''"
| "identity_error_code IE_Unsupported = ''unsupported_operation''"
| "identity_error_code IE_Storage = ''storage''"
| "identity_error_code IE_Internal = ''internal''"

definition map_error :: "identity_error \<Rightarrow> string" where
  "map_error e = js_error (identity_error_code e) (identity_error_text e)"

fun authorization_error_code :: "provider_authorization_error \<Rightarrow> string" where
  "authorization_error_code PA_CapabilityDenied = ''capability_denied''"
| "authorization_error_code PA_LeaseInvalid = ''provider_disposed''"
| "authorization_error_code PA_TokenExpired = ''token_expired''"
| "authorization_error_code PA_TokenConsumed = ''token_consumed''"
| "authorization_error_code PA_TokenInvalid = ''token_invalid''"
| "authorization_error_code PA_Internal = ''internal''"

fun authorization_error_text :: "provider_authorization_error \<Rightarrow> string" where
  "authorization_error_text PA_LeaseInvalid = ''the provider lease is invalid''"
| "authorization_error_text PA_CapabilityDenied = ''the provider capability is not granted''"
| "authorization_error_text PA_TokenInvalid = ''the one-time authorization is invalid''"
| "authorization_error_text PA_TokenExpired = ''the one-time authorization has expired''"
| "authorization_error_text PA_TokenConsumed = ''the one-time authorization was already consumed''"
| "authorization_error_text PA_Internal = ''provider authorization processing failed''"

definition map_authorization_error :: "provider_authorization_error \<Rightarrow> string" where
  "map_authorization_error e = js_error (authorization_error_code e) (authorization_error_text e)"

fun sealed_error_code :: "sealed_provider_error \<Rightarrow> string" where
  "sealed_error_code SP_Authorization = ''capability_denied''"
| "sealed_error_code SP_IdentityBinding = ''invalid_request''"
| "sealed_error_code SP_InvalidRequest = ''invalid_request''"
| "sealed_error_code SP_Identity = ''identity_unavailable''"
| "sealed_error_code SP_EnvelopeInvalid = ''sealed_envelope_invalid''"

fun sealed_error_text :: "sealed_provider_error \<Rightarrow> string" where
  "sealed_error_text SP_Authorization = ''the provider authorization is invalid''"
| "sealed_error_text SP_IdentityBinding = ''the sealed provider request does not match the identity''"
| "sealed_error_text SP_InvalidRequest = ''the sealed provider request is invalid''"
| "sealed_error_text SP_Identity = ''the identity operation failed''"
| "sealed_error_text SP_EnvelopeInvalid = ''the sealed envelope is invalid''"

definition map_sealed_error :: "sealed_provider_error \<Rightarrow> string" where
  "map_sealed_error e = js_error (sealed_error_code e) (sealed_error_text e)"

text \<open>
  The regular expression of \<open>provider.js\<close>: the first occurrence of the prefix, then a code without
  colon and not empty, a colon and the rest.
\<close>

definition match_here :: "string \<Rightarrow> (string \<times> string) option" where
  "match_here text =
     Option.bind (strip_prefix text ''ANP_IDENTITY_CODE:'') (\<lambda>rest.
       let error_code = takeWhile (\<lambda>c. c \<noteq> CHR '':'') rest;
           tail = dropWhile (\<lambda>c. c \<noteq> CHR '':'') rest
       in if error_code \<noteq> [] \<and> tail \<noteq> [] then Some (error_code, tl tail) else None)"

fun match_error :: "string \<Rightarrow> (string \<times> string) option" where
  "match_error [] = None"
| "match_error (c # text) =
     (case match_here (c # text) of Some m \<Rightarrow> Some m | None \<Rightarrow> match_error text)"

section \<open>Conversions\<close>

record js_identity_manager_config =
  jc_state_root :: string
  jc_root_key_kind :: string
  jc_key_id :: "string option"
  jc_environment_variable :: "string option"
  jc_root_key :: "bytes option"
  jc_service :: "string option"
  jc_account :: "string option"
  jc_fallback_to_local_file :: "bool option"

record js_sign_request =
  js_purpose :: string
  js_domain :: "string option"
  js_kid :: "string option"
  js_payload :: bytes

record js_signature =
  jg_kid :: string
  jg_algorithm :: string
  jg_bytes :: bytes

record js_verify_request =
  jv_purpose :: string
  jv_domain :: "string option"
  jv_kid :: string
  jv_payload :: bytes
  jv_signature :: bytes

record js_origin_proof_options =
  jo_created :: "int option"
  jo_expires :: "int option"
  jo_nonce :: "string option"

record js_origin_proof_request =
  jp_method :: string
  jp_meta :: json
  jp_body :: json
  jp_kid :: "string option"
  jp_options :: "js_origin_proof_options option"

record js_provider_lease_request =
  jl_consumer :: string
  jl_capabilities :: "string list"
  jl_ttl_seconds :: int

record js_exact_http_signing_request =
  jh_identity :: identity_ref
  jh_kid :: "string option"
  jh_url :: string
  jh_method :: string
  jh_headers :: "http_header list"
  jh_body :: "bytes option"
  jh_nonce :: "string option"
  jh_created :: "int option"
  jh_expires :: "int option"
  jh_covered_components :: "string list option"

type_synonym 'a node_result = "(string, 'a) result"

definition required :: "'a option \<Rightarrow> string \<Rightarrow> 'a node_result" where
  "required value field = ok_or value (js_error ''invalid_request'' (field @ '' is required''))"

definition invalid_json :: string where
  "invalid_json = js_error ''invalid_request'' ''request shape is invalid''"

definition decoded :: "(json \<Rightarrow> 'a option) \<Rightarrow> json \<Rightarrow> 'a node_result" where
  "decoded d v = ok_or (d v) invalid_json"

definition consume_root_key :: "bytes \<Rightarrow> bytes node_result" where
  "consume_root_key buffer =
     (if length buffer \<noteq> 32
      then Inl (js_error ''invalid_request'' ''root key must contain exactly 32 bytes'')
      else Inr buffer)"

definition fixed_public_key :: "bytes \<Rightarrow> string \<Rightarrow> bytes node_result" where
  "fixed_public_key buffer field =
     (if length buffer \<noteq> 32
      then Inl (js_error ''invalid_request'' (field @ '' must contain 32 bytes''))
      else Inr buffer)"

definition manager_config :: "js_identity_manager_config \<Rightarrow> identity_manager_config node_result" where
  "manager_config config =
     (let kind = jc_root_key_kind config in
     rbind (if kind = ''injected'' then
              rbind (required (jc_key_id config) ''keyId'') (\<lambda>key_id.
              rbind (required (jc_root_key config) ''rootKey'') (\<lambda>root_key.
              rbind (consume_root_key root_key) (\<lambda>key. Inr (Src_Injected key_id key))))
            else if kind = ''environment'' then
              rbind (required (jc_key_id config) ''keyId'') (\<lambda>key_id.
              rbind (required (jc_environment_variable config) ''environmentVariable'') (\<lambda>variable.
                Inr (Src_Environment key_id variable)))
            else if kind = ''local_private_file'' then Inr Src_LocalPrivateFile
            else if kind = ''keyring'' then
              rbind (required (jc_service config) ''service'') (\<lambda>service.
              rbind (required (jc_account config) ''account'') (\<lambda>account.
                Inr (Src_Keyring service account
                  (case jc_fallback_to_local_file config of None \<Rightarrow> False | Some b \<Rightarrow> b))))
            else Inl (js_error ''invalid_request'' ''unknown root key provider'')) (\<lambda>root_key.
       Inr \<lparr>mc_state_root = jc_state_root config, mc_root_key = root_key\<rparr>))"

definition signing_purpose_of :: "string \<Rightarrow> string option \<Rightarrow> signing_purpose node_result" where
  "signing_purpose_of purpose domain =
     (if purpose = ''authentication'' then Inr Sign_Authentication
      else if purpose = ''device_assertion'' then Inr Sign_DeviceAssertion
      else if purpose = ''application_assertion'' then
        rbind (required domain ''domain'') (\<lambda>d. Inr (Sign_ApplicationAssertion d))
      else Inl (js_error ''invalid_request'' ''unknown signing purpose''))"

definition key_selector_of :: "string option \<Rightarrow> key_selector" where
  "key_selector_of kid = (case kid of None \<Rightarrow> Sel_Default | Some k \<Rightarrow> Sel_Kid k)"

fun key_algorithm_name :: "key_algorithm \<Rightarrow> string" where
  "key_algorithm_name Alg_Ed25519 = ''ed25519''"
| "key_algorithm_name Alg_X25519 = ''x25519''"

fun verification_name :: "verification_outcome \<Rightarrow> string" where
  "verification_name Signature_Valid = ''valid''"
| "verification_name Signature_Invalid = ''invalid''"

fun import_outcome_name :: "host_import_outcome \<Rightarrow> string" where
  "import_outcome_name Host_Import_Pending = ''pending''"
| "import_outcome_name Host_Import_Active = ''active''"

definition sign_request_of :: "js_sign_request \<Rightarrow> sign_request node_result" where
  "sign_request_of r =
     rbind (signing_purpose_of (js_purpose r) (js_domain r)) (\<lambda>purpose.
       Inr \<lparr>sq_purpose = purpose, sq_key = key_selector_of (js_kid r), sq_payload = js_payload r\<rparr>)"

definition verify_request_of :: "js_verify_request \<Rightarrow> verify_request node_result" where
  "verify_request_of r =
     rbind (signing_purpose_of (jv_purpose r) (jv_domain r)) (\<lambda>purpose.
       Inr \<lparr>vq_purpose = purpose, vq_kid = jv_kid r, vq_payload = jv_payload r,
            vq_signature = jv_signature r\<rparr>)"

definition origin_proof_request_of :: "js_origin_proof_request \<Rightarrow> origin_proof_request" where
  "origin_proof_request_of r =
     (let options = (case jp_options r of Some opts \<Rightarrow> opts
                     | None \<Rightarrow> \<lparr>jo_created = None, jo_expires = None, jo_nonce = None\<rparr>)
      in \<lparr>oq_method = jp_method r, oq_meta = jp_meta r, oq_body = jp_body r,
          oq_key = key_selector_of (jp_kid r), oq_created = jo_created options,
          oq_expires = jo_expires options, oq_nonce = jo_nonce options\<rparr>)"

definition js_signature_of :: "signature \<Rightarrow> js_signature" where
  "js_signature_of s =
     \<lparr>jg_kid = sg_kid s, jg_algorithm = key_algorithm_name (sg_algorithm s), jg_bytes = sg_bytes s\<rparr>"

definition exact_http_request_of :: "js_exact_http_signing_request \<Rightarrow> exact_http_request" where
  "exact_http_request_of r =
     \<lparr>hq_key = key_selector_of (jh_kid r), hq_url = jh_url r, hq_method = jh_method r,
      hq_headers = jh_headers r, hq_body = jh_body r,
      hq_options = \<lparr>hs_nonce = jh_nonce r, hs_created = jh_created r, hs_expires = jh_expires r,
                    hs_covered_components = jh_covered_components r\<rparr>\<rparr>"

section \<open>The application classes\<close>

text \<open>
  An object owns its engine behind a lock; a call is one step on the engine and the world.
\<close>

type_synonym ('s, 'a) node_act = "('s \<times> world, string, 'a) Prelude.io"

definition mapped :: "('s, 'a) act \<Rightarrow> ('s, 'a) node_act" where
  "mapped m s = (case m s of (r, s') \<Rightarrow> (map_err map_error r, s'))"

definition js_manager_initialize ::
  "ext \<Rightarrow> keyring \<Rightarrow> (string \<Rightarrow> string option) \<Rightarrow> js_identity_manager_config
     \<Rightarrow> (world, string, did_store) Prelude.io" where
  "js_manager_initialize X kr env config =
     bnd (lift (manager_config config)) (\<lambda>c w.
       case manager_initialize X kr env c w of (r, w') \<Rightarrow> (map_err map_error r, w'))"

definition js_manager_open ::
  "ext \<Rightarrow> keyring \<Rightarrow> (string \<Rightarrow> string option) \<Rightarrow> js_identity_manager_config
     \<Rightarrow> (world, string, did_store) Prelude.io" where
  "js_manager_open X kr env config =
     bnd (lift (manager_config config)) (\<lambda>c w.
       case manager_open X kr env c w of (r, w') \<Rightarrow> (map_err map_error r, w'))"

definition js_info :: "(did_store, store_info) node_act" where
  "js_info = mapped manager_info"

definition js_list :: "(did_store, identity_descriptor list) node_act" where
  "js_list = mapped manager_list"

definition js_recover :: "ext \<Rightarrow> (did_store, nat) node_act" where
  "js_recover X = mapped (manager_recover X)"

definition js_create ::
  "ext \<Rightarrow> node_ext \<Rightarrow> json \<Rightarrow> (did_store, managed_identity \<times> did_identity) node_act" where
  "js_create X N v =
     bnd (lift (decoded (decode_create N) v)) (\<lambda>request. mapped (manager_create X request))"

definition js_get :: "ext \<Rightarrow> identity_ref \<Rightarrow> (did_store, managed_identity \<times> did_identity) node_act" where
  "js_get X reference = mapped (manager_get X reference)"

definition js_delete :: "ext \<Rightarrow> identity_ref \<Rightarrow> (did_store, unit) node_act" where
  "js_delete X reference = mapped (manager_delete X reference False)"

definition js_prepare_identity_transition ::
  "ext \<Rightarrow> host_ext \<Rightarrow> node_ext \<Rightarrow> json \<Rightarrow> (did_store, identity_transition_session) node_act" where
  "js_prepare_identity_transition X H N v =
     bnd (lift (decoded (decode_transition N) v)) (\<lambda>request.
       mapped (prepare_identity_transition X H request))"

definition js_resume_identity_transition ::
  "ext \<Rightarrow> string \<Rightarrow> (did_store, identity_transition_session option) node_act" where
  "js_resume_identity_transition X did = mapped (resume_identity_transition X did)"

definition js_public_identity :: "managed_identity \<Rightarrow> (did_identity, public_identity) node_act" where
  "js_public_identity m = mapped (mi_public_identity m)"

definition js_sign :: "ext \<Rightarrow> js_sign_request \<Rightarrow> (did_identity, js_signature) node_act" where
  "js_sign X r =
     bnd (lift (sign_request_of r)) (\<lambda>request.
     bnd (mapped (mi_sign X request)) (\<lambda>s. ret (js_signature_of s)))"

definition js_verify :: "ext \<Rightarrow> js_verify_request \<Rightarrow> (did_identity, string) node_act" where
  "js_verify X r =
     bnd (lift (verify_request_of r)) (\<lambda>request.
     bnd (mapped (mi_verify X request)) (\<lambda>outcome. ret (verification_name outcome)))"

definition js_sign_origin_proof ::
  "ext \<Rightarrow> js_origin_proof_request \<Rightarrow> (did_identity, origin_proof) node_act" where
  "js_sign_origin_proof X r = mapped (mi_sign_origin_proof X (origin_proof_request_of r))"

definition js_prepare_document_change ::
  "ext \<Rightarrow> node_ext \<Rightarrow> managed_identity \<Rightarrow> json \<Rightarrow> (did_identity, document_change_session) node_act" where
  "js_prepare_document_change X N m v =
     bnd (lift (decoded (decode_changes N) v)) (\<lambda>changes. mapped (prepare_document_change X m changes))"

definition js_resume_document_change ::
  "managed_identity \<Rightarrow> (did_identity, document_change_session option) node_act" where
  "js_resume_document_change m = mapped (resume_document_change m)"

definition js_begin_publication ::
  "ext \<Rightarrow> document_change_session \<Rightarrow> (did_identity, publication_attempt) node_act" where
  "js_begin_publication X s = mapped (session_begin_publication X s)"

definition js_complete ::
  "ext \<Rightarrow> node_ext \<Rightarrow> document_change_session \<Rightarrow> json \<Rightarrow> json
     \<Rightarrow> (did_identity, document_change_outcome) node_act" where
  "js_complete X N s tried result =
     bnd (lift (decoded (decode_attempt N) tried)) (\<lambda>a.
     bnd (lift (decoded (decode_result N) result)) (\<lambda>r. mapped (session_complete X s a r)))"

definition js_reconcile ::
  "ext \<Rightarrow> node_ext \<Rightarrow> document_change_session \<Rightarrow> json \<Rightarrow> (did_identity, document_change_outcome) node_act" where
  "js_reconcile X N s v =
     bnd (lift (decoded (decode_remote N) v)) (\<lambda>obs. mapped (session_reconcile X s obs))"

definition js_reconcile_rejected ::
  "ext \<Rightarrow> node_ext \<Rightarrow> document_change_session \<Rightarrow> json \<Rightarrow> (did_identity, document_change_outcome) node_act" where
  "js_reconcile_rejected X N s v =
     bnd (lift (decoded (decode_remote N) v)) (\<lambda>obs. mapped (session_reconcile_rejected X s obs))"

definition js_begin_transition ::
  "ext \<Rightarrow> (identity_transition_session, transition_attempt) node_act" where
  "js_begin_transition X = mapped (begin_transition_publication X)"

definition js_complete_transition ::
  "ext \<Rightarrow> node_ext \<Rightarrow> json \<Rightarrow> json \<Rightarrow> (identity_transition_session, transition_outcome) node_act" where
  "js_complete_transition X N tried result =
     bnd (lift (decoded (decode_transition_attempt N) tried)) (\<lambda>a.
     bnd (lift (decoded (decode_transition_result N) result)) (\<lambda>r.
     mapped (complete_transition X a r)))"

definition js_reconcile_transition ::
  "ext \<Rightarrow> host_ext \<Rightarrow> node_ext \<Rightarrow> json \<Rightarrow> (identity_transition_session, transition_outcome) node_act" where
  "js_reconcile_transition X H N v =
     bnd (lift (decoded (decode_observation N) v)) (\<lambda>obs. mapped (reconcile_transition X H obs))"

end
