(* ===== verification/Node_Provider.thy ===== *)
theory Node_Provider
  imports Node_Binding
begin

text \<open>
  The provider classes of \<open>bindings/node/src/lib.rs\<close>: a provider hands out leases; every operation of
  a lease, and of the sessions opened through it, first asks the authority for the capability it
  needs. Operations that return or accept a secret use one-time tokens instead.
\<close>

section \<open>Capabilities\<close>

definition IDENTITY_READ :: string where "IDENTITY_READ = ''IDENTITY_READ''"
definition IDENTITY_CREATE :: string where "IDENTITY_CREATE = ''IDENTITY_CREATE''"
definition IDENTITY_SIGN :: string where "IDENTITY_SIGN = ''IDENTITY_SIGN''"
definition IDENTITY_ECDH_SEALED :: string where "IDENTITY_ECDH_SEALED = ''IDENTITY_ECDH_SEALED''"
definition IDENTITY_DOCUMENT_UPDATE :: string where
  "IDENTITY_DOCUMENT_UPDATE = ''IDENTITY_DOCUMENT_UPDATE''"
definition IDENTITY_DELETE :: string where "IDENTITY_DELETE = ''IDENTITY_DELETE''"
definition IDENTITY_HTTP_SIGNATURE :: string where
  "IDENTITY_HTTP_SIGNATURE = ''IDENTITY_HTTP_SIGNATURE''"
definition AWIKI_LEGACY_ROOT_TRANSFER_V1 :: string where
  "AWIKI_LEGACY_ROOT_TRANSFER_V1 = ''AWIKI_LEGACY_ROOT_TRANSFER_V1''"

section \<open>Guarded objects\<close>

text \<open>
  A lease and the sessions opened through it share the authority and the slot of the lease; each
  has an engine of its own: the manager, an identity, or a session.
\<close>

record 'e guarded =
  gd_authority :: provider_authorization
  gd_lease :: "provider_capability_lease option"
  gd_engine :: 'e

type_synonym ('e, 'a) guarded_act = "('e guarded \<times> world, string, 'a) Prelude.io"

definition lease_disposed :: string where
  "lease_disposed = js_error ''provider_disposed'' ''provider lease is disposed''"

definition current_lease :: "('e, provider_capability_lease) guarded_act" where
  "current_lease s = lift (ok_or (gd_lease (fst s)) lease_disposed) s"

text \<open>An action of the authority, and an action of the engine.\<close>

definition with_authority :: "'a auth \<Rightarrow> ('e, 'a) guarded_act" where
  "with_authority m s =
     (case m (gd_authority (fst s), snd s) of
        (r, (au, w)) \<Rightarrow> (map_err map_authorization_error r, ((fst s)\<lparr>gd_authority := au\<rparr>, w)))"

definition with_engine :: "('e, 'a) act \<Rightarrow> ('e, 'a) guarded_act" where
  "with_engine m s =
     (case m (gd_engine (fst s), snd s) of
        (r, (e, w)) \<Rightarrow> (map_err map_error r, ((fst s)\<lparr>gd_engine := e\<rparr>, w)))"

definition authorize_provider_lease :: "string \<Rightarrow> ('e, unit) guarded_act" where
  "authorize_provider_lease capability =
     bnd current_lease (\<lambda>lease. with_authority (authorize lease capability))"

definition issue_provider_one_time ::
  "ext \<Rightarrow> host_ext \<Rightarrow> one_time_operation_binding \<Rightarrow> ('e, string) guarded_act" where
  "issue_provider_one_time X H b =
     bnd current_lease (\<lambda>lease. with_authority (issue_one_time X H lease b 60))"

definition with_authorized :: "string \<Rightarrow> ('e, 'a) act \<Rightarrow> ('e, 'a) guarded_act" where
  "with_authorized capability m = bnd (authorize_provider_lease capability) (\<lambda>_. with_engine m)"

text \<open>
  An operation on a freshly opened identity, which is dropped afterwards, and the variant that
  keeps it for a session.
\<close>

definition on_identity :: "did_identity \<Rightarrow> (did_identity, 'a) act \<Rightarrow> ('s, 'a) act" where
  "on_identity i m s = (case m (i, snd s) of (r, (_, w)) \<Rightarrow> (r, (fst s, w)))"

definition on_opened ::
  "ext \<Rightarrow> identity_ref \<Rightarrow> (managed_identity \<Rightarrow> (did_identity, 'a) act) \<Rightarrow> (did_store, 'a) act" where
  "on_opened X reference m =
     bnd (manager_get X reference) (\<lambda>(identity, i). on_identity i (m identity))"

definition kept :: "(did_identity, 'a) act \<Rightarrow> (did_identity, 'a \<times> did_identity) act" where
  "kept m = bnd m (\<lambda>x. bnd engine (\<lambda>i. ret (x, i)))"

section \<open>The provider\<close>

record identity_provider =
  ipv_manager :: did_store
  ipv_authorization :: provider_authorization
  ipv_store_id :: string

definition provider_of :: "ext \<Rightarrow> (world, string, did_store) Prelude.io
     \<Rightarrow> (world, string, identity_provider) Prelude.io" where
  "provider_of X m =
     bnd m (\<lambda>store.
     bnd (\<lambda>w. case mapped manager_info (store, w) of (r, (_, w')) \<Rightarrow> (r, w')) (\<lambda>info.
     bnd (\<lambda>w. case new_provider_authorization X w of (r, w') \<Rightarrow> (map_err (\<lambda>_. map_error IE_Internal) r, w')) (\<lambda>au.
     ret \<lparr>ipv_manager = store, ipv_authorization = au, ipv_store_id = sti_store_id info\<rparr>)))"

definition provider_initialize ::
  "ext \<Rightarrow> keyring \<Rightarrow> (string \<Rightarrow> string option) \<Rightarrow> js_identity_manager_config
     \<Rightarrow> (world, string, identity_provider) Prelude.io" where
  "provider_initialize X kr env config = provider_of X (js_manager_initialize X kr env config)"

definition provider_open ::
  "ext \<Rightarrow> keyring \<Rightarrow> (string \<Rightarrow> string option) \<Rightarrow> js_identity_manager_config
     \<Rightarrow> (world, string, identity_provider) Prelude.io" where
  "provider_open X kr env config = provider_of X (js_manager_open X kr env config)"

definition provider_acquire_lease ::
  "ext \<Rightarrow> js_provider_lease_request
     \<Rightarrow> (identity_provider \<times> world, string, did_store guarded) Prelude.io" where
  "provider_acquire_lease X request s =
     (case acquire_lease X (jl_consumer request) (jl_capabilities request) (ipv_store_id (fst s))
             (jl_ttl_seconds request) (ipv_authorization (fst s), snd s) of
        (r, (au, w)) \<Rightarrow>
          (map_err map_authorization_error
             (rbind r (\<lambda>lease. Inr \<lparr>gd_authority = au, gd_lease = Some lease,
                                     gd_engine = ipv_manager (fst s)\<rparr>)),
           ((fst s)\<lparr>ipv_authorization := au\<rparr>, w)))"

definition lease_dispose :: "('e, unit) guarded_act" where
  "lease_dispose =
     bnd current_lease (\<lambda>lease.
     bnd (\<lambda>s. (Inr (), ((fst s)\<lparr>gd_lease := None\<rparr>, snd s))) (\<lambda>_.
     with_authority (dispose_lease lease)))"

section \<open>Operations of a lease\<close>

definition lease_info :: "(did_store, store_info) guarded_act" where
  "lease_info = with_authorized IDENTITY_READ manager_info"

definition lease_recover :: "ext \<Rightarrow> (did_store, nat) guarded_act" where
  "lease_recover X = with_authorized IDENTITY_READ (manager_recover X)"

definition lease_list :: "(did_store, identity_descriptor list) guarded_act" where
  "lease_list = with_authorized IDENTITY_READ manager_list"

definition lease_public_identity :: "ext \<Rightarrow> identity_ref \<Rightarrow> (did_store, public_identity) guarded_act" where
  "lease_public_identity X r = with_authorized IDENTITY_READ (on_opened X r mi_public_identity)"

definition lease_host_status :: "ext \<Rightarrow> identity_ref \<Rightarrow> (did_store, identity_host_status) guarded_act" where
  "lease_host_status X r = with_authorized IDENTITY_READ (on_opened X r (\<lambda>_. host_status))"

definition lease_recover_identity :: "ext \<Rightarrow> identity_ref \<Rightarrow> (did_store, unit) guarded_act" where
  "lease_recover_identity X r = with_authorized IDENTITY_READ (on_opened X r (\<lambda>_. recover_identity X))"

definition lease_create :: "ext \<Rightarrow> node_ext \<Rightarrow> json \<Rightarrow> (did_store, public_identity) guarded_act" where
  "lease_create X N v =
     bnd (lift (decoded (decode_create N) v)) (\<lambda>request.
     with_authorized IDENTITY_CREATE
       (bnd (manager_create X request) (\<lambda>(m, i). on_identity i (mi_public_identity m))))"

definition lease_delete :: "ext \<Rightarrow> identity_ref \<Rightarrow> (did_store, unit) guarded_act" where
  "lease_delete X r = with_authorized IDENTITY_DELETE (manager_delete X r True)"

definition lease_verify ::
  "ext \<Rightarrow> identity_ref \<Rightarrow> js_verify_request \<Rightarrow> (did_store, string) guarded_act" where
  "lease_verify X r v =
     bnd (lift (verify_request_of v)) (\<lambda>request.
     bnd (with_authorized IDENTITY_READ (on_opened X r (\<lambda>_. mi_verify X request))) (\<lambda>outcome.
     ret (verification_name outcome)))"

definition lease_sign ::
  "ext \<Rightarrow> identity_ref \<Rightarrow> js_sign_request \<Rightarrow> (did_store, js_signature) guarded_act" where
  "lease_sign X r v =
     bnd (lift (sign_request_of v)) (\<lambda>request.
     bnd (with_authorized IDENTITY_SIGN (on_opened X r (\<lambda>_. mi_sign X request))) (\<lambda>s.
     ret (js_signature_of s)))"

definition lease_sign_origin_proof ::
  "ext \<Rightarrow> identity_ref \<Rightarrow> js_origin_proof_request \<Rightarrow> (did_store, origin_proof) guarded_act" where
  "lease_sign_origin_proof X r v =
     with_authorized IDENTITY_SIGN
       (on_opened X r (\<lambda>_. mi_sign_origin_proof X (origin_proof_request_of v)))"

definition lease_sign_object_proof ::
  "ext \<Rightarrow> node_ext \<Rightarrow> identity_ref \<Rightarrow> json \<Rightarrow> (did_store, json) guarded_act" where
  "lease_sign_object_proof X N r v =
     bnd (lift (decoded (decode_object_proof N) v)) (\<lambda>request.
     with_authorized IDENTITY_SIGN (on_opened X r (\<lambda>_. port_sign_object_proof X request)))"

definition lease_sign_document_proof ::
  "ext \<Rightarrow> node_ext \<Rightarrow> identity_ref \<Rightarrow> json \<Rightarrow> (did_store, json) guarded_act" where
  "lease_sign_document_proof X N r v =
     bnd (lift (decoded (decode_document_proof N) v)) (\<lambda>request.
     with_authorized IDENTITY_SIGN (on_opened X r (\<lambda>_. port_sign_document_proof X request)))"

definition lease_prepare_http_signature ::
  "ext \<Rightarrow> js_exact_http_signing_request \<Rightarrow> (did_store, prepared_http_signature_attempt) guarded_act" where
  "lease_prepare_http_signature X v =
     with_authorized IDENTITY_HTTP_SIGNATURE
       (on_opened X (jh_identity v) (\<lambda>_. prepare_http_signature X (exact_http_request_of v)))"

definition lease_prepare_legacy_did_wba ::
  "ext \<Rightarrow> identity_ref \<Rightarrow> string option \<Rightarrow> string \<Rightarrow> string \<Rightarrow> (did_store, string) guarded_act" where
  "lease_prepare_legacy_did_wba X r kid service_domain version =
     with_authorized IDENTITY_HTTP_SIGNATURE
       (on_opened X r (\<lambda>_. prepare_legacy_did_wba X (key_selector_of kid) service_domain version))"

text \<open>
  A session opened through a lease shares its authority and its slot; what it has of its own is its
  engine, which the operation returns.
\<close>

definition lease_prepare_document_change ::
  "ext \<Rightarrow> node_ext \<Rightarrow> identity_ref \<Rightarrow> json
     \<Rightarrow> (did_store, document_change_session \<times> did_identity) guarded_act" where
  "lease_prepare_document_change X N r v =
     bnd (lift (decoded (decode_changes N) v)) (\<lambda>changes.
     with_authorized IDENTITY_DOCUMENT_UPDATE
       (on_opened X r (\<lambda>m. kept (prepare_document_change X m changes))))"

definition lease_resume_document_change ::
  "ext \<Rightarrow> identity_ref \<Rightarrow> (did_store, (document_change_session \<times> did_identity) option) guarded_act" where
  "lease_resume_document_change X r =
     bnd (with_authorized IDENTITY_DOCUMENT_UPDATE
            (on_opened X r (\<lambda>m. kept (resume_document_change m)))) (\<lambda>(session, i).
     ret (map_option (\<lambda>s. (s, i)) session))"

definition lease_prepare_identity_transition ::
  "ext \<Rightarrow> host_ext \<Rightarrow> node_ext \<Rightarrow> json \<Rightarrow> (did_store, identity_transition_session) guarded_act" where
  "lease_prepare_identity_transition X H N v =
     bnd (lift (decoded (decode_transition N) v)) (\<lambda>request.
     with_authorized IDENTITY_DOCUMENT_UPDATE (prepare_identity_transition X H request))"

definition lease_resume_identity_transition ::
  "ext \<Rightarrow> string \<Rightarrow> (did_store, identity_transition_session option) guarded_act" where
  "lease_resume_identity_transition X did =
     with_authorized IDENTITY_DOCUMENT_UPDATE (resume_identity_transition X did)"

definition lease_adopt_verified_document ::
  "ext \<Rightarrow> node_ext \<Rightarrow> identity_ref \<Rightarrow> json \<Rightarrow> (did_store, convergence_outcome) guarded_act" where
  "lease_adopt_verified_document X N r v =
     bnd (lift (decoded (decode_remote N) v)) (\<lambda>remote.
     with_authorized IDENTITY_DOCUMENT_UPDATE (on_opened X r (\<lambda>_. converge X remote)))"

definition lease_adopt_verified_sibling_document ::
  "ext \<Rightarrow> node_ext \<Rightarrow> identity_ref \<Rightarrow> json \<Rightarrow> (did_store, convergence_outcome) guarded_act" where
  "lease_adopt_verified_sibling_document X N r v =
     bnd (lift (decoded (decode_remote N) v)) (\<lambda>remote.
     with_authorized IDENTITY_DOCUMENT_UPDATE (on_opened X r (\<lambda>_. converge_sibling X remote)))"

definition lease_begin_device_enrollment ::
  "ext \<Rightarrow> node_ext \<Rightarrow> json \<Rightarrow> (did_store, enrollment_session \<times> did_identity) guarded_act" where
  "lease_begin_device_enrollment X N v =
     bnd (lift (decoded (decode_device_enrollment N) v)) (\<lambda>request.
     with_authorized IDENTITY_CREATE (begin_device_enrollment X request))"

definition lease_begin_request_signing_enrollment ::
  "ext \<Rightarrow> node_ext \<Rightarrow> json \<Rightarrow> (did_store, enrollment_session \<times> did_identity) guarded_act" where
  "lease_begin_request_signing_enrollment X N v =
     bnd (lift (decoded (decode_request_enrollment N) v)) (\<lambda>request.
     with_authorized IDENTITY_CREATE (begin_request_signing_enrollment X request))"

definition lease_resume_enrollment ::
  "ext \<Rightarrow> identity_ref \<Rightarrow> (did_store, (enrollment_session \<times> did_identity) option) guarded_act" where
  "lease_resume_enrollment X r = with_authorized IDENTITY_CREATE (resume_enrollment X r)"

definition lease_import_wrapped_root ::
  "ext \<Rightarrow> node_ext \<Rightarrow> identity_ref \<Rightarrow> json \<Rightarrow> (did_store, string) guarded_act" where
  "lease_import_wrapped_root X N r v =
     bnd (lift (decoded (decode_wrapped_root N) v)) (\<lambda>envelope.
     bnd (with_authorized AWIKI_LEGACY_ROOT_TRANSFER_V1
            (on_opened X r (\<lambda>_. import_wrapped_root_envelope X envelope))) (\<lambda>outcome.
     ret (import_outcome_name outcome)))"

definition lease_confirm_root_promotion ::
  "ext \<Rightarrow> node_ext \<Rightarrow> identity_ref \<Rightarrow> json \<Rightarrow> (did_store, unit) guarded_act" where
  "lease_confirm_root_promotion X N r v =
     bnd (lift (decoded (decode_promotion N) v)) (\<lambda>remote.
     with_authorized AWIKI_LEGACY_ROOT_TRANSFER_V1
       (on_opened X r (\<lambda>_. port_confirm_root_promotion X remote)))"

definition lease_sign_pending_root_object_proof ::
  "ext \<Rightarrow> node_ext \<Rightarrow> identity_ref \<Rightarrow> json \<Rightarrow> (did_store, json) guarded_act" where
  "lease_sign_pending_root_object_proof X N r v =
     bnd (lift (decoded (decode_object_proof N) v)) (\<lambda>request.
     with_authorized AWIKI_LEGACY_ROOT_TRANSFER_V1
       (on_opened X r (\<lambda>_. port_sign_pending_root_object_proof X request)))"

section \<open>Sessions of a lease\<close>

text \<open>Every method of a document change or of a transition needs the same capability.\<close>

definition provider_session :: "('e, 'a) act \<Rightarrow> ('e, 'a) guarded_act" where
  "provider_session m = with_authorized IDENTITY_DOCUMENT_UPDATE m"

definition change_candidate ::
  "document_change_session \<Rightarrow> (did_identity, prepared_document_change) guarded_act" where
  "change_candidate s = provider_session (ret (dcs_candidate s))"

definition change_host_phase ::
  "document_change_session \<Rightarrow> (did_identity, host_document_change_phase) guarded_act" where
  "change_host_phase s = provider_session (host_phase s)"

definition change_begin_publication ::
  "ext \<Rightarrow> document_change_session \<Rightarrow> (did_identity, publication_attempt) guarded_act" where
  "change_begin_publication X s = provider_session (session_begin_publication X s)"

definition change_complete ::
  "ext \<Rightarrow> node_ext \<Rightarrow> document_change_session \<Rightarrow> json \<Rightarrow> json
     \<Rightarrow> (did_identity, document_change_outcome) guarded_act" where
  "change_complete X N s tried result =
     bnd (lift (decoded (decode_attempt N) tried)) (\<lambda>a.
     bnd (lift (decoded (decode_result N) result)) (\<lambda>r. provider_session (session_complete X s a r)))"

definition change_reconcile ::
  "ext \<Rightarrow> node_ext \<Rightarrow> document_change_session \<Rightarrow> json
     \<Rightarrow> (did_identity, document_change_outcome) guarded_act" where
  "change_reconcile X N s v =
     bnd (lift (decoded (decode_remote N) v)) (\<lambda>obs. provider_session (session_reconcile X s obs))"

definition change_reconcile_rejected ::
  "ext \<Rightarrow> node_ext \<Rightarrow> document_change_session \<Rightarrow> json
     \<Rightarrow> (did_identity, document_change_outcome) guarded_act" where
  "change_reconcile_rejected X N s v =
     bnd (lift (decoded (decode_remote N) v)) (\<lambda>obs.
       provider_session (session_reconcile_rejected X s obs))"

definition transition_candidate ::
  "(identity_transition_session, prepared_identity_transition) guarded_act" where
  "transition_candidate = provider_session (bnd engine (\<lambda>s. ret (its_candidate s)))"

definition transition_begin_publication ::
  "ext \<Rightarrow> (identity_transition_session, transition_attempt) guarded_act" where
  "transition_begin_publication X = provider_session (begin_transition_publication X)"

definition transition_complete ::
  "ext \<Rightarrow> node_ext \<Rightarrow> json \<Rightarrow> json \<Rightarrow> (identity_transition_session, transition_outcome) guarded_act" where
  "transition_complete X N tried result =
     bnd (lift (decoded (decode_transition_attempt N) tried)) (\<lambda>a.
     bnd (lift (decoded (decode_transition_result N) result)) (\<lambda>r.
     provider_session (complete_transition X a r)))"

definition transition_reconcile ::
  "ext \<Rightarrow> host_ext \<Rightarrow> node_ext \<Rightarrow> json \<Rightarrow> (identity_transition_session, transition_outcome) guarded_act" where
  "transition_reconcile X H N v =
     bnd (lift (decoded (decode_observation N) v)) (\<lambda>obs. provider_session (reconcile_transition X H obs))"

section \<open>Enrolment sessions\<close>

text \<open>The session until it is cancelled, with the engine of its identity, beside the manager.\<close>

record enrollment_handle =
  eh_manager :: did_store
  eh_session :: "(enrollment_session \<times> did_identity) option"

definition enrollment_consumed :: string where
  "enrollment_consumed = js_error ''invalid_state'' ''enrollment session was already consumed''"

definition open_enrollment :: "(enrollment_handle, enrollment_session \<times> did_identity) guarded_act" where
  "open_enrollment s = lift (ok_or (eh_session (gd_engine (fst s))) enrollment_consumed) s"

definition with_enrollment ::
  "string \<Rightarrow> (enrollment_session \<Rightarrow> (did_identity, 'a) act) \<Rightarrow> (enrollment_handle, 'a) guarded_act" where
  "with_enrollment capability m =
     bnd (authorize_provider_lease capability) (\<lambda>_.
     bnd open_enrollment (\<lambda>(session, i).
     with_engine (\<lambda>s. case m session (i, snd s) of
       (r, (i', w)) \<Rightarrow> (r, ((fst s)\<lparr>eh_session := Some (session, i')\<rparr>, w)))))"

definition enrollment_proposal_value :: "(enrollment_handle, enrollment_proposal) guarded_act" where
  "enrollment_proposal_value = with_enrollment IDENTITY_READ (\<lambda>s. ret (ens_proposal s))"

definition enrollment_sign_device_assertion :: "ext \<Rightarrow> bytes \<Rightarrow> (enrollment_handle, bytes) guarded_act" where
  "enrollment_sign_device_assertion X payload =
     with_enrollment IDENTITY_SIGN (\<lambda>s. sign_device_assertion X s payload)"

definition enrollment_activate ::
  "ext \<Rightarrow> node_ext \<Rightarrow> json \<Rightarrow> (enrollment_handle, convergence_outcome) guarded_act" where
  "enrollment_activate X N v =
     bnd (lift (decoded (decode_remote N) v)) (\<lambda>remote.
     with_enrollment IDENTITY_DOCUMENT_UPDATE (\<lambda>_. activate X remote))"

definition enrollment_cancel :: "ext \<Rightarrow> (enrollment_handle, unit) guarded_act" where
  "enrollment_cancel X =
     bnd (authorize_provider_lease IDENTITY_CREATE) (\<lambda>_.
     bnd open_enrollment (\<lambda>(session, _).
     with_engine (\<lambda>s.
       case cancel X session (eh_manager (fst s), snd s) of
         (r, (store, w)) \<Rightarrow> (r, (\<lparr>eh_manager = store, eh_session = None\<rparr>, w)))))"

section \<open>Sealed operations\<close>

text \<open>
  A sealed operation runs on the authority and on the engine of an identity or of the manager. The
  token is issued under the lease and consumed by the operation itself.
\<close>

definition with_sealed ::
  "('s, 'a) sealed \<Rightarrow> ('e \<Rightarrow> 's) \<Rightarrow> ('s \<Rightarrow> 'e \<Rightarrow> 'e) \<Rightarrow> ('e, 'a) guarded_act" where
  "with_sealed m get put s =
     (case m ((gd_authority (fst s), get (gd_engine (fst s))), snd s) of
        (r, ((au, e), w)) \<Rightarrow>
          (map_err map_sealed_error r,
           ((fst s)\<lparr>gd_authority := au, gd_engine := put e (gd_engine (fst s))\<rparr>, w)))"

definition with_opened_sealed ::
  "ext \<Rightarrow> identity_ref \<Rightarrow> (managed_identity \<Rightarrow> (did_identity, 'a) sealed) \<Rightarrow> (did_store, 'a) guarded_act" where
  "with_opened_sealed X reference m =
     bnd (with_engine (manager_get X reference)) (\<lambda>(identity, i).
     with_sealed (m identity) (\<lambda>_. i) (\<lambda>_ store. store))"

record js_sealed_key_agreement_request =
  jk_identity :: identity_ref
  jk_kid :: string
  jk_peer_public :: bytes
  jk_recipient_public_key :: bytes
  jk_request_id :: string

record js_sealed_enrollment_key_agreement_request =
  je_peer_public :: bytes
  je_recipient_public_key :: bytes
  je_request_id :: string

record js_sealed_root_export_request =
  jx_identity :: identity_ref
  jx_kid :: string
  jx_recipient_public_key :: bytes
  jx_request_id :: string
  jx_user_presence_confirmed :: bool

record js_sealed_root_import_preparation =
  ji_identity :: identity_ref
  ji_evidence :: json
  ji_encoding :: string
  ji_request_id :: string

record js_sealed_identity_import_preparation =
  jm_remote :: json
  jm_did_wba :: bool
  jm_keys :: json
  jm_request_id :: string

definition lease_ecdh_sealed ::
  "ext \<Rightarrow> host_ext \<Rightarrow> js_sealed_key_agreement_request \<Rightarrow> (did_store, sealed_secret_delivery) guarded_act" where
  "lease_ecdh_sealed X H r =
     bnd (lift (fixed_public_key (jk_peer_public r) ''peerPublic'')) (\<lambda>peer_public.
     bnd (lift (fixed_public_key (jk_recipient_public_key r) ''recipientPublicKey'')) (\<lambda>recipient.
     bnd (lift (map_err map_sealed_error (sealed_key_agreement_binding H (jk_identity r) (jk_kid r)
            peer_public recipient (jk_request_id r)))) (\<lambda>b.
     bnd (issue_provider_one_time X H b) (\<lambda>token.
     with_opened_sealed X (jk_identity r) (\<lambda>m. derive_shared_secret_sealed X H m
       \<lparr>kar_identity = jk_identity r, kar_kid = jk_kid r, kar_peer_public = peer_public,
        kar_recipient_public_key = recipient, kar_request_id = jk_request_id r,
        kar_token = token\<rparr>)))))"

definition lease_export_root_key_sealed ::
  "ext \<Rightarrow> host_ext \<Rightarrow> js_sealed_root_export_request \<Rightarrow> (did_store, sealed_secret_delivery) guarded_act" where
  "lease_export_root_key_sealed X H r =
     bnd (lift (fixed_public_key (jx_recipient_public_key r) ''recipientPublicKey'')) (\<lambda>recipient.
     bnd (lift (map_err map_sealed_error (sealed_root_export_binding H (jx_identity r) (jx_kid r)
            recipient (jx_request_id r) (jx_user_presence_confirmed r)))) (\<lambda>b.
     bnd (issue_provider_one_time X H b) (\<lambda>token.
     with_opened_sealed X (jx_identity r) (\<lambda>m. export_root_key_sealed X H m
       \<lparr>xer_identity = jx_identity r, xer_kid = jx_kid r, xer_recipient_public_key = recipient,
        xer_request_id = jx_request_id r,
        xer_user_presence_confirmed = jx_user_presence_confirmed r, xer_token = token\<rparr>))))"

definition enrollment_derive_sealed ::
  "ext \<Rightarrow> host_ext \<Rightarrow> js_sealed_enrollment_key_agreement_request
     \<Rightarrow> (enrollment_handle, sealed_secret_delivery) guarded_act" where
  "enrollment_derive_sealed X H r =
     bnd (lift (fixed_public_key (je_peer_public r) ''peerPublic'')) (\<lambda>peer_public.
     bnd (lift (fixed_public_key (je_recipient_public_key r) ''recipientPublicKey'')) (\<lambda>recipient.
     bnd (with_enrollment IDENTITY_ECDH_SEALED (\<lambda>s. ret (ens_proposal s))) (\<lambda>proposal.
     bnd (lift (case epr_kind proposal of
            Proposal_RequestSigning _ \<Rightarrow>
              Inl (js_error ''capability_unavailable'' ''enrollment has no device agreement key'')
          | Proposal_Device _ _ agreement_key _ \<Rightarrow> Inr (ppk_kid agreement_key))) (\<lambda>kid.
     bnd (lift (map_err map_sealed_error (sealed_enrollment_key_agreement_binding H
            (epr_identity proposal) (epr_enrollment_id proposal) kid peer_public recipient
            (je_request_id r)))) (\<lambda>b.
     bnd (issue_provider_one_time X H b) (\<lambda>token.
     bnd (authorize_provider_lease IDENTITY_ECDH_SEALED) (\<lambda>_.
     bnd open_enrollment (\<lambda>(session, i).
     with_sealed (derive_device_shared_secret_sealed X H session
         \<lparr>ear_identity = epr_identity proposal, ear_enrollment_id = epr_enrollment_id proposal,
          ear_kid = kid, ear_peer_public = peer_public, ear_recipient_public_key = recipient,
          ear_request_id = je_request_id r, ear_token = token\<rparr>)
       (\<lambda>_. i) (\<lambda>i' h. h\<lparr>eh_session := Some (session, i')\<rparr>)))))))))"

section \<open>Prepared imports\<close>

text \<open>A value that may be taken once.\<close>

definition take_once :: "'a option \<Rightarrow> string \<Rightarrow> ('a \<times> 'a option) node_result" where
  "take_once slot message =
     (case slot of Some x \<Rightarrow> Inr (x, None) | None \<Rightarrow> Inl (js_error ''token_consumed'' message))"

record prepared_root_import =
  pri_manager :: did_store
  pri_identity :: identity_ref
  pri_prepared :: "prepared_sealed_root_import option"
  pri_offer :: "sealed_import_offer option"

record prepared_identity_material_import =
  pmi_manager :: did_store
  pmi_prepared :: "prepared_sealed_identity_material_import option"
  pmi_offer :: "sealed_identity_material_import_offer option"

definition root_encoding_named :: "string \<Rightarrow> root_private_key_encoding node_result" where
  "root_encoding_named name =
     (if name = ''raw32'' then Inr Root_Raw32
      else if name = ''pkcs8_der'' then Inr Root_Pkcs8Der
      else Inl (js_error ''invalid_request'' ''unknown root key encoding''))"

definition lease_prepare_legacy_root_import ::
  "ext \<Rightarrow> host_ext \<Rightarrow> node_ext \<Rightarrow> js_sealed_root_import_preparation
     \<Rightarrow> (did_store, prepared_root_import) guarded_act" where
  "lease_prepare_legacy_root_import X H N r =
     bnd (lift (decoded (decode_root_evidence N) (ji_evidence r))) (\<lambda>e.
     bnd (lift (root_encoding_named (ji_encoding r))) (\<lambda>encoding.
     bnd current_lease (\<lambda>lease.
     bnd (with_sealed (prepare_sealed_root_import X H lease
            \<lparr>rip_identity = ji_identity r, rip_evidence = e, rip_encoding = encoding,
             rip_request_id = ji_request_id r\<rparr> 60) (\<lambda>_. ()) (\<lambda>_ store. store)) (\<lambda>(prepared, offer) s.
     ret \<lparr>pri_manager = gd_engine (fst s), pri_identity = ji_identity r,
          pri_prepared = Some prepared, pri_offer = Some offer\<rparr> s))))"

definition lease_prepare_identity_material_import ::
  "ext \<Rightarrow> host_ext \<Rightarrow> node_ext \<Rightarrow> js_sealed_identity_import_preparation
     \<Rightarrow> (did_store, prepared_identity_material_import) guarded_act" where
  "lease_prepare_identity_material_import X H N r =
     bnd (lift (decoded (decode_remote N) (jm_remote r))) (\<lambda>remote.
     bnd (lift (decoded (decode_material_keys N) (jm_keys r))) (\<lambda>keys.
     bnd current_lease (\<lambda>lease.
     bnd (with_sealed (prepare_sealed_identity_material_import X H lease
            \<lparr>mip_remote = remote, mip_did_wba = jm_did_wba r, mip_keys = keys,
             mip_request_id = jm_request_id r\<rparr> 60) (\<lambda>store. store) (\<lambda>store _. store)) (\<lambda>(prepared, offer) s.
     ret \<lparr>pmi_manager = gd_engine (fst s), pmi_prepared = Some prepared,
          pmi_offer = Some offer\<rparr> s))))"

definition root_import_offer :: "(prepared_root_import, sealed_import_offer) guarded_act" where
  "root_import_offer s =
     (case take_once (pri_offer (gd_engine (fst s))) ''sealed import offer was already read'' of
        Inl e \<Rightarrow> (Inl e, s)
      | Inr (offer, rest) \<Rightarrow>
          (Inr offer, ((fst s)\<lparr>gd_engine := (gd_engine (fst s))\<lparr>pri_offer := rest\<rparr>\<rparr>, snd s)))"

definition take_root_import :: "(prepared_root_import, prepared_sealed_root_import) guarded_act" where
  "take_root_import s =
     (case take_once (pri_prepared (gd_engine (fst s))) ''sealed root import was already completed'' of
        Inl e \<Rightarrow> (Inl e, s)
      | Inr (p, rest) \<Rightarrow>
          (Inr p, ((fst s)\<lparr>gd_engine := (gd_engine (fst s))\<lparr>pri_prepared := rest\<rparr>\<rparr>, snd s)))"

text \<open>The preparation is taken before the envelope is decoded.\<close>

definition root_import_complete ::
  "ext \<Rightarrow> host_ext \<Rightarrow> node_ext \<Rightarrow> string \<Rightarrow> json \<Rightarrow> (prepared_root_import, string) guarded_act" where
  "root_import_complete X H N token v =
     bnd take_root_import (\<lambda>prepared.
     bnd (lift (decoded (decode_envelope N) v)) (\<lambda>envelope.
     bnd (with_engine (\<lambda>s.
            case manager_get X (pri_identity (fst s)) (pri_manager (fst s), snd s) of
              (r, (store, w)) \<Rightarrow> (r, ((fst s)\<lparr>pri_manager := store\<rparr>, w)))) (\<lambda>(m, i).
     bnd (with_sealed (complete_sealed_root_import X H prepared m token envelope)
            (\<lambda>_. i) (\<lambda>_ h. h)) (\<lambda>outcome.
     ret (import_outcome_name outcome)))))"

definition material_import_offer ::
  "(prepared_identity_material_import, sealed_identity_material_import_offer) guarded_act" where
  "material_import_offer s =
     (case take_once (pmi_offer (gd_engine (fst s))) ''sealed import offer was already read'' of
        Inl e \<Rightarrow> (Inl e, s)
      | Inr (offer, rest) \<Rightarrow>
          (Inr offer, ((fst s)\<lparr>gd_engine := (gd_engine (fst s))\<lparr>pmi_offer := rest\<rparr>\<rparr>, snd s)))"

definition take_material_import ::
  "(prepared_identity_material_import, prepared_sealed_identity_material_import) guarded_act" where
  "take_material_import s =
     (case take_once (pmi_prepared (gd_engine (fst s))) ''sealed identity import was already completed'' of
        Inl e \<Rightarrow> (Inl e, s)
      | Inr (p, rest) \<Rightarrow>
          (Inr p, ((fst s)\<lparr>gd_engine := (gd_engine (fst s))\<lparr>pmi_prepared := rest\<rparr>\<rparr>, snd s)))"

definition material_import_complete ::
  "ext \<Rightarrow> host_ext \<Rightarrow> node_ext \<Rightarrow> string \<Rightarrow> json
     \<Rightarrow> (prepared_identity_material_import, public_identity) guarded_act" where
  "material_import_complete X H N token v =
     bnd take_material_import (\<lambda>prepared.
     bnd (lift (decoded (decode_envelopes N) v)) (\<lambda>envelopes.
     bnd (with_sealed (complete_sealed_identity_material_import X H prepared token envelopes)
            pmi_manager (\<lambda>store h. h\<lparr>pmi_manager := store\<rparr>)) (\<lambda>(m, i).
     lift (map_err map_error (project_public_identity (mi_store_id m) i)))))"

end
