(* ===== verification/Sample_Host.thy ===== *)
theory Sample_Host
  imports Sample_Records Provider_Authorization
begin

text \<open>
  A concrete authority for the properties of the provider: a base64url codec whose output has no
  dot, a keyed hash that is its key, a parser that knows the claims of two tokens, and a lease of
  one capability with two operations bound to it.
\<close>

section \<open>A codec without dots\<close>

fun escape :: "bytes \<Rightarrow> string" where
  "escape [] = []"
| "escape (c # cs) =
     (if c = CHR ''.'' then ''~d'' else if c = CHR ''~'' then ''~~'' else [c]) @ escape cs"

fun unescape :: "string \<Rightarrow> bytes" where
  "unescape [] = []"
| "unescape [c] = [c]"
| "unescape (c # d # cs) =
     (if c = CHR ''~'' then (if d = CHR ''d'' then CHR ''.'' else d) # unescape cs
      else c # unescape (d # cs))"

lemma unescape_plain: "c \<noteq> CHR ''~'' \<Longrightarrow> unescape (c # s) = c # unescape s"
  by (cases s) simp_all

lemma unescape_escape: "unescape (escape s) = s"
  by (induction s) (simp_all add: unescape_plain)

lemma escape_no_dot: "CHR ''.'' \<notin> set (escape s)"
  by (induction s) simp_all

definition token_ext :: ext where
  "token_ext = sample_ext\<lparr>b64u_encode := escape, b64u_decode := (\<lambda>s. Some (unescape s))\<rparr>"

section \<open>A lease and two operations\<close>

definition sample_binding :: "string \<Rightarrow> one_time_operation_binding" where
  "sample_binding request = \<lparr>ob_capability = ''c'', ob_identity_id = ''i'', ob_operation = ''op'',
     ob_kid = Some ''k'', ob_request_id = request, ob_recipient_public_key = ''r'',
     ob_operation_input_digest = ''d''\<rparr>"

definition sample_lease :: provider_capability_lease where
  "sample_lease = \<lparr>pl_provider_instance_id = ''p'', pl_lease_id = ''l''\<rparr>"

definition sample_lease_state :: lease_state where
  "sample_lease_state = \<lparr>lst_consumer = ''app'', lst_capabilities = {''c''}, lst_store_id = ''s'',
     lst_expires_at = 1000\<rparr>"

definition sample_authority :: provider_authorization where
  "sample_authority = \<lparr>au_provider_instance_id = ''p'', au_hmac_key = ''key'',
     au_state = \<lparr>ast_leases = [''l'' \<mapsto> sample_lease_state], ast_consumed_tokens = Map.empty\<rparr>\<rparr>"

definition sample_claims :: "string \<Rightarrow> int \<Rightarrow> token_claims" where
  "sample_claims request expires_at = \<lparr>tc_version = TOKEN_VERSION, tc_provider_instance_id = ''p'',
     tc_parent_lease_id = ''l'', tc_consumer = ''app'', tc_capability = ''c'', tc_store_id = ''s'',
     tc_identity_id = ''i'', tc_operation = ''op'', tc_kid = Some ''k'', tc_request_id = request,
     tc_recipient_public_key_digest = ''r'', tc_operation_input_digest = ''d'',
     tc_expires_at = expires_at\<rparr>"

definition sample_token :: "string \<Rightarrow> string" where
  "sample_token request = escape (sample_print (claims_json (sample_claims request 0))) @ ''.'' @ ''key''"

text \<open>The parser knows the texts of the claims of the requests \<open>1\<close> and \<open>2\<close>.\<close>

definition sample_parse :: "bytes \<Rightarrow> ((string \<times> json) list + json list) option" where
  "sample_parse payload = map_option Inl (as_object (claims_json
     (if payload = sample_print (claims_json (sample_claims ''1'' 10)) then sample_claims ''1'' 10
      else sample_claims ''2'' 300)))"

definition sample_host :: host_ext where
  "sample_host = \<lparr>
     private_key_from_pkcs8_der = (\<lambda>_. None),
     verify_active_e1_document = (\<lambda>_ _. True),
     verify_transition_hop = (\<lambda>_ _ _. Some Assurance_Verified),
     hmac_sha256 = (\<lambda>key payload. Some key),
     serde_struct_input = sample_parse,
     sealed_recipient_public_key_digest = (\<lambda>key. key),
     identity_ecdh_binding = (\<lambda>_ _ _ _ _. None),
     identity_enrollment_ecdh_binding = (\<lambda>_ _ _ _ _ _. None),
     identity_root_export_binding = (\<lambda>_ _ _ _ _. None),
     identity_root_import_binding = (\<lambda>_ _ _ _ _. None),
     identity_material_import_binding = (\<lambda>_ _ _ _ _ _ _ _. None),
     identity_operation_aad = (\<lambda>_ _ _. None),
     identity_material_import_item_aad = (\<lambda>_ _ _ _ _. None),
     sealed_seal = (\<lambda>_ _ _ _ _. None),
     sealed_from_parts = (\<lambda>_ _. None),
     sealed_recipient_generate = (\<lambda>b. b),
     sealed_recipient_public = (\<lambda>b. b),
     sealed_open = (\<lambda>_ _ _ _. None),
     sealed_secret_protocol = ''sealed'', sealed_secret_info = ''info'', sealed_handoff_suite = ''suite'',
     ecdh_sealed_operation = ''ecdh'', enrollment_ecdh_sealed_operation = ''enroll'',
     root_export_sealed_operation = ''export'', root_import_sealed_operation = ''import''\<rparr>"

definition ticking :: "int list \<Rightarrow> world" where
  "ticking ts = (sample_world [])\<lparr>w_clock := (\<lambda>k. seconds (if k < length ts then ts ! k else last ts))\<rparr>"

end
