(* ===== verification/Authorization_Properties.thy ===== *)
theory Authorization_Properties
  imports Sample_Host
begin

text \<open>
  One-time tokens: a token is consumed at most once as long as the clock does not run backwards,
  only for the operation it was issued for, and within the lifetime of its lease.
\<close>

section \<open>Running the authority\<close>

lemma wp_authority [wp_simps]: "wp authority Q E s = Q (fst s) s"
  by (simp add: wp_def authority_def)

lemma wp_set_state [wp_simps]: "wp (set_state st) Q E s = Q () ((fst s)\<lparr>au_state := st\<rparr>, snd s)"
  by (simp add: wp_def set_state_def)

definition clock_now :: "world \<Rightarrow> int" where
  "clock_now w = w_clock w (w_ticks w) div seconds 1"

lemma wp_unix_now [wp_simps]:
  "wp (outside unix_now) Q E s = Q (clock_now (snd s)) (fst s, (snd s)\<lparr>w_ticks := Suc (w_ticks (snd s))\<rparr>)"
  by (simp add: wp_def outside_def unix_now_def bnd_def ret_def clock_now_def)

lemma wp_auth_random_id [wp_simps]:
  "wp (outside (random_id X)) Q E s =
     Q (b64u_encode X (w_random (snd s) (w_draws (snd s)) 16))
       (fst s, (snd s)\<lparr>w_draws := Suc (w_draws (snd s))\<rparr>)"
  by (simp add: wp_def outside_def random_id_def bnd_def ret_def)

section \<open>Calls\<close>

datatype authority_call =
    Call_Acquire string "string list" string int
  | Call_Dispose provider_capability_lease
  | Call_Authorize provider_capability_lease string
  | Call_Issue provider_capability_lease one_time_operation_binding int
  | Call_Consume string one_time_operation_binding

fun perform :: "ext \<Rightarrow> host_ext \<Rightarrow> authority_call \<Rightarrow> unit auth" where
  "perform X H (Call_Acquire consumer capabilities the_store_id ttl) =
     bnd (acquire_lease X consumer capabilities the_store_id ttl) (\<lambda>_. ret ())"
| "perform X H (Call_Dispose lease) = dispose_lease lease"
| "perform X H (Call_Authorize lease capability) = authorize lease capability"
| "perform X H (Call_Issue lease b ttl) = bnd (issue_one_time_with_context X H lease b ttl) (\<lambda>_. ret ())"
| "perform X H (Call_Consume token b) = consume_one_time X H token b"

text \<open>The tokens that a sequence of calls consumed, in order, and the state it leads to.\<close>

fun spent_by :: "authority_call \<Rightarrow> (provider_authorization_error, unit) result \<Rightarrow> string list" where
  "spent_by (Call_Consume token b) (Inr ()) = [token]"
| "spent_by _ _ = []"

fun run_calls ::
  "ext \<Rightarrow> host_ext \<Rightarrow> authority_call list \<Rightarrow> provider_authorization \<times> world
     \<Rightarrow> string list \<times> (provider_authorization \<times> world)" where
  "run_calls X H [] s = ([], s)"
| "run_calls X H (c # cs) s =
     (case perform X H c s of
        (r, s1) \<Rightarrow> (case run_calls X H cs s1 of (tokens, s2) \<Rightarrow> (spent_by c r @ tokens, s2)))"

fun presented :: "authority_call \<Rightarrow> string set" where
  "presented (Call_Consume token b) = {token}"
| "presented _ = {}"

section \<open>Spent tokens\<close>

text \<open>What a token says, whatever the state of the authority.\<close>

definition claims_of_token :: "ext \<Rightarrow> host_ext \<Rightarrow> string \<Rightarrow> token_claims option" where
  "claims_of_token X H token =
     Option.bind (split_token token) (\<lambda>(p, t). Option.bind (b64u_decode X p) (claims_from_slice H))"

definition past :: "int \<Rightarrow> world \<Rightarrow> bool" where
  "past e w \<longleftrightarrow> (\<forall>k\<ge>w_ticks w. e \<le> w_clock w k div seconds 1)"

definition spent :: "ext \<Rightarrow> host_ext \<Rightarrow> string \<Rightarrow> provider_authorization \<times> world \<Rightarrow> bool" where
  "spent X H token s \<longleftrightarrow>
     (\<exists>c. claims_of_token X H token = Some c
        \<and> (ast_consumed_tokens (au_state (fst s)) (sha256 X token) = Some (tc_expires_at c)
           \<or> past (tc_expires_at c) (snd s)))"

lemma read_token_claims:
  assumes "read_token X H au token b now = Inr c"
  shows "claims_of_token X H token = Some c \<and> now < tc_expires_at c"
  using assms
  by (auto simp: read_token_def claims_of_token_def rbind_Inr_iff split: prod.splits)

lemma past_now: "mono (w_clock w) \<Longrightarrow> e \<le> clock_now w \<Longrightarrow> past e (w\<lparr>w_ticks := Suc (w_ticks w)\<rparr>)"
proof -
  assume m: "mono (w_clock w)" and e: "e \<le> clock_now w"
  have "w_clock w (w_ticks w) div seconds 1 \<le> w_clock w k div seconds 1" if "Suc (w_ticks w) \<le> k" for k
    using that monoD [OF m, of "w_ticks w" k] by (simp add: zdiv_mono1 seconds_def)
  with e show ?thesis by (auto simp: past_def clock_now_def intro: order_trans)
qed

lemma past_later: "past e w \<Longrightarrow> past e (w\<lparr>w_ticks := Suc (w_ticks w)\<rparr>)"
  by (auto simp: past_def)

text \<open>A call that is no consumption leaves the spent tokens and only reads the clock.\<close>

definition keeps_spent :: "provider_authorization \<times> world \<Rightarrow> provider_authorization \<times> world \<Rightarrow> bool" where
  "keeps_spent s s' \<longleftrightarrow>
     ast_consumed_tokens (au_state (fst s')) = ast_consumed_tokens (au_state (fst s))
     \<and> w_clock (snd s') = w_clock (snd s) \<and> w_ticks (snd s) \<le> w_ticks (snd s')"

lemma keeps_spent_spent: "keeps_spent s s' \<Longrightarrow> spent X H token s \<Longrightarrow> spent X H token s'"
  by (auto simp: keeps_spent_def spent_def past_def)

lemma other_calls_keep_spent:
  assumes "presented c = {}"
  shows "keeps_spent s (snd (perform X H c s))"
proof -
  have "wp (perform X H c) (\<lambda>_. keeps_spent s) (\<lambda>_. keeps_spent s) s"
    using assms
    by (cases c)
       (auto simp: acquire_lease_def acquire_lease_at_def dispose_lease_def authorize_def
          issue_one_time_with_context_def issue_one_time_with_context_at_def Let_def wp_simps
          keeps_spent_def split: sum.splits)
  then show ?thesis by (rule wp_any)
qed

lemma wp_consume_cases:
  assumes "\<And>c. \<lbrakk>claims_of_token X H token = Some c; clock_now w < tc_expires_at c\<rbrakk> \<Longrightarrow>
      (let kept = retain_unexpired (clock_now w) (ast_consumed_tokens (au_state au));
           s' = (au\<lparr>au_state := (au_state au)\<lparr>ast_consumed_tokens := kept(sha256 X token \<mapsto> tc_expires_at c)\<rparr>\<rparr>,
                 w\<lparr>w_ticks := Suc (w_ticks w)\<rparr>)
       in if kept (sha256 X token) = None then Q () s' else E PA_TokenConsumed s')"
    and "\<And>e. E e (au, w\<lparr>w_ticks := Suc (w_ticks w)\<rparr>)"
  shows "wp (consume_one_time X H token b) Q E (au, w)"
  using assms(1) [unfolded Let_def]
  by (auto simp: consume_one_time_def consume_for_operation_def consume_for_operation_at_def Let_def
      wp_simps assms(2) split: sum.splits if_splits dest!: read_token_claims)

lemma consume_keeps_spent:
  assumes "mono (w_clock w)" "spent X H t (au, w)" "sha256 X token = sha256 X t \<Longrightarrow> token = t"
  shows "spent X H t (snd (consume_one_time X H token b (au, w)))"
proof -
  obtain c where c: "claims_of_token X H t = Some c"
    and alive: "ast_consumed_tokens (au_state au) (sha256 X t) = Some (tc_expires_at c)
       \<or> past (tc_expires_at c) w"
    using assms(2) by (auto simp: spent_def)
  let ?w = "w\<lparr>w_ticks := Suc (w_ticks w)\<rparr>"
  have gone: "past (tc_expires_at c) ?w" if "tc_expires_at c \<le> clock_now w \<or> past (tc_expires_at c) w"
    using that past_now [OF assms(1)] past_later by blast
  have err: "spent X H t (au, ?w)" using alive gone c by (auto simp: spent_def)
  have upd: "spent X H t (au\<lparr>au_state := (au_state au)\<lparr>ast_consumed_tokens :=
      (retain_unexpired (clock_now w) (ast_consumed_tokens (au_state au)))(sha256 X token \<mapsto> tc_expires_at c')\<rparr>\<rparr>, ?w)"
    if c': "claims_of_token X H token = Some c'" for c'
  proof (cases "sha256 X token = sha256 X t")
    case True
    then have "c' = c" using assms(3) c c' by simp
    with True c show ?thesis by (simp add: spent_def)
  next
    case False
    then show ?thesis
      using alive gone c by (cases "tc_expires_at c \<le> clock_now w") (auto simp: spent_def retain_unexpired_def)
  qed
  have "wp (consume_one_time X H token b) (\<lambda>_. spent X H t) (\<lambda>_. spent X H t) (au, w)"
    by (rule wp_consume_cases) (simp_all add: upd err Let_def)
  then show ?thesis by (rule wp_any)
qed

lemma consume_spends:
  assumes "consume_one_time X H token b s = (Inr u, s')"
  shows "spent X H token s'"
proof -
  obtain au w where s: "s = (au, w)" by (cases s)
  have "wp (consume_one_time X H token b) (\<lambda>_. spent X H token) (\<lambda>_ _. True) (au, w)"
    by (rule wp_consume_cases) (auto simp: spent_def Let_def)
  with assms s show ?thesis by (auto simp: wp_def)
qed

lemma spent_refused:
  assumes "spent X H token s"
  shows "\<exists>e s'. consume_one_time X H token b s = (Inl e, s')"
proof -
  obtain au w where s: "s = (au, w)" by (cases s)
  have "past e w \<Longrightarrow> \<not> clock_now w < e" for e by (auto simp: past_def clock_now_def)
  with assms have "wp (consume_one_time X H token b) (\<lambda>_ _. False) (\<lambda>_ _. True) (au, w)"
    by (intro wp_consume_cases) (auto simp: spent_def s Let_def retain_unexpired_def)
  with s show ?thesis by (auto simp: wp_def split: prod.splits sum.splits)
qed

lemma perform_keeps_clock: "w_clock (snd (snd (perform X H c s))) = w_clock (snd s)"
proof (cases "presented c = {}")
  case True
  then show ?thesis using other_calls_keep_spent [of c s X H] by (simp add: keeps_spent_def)
next
  case False
  then obtain token b where c: "c = Call_Consume token b" by (cases c) auto
  obtain au w where s: "s = (au, w)" by (cases s)
  have "wp (consume_one_time X H token b) (\<lambda>_ s'. w_clock (snd s') = w_clock w)
      (\<lambda>_ s'. w_clock (snd s') = w_clock w) (au, w)"
    by (rule wp_consume_cases) (auto simp: Let_def)
  then show ?thesis using c s by (auto elim: wp_any)
qed

lemma perform_keeps_spent:
  assumes "mono (w_clock (snd s))" "spent X H t s" "inj_on (sha256 X) (insert t (presented c))"
  shows "spent X H t (snd (perform X H c s))"
proof (cases "presented c = {}")
  case True
  show ?thesis by (rule keeps_spent_spent [OF other_calls_keep_spent [OF True] assms(2)])
next
  case False
  then obtain token b where c: "c = Call_Consume token b" by (cases c) auto
  obtain au w where s: "s = (au, w)" by (cases s)
  have "token = t" if "sha256 X token = sha256 X t" using inj_onD [OF assms(3) that] c by simp
  then show ?thesis using consume_keeps_spent [of w X H t au token b] assms(1,2) c s by simp
qed

lemma spent_never_again:
  assumes "mono (w_clock (snd s))" "spent X H t s"
    "inj_on (sha256 X) (insert t (\<Union> (presented ` set cs)))"
  shows "t \<notin> set (fst (run_calls X H cs s))"
  using assms
proof (induction cs arbitrary: s)
  case (Cons c cs)
  obtain r s1 where step: "perform X H c s = (r, s1)" by (cases "perform X H c s")
  have "spent X H t s1"
    using perform_keeps_spent [OF Cons.prems(1,2), of c] inj_on_subset [OF Cons.prems(3)] step by auto
  moreover have "mono (w_clock (snd s1))" using perform_keeps_clock [of X H c s] step Cons.prems(1) by simp
  ultimately have "t \<notin> set (fst (run_calls X H cs s1))"
    by (intro Cons.IH inj_on_subset [OF Cons.prems(3)]) auto
  moreover have "t \<notin> set (spent_by c r)"
  proof
    assume "t \<in> set (spent_by c r)"
    then obtain b where "c = Call_Consume t b" "r = Inr ()" by (cases "(c, r)" rule: spent_by.cases) auto
    with step spent_refused [OF Cons.prems(2), of b] show False by auto
  qed
  ultimately show ?case using step by (cases "run_calls X H cs s1") simp
qed simp

text \<open>
  C10: whatever sequence of calls a provider makes on an authority, every one-time token is accepted
  at most once, as long as the clock does not run backwards and the tokens presented have different
  digests. (A token is remembered only until it expires; that this is enough is the point.)
\<close>
theorem tokens_consumed_at_most_once:
  assumes "mono (w_clock (snd s))" "inj_on (sha256 X) (\<Union> (presented ` set calls))"
  shows "distinct (fst (run_calls X H calls s))"
  using assms
proof (induction calls arbitrary: s)
  case (Cons c cs)
  obtain r s1 where step: "perform X H c s = (r, s1)" by (cases "perform X H c s")
  have mono: "mono (w_clock (snd s1))" using perform_keeps_clock [of X H c s] step Cons.prems(1) by simp
  have IH: "distinct (fst (run_calls X H cs s1))"
    by (intro Cons.IH [OF mono] inj_on_subset [OF Cons.prems(2)]) auto
  have "t \<notin> set (fst (run_calls X H cs s1))" if t: "t \<in> set (spent_by c r)" for t
  proof -
    obtain b where c: "c = Call_Consume t b" "r = Inr ()"
      using t by (cases "(c, r)" rule: spent_by.cases) auto
    then have "spent X H t s1" using step consume_spends [of X H t b s "()"] by simp
    then show ?thesis using spent_never_again [OF mono] Cons.prems(2) c by simp
  qed
  moreover have "distinct (spent_by c r)" by (cases "(c, r)" rule: spent_by.cases) auto
  ultimately show ?case using IH step by (cases "run_calls X H cs s1") auto
qed simp

section \<open>A token opens exactly the operation it was issued for\<close>

text \<open>Unpadded base64url: decoding inverts encoding, and a dot is not in its alphabet.\<close>

definition token_alphabet :: "ext \<Rightarrow> bool" where
  "token_alphabet X \<longleftrightarrow>
     (\<forall>b. b64u_decode X (b64u_encode X b) = Some b \<and> CHR ''.'' \<notin> set (b64u_encode X b))"

text \<open>The canonical text of the claims parses back to their fields.\<close>

definition reads_back :: "ext \<Rightarrow> host_ext \<Rightarrow> token_claims \<Rightarrow> bool" where
  "reads_back X H c \<longleftrightarrow>
     (\<forall>payload. canonicalizer_to_vec X (claims_json c) = Inr payload
        \<longrightarrow> serde_struct_input H payload = map_option Inl (as_object (claims_json c)))"

lemma fold_btree_insert:
  "sorted_map m \<Longrightarrow> distinct (map fst kvs) \<Longrightarrow> fst ` set kvs \<inter> fst ` set m = {} \<Longrightarrow>
   (let n = fold (\<lambda>(k, v). btree_insert k v) kvs m in
      sorted_map n \<and> fst ` set n = fst ` set m \<union> fst ` set kvs
      \<and> map_of n = (\<lambda>k. case map_of kvs k of Some v \<Rightarrow> Some v | None \<Rightarrow> map_of m k))"
proof (induction kvs arbitrary: m)
  case (Cons kv kvs)
  obtain k v where kv: "kv = (k, v)" by (cases kv)
  have ins: "map_of (btree_insert k v m) = (map_of m)(k \<mapsto> v)"
    using btree_get_insert [of k v m] by (simp add: btree_get_def fun_eq_iff)
  have "map_of kvs k = None" using Cons.prems(2) kv by (simp add: map_of_eq_None_iff)
  moreover have "fst ` set kvs \<inter> fst ` set (btree_insert k v m) = {}"
    using Cons.prems(2,3) kv by (auto simp: fst_btree_insert)
  ultimately show ?case
    using Cons.IH [OF sorted_map_insert [OF Cons.prems(1)], of k v] Cons.prems(2) kv
    by (auto simp: Let_def fst_btree_insert ins fun_eq_iff split: option.splits)
qed (simp add: sorted_map_def)

lemma json_object_fields:
  assumes "distinct (map fst kvs)"
  obtains o' where "json_object kvs = JObject o'" "map_of o' = map_of kvs" "distinct (map fst o')"
    "fst ` set o' = fst ` set kvs"
proof -
  have "sorted_map n \<Longrightarrow> distinct (map fst n)" for n :: "(string \<times> json) list"
    unfolding sorted_map_def by (simp add: strict_sorted_iff)
  then show ?thesis
    using fold_btree_insert [of "[]" kvs] assms
    by (intro that [of "fold (\<lambda>(k, v). btree_insert k v) kvs []"])
       (auto simp: json_object_def sorted_map_def Let_def fun_eq_iff split: option.splits)
qed

lemma claims_field_names_of: "map fst (claims_fields c) = claims_field_names"
  by (simp add: claims_fields_def claims_field_names_def)

lemma distinct_claims_field_names: "distinct claims_field_names"
  by (simp add: claims_field_names_def)

lemma claims_of_fields: "tc_expires_at c < 2 ^ 63 \<Longrightarrow> claims_of (map_of (claims_fields c)) = Some c"
  by (simp add: claims_of_def claims_fields_def json_i64_def uint_word_of_int take_bit_eq_mod
      split: option.splits)

lemma claims_parse:
  assumes "reads_back X H c" "canonicalizer_to_vec X (claims_json c) = Inr payload"
    "tc_expires_at c < 2 ^ 63"
  shows "claims_from_slice H payload = Some c"
proof -
  obtain o' where o': "claims_json c = JObject o'" "map_of o' = map_of (claims_fields c)"
    "distinct (map fst o')" "fst ` set o' = set claims_field_names"
    using json_object_fields [of "claims_fields c"] claims_field_names_of [of c]
      distinct_claims_field_names
    by (metis claims_json_def list.set_map)
  then show ?thesis
    using assms claims_of_fields by (simp add: reads_back_def claims_from_slice_def)
qed

lemma split_on_no_sep: "c \<notin> set s \<Longrightarrow> split_on c s = [s]"
  by (induction s) auto

lemma split_on_sep: "c \<notin> set a \<Longrightarrow> split_on c (a @ c # b) = a # split_on c b"
  by (induction a) auto

lemma split_token_encode:
  assumes "token_alphabet X"
  shows "split_token (b64u_encode X p @ ''.'' @ b64u_encode X t) = Some (b64u_encode X p, b64u_encode X t)"
  using assms by (simp add: split_token_def token_alphabet_def split_on_sep split_on_no_sep)

lemma claims_match_iff:
  assumes "au_provider_instance_id au' = au_provider_instance_id au"
    and "sealed_recipient_public_key_digest H (ob_recipient_public_key b')
           = sealed_recipient_public_key_digest H (ob_recipient_public_key b)
         \<longrightarrow> ob_recipient_public_key b' = ob_recipient_public_key b"
  shows "claims_match H au' (new_claims H au lease parent b e) b' \<longleftrightarrow> b' = b"
  using assms
  by (cases b; cases b')
     (auto simp: claims_match_def new_claims_def recipient_public_key_digest_def)

lemma issued_token:
  assumes "issue_one_time_with_context_at X H lease b ttl now (au, w) = (Inr issued, s)"
  obtains parent payload tag where
    "ast_leases (au_state au) (pl_lease_id lease) = Some parent" "now < lst_expires_at parent"
    "1 \<le> ttl" "ttl \<le> MAX_OPERATION_TTL_SECONDS"
    "pl_provider_instance_id lease = au_provider_instance_id au"
    "ob_capability b \<in> lst_capabilities parent" "validate_binding b = Inr ()"
    "canonicalizer_to_vec X (claims_json (new_claims H au lease parent b
        (min (now + ttl) (lst_expires_at parent)))) = Inr payload"
    "hmac_sha256 H (au_hmac_key au) payload = Some tag"
    "io_token issued = b64u_encode X payload @ ''.'' @ b64u_encode X tag"
    "io_context issued = claims_context (new_claims H au lease parent b
        (min (now + ttl) (lst_expires_at parent)))"
    "s = (au, w)"
  using assms
  by (auto simp: issue_one_time_with_context_at_def Let_def bnd_Inr_iff authority_def lift_def
      sign_payload_def ret_def)

text \<open>
  C11: a token opens exactly the operation it was issued for. Presented to the same authority, with
  its lease still there and before it expires, and not seen before, it is accepted for the binding
  it was issued for, with the context it was issued in, and refused as invalid for every other
  binding: another capability, identity, operation, key, request, recipient or input.
\<close>
theorem token_opens_its_operation_only:
  assumes "issue_one_time_with_context_at X H lease b ttl now (au, w) = (Inr issued, s)"
    and "token_alphabet X" "ast_leases (au_state au) (pl_lease_id lease) = Some parent"
    and "reads_back X H (new_claims H au lease parent b (min (now + ttl) (lst_expires_at parent)))"
    and "length (io_token issued) \<le> MAX_TOKEN_BYTES" "now + ttl < 2 ^ 63"
    and "au_hmac_key au' = au_hmac_key au" "au_provider_instance_id au' = au_provider_instance_id au"
    and "ast_leases (au_state au') = ast_leases (au_state au)"
    and "ast_consumed_tokens (au_state au') (sha256 X (io_token issued)) = None"
    and "now' < iac_expires_at (io_context issued)"
    and "sealed_recipient_public_key_digest H (ob_recipient_public_key b')
           = sealed_recipient_public_key_digest H (ob_recipient_public_key b)
         \<longrightarrow> ob_recipient_public_key b' = ob_recipient_public_key b"
  shows "fst (consume_for_operation_at X H (io_token issued) b' now' (au', w'))
      = (if b' = b then Inr (io_context issued) else Inl PA_TokenInvalid)"
proof -
  let ?c = "new_claims H au lease parent b (min (now + ttl) (lst_expires_at parent))"
  obtain parent' payload tag where p: "ast_leases (au_state au) (pl_lease_id lease) = Some parent'"
    and "now < lst_expires_at parent'" "ob_capability b \<in> lst_capabilities parent'"
    and v: "validate_binding b = Inr ()"
    and "canonicalizer_to_vec X (claims_json (new_claims H au lease parent' b
        (min (now + ttl) (lst_expires_at parent')))) = Inr payload"
    and t: "hmac_sha256 H (au_hmac_key au) payload = Some tag"
      "io_token issued = b64u_encode X payload @ ''.'' @ b64u_encode X tag"
    and "io_context issued = claims_context (new_claims H au lease parent' b
        (min (now + ttl) (lst_expires_at parent')))"
    by (rule issued_token [OF assms(1)])
  moreover from p have "parent' = parent" using assms(3) by simp
  ultimately have i: "ob_capability b \<in> lst_capabilities parent"
    "canonicalizer_to_vec X (claims_json ?c) = Inr payload" "io_context issued = claims_context ?c"
    by simp_all
  have exp: "tc_expires_at ?c = min (now + ttl) (lst_expires_at parent)"
    and fields: "tc_parent_lease_id ?c = pl_lease_id lease" "tc_consumer ?c = lst_consumer parent"
      "tc_store_id ?c = lst_store_id parent" "tc_capability ?c = ob_capability b"
    by (simp_all add: new_claims_def)
  have "claims_from_slice H payload = Some ?c"
    using claims_parse [OF assms(4) i(2)] assms(6) exp by simp
  moreover have "now' < tc_expires_at ?c" using assms(11) i(3) by (simp add: claims_context_def)
  ultimately have read: "read_token X H au' (io_token issued) b' now' =
      rbind (validate_binding b') (\<lambda>_. if b' = b then Inr ?c else Inl PA_TokenInvalid)"
    using assms(5,7) t claims_match_iff [OF assms(8,12)] split_token_encode [OF assms(2), of payload tag]
      assms(2) [unfolded token_alphabet_def]
    by (simp add: read_token_def verify_payload_def)
  have "validate_binding b' = Inr () \<or> validate_binding b' = Inl PA_TokenInvalid"
    by (auto simp: validate_binding_def validate_nonempty_def ensure_def)
  then show ?thesis
    using read assms(3,9,10,11) i(1,3) v exp fields
    by (auto simp: consume_for_operation_at_def bnd_def authority_def lift_def raise_def Let_def ret_def
        set_state_def retain_unexpired_def claims_context_def)
qed

text \<open>
  C39: lifetimes are bounded. A token issued under a lease expires at the end of its own lifetime,
  which is at most five minutes, or of the lease, whichever comes first; the lease lasts at least a
  second and at most a day. The token is issued for a capability of the lease, in the name of the
  consumer and the store the lease was acquired for.
\<close>
theorem token_lifetime_bounded:
  assumes "acquire_lease_at X consumer capabilities store lease_ttl start s0 = (Inr lease, (au, w))"
    and "issue_one_time_with_context_at X H lease b ttl now (au, w) = (Inr issued, s)"
  shows "iac_expires_at (io_context issued) = min (now + ttl) (start + lease_ttl)
    \<and> now < iac_expires_at (io_context issued) \<and> 1 \<le> ttl \<and> ttl \<le> 300
    \<and> 1 \<le> lease_ttl \<and> lease_ttl \<le> 86400 \<and> ob_capability b \<in> set capabilities
    \<and> iac_consumer (io_context issued) = consumer \<and> iac_store_id (io_context issued) = store"
proof -
  have lease: "ast_leases (au_state au) (pl_lease_id lease) = Some \<lparr>lst_consumer = consumer,
      lst_capabilities = set capabilities, lst_store_id = store, lst_expires_at = start + lease_ttl\<rparr>"
    "1 \<le> lease_ttl" "lease_ttl \<le> 86400"
    using assms(1)
    by (auto simp: acquire_lease_at_def bnd_Inr_iff lift_def authority_def set_state_def ret_def
        MAX_LEASE_TTL_SECONDS_def)
  show ?thesis
    by (rule issued_token [OF assms(2)])
       (use lease in \<open>auto simp: claims_context_def new_claims_def MAX_OPERATION_TTL_SECONDS_def\<close>)
qed

section \<open>A concrete authority\<close>

lemma token_ext_simps:
  "sha256 token_ext = (\<lambda>b. b)" "b64u_encode token_ext = escape"
  "b64u_decode token_ext = (\<lambda>s. Some (unescape s))" "canonicalizer_to_vec token_ext = (\<lambda>v. Inr (sample_print v))"
  by (simp_all add: token_ext_def sample_ext_def)

lemma sample_claims_object:
  "claims_json (sample_claims request e) = JObject
     [(''capability'', JString ''c''), (''consumer'', JString ''app''), (''expires_at'', json_i64 e),
      (''identity_id'', JString ''i''), (''kid'', JString ''k''), (''operation'', JString ''op''),
      (''operation_input_digest'', JString ''d''), (''parent_lease_id'', JString ''l''),
      (''provider_instance_id'', JString ''p''), (''recipient_public_key_digest'', JString ''r''),
      (''request_id'', JString request), (''store_id'', JString ''s''),
      (''version'', JString TOKEN_VERSION)]"
  by (simp add: claims_json_def claims_fields_def sample_claims_def json_object_def)

lemma sample_reads_back:
  "reads_back token_ext sample_host (sample_claims ''1'' 10)"
  "reads_back token_ext sample_host (sample_claims ''2'' 300)"
  by (simp_all add: reads_back_def token_ext_simps sample_host_def sample_parse_def
      sample_claims_object json_i64_def)

lemma token_ext_alphabet: "token_alphabet token_ext"
  by (simp add: token_alphabet_def token_ext_simps unescape_escape escape_no_dot)

lemma sample_print_claims:
  "sample_print (claims_json (sample_claims r e)) = sample_print (claims_json (sample_claims r 0))"
  by (simp add: sample_claims_object json_i64_def)

lemma sample_new_claims:
  "new_claims sample_host sample_authority sample_lease sample_lease_state (sample_binding r) e
     = sample_claims r e"
  by (simp add: new_claims_def sample_claims_def sample_authority_def sample_lease_def sample_host_def
      sample_lease_state_def sample_binding_def recipient_public_key_digest_def)

lemma sample_binding_valid: "r \<in> {''1'', ''2''} \<Longrightarrow> validate_binding (sample_binding r) = Inr ()"
  by (elim insertE emptyE; simp; code_simp)

lemma sample_issue:
  assumes "r \<in> {''1'', ''2''}" "1 \<le> ttl" "ttl \<le> 300" "now + ttl \<le> 1000"
  shows "issue_one_time_with_context_at token_ext sample_host sample_lease (sample_binding r) ttl now
      (sample_authority, w) =
    (Inr \<lparr>io_token = sample_token r, io_context = claims_context (sample_claims r (now + ttl))\<rparr>,
     (sample_authority, w))"
proof -
  have a: "ast_leases (au_state sample_authority) (pl_lease_id sample_lease) = Some sample_lease_state"
    "pl_provider_instance_id sample_lease = au_provider_instance_id sample_authority"
    "au_hmac_key sample_authority = ''key''" "hmac_sha256 sample_host = (\<lambda>key payload. Some key)"
    "lst_expires_at sample_lease_state = 1000" "ob_capability (sample_binding r) \<in> lst_capabilities sample_lease_state"
    by (simp_all add: sample_authority_def sample_lease_def sample_host_def sample_lease_state_def sample_binding_def)
  show ?thesis
    using assms
    by (simp add: issue_one_time_with_context_at_def bnd_def authority_def lift_def ret_def a
        sample_binding_valid MAX_OPERATION_TTL_SECONDS_def sample_new_claims token_ext_simps
        sign_payload_def sample_token_def sample_print_claims [of r "now + ttl"])
qed

lemma sample_consume_reads:
  assumes "(r, e) \<in> {(''1'', 10), (''2'', 300)}" "now < e"
  shows "read_token token_ext sample_host (sample_authority\<lparr>au_state := st\<rparr>) (sample_token r)
      (sample_binding r) now = Inr (sample_claims r e)"
proof -
  have t: "split_token (sample_token r) = Some (escape (sample_print (claims_json (sample_claims r e))), ''key'')"
    using split_token_encode [OF token_ext_alphabet, of "sample_print (claims_json (sample_claims r e))" "''key''"]
    by (simp add: token_ext_simps sample_token_def sample_print_claims [of r e])
  have "claims_from_slice sample_host (sample_print (claims_json (sample_claims r e))) = Some (sample_claims r e)"
    using assms(1) sample_reads_back claims_parse [where X = token_ext and H = sample_host and c = "sample_claims r e"]
    by (auto simp: token_ext_simps) (auto simp: sample_claims_def)
  moreover have "length (sample_token r) \<le> MAX_TOKEN_BYTES"
    using assms(1)
    by (auto simp: sample_token_def sample_claims_object TOKEN_VERSION_def json_i64_def MAX_TOKEN_BYTES_def)
  moreover have "claims_match sample_host (sample_authority\<lparr>au_state := st\<rparr>) (sample_claims r e) (sample_binding r)"
    by (simp add: claims_match_def sample_claims_def sample_authority_def sample_host_def sample_binding_def
        recipient_public_key_digest_def)
  moreover have "verify_payload sample_host (sample_authority\<lparr>au_state := st\<rparr>) payload ''key'' = Inr ()" for payload
    by (simp add: verify_payload_def sample_host_def sample_authority_def)
  moreover have "unescape ''key'' = ''key''" by simp
  ultimately show ?thesis
    using assms sample_binding_valid [of r]
    by (auto simp: read_token_def t token_ext_simps unescape_escape sample_claims_def)
qed

lemma sample_consume:
  assumes "(r, e) \<in> {(''1'', 10), (''2'', 300)}" "now < e"
  shows "consume_for_operation_at token_ext sample_host (sample_token r) (sample_binding r) now
      (sample_authority\<lparr>au_state := (au_state sample_authority)\<lparr>ast_consumed_tokens := m\<rparr>\<rparr>, w) =
    (if retain_unexpired now m (sample_token r) = None then Inr (claims_context (sample_claims r e))
     else Inl PA_TokenConsumed,
     (sample_authority\<lparr>au_state := (au_state sample_authority)\<lparr>ast_consumed_tokens :=
        (retain_unexpired now m)(sample_token r \<mapsto> e)\<rparr>\<rparr>, w))"
proof -
  have "ast_leases (au_state sample_authority) = [''l'' \<mapsto> sample_lease_state]"
    by (simp add: sample_authority_def)
  moreover have "now < 1000" using assms by auto
  ultimately show ?thesis
    by (auto simp: consume_for_operation_at_def bnd_def authority_def lift_def ret_def set_state_def
        sample_consume_reads [OF assms] token_ext_simps sample_claims_def sample_lease_state_def raise_def
        Let_def)
qed

lemma sample_authority_fresh:
  "sample_authority = sample_authority\<lparr>au_state := (au_state sample_authority)\<lparr>ast_consumed_tokens := Map.empty\<rparr>\<rparr>"
  by (simp add: sample_authority_def)

lemma sample_perform_consume:
  assumes "(r, e) \<in> {(''1'', 10), (''2'', 300)}" "clock_now w < e"
  shows "perform token_ext sample_host (Call_Consume (sample_token r) (sample_binding r))
      (sample_authority\<lparr>au_state := (au_state sample_authority)\<lparr>ast_consumed_tokens := m\<rparr>\<rparr>, w) =
    (if retain_unexpired (clock_now w) m (sample_token r) = None then Inr () else Inl PA_TokenConsumed,
     (sample_authority\<lparr>au_state := (au_state sample_authority)\<lparr>ast_consumed_tokens :=
        (retain_unexpired (clock_now w) m)(sample_token r \<mapsto> e)\<rparr>\<rparr>, w\<lparr>w_ticks := Suc (w_ticks w)\<rparr>))"
proof -
  have "outside unix_now (au, w) = (Inr (clock_now w), (au, w\<lparr>w_ticks := Suc (w_ticks w)\<rparr>))" for au
    by (simp add: outside_def unix_now_def bnd_def ret_def utc_now_def clock_now_def)
  then show ?thesis
    by (simp add: consume_one_time_def consume_for_operation_def bnd_def ret_def
        sample_consume [OF assms])
qed

lemma ticking_now: "clock_now ((ticking ts)\<lparr>w_ticks := k\<rparr>) = (if k < length ts then ts ! k else last ts)"
  by (simp add: clock_now_def ticking_def seconds_def)

lemma ticking_ticks: "ticking ts = (ticking ts)\<lparr>w_ticks := 0\<rparr>"
  by (simp add: ticking_def sample_world_def)

theorem tokens_consumed_at_most_once_witness:
  "let calls = [Call_Consume (sample_token ''1'') (sample_binding ''1''),
                Call_Consume (sample_token ''1'') (sample_binding ''1'')]
   in fst (run_calls token_ext sample_host calls (sample_authority, ticking [5])) = [sample_token ''1'']
      \<and> mono (w_clock (ticking [5])) \<and> inj_on (sha256 token_ext) (\<Union> (presented ` set calls))
      \<and> distinct (fst (run_calls token_ext sample_host calls (sample_authority, ticking [5])))"
proof -
  let ?s = "(sample_authority, ticking [5])"
  let ?calls = "[Call_Consume (sample_token ''1'') (sample_binding ''1''),
                Call_Consume (sample_token ''1'') (sample_binding ''1'')]"
  have "mono (w_clock (snd ?s))" by (simp add: ticking_def mono_def)
  moreover have "inj_on (sha256 token_ext) (\<Union> (presented ` set ?calls))" by simp
  moreover from calculation have "distinct (fst (run_calls token_ext sample_host ?calls ?s))"
    by (rule tokens_consumed_at_most_once)
  moreover have "fst (run_calls token_ext sample_host ?calls ?s) = [sample_token ''1'']"
    by (subst sample_authority_fresh, subst ticking_ticks)
       (simp add: sample_perform_consume [where e = 10] ticking_now retain_unexpired_def
         del: perform.simps)
  ultimately show ?thesis by (simp add: Let_def)
qed

text \<open>
  The consumed tokens are forgotten by wall clock time: once another token has been consumed after
  the expiry of the first, setting the clock back lets the first one be consumed again.
\<close>
theorem clock_step_back_reuses_token:
  "fst (run_calls token_ext sample_host
     [Call_Consume (sample_token ''1'') (sample_binding ''1''),
      Call_Consume (sample_token ''2'') (sample_binding ''2''),
      Call_Consume (sample_token ''1'') (sample_binding ''1'')]
     (sample_authority, ticking [5, 20, 5])) = [sample_token ''1'', sample_token ''2'', sample_token ''1'']"
proof -
  have "sample_token ''1'' \<noteq> sample_token ''2''"
    by (simp add: sample_token_def sample_claims_object json_i64_def)
  then show ?thesis
    by (subst sample_authority_fresh, subst ticking_ticks)
       (simp add: sample_perform_consume [where e = 10] sample_perform_consume [where e = 300]
         ticking_now retain_unexpired_def del: perform.simps)
qed

theorem token_opens_its_operation_only_witness:
  "let issued = \<lparr>io_token = sample_token ''1'', io_context = claims_context (sample_claims ''1'' 10)\<rparr>
   in issue_one_time_with_context_at token_ext sample_host sample_lease (sample_binding ''1'') 10 0
        (sample_authority, sample_world []) = (Inr issued, (sample_authority, sample_world []))
      \<and> fst (consume_for_operation_at token_ext sample_host (io_token issued) (sample_binding ''1'') 5
             (sample_authority, sample_world [])) = Inr (io_context issued)
      \<and> fst (consume_for_operation_at token_ext sample_host (io_token issued) (sample_binding ''2'') 5
             (sample_authority, sample_world [])) = Inl PA_TokenInvalid"
proof -
  let ?w = "sample_world []"
  have lease: "ast_leases (au_state sample_authority) (pl_lease_id sample_lease) = Some sample_lease_state"
    "lst_expires_at sample_lease_state = 1000"
    by (simp_all add: sample_authority_def sample_lease_def sample_lease_state_def)
  have iss: "issue_one_time_with_context_at token_ext sample_host sample_lease (sample_binding ''1'') 10 0
      (sample_authority, ?w) = (Inr \<lparr>io_token = sample_token ''1'',
        io_context = claims_context (sample_claims ''1'' 10)\<rparr>, (sample_authority, ?w))"
    using sample_issue [of "''1''" 10 0 ?w] by simp
  have "fst (consume_for_operation_at token_ext sample_host (sample_token ''1'') b' 5 (sample_authority, ?w))
      = (if b' = sample_binding ''1'' then Inr (claims_context (sample_claims ''1'' 10)) else Inl PA_TokenInvalid)"
    if "ob_recipient_public_key b' = ''r''" for b'
  proof -
    have len: "length (sample_token ''1'') \<le> MAX_TOKEN_BYTES"
      by (simp add: sample_token_def sample_claims_object TOKEN_VERSION_def json_i64_def MAX_TOKEN_BYTES_def)
    have f: "ast_consumed_tokens (au_state sample_authority) = Map.empty"
      "ob_recipient_public_key (sample_binding ''1'') = ''r''"
      "iac_expires_at (claims_context (sample_claims ''1'' 10)) = 10"
      by (simp_all add: sample_authority_def claims_context_def sample_claims_def sample_binding_def)
    show ?thesis
      using token_opens_its_operation_only [OF iss token_ext_alphabet lease(1), where b' = b' and now' = 5
          and au' = sample_authority and w' = ?w] len that
      by (simp add: lease sample_new_claims sample_reads_back f)
  qed
  from this [of "sample_binding ''1''"] this [of "sample_binding ''2''"] iss show ?thesis
    by (simp add: Let_def sample_binding_def)
qed

theorem token_lifetime_bounded_witness:
  "\<exists>lease au w issued s.
     acquire_lease_at token_ext ''app'' [''c''] ''s'' 1000 0 (sample_authority, sample_world []) = (Inr lease, (au, w))
   \<and> issue_one_time_with_context_at token_ext sample_host lease (sample_binding ''1'') 10 0 (au, w) = (Inr issued, s)
   \<and> iac_expires_at (io_context issued) = 10"
proof -
  let ?s = "(sample_authority, sample_world [])"
  obtain lease au w where a: "acquire_lease_at token_ext ''app'' [''c''] ''s'' 1000 0 ?s = (Inr lease, (au, w))"
    and l: "au_hmac_key au = ''key''" "pl_provider_instance_id lease = au_provider_instance_id au"
      "ast_leases (au_state au) (pl_lease_id lease) = Some sample_lease_state"
  proof -
    have "\<not> is_blank ''app''" "\<not> is_blank ''c''" "\<not> is_blank ''s''" by code_simp+
    then show ?thesis
      by (intro that [of "\<lparr>pl_provider_instance_id = ''p'', pl_lease_id = escape (replicate 16 (char_of (Suc 0)))\<rparr>"
            "sample_authority\<lparr>au_state := (au_state sample_authority)\<lparr>ast_leases :=
              (ast_leases (au_state sample_authority))(escape (replicate 16 (char_of (Suc 0))) \<mapsto> sample_lease_state)\<rparr>\<rparr>"
            "(sample_world [])\<lparr>w_draws := 2\<rparr>"])
         (simp_all add: acquire_lease_at_def bnd_def lift_def validate_nonempty_def ret_def authority_def
            set_state_def outside_def random_id_def fill_bytes_def MAX_LEASE_TTL_SECONDS_def
            token_ext_simps sample_world_def sample_random_def sample_authority_def sample_lease_state_def)
  qed
  have "\<exists>issued s. issue_one_time_with_context_at token_ext sample_host lease (sample_binding ''1'') 10 0 (au, w)
      = (Inr issued, s)"
    using l sample_binding_valid [of "''1''"]
    by (simp add: issue_one_time_with_context_at_def bnd_def authority_def lift_def ret_def sign_payload_def
        MAX_OPERATION_TTL_SECONDS_def token_ext_simps sample_lease_state_def sample_binding_def
        sample_host_def Let_def)
  then obtain issued s where i: "issue_one_time_with_context_at token_ext sample_host lease
      (sample_binding ''1'') 10 0 (au, w) = (Inr issued, s)" by blast
  show ?thesis using token_lifetime_bounded [OF a i] a i by auto
qed

end
