(* ===== verification/Provider_Properties.thy ===== *)
theory Provider_Properties
  imports Node_Provider Authorization_Properties
begin

text \<open>
  Complete mediation of the provider: every operation that a lease, or a session opened through a
  lease, offers to the host needs a live lease that grants the capability of the operation, and the
  errors of the layers below reach JavaScript with their code and text.
\<close>

section \<open>What a lease grants\<close>

definition grants :: "'e guarded \<Rightarrow> world \<Rightarrow> string \<Rightarrow> bool" where
  "grants g w capability \<longleftrightarrow>
     (case gd_lease g of
        None \<Rightarrow> False
      | Some lease \<Rightarrow>
          pl_provider_instance_id lease = au_provider_instance_id (gd_authority g)
          \<and> (case ast_leases (au_state (gd_authority g)) (pl_lease_id lease) of
               None \<Rightarrow> False
             | Some parent \<Rightarrow> clock_now w < lst_expires_at parent \<and> capability \<in> lst_capabilities parent))"

text \<open>
  A refused operation fails and leaves the disk and the state it runs on, for an operation of a lease
  the authority, the lease and the engine.
\<close>

definition refuses :: "('s \<times> world, 'err, 'a) Prelude.io \<Rightarrow> 's \<Rightarrow> world \<Rightarrow> bool" where
  "refuses m g w \<longleftrightarrow> (\<exists>e w'. m (g, w) = (Inl e, (g, w')) \<and> w_disk w' = w_disk w)"

named_theorems refusals \<open>rules for refused operations\<close>

lemma refuses_bnd [refusals]: "refuses m g w \<Longrightarrow> refuses (bnd m f) g w"
  by (auto simp: refuses_def bnd_def)

lemma refuses_lift [refusals]:
  "(\<And>x. r = Inr x \<Longrightarrow> refuses (f x) g w) \<Longrightarrow> refuses (bnd (lift r) f) g w"
  by (cases r) (auto simp: refuses_def bnd_def lift_def raise_def)

lemma refuses_authorize:
  assumes "\<not> grants g w capability"
  shows "refuses (authorize_provider_lease capability) g w"
proof (cases "gd_lease g")
  case None
  then show ?thesis
    by (simp add: refuses_def authorize_provider_lease_def bnd_def current_lease_def lift_def)
next
  case (Some lease)
  let ?auth = "gd_authority g"
  have "wp (authorize lease capability) (\<lambda>_ _. False)
      (\<lambda>_ s. fst s = ?auth \<and> w_disk (snd s) = w_disk w) (?auth, w)"
    using assms Some
    by (auto simp: authorize_def wp_simps grants_def split: option.splits sum.splits)
  then obtain e w' where "authorize lease capability (?auth, w) = (Inl e, (?auth, w'))" "w_disk w' = w_disk w"
    by (auto simp: wp_def split: prod.splits sum.splits)
  then show ?thesis
    using Some
    by (simp add: refuses_def authorize_provider_lease_def bnd_def current_lease_def lift_def
        with_authority_def)
qed

lemma refuses_authorized [refusals]:
  "\<not> grants g w capability \<Longrightarrow> refuses (with_authorized capability m) g w"
  unfolding with_authorized_def by (intro refuses_bnd refuses_authorize)

lemma refuses_token:
  assumes "gd_lease g = Some lease" "\<not> grants g w (ob_capability b)"
  shows "refuses (issue_one_time_with_context X H lease b ttl) (gd_authority g) w"
proof -
  have "wp (issue_one_time_with_context X H lease b ttl) (\<lambda>_ _. False)
      (\<lambda>_ s. fst s = gd_authority g \<and> w_disk (snd s) = w_disk w) (gd_authority g, w)"
    using assms
    by (auto simp: issue_one_time_with_context_def issue_one_time_with_context_at_def
        wp_simps grants_def clock_now_def Let_def split: option.splits sum.splits)
  then show ?thesis
    by (auto simp: refuses_def wp_def split: prod.splits sum.splits)
qed

lemma refuses_lease [refusals]:
  assumes "\<And>lease. gd_lease g = Some lease \<Longrightarrow> refuses (f lease) g w"
  shows "refuses (bnd current_lease f) g w"
  using assms
  by (cases "gd_lease g") (auto simp: refuses_def bnd_def current_lease_def lift_def raise_def)

lemma refuses_with_authority:
  "refuses m (gd_authority g) w \<Longrightarrow> refuses (with_authority m) g w"
  by (auto simp: refuses_def with_authority_def)

lemma refuses_issue:
  assumes "\<not> grants g w (ob_capability b)"
  shows "refuses (issue_provider_one_time X H b) g w"
  unfolding issue_provider_one_time_def issue_one_time_def
  using assms by (intro refuses_lease refuses_with_authority refuses_bnd refuses_token)

text \<open>Sealed operations: random bytes are drawn before the token is asked for.\<close>

lemma grants_draws [simp]: "grants g (w\<lparr>w_draws := n\<rparr>) = grants g w"
proof -
  have "clock_now (w\<lparr>w_draws := n\<rparr>) = clock_now w" by (simp add: clock_now_def)
  then show ?thesis by (auto simp: grants_def fun_eq_iff split: option.splits)
qed

lemma refuses_draw:
  assumes "refuses (f (w_random w (w_draws w) n)) s (w\<lparr>w_draws := Suc (w_draws w)\<rparr>)"
  shows "refuses (bnd (draw n) f) s w"
  using assms by (auto simp: refuses_def bnd_def draw_def fill_bytes_def)

lemma refuses_recipient:
  assumes "refuses (f (sealed_recipient_generate H (w_random w (w_draws w) 32))) s (w\<lparr>w_draws := Suc (w_draws w)\<rparr>)"
  shows "refuses (bnd (generate_recipient H) f) s w"
  using assms by (auto simp: refuses_def bnd_def generate_recipient_def draw_def fill_bytes_def ret_def)

lemma refuses_sealed_engine:
  "refuses (f e) (au, e) w \<Longrightarrow> refuses (bnd sealed_engine f) (au, e) w"
  by (simp add: refuses_def bnd_def sealed_engine_def)

lemma refuses_authorized_token:
  assumes "gd_lease g = Some lease" "\<not> grants g w (ob_capability b)"
  shows "refuses (bnd (authorized (issue_one_time_with_context X H lease b ttl)) f) (gd_authority g, e) w"
proof -
  from refuses_token [OF assms, of X H ttl]
  have "refuses (authorized (issue_one_time_with_context X H lease b ttl)) (gd_authority g, e) w"
    by (auto simp: refuses_def authorized_def)
  then show ?thesis by (rule refuses_bnd)
qed

lemma refuses_with_sealed:
  assumes "refuses m (gd_authority g, get (gd_engine g)) w" "put (get (gd_engine g)) (gd_engine g) = gd_engine g"
  shows "refuses (with_sealed m get put) g w"
  using assms by (auto simp: refuses_def with_sealed_def)

section \<open>The operations of a lease\<close>

text \<open>
  Every operation of a lease, apart from disposing of it, with the capability it needs. For the
  sealed operations it is the capability of the one-time binding, which the sealed hand-off builds
  from the request; for the sealed imports also from the recipient key and, for a whole identity,
  from the identifier that are drawn first.
\<close>

definition done_with :: "('e, 'a) guarded_act \<Rightarrow> ('e, unit) guarded_act" where
  "done_with m = bnd m (\<lambda>_. ret ())"

datatype lease_call =
    Lease_Info
  | Lease_Recover
  | Lease_List
  | Lease_Public_Identity identity_ref
  | Lease_Host_Status identity_ref
  | Lease_Recover_Identity identity_ref
  | Lease_Verify identity_ref js_verify_request
  | Lease_Create json
  | Lease_Begin_Device_Enrollment json
  | Lease_Begin_Request_Enrollment json
  | Lease_Resume_Enrollment identity_ref
  | Lease_Delete identity_ref
  | Lease_Sign identity_ref js_sign_request
  | Lease_Sign_Origin_Proof identity_ref js_origin_proof_request
  | Lease_Sign_Object_Proof identity_ref json
  | Lease_Sign_Document_Proof identity_ref json
  | Lease_Prepare_Http_Signature js_exact_http_signing_request
  | Lease_Prepare_Legacy_Did_Wba identity_ref "string option" string string
  | Lease_Prepare_Document_Change identity_ref json
  | Lease_Resume_Document_Change identity_ref
  | Lease_Prepare_Transition json
  | Lease_Resume_Transition string
  | Lease_Adopt identity_ref json
  | Lease_Adopt_Sibling identity_ref json
  | Lease_Import_Wrapped_Root identity_ref json
  | Lease_Confirm_Root_Promotion identity_ref json
  | Lease_Sign_Pending_Root identity_ref json
  | Lease_Ecdh_Sealed js_sealed_key_agreement_request
  | Lease_Export_Root_Sealed js_sealed_root_export_request
  | Lease_Prepare_Root_Import js_sealed_root_import_preparation
  | Lease_Prepare_Material_Import js_sealed_identity_import_preparation

fun lease_act :: "ext \<Rightarrow> host_ext \<Rightarrow> node_ext \<Rightarrow> lease_call \<Rightarrow> (did_store, unit) guarded_act" where
  "lease_act X H N (Lease_Info) = done_with (lease_info)"
| "lease_act X H N (Lease_Recover) = done_with (lease_recover X)"
| "lease_act X H N (Lease_List) = done_with (lease_list)"
| "lease_act X H N (Lease_Public_Identity r) = done_with (lease_public_identity X r)"
| "lease_act X H N (Lease_Host_Status r) = done_with (lease_host_status X r)"
| "lease_act X H N (Lease_Recover_Identity r) = done_with (lease_recover_identity X r)"
| "lease_act X H N (Lease_Verify r v) = done_with (lease_verify X r v)"
| "lease_act X H N (Lease_Create v) = done_with (lease_create X N v)"
| "lease_act X H N (Lease_Begin_Device_Enrollment v) = done_with (lease_begin_device_enrollment X N v)"
| "lease_act X H N (Lease_Begin_Request_Enrollment v) = done_with (lease_begin_request_signing_enrollment X N v)"
| "lease_act X H N (Lease_Resume_Enrollment r) = done_with (lease_resume_enrollment X r)"
| "lease_act X H N (Lease_Delete r) = done_with (lease_delete X r)"
| "lease_act X H N (Lease_Sign r v) = done_with (lease_sign X r v)"
| "lease_act X H N (Lease_Sign_Origin_Proof r v) = done_with (lease_sign_origin_proof X r v)"
| "lease_act X H N (Lease_Sign_Object_Proof r v) = done_with (lease_sign_object_proof X N r v)"
| "lease_act X H N (Lease_Sign_Document_Proof r v) = done_with (lease_sign_document_proof X N r v)"
| "lease_act X H N (Lease_Prepare_Http_Signature v) = done_with (lease_prepare_http_signature X v)"
| "lease_act X H N (Lease_Prepare_Legacy_Did_Wba r kid domain version) = done_with (lease_prepare_legacy_did_wba X r kid domain version)"
| "lease_act X H N (Lease_Prepare_Document_Change r v) = done_with (lease_prepare_document_change X N r v)"
| "lease_act X H N (Lease_Resume_Document_Change r) = done_with (lease_resume_document_change X r)"
| "lease_act X H N (Lease_Prepare_Transition v) = done_with (lease_prepare_identity_transition X H N v)"
| "lease_act X H N (Lease_Resume_Transition did) = done_with (lease_resume_identity_transition X did)"
| "lease_act X H N (Lease_Adopt r v) = done_with (lease_adopt_verified_document X N r v)"
| "lease_act X H N (Lease_Adopt_Sibling r v) = done_with (lease_adopt_verified_sibling_document X N r v)"
| "lease_act X H N (Lease_Import_Wrapped_Root r v) = done_with (lease_import_wrapped_root X N r v)"
| "lease_act X H N (Lease_Confirm_Root_Promotion r v) = done_with (lease_confirm_root_promotion X N r v)"
| "lease_act X H N (Lease_Sign_Pending_Root r v) = done_with (lease_sign_pending_root_object_proof X N r v)"
| "lease_act X H N (Lease_Ecdh_Sealed q) = done_with (lease_ecdh_sealed X H q)"
| "lease_act X H N (Lease_Export_Root_Sealed q) = done_with (lease_export_root_key_sealed X H q)"
| "lease_act X H N (Lease_Prepare_Root_Import q) = done_with (lease_prepare_legacy_root_import X H N q)"
| "lease_act X H N (Lease_Prepare_Material_Import q) = done_with (lease_prepare_identity_material_import X H N q)"

definition capability_of :: "'e + one_time_operation_binding \<Rightarrow> string option" where
  "capability_of r = (case r of Inr b \<Rightarrow> Some (ob_capability b) | Inl _ \<Rightarrow> None)"

definition root_import_needs ::
  "host_ext \<Rightarrow> node_ext \<Rightarrow> world \<Rightarrow> js_sealed_root_import_preparation \<Rightarrow> string option" where
  "root_import_needs H N w q =
     (case (decoded (decode_root_evidence N) (ji_evidence q), root_encoding_named (ji_encoding q)) of
        (Inr e, Inr encoding) \<Rightarrow> capability_of (sealed_root_import_binding H
          \<lparr>rip_identity = ji_identity q, rip_evidence = e, rip_encoding = encoding,
           rip_request_id = ji_request_id q\<rparr>
          (sealed_recipient_public H (sealed_recipient_generate H (w_random w (w_draws w) 32))))
      | _ \<Rightarrow> None)"

definition material_import_needs ::
  "ext \<Rightarrow> host_ext \<Rightarrow> node_ext \<Rightarrow> did_store \<Rightarrow> world \<Rightarrow> js_sealed_identity_import_preparation \<Rightarrow> string option" where
  "material_import_needs X H N store w q =
     (case (decoded (decode_remote N) (jm_remote q), decoded (decode_material_keys N) (jm_keys q)) of
        (Inr remote, Inr keys) \<Rightarrow>
          (case get_str (vrd_document remote) ''id'' of
             Some did \<Rightarrow> capability_of (sealed_identity_material_import_binding X H
               \<lparr>ref_store_id = store_id store, ref_identity_id = b64u_encode X (w_random w (w_draws w) 16),
                ref_did = did\<rparr>
               \<lparr>mip_remote = remote, mip_did_wba = jm_did_wba q, mip_keys = keys,
                mip_request_id = jm_request_id q\<rparr>
               (sealed_recipient_public H
                 (sealed_recipient_generate H (w_random w (Suc (w_draws w)) 32))))
           | None \<Rightarrow> None)
      | _ \<Rightarrow> None)"

fun needs :: "ext \<Rightarrow> host_ext \<Rightarrow> node_ext \<Rightarrow> did_store \<Rightarrow> world \<Rightarrow> lease_call \<Rightarrow> string option" where
  "needs X H N store w (Lease_Info) = Some IDENTITY_READ"
| "needs X H N store w (Lease_Recover) = Some IDENTITY_READ"
| "needs X H N store w (Lease_List) = Some IDENTITY_READ"
| "needs X H N store w (Lease_Public_Identity r) = Some IDENTITY_READ"
| "needs X H N store w (Lease_Host_Status r) = Some IDENTITY_READ"
| "needs X H N store w (Lease_Recover_Identity r) = Some IDENTITY_READ"
| "needs X H N store w (Lease_Verify r v) = Some IDENTITY_READ"
| "needs X H N store w (Lease_Create v) = Some IDENTITY_CREATE"
| "needs X H N store w (Lease_Begin_Device_Enrollment v) = Some IDENTITY_CREATE"
| "needs X H N store w (Lease_Begin_Request_Enrollment v) = Some IDENTITY_CREATE"
| "needs X H N store w (Lease_Resume_Enrollment r) = Some IDENTITY_CREATE"
| "needs X H N store w (Lease_Delete r) = Some IDENTITY_DELETE"
| "needs X H N store w (Lease_Sign r v) = Some IDENTITY_SIGN"
| "needs X H N store w (Lease_Sign_Origin_Proof r v) = Some IDENTITY_SIGN"
| "needs X H N store w (Lease_Sign_Object_Proof r v) = Some IDENTITY_SIGN"
| "needs X H N store w (Lease_Sign_Document_Proof r v) = Some IDENTITY_SIGN"
| "needs X H N store w (Lease_Prepare_Http_Signature v) = Some IDENTITY_HTTP_SIGNATURE"
| "needs X H N store w (Lease_Prepare_Legacy_Did_Wba r kid domain version) = Some IDENTITY_HTTP_SIGNATURE"
| "needs X H N store w (Lease_Prepare_Document_Change r v) = Some IDENTITY_DOCUMENT_UPDATE"
| "needs X H N store w (Lease_Resume_Document_Change r) = Some IDENTITY_DOCUMENT_UPDATE"
| "needs X H N store w (Lease_Prepare_Transition v) = Some IDENTITY_DOCUMENT_UPDATE"
| "needs X H N store w (Lease_Resume_Transition did) = Some IDENTITY_DOCUMENT_UPDATE"
| "needs X H N store w (Lease_Adopt r v) = Some IDENTITY_DOCUMENT_UPDATE"
| "needs X H N store w (Lease_Adopt_Sibling r v) = Some IDENTITY_DOCUMENT_UPDATE"
| "needs X H N store w (Lease_Import_Wrapped_Root r v) = Some AWIKI_LEGACY_ROOT_TRANSFER_V1"
| "needs X H N store w (Lease_Confirm_Root_Promotion r v) = Some AWIKI_LEGACY_ROOT_TRANSFER_V1"
| "needs X H N store w (Lease_Sign_Pending_Root r v) = Some AWIKI_LEGACY_ROOT_TRANSFER_V1"
| "needs X H N store w (Lease_Ecdh_Sealed q) =
     capability_of (sealed_key_agreement_binding H (jk_identity q) (jk_kid q) (jk_peer_public q)
       (jk_recipient_public_key q) (jk_request_id q))"
| "needs X H N store w (Lease_Export_Root_Sealed q) =
     capability_of (sealed_root_export_binding H (jx_identity q) (jx_kid q) (jx_recipient_public_key q)
       (jx_request_id q) (jx_user_presence_confirmed q))"
| "needs X H N store w (Lease_Prepare_Root_Import q) = root_import_needs H N w q"
| "needs X H N store w (Lease_Prepare_Material_Import q) = material_import_needs X H N store w q"

lemmas lease_operations = lease_info_def lease_recover_def lease_list_def lease_public_identity_def
  lease_host_status_def lease_recover_identity_def lease_verify_def lease_create_def
  lease_begin_device_enrollment_def lease_begin_request_signing_enrollment_def lease_resume_enrollment_def
  lease_delete_def lease_sign_def lease_sign_origin_proof_def lease_sign_object_proof_def
  lease_sign_document_proof_def lease_prepare_http_signature_def lease_prepare_legacy_did_wba_def
  lease_prepare_document_change_def lease_resume_document_change_def lease_prepare_identity_transition_def
  lease_resume_identity_transition_def lease_adopt_verified_document_def
  lease_adopt_verified_sibling_document_def lease_import_wrapped_root_def lease_confirm_root_promotion_def
  lease_sign_pending_root_object_proof_def

lemma refuses_done [refusals]: "refuses m g w \<Longrightarrow> refuses (done_with m) g w"
  unfolding done_with_def by (rule refuses_bnd)

lemma fixed_public_key_same: "fixed_public_key k name = Inr k' \<Longrightarrow> k' = k"
  by (auto simp: fixed_public_key_def split: if_splits)

lemma refuses_root_import:
  assumes "\<And>capability. root_import_needs H N w q = Some capability \<Longrightarrow> \<not> grants g w capability"
  shows "refuses (lease_prepare_legacy_root_import X H N q) g w"
  unfolding lease_prepare_legacy_root_import_def prepare_sealed_root_import_def Let_def
  using assms
  by (intro refuses_lift refuses_lease refuses_bnd refuses_with_sealed refuses_recipient refuses_authorized_token)
     (auto simp: root_import_needs_def capability_of_def)

lemma refuses_material_import:
  assumes "\<And>capability. material_import_needs X H N (gd_engine g) w q = Some capability \<Longrightarrow> \<not> grants g w capability"
  shows "refuses (lease_prepare_identity_material_import X H N q) g w"
  unfolding lease_prepare_identity_material_import_def prepare_sealed_identity_material_import_def Let_def
  using assms
  by (intro refuses_lift refuses_lease refuses_bnd refuses_with_sealed refuses_sealed_engine refuses_draw
      refuses_recipient refuses_authorized_token)
     (auto simp: material_import_needs_def capability_of_def ok_or_Inr_iff)

lemma lease_act_refused:
  assumes "\<And>capability. needs X H N (gd_engine g) w call = Some capability \<Longrightarrow> \<not> grants g w capability"
  shows "refuses (lease_act X H N call) g w"
proof (cases call)
  case (Lease_Ecdh_Sealed q)
  show ?thesis
    unfolding Lease_Ecdh_Sealed lease_act.simps lease_ecdh_sealed_def
    using assms [unfolded Lease_Ecdh_Sealed needs.simps]
    by (auto intro!: refuses_done refuses_lift refuses_bnd [OF refuses_issue]
        dest!: fixed_public_key_same simp: map_err_Inr_iff capability_of_def)
next
  case (Lease_Export_Root_Sealed q)
  show ?thesis
    unfolding Lease_Export_Root_Sealed lease_act.simps lease_export_root_key_sealed_def
    using assms [unfolded Lease_Export_Root_Sealed needs.simps]
    by (auto intro!: refuses_done refuses_lift refuses_bnd [OF refuses_issue]
        dest!: fixed_public_key_same simp: map_err_Inr_iff capability_of_def)
next
  case (Lease_Prepare_Root_Import q)
  with assms show ?thesis by (auto intro!: refuses_done refuses_root_import)
next
  case (Lease_Prepare_Material_Import q)
  with assms show ?thesis by (auto intro!: refuses_done refuses_material_import)
qed (use assms in \<open>auto simp: lease_operations intro!: refusals\<close>)

text \<open>
  C12: no operation of a lease gets past the authority without its capability, the sealed exports and
  the sealed imports of root keys and identities included. Unless the lease is
  there, was issued by this provider, has not expired and grants the capability the operation
  needs, the operation fails, and the authority, the lease, the store handle and the disk are as
  they were.
\<close>
theorem lease_operation_needs_capability:
  assumes "\<And>capability. needs X H N (gd_engine g) w call = Some capability \<Longrightarrow> \<not> grants g w capability"
  shows "refuses (lease_act X H N call) g w"
  using assms by (rule lease_act_refused)

theorem lease_operation_needs_capability_witness:
  "let g = \<lparr>gd_authority = sample_authority, gd_lease = Some sample_lease, gd_engine = sample_store\<rparr>
   in grants g (sample_world []) ''c'' \<and> \<not> grants g (sample_world []) IDENTITY_DELETE
      \<and> (\<forall>N r. refuses (lease_act sample_ext sample_host N (Lease_Delete r)) g (sample_world []))"
proof -
  let ?g = "\<lparr>gd_authority = sample_authority, gd_lease = Some sample_lease, gd_engine = sample_store\<rparr>"
  have g: "grants ?g (sample_world []) ''c''" "\<not> grants ?g (sample_world []) IDENTITY_DELETE"
    by (simp_all add: grants_def sample_lease_def sample_authority_def sample_lease_state_def clock_now_def
        sample_world_def seconds_def IDENTITY_DELETE_def)
  moreover have "refuses (lease_act sample_ext sample_host N (Lease_Delete r)) ?g (sample_world [])" for N r
    using g by (intro lease_operation_needs_capability) simp
  ultimately show ?thesis by (simp add: Let_def)
qed

text \<open>A session opened through a lease, and everything after the lease was disposed of.\<close>

lemma session_needs_document_update:
  "\<not> grants g w IDENTITY_DOCUMENT_UPDATE \<Longrightarrow> refuses (provider_session m) g w"
  unfolding provider_session_def by (rule refuses_authorized)

lemma disposed_lease_refuses:
  assumes "lease_dispose (g, w) = (r, (g', w'))"
  shows "refuses (lease_act X H N call) g' w'" "refuses (provider_session m) g' w'"
proof -
  have "gd_lease g' = None"
    using assms
    by (auto simp: lease_dispose_def bnd_def current_lease_def lift_def with_authority_def
        split: prod.splits option.splits sum.splits)
  then have "\<not> grants g' w' capability" for capability by (simp add: grants_def)
  then show "refuses (lease_act X H N call) g' w'" "refuses (provider_session m) g' w'"
    by (simp_all add: session_needs_document_update lease_act_refused)
qed

section \<open>Errors in JavaScript\<close>

lemma match_js_error:
  assumes "error_code \<noteq> []" "CHR '':'' \<notin> set error_code"
  shows "match_error (js_error error_code message) = Some (error_code, message)"
proof -
  have "takeWhile (\<lambda>c. c \<noteq> CHR '':'') (error_code @ CHR '':'' # message) = error_code"
    "dropWhile (\<lambda>c. c \<noteq> CHR '':'') (error_code @ CHR '':'' # message) = CHR '':'' # message"
    using assms(2) by (induction error_code) auto
  then have "match_here (js_error error_code message) = Some (error_code, message)"
    using assms(1) by (simp add: match_here_def js_error_def strip_prefix_def starts_with_def)
  then show ?thesis by (cases "js_error error_code message") (simp_all add: js_error_def)
qed

text \<open>
  C37: errors reach JavaScript with their code. Taking apart the message of an error of the facade,
  of the authority or of the sealed hand-off gives back its code and its text, and different errors
  of the facade have different codes.
\<close>
theorem error_codes_survive:
  "match_error (map_error e) = Some (identity_error_code e, identity_error_text e)
   \<and> match_error (map_authorization_error a) = Some (authorization_error_code a, authorization_error_text a)
   \<and> match_error (map_sealed_error s) = Some (sealed_error_code s, sealed_error_text s)
   \<and> (identity_error_code e = identity_error_code e' \<longleftrightarrow> e = e')"
proof -
  have "match_error (map_error e) = Some (identity_error_code e, identity_error_text e)"
    unfolding map_error_def by (cases e) (simp_all add: match_js_error)
  moreover have "match_error (map_authorization_error a) = Some (authorization_error_code a, authorization_error_text a)"
    unfolding map_authorization_error_def by (cases a) (simp_all add: match_js_error)
  moreover have "match_error (map_sealed_error s) = Some (sealed_error_code s, sealed_error_text s)"
    unfolding map_sealed_error_def by (cases s) (simp_all add: match_js_error)
  moreover have "identity_error_code e = identity_error_code e' \<longleftrightarrow> e = e'"
    by (cases e; cases e'; simp)
  ultimately show ?thesis by simp
qed

end
