(* ===== verification/Facade_Calculus.thy ===== *)
theory Facade_Calculus
  imports Facade Frames
begin

text \<open>
  The calculus over failure schedules for actions of the facade: \<open>runs m Q E s c\<close> says that the
  action \<open>m\<close>, started on the engine \<open>s\<close> in the world \<open>c\<close> under any schedule of failures, ends with \<open>Q\<close>
  of its answer, engine and world, or with \<open>E\<close> of its error, engine and world.
\<close>

definition runs ::
  "('s, 'a) act \<Rightarrow> ('a \<Rightarrow> 's \<Rightarrow> world \<Rightarrow> bool) \<Rightarrow> (identity_error \<Rightarrow> 's \<Rightarrow> world \<Rightarrow> bool)
     \<Rightarrow> 's \<Rightarrow> world \<Rightarrow> bool" where
  "runs m Q E s c \<longleftrightarrow>
     (\<forall>fs. wp m (\<lambda>x sw. Q x (fst sw) (core (snd sw))) (\<lambda>e sw. E e (fst sw) (core (snd sw)))
        (s, c\<lparr>w_faults := fs\<rparr>))"

named_theorems act_intros \<open>rules of the calculus for actions\<close>

lemma runs_ret [act_intros]: "calm c \<Longrightarrow> Q x s c \<Longrightarrow> runs (ret x) Q E s c"
  by (simp add: runs_def wp_ret)

lemma runs_raise [act_intros]: "calm c \<Longrightarrow> E e s c \<Longrightarrow> runs (raise e) Q E s c"
  by (simp add: runs_def wp_raise)

lemma runs_lift [act_intros]:
  "calm c \<Longrightarrow> (\<And>e. r = Inl e \<Longrightarrow> E e s c) \<Longrightarrow> (\<And>x. r = Inr x \<Longrightarrow> Q x s c) \<Longrightarrow> runs (lift r) Q E s c"
  by (simp add: runs_def wp_lift split: sum.splits)

lemma runs_mono:
  "runs m Q E s c \<Longrightarrow> (\<And>x t w. Q x t w \<Longrightarrow> Q' x t w) \<Longrightarrow> (\<And>e t w. E e t w \<Longrightarrow> E' e t w)
   \<Longrightarrow> runs m Q' E' s c"
  by (auto simp: runs_def intro: wp_mono)

lemma runs_any: "runs m (\<lambda>_ _ _. True) (\<lambda>_ _ _. True) s c"
  by (simp add: runs_def wp_def split: sum.split prod.split)

lemma runs_bnd:
  assumes "runs m (\<lambda>x t c'. calm c' \<longrightarrow> runs (f x) Q E t c') E s c"
  shows "runs (bnd m f) Q E s c"
  unfolding runs_def
proof
  fix fs
  let ?Q = "\<lambda>x sw. Q x (fst sw) (core (snd sw))" and ?E = "\<lambda>e sw. E e (fst sw) (core (snd sw))"
  have step: "wp (f x) ?Q ?E sw" if "runs (f x) Q E (fst sw) (core (snd sw))" for x and sw :: "_ \<times> world"
    using that [unfolded runs_def, rule_format, of "w_faults (snd sw)"] by (simp add: core_def)
  from assms have "wp m (\<lambda>x sw. runs (f x) Q E (fst sw) (core (snd sw))) ?E (s, c\<lparr>w_faults := fs\<rparr>)"
    by (simp add: runs_def)
  then show "wp (bnd m f) ?Q ?E (s, c\<lparr>w_faults := fs\<rparr>)"
    unfolding wp_bnd by (rule wp_mono) (auto intro: step)
qed

lemma runs_engine: "calm c \<Longrightarrow> Q s s c \<Longrightarrow> runs engine Q E s c"
  by (simp add: runs_def wp_def engine_def)

lemma runs_ask:
  assumes "safe (m s) (\<lambda>x c'. Q x s c') (\<lambda>e c'. E (error_category e) s c') c"
  shows "runs (ask m) Q E s c"
  using assms
  by (fastforce simp: runs_def safe_def wp_def ask_def map_err_Inl_iff split: prod.splits sum.splits)

lemma runs_modify_only:
  assumes "safe (m s) (\<lambda>t c'. Q () t c') (\<lambda>e c'. E (error_category e) s c') c"
  shows "runs (modify_only m) Q E s c"
  using assms
  by (fastforce simp: runs_def safe_def wp_def modify_only_def modify_def bnd_def ret_def
      split: prod.splits sum.splits)

text \<open>The steps that an operation is composed of.\<close>

lemma runs_step_lift [act_intros]:
  "calm c \<Longrightarrow> (\<And>e. r = Inl e \<Longrightarrow> E e s c) \<Longrightarrow> (\<And>x. r = Inr x \<Longrightarrow> runs (f x) Q E s c)
   \<Longrightarrow> runs (bnd (lift r) f) Q E s c"
  by (auto intro!: runs_bnd runs_lift)

lemma runs_step_engine [act_intros]:
  "calm c \<Longrightarrow> runs (f s) Q E s c \<Longrightarrow> runs (bnd engine f) Q E s c"
  by (auto intro!: runs_bnd runs_engine)

lemma runs_step_ask:
  "safe (m s) (\<lambda>x c'. calm c' \<longrightarrow> runs (f x) Q E s c') (\<lambda>e c'. E (error_category e) s c') c
   \<Longrightarrow> runs (bnd (ask m) f) Q E s c"
  by (auto intro!: runs_bnd runs_ask)

lemma runs_step_locked [act_intros]:
  assumes "calm c" "wf_runtime (rt s)" "\<And>msg. E (error_category (Io msg)) s c"
    "runs (f (guard_of (rt_root (rt s)))) Q E s c"
  shows "runs (bnd (ask (\<lambda>s. acquire_write (rt s))) f) Q E s c"
  using assms by (auto intro!: runs_step_ask safe_acquire_write)

lemma runs_step_registry [act_intros]:
  assumes "calm c" "\<And>e. E e s c" "\<And>r. registry_at (w_disk c) = Inr r \<Longrightarrow> runs (f r) Q E s c"
  shows "runs (bnd (ask (\<lambda>_. read_registry)) f) Q E s c"
  using assms by (auto intro!: runs_step_ask safe_intros)

lemma runs_step_identity [act_intros]:
  assumes "calm c" "\<And>e. E e s c" "\<And>r. identity_at X (w_disk c) i = Inr r \<Longrightarrow> runs (f r) Q E s c"
  shows "runs (bnd (ask (\<lambda>_. read_identity X i)) f) Q E s c"
  using assms by (auto intro!: runs_step_ask safe_intros)

text \<open>A step that leaves the disk, whatever it does to the clock and the random numbers.\<close>

lemma runs_step_keeps:
  assumes "calm c" "read_only (m s)" "\<And>e c'. w_disk c' = w_disk c \<Longrightarrow> E e s c'"
    and "\<And>x c'. calm c' \<Longrightarrow> w_disk c' = w_disk c \<Longrightarrow> runs (f x) Q E s c'"
  shows "runs (bnd (ask m) f) Q E s c"
  using assms by (auto intro!: runs_step_ask safe_keeps [OF assms(2,1)])

text \<open>From the calculus to a run.\<close>

lemma runs_run:
  assumes "runs m Q E s (core w)"
  shows "case m (s, w) of (r, (t, w')) \<Rightarrow> (case r of Inl e \<Rightarrow> E e t (core w') | Inr x \<Rightarrow> Q x t (core w'))"
  using assms [unfolded runs_def, rule_format, of "w_faults w"]
  by (auto simp: wp_def core_def split: prod.splits sum.splits)

lemma runs_disk:
  assumes "runs m (\<lambda>_ _ c. P (w_disk c)) (\<lambda>_ _ c. P (w_disk c)) s (core w)"
  shows "P (w_disk (snd (snd (m (s, w)))))"
  using runs_run [OF assms] by (auto split: prod.splits sum.splits)

end
