(* ===== verification/Transition_Properties.thy ===== *)
theory Transition_Properties
  imports Identity_Transition Facade_Calculus Crash_Safety Sample_Host
begin

text \<open>
  The publication of an identity transition: the calls of a session implement a state machine on
  the journal under every schedule of failures, a transition is committed only on evidence of the
  two documents it prepared, and a store has at most one open transition for an identity.
\<close>

section \<open>The machine\<close>

abbreviation transition_at :: "ext \<Rightarrow> disk \<Rightarrow> string \<Rightarrow> identity_transition_journal did_result" where
  "transition_at X d operation_id \<equiv> decode_transition_journal operation_id
     (dir_get (d_transition_journals d) (identity_transition_journal_path X operation_id))"

inductive transition_move :: "transition_journal_state \<Rightarrow> transition_journal_state \<Rightarrow> bool" where
  publish: "transition_move TJ_Prepared TJ_PublicationInFlight"
| confirm: "transition_move TJ_PublicationInFlight TJ_Committed"
| reject: "transition_move TJ_PublicationInFlight TJ_Aborted"
| lose_track: "transition_move TJ_PublicationInFlight TJ_PublicationUncertain"
| still_old: "transition_move TJ_PublicationUncertain TJ_Prepared"
| found: "transition_move TJ_PublicationUncertain TJ_Committed"

inductive_cases transition_moveE: "transition_move a b"

definition moved :: "identity_transition_journal \<Rightarrow> identity_transition_journal \<Rightarrow> bool" where
  "moved j j' \<longleftrightarrow> transition_move (tj_state j) (tj_state j')
     \<and> unat (tj_generation j') = unat (tj_generation j) + 1
     \<and> j' = j\<lparr>tj_state := tj_state j', tj_generation := tj_generation j'\<rparr>"

lemma moved_fields:
  assumes "moved j j'"
  shows "tj_operation_id j' = tj_operation_id j" "tj_expected_current_did j' = tj_expected_current_did j"
    "tj_valid j' = tj_valid j" "tj_state j \<noteq> TJ_Aborted"
proof -
  obtain a b where "j' = j\<lparr>tj_state := a, tj_generation := b\<rparr>" using assms unfolding moved_def by blast
  then show "tj_operation_id j' = tj_operation_id j" "tj_expected_current_did j' = tj_expected_current_did j"
    "tj_valid j' = tj_valid j" by simp_all
  show "tj_state j \<noteq> TJ_Aborted" using assms by (auto simp: moved_def elim: transition_moveE)
qed

definition put_transition :: "ext \<Rightarrow> identity_transition_journal \<Rightarrow> disk \<Rightarrow> disk" where
  "put_transition X j d = d\<lparr>d_transition_journals :=
     dir_put (identity_transition_journal_path X (tj_operation_id j)) (Parsed j) (d_transition_journals d)\<rparr>"

lemma transition_at_put:
  "tj_valid j \<Longrightarrow> transition_at X (put_transition X j d) (tj_operation_id j) = Inr j"
  by (simp add: put_transition_def disk_simps)

lemma transition_at_valid:
  "transition_at X d i = Inr j \<Longrightarrow> tj_valid j \<and> tj_operation_id j = i"
  by (cases "dir_get (d_transition_journals d) (identity_transition_journal_path X i)")
     (auto split: if_splits elim: decode_transition_journal.elims)

lemma transition_at_self: "transition_at X d i = Inr j \<Longrightarrow> transition_at X d (tj_operation_id j) = Inr j"
  using transition_at_valid by metis

section \<open>Steps of a session\<close>

text \<open>The journal a session works on is the one it remembers, up to its state.\<close>

definition same_transition :: "identity_transition_journal \<Rightarrow> identity_transition_journal \<Rightarrow> bool" where
  "same_transition j mine \<longleftrightarrow> tj_generation j = tj_generation mine
     \<and> tj_expected_current_did j = tj_expected_current_did mine \<and> tj_successor_did j = tj_successor_did mine
     \<and> tj_predecessor_digest j = tj_predecessor_digest mine
     \<and> tj_successor_digest j = tj_successor_digest mine"

lemma safe_read_transition:
  assumes "calm c" "\<And>e. E e c" "\<And>j. transition_at X (w_disk c) i = Inr j \<Longrightarrow> Q j c"
  shows "safe (read_identity_transition_journal X i) Q E c"
  unfolding read_identity_transition_journal_def using assms by (auto intro!: safe_intros)

lemma runs_reload [act_intros]:
  assumes "calm c" "\<And>e. E e s c"
    and "\<And>j. transition_at X (w_disk c) (tj_operation_id (its_journal s)) = Inr j
      \<Longrightarrow> same_transition j (its_journal s) \<Longrightarrow> runs (f j) Q E s c"
  shows "runs (bnd (reload_and_validate X) f) Q E s c"
  unfolding reload_and_validate_def Let_def bnd_assoc
  using assms
  by (auto intro!: runs_step_engine runs_step_ask [OF safe_read_transition] runs_step_lift
      runs_step_identity runs_bnd [OF runs_ret] simp: same_transition_def)

lemma runs_store_transition:
  assumes "calm c" "wf_runtime (its_runtime s)" "\<And>e. E e s c"
    and "\<And>n j'. unat n = unat (tj_generation j) + 1 \<Longrightarrow> j' = j\<lparr>tj_state := st, tj_generation := n\<rparr>
      \<Longrightarrow> Q () (s\<lparr>its_journal := j'\<rparr>) (c\<lparr>w_disk := put_transition X j' (w_disk c)\<rparr>)
        \<and> (\<forall>e. E e s (c\<lparr>w_disk := put_transition X j' (w_disk c)\<rparr>))"
  shows "runs (store_transition X (guard_of (rt_root (its_runtime s))) j st) Q E s c"
proof -
  have "unat n = unat (tj_generation j) + 1" if "next_generation (tj_generation j) = Inr n" for n
    using that by (simp add: next_generation_def checked_add1_Some)
  note written = assms(4) [OF this refl]
  show ?thesis
    unfolding store_transition_def Let_def using assms(1-3) written
    by (auto intro!: act_intros runs_modify_only safe_intros simp: put_transition_def)
qed

datatype session_call =
    Begin_Publication
  | Complete_Publication transition_attempt transition_publication_result
  | Reconcile_Publication transition_observation

fun session_act ::
  "ext \<Rightarrow> host_ext \<Rightarrow> session_call \<Rightarrow> (identity_transition_session, transition_outcome option) act" where
  "session_act X H Begin_Publication = bnd (begin_transition_publication X) (\<lambda>_. ret None)"
| "session_act X H (Complete_Publication tried result) =
     bnd (complete_transition X tried result) (\<lambda>outcome. ret (Some outcome))"
| "session_act X H (Reconcile_Publication observation) =
     bnd (reconcile_transition X H observation) (\<lambda>outcome. ret (Some outcome))"

text \<open>What a call may have done to the disk, and what it answers for.\<close>

definition stepped ::
  "ext \<Rightarrow> disk \<Rightarrow> identity_transition_session \<Rightarrow> disk \<Rightarrow> bool" where
  "stepped X d s d' \<longleftrightarrow> d' = d
     \<or> (\<exists>j j'. transition_at X d (tj_operation_id (its_journal s)) = Inr j
          \<and> same_transition j (its_journal s) \<and> moved j j' \<and> d' = put_transition X j' d)"

fun outcome_state :: "transition_outcome \<Rightarrow> transition_journal_state" where
  "outcome_state Tr_ReadyForPublication = TJ_Prepared"
| "outcome_state Tr_PublicationUncertain = TJ_PublicationUncertain"
| "outcome_state (Tr_Committed did) = TJ_Committed"
| "outcome_state Tr_Aborted = TJ_Aborted"

definition answered ::
  "ext \<Rightarrow> transition_outcome option \<Rightarrow> identity_transition_session \<Rightarrow> disk \<Rightarrow> bool" where
  "answered X outcome s d \<longleftrightarrow> transition_at X d (tj_operation_id (its_journal s)) = Inr (its_journal s)
     \<and> tj_state (its_journal s) = (case outcome of None \<Rightarrow> TJ_PublicationInFlight | Some out \<Rightarrow> outcome_state out)"

lemma moved_stepped:
  assumes "transition_at X d (tj_operation_id (its_journal s)) = Inr j" "same_transition j (its_journal s)"
    "transition_move (tj_state j) st" "unat n = unat (tj_generation j) + 1"
    and j': "j' = j\<lparr>tj_state := st, tj_generation := n\<rparr>"
  shows "stepped X d s (put_transition X j' d)"
    and "transition_at X (put_transition X j' d) (tj_operation_id j') = Inr j'"
proof -
  have "moved j j'" using assms by (simp add: moved_def)
  with assms(1,2) show "stepped X d s (put_transition X j' d)" by (auto simp: stepped_def)
  show "transition_at X (put_transition X j' d) (tj_operation_id j') = Inr j'"
    using transition_at_valid [OF assms(1)] j' by (intro transition_at_put) simp
qed

lemma publication_step_move:
  "publication_step j result = Inr (st, out)
   \<Longrightarrow> transition_move TJ_PublicationInFlight st \<and> st = outcome_state out"
  by (cases result) (auto simp: rbind_Inr_iff intro: transition_move.intros)

lemma reconcile_step_move:
  "reconcile_step X H j obs = Inr (st, out)
   \<Longrightarrow> transition_move TJ_PublicationUncertain st \<and> st = outcome_state out"
  by (cases obs) (auto simp: rbind_Inr_iff intro: transition_move.intros split: if_splits)

lemma runs_moving:
  assumes "calm c" "wf_runtime (its_runtime s)"
    and "transition_at X (w_disk c) (tj_operation_id (its_journal s)) = Inr j"
    and "same_transition j (its_journal s)" "transition_move (tj_state j) st"
  shows "runs (store_transition X (guard_of (rt_root (its_runtime s))) j st)
    (\<lambda>_ s' c'. stepped X (w_disk c) s (w_disk c') \<and> tj_state (its_journal s') = st
       \<and> transition_at X (w_disk c') (tj_operation_id (its_journal s')) = Inr (its_journal s'))
    (\<lambda>_ s' c'. stepped X (w_disk c) s (w_disk c')) s c"
proof (rule runs_store_transition)
  fix n j'
  assume n: "unat n = unat (tj_generation j) + 1" and j': "j' = j\<lparr>tj_state := st, tj_generation := n\<rparr>"
  note m = moved_stepped [OF assms(3-5) n j']
  from m j' show "(stepped X (w_disk c) s (w_disk (c\<lparr>w_disk := put_transition X j' (w_disk c)\<rparr>))
      \<and> tj_state (its_journal (s\<lparr>its_journal := j'\<rparr>)) = st
      \<and> transition_at X (w_disk (c\<lparr>w_disk := put_transition X j' (w_disk c)\<rparr>))
          (tj_operation_id (its_journal (s\<lparr>its_journal := j'\<rparr>))) = Inr (its_journal (s\<lparr>its_journal := j'\<rparr>)))
      \<and> (\<forall>e. stepped X (w_disk c) s (w_disk (c\<lparr>w_disk := put_transition X j' (w_disk c)\<rparr>)))"
    by simp
qed (use assms in \<open>simp_all add: stepped_def\<close>)

lemma session_act_steps:
  assumes "calm c" "wf_runtime (its_runtime s)"
  shows "runs (session_act X H call) (\<lambda>out s' c'. stepped X (w_disk c) s (w_disk c') \<and> answered X out s' (w_disk c'))
    (\<lambda>_ s' c'. stepped X (w_disk c) s (w_disk c')) s c"
proof -
  have same: "stepped X d s d" for d by (simp add: stepped_def)
  note store = runs_bnd [OF runs_mono [OF runs_moving [OF assms]]]
  show ?thesis
  proof (cases call)
    case Begin_Publication
    show ?thesis
      unfolding Begin_Publication session_act.simps begin_transition_publication_def bnd_assoc
      using assms same
      by (auto intro!: act_intros split: transition_journal_state.split
          intro!: store runs_bnd [OF runs_modify_only] runs_bnd [OF runs_raise] safe_ret simp: keep_journal_def answered_def
          transition_move.publish transition_at_self)
  next
    case (Complete_Publication tried result)
    show ?thesis
      unfolding Complete_Publication session_act.simps complete_transition_def bnd_assoc
      using assms same
      by (auto intro!: act_intros store simp: answered_def bnd_assoc dest!: publication_step_move)
  next
    case (Reconcile_Publication observation)
    show ?thesis
      unfolding Reconcile_Publication session_act.simps reconcile_transition_def bnd_assoc
      using assms same
      by (auto intro!: act_intros store simp: answered_def bnd_assoc dest!: reconcile_step_move)
  qed
qed

text \<open>
  C14: the calls of a transition session implement the state machine. Whatever system calls fail, a
  call leaves the disk as it was or moves the journal of its transition by one step of the machine,
  with the next generation and nothing else changed, and only when the stored journal is still the
  one the session knows; when the call answers, the session holds the stored journal, and the
  journal is in the state the answer names.
\<close>
theorem transition_session_refines_machine:
  assumes "wf_runtime (its_runtime s)" "session_act X H call (s, w) = (r, (s', w'))"
  shows "stepped X (w_disk w) s (w_disk w')
    \<and> (\<forall>out. r = Inr out \<longrightarrow> answered X out s' (w_disk w'))"
  using runs_run [OF session_act_steps [of "core w" s X H call]] assms by (auto split: sum.splits)

section \<open>Committing needs evidence\<close>

fun evidence_of :: "ext \<Rightarrow> host_ext \<Rightarrow> identity_transition_journal \<Rightarrow> session_call \<Rightarrow> bool" where
  "evidence_of X H j (Complete_Publication tried (Tr_Confirmed e)) \<longleftrightarrow>
     tried = attempt_from_journal j
     \<and> te_predecessor_digest e = tj_predecessor_digest j \<and> te_successor_digest e = tj_successor_digest j"
| "evidence_of X H j (Reconcile_Publication (Tr_Published predecessor successor)) \<longleftrightarrow>
     document_digest X predecessor = Inr (tj_predecessor_digest j)
     \<and> document_digest X successor = Inr (tj_successor_digest j)
     \<and> (\<exists>a. verify_transition_hop H predecessor successor (Some (tj_trusted_predecessor_document j)) = Some a
            \<and> assurance_name a = tj_assurance j)"
| "evidence_of X H j _ \<longleftrightarrow> False"

lemma publication_step_evidence:
  "publication_step j result = Inr (st, Tr_Committed did) \<Longrightarrow> validate_transition_attempt tried j = Inr ()
   \<Longrightarrow> evidence_of X H j (Complete_Publication tried result) \<and> did = tj_successor_did j"
  by (cases result; cases tried)
     (auto simp: rbind_Inr_iff validate_transition_evidence_def validate_transition_attempt_def
        attempt_from_journal_def)

lemma reconcile_step_evidence:
  "reconcile_step X H j obs = Inr (st, Tr_Committed did)
   \<Longrightarrow> evidence_of X H j (Reconcile_Publication obs) \<and> did = tj_successor_did j"
  by (cases obs) (auto simp: rbind_Inr_iff from_engine_def split: if_splits)

text \<open>
  C15: a transition is answered as committed only on evidence of exactly what was prepared. The
  publisher confirmed the attempt that is in flight with the digests of both prepared documents, or
  both published documents were observed, have the prepared digests and verify as a hop from the
  trusted predecessor document with the prepared assurance.
\<close>
theorem transition_commits_only_on_evidence:
  assumes "wf_runtime (its_runtime s)" "session_act X H call (s, w) = (Inr (Some (Tr_Committed did)), sw)"
  shows "\<exists>j. transition_at X (w_disk w) (tj_operation_id (its_journal s)) = Inr j
    \<and> tj_state j \<in> {TJ_PublicationInFlight, TJ_PublicationUncertain}
    \<and> evidence_of X H j call \<and> did = tj_successor_did j"
proof -
  let ?E = "\<lambda>out s' c'. \<forall>did. out = Some (Tr_Committed did) \<longrightarrow> (\<exists>j. transition_at X (w_disk w)
    (tj_operation_id (its_journal s)) = Inr j \<and> tj_state j \<in> {TJ_PublicationInFlight, TJ_PublicationUncertain}
    \<and> evidence_of X H j call \<and> did = tj_successor_did j)"
  note stored = runs_bnd [OF runs_mono [OF runs_any [of "store_transition X g j st" for g j st]]]
  have "runs (session_act X H call) ?E (\<lambda>_ _ _. True) s (core w)"
  proof (cases call)
    case Begin_Publication
    show ?thesis
      unfolding Begin_Publication session_act.simps
      by (rule runs_bnd [OF runs_mono [OF runs_any]]) (auto intro!: act_intros)
  next
    case (Complete_Publication tried result)
    show ?thesis
      unfolding Complete_Publication session_act.simps complete_transition_def bnd_assoc
      using assms(1)
      by (auto intro!: act_intros stored simp: bnd_assoc
          dest!: publication_step_evidence)
  next
    case (Reconcile_Publication observation)
    show ?thesis
      unfolding Reconcile_Publication session_act.simps reconcile_transition_def bnd_assoc
      using assms(1)
      by (auto intro!: act_intros stored simp: bnd_assoc
          dest!: reconcile_step_evidence)
  qed
  from runs_run [OF this] assms(2) show ?thesis by (auto split: prod.splits)
qed

section \<open>One open transition for an identity\<close>

definition sole :: "ext \<Rightarrow> disk \<Rightarrow> bool" where
  "sole X d \<longleftrightarrow> (\<forall>i j i' j'. transition_at X d i = Inr j \<and> transition_at X d i' = Inr j'
     \<and> tj_expected_current_did j = tj_expected_current_did j'
     \<and> tj_state j \<noteq> TJ_Aborted \<and> tj_state j' \<noteq> TJ_Aborted \<longrightarrow> i = i')"

lemma soleD:
  assumes "sole X d" "transition_at X d i = Inr j" "transition_at X d i' = Inr j'"
    "tj_expected_current_did j = tj_expected_current_did j'" "tj_state j \<noteq> TJ_Aborted" "tj_state j' \<noteq> TJ_Aborted"
  shows "i = i'"
  using assms(1) [unfolded sole_def, rule_format, of i j i' j'] assms(2-) by simp

lemma transition_at_put_cases:
  assumes "transition_at X (put_transition X j' d) i = Inr j"
  shows "i = tj_operation_id j' \<and> j = j' \<or> transition_at X d i = Inr j"
  using assms by (auto simp: put_transition_def disk_simps split: if_splits)

lemma sole_put:
  assumes "sole X d"
    and "\<And>i j. transition_at X d i = Inr j \<Longrightarrow> tj_expected_current_did j = tj_expected_current_did j'
      \<Longrightarrow> tj_state j \<noteq> TJ_Aborted \<Longrightarrow> tj_state j' \<noteq> TJ_Aborted \<Longrightarrow> i = tj_operation_id j'"
  shows "sole X (put_transition X j' d)"
  unfolding sole_def
proof (intro allI impI, elim conjE)
  fix i j i' k
  assume i: "transition_at X (put_transition X j' d) i = Inr j"
      "transition_at X (put_transition X j' d) i' = Inr k"
    and s: "tj_expected_current_did j = tj_expected_current_did k"
      "tj_state j \<noteq> TJ_Aborted" "tj_state k \<noteq> TJ_Aborted"
  note cases = transition_at_put_cases [OF i(1)] transition_at_put_cases [OF i(2)]
  show "i = i'"
  proof (cases "i = tj_operation_id j' \<and> j = j'")
    case j: True
    from cases(2) show ?thesis
    proof
      assume "transition_at X d i' = Inr k"
      from assms(2) [OF this] j s show ?thesis by simp
    qed (simp add: j)
  next
    case False
    with cases(1) have j: "transition_at X d i = Inr j" by blast
    from cases(2) show ?thesis
    proof
      assume "i' = tj_operation_id j' \<and> k = j'"
      with assms(2) [OF j] s show ?thesis by simp
    qed (rule soleD [OF assms(1) j _ s])
  qed
qed

lemma sole_stepped:
  assumes "stepped X d s d'" "sole X d"
  shows "sole X d'"
proof -
  have "sole X (put_transition X j' d)"
    if j: "transition_at X d i = Inr j" "moved j j'" for i j j'
  proof (rule sole_put [OF assms(2)])
    fix k m
    assume k: "transition_at X d k = Inr m" "tj_expected_current_did m = tj_expected_current_did j'"
      "tj_state m \<noteq> TJ_Aborted"
    note m = moved_fields [OF j(2)]
    with k have "tj_expected_current_did m = tj_expected_current_did j" by simp
    from soleD [OF assms(2) k(1) j(1) this k(3) m(4)] have "k = i" .
    then show "k = tj_operation_id j'" using transition_at_valid [OF j(1)] m(1) by simp
  qed
  with assms show ?thesis by (auto simp: stepped_def)
qed

text \<open>Preparing writes nothing or a new journal, when no transition of the predecessor is open.\<close>

definition prepared :: "ext \<Rightarrow> string \<Rightarrow> disk \<Rightarrow> disk \<Rightarrow> bool" where
  "prepared X did d d' \<longleftrightarrow> d' = d
     \<or> (\<exists>j'. d' = put_transition X j' d \<and> tj_valid j' \<and> tj_expected_current_did j' = did
          \<and> tj_state j' = TJ_Prepared
          \<and> (\<forall>i j. transition_at X d i = Inr j \<longrightarrow> tj_expected_current_did j = did
                \<longrightarrow> tj_state j = TJ_Aborted))"

lemma transition_at_listed:
  assumes "named_files X" "entries_of tj_valid (d_transition_journals d) = Inr js" "transition_at X d i = Inr j"
  shows "j \<in> set js"
proof -
  let ?n = "identity_transition_journal_path X i"
  have "dir_get (d_transition_journals d) ?n = Some (Parsed j)"
    using assms(3)
    by (cases "dir_get (d_transition_journals d) ?n")
       (auto split: if_splits elim: decode_transition_journal.elims)
  then have "(?n, Parsed j) \<in> set (d_transition_journals d)" by (simp add: dir_get_def map_of_SomeD)
  moreover have "extension ?n = Some ''json''"
    using assms(1) by (simp add: identity_transition_journal_path_def named_files_def)
  ultimately show ?thesis
    using set_entries_of [OF assms(2)] transition_at_valid [OF assms(3)] by blast
qed

lemma read_only_sign_document_proof: "read_only (sign_document_proof X i doc kid opts)"
  unfolding sign_document_proof_def sign_prepared_def require_operational_def Let_def
  by (intro keeps_intros)

lemma runs_create_transition_document:
  assumes "calm c" "\<And>e c'. w_disk c' = w_disk c \<Longrightarrow> E e s c'"
    and "\<And>x c'. calm c' \<Longrightarrow> w_disk c' = w_disk c \<Longrightarrow> runs (f x) Q E s c'"
  shows "runs (bnd (create_verified_transition_document X p did at) f) Q E s c"
  unfolding create_verified_transition_document_def Let_def bnd_assoc
  using assms
  by (auto intro!: act_intros runs_step_keeps read_only_sign_document_proof)

lemma runs_step_write_transition:
  assumes "ds_runtime s0 = ds_runtime s" "calm c" "\<And>e. E e s c" "\<And>e. E e s (c\<lparr>w_disk := put_transition X j (w_disk c)\<rparr>)"
    "runs (f ()) Q E s (c\<lparr>w_disk := put_transition X j (w_disk c)\<rparr>)"
  shows "runs (bnd (ask (\<lambda>s. write_identity_transition_journal X (rt_root (ds_runtime s))
      (guard_of (rt_root (ds_runtime s0))) j)) f) Q E s c"
  unfolding assms(1)
  by (rule runs_step_ask, rule safe_write_identity_transition_journal)
     (use assms in \<open>auto simp: put_transition_def\<close>)

lemma runs_prepare_journal:
  assumes "calm c" "wf_runtime (ds_runtime s)"
    and "\<And>i j. transition_at X (w_disk c) i = Inr j
      \<Longrightarrow> tj_expected_current_did j = itr_expected_current_did request \<Longrightarrow> tj_state j = TJ_Aborted"
  shows "runs (prepare_transition_journal X H request (guard_of (rt_root (ds_runtime s))) registry)
    (\<lambda>_ _ c'. prepared X (itr_expected_current_did request) (w_disk c) (w_disk c'))
    (\<lambda>_ _ c'. prepared X (itr_expected_current_did request) (w_disk c) (w_disk c')) s c"
proof -
  let ?P = "prepared X (itr_expected_current_did request)"
  have same: "?P d d" for d by (simp add: prepared_def)
  have new: "?P (w_disk c) (put_transition X j' (w_disk c))"
    if "tj_valid j'" "tj_expected_current_did j' = itr_expected_current_did request" "tj_state j' = TJ_Prepared" for j'
    using that assms(3) by (auto simp: prepared_def)
  show ?thesis
    unfolding prepare_transition_journal_def Let_def
    using assms(1,2) same
    by (auto intro!: act_intros runs_step_keeps [where m = "\<lambda>_. utc_now"] keeps_intros
        runs_create_transition_document runs_step_write_transition new
        simp: new_identity_transition_journal_def split: option.split)
qed

lemma safe_attempt:
  assumes "calm c" "\<And>x. Q x c"
  shows "safe (attempt (read_identity_transition_journal X i)) Q E c"
proof -
  have "safe (read_identity_transition_journal X i) (\<lambda>x. Q (Some x)) (\<lambda>_. Q None) c"
    using assms by (intro safe_read_transition) auto
  then show ?thesis
    by (fastforce simp: safe_def wp_def attempt_def split: prod.splits sum.splits)
qed

lemma runs_step_list_transitions:
  assumes "calm c" "\<And>e. E e s c"
    and "\<And>js. entries_of tj_valid (d_transition_journals (w_disk c)) = Inr js
      \<Longrightarrow> runs (f (sort_key tj_operation_id js)) Q E s c"
  shows "runs (bnd (ask (\<lambda>_. list_identity_transition_journals)) f) Q E s c"
  using assms by (auto intro!: runs_step_ask safe_intros)

lemma prepare_prepares:
  assumes "calm c" "wf_runtime (ds_runtime s)" "named_files X"
  shows "runs (prepare_identity_transition X H request)
    (\<lambda>_ _ c'. prepared X (itr_expected_current_did request) (w_disk c) (w_disk c'))
    (\<lambda>_ _ c'. prepared X (itr_expected_current_did request) (w_disk c) (w_disk c')) s c"
proof -
  let ?P = "prepared X (itr_expected_current_did request)"
  have same: "?P d d" for d by (simp add: prepared_def)
  have lifted: "runs (bnd (prepare_transition_journal X H request (guard_of (rt_root (ds_runtime s))) registry)
      (\<lambda>j. lift (g j))) (\<lambda>_ _ c'. ?P (w_disk c) (w_disk c')) (\<lambda>_ _ c'. ?P (w_disk c) (w_disk c')) s c"
    if js: "entries_of tj_valid (d_transition_journals (w_disk c)) = Inr js"
      "\<not> list_ex (\<lambda>j. tj_expected_current_did j = itr_expected_current_did request \<and> tj_state j \<noteq> TJ_Aborted)
        (sort_key tj_operation_id js)"
    for registry js and g :: "_ \<Rightarrow> identity_transition_session identity_result"
  proof (rule runs_bnd, rule runs_mono [OF runs_prepare_journal [OF assms(1,2)]])
    fix i j
    assume "transition_at X (w_disk c) i = Inr j"
      and "tj_expected_current_did j = itr_expected_current_did request"
    with transition_at_listed [OF assms(3) js(1)] js(2) show "tj_state j = TJ_Aborted"
      by (auto simp: list_ex_iff)
  qed (auto intro: runs_lift)
  show ?thesis
    unfolding prepare_identity_transition_def Let_def
    using assms same
    by (auto intro!: act_intros runs_step_ask [OF safe_attempt] runs_step_list_transitions lifted
        runs_step_locked [where rt = "\<lambda>_. ds_runtime s"] split: option.split)
qed

inductive transitions_reach :: "ext \<Rightarrow> host_ext \<Rightarrow> disk \<Rightarrow> disk \<Rightarrow> bool" for X H d where
  start: "transitions_reach X H d d"
| prepare_call: "transitions_reach X H d (w_disk w) \<Longrightarrow> wf_runtime (ds_runtime store)
    \<Longrightarrow> prepare_identity_transition X H request (store, w) = (r, (store', w'))
    \<Longrightarrow> transitions_reach X H d (w_disk w')"
| session_call: "transitions_reach X H d (w_disk w) \<Longrightarrow> wf_runtime (its_runtime s)
    \<Longrightarrow> session_act X H call (s, w) = (r', (s', w')) \<Longrightarrow> transitions_reach X H d (w_disk w')"
| other_call: "transitions_reach X H d d' \<Longrightarrow> d_transition_journals d'' = d_transition_journals d'
    \<Longrightarrow> transitions_reach X H d d''"

text \<open>
  C16: a store has at most one transition of an identity that is not aborted: whatever transitions
  are prepared and moved on in any order, whatever fails on the way and whatever the other
  operations of the store do to its other files, two journals that name the same predecessor and
  are both not aborted are the same.
\<close>
theorem one_transition_per_predecessor:
  assumes "transitions_reach X H d d'" "named_files X" "sole X d"
    and "transition_at X d' i = Inr j" "transition_at X d' i' = Inr j'"
    and "tj_expected_current_did j = tj_expected_current_did j'"
    and "tj_state j \<noteq> TJ_Aborted" "tj_state j' \<noteq> TJ_Aborted"
  shows "i = i'"
proof -
  from assms(1) have "sole X d'"
  proof induction
    case start
    show ?case by (fact assms(3))
  next
    case (prepare_call w store request r store' w')
    from runs_run [OF prepare_prepares [of "core w" store X H request]] prepare_call.hyps assms(2)
    have "prepared X (itr_expected_current_did request) (w_disk w) (w_disk w')"
      by (auto split: sum.splits)
    then show ?case using prepare_call.IH by (auto simp: prepared_def intro!: sole_put)
  next
    case (session_call w s call r s' w')
    from runs_run [OF session_act_steps [of "core w" s X H call]] session_call.hyps
    have "stepped X (w_disk w) s (w_disk w')" by (auto split: sum.splits)
    then show ?case using session_call.IH by (rule sole_stepped)
  next
    case (other_call d' d'')
    then show ?case by (simp add: sole_def)
  qed
  from soleD [OF this assms(4-8)] show ?thesis .
qed

text \<open>
  C38: a change of one of the two identities blocks its transition for good. As soon as the stored
  predecessor or successor has another generation than the journal names, every call of a session
  fails and leaves the disk, and no new transition of the predecessor can be prepared.
\<close>
theorem changed_identity_blocks_transition:
  assumes "wf_runtime (its_runtime s)" "wf_runtime (ds_runtime store)" "named_files X"
    and "transition_at X (w_disk w) (tj_operation_id (its_journal s)) = Inr j" "tj_state j \<noteq> TJ_Aborted"
    and "identity_at X (w_disk w) (tj_predecessor_identity_id j) = Inr r \<and> ir_generation r \<noteq> tj_predecessor_generation j
       \<or> identity_at X (w_disk w) (tj_successor_identity_id j) = Inr r \<and> ir_generation r \<noteq> tj_successor_generation j"
    and "itr_expected_current_did request = tj_expected_current_did j"
  shows "(\<exists>e. fst (session_act X H call (s, w)) = Inl e)
    \<and> w_disk (snd (snd (session_act X H call (s, w)))) = w_disk w
    \<and> w_disk (snd (snd (prepare_identity_transition X H request (store, w)))) = w_disk w"
proof -
  have reload: "runs (bnd (reload_and_validate X) f) (\<lambda>_ _ _. False) (\<lambda>_ _ c'. w_disk c' = w_disk w) s (core w)"
    for f :: "_ \<Rightarrow> (identity_transition_session, 'a) act"
    unfolding reload_and_validate_def Let_def bnd_assoc
    using assms(4,6)
    by (auto intro!: runs_step_engine runs_step_ask [OF safe_read_transition] runs_step_lift
        runs_step_identity)
  have "runs (session_act X H call) (\<lambda>_ _ _. False) (\<lambda>_ _ c'. w_disk c' = w_disk w) s (core w)"
    using assms(1)
    by (cases call)
       (auto simp: begin_transition_publication_def complete_transition_def reconcile_transition_def bnd_assoc
          intro!: runs_step_locked reload)
  moreover have "prepared X (itr_expected_current_did request) (w_disk w)
      (w_disk (snd (snd (prepare_identity_transition X H request (store, w)))))"
    using runs_run [OF prepare_prepares [OF core_calm(1) assms(2,3), of H request w]]
    by (auto split: prod.splits sum.splits)
  ultimately show ?thesis
    using runs_run [of "session_act X H call"] assms(4,5,7)
    by (fastforce simp: prepared_def split: prod.splits sum.splits)
qed

section \<open>Samples\<close>

definition sample_successor :: identity_record where
  "sample_successor = sample_root_record\<lparr>ir_identity_id := ''j''\<rparr>"

definition sample_digest :: "json \<Rightarrow> string" where
  "sample_digest doc = (case document_digest sample_ext doc of Inr d \<Rightarrow> d | _ \<Rightarrow> [])"

definition sample_transition :: "transition_journal_state \<Rightarrow> identity_transition_journal" where
  "sample_transition st = (new_identity_transition_journal ''op'' sample_did ''i'' (ir_generation sample_record)
     sample_root_did ''j'' (ir_generation sample_successor) sample_document sample_document
     sample_root_document (sample_digest sample_document) (sample_digest sample_root_document)
     ''verified'' [])\<lparr>tj_state := st\<rparr>"

definition transition_world :: "transition_journal_state \<Rightarrow> string option list \<Rightarrow> world" where
  "transition_world st fs = (sample_world fs)\<lparr>w_disk := empty_disk\<lparr>
     d_identities := [(identity_path sample_ext ''i'', Parsed sample_record),
       (identity_path sample_ext ''j'', Parsed sample_successor)],
     d_registry := Some (Parsed \<lparr>rg_schema_version = 1, rg_generation = 0,
       rg_identities = [(sample_root_did, summary sample_successor), (sample_did, summary sample_record)]\<rparr>),
     d_transition_journals := [(identity_transition_journal_path sample_ext ''op'', Parsed (sample_transition st))]\<rparr>\<rparr>"

definition sample_session :: "transition_journal_state \<Rightarrow> identity_transition_session" where
  "sample_session st = \<lparr>its_runtime = sample_runtime, its_journal = sample_transition st,
     its_candidate = \<lparr>pit_operation_id = ''op'', pit_expected_current_did = sample_did,
       pit_successor_did = sample_root_did, pit_predecessor_document = sample_document,
       pit_successor_document = sample_root_document, pit_predecessor_digest = sample_digest sample_document,
       pit_successor_digest = sample_digest sample_root_document, pit_assurance = ''verified''\<rparr>\<rparr>"

definition sample_confirmation :: session_call where
  "sample_confirmation = Complete_Publication (attempt_from_journal (sample_transition TJ_PublicationInFlight))
     (Tr_Confirmed \<lparr>te_predecessor_digest = sample_digest sample_document,
       te_successor_digest = sample_digest sample_root_document\<rparr>)"

definition sample_takeover :: identity_transition_request where
  "sample_takeover = \<lparr>itr_expected_current_did = sample_root_did, itr_operation_id = ''op'',
     itr_successor = \<lparr>ref_store_id = ''s'', ref_identity_id = ''i'', ref_did = sample_did\<rparr>,
     itr_transition_document = Some sample_root_document\<rparr>"

lemma sample_confirms:
  "fst (session_act sample_ext sample_host sample_confirmation
     (sample_session TJ_PublicationInFlight, transition_world TJ_PublicationInFlight []))
   = Inr (Some (Tr_Committed sample_root_did))"
  by code_simp

lemma sample_session_wf: "wf_runtime (its_runtime (sample_session st))"
  by (simp add: sample_session_def)

lemma sample_confirms_pair:
  "session_act sample_ext sample_host sample_confirmation
     (sample_session TJ_PublicationInFlight, transition_world TJ_PublicationInFlight [])
   = (Inr (Some (Tr_Committed sample_root_did)), snd (session_act sample_ext sample_host sample_confirmation
     (sample_session TJ_PublicationInFlight, transition_world TJ_PublicationInFlight [])))"
  by (rule prod_eqI) (simp_all only: sample_confirms fst_conv snd_conv)

theorem transition_session_refines_machine_witness:
  "\<exists>s' w'. session_act sample_ext sample_host sample_confirmation
       (sample_session TJ_PublicationInFlight, transition_world TJ_PublicationInFlight [])
     = (Inr (Some (Tr_Committed sample_root_did)), (s', w'))
   \<and> tj_state (its_journal s') = TJ_Committed"
proof -
  obtain s' w' where r: "session_act sample_ext sample_host sample_confirmation
       (sample_session TJ_PublicationInFlight, transition_world TJ_PublicationInFlight [])
     = (Inr (Some (Tr_Committed sample_root_did)), (s', w'))"
    using sample_confirms_pair by (metis prod.collapse)
  from transition_session_refines_machine [OF sample_session_wf r]
  have "tj_state (its_journal s') = TJ_Committed" by (simp add: answered_def)
  with r show ?thesis by blast
qed

theorem transition_commits_only_on_evidence_witness:
  "\<exists>j. transition_at sample_ext (w_disk (transition_world TJ_PublicationInFlight []))
       (tj_operation_id (its_journal (sample_session TJ_PublicationInFlight))) = Inr j
     \<and> evidence_of sample_ext sample_host j sample_confirmation"
  using transition_commits_only_on_evidence [OF sample_session_wf sample_confirms_pair] by blast

lemma decode_single:
  "decode_transition_journal i (dir_get [(n, Parsed k)] m) = Inr j \<Longrightarrow> i = tj_operation_id k"
  by (auto simp: dir_get_def split: if_splits)

lemma transition_world_journals:
  "d_transition_journals (w_disk (transition_world st fs))
     = [(identity_transition_journal_path sample_ext ''op'', Parsed (sample_transition st))]"
  by (simp add: transition_world_def)

lemma sample_transition_fields:
  "tj_operation_id (sample_transition st) = ''op''" "tj_expected_current_did (sample_transition st) = sample_did"
  "tj_state (sample_transition st) = st" "tj_valid (sample_transition st)"
  by (simp_all add: sample_transition_def new_identity_transition_journal_def)

lemma transition_world_at:
  "transition_at sample_ext (w_disk (transition_world st fs)) ''op'' = Inr (sample_transition st)"
  using sample_transition_fields [of st] by (simp add: transition_world_journals dir_get_def)

lemma transition_world_sole: "sole sample_ext (w_disk (transition_world st fs))"
  unfolding sole_def transition_world_journals using decode_single by metis

theorem one_transition_per_predecessor_witness:
  "{i. \<exists>j. transition_at sample_ext (w_disk (transition_world TJ_Prepared [])) i = Inr j
     \<and> tj_expected_current_did j = sample_did \<and> tj_state j \<noteq> TJ_Aborted} = {''op''}"
proof -
  let ?d = "w_disk (transition_world TJ_Prepared [])"
  have "transitions_reach sample_ext sample_host ?d ?d" by (rule transitions_reach.start)
  from one_transition_per_predecessor [OF this sample_named_files transition_world_sole _ transition_world_at]
  have "i = ''op''" if "transition_at sample_ext ?d i = Inr j" "tj_expected_current_did j = sample_did"
    "tj_state j \<noteq> TJ_Aborted" for i j
    using that sample_transition_fields [of TJ_Prepared] by simp
  moreover have "transition_at sample_ext ?d ''op'' = Inr (sample_transition TJ_Prepared)"
    by (rule transition_world_at)
  moreover have "tj_state (sample_transition TJ_Prepared) \<noteq> TJ_Aborted"
    "tj_expected_current_did (sample_transition TJ_Prepared) = sample_did"
    by (simp_all add: sample_transition_fields)
  ultimately show ?thesis by blast
qed

theorem changed_identity_blocks_transition_witness:
  "\<exists>e. fst (session_act sample_ext sample_host sample_confirmation (sample_session TJ_PublicationInFlight,
     (transition_world TJ_PublicationInFlight [])\<lparr>w_disk := (w_disk (transition_world TJ_PublicationInFlight []))
       \<lparr>d_identities := [(identity_path sample_ext ''i'', Parsed (sample_record\<lparr>ir_generation := 9\<rparr>)),
          (identity_path sample_ext ''j'', Parsed sample_successor)]\<rparr>\<rparr>)) = Inl e"
  (is "\<exists>e. fst (session_act _ _ _ (_, ?w)) = Inl e")
proof -
  let ?j = "sample_transition TJ_PublicationInFlight"
  have at: "transition_at sample_ext (w_disk ?w) (tj_operation_id (its_journal (sample_session TJ_PublicationInFlight))) = Inr ?j"
    using transition_world_at [of TJ_PublicationInFlight "[]"]
    by (simp add: sample_session_def sample_transition_fields)
  have "identity_at sample_ext (w_disk ?w) (tj_predecessor_identity_id ?j) = Inr (sample_record\<lparr>ir_generation := 9\<rparr>)
      \<and> ir_generation (sample_record\<lparr>ir_generation := 9\<rparr>) \<noteq> tj_predecessor_generation ?j"
    by code_simp
  from changed_identity_blocks_transition [OF sample_session_wf sample_wf_runtime sample_named_files at _ disjI1 [OF this],
      where request = "sample_takeover\<lparr>itr_expected_current_did := sample_did\<rparr>"]
  show ?thesis by (simp add: sample_transition_fields)
qed

text \<open>
  When the read of its own journal fails, preparing takes the operation identifier for unused: a
  transition of another identity that is in flight under the same identifier is replaced.
\<close>
theorem failed_read_overwrites_transition:
  "case prepare_identity_transition sample_ext sample_host sample_takeover
      (sample_store, transition_world TJ_PublicationInFlight (replicate 6 None @ [Some ''read error''])) of
     (r, (_, w)) \<Rightarrow> is_ok r \<and> (case transition_at sample_ext (w_disk w) ''op'' of
        Inl _ \<Rightarrow> False
      | Inr j \<Rightarrow> tj_expected_current_did j = sample_root_did \<and> tj_state j = TJ_Prepared)"
  by code_simp

end
