(* ===== verification/Root_Import_Recovery.thy ===== *)
theory Root_Import_Recovery
  imports Root_Transfer Recovery Sample_Records
begin

text \<open>
  The import of a root key under every failure schedule: the disks an interrupted import can
  leave, what recovery makes of each of them, and the resulting atomicity.
\<close>

section \<open>The imported record\<close>

definition import_ref :: "identity_record \<Rightarrow> string \<Rightarrow> key_metadata \<Rightarrow> secret_ref" where
  "import_ref r kid root = \<lparr>sr_identity_id = ir_identity_id r, sr_key_id = kid, sr_role = RootControl,
     sr_version = km_version root\<rparr>"

definition imported_record ::
  "ext \<Rightarrow> identity_record \<Rightarrow> string \<Rightarrow> string \<Rightarrow> string \<Rightarrow> string \<Rightarrow> int \<Rightarrow> identity_record \<Rightarrow> bool" where
  "imported_record X r kid nonce digest expires now r' \<longleftrightarrow> (\<exists>p n. mark_root_pending kid r = Inr p
     \<and> checked_add1 (ir_generation r) = Some n
     \<and> r' = (push_replay (p\<lparr>ir_pending_root_transfer := Some \<lparr>pt_transfer_digest = digest, pt_root_kid = kid,
               pt_imported_at = timestamp X now\<rparr>\<rparr>) nonce digest expires)\<lparr>ir_generation := n\<rparr>)"

definition entry_updated :: "identity_registry \<Rightarrow> identity_record \<Rightarrow> u64 \<Rightarrow> identity_registry" where
  "entry_updated g r n = g\<lparr>rg_identities := btree_insert (ir_did r) (summary r) (rg_identities g),
     rg_generation := n\<rparr>"

lemma update_first_member:
  "update_first P f xs = Some ys \<Longrightarrow> \<exists>x \<in> set xs. P x \<and> f x \<in> set ys"
  by (induction P f xs arbitrary: ys rule: update_first.induct) (auto split: if_splits option.splits)

lemma imported_fields:
  assumes "imported_record X r kid nonce digest expires now r'"
  shows "ir_schema_version r' = ir_schema_version r" "ir_identity_id r' = ir_identity_id r" "ir_did r' = ir_did r"
    "ir_document r' = ir_document r" "ir_root_key_fingerprint r' = ir_root_key_fingerprint r"
    "ir_checkpoint r' = ir_checkpoint r" "ir_local_authorization r' = ir_local_authorization r"
    "ir_root_capability r' = Root_Pending"
  using assms
  by (auto simp: imported_record_def mark_root_pending_def rbind_Inr_iff push_replay_def Let_def)

lemma imported_committed:
  assumes "imported_record X r kid nonce digest expires now r'"
    and "\<And>k. k \<in> set (ir_keys r) \<Longrightarrow> km_role k = RootControl \<Longrightarrow> \<not> km_material_erased k"
  shows "root_import_committed r'"
proof -
  obtain keys where "update_first (\<lambda>k. km_role k = RootControl \<and> km_kid k = kid)
      (\<lambda>k. k\<lparr>km_origin := Managed, km_state := Key_Pending\<rparr>) (ir_keys r) = Some keys" "ir_keys r' = keys"
    "ir_root_capability r' = Root_Pending"
    using assms(1)
    by (auto simp: imported_record_def mark_root_pending_def rbind_Inr_iff push_replay_def Let_def)
  moreover from update_first_member [OF this(1)] obtain k where "k \<in> set (ir_keys r)" "km_role k = RootControl"
    "k\<lparr>km_origin := Managed, km_state := Key_Pending\<rparr> \<in> set keys" by blast
  ultimately show ?thesis
    using assms(2) unfolding root_import_committed_def list_ex_iff
    by (intro conjI bexI [of _ "k\<lparr>km_origin := Managed, km_state := Key_Pending\<rparr>"]) simp_all
qed

text \<open>What the reader guarantees of a record, as far as a rewritten record needs it.\<close>

lemma decode_identity_facts:
  assumes "decode_identity X i c = Inr r"
  obtains profile where "ir_schema_version r = IDENTITY_SCHEMA_VERSION" "ir_identity_id r = i"
    "for_did X (ir_did r) = Inr profile" "ir_checkpoint r \<noteq> None"
    "supports_root_control profile \<or> ir_root_key_fingerprint r = None"
proof -
  from assms obtain q where c: "c = Some (Parsed q)" by (cases c; cases "the c") simp_all
  from assms obtain x y profile where q: "ir_schema_version q = IDENTITY_SCHEMA_VERSION" "ir_identity_id q = i"
    "for_did X (ir_did q) = Inr profile"
    and x: "(if supports_root_control profile
               \<and> (case ir_root_key_fingerprint q of None \<Rightarrow> True | Some f \<Rightarrow> f = [])
            then rbind (root_key_fingerprint X (ir_document q)) (\<lambda>f.
                   Inr (q\<lparr>ir_root_key_fingerprint := Some f\<rparr>))
            else if \<not> supports_root_control profile
                    \<and> (ir_root_key_fingerprint q \<noteq> None \<or> ir_root_capability q \<noteq> Root_Absent
                        \<or> list_ex (\<lambda>k. km_role k = RootControl) (ir_keys q))
            then Inl InvalidIdentity
            else Inr q) = Inr x"
    and y: "(if ir_checkpoint x = None
            then rbind (document_digest X (ir_document x)) (\<lambda>digest.
                   Inr (x\<lparr>ir_checkpoint := Some \<lparr>ck_document_version = ir_revision x,
                     ck_registry_version = 1, ck_document_digest = digest\<rparr>\<rparr>))
            else Inr x) = Inr y"
    and r: "(if ir_local_authorization y = None
       then rbind (infer_local_authorization X (ir_document y) (ir_keys y)) (\<lambda>a.
              Inr (y\<lparr>ir_local_authorization := a\<rparr>))
       else Inr y) = Inr r"
    unfolding c decode_identity.simps rbind_Inr_iff ensure_Inr_iff by blast
  have "ir_schema_version x = ir_schema_version q \<and> ir_identity_id x = ir_identity_id q \<and> ir_did x = ir_did q
      \<and> (supports_root_control profile \<or> ir_root_key_fingerprint x = None)"
    using x by (auto simp: rbind_Inr_iff split: if_splits)
  moreover have "ir_schema_version y = ir_schema_version x \<and> ir_identity_id y = ir_identity_id x
      \<and> ir_did y = ir_did x \<and> ir_root_key_fingerprint y = ir_root_key_fingerprint x \<and> ir_checkpoint y \<noteq> None"
    using y by (auto simp: rbind_Inr_iff split: if_splits)
  moreover have "ir_schema_version r = ir_schema_version y \<and> ir_identity_id r = ir_identity_id y
      \<and> ir_did r = ir_did y \<and> ir_root_key_fingerprint r = ir_root_key_fingerprint y
      \<and> ir_checkpoint r = ir_checkpoint y"
    using r by (auto simp: rbind_Inr_iff split: if_splits)
  ultimately show ?thesis using q by (intro that [of profile]) simp_all
qed

lemma imported_reads_back:
  assumes "decode_identity X i c = Inr r" "imported_record X r kid nonce digest expires now r'"
    and "root_key_fingerprint X (ir_document r) = Inr f" "ir_root_key_fingerprint r = Some f"
    and "ir_local_authorization r \<noteq> None"
  shows "decode_identity X i (Some (Parsed r')) = Inr r'"
proof -
  obtain profile where "ir_schema_version r = IDENTITY_SCHEMA_VERSION" "ir_identity_id r = i"
    "for_did X (ir_did r) = Inr profile" "ir_checkpoint r \<noteq> None"
    "supports_root_control profile \<or> ir_root_key_fingerprint r = None"
    by (rule decode_identity_facts [OF assms(1)])
  with imported_fields [OF assms(2)] assms(3-5) show ?thesis by auto
qed

section \<open>The disks of an import\<close>

text \<open>The sealed records that hold the imported key.\<close>

definition sealed_root :: "ext \<Rightarrow> bytes \<Rightarrow> secret_ref \<Rightarrow> bytes \<Rightarrow> encrypted_record set" where
  "sealed_root X k ref raw = {e. open_record X k e = Inr raw \<and> er_secret_ref e = ref}"

definition import_done ::
  "ext \<Rightarrow> encrypted_record set \<Rightarrow> secret_ref \<Rightarrow> identity_record \<Rightarrow> identity_registry \<Rightarrow> disk \<Rightarrow> disk \<Rightarrow> bool" where
  "import_done X S ref r' g d d' \<longleftrightarrow> (\<exists>e n. e \<in> S \<and> checked_add1 (rg_generation g) = Some n
     \<and> d' = d\<lparr>d_records := dir_put (record_path X ref) (Parsed e) (d_records d),
              d_identities := dir_put (identity_path X (ir_identity_id r')) (Parsed r') (d_identities d),
              d_registry := Some (Parsed (entry_updated g r' n))\<rparr>)"

definition importing ::
  "ext \<Rightarrow> encrypted_record set \<Rightarrow> secret_ref \<Rightarrow> identity_record \<Rightarrow> identity_registry \<Rightarrow> creation_journal \<Rightarrow> disk \<Rightarrow> disk \<Rightarrow> bool" where
  "importing X S ref r' g j d d' \<longleftrightarrow>
     (let dj = (\<lambda>e. d\<lparr>d_journals := dir_put (journal_path X (cj_transaction_id j)) (Parsed j) (d_journals d),
            d_records := dir_put (record_path X ref) (Parsed e) (d_records d),
            d_identities := dir_put (identity_path X (ir_identity_id r')) (Parsed r') (d_identities d)\<rparr>)
      in (\<exists>e \<in> S. d' = dj e)
         \<or> (\<exists>e n. e \<in> S \<and> checked_add1 (rg_generation g) = Some n
              \<and> d' = (dj e)\<lparr>d_registry := Some (Parsed (entry_updated g r' n))\<rparr>))"

definition import_journal_of :: "creation_journal \<Rightarrow> identity_record \<Rightarrow> secret_ref \<Rightarrow> bool" where
  "import_journal_of j r ref \<longleftrightarrow> cj_valid j \<and> cj_kind j = CJ_RootImport \<and> cj_identity_id j = ir_identity_id r
     \<and> cj_did j = ir_did r \<and> cj_secret_refs j = [ref]"

text \<open>An import on the disk \<open>d\<close> that left its journal behind.\<close>

definition import_unfinished ::
  "ext \<Rightarrow> encrypted_record set \<Rightarrow> identity_record \<Rightarrow> string \<Rightarrow> key_metadata \<Rightarrow> string \<Rightarrow> string \<Rightarrow> string \<Rightarrow> identity_registry
     \<Rightarrow> disk \<Rightarrow> disk \<Rightarrow> bool" where
  "import_unfinished X S r kid root nonce digest expires g d d' \<longleftrightarrow> (\<exists>j.
     import_journal_of j r (import_ref r kid root)
     \<and> dir_get (d_journals d) (journal_path X (cj_transaction_id j)) = None
     \<and> (d' = d\<lparr>d_journals := dir_put (journal_path X (cj_transaction_id j)) (Parsed j) (d_journals d)\<rparr>
        \<or> (\<exists>e. d' = d\<lparr>d_journals := dir_put (journal_path X (cj_transaction_id j)) (Parsed j) (d_journals d),
              d_records := dir_put (record_path X (import_ref r kid root)) (Parsed e) (d_records d)\<rparr>)
        \<or> (\<exists>now r'. imported_record X r kid nonce digest expires now r'
             \<and> importing X S (import_ref r kid root) r' g j d d')))"

section \<open>The import under every failure schedule\<close>

lemma safe_seal_root_key:
  assumes "wf_runtime rt" "calm c" "codec_ok X" "fills c" "dir_get (d_records (w_disk c)) (record_path X ref) = None"
    and "\<And>e c'. calm c' \<Longrightarrow> w_disk c' = w_disk c \<Longrightarrow> E e c'"
    and "\<And>e c' d'. calm c' \<Longrightarrow> e \<in> sealed_root X (rt_root_key rt) ref raw
      \<Longrightarrow> d' = (w_disk c)\<lparr>d_records := dir_put (record_path X ref) (Parsed e) (d_records (w_disk c))\<rparr>
      \<Longrightarrow> Q () (c'\<lparr>w_disk := d'\<rparr>) \<and> (\<forall>msg. E (Io msg) (c'\<lparr>w_disk := d'\<rparr>))"
  shows "safe (seal_root_key X rt (guard_of (rt_root rt)) ref raw public) Q E c"
proof -
  let ?Q = "\<lambda>x c'. x = Sealed \<and> Q () c'"
  have "safe (bnd (seal_record X (rt_root_key rt) ref raw) (\<lambda>e.
      bnd (write_atomic_private (\<lambda>d. d\<lparr>d_records :=
        dir_put (record_path X ref) (Parsed e) (d_records d)\<rparr>)) (\<lambda>_. ret Sealed))) ?Q E c"
  proof (rule safe_bnd, rule safe_disk_pure [OF disk_pure_seal_record assms(2)])
    fix e c'
    assume e: "seal_record X (rt_root_key rt) ref raw c = (Inr e, c')" "w_disk c' = w_disk c"
    from seal_record_opens [OF assms(3,4) e(1)] have "e \<in> sealed_root X (rt_root_key rt) ref raw"
      by (simp add: sealed_root_def)
    with assms(6,7) e(2) show "calm c' \<longrightarrow> safe (bnd (write_atomic_private (\<lambda>d. d\<lparr>d_records :=
        dir_put (record_path X ref) (Parsed e) (d_records d)\<rparr>)) (\<lambda>_. ret Sealed)) ?Q E c'"
      by (auto intro!: safe_intros)
  qed (use assms(6) in blast)
  then have "safe (ks_seal_if_absent X (rt_key_store rt) (guard_of (rt_root rt)) (rt_root_key rt) ref raw) ?Q E c"
    unfolding ks_seal_if_absent_def using assms(1,2,5,6) by (auto intro!: safe_intros)
  then show ?thesis
    unfolding seal_root_key_def by (intro safe_bnd, elim safe_mono) (auto intro: safe_ret)
qed

text \<open>From the record on: the registry and the end of the journal.\<close>

lemma safe_import_finish:
  assumes "calm c" "wf_runtime rt" "registry_at d = Inr g" "import_journal_of j r ref"
    and "dir_get (d_journals d) (journal_path X (cj_transaction_id j)) = None"
    and c: "w_disk c = d\<lparr>d_journals := dir_put (journal_path X (cj_transaction_id j)) (Parsed j) (d_journals d),
      d_records := dir_put (record_path X ref) (Parsed e) (d_records d)\<rparr>"
    and e: "e \<in> S"
    and E: "\<And>e c'. importing X S ref r' g j d (w_disk c') \<Longrightarrow> E e c'" "\<And>e. E e c"
    and Q: "\<And>c'. calm c' \<Longrightarrow> import_done X S ref r' g d (w_disk c') \<Longrightarrow> safe f Q E c'"
  shows "safe (bnd (write_identity X (rt_root rt) (guard_of (rt_root rt)) r') (\<lambda>_.
     bnd (update_summary (rt_root rt) (guard_of (rt_root rt)) r') (\<lambda>_.
     bnd (remove_journal X (rt_root rt) (guard_of (rt_root rt)) (cj_transaction_id j)) (\<lambda>_. f)))) Q E c"
proof -
  have reg: "registry_at (w_disk c\<lparr>d_identities := ids\<rparr>) = Inr g" for ids using assms(3) c by simp
  have stage: "importing X S ref r' g j d (w_disk c\<lparr>d_identities :=
      dir_put (identity_path X (ir_identity_id r')) (Parsed r') (d_identities (w_disk c))\<rparr>)"
    "checked_add1 (rg_generation g) = Some n \<Longrightarrow> importing X S ref r' g j d (w_disk c\<lparr>d_identities :=
      dir_put (identity_path X (ir_identity_id r')) (Parsed r') (d_identities (w_disk c)),
      d_registry := Some (Parsed (entry_updated g r' n))\<rparr>)"
    "checked_add1 (rg_generation g) = Some n \<Longrightarrow> import_done X S ref r' g d (w_disk c\<lparr>d_identities :=
      dir_put (identity_path X (ir_identity_id r')) (Parsed r') (d_identities (w_disk c)),
      d_registry := Some (Parsed (entry_updated g r' n)),
      d_journals := dir_del (journal_path X (cj_transaction_id j)) (d_journals (w_disk c))\<rparr>)" for n
    using assms(5) e by (auto simp: importing_def import_done_def Let_def c dir_del_put_fresh)
  show ?thesis
    unfolding update_summary_def entry_updated_def [symmetric]
    using assms(1) reg stage E Q by (auto intro!: safe_intros)
qed

definition import_tail ::
  "ext \<Rightarrow> did_identity \<Rightarrow> store_write_guard \<Rightarrow> identity_record \<Rightarrow> string \<Rightarrow> string \<Rightarrow> string \<Rightarrow> string
     \<Rightarrow> string \<Rightarrow> int \<Rightarrow> (did_identity \<times> root_transfer_import_outcome) io" where
  "import_tail X i guard r kid nonce digest expires tid now =
     (let rt = di_runtime i in
     bnd (lift (mark_root_pending kid r)) (\<lambda>p.
     let r = push_replay (p\<lparr>ir_pending_root_transfer := Some \<lparr>pt_transfer_digest = digest,
           pt_root_kid = kid, pt_imported_at = timestamp X now\<rparr>\<rparr>) nonce digest expires in
     bnd (lift (ok_or (checked_add1 (ir_generation r)) Conflict)) (\<lambda>n.
     let r = r\<lparr>ir_generation := n\<rparr> in
     bnd (write_identity X (rt_root rt) guard r) (\<lambda>_.
     bnd (update_summary (rt_root rt) guard r) (\<lambda>_.
     bnd (remove_journal X (rt_root rt) guard tid) (\<lambda>_.
     ret (replace_record i r, Import_Pending)))))))"

lemma import_new_root_tail:
  "import_new_root X i guard r kid raw public nonce digest expires =
     bnd (lift (verify_root_public X r kid public)) (\<lambda>_.
     bnd (lift (ok_or (find (\<lambda>k. km_role k = RootControl \<and> km_kid k = kid) (ir_keys r)) KeyNotFound)) (\<lambda>root.
     bnd (random_id X) (\<lambda>tid.
     bnd utc_now (\<lambda>now.
     bnd (write_journal X (rt_root (di_runtime i)) guard (new_root_import tid (ir_identity_id r) (ir_did r)
            [import_ref r kid root] (timestamp X now))) (\<lambda>_.
     bnd (seal_root_key X (di_runtime i) guard (import_ref r kid root) raw public) (\<lambda>_.
     import_tail X i guard r kid nonce digest expires tid now))))))"
  by (simp add: import_new_root_def import_tail_def import_ref_def Let_def)

lemma safe_import_tail:
  assumes "calm c" "wf_runtime (di_runtime i)" "registry_at d = Inr g" "import_journal_of j r (import_ref r kid root)"
    and "dir_get (d_journals d) (journal_path X (cj_transaction_id j)) = None"
    and c: "w_disk c = d\<lparr>d_journals := dir_put (journal_path X (cj_transaction_id j)) (Parsed j) (d_journals d),
      d_records := dir_put (record_path X (import_ref r kid root)) (Parsed e) (d_records d)\<rparr>"
    and e: "e \<in> S"
  shows "safe (import_tail X i (guard_of (rt_root (di_runtime i))) r kid nonce digest expires (cj_transaction_id j) now)
    (\<lambda>x c'. \<exists>r'. imported_record X r kid nonce digest expires now r'
       \<and> x = (replace_record i r', Import_Pending) \<and> import_done X S (import_ref r kid root) r' g d (w_disk c'))
    (\<lambda>_ c'. import_unfinished X S r kid root nonce digest expires g d (w_disk c')) c"
proof -
  let ?new = "\<lambda>p. push_replay (p\<lparr>ir_pending_root_transfer := Some \<lparr>pt_transfer_digest = digest,
      pt_root_kid = kid, pt_imported_at = timestamp X now\<rparr>\<rparr>) nonce digest expires"
  have gen: "ir_generation (?new p) = ir_generation r" if "mark_root_pending kid r = Inr p" for p
    using that by (auto simp: mark_root_pending_def rbind_Inr_iff push_replay_def Let_def)
  have new: "imported_record X r kid nonce digest expires now ((?new p)\<lparr>ir_generation := n\<rparr>)"
    if "mark_root_pending kid r = Inr p" "checked_add1 (ir_generation r) = Some n" for p n
    using that by (auto simp: imported_record_def)
  have here: "import_unfinished X S r kid root nonce digest expires g d (w_disk c)"
    unfolding import_unfinished_def using assms(4,5) c by auto
  have later: "import_unfinished X S r kid root nonce digest expires g d d'"
    if "imported_record X r kid nonce digest expires now r'" "importing X S (import_ref r kid root) r' g j d d'" for r' d'
    unfolding import_unfinished_def using assms(4,5) that by blast
  have finish: "safe (bnd (write_identity X (rt_root (di_runtime i)) (guard_of (rt_root (di_runtime i))) r') (\<lambda>_.
       bnd (update_summary (rt_root (di_runtime i)) (guard_of (rt_root (di_runtime i))) r') (\<lambda>_.
       bnd (remove_journal X (rt_root (di_runtime i)) (guard_of (rt_root (di_runtime i))) (cj_transaction_id j)) (\<lambda>_.
       ret (replace_record i r', Import_Pending)))))
     (\<lambda>x c'. \<exists>r'. imported_record X r kid nonce digest expires now r'
       \<and> x = (replace_record i r', Import_Pending) \<and> import_done X S (import_ref r kid root) r' g d (w_disk c'))
     (\<lambda>_ c'. import_unfinished X S r kid root nonce digest expires g d (w_disk c')) c"
    if "imported_record X r kid nonce digest expires now r'" for r'
    by (rule safe_import_finish [OF assms(1-5) c e])
       (use here later that in \<open>auto intro!: safe_ret\<close>)
  show ?thesis
    unfolding import_tail_def Let_def
    by (rule safe_bnd, rule safe_lift, rule assms(1), rule here, rule impI, rule safe_bnd, rule safe_lift)
       (use assms(1) here finish new gen in auto)
qed

lemma safe_import_new_root:
  fixes raw :: bytes
  assumes "calm c" "wf_runtime (di_runtime i)" "registry_at (w_disk c) = Inr g"
    and fresh: "\<And>n. dir_get (d_journals (w_disk c)) (journal_path X (b64u_encode X (w_random c n 16))) = None"
    and root: "find (\<lambda>k. km_role k = RootControl \<and> km_kid k = kid) (ir_keys r) = Some root"
    and codec: "codec_ok X" "fills c"
    and absent: "dir_get (d_records (w_disk c)) (record_path X (import_ref r kid root)) = None"
  defines "S \<equiv> sealed_root X (rt_root_key (di_runtime i)) (import_ref r kid root) raw"
  shows "safe (import_new_root X i (guard_of (rt_root (di_runtime i))) r kid raw public nonce digest expires)
    (\<lambda>x c'. \<exists>now r'. verify_root_public X r kid public = Inr () \<and> imported_record X r kid nonce digest expires now r'
       \<and> x = (replace_record i r', Import_Pending)
       \<and> import_done X S (import_ref r kid root) r' g (w_disk c) (w_disk c'))
    (\<lambda>_ c'. w_disk c' = w_disk c
       \<or> verify_root_public X r kid public = Inr ()
         \<and> import_unfinished X S r kid root nonce digest expires g (w_disk c) (w_disk c')) c"
proof -
  let ?d = "w_disk c" and ?ref = "import_ref r kid root"
  have sealing: "safe (bnd (seal_root_key X (di_runtime i) (guard_of (rt_root (di_runtime i))) ?ref raw public) (\<lambda>_.
       import_tail X i (guard_of (rt_root (di_runtime i))) r kid nonce digest expires (cj_transaction_id j) now))
     (\<lambda>x c'. \<exists>now r'. imported_record X r kid nonce digest expires now r'
       \<and> x = (replace_record i r', Import_Pending) \<and> import_done X S ?ref r' g ?d (w_disk c'))
     (\<lambda>_ c'. import_unfinished X S r kid root nonce digest expires g ?d (w_disk c')) c2"
    if j: "import_journal_of j r ?ref" "dir_get (d_journals ?d) (journal_path X (cj_transaction_id j)) = None"
      and c2: "calm c2" "w_random c2 = w_random c" "w_disk c2 = ?d\<lparr>d_journals := dir_put (journal_path X (cj_transaction_id j)) (Parsed j) (d_journals ?d)\<rparr>"
    for now j c2
  proof (rule safe_bnd, rule safe_seal_root_key [OF assms(2) c2(1) codec(1)])
    fix e c' d'
    assume c': "calm c'" and e: "e \<in> sealed_root X (rt_root_key (di_runtime i)) ?ref raw"
      and d': "d' = (w_disk c2)\<lparr>d_records := dir_put (record_path X ?ref) (Parsed e) (d_records (w_disk c2))\<rparr>"
    have un: "import_unfinished X S r kid root nonce digest expires g ?d d'"
      unfolding import_unfinished_def using j c2 d' by auto
    show "(calm (c'\<lparr>w_disk := d'\<rparr>) \<longrightarrow> safe (import_tail X i (guard_of (rt_root (di_runtime i))) r kid nonce digest expires
          (cj_transaction_id j) now)
       (\<lambda>x c'. \<exists>now r'. imported_record X r kid nonce digest expires now r'
         \<and> x = (replace_record i r', Import_Pending) \<and> import_done X S ?ref r' g ?d (w_disk c'))
       (\<lambda>_ c'. import_unfinished X S r kid root nonce digest expires g ?d (w_disk c')) (c'\<lparr>w_disk := d'\<rparr>))
      \<and> (\<forall>msg. import_unfinished X S r kid root nonce digest expires g ?d (w_disk (c'\<lparr>w_disk := d'\<rparr>)))"
    proof (intro conjI impI allI)
      assume "calm (c'\<lparr>w_disk := d'\<rparr>)"
      then show "safe (import_tail X i (guard_of (rt_root (di_runtime i))) r kid nonce digest expires
          (cj_transaction_id j) now)
       (\<lambda>x c'. \<exists>now r'. imported_record X r kid nonce digest expires now r'
         \<and> x = (replace_record i r', Import_Pending) \<and> import_done X S ?ref r' g ?d (w_disk c'))
       (\<lambda>_ c'. import_unfinished X S r kid root nonce digest expires g ?d (w_disk c')) (c'\<lparr>w_disk := d'\<rparr>)"
        by (rule safe_mono [OF safe_import_tail [OF _ assms(2,3) j, where e = e]]) (use c2(3) d' e in \<open>auto simp: S_def\<close>)
    qed (use un in simp)
  qed (use absent c2 j codec(2) in \<open>auto simp: import_unfinished_def fills_def\<close>)
  have journal: "import_journal_of (new_root_import tid (ir_identity_id r) (ir_did r) [?ref] at) r ?ref" for tid at
    by (simp add: import_journal_of_def new_root_import_def)
  have tid: "cj_transaction_id (new_root_import tid a b xs at) = tid" for tid a b xs at
    by (simp add: new_root_import_def)
  let ?g = "guard_of (rt_root (di_runtime i))"
  let ?j = "\<lambda>tid now. new_root_import tid (ir_identity_id r) (ir_did r) [?ref] (timestamp X now)"
  have journalled: "safe (bnd (write_journal X (rt_root (di_runtime i)) ?g (?j t now)) (\<lambda>_.
       bnd (seal_root_key X (di_runtime i) ?g ?ref raw public) (\<lambda>_.
       import_tail X i ?g r kid nonce digest expires t now)))
     (\<lambda>x c'. \<exists>now r'. imported_record X r kid nonce digest expires now r'
       \<and> x = (replace_record i r', Import_Pending) \<and> import_done X S ?ref r' g ?d (w_disk c'))
     (\<lambda>_ c'. w_disk c' = ?d \<or> import_unfinished X S r kid root nonce digest expires g ?d (w_disk c')) c2"
    if t: "dir_get (d_journals ?d) (journal_path X t) = None" and c2: "calm c2" "w_random c2 = w_random c" "w_disk c2 = ?d" for t now c2
  proof -
    have un: "import_unfinished X S r kid root nonce digest expires g ?d
        (?d\<lparr>d_journals := dir_put (journal_path X t) (Parsed (?j t now)) (d_journals ?d)\<rparr>)"
      unfolding import_unfinished_def using journal t tid by (intro exI [of _ "?j t now"]) simp
    show ?thesis
      by (rule safe_bnd, rule safe_write_journal [OF c2(1)])
         (use c2 un t in \<open>auto simp: tid intro!: safe_mono [OF sealing [OF journal, unfolded tid]]\<close>)
  qed
  show ?thesis
    unfolding import_new_root_tail random_id_def
    using assms(1)
    by (auto intro!: safe_bnd [OF safe_lift] safe_bnd [OF safe_bnd [OF safe_fill_bytes]] safe_bnd [OF safe_utc_now]
        safe_ret safe_mono [OF journalled] fresh simp: root)
qed

section \<open>Recovery of an interrupted import\<close>

lemma recover_journal_import_back:
  assumes "wf_runtime rt" "calm w" "import_journal_of j r ref"
    and "identity_at X (w_disk w) (ir_identity_id r) = Inr r" "ir_root_capability r = Root_Absent"
  shows "recover_journal X rt (guard_of (rt_root rt)) g j w = (Inr g, w\<lparr>w_disk := (w_disk w)
     \<lparr>d_records := without {record_path X ref} (d_records (w_disk w)),
      d_journals := dir_del (journal_path X (cj_transaction_id j)) (d_journals (w_disk w))\<rparr>\<rparr>)"
  using assms
  by (simp add: recover_journal_def Let_def bnd_def ret_def lift_def import_journal_of_def root_import_committed_def
      without_del)

lemma recover_journal_import_forward:
  assumes "wf_runtime rt" "calm w" "import_journal_of j r ref"
    and "identity_at X (w_disk w) (ir_identity_id r) = Inr r'" "ir_did r' = ir_did r" "root_import_committed r'"
    and "if btree_get (rg_identities g) (ir_did r) = Some (summary r') then g' = g
         else \<exists>n. checked_add1 (rg_generation g) = Some n \<and> g' = entry_updated g r' n"
  shows "recover_journal X rt (guard_of (rt_root rt)) g j w = (Inr g', w\<lparr>w_disk := (w_disk w)
     \<lparr>d_registry := (if btree_get (rg_identities g) (ir_did r) = Some (summary r') then d_registry (w_disk w)
        else Some (Parsed g')),
      d_journals := dir_del (journal_path X (cj_transaction_id j)) (d_journals (w_disk w))\<rparr>\<rparr>)"
  using assms
  by (auto simp: recover_journal_def Let_def bnd_def ret_def lift_def import_journal_of_def
      refresh_registry_def entry_updated_def split: if_splits)

text \<open>A store in which a root key can be imported for the stored record \<open>r\<close>.\<close>

definition awaits_root :: "ext \<Rightarrow> disk \<Rightarrow> identity_registry \<Rightarrow> identity_record \<Rightarrow> bool" where
  "awaits_root X d g r \<longleftrightarrow> named_files X \<and> quiescent d \<and> registry_at d = Inr g
     \<and> btree_get (rg_identities g) (ir_did r) = Some (summary r) \<and> checked_add1 (rg_generation g) \<noteq> None
     \<and> identity_at X d (ir_identity_id r) = Inr r \<and> ir_root_capability r = Root_Absent
     \<and> ir_pending_root_transfer r = None \<and> ir_local_authorization r \<noteq> None
     \<and> (\<forall>k\<in>set (ir_keys r). km_role k = RootControl \<longrightarrow> \<not> km_material_erased k)"

lemma decode_entry_updated:
  "decode_registry c = Inr g \<Longrightarrow> decode_registry (Some (Parsed (entry_updated g r n))) = Inr (entry_updated g r n)"
  by (cases c; cases "the c") (auto simp: entry_updated_def default_registry_def split: if_splits)

lemma recover_import_forward:
  assumes "wf_runtime rt" "calm w" "awaits_root X d g r" "verify_root_public X r kid public = Inr ()"
    and j: "import_journal_of j r ref" "dir_get (d_journals d) (journal_path X (cj_transaction_id j)) = None" "cj_valid j"
    and r': "imported_record X r kid nonce digest expires now r'" "importing X S ref r' g j d (w_disk w)"
  shows "\<exists>d2 g2. recover X rt w = (Inr g2, w\<lparr>w_disk := d2\<rparr>) \<and> import_done X S ref r' g d d2"
proof -
  note a = assms(3) [unfolded awaits_root_def] and f = imported_fields [OF r'(1)]
  let ?js = "dir_put (journal_path X (cj_transaction_id j)) (Parsed j) (d_journals d)"
  let ?ids = "dir_put (identity_path X (ir_identity_id r)) (Parsed r') (d_identities d)"
  have ext: "extension (journal_path X (cj_transaction_id j)) = Some ''json''"
    using a by (simp add: named_files_def journal_path_def)
  have js: "entries_of cj_valid ?js = Inr [j]" "dir_del (journal_path X (cj_transaction_id j)) ?js = d_journals d"
    using a j ext by (simp_all add: quiescent_def entries_of_put_new dir_del_put_fresh)
  have reads: "decode_identity X (ir_identity_id r) (Some (Parsed r')) = Inr r'"
  proof -
    obtain k where "root_key_fingerprint X (ir_document r) = Inr k" "ir_root_key_fingerprint r = Some k"
      using assms(4) by (fastforce simp: verify_root_public_def rbind_Inr_iff)
    with a show ?thesis by (intro imported_reads_back [OF _ r'(1)]) auto
  qed
  obtain n where n: "checked_add1 (rg_generation g) = Some n" using a by auto
  let ?g = "entry_updated g r' n"
  from r'(2) f(2) n obtain e reg where w: "w_disk w = d\<lparr>d_journals := ?js, d_records :=
      dir_put (record_path X ref) (Parsed e) (d_records d), d_identities := ?ids, d_registry := reg\<rparr>"
    and reg: "reg = d_registry d \<or> reg = Some (Parsed ?g)" and e: "e \<in> S"
  proof -
    from r'(2) f(2) n consider e where "e \<in> S" "w_disk w = d\<lparr>d_journals := ?js, d_records :=
        dir_put (record_path X ref) (Parsed e) (d_records d), d_identities := ?ids, d_registry := d_registry d\<rparr>"
      | e where "e \<in> S" "w_disk w = d\<lparr>d_journals := ?js, d_records :=
        dir_put (record_path X ref) (Parsed e) (d_records d), d_identities := ?ids, d_registry := Some (Parsed ?g)\<rparr>"
      unfolding importing_def Let_def by auto
    then show ?thesis by cases (rule that, assumption, simp, assumption)+
  qed
  let ?d2 = "d\<lparr>d_records := dir_put (record_path X ref) (Parsed e) (d_records d), d_identities := ?ids,
      d_registry := Some (Parsed ?g)\<rparr>"
  have at: "identity_at X (w_disk w) (ir_identity_id r) = Inr r'" using reads by (simp add: w dir_get_put)
  have com: "root_import_committed r'" by (rule imported_committed [OF r'(1)]) (use a in auto)
  have new: "btree_get (rg_identities g) (ir_did r) \<noteq> Some (summary r')"
    using a f by (simp add: summary_def)
  have own: "btree_get (rg_identities ?g) (ir_did r) = Some (summary r')"
    using f by (simp add: entry_updated_def btree_get_insert)
  obtain g1 where g1: "registry_at (w_disk w) = Inr g1"
    and "recover_journal X rt (guard_of (rt_root rt)) g1 j w = (Inr ?g, w\<lparr>w_disk := ?d2\<rparr>)"
    using reg
  proof
    assume reg: "reg = d_registry d"
    have "recover_journal X rt (guard_of (rt_root rt)) g j w = (Inr ?g, w\<lparr>w_disk := ?d2\<rparr>)"
      using recover_journal_import_forward [OF assms(1,2) j(1) at f(3) com, of g ?g] new n by (simp add: w js)
    then show ?thesis using a reg by (intro that [of g]) (simp_all add: w)
  next
    assume reg: "reg = Some (Parsed ?g)"
    have "recover_journal X rt (guard_of (rt_root rt)) ?g j w = (Inr ?g, w\<lparr>w_disk := ?d2\<rparr>)"
      using recover_journal_import_forward [OF assms(1,2) j(1) at f(3) com, of ?g ?g] own by (simp add: w js reg)
    then show ?thesis using reg decode_entry_updated [of "d_registry d" g r' n] a
      by (intro that [of ?g]) (simp_all add: w del: decode_registry.simps)
  qed
  then have "recover X rt w = (registry_at (w_disk (w\<lparr>w_disk := ?d2\<rparr>)), w\<lparr>w_disk := ?d2\<rparr>)"
    by (intro recover_one [OF assms(1,2) g1]) (use a js assms(2) in \<open>simp_all add: w quiescent_def\<close>)
  moreover have "registry_at ?d2 = Inr ?g"
    using decode_entry_updated [of "d_registry d" g r' n] a by (simp del: decode_registry.simps)
  moreover have "import_done X S ref r' g d ?d2" using n f(2) e by (auto simp: import_done_def)
  ultimately show ?thesis by auto
qed

lemma recover_import_unfinished:
  assumes "wf_runtime rt" "calm w" "awaits_root X d g r"
    and "verify_root_public X r kid public = Inr ()"
    and "dir_get (d_records d) (record_path X (import_ref r kid root)) = None"
    and "import_unfinished X S r kid root nonce digest expires g d (w_disk w)"
  shows "\<exists>d2 g2. recover X rt w = (Inr g2, w\<lparr>w_disk := d2\<rparr>) \<and> (d2 = d
    \<or> (\<exists>now r'. imported_record X r kid nonce digest expires now r'
          \<and> import_done X S (import_ref r kid root) r' g d d2))"
proof -
  let ?ref = "import_ref r kid root"
  from assms(6) obtain j where j: "import_journal_of j r ?ref"
    "dir_get (d_journals d) (journal_path X (cj_transaction_id j)) = None"
    and cases: "w_disk w = d\<lparr>d_journals := dir_put (journal_path X (cj_transaction_id j)) (Parsed j) (d_journals d)\<rparr>
        \<or> (\<exists>e. w_disk w = d\<lparr>d_journals := dir_put (journal_path X (cj_transaction_id j)) (Parsed j) (d_journals d),
              d_records := dir_put (record_path X ?ref) (Parsed e) (d_records d)\<rparr>)
        \<or> (\<exists>now r'. imported_record X r kid nonce digest expires now r' \<and> importing X S ?ref r' g j d (w_disk w))"
    unfolding import_unfinished_def by blast
  have jv: "cj_valid j" using j(1) by (simp add: import_journal_of_def)
  note a = assms(3) [unfolded awaits_root_def]
  have ext: "extension (journal_path X (cj_transaction_id j)) = Some ''json''"
    using a by (simp add: named_files_def journal_path_def)
  let ?js = "dir_put (journal_path X (cj_transaction_id j)) (Parsed j) (d_journals d)"
  let ?old = "w\<lparr>w_disk := d\<rparr>"
  have js: "entries_of cj_valid ?js = Inr [j]" "dir_del (journal_path X (cj_transaction_id j)) ?js = d_journals d"
    using a j(2) jv ext by (simp_all add: quiescent_def entries_of_put_new dir_del_put_fresh)
  have undone: ?thesis if w: "w_disk w = d\<lparr>d_journals := ?js, d_records := rs\<rparr>"
    "without {record_path X ?ref} rs = d_records d" for rs
  proof -
    have at: "identity_at X (w_disk w) (ir_identity_id r) = Inr r" using a by (simp add: w)
    have "recover_journal X rt (guard_of (rt_root rt)) g j w = (Inr g, ?old)"
      using recover_journal_import_back [OF assms(1,2) j(1) at] a by (simp add: w js)
    then have "recover X rt w = (registry_at (w_disk ?old), ?old)"
      by (rule recover_one [OF assms(1,2), rotated 2])
         (use a js assms(2) in \<open>simp_all add: w quiescent_def\<close>)
    with a show ?thesis by auto
  qed
  have clean: "without {record_path X ?ref} (d_records d) = d_records d"
    using assms(5) by (auto intro: without_fresh)
  from cases consider (journal) "w_disk w = d\<lparr>d_journals := ?js\<rparr>"
    | (secret) e where "w_disk w = d\<lparr>d_journals := ?js, d_records := dir_put (record_path X ?ref) (Parsed e) (d_records d)\<rparr>"
    | (written) now r' where "imported_record X r kid nonce digest expires now r'" "importing X S ?ref r' g j d (w_disk w)"
    by blast
  then show ?thesis
  proof cases
    case journal
    then show ?thesis by (intro undone [of "d_records d"]) (simp_all add: clean)
  next
    case (secret e)
    then show ?thesis by (rule undone) (simp add: clean)
  next
    case (written now r')
    from recover_import_forward [OF assms(1-4) j jv written] written(1) show ?thesis by blast
  qed
qed

section \<open>Atomicity\<close>

lemma safe_commit_pending_root:
  fixes raw :: bytes
  assumes "calm c" "wf_runtime (di_runtime i)" "awaits_root X (w_disk c) g r" "di_identity_id i = ir_identity_id r"
    and fresh: "fresh_names X c" and codec: "codec_ok X" "fills c"
    and absent: "\<And>root. root \<in> set (ir_keys r)
      \<Longrightarrow> dir_get (d_records (w_disk c)) (record_path X (import_ref r kid root)) = None"
  defines "S \<equiv> \<lambda>root. sealed_root X (rt_root_key (di_runtime i)) (import_ref r kid root) raw"
  shows "safe (commit_pending_root X i kid raw public nonce digest expires)
    (\<lambda>x c'. \<exists>root now r'. root \<in> set (ir_keys r) \<and> verify_root_public X r kid public = Inr ()
       \<and> imported_record X r kid nonce digest expires now r' \<and> x = (replace_record i r', Import_Pending)
       \<and> import_done X (S root) (import_ref r kid root) r' g (w_disk c) (w_disk c'))
    (\<lambda>_ c'. w_disk c' = w_disk c
       \<or> (\<exists>root. root \<in> set (ir_keys r) \<and> verify_root_public X r kid public = Inr ()
           \<and> import_unfinished X (S root) r kid root nonce digest expires g (w_disk c) (w_disk c'))) c"
proof -
  note a = assms(3) [unfolded awaits_root_def]
  have journals: "dir_get (d_journals (w_disk c)) (journal_path X (b64u_encode X (w_random c n 16))) = None" for n
    using fresh by (simp add: fresh_names_def Let_def)
  have new: "safe (import_new_root X i (guard_of (rt_root (di_runtime i))) r kid raw public nonce digest expires)
    (\<lambda>x c'. \<exists>root now r'. root \<in> set (ir_keys r) \<and> verify_root_public X r kid public = Inr ()
       \<and> imported_record X r kid nonce digest expires now r' \<and> x = (replace_record i r', Import_Pending)
       \<and> import_done X (S root) (import_ref r kid root) r' g (w_disk c) (w_disk c'))
    (\<lambda>_ c'. w_disk c' = w_disk c
       \<or> (\<exists>root. root \<in> set (ir_keys r) \<and> verify_root_public X r kid public = Inr ()
           \<and> import_unfinished X (S root) r kid root nonce digest expires g (w_disk c) (w_disk c'))) c"
  proof (cases "find (\<lambda>k. km_role k = RootControl \<and> km_kid k = kid) (ir_keys r)")
    case None
    then show ?thesis
      unfolding import_new_root_tail using assms(1) by (auto intro!: safe_bnd [OF safe_lift] safe_raise)
  next
    case (Some root)
    then have root: "root \<in> set (ir_keys r)" by (auto simp: find_Some_iff)
    show ?thesis
      by (rule safe_mono [OF safe_import_new_root [OF assms(1,2) _ journals Some codec absent [OF root]]])
         (use a root in \<open>auto simp: S_def\<close>)
  qed
  show ?thesis
    unfolding commit_pending_root_def assms(4)
    using assms(1,2) a new
    by (auto intro!: safe_bnd [OF safe_acquire_write] safe_bnd [OF safe_read_identity] safe_bnd [OF safe_lift]
        safe_raise split: option.split)
qed

text \<open>
  C5: importing a root key is atomic under every schedule of system-call failures. Whatever call
  fails, the recovery that the next opening of the store runs succeeds; an import that returned is
  fully there: the key is sealed and opens to the imported bytes, the record has the root pending
  and remembers the transfer, the registry says so too. One that failed either left no trace, the
  sealed key included, or is completed.
\<close>
theorem root_import_crash_atomic:
  fixes raw :: bytes
  assumes "wf_runtime (di_runtime i)" "awaits_root X (w_disk w) g r" "di_identity_id i = ir_identity_id r"
    and "fresh_names X w" "codec_ok X" "fills w"
    and "\<And>root. root \<in> set (ir_keys r)
      \<Longrightarrow> dir_get (d_records (w_disk w)) (record_path X (import_ref r kid root)) = None"
    and run: "commit_pending_root X i kid raw public nonce digest expires w = (res, w1)"
  shows "\<exists>g2 d2. recover X (di_runtime i) (core w1) = (Inr g2, (core w1)\<lparr>w_disk := d2\<rparr>)
    \<and> (is_ok res \<or> d2 \<noteq> w_disk w \<longrightarrow> (\<exists>root now r'. root \<in> set (ir_keys r)
        \<and> verify_root_public X r kid public = Inr ()
        \<and> imported_record X r kid nonce digest expires now r'
        \<and> import_done X (sealed_root X (rt_root_key (di_runtime i)) (import_ref r kid root) raw)
            (import_ref r kid root) r' g (w_disk w) d2
        \<and> (is_ok res \<longrightarrow> res = Inr (replace_record i r', Import_Pending))))"
proof -
  have fresh: "fresh_names X (core w)" using assms(4) by (simp add: fresh_names_def)
  have fills: "fills (core w)" using assms(6) by (simp add: fills_def)
  note a = assms(2) [unfolded awaits_root_def]
  note out = safe_run_world [OF safe_commit_pending_root [OF core_calm(1) assms(1) _ assms(3) fresh assms(5) fills,
      of g kid raw public nonce digest expires] run, simplified, OF assms(2,7)]
  have still: "recover X (di_runtime i) (core w1) = (registry_at (w_disk w1), core w1)" if "quiescent (w_disk w1)"
    using recover_quiescent [OF assms(1), of "core w1" X] that by simp
  show ?thesis
  proof (cases res)
    case (Inr x)
    with out obtain root now r' where root: "root \<in> set (ir_keys r)" "verify_root_public X r kid public = Inr ()"
      "imported_record X r kid nonce digest expires now r'" "x = (replace_record i r', Import_Pending)"
      and done_: "import_done X (sealed_root X (rt_root_key (di_runtime i)) (import_ref r kid root) raw)
        (import_ref r kid root) r' g (w_disk w) (w_disk w1)" by auto
    from done_ a decode_entry_updated [of "d_registry (w_disk w)" g r'] obtain g' where
      "registry_at (w_disk w1) = Inr g'" "quiescent (w_disk w1)"
      by (auto simp: import_done_def quiescent_def simp del: decode_registry.simps)
    with still root done_ Inr show ?thesis by (intro exI [of _ g'] exI [of _ "w_disk w1"]) auto
  next
    case (Inl e)
    with out consider "w_disk w1 = w_disk w"
      | root where "root \<in> set (ir_keys r)" "verify_root_public X r kid public = Inr ()"
        "import_unfinished X (sealed_root X (rt_root_key (di_runtime i)) (import_ref r kid root) raw) r kid root
           nonce digest expires g (w_disk w) (w_disk (core w1))" by auto
    then show ?thesis
    proof cases
      case 1
      with still a Inl show ?thesis by (intro exI [of _ g] exI [of _ "w_disk w"]) auto
    next
      case (2 root)
      from recover_import_unfinished [OF assms(1) core_calm(1) assms(2) 2(2) assms(7) [OF 2(1)] 2(3)]
      obtain d2 g2 where r: "recover X (di_runtime i) (core w1) = (Inr g2, (core w1)\<lparr>w_disk := d2\<rparr>)"
        and "d2 = w_disk w \<or> (\<exists>now r'. imported_record X r kid nonce digest expires now r'
          \<and> import_done X (sealed_root X (rt_root_key (di_runtime i)) (import_ref r kid root) raw)
              (import_ref r kid root) r' g (w_disk w) d2)" by blast
      with 2(1,2) Inl show ?thesis by (intro exI [of _ g2] exI [of _ d2]) auto
    qed
  qed
qed

section \<open>A sample import\<close>

definition rootless_record :: identity_record where
  "rootless_record = sample_root_record\<lparr>ir_root_capability := Root_Absent,
     ir_local_authorization := Some \<lparr>la_device_id = ''dev'', la_signing_kid = ''s'', la_e2ee_kid = ''e'', la_profiles = []\<rparr>\<rparr>"

lemma rootless_awaits:
  "awaits_root sample_ext (holding rootless_record) \<lparr>rg_schema_version = 1, rg_generation = 1,
     rg_identities = [(ir_did rootless_record, summary rootless_record)]\<rparr> rootless_record"
  unfolding awaits_root_def by (intro conjI sample_named_files; code_simp)

lemma rootless_fresh: "fresh_names sample_ext (holding_world rootless_record fs)"
  by (simp add: fresh_names_def holding_world_def holding_def empty_disk_def sample_world_def dir_get_def
      identity_path_def storage_key_def sample_b64u rootless_record_def sample_root_record_def
      new_identity_record_def) (simp add: sample_ext_def)

theorem root_import_crash_atomic_witness:
  "is_ok (fst (commit_pending_root sample_ext (sample_handle rootless_record) sample_root_kid sample_key
       (Ed25519 sample_key) ''n'' ''d'' ''x'' (holding_world rootless_record [])))
   \<and> (\<exists>g2 d2 w1. w1 = core (snd (commit_pending_root sample_ext (sample_handle rootless_record) sample_root_kid
          sample_key (Ed25519 sample_key) ''n'' ''d'' ''x''
          (holding_world rootless_record (replicate 20 None @ [Some ''disk full'']))))
        \<and> recover sample_ext sample_runtime w1 = (Inr g2, w1\<lparr>w_disk := d2\<rparr>))"
proof
  show "is_ok (fst (commit_pending_root sample_ext (sample_handle rootless_record) sample_root_kid sample_key
       (Ed25519 sample_key) ''n'' ''d'' ''x'' (holding_world rootless_record [])))" by code_simp
  let ?w = "holding_world rootless_record (replicate 20 None @ [Some ''disk full''])"
  have "dir_get (d_records (w_disk ?w)) p = None" for p
    by (simp add: holding_def empty_disk_def)
  from root_import_crash_atomic [of "sample_handle rootless_record" sample_ext ?w, OF _ _ _ rootless_fresh
      sample_codec_ok _ this prod.collapse [symmetric]] rootless_awaits
  show "\<exists>g2 d2 w1. w1 = core (snd (commit_pending_root sample_ext (sample_handle rootless_record) sample_root_kid
          sample_key (Ed25519 sample_key) ''n'' ''d'' ''x'' ?w))
        \<and> recover sample_ext sample_runtime w1 = (Inr g2, w1\<lparr>w_disk := d2\<rparr>)"
    by fastforce
qed

end
