(* ===== verification/Recovery_Progress.thy ===== *)
theory Recovery_Progress
  imports Recovery
begin

text \<open>
  Recovery comes to an end: whatever fails, it never adds a journal; when it succeeds, no journal
  is left, so that the next recovery finds nothing to do.
\<close>

section \<open>The journals that are left\<close>

abbreviation json_files :: "'a dir \<Rightarrow> 'a dir" where
  "json_files d \<equiv> filter (\<lambda>e. extension (fst e) = Some ''json'') d"

definition journals_left :: "disk \<Rightarrow> nat" where
  "journals_left d = length (json_files (d_journals d)) + length (json_files (d_update_journals d))"

text \<open>Every journal is in the file named after its transaction or revision.\<close>

definition well_named :: "ext \<Rightarrow> disk \<Rightarrow> bool" where
  "well_named X d \<longleftrightarrow>
     (\<forall>n j. (n, Parsed j) \<in> set (d_journals d) \<longrightarrow> n = journal_path X (cj_transaction_id j))
     \<and> (\<forall>n j. (n, Parsed j) \<in> set (d_update_journals d) \<longrightarrow> n = update_journal_path X (uj_revision_id j))"

lemma journals_left_0:
  "journals_left d = 0 \<longleftrightarrow> json_files (d_journals d) = [] \<and> json_files (d_update_journals d) = []"
  by (simp add: journals_left_def)

lemma journals_left_quiescent: "journals_left d = 0 \<Longrightarrow> quiescent d"
  by (simp add: journals_left_0 quiescent_def entries_of_def)

lemma length_json_without: "length (json_files (without P d)) \<le> length (json_files d)"
  unfolding without_def by (induction d) auto

lemma set_without: "set (without P d) \<subseteq> set d"
  by (auto simp: without_def)

lemma rcollect_covers: "rcollect f xs = Inr ys \<Longrightarrow> x \<in> set xs \<Longrightarrow> \<exists>y \<in> set ys. f x = Inr y"
  by (induction xs arbitrary: ys) (auto simp: rbind_Inr_iff)

text \<open>A directory whose valid entries are named after their contents is empty without them.\<close>

lemma json_files_consumed:
  assumes "entries_of valid d = Inr js" "\<And>n j. (n, Parsed j) \<in> set d \<Longrightarrow> n = name j"
  shows "json_files (without (name ` set js) d) = []"
proof -
  have "n \<in> name ` set js" if e: "(n, c) \<in> set d" "extension n = Some ''json''" for n c
  proof -
    from assms(1) have "rcollect (decode_entry valid) (json_files d) = Inr js" by (simp add: entries_of_def)
    from rcollect_covers [OF this, of "(n, c)"] e
    obtain j where j: "decode_entry valid (n, c) = Inr j" "j \<in> set js" by auto
    then have "n = name j" using e by (intro assms(2)) (simp add: decode_entry_Inr)
    with j show ?thesis by simp
  qed
  then show ?thesis by (auto simp: without_def filter_empty_conv)
qed

section \<open>The loops\<close>

text \<open>A loop over journals whose steps delete the file of their journal last.\<close>

definition consumes ::
  "(disk \<Rightarrow> 'j dir) \<Rightarrow> (disk \<Rightarrow> 'o) \<Rightarrow> string \<Rightarrow> 'a io \<Rightarrow> bool" where
  "consumes G H name m \<longleftrightarrow> (\<forall>c. calm c \<longrightarrow>
     safe m (\<lambda>_ w. G (w_disk w) = without {name} (G (w_disk c)) \<and> H (w_disk w) = H (w_disk c))
       (\<lambda>_ w. G (w_disk w) \<in> {G (w_disk c), without {name} (G (w_disk c))} \<and> H (w_disk w) = H (w_disk c)) c)"

lemma consumes_bnd:
  assumes "keeps (\<lambda>d. (G d, H d)) m" "\<And>x. consumes G H name (f x)"
  shows "consumes G H name (bnd m f)"
  unfolding consumes_def
proof (intro allI impI safe_bnd)
  fix c :: world
  assume c: "calm c"
  show "safe m (\<lambda>x c'. calm c' \<longrightarrow> safe (f x)
      (\<lambda>_ w. G (w_disk w) = without {name} (G (w_disk c)) \<and> H (w_disk w) = H (w_disk c))
      (\<lambda>_ w. G (w_disk w) \<in> {G (w_disk c), without {name} (G (w_disk c))} \<and> H (w_disk w) = H (w_disk c)) c')
    (\<lambda>_ w. G (w_disk w) \<in> {G (w_disk c), without {name} (G (w_disk c))} \<and> H (w_disk w) = H (w_disk c)) c"
  proof (rule safe_keeps [OF assms(1) c])
    fix x c'
    assume "calm c'" "(G (w_disk c'), H (w_disk c')) = (G (w_disk c), H (w_disk c))"
    with assms(2) [of x, unfolded consumes_def, rule_format, of c'] show "calm c' \<longrightarrow> safe (f x)
      (\<lambda>_ w. G (w_disk w) = without {name} (G (w_disk c)) \<and> H (w_disk w) = H (w_disk c))
      (\<lambda>_ w. G (w_disk w) \<in> {G (w_disk c), without {name} (G (w_disk c))} \<and> H (w_disk w) = H (w_disk c)) c'"
      by simp
  qed simp
qed

lemma consumes_run:
  assumes "\<And>s j. consumes G H (name j) (f s j)" "calm c"
  shows "safe (foldio f s js)
    (\<lambda>_ w. G (w_disk w) = without (name ` set js) (G (w_disk c)) \<and> H (w_disk w) = H (w_disk c))
    (\<lambda>_ w. (\<exists>P. G (w_disk w) = without P (G (w_disk c))) \<and> H (w_disk w) = H (w_disk c)) c"
  using assms(2)
proof (induction js arbitrary: s c)
  case Nil
  then show ?case by (auto intro!: safe_ret)
next
  case (Cons j js)
  have step: "safe (f s j)
      (\<lambda>_ w. G (w_disk w) = without {name j} (G (w_disk c)) \<and> H (w_disk w) = H (w_disk c))
      (\<lambda>_ w. G (w_disk w) \<in> {G (w_disk c), without {name j} (G (w_disk c))} \<and> H (w_disk w) = H (w_disk c)) c"
    using assms(1) [of j s] Cons.prems by (simp add: consumes_def)
  show ?case
    unfolding foldio.simps
  proof (rule safe_bnd, rule safe_mono [OF step])
    fix x and w :: world
    assume w: "G (w_disk w) = without {name j} (G (w_disk c)) \<and> H (w_disk w) = H (w_disk c)"
    show "calm w \<longrightarrow> safe (foldio f x js)
      (\<lambda>_ w. G (w_disk w) = without (name ` set (j # js)) (G (w_disk c)) \<and> H (w_disk w) = H (w_disk c))
      (\<lambda>_ w. (\<exists>P. G (w_disk w) = without P (G (w_disk c))) \<and> H (w_disk w) = H (w_disk c)) w"
      using w Cons.IH [of w x]
      by (auto elim!: safe_mono simp: without_without)
  next
    fix e :: did_error and w :: world
    assume "G (w_disk w) \<in> {G (w_disk c), without {name j} (G (w_disk c))} \<and> H (w_disk w) = H (w_disk c)"
    then show "(\<exists>P. G (w_disk w) = without P (G (w_disk c))) \<and> H (w_disk w) = H (w_disk c)"
      by (auto intro: exI [of _ "{}"])
  qed
qed

lemma foreach_foldio: "foreach f xs = foldio (\<lambda>_. f) () xs"
  by (induction xs) simp_all

section \<open>Recovery\<close>

lemma consumes_remove:
  assumes "wf_runtime rt"
  shows "consumes d_journals d_update_journals (journal_path X i)
      (bnd (remove_journal X (rt_root rt) (guard_of (rt_root rt)) i) (\<lambda>_. ret x))"
    "consumes d_update_journals d_journals (update_journal_path X i)
      (remove_update_journal X (rt_root rt) (guard_of (rt_root rt)) i)"
  unfolding consumes_def by (auto intro!: safe_intros simp: without_del)

lemma keeps_journals:
  "keeps (\<lambda>d. (d_journals d, d_update_journals d)) (refresh_registry root g registry did s)"
  "keeps (\<lambda>d. (d_journals d, d_update_journals d)) (foreach (ks_delete X ks g) refs)"
  "keeps (\<lambda>d. (d_update_journals d, d_journals d)) (foreach (ks_delete X ks g) refs)"
  "keeps (\<lambda>d. (d_update_journals d, d_journals d)) (persist_record X rt g r)"
  unfolding refresh_registry_def persist_record_def Let_def
  by (auto intro!: keeps_intros keeps_writes keeps_ks)

lemma recover_journal_consumes:
  assumes "wf_runtime rt"
  shows "consumes d_journals d_update_journals (journal_path X (cj_transaction_id j))
    (recover_journal X rt (guard_of (rt_root rt)) registry j)"
  by (cases "cj_kind j")
     (auto simp: recover_journal_def Let_def bnd_assoc
        intro!: consumes_bnd consumes_remove [OF assms] keeps_intros keeps_writes keeps_journals)

lemma recover_update_journal_consumes:
  assumes "wf_runtime rt"
  shows "consumes d_update_journals d_journals (update_journal_path X (uj_revision_id j))
    (recover_update_journal X rt (guard_of (rt_root rt)) j)"
  unfolding recover_update_journal_def
  by (cases "uj_kind j")
     (auto intro!: consumes_bnd consumes_remove [OF assms] keeps_intros keeps_writes keeps_journals)

text \<open>What a recovery may leave of the two directories.\<close>

definition shrunk :: "disk \<Rightarrow> disk \<Rightarrow> bool" where
  "shrunk d d' \<longleftrightarrow> (\<exists>P Q. d_journals d' = without P (d_journals d)
     \<and> d_update_journals d' = without Q (d_update_journals d))"

lemma shrunk_refl: "d_journals d' = d_journals d \<Longrightarrow> d_update_journals d' = d_update_journals d \<Longrightarrow> shrunk d d'"
  unfolding shrunk_def by (auto intro!: exI [of _ "{}"])

lemma safe_recover_shrinks:
  assumes "calm c" "wf_runtime rt" "well_named X (w_disk c)"
  shows "safe (recover X rt)
    (\<lambda>g w. shrunk (w_disk c) (w_disk w) \<and> journals_left (w_disk w) = 0 \<and> registry_at (w_disk w) = Inr g)
    (\<lambda>_ w. shrunk (w_disk c) (w_disk w)) c"
proof -
  let ?d = "w_disk c" and ?g = "guard_of (rt_root rt)"
  have updates: "safe (bnd (recover_update_journals X rt ?g) (\<lambda>_. read_registry))
      (\<lambda>g w. shrunk ?d (w_disk w) \<and> journals_left (w_disk w) = 0 \<and> registry_at (w_disk w) = Inr g)
      (\<lambda>_ w. shrunk ?d (w_disk w)) w"
    if w: "calm w" "d_journals (w_disk w) = without P (d_journals ?d)" "json_files (d_journals (w_disk w)) = []"
      "d_update_journals (w_disk w) = d_update_journals ?d" for w P
  proof -
    have loop: "safe (foldio (\<lambda>_. recover_update_journal X rt ?g) () (sort_key uj_revision_id us))
        (\<lambda>_ w'. d_update_journals (w_disk w') = without (((\<lambda>j. update_journal_path X (uj_revision_id j)) ` set us))
            (d_update_journals ?d) \<and> d_journals (w_disk w') = d_journals (w_disk w))
        (\<lambda>_ w'. (\<exists>Q. d_update_journals (w_disk w') = without Q (d_update_journals ?d))
            \<and> d_journals (w_disk w') = d_journals (w_disk w)) w" for us
      using consumes_run [where f = "\<lambda>_. recover_update_journal X rt ?g",
          OF recover_update_journal_consumes [OF assms(2)] w(1), of "()" "sort_key uj_revision_id us"] w(4)
      by simp
    have gone: "json_files (without ((\<lambda>j. update_journal_path X (uj_revision_id j)) ` set us) (d_update_journals ?d)) = []"
      if "entries_of uj_valid (d_update_journals ?d) = Inr us" for us
      using that assms(3) by (intro json_files_consumed) (auto simp: well_named_def)
    have err: "shrunk ?d d'" if "\<exists>Q. d_update_journals d' = without Q (d_update_journals ?d)"
      "d_journals d' = d_journals (w_disk w)" for d'
      unfolding shrunk_def by (rule exI [of _ P]) (use that w(2) in simp)
    have ok: "shrunk ?d d' \<and> journals_left d' = 0"
      if "entries_of uj_valid (d_update_journals ?d) = Inr us" "d_update_journals d' = without
          ((\<lambda>j. update_journal_path X (uj_revision_id j)) ` set us) (d_update_journals ?d)"
        "d_journals d' = d_journals (w_disk w)" for d' us
      using that gone w(3) err by (auto simp: journals_left_0)
    have here: "shrunk ?d (w_disk w)" using w err without_empty by metis
    show ?thesis
      unfolding recover_update_journals_def bnd_assoc foreach_foldio
    proof (rule safe_bnd, rule safe_list_update_journals [OF w(1)], goal_cases)
      case (1 us)
      with w(4) have us: "entries_of uj_valid (d_update_journals ?d) = Inr us" by simp
      show ?case
        by (intro impI safe_bnd safe_mono [OF loop] safe_read_registry) (use ok [OF us] err in auto)
    qed (use here in simp_all)
  qed
  have loop: "safe (foldio (recover_journal X rt ?g) registry (sort_key cj_transaction_id js))
      (\<lambda>_ w'. d_journals (w_disk w') = without ((\<lambda>j. journal_path X (cj_transaction_id j)) ` set js) (d_journals ?d)
         \<and> d_update_journals (w_disk w') = d_update_journals ?d)
      (\<lambda>_ w'. (\<exists>P. d_journals (w_disk w') = without P (d_journals ?d))
         \<and> d_update_journals (w_disk w') = d_update_journals ?d) c" for js registry
    using consumes_run [where f = "recover_journal X rt ?g", OF recover_journal_consumes [OF assms(2)] assms(1),
        of registry "sort_key cj_transaction_id js"] by simp
  have gone: "json_files (without ((\<lambda>j. journal_path X (cj_transaction_id j)) ` set js) (d_journals ?d)) = []"
    if "entries_of cj_valid (d_journals ?d) = Inr js" for js
    using that assms(3) by (intro json_files_consumed) (auto simp: well_named_def)
  have failed: "shrunk ?d d'" if "\<exists>P. d_journals d' = without P (d_journals ?d)"
    "d_update_journals d' = d_update_journals ?d" for d'
    using that unfolding shrunk_def by (metis without_empty)
  show ?thesis
    unfolding recover_def
    using assms(1,2) failed updates gone
    by (auto intro!: safe_bnd [OF safe_acquire_write] safe_bnd [OF safe_read_registry] safe_bnd [OF safe_list_journals]
        safe_bnd [OF safe_mono [OF loop]] simp: shrunk_refl)
qed

text \<open>
  C8: recovery comes to an end. Whatever fails, a recovery leaves at most the journals it found,
  and each of them under its own name; one that returns leaves none, and its result is the stored
  registry, so that running it again returns the same registry and changes nothing.
\<close>
theorem recovery_comes_to_an_end:
  assumes "wf_runtime rt" "well_named X (w_disk w)" "recover X rt w = (res, w')"
  shows "journals_left (w_disk w') \<le> journals_left (w_disk w) \<and> well_named X (w_disk w')
    \<and> (is_ok res \<longrightarrow> journals_left (w_disk w') = 0 \<and> recover X rt (core w') = (res, core w'))"
proof -
  note out = safe_run_world [OF safe_recover_shrinks [of "core w", OF core_calm(1) assms(1), simplified, OF assms(2)] assms(3)]
  then have "shrunk (w_disk w) (w_disk w')" by (cases res) auto
  then have "journals_left (w_disk w') \<le> journals_left (w_disk w)" "well_named X (w_disk w')"
    using assms(2) unfolding shrunk_def journals_left_def well_named_def
    by (auto intro!: add_mono length_json_without dest!: subsetD [OF set_without])
  moreover have "journals_left (w_disk w') = 0 \<and> recover X rt (core w') = (res, core w')" if "is_ok res"
  proof -
    from that obtain g where "res = Inr g" by (cases res) simp_all
    with out show ?thesis
      using recover_quiescent [OF assms(1), of "core w'" X] journals_left_quiescent by simp
  qed
  ultimately show ?thesis by blast
qed

definition interrupted_world :: world where
  "interrupted_world = (holding_world sample_record [])\<lparr>w_disk := (holding sample_record)\<lparr>d_journals :=
     [(journal_path sample_ext ''t'', Parsed (new_creation_journal ''t'' ''j'' ''did:web:c.d'' [sample_ref] []))]\<rparr>\<rparr>"

theorem recovery_comes_to_an_end_witness:
  "journals_left (w_disk interrupted_world) = 1
   \<and> (let (res, w') = recover sample_ext sample_runtime interrupted_world in
        is_ok res \<and> journals_left (w_disk w') = 0 \<and> recover sample_ext sample_runtime (core w') = (res, core w'))"
proof -
  have left: "journals_left (w_disk interrupted_world) = 1" by code_simp
  have named: "well_named sample_ext (w_disk interrupted_world)"
    by (simp add: well_named_def interrupted_world_def new_creation_journal_def holding_def empty_disk_def)
  obtain res w' where r: "recover sample_ext sample_runtime interrupted_world = (res, w')"
    by (cases "recover sample_ext sample_runtime interrupted_world")
  have "is_ok (fst (recover sample_ext sample_runtime interrupted_world))" by code_simp
  with recovery_comes_to_an_end [OF sample_wf named r] left r show ?thesis by simp
qed

end
