(* ===== verification/Addition_Recovery.thy ===== *)
theory Addition_Recovery
  imports Recovery Key_Import
begin

text \<open>
  Operations that add an identity to a store, under every failure schedule: sealing a list of
  secrets, writing the record and the registry entry, and what recovery makes of the disk an
  interrupted addition leaves.
\<close>

section \<open>Sealing a secret or checking the one that is there\<close>

definition seal_as ::
  "ext \<Rightarrow> store_runtime \<Rightarrow> store_write_guard \<Rightarrow> secret_ref \<Rightarrow> bytes \<Rightarrow> public_key \<Rightarrow> unit io" where
  "seal_as X rt guard ref raw pub =
     bnd (ks_seal_if_absent X (rt_key_store rt) guard (rt_root_key rt) ref raw) (\<lambda>sealed.
       if sealed = AlreadyExists then verify_persisted_key X rt ref pub else ret ())"

lemma seal_imported_key_as:
  "sr_role (snd p) = pk_prepared_role (fst p)
   \<Longrightarrow> seal_imported_key X rt guard p = seal_as X rt guard (snd p) (pk_raw (fst p)) (pk_public (fst p))"
  by (simp add: seal_imported_key_def seal_as_def verify_persisted_key_def cong: if_cong)

lemma seal_or_verify_as:
  "seal_or_verify X rt guard p = seal_as X rt guard (snd p) (mp_bytes (fst p)) (managed_public_key X (fst p))"
  by (simp add: seal_or_verify_def seal_as_def)

lemma safe_ks_seal_opens:
  assumes "calm c" "fk_store_root ks = root" "codec_ok X" "fills c"
    and absent: "dir_get (d_records (w_disk c)) (record_path X r) = None"
    and errs: "\<And>e c'. calm c' \<Longrightarrow> w_disk c' = w_disk c \<Longrightarrow> E e c'"
    and sealed: "\<And>e c' d'. calm c' \<Longrightarrow> w_random c' = w_random c
        \<Longrightarrow> open_record X k e = Inr m \<Longrightarrow> er_secret_ref e = r
        \<Longrightarrow> d' = (w_disk c)\<lparr>d_records := dir_put (record_path X r) (Parsed e) (d_records (w_disk c))\<rparr>
        \<Longrightarrow> Q Sealed (c'\<lparr>w_disk := d'\<rparr>) \<and> (\<forall>msg. E (Io msg) (c'\<lparr>w_disk := d'\<rparr>))"
  shows "safe (ks_seal_if_absent X ks (guard_of root) k r m) Q E c"
proof -
  define seal where "seal = bnd (seal_record X k r m) (\<lambda>e.
      bnd (write_atomic_private (\<lambda>d. d\<lparr>d_records :=
        dir_put (record_path X r) (Parsed e) (d_records d)\<rparr>)) (\<lambda>_. ret Sealed))"
  have wr: "safe seal Q E c"
    unfolding seal_def
  proof (rule safe_bnd, rule safe_disk_pure [OF disk_pure_seal_record assms(1)])
    fix e c'
    assume e: "seal_record X k r m c = (Inr e, c')" "w_disk c' = w_disk c" "w_random c' = w_random c"
    note seal_record_opens [OF assms(3,4) e(1)]
    with sealed [OF _ e(3)] errs e(2) show "calm c' \<longrightarrow> safe (bnd (write_atomic_private (\<lambda>d. d\<lparr>d_records :=
        dir_put (record_path X r) (Parsed e) (d_records d)\<rparr>)) (\<lambda>_. ret Sealed)) Q E c'"
      by (auto intro!: safe_intros)
  qed (use errs in blast)
  show ?thesis
    unfolding ks_seal_if_absent_def seal_def [symmetric]
    using assms(1,2) errs absent wr by (auto intro!: safe_intros)
qed

text \<open>The keys that are stored, each with the public key it has to have.\<close>

abbreviation all_stored :: "ext \<Rightarrow> bytes \<Rightarrow> disk \<Rightarrow> (secret_ref \<times> public_key) set \<Rightarrow> bool" where
  "all_stored X k d K \<equiv> \<forall>q \<in> K. stored_key X k d (fst q) (snd q)"

lemma stored_key_put_new:
  assumes "stored_key X k d ref pub" "dir_get (d_records d) p = None"
  shows "stored_key X k (d\<lparr>d_records := dir_put p v (d_records d)\<rparr>) ref pub"
  using assms by (auto simp: stored_key_def dir_get_put)

lemma safe_seal_as:
  assumes "wf_runtime rt" "calm c" "codec_ok X" "fills c"
    and "only_records d P (w_disk c)" "record_path X ref \<in> P"
    and absent: "dir_get (d_records (w_disk c)) (record_path X ref) = None"
    and pub: "public_key_from_secret X (sr_role ref) raw = Inr a" "public_keys_equal a pub"
    and K: "all_stored X (rt_root_key rt) (w_disk c) K"
  shows "safe (seal_as X rt (guard_of (rt_root rt)) ref raw pub)
    (\<lambda>_ c'. w_random c' = w_random c \<and> only_records d P (w_disk c')
       \<and> (\<exists>v. d_records (w_disk c') = dir_put (record_path X ref) v (d_records (w_disk c)))
       \<and> all_stored X (rt_root_key rt) (w_disk c') (insert (ref, pub) K))
    (\<lambda>_ c'. only_records d P (w_disk c')) c"
proof -
  have new: "stored_key X (rt_root_key rt) (w\<lparr>d_records := dir_put (record_path X ref) (Parsed e) rs\<rparr>) ref pub"
    if "open_record X (rt_root_key rt) e = Inr raw" "er_secret_ref e = ref" for e w rs
    using that pub by (simp add: stored_key_def dir_get_put)
  show ?thesis
    unfolding seal_as_def
    by (rule safe_bnd, rule safe_ks_seal_opens [OF assms(2) _ assms(3,4) absent])
       (use assms new in \<open>auto intro!: safe_ret only_records_put stored_key_put_new\<close>)
qed

lemma safe_seal_list:
  assumes "wf_runtime rt" "calm c" "codec_ok X" "fills c" "only_records d P (w_disk c)"
    and "distinct (map (\<lambda>x. record_path X (ref x)) L)"
    and L: "\<And>x. x \<in> set L \<Longrightarrow> record_path X (ref x) \<in> P
      \<and> dir_get (d_records (w_disk c)) (record_path X (ref x)) = None
      \<and> (\<exists>a. public_key_from_secret X (sr_role (ref x)) (raw x) = Inr a \<and> public_keys_equal a (pub x))"
    and K: "all_stored X (rt_root_key rt) (w_disk c) K"
  shows "safe (foreach (\<lambda>x. seal_as X rt (guard_of (rt_root rt)) (ref x) (raw x) (pub x)) L)
    (\<lambda>_ c'. only_records d P (w_disk c')
       \<and> all_stored X (rt_root_key rt) (w_disk c') ((\<lambda>x. (ref x, pub x)) ` set L \<union> K))
    (\<lambda>_ c'. only_records d P (w_disk c')) c"
  using assms(2,4,5,6) L K
proof (induction L arbitrary: c K)
  case (Cons x L)
  from Cons.prems(5) [of x] obtain a where
    x: "record_path X (ref x) \<in> P" "dir_get (d_records (w_disk c)) (record_path X (ref x)) = None"
      "public_key_from_secret X (sr_role (ref x)) (raw x) = Inr a" "public_keys_equal a (pub x)" by auto
  note first = safe_seal_as [OF assms(1) Cons.prems(1) assms(3) Cons.prems(2,3) x Cons.prems(6)]
  show ?case
    unfolding foreach.simps
  proof (rule safe_bnd, rule safe_mono [OF first])
    fix u and c' :: world
    assume c': "w_random c' = w_random c \<and> only_records d P (w_disk c')
       \<and> (\<exists>v. d_records (w_disk c') = dir_put (record_path X (ref x)) v (d_records (w_disk c)))
       \<and> all_stored X (rt_root_key rt) (w_disk c') (insert (ref x, pub x) K)"
    then have "fills c'" using Cons.prems(2) by (simp add: fills_def)
    moreover have "dir_get (d_records (w_disk c')) (record_path X (ref y)) = None" if "y \<in> set L" for y
    proof -
      from Cons.prems(4) have "record_path X (ref x) \<notin> (\<lambda>x. record_path X (ref x)) ` set L"
        by simp
      with that have "record_path X (ref y) \<noteq> record_path X (ref x)" by (metis imageI)
      moreover have "dir_get (d_records (w_disk c)) (record_path X (ref y)) = None"
        using that Cons.prems(5) by simp
      ultimately show ?thesis using c' by (auto simp: dir_get_put)
    qed
    ultimately show "calm c' \<longrightarrow> safe (foreach (\<lambda>x. seal_as X rt (guard_of (rt_root rt)) (ref x) (raw x) (pub x)) L)
      (\<lambda>_ c'. only_records d P (w_disk c')
         \<and> all_stored X (rt_root_key rt) (w_disk c') ((\<lambda>x. (ref x, pub x)) ` set (x # L) \<union> K))
      (\<lambda>_ c'. only_records d P (w_disk c')) c'"
      using c' Cons.IH [of c' "insert (ref x, pub x) K"] Cons.prems(4,5) by simp
  qed simp
qed (use assms in \<open>auto intro: safe_ret\<close>)

section \<open>The disks of an addition\<close>

text \<open>What an operation that adds the record \<open>r\<close> returns.\<close>

definition addition_result :: "did_store \<Rightarrow> u64 \<Rightarrow> identity_record \<Rightarrow> did_store \<times> did_identity" where
  "addition_result store n r = (store\<lparr>ds_registry_generation := n\<rparr>, \<lparr>di_runtime = ds_runtime store, di_record = r\<rparr>)"

definition entry_for :: "identity_registry \<Rightarrow> identity_record \<Rightarrow> u64 \<Rightarrow> identity_registry" where
  "entry_for g r n = g\<lparr>rg_identities := btree_insert (ir_did r) (summary r) (rg_identities g),
     rg_generation := n\<rparr>"

text \<open>
  The record \<open>r\<close> and its keys \<open>K\<close> are in the store: the file of the record, the entry of the
  registry, the secrets. Nothing else differs from the disk \<open>d\<close>, up to the journals.
\<close>

definition entered ::
  "ext \<Rightarrow> bytes \<Rightarrow> (secret_ref \<times> public_key) set \<Rightarrow> identity_registry \<Rightarrow> u64 \<Rightarrow> identity_record \<Rightarrow> disk
     \<Rightarrow> creation_journal dir \<Rightarrow> disk \<Rightarrow> bool" where
  "entered X k K g n r d js d' \<longleftrightarrow> checked_add1 (rg_generation g) = Some n
     \<and> d' = d\<lparr>d_journals := js, d_records := d_records d',
              d_registry := Some (Parsed (entry_for g r n)),
              d_identities := dir_put (identity_path X (ir_identity_id r)) (Parsed r) (d_identities d)\<rparr>
     \<and> without (record_path X ` fst ` K) (d_records d') = without (record_path X ` fst ` K) (d_records d)
     \<and> all_stored X k d' K"

lemma enteredI:
  assumes "checked_add1 (rg_generation g) = Some n"
    "without (record_path X ` fst ` K) rs = without (record_path X ` fst ` K) (d_records d)"
    "all_stored X k (d\<lparr>d_records := rs\<rparr>) K"
    "d' = d\<lparr>d_journals := js, d_records := rs, d_registry := Some (Parsed (entry_for g r n)),
       d_identities := dir_put (identity_path X (ir_identity_id r)) (Parsed r) (d_identities d)\<rparr>"
  shows "entered X k K g n r d js d'"
  using assms by (simp add: entered_def stored_key_def)

lemma enteredE:
  assumes "entered X k K g n r d js d'"
  obtains rs where "checked_add1 (rg_generation g) = Some n"
    "d' = d\<lparr>d_journals := js, d_records := rs, d_registry := Some (Parsed (entry_for g r n)),
       d_identities := dir_put (identity_path X (ir_identity_id r)) (Parsed r) (d_identities d)\<rparr>"
    "without (record_path X ` fst ` K) rs = without (record_path X ` fst ` K) (d_records d)"
    "all_stored X k (d\<lparr>d_records := rs\<rparr>) K"
  using assms by (auto simp: entered_def stored_key_def)

text \<open>A record that an operation may add under the identity \<open>i\<close>.\<close>

definition addable :: "ext \<Rightarrow> string \<Rightarrow> string \<Rightarrow> identity_record \<Rightarrow> bool" where
  "addable X did i r \<longleftrightarrow> ir_identity_id r = i \<and> ir_did r = did \<and> ir_state r \<noteq> Id_Creating
     \<and> decode_identity X i (Some (Parsed r)) = Inr r"

definition addition_journal :: "creation_journal \<Rightarrow> string \<Rightarrow> string \<Rightarrow> (secret_ref \<times> public_key) set \<Rightarrow> bool" where
  "addition_journal j did i K \<longleftrightarrow> cj_valid j \<and> cj_kind j = CJ_Create \<and> cj_identity_id j = i \<and> cj_did j = did
     \<and> set (cj_secret_refs j) = fst ` K"

abbreviation with_journal :: "ext \<Rightarrow> creation_journal \<Rightarrow> disk \<Rightarrow> creation_journal dir" where
  "with_journal X j d \<equiv> dir_put (journal_path X (cj_transaction_id j)) (Parsed j) (d_journals d)"

text \<open>An addition on the disk \<open>d\<close> that left its journal behind; \<open>R\<close> holds of the records it may add.\<close>

definition addition_open ::
  "ext \<Rightarrow> bytes \<Rightarrow> (string \<Rightarrow> (secret_ref \<times> public_key) set) \<Rightarrow> (string \<Rightarrow> identity_record \<Rightarrow> bool)
     \<Rightarrow> string \<Rightarrow> identity_registry \<Rightarrow> disk \<Rightarrow> disk \<Rightarrow> bool" where
  "addition_open X k K R did g d d' \<longleftrightarrow> (\<exists>i j. addition_journal j did i (K i)
     \<and> dir_get (d_identities d) (identity_path X i) = None
     \<and> dir_get (d_journals d) (journal_path X (cj_transaction_id j)) = None
     \<and> (\<forall>q \<in> K i. dir_get (d_records d) (record_path X (fst q)) = None)
     \<and> (uncommitted X d j d' \<or> (\<exists>r n. R i r \<and> entered X k (K i) g n r d (with_journal X j d) d')))"

lemma safe_enter:
  assumes "calm c" and j: "addition_journal j did i K"
    and c: "w_disk c = d\<lparr>d_journals := with_journal X j d, d_records := rs\<rparr>"
    and rs: "without (record_path X ` fst ` K) rs = without (record_path X ` fst ` K) (d_records d)"
      "all_stored X k (d\<lparr>d_records := rs\<rparr>) K"
    and r: "ir_identity_id r = i" "ir_did r = did"
    and fresh: "dir_get (d_journals d) (journal_path X (cj_transaction_id j)) = None"
    and E: "\<And>e c'. uncommitted X d j (w_disk c') \<Longrightarrow> E e c'"
      "\<And>e c' n. entered X k K g n r d (with_journal X j d) (w_disk c') \<Longrightarrow> E e c'"
    and Q: "\<And>n c'. calm c' \<Longrightarrow> entered X k K g n r d (d_journals d) (w_disk c') \<Longrightarrow> safe (f n) Q E c'"
  shows "safe (bnd (write_identity X root (guard_of root) r) (\<lambda>_.
     bnd (register_identity root (guard_of root) g did (summary r)) (\<lambda>n.
     bnd (remove_journal X root (guard_of root) (cj_transaction_id j)) (\<lambda>_. f n)))) Q E c"
proof -
  have jj: "cj_identity_id j = i" "record_path X ` set (cj_secret_refs j) = record_path X ` fst ` K"
    using j by (simp_all add: addition_journal_def)
  let ?ids = "dir_put (identity_path X i) (Parsed r) (d_identities d)"
  have A: "uncommitted X d j (d\<lparr>d_journals := with_journal X j d, d_records := rs\<rparr>)"
    "uncommitted X d j (d\<lparr>d_journals := with_journal X j d, d_records := rs, d_identities := ?ids\<rparr>)"
    using rs(1) by (simp_all add: uncommitted_def jj flip: without_del)
  have B: "entered X k K g n r d (with_journal X j d) (d\<lparr>d_journals := with_journal X j d, d_records := rs,
      d_identities := ?ids, d_registry := Some (Parsed (entry_for g r n))\<rparr>)"
    "entered X k K g n r d (d_journals d) (d\<lparr>d_records := rs,
      d_identities := ?ids, d_registry := Some (Parsed (entry_for g r n))\<rparr>)"
    if "checked_add1 (rg_generation g) = Some n" for n
    by (rule enteredI [OF that rs], simp add: r)+
  have errs: "E e c" "E e (c\<lparr>w_disk := d\<lparr>d_journals := with_journal X j d, d_records := rs, d_identities := ?ids\<rparr>\<rparr>)"
    "checked_add1 (rg_generation g) = Some n \<Longrightarrow> E e (c\<lparr>w_disk := d\<lparr>d_journals := with_journal X j d,
       d_records := rs, d_identities := ?ids, d_registry := Some (Parsed (entry_for g r n))\<rparr>\<rparr>)" for e n
    subgoal by (rule E(1)) (simp add: c A)
    subgoal by (rule E(1)) (simp add: A)
    subgoal by (rule E(2) [of n]) (simp add: B)
    done
  show ?thesis
    unfolding register_identity_def r(2) [symmetric] entry_for_def [symmetric]
    using assms(1) B(2) fresh
    by (auto intro!: safe_intros Q simp: c r dir_del_put_fresh errs)
qed

section \<open>Recovery of an interrupted addition\<close>

lemma decode_registry_entry_for:
  assumes "decode_registry c = Inr g"
  shows "decode_registry (Some (Parsed (entry_for g r n))) = Inr (entry_for g r n)"
  using assms
  by (cases c rule: decode_registry.cases) (auto simp: entry_for_def default_registry_def split: if_splits)

lemma recover_uncommitted_addition:
  assumes "wf_runtime rt" "calm w" and d: "quiescent d" "registry_at d = Inr g"
    and j: "addition_journal j did i K" "btree_get (rg_identities g) did = None"
      "extension (journal_path X (cj_transaction_id j)) = Some ''json''"
    and new: "dir_get (d_identities d) (identity_path X i) = None"
      "dir_get (d_journals d) (journal_path X (cj_transaction_id j)) = None"
      "\<forall>q \<in> K. dir_get (d_records d) (record_path X (fst q)) = None"
    and u: "uncommitted X d j (w_disk w)"
  shows "recover X rt w = (Inr g, w\<lparr>w_disk := d\<rparr>)"
proof -
  let ?js = "with_journal X j d"
  let ?P = "record_path X ` fst ` K"
  have jj: "cj_identity_id j = i" "cj_did j = did" "set (cj_secret_refs j) = fst ` K"
    "cj_kind j = CJ_Create" "cj_valid j"
    using j(1) by (simp_all add: addition_journal_def)
  have clean: "without ?P (d_records d) = d_records d"
    "dir_del (identity_path X i) (d_identities d) = d_identities d"
    "dir_del (journal_path X (cj_transaction_id j)) ?js = d_journals d"
    using new by (auto intro!: without_fresh simp: dir_del_id dir_del_put_fresh)
  define rs where "rs = d_records (w_disk w)"
  define ids where "ids = d_identities (w_disk w)"
  have w: "w_disk w = d\<lparr>d_journals := ?js, d_records := rs, d_identities := ids\<rparr>"
    and undo: "without ?P rs = d_records d" "dir_del (identity_path X i) ids = d_identities d"
    using u by (simp_all add: uncommitted_def jj clean rs_def ids_def)
  have "recover_journal X rt (guard_of (rt_root rt)) g j w = (Inr g, w\<lparr>w_disk := d\<rparr>)"
    by (subst recover_journal_rollback [OF assms(1,2)])
       (simp_all add: jj names_identity_def j(2) w undo clean)
  then have "recover X rt w = (registry_at (w_disk (w\<lparr>w_disk := d\<rparr>)), w\<lparr>w_disk := d\<rparr>)"
    by (rule recover_one [OF assms(1,2), rotated 2])
       (use d assms(2) j(3) new(2) jj in \<open>simp_all add: w quiescent_def entries_of_put_new\<close>)
  with d(2) show ?thesis by simp
qed

lemma recover_entered:
  assumes "wf_runtime rt" "calm w" and d: "quiescent d" "registry_at d = Inr g"
    and j: "addition_journal j did i K" "extension (journal_path X (cj_transaction_id j)) = Some ''json''"
      "dir_get (d_journals d) (journal_path X (cj_transaction_id j)) = None"
    and r: "addable X did i r"
    and u: "entered X k K g n r d (with_journal X j d) (w_disk w)"
  shows "\<exists>g' d'. recover X rt w = (Inr g', w\<lparr>w_disk := d'\<rparr>) \<and> entered X k K g n r d (d_journals d) d'"
proof -
  let ?js = "with_journal X j d"
  have jj: "cj_identity_id j = i" "cj_did j = did" "cj_kind j = CJ_Create" "cj_valid j"
    using j(1) by (simp_all add: addition_journal_def)
  have ri: "ir_identity_id r = i" "ir_did r = did" "ir_state r \<noteq> Id_Creating"
    "decode_identity X i (Some (Parsed r)) = Inr r"
    using r unfolding addable_def by blast+
  from u obtain rs where n: "checked_add1 (rg_generation g) = Some n"
    and w: "w_disk w = d\<lparr>d_journals := ?js, d_records := rs, d_registry := Some (Parsed (entry_for g r n)),
       d_identities := dir_put (identity_path X (ir_identity_id r)) (Parsed r) (d_identities d)\<rparr>"
    and rs: "without (record_path X ` fst ` K) rs = without (record_path X ` fst ` K) (d_records d)"
      "all_stored X k (d\<lparr>d_records := rs\<rparr>) K"
    by (rule enteredE)
  let ?d' = "d\<lparr>d_records := rs, d_registry := Some (Parsed (entry_for g r n)),
      d_identities := dir_put (identity_path X i) (Parsed r) (d_identities d)\<rparr>"
  have g': "registry_at (w_disk w) = Inr (entry_for g r n)"
    using decode_registry_entry_for [OF d(2)] by (simp add: w)
  have at: "identity_at X (w_disk w) i = Inr r"
    using ri by (simp add: w dir_get_put del: decode_identity.simps)
  have named: "names_identity (entry_for g r n) did i"
    using ri by (simp add: names_identity_def entry_for_def summary_def)
  have "recover_journal X rt (guard_of (rt_root rt)) (entry_for g r n) j w
      = (Inr (entry_for g r n), w\<lparr>w_disk := ?d'\<rparr>)"
    by (subst recover_journal_complete [OF assms(1,2), where r = r])
       (use at named ri in \<open>auto simp: jj w dir_del_put_fresh j(3) simp del: decode_identity.simps\<close>)
  then have "recover X rt w = (registry_at (w_disk (w\<lparr>w_disk := ?d'\<rparr>)), w\<lparr>w_disk := ?d'\<rparr>)"
    by (rule recover_one [OF assms(1,2) g', rotated])
       (use d assms(2) j jj in \<open>simp_all add: w quiescent_def entries_of_put_new\<close>)
  moreover have "registry_at ?d' = Inr (entry_for g r n)"
    using decode_registry_entry_for [OF d(2)] by simp
  moreover have "entered X k K g n r d (d_journals d) ?d'"
    by (rule enteredI [OF n rs]) (simp add: ri)
  ultimately show ?thesis by auto
qed

text \<open>Recovery finishes what an addition began, or undoes it.\<close>

lemma recover_addition:
  assumes "wf_runtime rt" "calm w" "named_files X" "quiescent d" "registry_at d = Inr g"
    and "btree_get (rg_identities g) did = None" "\<And>i r. R i r \<Longrightarrow> addable X did i r"
    and "addition_open X k K R did g d (w_disk w)"
  shows "\<exists>g' d'. recover X rt w = (Inr g', w\<lparr>w_disk := d'\<rparr>)
    \<and> (d' = d \<or> (\<exists>i r n. R i r \<and> entered X k (K i) g n r d (d_journals d) d'))"
proof -
  from assms(8) obtain i j where
    j: "addition_journal j did i (K i)" "dir_get (d_identities d) (identity_path X i) = None"
      "dir_get (d_journals d) (journal_path X (cj_transaction_id j)) = None"
      "\<forall>q \<in> K i. dir_get (d_records d) (record_path X (fst q)) = None"
    and c: "uncommitted X d j (w_disk w) \<or> (\<exists>r n. R i r \<and> entered X k (K i) g n r d (with_journal X j d) (w_disk w))"
    unfolding addition_open_def by blast
  have ext: "extension (journal_path X (cj_transaction_id j)) = Some ''json''"
    using assms(3) by (simp add: named_files_def journal_path_def)
  from c show ?thesis
  proof
    assume "uncommitted X d j (w_disk w)"
    from recover_uncommitted_addition [OF assms(1,2,4,5) j(1) assms(6) ext j(2-4) this]
    show ?thesis by blast
  next
    assume "\<exists>r n. R i r \<and> entered X k (K i) g n r d (with_journal X j d) (w_disk w)"
    then obtain r n where r: "R i r" "entered X k (K i) g n r d (with_journal X j d) (w_disk w)" by blast
    from recover_entered [OF assms(1,2,4,5) j(1) ext j(3) assms(7) [OF r(1)] r(2)] r(1)
    show ?thesis by blast
  qed
qed

lemma entered_quiescent:
  assumes "entered X k K g n r d (d_journals d) d'" "quiescent d" "registry_at d = Inr g"
  shows "quiescent d'" "registry_at d' = Inr (entry_for g r n)"
  using assms
  by (auto elim!: enteredE simp: quiescent_def decode_registry_entry_for simp del: decode_registry.simps)

section \<open>The transaction of an import\<close>

definition import_ref_of :: "string \<Rightarrow> prepared_imported_key \<Rightarrow> secret_ref" where
  "import_ref_of i k = \<lparr>sr_identity_id = i, sr_key_id = pk_prepared_kid k, sr_role = pk_prepared_role k, sr_version = 1\<rparr>"

definition import_keys :: "prepared_imported_key list \<Rightarrow> string \<Rightarrow> (secret_ref \<times> public_key) set" where
  "import_keys imported i = (\<lambda>k. (import_ref_of i k, pk_public k)) ` set imported"

lemma import_refs_of: "import_refs i imported = map (import_ref_of i) imported"
  by (simp add: import_refs_def import_ref_of_def)

lemma foreach_map: "foreach f (map h xs) = foreach (\<lambda>x. f (h x)) xs"
  by (induction xs) simp_all

lemma foreach_cong: "(\<And>x. x \<in> set xs \<Longrightarrow> f x = h x) \<Longrightarrow> foreach f xs = foreach h xs"
  by (induction xs) simp_all

lemma seal_imported_keys:
  "foreach (seal_imported_key X rt guard) (zip imported (import_refs i imported))
     = foreach (\<lambda>k. seal_as X rt guard (import_ref_of i k) (pk_raw k) (pk_public k)) imported"
proof -
  have "zip imported (import_refs i imported) = map (\<lambda>k. (k, import_ref_of i k)) imported"
    unfolding import_refs_of by (induction imported) simp_all
  then show ?thesis
    by (simp only: foreach_map) (rule foreach_cong, simp add: seal_imported_key_as import_ref_of_def)
qed

text \<open>A key that was prepared for import is the private key of the public key it came with.\<close>

definition key_fits :: "ext \<Rightarrow> prepared_imported_key \<Rightarrow> bool" where
  "key_fits X k \<longleftrightarrow> (\<exists>a. public_key_from_secret X (pk_prepared_role k) (pk_raw k) = Inr a
     \<and> public_keys_equal a (pk_public k))"

lemma safe_import_enter:
  fixes store defines "rt \<equiv> ds_runtime store"
  assumes rt: "wf_runtime rt" and c: "calm c" "fills c" and X: "codec_ok X"
    and keys: "\<forall>k \<in> set imported. key_fits X k"
    and dist: "distinct (map (record_path X) (import_refs i imported))"
    and j: "addition_journal j did i (import_keys imported i)"
    and new: "dir_get (d_identities d) (identity_path X i) = None"
      "dir_get (d_journals d) (journal_path X (cj_transaction_id j)) = None"
      "\<And>r. sr_identity_id r = i \<Longrightarrow> dir_get (d_records d) (record_path X r) = None"
    and build: "\<And>r. build i t = Inr r \<Longrightarrow> addable X did i r"
    and disk: "w_disk c = d\<lparr>d_journals := with_journal X j d\<rparr>"
  shows "safe (bnd (foreach (seal_imported_key X rt (guard_of (rt_root rt))) (zip imported (import_refs i imported))) (\<lambda>_.
     bnd (lift (build i t)) (\<lambda>r.
     bnd (write_identity X (rt_root rt) (guard_of (rt_root rt)) r) (\<lambda>_.
     bnd (register_identity (rt_root rt) (guard_of (rt_root rt)) g did (summary r)) (\<lambda>n.
     bnd (remove_journal X (rt_root rt) (guard_of (rt_root rt)) (cj_transaction_id j)) (\<lambda>_.
     ret (store\<lparr>ds_registry_generation := n\<rparr>, \<lparr>di_runtime = rt, di_record = r\<rparr>)))))))
    (\<lambda>x c'. \<exists>r n. x = (store\<lparr>ds_registry_generation := n\<rparr>, \<lparr>di_runtime = rt, di_record = r\<rparr>)
       \<and> build i t = Inr r \<and> entered X (rt_root_key rt) (import_keys imported i) g n r d (d_journals d) (w_disk c'))
    (\<lambda>_ c'. addition_open X (rt_root_key rt) (import_keys imported) (\<lambda>i r. \<exists>t. build i t = Inr r) did g d (w_disk c')) c"
    (is "safe _ ?Q ?E c")
proof -
  let ?K = "import_keys imported i"
  let ?P = "record_path X ` fst ` ?K"
  have K: "(\<lambda>k. (import_ref_of i k, pk_public k)) ` set imported \<union> {} = ?K" by (simp add: import_keys_def)
  have left: "?E e c'" if "uncommitted X d j (w_disk c')
      \<or> (\<exists>r n. build i t = Inr r \<and> entered X (rt_root_key rt) ?K g n r d (with_journal X j d) (w_disk c'))" for e c'
    using that j new unfolding addition_open_def
    by (intro exI [of _ i] exI [of _ j]) (auto simp: import_keys_def import_ref_of_def)
  have records: "uncommitted X d j (w_disk c')" if "only_records (w_disk c) ?P (w_disk c')" for c' :: world
    using that j by (auto elim!: only_recordsE simp: uncommitted_def disk addition_journal_def)
  have tail: "safe (bnd (lift (build i t)) (\<lambda>r.
     bnd (write_identity X (rt_root rt) (guard_of (rt_root rt)) r) (\<lambda>_.
     bnd (register_identity (rt_root rt) (guard_of (rt_root rt)) g did (summary r)) (\<lambda>n.
     bnd (remove_journal X (rt_root rt) (guard_of (rt_root rt)) (cj_transaction_id j)) (\<lambda>_.
     ret (store\<lparr>ds_registry_generation := n\<rparr>, \<lparr>di_runtime = rt, di_record = r\<rparr>)))))) ?Q ?E w"
    if w: "calm w" "only_records (w_disk c) ?P (w_disk w)" "all_stored X (rt_root_key rt) (w_disk w) ?K" for w
  proof (rule safe_bnd, rule safe_lift [OF w(1)]; (intro impI)?)
    from w(2) obtain rs where rs: "w_disk w = d\<lparr>d_journals := with_journal X j d, d_records := rs\<rparr>"
      "without ?P rs = without ?P (d_records d)" by (auto elim!: only_recordsE simp: disk)
    fix r assume r: "build i t = Inr r"
    from build [OF r] have ri: "ir_identity_id r = i" "ir_did r = did" unfolding addable_def by blast+
    from w(3) have stored: "all_stored X (rt_root_key rt) (d\<lparr>d_records := rs\<rparr>) ?K"
      by (simp add: rs(1) stored_key_def)
    show "safe (bnd (write_identity X (rt_root rt) (guard_of (rt_root rt)) r) (\<lambda>_.
     bnd (register_identity (rt_root rt) (guard_of (rt_root rt)) g did (summary r)) (\<lambda>n.
     bnd (remove_journal X (rt_root rt) (guard_of (rt_root rt)) (cj_transaction_id j)) (\<lambda>_.
     ret (store\<lparr>ds_registry_generation := n\<rparr>, \<lparr>di_runtime = rt, di_record = r\<rparr>))))) ?Q ?E w"
      by (rule safe_enter [OF w(1) j rs stored ri new(2)]) (use left r in \<open>auto intro!: safe_ret\<close>)
  qed (use left records w in blast)
  have "\<And>k. k \<in> set imported \<Longrightarrow> record_path X (import_ref_of i k) \<in> ?P
      \<and> dir_get (d_records (w_disk c)) (record_path X (import_ref_of i k)) = None
      \<and> (\<exists>a. public_key_from_secret X (sr_role (import_ref_of i k)) (pk_raw k) = Inr a
           \<and> public_keys_equal a (pk_public k))"
    using keys new(3) by (auto simp: key_fits_def disk import_keys_def import_ref_of_def image_image)
  note seal = safe_seal_list [where ref = "import_ref_of i" and raw = pk_raw and pub = pk_public and K = "{}",
      OF rt c(1) X c(2) only_records_refl _ this]
  show ?thesis
    unfolding seal_imported_keys
    by (rule safe_bnd, rule safe_mono [OF seal]; (unfold K)?)
       (use dist tail left records in \<open>auto simp: import_refs_of comp_def\<close>)
qed

text \<open>The identifier of a new identity: drawn in the transaction, or drawn before it.\<close>

abbreviation drawn :: "ext \<Rightarrow> world \<Rightarrow> nat \<Rightarrow> string" where
  "drawn X c n \<equiv> b64u_encode X (w_random c n 16)"

definition draws_identity :: "ext \<Rightarrow> world \<Rightarrow> string io \<Rightarrow> bool" where
  "draws_identity X c m \<longleftrightarrow> m = random_id X \<or> (\<exists>n. m = ret (drawn X c n))"

lemma safe_draws_identity:
  assumes "draws_identity X c0 m" "calm c" "w_random c = w_random c0"
    and "\<And>n c'. calm c' \<Longrightarrow> w_disk c' = w_disk c \<Longrightarrow> w_random c' = w_random c0 \<Longrightarrow> Q (drawn X c0 n) c'"
  shows "safe m Q E c"
  using assms unfolding draws_identity_def random_id_def
  by (auto intro!: safe_bnd safe_fill_bytes safe_ret)

lemma safe_import_transaction:
  fixes store defines "rt \<equiv> ds_runtime store"
  assumes rt: "wf_runtime rt" and c: "calm c" "fills c" and X: "codec_ok X" and fresh: "fresh_names X c"
    and g: "registry_at (w_disk c) = Inr g" and id: "draws_identity X c fresh_id"
    and keys: "\<forall>k \<in> set imported. key_fits X k"
    and dist: "\<And>n. distinct (map (record_path X) (import_refs (drawn X c n) imported))"
    and build: "\<And>i t r. build i t = Inr r \<Longrightarrow> addable X did i r"
  shows "safe (import_transaction X store did imported fresh_id build)
    (\<lambda>x c'. \<exists>i t r n. x = (store\<lparr>ds_registry_generation := n\<rparr>, \<lparr>di_runtime = rt, di_record = r\<rparr>)
       \<and> build i t = Inr r
       \<and> entered X (rt_root_key rt) (import_keys imported i) g n r (w_disk c) (d_journals (w_disk c)) (w_disk c'))
    (\<lambda>_ c'. w_disk c' = w_disk c \<or> btree_get (rg_identities g) did = None
       \<and> addition_open X (rt_root_key rt) (import_keys imported) (\<lambda>i r. \<exists>t. build i t = Inr r) did g
           (w_disk c) (w_disk c')) c"
    (is "safe _ ?Q ?E c")
proof -
  let ?j = "\<lambda>tid i t. new_creation_journal tid i did (import_refs i imported) t"
  let ?d = "w_disk c"
  have names: "dir_get (d_identities ?d) (identity_path X (drawn X c n)) = None"
    "dir_get (d_journals ?d) (journal_path X (drawn X c n)) = None"
    "sr_identity_id r = drawn X c n \<Longrightarrow> dir_get (d_records ?d) (record_path X r) = None" for n r
    using fresh by (auto simp: fresh_names_def Let_def)
  have j: "addition_journal (?j tid i t) did i (import_keys imported i)" "cj_transaction_id (?j tid i t) = tid" for tid i t
    by (auto simp: addition_journal_def new_creation_journal_def import_refs_of import_keys_def image_image)
  let ?open = "addition_open X (rt_root_key rt) (import_keys imported) (\<lambda>i r. \<exists>t. build i t = Inr r) did g ?d"
  have written: "?open (?d\<lparr>d_journals := dir_put (journal_path X (drawn X c m))
      (Parsed (?j (drawn X c m) (drawn X c n) t)) (d_journals ?d)\<rparr>)" for m n t
  proof -
    have "uncommitted X ?d (?j (drawn X c m) (drawn X c n) t) (?d\<lparr>d_journals := dir_put (journal_path X (drawn X c m))
      (Parsed (?j (drawn X c m) (drawn X c n) t)) (d_journals ?d)\<rparr>)"
      by (simp add: uncommitted_def j(2))
    with names j show ?thesis
      unfolding addition_open_def
      by (intro exI [of _ "drawn X c n"] exI [of _ "?j (drawn X c m) (drawn X c n) t"])
         (auto simp: import_keys_def import_ref_of_def)
  qed
  define enter where "enter guard registry i tid t = bnd (foreach (seal_imported_key X rt guard)
         (zip imported (import_refs i imported))) (\<lambda>_.
     bnd (lift (build i t)) (\<lambda>r.
     bnd (write_identity X (rt_root rt) guard r) (\<lambda>_.
     bnd (register_identity (rt_root rt) guard registry did (summary r)) (\<lambda>n.
     bnd (remove_journal X (rt_root rt) guard tid) (\<lambda>_.
     ret (store\<lparr>ds_registry_generation := n\<rparr>, \<lparr>di_runtime = rt, di_record = r\<rparr>))))))" for guard registry i tid t
  have rest: "safe (enter (guard_of (rt_root rt)) g (drawn X c n) (drawn X c m) t) ?Q
      (\<lambda>_ c'. w_disk c' = ?d \<or> ?open (w_disk c')) w"
    if "calm w" "w_random w = w_random c"
      "w_disk w = ?d\<lparr>d_journals := with_journal X (?j (drawn X c m) (drawn X c n) t) ?d\<rparr>" for w m n t
  proof -
    have "fills w" using c(2) that(2) by (simp add: fills_def)
    note step = safe_import_enter [where store = store and g = g and build = build and t = t
        and j = "?j (drawn X c m) (drawn X c n) t", folded rt_def, OF rt that(1) this X keys dist j(1) names(1),
        unfolded j(2), OF names(2,3) build that(3) [unfolded j(2)]]
    show ?thesis unfolding enter_def by (rule safe_mono [OF step]) auto
  qed
  show ?thesis
    unfolding import_transaction_def Let_def rt_def [symmetric] enter_def [symmetric] random_id_def now_rfc3339_def
    using rt c(1) g
    by (intro safe_bnd safe_acquire_write safe_read_registry impI safe_lift safe_draws_identity [OF id]
        safe_fill_bytes safe_ret safe_utc_now safe_write_journal)
       (simp_all add: j(2) rest written)
qed

end
