(* ===== verification/Import_Properties.thy ===== *)
theory Import_Properties
  imports Addition_Recovery Sample_Records Sample_Host
begin

text \<open>
  Importing identities with their private keys: the three imports are atomic under every failure
  schedule, and the keys they store are the private keys of the public keys of the document.
\<close>

section \<open>The imports\<close>

datatype identity_import =
    Import_Device device_identity_import_spec
  | Import_Request request_signing_identity_import_spec
  | Import_Identity identity_import_spec

fun perform_import ::
  "ext \<Rightarrow> host_ext \<Rightarrow> did_store \<Rightarrow> identity_import \<Rightarrow> (did_store \<times> did_identity) io" where
  "perform_import X H store (Import_Device spec) = import_device_identity X H store spec"
| "perform_import X H store (Import_Request spec) = import_request_signing_identity X H store spec"
| "perform_import X H store (Import_Identity spec) = import_identity X H store spec"

fun import_document :: "identity_import \<Rightarrow> json" where
  "import_document (Import_Device spec) = dv_verified_document spec"
| "import_document (Import_Request spec) = ri_verified_document spec"
| "import_document (Import_Identity spec) = ii_verified_document spec"

fun import_private_keys :: "identity_import \<Rightarrow> imported_private_key list" where
  "import_private_keys (Import_Device spec) = [dv_signing_key spec, dv_e2ee_key spec]"
| "import_private_keys (Import_Request spec) = [ri_private_key spec]"
| "import_private_keys (Import_Identity spec) = ii_private_keys spec"

definition import_prepared :: "ext \<Rightarrow> host_ext \<Rightarrow> identity_import \<Rightarrow> prepared_imported_key list" where
  "import_prepared X H m =
     (case get_str (import_document m) ''id'' of
        None \<Rightarrow> []
      | Some did \<Rightarrow>
          (case prepare_imported_keys X H did (import_document m) (import_private_keys m) of
             Inl _ \<Rightarrow> [] | Inr ks \<Rightarrow> ks))"

section \<open>Prepared keys\<close>

text \<open>What is relied on of the PKCS#8 parser: the keys it returns have 32 bytes.\<close>

definition pkcs8_ok :: "host_ext \<Rightarrow> bool" where
  "pkcs8_ok H \<longleftrightarrow> (\<forall>der b. private_key_from_pkcs8_der H der \<in> {Some (Ed25519_Private b), Some (X25519_Private b)}
     \<longrightarrow> length b = 32)"

text \<open>The document lists the public key of a prepared key under its identifier.\<close>

definition published :: "ext \<Rightarrow> json \<Rightarrow> string \<Rightarrow> public_key \<Rightarrow> bool" where
  "published X document kid pub \<longleftrightarrow> (\<exists>method expected. find_verification_method X document kid = Some method
     \<and> extract_public_key X method = Some expected \<and> public_keys_equal pub expected)"

lemma parsed_key_fits:
  assumes "pkcs8_ok H" "parse_private_key H role encoding secret = Inr material"
    "raw_private_key material role = Inr raw"
  shows "public_key_from_secret X role raw = Inr (private_public_key X material)"
    "public_keys_equal (private_public_key X material) (private_public_key X material)"
proof -
  have "length raw = 32"
    using assms unfolding pkcs8_ok_def parse_private_key_def
    by (cases material) (auto simp: rbind_Inr_iff split: private_key_encoding.splits if_splits)
  then show "public_key_from_secret X role raw = Inr (private_public_key X material)"
    "public_keys_equal (private_public_key X material) (private_public_key X material)"
    using assms(3) by (cases material; auto simp: public_key_from_secret_def public_key_from_raw_def split: if_splits)+
qed

lemma prepare_imported_key_fits:
  assumes "pkcs8_ok H" "prepare_imported_key X H did document ks key = Inr ks'"
  shows "\<exists>k. ks' = ks @ [k] \<and> key_fits X k \<and> published X document (pk_prepared_kid k) (pk_public k)"
proof -
  from assms(2) obtain kid material vm expected raw where
    m: "parse_private_key H (ip_role key) (ip_encoding key) (ip_secret key) = Inr material"
      "find_verification_method X document kid = Some vm" "extract_public_key X vm = Some expected"
      "public_keys_equal (private_public_key X material) expected"
      "raw_private_key material (ip_role key) = Inr raw"
    and ks': "ks' = ks @ [\<lparr>pk_prepared_kid = kid, pk_prepared_role = ip_role key, pk_raw = raw,
      pk_public = private_public_key X material\<rparr>]"
    unfolding prepare_imported_key_def Let_def rbind_Inr_iff ok_or_Inr_iff ensure_Inr_iff by auto
  from parsed_key_fits [OF assms(1) m(1,5), of X] m(2-4) show ?thesis
    unfolding ks' key_fits_def published_def by auto
qed

definition well_prepared :: "ext \<Rightarrow> json \<Rightarrow> prepared_imported_key \<Rightarrow> bool" where
  "well_prepared X document k \<longleftrightarrow> key_fits X k \<and> published X document (pk_prepared_kid k) (pk_public k)"

lemma prepare_imported_keys_step:
  assumes "pkcs8_ok H" "rfold (prepare_imported_key X H did document) acc keys = Inr ks"
    "\<forall>k \<in> set acc. well_prepared X document k"
  shows "length ks = length acc + length keys \<and> (\<forall>k \<in> set ks. well_prepared X document k)"
  using assms(2,3)
proof (induction keys arbitrary: acc)
  case (Cons key keys)
  from Cons.prems(1) obtain acc' where step: "prepare_imported_key X H did document acc key = Inr acc'"
    and rest: "rfold (prepare_imported_key X H did document) acc' keys = Inr ks"
    by (auto simp: rbind_Inr_iff)
  from prepare_imported_key_fits [OF assms(1) step] obtain k where "acc' = acc @ [k]" "well_prepared X document k"
    unfolding well_prepared_def by blast
  with Cons.IH [OF rest] Cons.prems(2) show ?case by simp
qed simp

lemma prepare_imported_keys_fit:
  assumes "pkcs8_ok H" "prepare_imported_keys X H did document keys = Inr ks"
  shows "length ks = length keys" "\<forall>k \<in> set ks. well_prepared X document k"
  using prepare_imported_keys_step [OF assms(1), of X did document "[]" keys ks] assms(2)
  by (simp_all add: prepare_imported_keys_def split: if_splits)

section \<open>Imported records\<close>

text \<open>
  The record of an import: it is active, holds the document, reads back as it was written, and
  every managed key of it is one of the prepared keys.
\<close>

definition import_record_ok ::
  "ext \<Rightarrow> json \<Rightarrow> prepared_imported_key list \<Rightarrow> string \<Rightarrow> string \<Rightarrow> identity_record \<Rightarrow> bool" where
  "import_record_ok X document ks did i r \<longleftrightarrow> addable X did i r \<and> ir_document r = document \<and> ir_state r = Id_Active
     \<and> (\<forall>m \<in> set (ir_keys r). km_origin m = Managed \<longrightarrow> key_secret_ref i m \<in> import_ref_of i ` set ks)"

lemma for_did_wba: "starts_with did ''did:wba:'' \<Longrightarrow> for_did X did = Inr E1"
  by (simp add: for_did_def)

lemma root_key_fingerprint_nonempty: "root_key_fingerprint X doc = Inr f \<Longrightarrow> f \<noteq> []"
  by (auto simp: root_key_fingerprint_def rbind_Inr_iff split: public_key.splits) (metis public_key.exhaust)

lemma metadata_ref:
  "mk_key_metadata X document (pk_prepared_kid k) (pk_prepared_role k) origin t = Inr m
   \<Longrightarrow> key_secret_ref i m = import_ref_of i k"
  by (auto simp: mk_key_metadata_def rbind_Inr_iff key_secret_ref_def import_ref_of_def)

lemma mk_key_metadata_origin: "mk_key_metadata X document kid role origin t = Inr m \<Longrightarrow> km_origin m = origin"
  by (auto simp: mk_key_metadata_def rbind_Inr_iff)

lemma managed_import_refs:
  assumes "managed_import_metadata X document t ks = Inr ms" "m \<in> set ms"
  shows "key_secret_ref i m \<in> import_ref_of i ` set ks"
  using set_rcollect [OF assms(1) [unfolded managed_import_metadata_def]] assms(2)
  by (auto dest: metadata_ref [where i = i])

lemma device_import_record_ok:
  assumes "starts_with did ''did:wba:''" "device_import_record X spec did kid ks i t = Inr r"
  shows "import_record_ok X (dv_verified_document spec) ks did i r"
proof -
  from assms(2) obtain root ms local f where *:
    "mk_key_metadata X (dv_verified_document spec) kid RootControl External t = Inr root"
    "managed_import_metadata X (dv_verified_document spec) t ks = Inr ms"
    "root_key_fingerprint X (dv_verified_document spec) = Inr f"
    and r: "r = imported_record
         \<lparr>ni_identity_id = i, ni_did = did, ni_document = dv_verified_document spec, ni_keys = root # ms,
          ni_capabilities = dv_capabilities spec, ni_root_capability = Root_Absent,
          ni_root_key_fingerprint = Some f, ni_checkpoint = checkpoint (dv_evidence spec),
          ni_local_authorization = Some local, ni_created_at = t\<rparr>"
    unfolding device_import_record_def Let_def rbind_Inr_iff ok_or_Inr_iff by auto
  show ?thesis
    using for_did_wba [OF assms(1), of X] root_key_fingerprint_nonempty [OF *(3)]
      mk_key_metadata_origin [OF *(1)] managed_import_refs [OF *(2), where i = i]
    by (auto simp: import_record_ok_def addable_def r imported_record_def new_identity_record_def
        supports_root_control_def)
qed

lemma request_import_record_ok:
  assumes "starts_with did ''did:wba:''" "request_import_record X spec did kid k i t = Inr r"
    "validate_device_manifest X (ri_verified_document spec) \<noteq> None" "pk_prepared_role k = RequestSigning"
  shows "import_record_ok X (ri_verified_document spec) [k] did i r"
proof -
  from assms(2) obtain root request f where *:
    "mk_key_metadata X (ri_verified_document spec) kid RootControl External t = Inr root"
    "mk_key_metadata X (ri_verified_document spec) (pk_prepared_kid k) RequestSigning Managed t = Inr request"
    "root_key_fingerprint X (ri_verified_document spec) = Inr f"
    and r: "r = (imported_record
         \<lparr>ni_identity_id = i, ni_did = did, ni_document = ri_verified_document spec, ni_keys = [root, request],
          ni_capabilities = ri_capabilities spec, ni_root_capability = Root_Absent,
          ni_root_key_fingerprint = Some f, ni_checkpoint = checkpoint (ri_evidence spec),
          ni_local_authorization = None, ni_created_at = t\<rparr>)
         \<lparr>ir_local_request_signing_kid := Some (pk_prepared_kid k)\<rparr>"
    unfolding request_import_record_def Let_def rbind_Inr_iff by auto
  have "\<not> is_local_device [root, request] device" for device
    using mk_key_metadata_role [OF *(1)] mk_key_metadata_role [OF *(2)] by (auto simp: is_local_device_def)
  then have "infer_local_authorization X (ri_verified_document spec) [root, request] = Inr None"
    using assms(3) by (auto simp: infer_local_authorization_def split: option.splits)
  with for_did_wba [OF assms(1), of X] root_key_fingerprint_nonempty [OF *(3)]
    mk_key_metadata_origin [OF *(1)] metadata_ref [OF *(2) [folded assms(4)], where i = i]
  show ?thesis
    by (auto simp: import_record_ok_def addable_def r imported_record_def new_identity_record_def
        supports_root_control_def)
qed

lemma identity_import_record_ok:
  assumes "starts_with did ''did:wba:''" "identity_import_record X spec did ks i t = Inr r"
  shows "import_record_ok X (ii_verified_document spec) ks did i r"
proof -
  from assms(2) obtain ms local f where *:
    "managed_import_metadata X (ii_verified_document spec) t ks = Inr ms"
    "infer_local_authorization X (ii_verified_document spec) ms = Inr local"
    "root_key_fingerprint_from_import X ks = Inr f"
    and r: "r = imported_record
         \<lparr>ni_identity_id = i, ni_did = did, ni_document = ii_verified_document spec, ni_keys = ms,
          ni_capabilities = ii_capabilities spec, ni_root_capability = Root_Active,
          ni_root_key_fingerprint = Some f, ni_checkpoint = checkpoint (ii_evidence spec),
          ni_local_authorization = local, ni_created_at = t\<rparr>"
    unfolding identity_import_record_def Let_def rbind_Inr_iff by auto
  have "f \<noteq> []"
    using *(3) by (auto simp: root_key_fingerprint_from_import_def rbind_Inr_iff dest: root_key_fingerprint_nonempty)
  with for_did_wba [OF assms(1), of X] *(2) managed_import_refs [OF *(1), where i = i]
  show ?thesis
    by (auto simp: import_record_ok_def addable_def r imported_record_def new_identity_record_def
        supports_root_control_def)
qed

section \<open>The imports under every failure schedule\<close>

text \<open>A complete import of the document with the prepared keys, on the disk \<open>d\<close>.\<close>

definition import_complete ::
  "ext \<Rightarrow> bytes \<Rightarrow> json \<Rightarrow> prepared_imported_key list \<Rightarrow> identity_registry \<Rightarrow> u64 \<Rightarrow> identity_record
     \<Rightarrow> disk \<Rightarrow> disk \<Rightarrow> bool" where
  "import_complete X k document ks g n r d d' \<longleftrightarrow>
     (\<exists>did. get_str document ''id'' = Some did \<and> import_record_ok X document ks did (ir_identity_id r) r)
     \<and> (\<forall>q \<in> import_keys ks (ir_identity_id r). published X document (sr_key_id (fst q)) (snd q))
     \<and> entered X k (import_keys ks (ir_identity_id r)) g n r d (d_journals d) d'"

definition import_left ::
  "ext \<Rightarrow> bytes \<Rightarrow> json \<Rightarrow> prepared_imported_key list \<Rightarrow> identity_registry \<Rightarrow> disk \<Rightarrow> disk \<Rightarrow> bool" where
  "import_left X k document ks g d d' \<longleftrightarrow> (\<exists>did. get_str document ''id'' = Some did
     \<and> btree_get (rg_identities g) did = None
     \<and> addition_open X k (import_keys ks) (import_record_ok X document ks did) did g d d')"

lemma addition_open_mono:
  "addition_open X k K R did g d d' \<Longrightarrow> (\<And>i r. R i r \<Longrightarrow> R' i r) \<Longrightarrow> addition_open X k K R' did g d d'"
  unfolding addition_open_def by blast

lemma import_keys_published:
  "\<forall>k \<in> set ks. well_prepared X document k \<Longrightarrow> q \<in> import_keys ks i
   \<Longrightarrow> published X document (sr_key_id (fst q)) (snd q)"
  by (auto simp: import_keys_def import_ref_of_def well_prepared_def)

lemma safe_import_document:
  fixes store
  assumes "wf_runtime (ds_runtime store)" "calm c" "fills c" "codec_ok X" "fresh_names X c"
    and "registry_at (w_disk c) = Inr g" "draws_identity X c fresh_id"
    and ks: "\<forall>k \<in> set ks. well_prepared X document k"
    and "\<And>n. distinct (map (record_path X) (import_refs (drawn X c n) ks))"
    and did: "get_str document ''id'' = Some did"
    and build: "\<And>i t r. build i t = Inr r \<Longrightarrow> import_record_ok X document ks did i r"
  shows "safe (import_transaction X store did ks fresh_id build)
    (\<lambda>x c'. \<exists>r n. x = addition_result store n r
       \<and> import_complete X (rt_root_key (ds_runtime store)) document ks g n r (w_disk c) (w_disk c'))
    (\<lambda>_ c'. w_disk c' = w_disk c
       \<or> import_left X (rt_root_key (ds_runtime store)) document ks g (w_disk c) (w_disk c')) c"
proof -
  have fits: "\<forall>k \<in> set ks. key_fits X k" using ks by (simp add: well_prepared_def)
  have add: "addable X did i r" if "build i t = Inr r" for i t r
    using build [OF that] by (simp add: import_record_ok_def)
  have id: "ir_identity_id r = i" if "build i t = Inr r" for i t r
    using add [OF that] unfolding addable_def by blast
  have whole: "import_complete X k document ks g n r d d'"
    if "build i t = Inr r" "entered X k (import_keys ks i) g n r d (d_journals d) d'" for k i t r n d d'
    using that build [OF that(1)] id [OF that(1)] did import_keys_published [OF ks]
    unfolding import_complete_def by blast
  note run = safe_import_transaction [where store = store, OF assms(1-3,4,5,6,7) fits assms(9) add]
  show ?thesis
  proof (rule safe_mono [OF run])
    fix x and c' :: world
    assume "\<exists>i t r n. x = (store\<lparr>ds_registry_generation := n\<rparr>, \<lparr>di_runtime = ds_runtime store, di_record = r\<rparr>)
       \<and> build i t = Inr r \<and> entered X (rt_root_key (ds_runtime store)) (import_keys ks i) g n r (w_disk c)
           (d_journals (w_disk c)) (w_disk c')"
    with whole show "\<exists>r n. x = addition_result store n r
       \<and> import_complete X (rt_root_key (ds_runtime store)) document ks g n r (w_disk c) (w_disk c')"
      unfolding addition_result_def by blast
  next
    fix e and c' :: world
    assume "w_disk c' = w_disk c \<or> btree_get (rg_identities g) did = None
       \<and> addition_open X (rt_root_key (ds_runtime store)) (import_keys ks) (\<lambda>i r. \<exists>t. build i t = Inr r) did g
           (w_disk c) (w_disk c')"
    with did build show "w_disk c' = w_disk c
       \<or> import_left X (rt_root_key (ds_runtime store)) document ks g (w_disk c) (w_disk c')"
      unfolding import_left_def by (auto elim!: addition_open_mono)
  qed
qed

text \<open>The storage names of the secrets of an import are distinct, whatever identifier is drawn.\<close>

definition distinct_names :: "ext \<Rightarrow> host_ext \<Rightarrow> world \<Rightarrow> identity_import \<Rightarrow> bool" where
  "distinct_names X H w m \<longleftrightarrow>
     (\<forall>n. distinct (map (record_path X) (import_refs (drawn X w n) (import_prepared X H m))))"

definition wba_document :: "json \<Rightarrow> bool" where
  "wba_document document \<longleftrightarrow> (\<forall>did. get_str document ''id'' = Some did \<longrightarrow> starts_with did ''did:wba:'')"

lemma import_preparedI:
  "get_str (import_document m) ''id'' = Some did
   \<Longrightarrow> prepare_imported_keys X H did (import_document m) (import_private_keys m) = Inr ks
   \<Longrightarrow> import_prepared X H m = ks"
  by (simp add: import_prepared_def)

lemma validate_verified_manifest:
  "validate_verified_document X doc e = Inr u \<Longrightarrow> validate_device_manifest X doc \<noteq> None"
  by (auto simp: validate_verified_document_def rbind_Inr_iff)

lemma safe_perform_import:
  fixes store
  assumes "wf_runtime (ds_runtime store)" "calm c" "fills c" "codec_ok X" "pkcs8_ok H" "fresh_names X c"
    and "registry_at (w_disk c) = Inr g" and wba: "wba_document (import_document m)"
    and dist: "distinct_names X H c m"
  shows "safe (perform_import X H store m)
    (\<lambda>x c'. \<exists>r n. x = addition_result store n r \<and> import_complete X (rt_root_key (ds_runtime store))
       (import_document m) (import_prepared X H m) g n r (w_disk c) (w_disk c'))
    (\<lambda>_ c'. w_disk c' = w_disk c \<or> import_left X (rt_root_key (ds_runtime store))
       (import_document m) (import_prepared X H m) g (w_disk c) (w_disk c')) c"
    (is "safe _ ?Q ?E c")
proof -
  have run: "safe (import_transaction X store did ks fresh_id build) ?Q ?E w"
    if "get_str (import_document m) ''id'' = Some did"
      "prepare_imported_keys X H did (import_document m) (import_private_keys m) = Inr ks"
      "calm w" "w_disk w = w_disk c" "w_random w = w_random c" "draws_identity X w fresh_id"
      "\<And>i t r. build i t = Inr r \<Longrightarrow> import_record_ok X (import_document m) ks did i r"
    for did ks fresh_id build w
  proof -
    have ks: "import_prepared X H m = ks" using that(1,2) by (rule import_preparedI)
    have "fills w" "fresh_names X w" "\<And>n. distinct (map (record_path X) (import_refs (drawn X w n) ks))"
      using assms(3,6) dist that(4,5) ks by (simp_all add: fills_def fresh_names_def distinct_names_def)
    from safe_import_document [OF assms(1) that(3) this(1) assms(4) this(2) _ that(6)
        prepare_imported_keys_fit(2) [OF assms(5) that(2)] this(3) that(1,7)] assms(7) that(4)
    show ?thesis by (simp add: ks)
  qed
  have drawn_now: "draws_identity X w (random_id X)" for w by (simp add: draws_identity_def)
  show ?thesis
  proof (cases m)
    case (Import_Device spec)
    with wba have ok: "import_record_ok X (import_document m) ks did i r"
      if "get_str (import_document m) ''id'' = Some did" "device_import_record X spec did kid ks i t = Inr r" for did kid ks i t r
      using that device_import_record_ok [of did X spec kid ks i t r] by (simp add: wba_document_def)
    from Import_Device show ?thesis
      using assms(2) run [OF _ _ _ _ _ drawn_now] ok
      by (auto intro!: safe_bnd [OF safe_lift] simp: import_device_identity_def Let_def)
  next
    case (Import_Request spec)
    with wba have ok: "import_record_ok X (import_document m) [k] did i r"
      if "get_str (import_document m) ''id'' = Some did" "request_import_record X spec did kid k i t = Inr r"
        "validate_verified_document X (ri_verified_document spec) e = Inr u"
        "check_request_import X (ri_verified_document spec) k = Inr v" for did kid k i t r e u v
      using that request_import_record_ok [of did X spec kid k i t r] validate_verified_manifest [OF that(3)]
      by (simp add: wba_document_def check_request_import_def)
    have one: "[last ks] = ks" "ks \<noteq> []"
      if "prepare_imported_keys X H did (ri_verified_document spec) [ri_private_key spec] = Inr ks" for did ks
      using prepare_imported_keys_fit(1) [OF assms(5) that] by (auto simp: length_Suc_conv)
    have request: "import_record_ok X (import_document m) ks did i r"
      if "get_str (import_document m) ''id'' = Some did" "request_import_record X spec did kid (last ks) i t = Inr r"
        "validate_verified_document X (ri_verified_document spec) e = Inr u"
        "prepare_imported_keys X H did (ri_verified_document spec) [ri_private_key spec] = Inr ks"
        "check_request_import X (ri_verified_document spec) (last ks) = Inr v" for did kid ks i t r e u v
      using ok [OF that(1,2,3,5)] one(1) [OF that(4)] by simp
    from Import_Request show ?thesis
      using assms(2) run [OF _ _ _ _ _ drawn_now] request
      by (auto intro!: safe_bnd [OF safe_lift] simp: import_request_signing_identity_def Let_def one)
  next
    case (Import_Identity spec)
    with wba have ok: "import_record_ok X (import_document m) ks did i r"
      if "get_str (import_document m) ''id'' = Some did" "identity_import_record X spec did ks i t = Inr r" for did ks i t r
      using that identity_import_record_ok [of did X spec ks i t r] by (simp add: wba_document_def)
    have inner: "safe (import_identity_with_id X H store spec (drawn X c n)) ?Q ?E w"
      if "calm w" "w_disk w = w_disk c" "w_random w = w_random c" for w n
    proof -
      have "draws_identity X w (ret (drawn X c n))" using that(3) by (auto simp: draws_identity_def)
      from run [OF _ _ that this] ok Import_Identity show ?thesis
        using that by (auto intro!: safe_bnd [OF safe_lift] simp: import_identity_with_id_def Let_def)
    qed
    have "safe (import_identity X H store spec) ?Q ?E c"
      unfolding import_identity_def
      by (rule safe_bnd, rule safe_draws_identity [OF drawn_now assms(2) refl]) (use inner in simp)
    with Import_Identity show ?thesis by simp
  qed
qed

section \<open>Atomicity\<close>

lemma recover_import_left:
  assumes "wf_runtime rt" "calm w" "named_files X" "quiescent d" "registry_at d = Inr g"
    and ks: "\<forall>k \<in> set ks. well_prepared X document k"
    and left: "import_left X (rt_root_key rt) document ks g d (w_disk w)"
  shows "\<exists>g' d'. recover X rt w = (Inr g', w\<lparr>w_disk := d'\<rparr>)
    \<and> (d' = d \<or> (\<exists>r n. import_complete X (rt_root_key rt) document ks g n r d d'))"
proof -
  from left obtain did where did: "get_str document ''id'' = Some did" "btree_get (rg_identities g) did = None"
    and open_: "addition_open X (rt_root_key rt) (import_keys ks) (import_record_ok X document ks did) did g d (w_disk w)"
    unfolding import_left_def by blast
  have add: "addable X did i r" "ir_identity_id r = i" if "import_record_ok X document ks did i r" for i r
    using that unfolding import_record_ok_def addable_def by blast+
  from recover_addition [OF assms(1-5) did(2) add(1) open_] obtain g' d' where
    rec: "recover X rt w = (Inr g', w\<lparr>w_disk := d'\<rparr>)"
    and d': "d' = d \<or> (\<exists>i r n. import_record_ok X document ks did i r
      \<and> entered X (rt_root_key rt) (import_keys ks i) g n r d (d_journals d) d')" by blast
  from d' have "d' = d \<or> (\<exists>r n. import_complete X (rt_root_key rt) document ks g n r d d')"
    using did(1) add(2) import_keys_published [OF ks] unfolding import_complete_def by metis
  with rec show ?thesis by blast
qed

lemma import_prepared_fit: "pkcs8_ok H \<Longrightarrow> \<forall>k \<in> set (import_prepared X H m). well_prepared X (import_document m) k"
  unfolding import_prepared_def
  by (cases "get_str (import_document m) ''id''";
      cases "prepare_imported_keys X H (the (get_str (import_document m) ''id'')) (import_document m) (import_private_keys m)")
     (simp_all add: prepare_imported_keys_fit(2))

text \<open>
  C6: importing an identity whose document is of the did:wba method is atomic under every schedule of
  system-call failures, for a device, a request signing key and a whole identity; documents of other
  methods are excluded, and the last section shows why. The recovery that the next opening of
  the store runs succeeds. An import that returned is fully there: the registry entry, an active
  record that holds the document, and for each of its keys a sealed secret whose public key is the one
  the document publishes. One that failed left no trace or is fully there as well.
\<close>
theorem import_crash_atomic:
  fixes store w
  assumes "wf_runtime (ds_runtime store)" "codec_ok X" "pkcs8_ok H" "named_files X"
    and "fills w" "fresh_names X w" "distinct_names X H w m" "wba_document (import_document m)"
    and "quiescent (w_disk w)" "registry_at (w_disk w) = Inr g"
    and run: "perform_import X H store m w = (res, w1)"
  shows "\<exists>g2 d2. recover X (ds_runtime store) (core w1) = (Inr g2, (core w1)\<lparr>w_disk := d2\<rparr>)
    \<and> (case res of
         Inr x \<Rightarrow> \<exists>r n. x = addition_result store n r \<and> import_complete X (rt_root_key (ds_runtime store))
           (import_document m) (import_prepared X H m) g n r (w_disk w) d2
       | Inl _ \<Rightarrow> d2 = w_disk w \<or> (\<exists>r n. import_complete X (rt_root_key (ds_runtime store))
           (import_document m) (import_prepared X H m) g n r (w_disk w) d2))"
proof -
  let ?rt = "ds_runtime store"
  let ?done = "\<lambda>n r. import_complete X (rt_root_key ?rt) (import_document m) (import_prepared X H m) g n r (w_disk w)"
  have "fills (core w)" "fresh_names X (core w)" "distinct_names X H (core w) m" "registry_at (w_disk (core w)) = Inr g"
    using assms(5-7,10) by (simp_all add: fills_def fresh_names_def distinct_names_def)
  note out = safe_run_world [OF safe_perform_import [OF assms(1) core_calm(1) this(1) assms(2,3) this(2,4) assms(8) this(3)]
      run, simplified]
  have still: "recover X ?rt (core w1) = (registry_at (w_disk w1), core w1)" if "quiescent (w_disk w1)"
    using recover_quiescent [OF assms(1), of "core w1" X] that by simp
  show ?thesis
  proof (cases res)
    case (Inr x)
    with out obtain r n where x: "x = addition_result store n r" "?done n r (w_disk w1)" by auto
    have "quiescent (w_disk w1)" "registry_at (w_disk w1) = Inr (entry_for g r n)"
      using x(2) entered_quiescent [OF _ assms(9,10)] unfolding import_complete_def by blast+
    with still x Inr show ?thesis by (intro exI [of _ "entry_for g r n"] exI [of _ "w_disk w1"]) auto
  next
    case (Inl e)
    with out consider "w_disk w1 = w_disk w" | "import_left X (rt_root_key ?rt) (import_document m)
        (import_prepared X H m) g (w_disk w) (w_disk (core w1))" by auto
    then show ?thesis
    proof cases
      case 1
      with still assms(9,10) Inl show ?thesis by (intro exI [of _ g] exI [of _ "w_disk w"]) simp
    next
      case 2
      from recover_import_left [OF assms(1) core_calm(1) assms(4,9,10) import_prepared_fit [OF assms(3)] 2] Inl
      show ?thesis by auto
    qed
  qed
qed

definition sample_import :: "json \<Rightarrow> string \<Rightarrow> identity_import" where
  "sample_import document kid = Import_Identity \<lparr>ii_verified_document = document,
     ii_evidence = sample_evidence document 1, ii_capabilities = \<lparr>did_wba = False\<rparr>,
     ii_private_keys = [\<lparr>ip_kid = kid, ip_role = RootControl, ip_encoding = Raw32, ip_secret = sample_key\<rparr>]\<rparr>"

theorem import_crash_atomic_witness:
  "is_ok (fst (perform_import sample_ext sample_host sample_store (sample_import sample_root_document sample_root_kid)
      (sample_world [])))
   \<and> (\<exists>g2 d2 w1. w1 = core (snd (perform_import sample_ext sample_host sample_store
          (sample_import sample_root_document sample_root_kid) (sample_world (replicate 20 None @ [Some ''disk full'']))))
        \<and> recover sample_ext (ds_runtime sample_store) w1 = (Inr g2, w1\<lparr>w_disk := d2\<rparr>))"
proof
  show "is_ok (fst (perform_import sample_ext sample_host sample_store (sample_import sample_root_document sample_root_kid)
      (sample_world [])))" by code_simp
  let ?m = "sample_import sample_root_document sample_root_kid"
  have codec: "codec_ok sample_ext" by (simp add: codec_ok_def sample_ext_def)
  have pkcs8: "pkcs8_ok sample_host" by (simp add: pkcs8_ok_def sample_host_def)
  have "length (import_prepared sample_ext sample_host ?m) = 1" by code_simp
  then obtain k where "import_prepared sample_ext sample_host ?m = [k]" by (auto simp: length_Suc_conv)
  then have names: "distinct_names sample_ext sample_host (sample_world fs) ?m" for fs
    by (simp add: distinct_names_def import_refs_of)
  have "get_str (import_document ?m) ''id'' = Some sample_root_did" by code_simp
  then have wba: "wba_document (import_document ?m)"
    by (simp add: wba_document_def sample_root_did_def starts_with_def)
  show "\<exists>g2 d2 w1. w1 = core (snd (perform_import sample_ext sample_host sample_store ?m
          (sample_world (replicate 20 None @ [Some ''disk full'']))))
        \<and> recover sample_ext (ds_runtime sample_store) w1 = (Inr g2, w1\<lparr>w_disk := d2\<rparr>)"
    using import_crash_atomic [OF sample_wf_runtime codec pkcs8 sample_named_files sample_fills sample_fresh names wba
        sample_quiescent sample_registry prod.collapse [symmetric]] by blast
qed

section \<open>Identities of the web method\<close>

text \<open>
  The imports do not look at the method of the identity. The document of a \<open>did:web\<close> identity that
  carries a proof is imported as if it had a root key, and the record that is written is refused by the
  reader; when the last step of such an import fails, the store cannot be opened any more, because
  its recovery has to read the record.
\<close>

definition web_document :: json where
  "web_document = json_object
     [(''id'', JString ''did:web:a.b''),
      (''proof'', json_object [(''verificationMethod'', JString ''did:web:a.b#root'')]),
      (''verificationMethod'', JArray [json_object [(''controller'', JString ''did:web:a.b''),
         (''id'', JString ''did:web:a.b#root''),
         (''publicKeyMultibase'', JString (sample_key_text (Ed25519 sample_key))),
         (''type'', JString ''Multikey'')]])]"

definition run_web_import :: "string option list \<Rightarrow> (did_store \<times> did_identity) did_result \<times> world" where
  "run_web_import faults = perform_import sample_ext sample_host sample_store
     (sample_import web_document ''did:web:a.b#root'') (sample_world faults)"

theorem web_import_unreadable:
  "(case run_web_import [] of
      (Inr (_, i), w) \<Rightarrow> identity_at sample_ext (w_disk w) (di_identity_id i) = Inl InvalidIdentity
    | _ \<Rightarrow> False)
   \<and> fst (recover sample_ext (ds_runtime sample_store)
        (core (snd (run_web_import (replicate 41 None @ [Some ''unlink''])))))
      = Inl InvalidIdentity"
proof
  show "case run_web_import [] of
      (Inr (_, i), w) \<Rightarrow> identity_at sample_ext (w_disk w) (di_identity_id i) = Inl InvalidIdentity
    | _ \<Rightarrow> False"
    by code_simp
  show "fst (recover sample_ext (ds_runtime sample_store)
        (core (snd (run_web_import (replicate 41 None @ [Some ''unlink''])))))
      = Inl InvalidIdentity"
    by code_simp
qed

end
