(* ===== verification/Enrolment_Recovery.thy ===== *)
theory Enrolment_Recovery
  imports Addition_Recovery Sample_Records
begin

text \<open>
  Enrolments under every failure schedule: preparing the enrolment of a device or of a request
  signing key adds an identity that waits for its publication, or leaves no trace.
\<close>

section \<open>The enrolments\<close>

datatype enrolment = Enrol_Device enrollment_spec | Enrol_Request request_signing_enrollment_spec

fun perform_enrolment :: "ext \<Rightarrow> did_store \<Rightarrow> enrolment \<Rightarrow> (did_store \<times> did_identity) io" where
  "perform_enrolment X store (Enrol_Device spec) =
     bnd (prepare_enrollment X store spec) (\<lambda>(s, i, _). ret (s, i))"
| "perform_enrolment X store (Enrol_Request spec) =
     bnd (prepare_request_signing_enrollment X store spec) (\<lambda>(s, i, _). ret (s, i))"

fun enrolment_document :: "enrolment \<Rightarrow> json" where
  "enrolment_document (Enrol_Device spec) = es_verified_document spec"
| "enrolment_document (Enrol_Request spec) = rs_verified_document spec"

section \<open>Sealing generated keys\<close>

text \<open>What is relied on of the key generators: the secrets they make of 32 bytes have 32 bytes.\<close>

definition generators_ok :: "ext \<Rightarrow> bool" where
  "generators_ok X \<longleftrightarrow> (\<forall>b. length b = 32 \<longrightarrow> length (ed25519_generate X b) = 32 \<and> length (x25519_random_secret X b) = 32)"

definition key_ref :: "string \<Rightarrow> string \<Rightarrow> key_role \<Rightarrow> secret_ref" where
  "key_ref i kid role = \<lparr>sr_identity_id = i, sr_key_id = kid, sr_role = role, sr_version = 1\<rparr>"

text \<open>The keys of an enrolment with the references of their secrets.\<close>

definition sealed_pairs :: "ext \<Rightarrow> (managed_private_key \<times> secret_ref) list \<Rightarrow> (secret_ref \<times> public_key) set" where
  "sealed_pairs X ps = (\<lambda>p. (snd p, managed_public_key X (fst p))) ` set ps"

definition pair_ok :: "string \<Rightarrow> managed_private_key \<times> secret_ref \<Rightarrow> bool" where
  "pair_ok i p \<longleftrightarrow> length (mp_bytes (fst p)) = 32 \<and> sr_role (snd p) = mp_role (fst p) \<and> sr_identity_id (snd p) = i"

lemma public_keys_equal_raw: "public_keys_equal (public_key_from_raw X role b) (public_key_from_raw X role b)"
  by (simp add: public_key_from_raw_def)

lemma safe_seal_pairs:
  assumes "wf_runtime rt" "calm c" "fills c" "codec_ok X"
    and j: "addition_journal j did i (sealed_pairs X ps)"
    and ps: "\<forall>p \<in> set ps. pair_ok i p" "distinct (map (\<lambda>p. record_path X (snd p)) ps)"
    and new: "\<And>r. sr_identity_id r = i \<Longrightarrow> dir_get (d_records d) (record_path X r) = None"
    and disk: "w_disk c = d\<lparr>d_journals := with_journal X j d\<rparr>"
    and E: "\<And>e c'. uncommitted X d j (w_disk c') \<Longrightarrow> E e c'"
    and tail: "\<And>w rs. calm w \<Longrightarrow> w_disk w = d\<lparr>d_journals := with_journal X j d, d_records := rs\<rparr>
      \<Longrightarrow> without (record_path X ` fst ` sealed_pairs X ps) rs = without (record_path X ` fst ` sealed_pairs X ps) (d_records d)
      \<Longrightarrow> all_stored X (rt_root_key rt) (d\<lparr>d_records := rs\<rparr>) (sealed_pairs X ps) \<Longrightarrow> safe f Q E w"
  shows "safe (bnd (foreach (seal_or_verify X rt (guard_of (rt_root rt))) ps) (\<lambda>_. f)) Q E c"
proof -
  let ?P = "record_path X ` fst ` sealed_pairs X ps"
  have fits: "record_path X (snd p) \<in> ?P \<and> dir_get (d_records (w_disk c)) (record_path X (snd p)) = None
      \<and> (\<exists>a. public_key_from_secret X (sr_role (snd p)) (mp_bytes (fst p)) = Inr a
           \<and> public_keys_equal a (managed_public_key X (fst p)))" if "p \<in> set ps" for p
    using that ps(1) new [of "snd p"]
    by (auto simp: pair_ok_def sealed_pairs_def disk public_key_from_secret_def managed_public_key_def
        public_keys_equal_raw image_image)
  have same: "foreach (seal_or_verify X rt (guard_of (rt_root rt))) ps = foreach (\<lambda>p. seal_as X rt (guard_of (rt_root rt))
      (snd p) (mp_bytes (fst p)) (managed_public_key X (fst p))) ps"
    by (simp add: seal_or_verify_as [abs_def])
  have K: "(\<lambda>p. (snd p, managed_public_key X (fst p))) ` set ps \<union> {} = sealed_pairs X ps"
    by (simp add: sealed_pairs_def)
  note seal = safe_seal_list [where ref = snd and raw = "\<lambda>p. mp_bytes (fst p)" and K = "{}"
      and pub = "\<lambda>p. managed_public_key X (fst p)", OF assms(1,2,4,3) only_records_refl ps(2) fits]
  have records: "uncommitted X d j (w_disk c')" if "only_records (w_disk c) ?P (w_disk c')" for c' :: world
    using that j by (auto elim!: only_recordsE simp: uncommitted_def disk addition_journal_def)
  show ?thesis
    unfolding same
  proof (rule safe_bnd, rule safe_mono [OF seal]; (unfold K)?)
    fix u and w :: world
    assume w: "only_records (w_disk c) ?P (w_disk w) \<and> all_stored X (rt_root_key rt) (w_disk w) (sealed_pairs X ps)"
    then obtain rs where rs: "w_disk w = d\<lparr>d_journals := with_journal X j d, d_records := rs\<rparr>"
      "without ?P rs = without ?P (d_records d)" by (auto elim!: only_recordsE simp: disk)
    with w tail [OF _ rs] show "calm w \<longrightarrow> safe f Q E w" by (simp add: stored_key_def)
  qed (use E records in auto)
qed

section \<open>Enrolled records\<close>

text \<open>
  The record of an enrolment: it waits for its publication, reads back as it was written, and every
  managed key of it is pending, with a secret in \<open>K\<close> that has the public key the record lists.
\<close>

definition enrolled_record ::
  "ext \<Rightarrow> json \<Rightarrow> (secret_ref \<times> public_key) set \<Rightarrow> string \<Rightarrow> string \<Rightarrow> identity_record \<Rightarrow> bool" where
  "enrolled_record X document K did i r \<longleftrightarrow> addable X did i r \<and> ir_document r = document \<and> ir_state r = Id_Enrolling
     \<and> (\<forall>m \<in> set (ir_keys r). km_origin m = Managed \<longrightarrow> km_state m = Key_Pending
          \<and> (\<exists>pub. (key_secret_ref i m, pub) \<in> K \<and> public_key_multibase X pub = Inr (km_public_key_multibase m)))"

lemma key_metadata_from_public_fields:
  assumes "key_metadata_from_public X kid role origin state public t = Inr m"
  shows "km_role m = role" "km_origin m = origin" "km_state m = state" "key_secret_ref i m = key_ref i kid role"
    "public_key_multibase X public = Inr (km_public_key_multibase m)"
  using assms by (auto simp: key_metadata_from_public_def rbind_Inr_iff key_secret_ref_def key_ref_def)

lemma optional_root_external:
  assumes "optional_root_metadata X document t = Inr (Some m)"
  shows "km_origin m = External" "km_role m = RootControl"
  using assms
  by (auto simp: optional_root_metadata_def rbind_Inr_iff mk_key_metadata_def split: if_splits)

lemma optional_root_profile:
  assumes "optional_root_metadata X document t = Inr root" "get_str document ''id'' = Some did" "for_did X did = Inr Web"
  shows "root = None"
  using assms
  by (auto simp: optional_root_metadata_def validate_method_document_def rbind_Inr_iff supports_root_control_def
      split: if_splits)

lemma method_root_fingerprint_profile:
  assumes "method_root_fingerprint X document = Inr f" "get_str document ''id'' = Some did"
  obtains profile where "for_did X did = Inr profile"
    "if supports_root_control profile then \<exists>s. f = Some s \<and> s \<noteq> [] else f = None"
proof -
  from assms obtain profile where p: "for_did X did = Inr profile"
    by (auto simp: method_root_fingerprint_def validate_method_document_def rbind_Inr_iff)
  show ?thesis by (rule that [OF p method_root_fingerprint_cases [OF assms p]])
qed

text \<open>A new record without a root capability reads back.\<close>

lemma new_record_reads_back:
  assumes "method_root_fingerprint X (ni_document n) = Inr (ni_root_key_fingerprint n)"
    and "get_str (ni_document n) ''id'' = Some (ni_did n)" "ni_root_capability n = Root_Absent"
    and "optional_root_metadata X (ni_document n) t = Inr root"
    and "ni_keys n = (case root of None \<Rightarrow> [] | Some m \<Rightarrow> [m]) @ ms" "\<forall>m \<in> set ms. km_role m \<noteq> RootControl"
    and "ni_local_authorization n \<noteq> None \<or> infer_local_authorization X (ni_document n) (ni_keys n) = Inr None"
    and "r = (new_identity_record n)\<lparr>ir_state := s, ir_local_request_signing_kid := kid, ir_pending_enrollment := pe,
      ir_pending_request_signing := ps\<rparr>"
  shows "decode_identity X (ni_identity_id n) (Some (Parsed r)) = Inr r"
  using assms(1,2)
proof (rule method_root_fingerprint_profile)
  fix profile
  assume p: "for_did X (ni_did n) = Inr profile"
    and f: "if supports_root_control profile then \<exists>s. ni_root_key_fingerprint n = Some s \<and> s \<noteq> []
      else ni_root_key_fingerprint n = None"
  show ?thesis
  proof (cases profile)
    case E1
    with p f assms(7,8) show ?thesis
      by (cases "ni_local_authorization n")
         (auto simp: new_identity_record_def supports_root_control_def split: option.splits)
  next
    case Web
    with optional_root_profile [OF assms(4,2)] p have "root = None" by simp
    with Web p f assms(3,5-8) show ?thesis
      by (cases "ni_local_authorization n")
         (auto simp: new_identity_record_def supports_root_control_def list_ex_iff)
  qed
qed

definition device_record ::
  "enrollment_spec \<Rightarrow> string \<Rightarrow> string \<Rightarrow> string \<Rightarrow> string \<Rightarrow> string \<Rightarrow> string \<Rightarrow> key_metadata option
     \<Rightarrow> key_metadata \<Rightarrow> key_metadata \<Rightarrow> string option \<Rightarrow> identity_record" where
  "device_record spec did signing_kid e2ee_kid i eid t root signing e2ee fingerprint =
     (let local = \<lparr>la_device_id = es_device_id spec, la_signing_kid = signing_kid,
           la_e2ee_kid = e2ee_kid, la_profiles = es_profiles spec\<rparr> in
      (new_identity_record
           \<lparr>ni_identity_id = i, ni_did = did, ni_document = es_verified_document spec,
            ni_keys = (case root of None \<Rightarrow> [] | Some m \<Rightarrow> [m]) @ [signing, e2ee],
            ni_capabilities = es_capabilities spec, ni_root_capability = Root_Absent,
            ni_root_key_fingerprint = fingerprint,
            ni_checkpoint = checkpoint (es_evidence spec),
            ni_local_authorization = Some local, ni_created_at = t\<rparr>)
           \<lparr>ir_state := Id_Enrolling,
            ir_pending_enrollment := Some \<lparr>pe_enrollment_id = eid,
              pe_local_authorization = local, pe_created_at = t\<rparr>\<rparr>)"

definition request_record ::
  "request_signing_enrollment_spec \<Rightarrow> string \<Rightarrow> string \<Rightarrow> string \<Rightarrow> string \<Rightarrow> string \<Rightarrow> key_metadata option
     \<Rightarrow> key_metadata \<Rightarrow> string option \<Rightarrow> identity_record" where
  "request_record spec did kid i eid t root request fingerprint =
     (new_identity_record
           \<lparr>ni_identity_id = i, ni_did = did, ni_document = rs_verified_document spec,
            ni_keys = (case root of None \<Rightarrow> [] | Some m \<Rightarrow> [m]) @ [request],
            ni_capabilities = rs_capabilities spec, ni_root_capability = Root_Absent,
            ni_root_key_fingerprint = fingerprint,
            ni_checkpoint = checkpoint (rs_evidence spec),
            ni_local_authorization = None, ni_created_at = t\<rparr>)
           \<lparr>ir_state := Id_Enrolling, ir_local_request_signing_kid := Some kid,
            ir_pending_request_signing := Some \<lparr>ps_enrollment_id = eid,
              ps_request_signing_kid = kid, ps_created_at = t\<rparr>\<rparr>"

lemma device_record_ok:
  assumes "get_str (es_verified_document spec) ''id'' = Some did"
    and "optional_root_metadata X (es_verified_document spec) t = Inr root"
    and s: "key_metadata_from_public X signing_kid DeviceSigning Managed Key_Pending (managed_public_key X signing_key) t = Inr signing"
    and e: "key_metadata_from_public X e2ee_kid E2eeAgreement Managed Key_Pending (managed_public_key X e2ee_key) t = Inr e2ee"
    and "method_root_fingerprint X (es_verified_document spec) = Inr f"
  shows "enrolled_record X (es_verified_document spec) (sealed_pairs X [(signing_key, key_ref i signing_kid DeviceSigning),
      (e2ee_key, key_ref i e2ee_kid E2eeAgreement)]) did i (device_record spec did signing_kid e2ee_kid i eid t root signing e2ee f)"
    (is "enrolled_record X ?doc ?K did i ?r")
proof -
  note fs = key_metadata_from_public_fields [OF s]
  note fe = key_metadata_from_public_fields [OF e]
  let ?n = "\<lparr>ni_identity_id = i, ni_did = did, ni_document = ?doc,
      ni_keys = (case root of None \<Rightarrow> [] | Some m \<Rightarrow> [m]) @ [signing, e2ee],
      ni_capabilities = es_capabilities spec, ni_root_capability = Root_Absent, ni_root_key_fingerprint = f,
      ni_checkpoint = checkpoint (es_evidence spec), ni_local_authorization = Some
        \<lparr>la_device_id = es_device_id spec, la_signing_kid = signing_kid, la_e2ee_kid = e2ee_kid, la_profiles = es_profiles spec\<rparr>,
      ni_created_at = t\<rparr>"
  have "decode_identity X (ni_identity_id ?n) (Some (Parsed ?r)) = Inr ?r"
    by (rule new_record_reads_back [where n = ?n and t = t and root = root and ms = "[signing, e2ee]"])
       (use assms(1,2,5) fs(1) fe(1) in \<open>simp_all add: device_record_def new_identity_record_def Let_def\<close>)
  then have "addable X did i ?r" unfolding addable_def new_identity_input.select_convs
    by (simp add: device_record_def new_identity_record_def Let_def del: decode_identity.simps)
  then show ?thesis
    using fs fe optional_root_external [of X ?doc t] assms(2)
    unfolding enrolled_record_def sealed_pairs_def
    by (cases root) (auto simp: device_record_def new_identity_record_def Let_def)
qed

lemma request_record_ok:
  assumes "get_str (rs_verified_document spec) ''id'' = Some did"
    and "optional_root_metadata X (rs_verified_document spec) t = Inr root"
    and s: "key_metadata_from_public X kid RequestSigning Managed Key_Pending (managed_public_key X key) t = Inr request"
    and "method_root_fingerprint X (rs_verified_document spec) = Inr f"
    and manifest: "validate_device_manifest X (rs_verified_document spec) \<noteq> None"
  shows "enrolled_record X (rs_verified_document spec) (sealed_pairs X [(key, key_ref i kid RequestSigning)]) did i
      (request_record spec did kid i eid t root request f)"
    (is "enrolled_record X ?doc ?K did i ?r")
proof -
  note fs = key_metadata_from_public_fields [OF s]
  let ?keys = "(case root of None \<Rightarrow> [] | Some m \<Rightarrow> [m]) @ [request]"
  have "\<not> is_local_device ?keys device" for device
    using fs(1) optional_root_external [of X ?doc t] assms(2) by (cases root) (auto simp: is_local_device_def)
  then have infer: "infer_local_authorization X ?doc ?keys = Inr None"
    using manifest by (auto simp: infer_local_authorization_def split: option.splits)
  let ?n = "\<lparr>ni_identity_id = i, ni_did = did, ni_document = ?doc, ni_keys = ?keys,
      ni_capabilities = rs_capabilities spec, ni_root_capability = Root_Absent, ni_root_key_fingerprint = f,
      ni_checkpoint = checkpoint (rs_evidence spec), ni_local_authorization = None, ni_created_at = t\<rparr>"
  have "decode_identity X (ni_identity_id ?n) (Some (Parsed ?r)) = Inr ?r"
    by (rule new_record_reads_back [where n = ?n and t = t and root = root and ms = "[request]"])
       (use assms(1,2,4) fs(1) infer in \<open>simp_all add: request_record_def new_identity_record_def\<close>)
  then have "addable X did i ?r" unfolding addable_def new_identity_input.select_convs
    by (simp add: request_record_def new_identity_record_def del: decode_identity.simps)
  then show ?thesis
    using fs optional_root_external [of X ?doc t] assms(2)
    unfolding enrolled_record_def sealed_pairs_def
    by (cases root) (auto simp: request_record_def new_identity_record_def)
qed

section \<open>The enrolments under every failure schedule\<close>

definition enrolled ::
  "ext \<Rightarrow> bytes \<Rightarrow> json \<Rightarrow> identity_registry \<Rightarrow> u64 \<Rightarrow> identity_record \<Rightarrow> disk \<Rightarrow> disk \<Rightarrow> bool" where
  "enrolled X k document g n r d d' \<longleftrightarrow> (\<exists>did K. get_str document ''id'' = Some did
     \<and> enrolled_record X document K did (ir_identity_id r) r
     \<and> entered X k K g n r d (d_journals d) d')"

definition enrolment_left :: "ext \<Rightarrow> bytes \<Rightarrow> json \<Rightarrow> identity_registry \<Rightarrow> disk \<Rightarrow> disk \<Rightarrow> bool" where
  "enrolment_left X k document g d d' \<longleftrightarrow> (\<exists>did K. get_str document ''id'' = Some did
     \<and> btree_get (rg_identities g) did = None
     \<and> addition_open X k (\<lambda>_. K) (enrolled_record X document K did) did g d d')"

lemma safe_random_id:
  assumes "calm c" "\<And>n c'. calm c' \<Longrightarrow> w_disk c' = w_disk c \<Longrightarrow> w_random c' = w_random c \<Longrightarrow> Q (drawn X c n) c'"
  shows "safe (random_id X) Q E c"
  by (rule safe_draws_identity [of X c]) (use assms in \<open>auto simp: draws_identity_def\<close>)

lemma safe_generate_key:
  assumes "calm c" "fills c" "generators_ok X"
    and "\<And>key c'. calm c' \<Longrightarrow> w_disk c' = w_disk c \<Longrightarrow> w_random c' = w_random c
      \<Longrightarrow> length (mp_bytes key) = 32 \<Longrightarrow> mp_role key = role \<Longrightarrow> Q key c'"
  shows "safe (generate_key X fragment role) Q E c"
  unfolding generate_key_def
  using assms(1) by (auto intro!: safe_bnd [OF safe_fill_bytes] safe_ret assms(4)
      simp: assms(2) [unfolded fills_def] assms(3) [unfolded generators_ok_def])

text \<open>
  What follows the journal, for any list of keys: when the secrets are sealed, the rest either ends
  with the record entered or leaves the disk as it is.
\<close>

lemma safe_enrolment_rest:
  fixes store defines "rt \<equiv> ds_runtime store"
  assumes "wf_runtime rt" "calm c" "fills c" "codec_ok X"
    and did: "get_str document ''id'' = Some did" "btree_get (rg_identities g) did = None"
    and j: "addition_journal j did i (sealed_pairs X ps)" "\<forall>p \<in> set ps. pair_ok i p"
      "distinct (map (\<lambda>p. record_path X (snd p)) ps)"
    and new: "dir_get (d_identities d) (identity_path X i) = None"
      "dir_get (d_journals d) (journal_path X (cj_transaction_id j)) = None"
      "\<And>r. sr_identity_id r = i \<Longrightarrow> dir_get (d_records d) (record_path X r) = None"
    and disk: "w_disk c = d\<lparr>d_journals := with_journal X j d\<rparr>"
    and build: "\<And>Q E w. calm w \<Longrightarrow> (\<And>e. E e w)
      \<Longrightarrow> (\<And>r z. enrolled_record X document (sealed_pairs X ps) did i r \<Longrightarrow> safe (enter r z) Q E w) \<Longrightarrow> safe (body enter) Q E w"
    and enter: "\<And>r z. enter r z = bnd (write_identity X (rt_root rt) (guard_of (rt_root rt)) r) (\<lambda>_.
       bnd (register_identity (rt_root rt) (guard_of (rt_root rt)) g did (summary r)) (\<lambda>n.
       bnd (remove_journal X (rt_root rt) (guard_of (rt_root rt)) (cj_transaction_id j)) (\<lambda>_.
       ret (store\<lparr>ds_registry_generation := n\<rparr>, \<lparr>di_runtime = rt, di_record = r\<rparr>, z))))"
  shows "safe (bnd (foreach (seal_or_verify X rt (guard_of (rt_root rt))) ps) (\<lambda>_. body enter))
    (\<lambda>x c'. \<exists>r n. (fst x, fst (snd x)) = addition_result store n r
       \<and> enrolled X (rt_root_key rt) document g n r d (w_disk c'))
    (\<lambda>_ c'. enrolment_left X (rt_root_key rt) document g d (w_disk c')) c"
    (is "safe _ ?Q ?E c")
proof -
  let ?K = "sealed_pairs X ps"
  have left: "?E e c'" if "uncommitted X d j (w_disk c')
      \<or> (\<exists>r n. enrolled_record X document ?K did i r \<and> entered X (rt_root_key rt) ?K g n r d (with_journal X j d) (w_disk c'))"
    for e and c' :: world
  proof -
    have "\<forall>q \<in> ?K. dir_get (d_records d) (record_path X (fst q)) = None"
      using j(2) new(3) by (auto simp: sealed_pairs_def pair_ok_def)
    with that j(1) new(1,2) have "addition_open X (rt_root_key rt) (\<lambda>_. ?K) (enrolled_record X document ?K did) did g d (w_disk c')"
      unfolding addition_open_def by blast
    with did show ?thesis unfolding enrolment_left_def by blast
  qed
  have final: "safe (enter r z) ?Q ?E w"
    if w: "calm w" "w_disk w = d\<lparr>d_journals := with_journal X j d, d_records := rs\<rparr>"
      "without (record_path X ` fst ` ?K) rs = without (record_path X ` fst ` ?K) (d_records d)"
      "all_stored X (rt_root_key rt) (d\<lparr>d_records := rs\<rparr>) ?K"
      and r: "enrolled_record X document ?K did i r" for w rs r z
  proof -
    from r have ri: "ir_identity_id r = i" "ir_did r = did" unfolding enrolled_record_def addable_def by blast+
    show ?thesis
      unfolding enter
    proof (rule safe_enter [OF w(1) j(1) w(2-4) ri new(2)])
      fix n c'
      assume c': "calm c'" "entered X (rt_root_key rt) ?K g n r d (d_journals d) (w_disk c')"
      then have "enrolled X (rt_root_key rt) document g n r d (w_disk c')"
        using did r ri unfolding enrolled_def by blast
      then show "safe (ret (store\<lparr>ds_registry_generation := n\<rparr>, \<lparr>di_runtime = rt, di_record = r\<rparr>, z)) ?Q ?E c'"
        by (intro safe_ret [OF c'(1)] exI [of _ r] exI [of _ n]) (simp add: addition_result_def rt_def)
    qed (use left r in blast)+
  qed
  show ?thesis
  proof (rule safe_seal_pairs [OF assms(2-5) j(1-3) new(3) disk])
    fix w rs
    assume w: "calm w" "w_disk w = d\<lparr>d_journals := with_journal X j d, d_records := rs\<rparr>"
      "without (record_path X ` fst ` ?K) rs = without (record_path X ` fst ` ?K) (d_records d)"
      "all_stored X (rt_root_key rt) (d\<lparr>d_records := rs\<rparr>) ?K"
    have "uncommitted X d j (w_disk w)" using w(2,3) j(1) by (simp add: uncommitted_def addition_journal_def)
    with left final [OF w] show "safe (body enter) ?Q ?E w" by (intro build [OF w(1)]) blast+
  qed (assumption, rule left, simp)
qed

text \<open>The two enrolments in this form.\<close>

definition enter_record ::
  "ext \<Rightarrow> did_store \<Rightarrow> store_write_guard \<Rightarrow> identity_registry \<Rightarrow> string \<Rightarrow> string \<Rightarrow> identity_record \<Rightarrow> 'z
     \<Rightarrow> (did_store \<times> did_identity \<times> 'z) io" where
  "enter_record X store guard g did tid r z = (let rt = ds_runtime store in
     bnd (write_identity X (rt_root rt) guard r) (\<lambda>_.
     bnd (register_identity (rt_root rt) guard g did (summary r)) (\<lambda>n.
     bnd (remove_journal X (rt_root rt) guard tid) (\<lambda>_.
     ret (store\<lparr>ds_registry_generation := n\<rparr>, \<lparr>di_runtime = rt, di_record = r\<rparr>, z)))))"

definition device_body where
  "device_body X spec did signing_kid e2ee_kid i eid t signing_key e2ee_key enter =
     (let document = es_verified_document spec in
     bnd (lift (optional_root_metadata X document t)) (\<lambda>root.
     bnd (lift (key_metadata_from_public X signing_kid DeviceSigning Managed Key_Pending
            (managed_public_key X signing_key) t)) (\<lambda>signing.
     bnd (lift (key_metadata_from_public X e2ee_kid E2eeAgreement Managed Key_Pending
            (managed_public_key X e2ee_key) t)) (\<lambda>e2ee.
     bnd (lift (method_root_fingerprint X document)) (\<lambda>f.
     enter (device_record spec did signing_kid e2ee_kid i eid t root signing e2ee f)
       \<lparr>pn_enrollment_id = eid, pn_identity_id = i, pn_did = did, pn_device_id = es_device_id spec,
        pn_device_signing_key = enrollment_key signing, pn_device_e2ee_key = enrollment_key e2ee,
        pn_profiles = es_profiles spec, pn_root_key_fingerprint = f,
        pn_checkpoint = checkpoint (es_evidence spec)\<rparr>)))))"

definition request_body where
  "request_body X spec did kid i eid t key enter =
     (let document = rs_verified_document spec in
     bnd (lift (optional_root_metadata X document t)) (\<lambda>root.
     bnd (lift (key_metadata_from_public X kid RequestSigning Managed Key_Pending
            (managed_public_key X key) t)) (\<lambda>request.
     bnd (lift (method_root_fingerprint X document)) (\<lambda>f.
     enter (request_record spec did kid i eid t root request f)
       \<lparr>pq_enrollment_id = eid, pq_identity_id = i, pq_did = did, pq_request_signing_key = enrollment_key request,
        pq_root_key_fingerprint = f, pq_checkpoint = checkpoint (rs_evidence spec)\<rparr>))))"

definition device_pairs where
  "device_pairs i signing_kid e2ee_kid signing_key e2ee_key =
     [(signing_key, key_ref i signing_kid DeviceSigning), (e2ee_key, key_ref i e2ee_kid E2eeAgreement)]"

definition request_pairs where
  "request_pairs i kid key = [(key, key_ref i kid RequestSigning)]"

lemma prepare_enrollment_form:
  "prepare_enrollment X store spec =
     (let rt = ds_runtime store; document = es_verified_document spec in
     bnd (lift (validate_enrollment_spec X spec)) (\<lambda>_.
     bnd (lift (ok_or (get_str document ''id'') InvalidIdentity)) (\<lambda>did.
     bnd (lift (canonicalize_kid did (es_device_signing_fragment spec))) (\<lambda>signing_kid.
     bnd (lift (canonicalize_kid did (es_device_e2ee_fragment spec))) (\<lambda>e2ee_kid.
     bnd (lift (ensure (\<not> (signing_kid = e2ee_kid
                  \<or> find_verification_method X document signing_kid \<noteq> None
                  \<or> find_verification_method X document e2ee_kid \<noteq> None)) DuplicateKid)) (\<lambda>_.
     bnd (acquire_write rt) (\<lambda>guard.
     bnd read_registry (\<lambda>registry.
     bnd (lift (ensure (rg_generation registry = ds_registry_generation store) Conflict)) (\<lambda>_.
     bnd (lift (ensure (btree_get (rg_identities registry) did = None) DuplicateIdentity)) (\<lambda>_.
     bnd (random_id X) (\<lambda>i. bnd (random_id X) (\<lambda>eid. bnd (random_id X) (\<lambda>tid.
     bnd (now_rfc3339 X) (\<lambda>t.
     bnd (generate_key X (es_device_signing_fragment spec) DeviceSigning) (\<lambda>signing_key.
     bnd (generate_key X (es_device_e2ee_fragment spec) E2eeAgreement) (\<lambda>e2ee_key.
     bnd (write_journal X (rt_root rt) guard (new_creation_journal tid i did
            (map snd (device_pairs i signing_kid e2ee_kid signing_key e2ee_key)) t)) (\<lambda>_.
     bnd (foreach (seal_or_verify X rt guard) (device_pairs i signing_kid e2ee_kid signing_key e2ee_key)) (\<lambda>_.
     device_body X spec did signing_kid e2ee_kid i eid t signing_key e2ee_key
       (enter_record X store guard registry did tid)))))))))))))))))))"
  unfolding prepare_enrollment_def device_body_def device_record_def device_pairs_def key_ref_def enter_record_def Let_def
  by simp

lemma bnd_foreach_one: "bnd (m x) f = bnd (foreach m [x]) f"
  by (simp add: bnd_assoc fun_eq_iff bnd_def ret_def split: prod.splits sum.splits)

lemma prepare_request_form:
  "prepare_request_signing_enrollment X store spec =
     (let rt = ds_runtime store; document = rs_verified_document spec in
     bnd (lift (validate_verified_document X document (rs_evidence spec))) (\<lambda>_.
     bnd (lift (validate_fragment (rs_fragment spec))) (\<lambda>_.
     bnd (lift (ok_or (get_str document ''id'') InvalidIdentity)) (\<lambda>did.
     bnd (lift (canonicalize_kid did (rs_fragment spec))) (\<lambda>kid.
     bnd (lift (ensure (find_verification_method X document kid = None) DuplicateKid)) (\<lambda>_.
     bnd (acquire_write rt) (\<lambda>guard.
     bnd read_registry (\<lambda>registry.
     bnd (lift (ensure (rg_generation registry = ds_registry_generation store) Conflict)) (\<lambda>_.
     bnd (lift (ensure (btree_get (rg_identities registry) did = None) DuplicateIdentity)) (\<lambda>_.
     bnd (random_id X) (\<lambda>i. bnd (random_id X) (\<lambda>eid. bnd (random_id X) (\<lambda>tid.
     bnd (now_rfc3339 X) (\<lambda>t.
     bnd (generate_key X (rs_fragment spec) RequestSigning) (\<lambda>key.
     bnd (write_journal X (rt_root rt) guard (new_creation_journal tid i did (map snd (request_pairs i kid key)) t)) (\<lambda>_.
     bnd (foreach (seal_or_verify X rt guard) (request_pairs i kid key)) (\<lambda>_.
     request_body X spec did kid i eid t key (enter_record X store guard registry did tid))))))))))))))))))"
  unfolding prepare_request_signing_enrollment_def request_body_def request_record_def request_pairs_def key_ref_def
    enter_record_def Let_def bnd_foreach_one [symmetric]
  by simp

lemma safe_device_body:
  assumes "calm w" "\<And>e. E e w" "get_str (es_verified_document spec) ''id'' = Some did"
    and "\<And>r z. enrolled_record X (es_verified_document spec)
      (sealed_pairs X (device_pairs i signing_kid e2ee_kid signing_key e2ee_key)) did i r \<Longrightarrow> safe (enter r z) Q E w"
  shows "safe (device_body X spec did signing_kid e2ee_kid i eid t signing_key e2ee_key enter) Q E w"
  unfolding device_body_def Let_def using assms(1,2)
  by (auto intro!: safe_bnd [OF safe_lift] assms(4) device_record_ok [OF assms(3)] simp: device_pairs_def)

lemma safe_request_body:
  assumes "calm w" "\<And>e. E e w" "get_str (rs_verified_document spec) ''id'' = Some did"
    and "validate_device_manifest X (rs_verified_document spec) \<noteq> None"
    and "\<And>r z. enrolled_record X (rs_verified_document spec) (sealed_pairs X (request_pairs i kid key)) did i r
      \<Longrightarrow> safe (enter r z) Q E w"
  shows "safe (request_body X spec did kid i eid t key enter) Q E w"
  unfolding request_body_def Let_def using assms(1,2)
  by (auto intro!: safe_bnd [OF safe_lift] assms(5) request_record_ok [OF assms(3) _ _ _ assms(4)] simp: request_pairs_def)

text \<open>Both enrolments from the journal on, for the identifiers a run draws.\<close>

lemma safe_enrolment_journalled:
  fixes body :: "(identity_record \<Rightarrow> 'z \<Rightarrow> (did_store \<times> did_identity \<times> 'z) io)
      \<Rightarrow> (did_store \<times> did_identity \<times> 'z) io"
    and store
  defines "rt \<equiv> ds_runtime store"
  assumes "wf_runtime rt" "calm c" "fills c" "codec_ok X" and fresh: "fresh_names X c0"
    and random: "w_random c = w_random c0" "w_disk c = w_disk c0"
    and did: "get_str document ''id'' = Some did" "btree_get (rg_identities g) did = None"
    and ps: "\<forall>p \<in> set ps. pair_ok (drawn X c0 n) p" "distinct (map (\<lambda>p. record_path X (snd p)) ps)"
    and build: "\<And>Q E w. calm w \<Longrightarrow> (\<And>e. E e w)
      \<Longrightarrow> (\<And>r z. enrolled_record X document (sealed_pairs X ps) did (drawn X c0 n) r
            \<Longrightarrow> safe (enter_record X store (guard_of (rt_root rt)) g did (drawn X c0 m) r z) Q E w)
      \<Longrightarrow> safe (body (enter_record X store (guard_of (rt_root rt)) g did (drawn X c0 m))) Q E w"
  shows "safe (bnd (write_journal X (rt_root rt) (guard_of (rt_root rt))
       (new_creation_journal (drawn X c0 m) (drawn X c0 n) did (map snd ps) t)) (\<lambda>_.
     bnd (foreach (seal_or_verify X rt (guard_of (rt_root rt))) ps) (\<lambda>_.
     body (enter_record X store (guard_of (rt_root rt)) g did (drawn X c0 m)))))
    (\<lambda>x c'. \<exists>r n. (fst x, fst (snd x)) = addition_result store n r
       \<and> enrolled X (rt_root_key rt) document g n r (w_disk c0) (w_disk c'))
    (\<lambda>_ c'. w_disk c' = w_disk c0 \<or> enrolment_left X (rt_root_key rt) document g (w_disk c0) (w_disk c')) c"
    (is "safe _ ?Q ?E c")
proof -
  let ?j = "new_creation_journal (drawn X c0 m) (drawn X c0 n) did (map snd ps) t"
  let ?d = "w_disk c0"
  have names: "dir_get (d_identities ?d) (identity_path X (drawn X c0 n)) = None"
    "dir_get (d_journals ?d) (journal_path X (cj_transaction_id ?j)) = None"
    "\<And>r. sr_identity_id r = drawn X c0 n \<Longrightarrow> dir_get (d_records ?d) (record_path X r) = None"
    using fresh by (auto simp: fresh_names_def Let_def new_creation_journal_def)
  have j: "addition_journal ?j did (drawn X c0 n) (sealed_pairs X ps)" "cj_transaction_id ?j = drawn X c0 m"
    by (auto simp: addition_journal_def new_creation_journal_def sealed_pairs_def image_image)
  have enter: "enter_record X store (guard_of (rt_root rt)) g did (drawn X c0 m) r z
      = bnd (write_identity X (rt_root rt) (guard_of (rt_root rt)) r) (\<lambda>_.
       bnd (register_identity (rt_root rt) (guard_of (rt_root rt)) g did (summary r)) (\<lambda>n.
       bnd (remove_journal X (rt_root rt) (guard_of (rt_root rt)) (cj_transaction_id ?j)) (\<lambda>_.
       ret (store\<lparr>ds_registry_generation := n\<rparr>, \<lparr>di_runtime = rt, di_record = r\<rparr>, z))))" for r z
    by (simp add: enter_record_def rt_def j(2) Let_def)
  have rest: "safe (bnd (foreach (seal_or_verify X rt (guard_of (rt_root rt))) ps) (\<lambda>_.
     body (enter_record X store (guard_of (rt_root rt)) g did (drawn X c0 m)))) ?Q ?E w"
    if w: "calm w" "w_random w = w_random c0" "w_disk w = ?d\<lparr>d_journals := with_journal X ?j ?d\<rparr>" for w
  proof -
    have "fills w" using assms(4) random(1) w(2) by (simp add: fills_def)
    from safe_enrolment_rest [where store = store and body = body, folded rt_def, OF assms(2) w(1) this assms(5) did j(1) ps
        names w(3) build enter]
    show ?thesis by (rule safe_mono) auto
  qed
  have "\<forall>q \<in> sealed_pairs X ps. dir_get (d_records ?d) (record_path X (fst q)) = None"
    using ps(1) names(3) by (auto simp: sealed_pairs_def pair_ok_def)
  moreover have "uncommitted X ?d ?j (?d\<lparr>d_journals := with_journal X ?j ?d\<rparr>)" by (simp add: uncommitted_def)
  ultimately have "addition_open X (rt_root_key rt) (\<lambda>_. sealed_pairs X ps) (enrolled_record X document (sealed_pairs X ps) did)
      did g ?d (?d\<lparr>d_journals := with_journal X ?j ?d\<rparr>)"
    using j(1) names(1,2) unfolding addition_open_def by blast
  then have written: "enrolment_left X (rt_root_key rt) document g ?d (?d\<lparr>d_journals := with_journal X ?j ?d\<rparr>)"
    using did unfolding enrolment_left_def by blast
  show ?thesis
    by (rule safe_bnd, rule safe_write_journal [OF assms(3)]) (use rest written random assms(3) in simp_all)
qed

text \<open>The two secrets of a device have different storage names, whatever identifier is drawn.\<close>

fun separate_names :: "ext \<Rightarrow> world \<Rightarrow> enrolment \<Rightarrow> bool" where
  "separate_names X w (Enrol_Device spec) \<longleftrightarrow> (\<forall>n did signing_kid e2ee_kid.
     get_str (es_verified_document spec) ''id'' = Some did
     \<longrightarrow> canonicalize_kid did (es_device_signing_fragment spec) = Inr signing_kid
     \<longrightarrow> canonicalize_kid did (es_device_e2ee_fragment spec) = Inr e2ee_kid
     \<longrightarrow> record_path X (key_ref (drawn X w n) signing_kid DeviceSigning)
         \<noteq> record_path X (key_ref (drawn X w n) e2ee_kid E2eeAgreement))"
| "separate_names X w (Enrol_Request spec) \<longleftrightarrow> True"

lemma safe_prepare_enrollment:
  fixes store defines "rt \<equiv> ds_runtime store"
  assumes "wf_runtime rt" "calm c" "fills c" "codec_ok X" "generators_ok X" "fresh_names X c"
    and g: "registry_at (w_disk c) = Inr g" and names: "separate_names X c (Enrol_Device spec)"
  shows "safe (prepare_enrollment X store spec)
    (\<lambda>x c'. \<exists>r n. (fst x, fst (snd x)) = addition_result store n r
       \<and> enrolled X (rt_root_key rt) (es_verified_document spec) g n r (w_disk c) (w_disk c'))
    (\<lambda>_ c'. w_disk c' = w_disk c \<or> enrolment_left X (rt_root_key rt) (es_verified_document spec) g (w_disk c) (w_disk c')) c"
    (is "safe _ ?Q ?E c")
proof -
  have fills: "fills w" if "w_random w = w_random c" for w :: world using that assms(4) by (simp add: fills_def)
  define rest where "rest guard registry did signing_kid e2ee_kid i eid tid t signing_key e2ee_key =
     bnd (write_journal X (rt_root rt) guard (new_creation_journal tid i did
            (map snd (device_pairs i signing_kid e2ee_kid signing_key e2ee_key)) t)) (\<lambda>_.
     bnd (foreach (seal_or_verify X rt guard) (device_pairs i signing_kid e2ee_kid signing_key e2ee_key)) (\<lambda>_.
     device_body X spec did signing_kid e2ee_kid i eid t signing_key e2ee_key
       (enter_record X store guard registry did tid)))"
    for guard registry did signing_kid e2ee_kid i eid tid t signing_key e2ee_key
  have last: "safe (rest (guard_of (rt_root rt)) g did signing_kid e2ee_kid (drawn X c n) eid (drawn X c k) t signing_key e2ee_key) ?Q ?E w"
    if w: "calm w" "w_disk w = w_disk c" "w_random w = w_random c"
      and did: "get_str (es_verified_document spec) ''id'' = Some did" "btree_get (rg_identities g) did = None"
      and kids: "canonicalize_kid did (es_device_signing_fragment spec) = Inr signing_kid"
        "canonicalize_kid did (es_device_e2ee_fragment spec) = Inr e2ee_kid"
      and keys: "length (mp_bytes signing_key) = 32" "mp_role signing_key = DeviceSigning"
        "length (mp_bytes e2ee_key) = 32" "mp_role e2ee_key = E2eeAgreement"
    for w did signing_kid e2ee_kid n k eid t signing_key e2ee_key
  proof -
    have "\<forall>p \<in> set (device_pairs (drawn X c n) signing_kid e2ee_kid signing_key e2ee_key). pair_ok (drawn X c n) p"
      "distinct (map (\<lambda>p. record_path X (snd p)) (device_pairs (drawn X c n) signing_kid e2ee_kid signing_key e2ee_key))"
      using keys names did kids by (simp_all add: device_pairs_def pair_ok_def key_ref_def)
    then show ?thesis
      unfolding rest_def
      by (intro safe_enrolment_journalled [where store = store and body = "device_body X spec did signing_kid e2ee_kid
          (drawn X c n) eid t signing_key e2ee_key", folded rt_def, OF assms(2) w(1) fills [OF w(3)] assms(5,7) w(3,2) did]
          safe_device_body [OF _ _ did(1)])
  qed
  show ?thesis
    unfolding prepare_enrollment_form Let_def rt_def [symmetric] rest_def [symmetric] now_rfc3339_def
    using assms(2,3,6) g
    by (auto intro!: safe_bnd [OF safe_lift] safe_bnd [OF safe_acquire_write] safe_bnd [OF safe_read_registry]
        safe_bnd [OF safe_random_id] safe_bnd [OF safe_bnd [OF safe_utc_now]] safe_ret
        safe_bnd [OF safe_generate_key [OF _ fills]] last)
qed

lemma safe_prepare_request:
  fixes store defines "rt \<equiv> ds_runtime store"
  assumes "wf_runtime rt" "calm c" "fills c" "codec_ok X" "generators_ok X" "fresh_names X c"
    and g: "registry_at (w_disk c) = Inr g"
  shows "safe (prepare_request_signing_enrollment X store spec)
    (\<lambda>x c'. \<exists>r n. (fst x, fst (snd x)) = addition_result store n r
       \<and> enrolled X (rt_root_key rt) (rs_verified_document spec) g n r (w_disk c) (w_disk c'))
    (\<lambda>_ c'. w_disk c' = w_disk c \<or> enrolment_left X (rt_root_key rt) (rs_verified_document spec) g (w_disk c) (w_disk c')) c"
    (is "safe _ ?Q ?E c")
proof -
  have fills: "fills w" if "w_random w = w_random c" for w :: world using that assms(4) by (simp add: fills_def)
  define rest where "rest guard registry did kid i eid tid t key =
     bnd (write_journal X (rt_root rt) guard (new_creation_journal tid i did (map snd (request_pairs i kid key)) t)) (\<lambda>_.
     bnd (foreach (seal_or_verify X rt guard) (request_pairs i kid key)) (\<lambda>_.
     request_body X spec did kid i eid t key (enter_record X store guard registry did tid)))"
    for guard registry did kid i eid tid t key
  have last: "safe (rest (guard_of (rt_root rt)) g did kid (drawn X c n) eid (drawn X c k) t key) ?Q ?E w"
    if w: "calm w" "w_disk w = w_disk c" "w_random w = w_random c"
      and did: "get_str (rs_verified_document spec) ''id'' = Some did" "btree_get (rg_identities g) did = None"
      and valid: "validate_verified_document X (rs_verified_document spec) (rs_evidence spec) = Inr u"
      and keys: "length (mp_bytes key) = 32" "mp_role key = RequestSigning"
    for w did kid n k eid t key u
  proof -
    have "validate_device_manifest X (rs_verified_document spec) \<noteq> None"
      using valid by (auto simp: validate_verified_document_def rbind_Inr_iff)
    moreover have "\<forall>p \<in> set (request_pairs (drawn X c n) kid key). pair_ok (drawn X c n) p"
      "distinct (map (\<lambda>p. record_path X (snd p)) (request_pairs (drawn X c n) kid key))"
      using keys by (simp_all add: request_pairs_def pair_ok_def key_ref_def)
    ultimately show ?thesis
      unfolding rest_def
      by (intro safe_enrolment_journalled [where store = store and body = "request_body X spec did kid
          (drawn X c n) eid t key", folded rt_def, OF assms(2) w(1) fills [OF w(3)] assms(5,7) w(3,2) did]
          safe_request_body [OF _ _ did(1)])
  qed
  show ?thesis
    unfolding prepare_request_form Let_def rt_def [symmetric] rest_def [symmetric] now_rfc3339_def
    using assms(2,3,6) g
    by (auto intro!: safe_bnd [OF safe_lift] safe_bnd [OF safe_acquire_write] safe_bnd [OF safe_read_registry]
        safe_bnd [OF safe_random_id] safe_bnd [OF safe_bnd [OF safe_utc_now]] safe_ret
        safe_bnd [OF safe_generate_key [OF _ fills]] last)
qed

lemma safe_perform_enrolment:
  fixes store
  assumes "wf_runtime (ds_runtime store)" "calm c" "fills c" "codec_ok X" "generators_ok X" "fresh_names X c"
    and "registry_at (w_disk c) = Inr g" "separate_names X c m"
  shows "safe (perform_enrolment X store m)
    (\<lambda>x c'. \<exists>r n. x = addition_result store n r
       \<and> enrolled X (rt_root_key (ds_runtime store)) (enrolment_document m) g n r (w_disk c) (w_disk c'))
    (\<lambda>_ c'. w_disk c' = w_disk c
       \<or> enrolment_left X (rt_root_key (ds_runtime store)) (enrolment_document m) g (w_disk c) (w_disk c')) c"
proof (cases m)
  case (Enrol_Device spec)
  note run = safe_prepare_enrollment [where spec = spec, OF assms(1-7)]
  from Enrol_Device assms(8) show ?thesis
    by (auto intro!: safe_bnd safe_mono [OF run] safe_ret) blast
next
  case (Enrol_Request spec)
  note run = safe_prepare_request [where spec = spec, OF assms(1-7)]
  from Enrol_Request show ?thesis
    by (auto intro!: safe_bnd safe_mono [OF run] safe_ret) blast
qed

section \<open>Atomicity\<close>

lemma recover_enrolment_left:
  assumes "wf_runtime rt" "calm w" "named_files X" "quiescent d" "registry_at d = Inr g"
    and left: "enrolment_left X (rt_root_key rt) document g d (w_disk w)"
  shows "\<exists>g' d'. recover X rt w = (Inr g', w\<lparr>w_disk := d'\<rparr>)
    \<and> (d' = d \<or> (\<exists>r n. enrolled X (rt_root_key rt) document g n r d d'))"
proof -
  from left obtain did K where did: "get_str document ''id'' = Some did" "btree_get (rg_identities g) did = None"
    and open_: "addition_open X (rt_root_key rt) (\<lambda>_. K) (enrolled_record X document K did) did g d (w_disk w)"
    unfolding enrolment_left_def by blast
  have add: "addable X did i r" "ir_identity_id r = i" if "enrolled_record X document K did i r" for i r
    using that unfolding enrolled_record_def addable_def by blast+
  from recover_addition [OF assms(1-5) did(2) add(1) open_] obtain g' d' where
    rec: "recover X rt w = (Inr g', w\<lparr>w_disk := d'\<rparr>)"
    and d': "d' = d \<or> (\<exists>i r n. enrolled_record X document K did i r
      \<and> entered X (rt_root_key rt) K g n r d (d_journals d) d')" by blast
  from d' have "d' = d \<or> (\<exists>r n. enrolled X (rt_root_key rt) document g n r d d')"
    using did(1) add(2) unfolding enrolled_def by metis
  with rec show ?thesis by blast
qed

text \<open>
  C7: preparing an enrolment is atomic under every schedule of system-call failures, for a device
  and for a request signing key. The recovery that the next opening of the store runs succeeds. An
  enrolment that returned is fully there: the registry entry, a record that waits for its publication, and for
  each of its pending keys a sealed secret with the public key the record lists. One that failed left no
  trace or is fully there as well.
\<close>
theorem enrolment_crash_atomic:
  fixes store w
  assumes "wf_runtime (ds_runtime store)" "codec_ok X" "generators_ok X" "named_files X"
    and "fills w" "fresh_names X w" "separate_names X w m"
    and "quiescent (w_disk w)" "registry_at (w_disk w) = Inr g"
    and run: "perform_enrolment X store m w = (res, w1)"
  shows "\<exists>g2 d2. recover X (ds_runtime store) (core w1) = (Inr g2, (core w1)\<lparr>w_disk := d2\<rparr>)
    \<and> (case res of
         Inr x \<Rightarrow> \<exists>r n. x = addition_result store n r
           \<and> enrolled X (rt_root_key (ds_runtime store)) (enrolment_document m) g n r (w_disk w) d2
       | Inl _ \<Rightarrow> d2 = w_disk w
           \<or> (\<exists>r n. enrolled X (rt_root_key (ds_runtime store)) (enrolment_document m) g n r (w_disk w) d2))"
proof -
  let ?rt = "ds_runtime store"
  have "fills (core w)" "fresh_names X (core w)" "separate_names X (core w) m" "registry_at (w_disk (core w)) = Inr g"
    using assms(5-7,9) by (cases m; simp add: fills_def fresh_names_def)+
  note out = safe_run_world [OF safe_perform_enrolment [OF assms(1) core_calm(1) this(1) assms(2,3) this(2,4,3)] run, simplified]
  have still: "recover X ?rt (core w1) = (registry_at (w_disk w1), core w1)" if "quiescent (w_disk w1)"
    using recover_quiescent [OF assms(1), of "core w1" X] that by simp
  show ?thesis
  proof (cases res)
    case (Inr x)
    with out obtain r n where x: "x = addition_result store n r"
      "enrolled X (rt_root_key ?rt) (enrolment_document m) g n r (w_disk w) (w_disk w1)" by auto
    have "quiescent (w_disk w1)" "registry_at (w_disk w1) = Inr (entry_for g r n)"
      using x(2) entered_quiescent [OF _ assms(8,9)] unfolding enrolled_def by blast+
    with still x Inr show ?thesis by (intro exI [of _ "entry_for g r n"] exI [of _ "w_disk w1"]) auto
  next
    case (Inl e)
    with out consider "w_disk w1 = w_disk w"
      | "enrolment_left X (rt_root_key ?rt) (enrolment_document m) g (w_disk w) (w_disk (core w1))" by auto
    then show ?thesis
    proof cases
      case 1
      with still assms(8,9) Inl show ?thesis by (intro exI [of _ g] exI [of _ "w_disk w"]) simp
    next
      case 2
      from recover_enrolment_left [OF assms(1) core_calm(1) assms(4,8,9) 2] Inl show ?thesis by auto
    qed
  qed
qed

definition sample_enrolment :: enrolment where
  "sample_enrolment = Enrol_Request \<lparr>rs_verified_document = sample_root_document,
     rs_evidence = sample_evidence sample_root_document 1, rs_fragment = ''q'', rs_capabilities = \<lparr>did_wba = True\<rparr>\<rparr>"

theorem enrolment_crash_atomic_witness:
  "is_ok (fst (perform_enrolment sample_ext sample_store sample_enrolment (sample_world [])))
   \<and> (\<exists>g2 d2 w1. w1 = core (snd (perform_enrolment sample_ext sample_store sample_enrolment
          (sample_world (replicate 20 None @ [Some ''disk full'']))))
        \<and> recover sample_ext (ds_runtime sample_store) w1 = (Inr g2, w1\<lparr>w_disk := d2\<rparr>))"
proof
  show "is_ok (fst (perform_enrolment sample_ext sample_store sample_enrolment (sample_world [])))" by code_simp
  have codec: "codec_ok sample_ext" by (simp add: codec_ok_def sample_ext_def)
  have keys: "generators_ok sample_ext" by (simp add: generators_ok_def sample_ext_def)
  have names: "separate_names sample_ext (sample_world fs) sample_enrolment" for fs by (simp add: sample_enrolment_def)
  show "\<exists>g2 d2 w1. w1 = core (snd (perform_enrolment sample_ext sample_store sample_enrolment
          (sample_world (replicate 20 None @ [Some ''disk full'']))))
        \<and> recover sample_ext (ds_runtime sample_store) w1 = (Inr g2, w1\<lparr>w_disk := d2\<rparr>)"
    using enrolment_crash_atomic [OF sample_wf_runtime codec keys sample_named_files sample_fills sample_fresh names
        sample_quiescent sample_registry prod.collapse [symmetric]] by blast
qed

end
