(* ===== verification/Sealed_Properties.thy ===== *)
theory Sealed_Properties
  imports Sealed_Handoff Sample_Host Sample_Records
begin

text \<open>
  Secrets that leave or enter a provider: what a sealed delivery holds, who can open it, that the
  token of the request is spent, and that a root key sealed for an import offer is the key that is
  imported.
\<close>

section \<open>What is relied on of the sealing crate\<close>

text \<open>
  What was sealed to the public key of a recipient opens with the recipient's key under the same
  info and associated data, and a handoff is rebuilt from its two parts; base64 decodes what it encodes.
\<close>

definition sealing_ok :: "ext \<Rightarrow> host_ext \<Rightarrow> bool" where
  "sealing_ok X H \<longleftrightarrow>
     (\<forall>b. b64u_decode X (b64u_encode X b) = Some b)
     \<and> (\<forall>rnd recipient info aad m h.
          sealed_seal H rnd (sealed_recipient_public H recipient) info aad m = Some h
          \<longrightarrow> sealed_from_parts H (sh_encapped_key h) (sh_ciphertext h) = Some h
              \<and> sealed_open H recipient h info aad = Some m)"

lemma sealed_opens:
  assumes "sealing_ok X H"
    "sealed_seal H rnd (sealed_recipient_public H recipient) (sealed_secret_info H) aad m = Some h"
  shows "open_sealed X H recipient (from_handoff X H h) aad = Inr m"
  using assms unfolding sealing_ok_def
  by (simp add: open_sealed_def to_handoff_def from_handoff_def)

section \<open>The operations that return a secret\<close>

datatype sealed_request =
    Seal_Agreement managed_identity sealed_key_agreement_request
  | Seal_Enrolment enrollment_session sealed_enrollment_key_agreement_request
  | Seal_Root managed_identity sealed_root_export_request

fun run_sealed :: "ext \<Rightarrow> host_ext \<Rightarrow> sealed_request \<Rightarrow> (did_identity, sealed_secret_delivery) sealed" where
  "run_sealed X H (Seal_Agreement m q) = derive_shared_secret_sealed X H m q"
| "run_sealed X H (Seal_Enrolment s q) = derive_device_shared_secret_sealed X H s q"
| "run_sealed X H (Seal_Root m q) = export_root_key_sealed X H m q"

text \<open>The identity an operation works on, the one its request names, and the rest of the request.\<close>

fun served_identity :: "sealed_request \<Rightarrow> identity_ref" where
  "served_identity (Seal_Agreement m q) = mi_reference m"
| "served_identity (Seal_Enrolment s q) = epr_identity (ens_proposal s)"
| "served_identity (Seal_Root m q) = mi_reference m"

fun named_identity :: "sealed_request \<Rightarrow> identity_ref" where
  "named_identity (Seal_Agreement m q) = kar_identity q"
| "named_identity (Seal_Enrolment s q) = ear_identity q"
| "named_identity (Seal_Root m q) = xer_identity q"

fun request_recipient :: "sealed_request \<Rightarrow> bytes" where
  "request_recipient (Seal_Agreement m q) = kar_recipient_public_key q"
| "request_recipient (Seal_Enrolment s q) = ear_recipient_public_key q"
| "request_recipient (Seal_Root m q) = xer_recipient_public_key q"

fun request_token :: "sealed_request \<Rightarrow> string" where
  "request_token (Seal_Agreement m q) = kar_token q"
| "request_token (Seal_Enrolment s q) = ear_token q"
| "request_token (Seal_Root m q) = xer_token q"

fun secret_source :: "ext \<Rightarrow> sealed_request \<Rightarrow> (did_identity, bytes) act" where
  "secret_source X (Seal_Agreement m q) =
     derive_shared_secret X \<lparr>kq_key = Sel_Kid (kar_kid q), kq_peer_public = kar_peer_public q\<rparr>"
| "secret_source X (Seal_Enrolment s q) = derive_device_shared_secret X s (ear_peer_public q)"
| "secret_source X (Seal_Root m q) =
     export_root_for_legacy_envelope X (Sel_Kid (xer_kid q)) (xer_user_presence_confirmed q)"

fun request_binding :: "host_ext \<Rightarrow> sealed_request \<Rightarrow> one_time_operation_binding sealed_result" where
  "request_binding H (Seal_Agreement m q) = sealed_key_agreement_binding H (kar_identity q) (kar_kid q)
     (kar_peer_public q) (kar_recipient_public_key q) (kar_request_id q)"
| "request_binding H (Seal_Enrolment s q) = sealed_enrollment_key_agreement_binding H (ear_identity q)
     (ear_enrollment_id q) (ear_kid q) (ear_peer_public q) (ear_recipient_public_key q) (ear_request_id q)"
| "request_binding H (Seal_Root m q) = sealed_root_export_binding H (xer_identity q) (xer_kid q)
     (xer_recipient_public_key q) (xer_request_id q) (xer_user_presence_confirmed q)"

lemma authorized_Inr:
  "authorized m s = (Inr x, s') \<longleftrightarrow>
     (\<exists>au w. m (fst (fst s), snd s) = (Inr x, (au, w)) \<and> s' = ((au, snd (fst s)), w))"
  by (auto simp: authorized_def map_err_def split: prod.splits sum.splits)

lemma on_engine_Inr:
  "on_engine m s = (Inr x, s') \<longleftrightarrow>
     (\<exists>e w. m (snd (fst s), snd s) = (Inr x, (e, w)) \<and> s' = ((fst (fst s), e), w))"
  by (auto simp: on_engine_def map_err_def split: prod.splits sum.splits)

lemma draw_Inr: "draw n s = (Inr x, s') \<Longrightarrow> fst s' = fst s"
  by (auto simp: draw_def split: prod.splits)

text \<open>All three consume the token, check the identity, compute the secret and seal it.\<close>

fun request_check :: "sealed_request \<Rightarrow> issued_authorization_context \<Rightarrow> unit sealed_result" where
  "request_check (Seal_Enrolment s q) consumed =
     rbind (case epr_kind (ens_proposal s) of
        Proposal_RequestSigning _ \<Rightarrow> Inl SP_IdentityBinding
      | Proposal_Device _ _ agreement_key _ \<Rightarrow>
          ensure (\<not> (epr_identity (ens_proposal s) \<noteq> ear_identity q
             \<or> epr_enrollment_id (ens_proposal s) \<noteq> ear_enrollment_id q
             \<or> ppk_kid agreement_key \<noteq> ear_kid q)) SP_IdentityBinding) (\<lambda>_.
       validate_identity_binding (epr_identity (ens_proposal s)) (ear_identity q) consumed)"
| "request_check q consumed = validate_identity_binding (served_identity q) (named_identity q) consumed"

fun request_aad ::
  "host_ext \<Rightarrow> sealed_request \<Rightarrow> one_time_operation_binding \<Rightarrow> issued_authorization_context \<Rightarrow> bytes sealed_result" where
  "request_aad H (Seal_Agreement m q) b consumed = sealed_aad H (ecdh_sealed_operation H) (kar_identity q) (kar_kid q)
     (kar_request_id q) (ob_operation_input_digest b) (kar_recipient_public_key q) consumed"
| "request_aad H (Seal_Enrolment s q) b consumed = sealed_aad H (enrollment_ecdh_sealed_operation H) (ear_identity q)
     (ear_kid q) (ear_request_id q) (ob_operation_input_digest b) (ear_recipient_public_key q) consumed"
| "request_aad H (Seal_Root m q) b consumed = sealed_aad H (root_export_sealed_operation H) (xer_identity q)
     (xer_kid q) (xer_request_id q) (ob_operation_input_digest b) (xer_recipient_public_key q) consumed"

lemma bnd_lift_lift: "bnd (lift a) (\<lambda>x. bnd (lift (b x)) f) = bnd (lift (rbind a b)) f"
  by (rule ext) (cases a; simp add: bnd_def lift_def)

lemma run_sealed_pipeline:
  "run_sealed X H q = bnd (lift (request_binding H q)) (\<lambda>b.
     bnd (authorized (consume_for_operation X H (request_token q) b)) (\<lambda>consumed.
     bnd (lift (request_check q consumed)) (\<lambda>_.
     bnd (on_engine (secret_source X q)) (\<lambda>secret.
     bnd (lift (request_aad H q b consumed)) (\<lambda>aad.
     seal_to_recipient X H (request_recipient q) aad consumed secret)))))"
proof (cases q)
  case (Seal_Enrolment s r)
  then show ?thesis by (simp add: derive_device_shared_secret_sealed_def Let_def bnd_lift_lift)
qed (simp_all add: derive_shared_secret_sealed_def export_root_key_sealed_def)

lemma request_check_identity:
  "request_check q consumed = Inr u \<Longrightarrow> served_identity q = named_identity q
     \<and> iac_store_id consumed = ref_store_id (named_identity q)"
  by (cases q) (auto simp: validate_identity_binding_def rbind_Inr_iff)

lemma run_sealed_steps:
  assumes "run_sealed X H q ((au, e), w) = (Inr delivery, ((au', e'), w'))"
  obtains b consumed w1 secret w2 rnd aad h where
    "request_binding H q = Inr b"
    "consume_for_operation X H (request_token q) b (au, w) = (Inr consumed, (au', w1))"
    "served_identity q = named_identity q" "iac_store_id consumed = ref_store_id (named_identity q)"
    "secret_source X q (e, w1) = (Inr secret, (e', w2))" "request_aad H q b consumed = Inr aad"
    "sealed_seal H rnd (request_recipient q) (sealed_secret_info H) aad secret = Some h"
    "delivery = sealed_delivery X H h aad consumed"
  using assms unfolding run_sealed_pipeline seal_to_recipient_def
  by (auto simp: bnd_Inr_iff lift_def authorized_Inr on_engine_Inr ret_def
      dest!: draw_Inr dest: request_check_identity intro: that)

text \<open>Consuming a token marks it as consumed and returns the context of its claims.\<close>

lemma consumed_token_marked:
  assumes "consume_for_operation X H token b (au, w) = (Inr consumed, (au', w'))"
  shows "ast_consumed_tokens (au_state au') (sha256 X token) = Some (iac_expires_at consumed)"
    "iac_capability consumed = ob_capability b" "w_disk w' = w_disk w"
proof -
  from assms obtain now w1 claims au1 where now: "outside unix_now (au, w) = (Inr now, (au1, w1))"
    and read: "read_token X H au1 token b now = Inr claims"
    and au': "au' = au1\<lparr>au_state := (au_state au1)\<lparr>ast_consumed_tokens :=
      (retain_unexpired now (ast_consumed_tokens (au_state au1)))(sha256 X token \<mapsto> tc_expires_at claims)\<rparr>\<rparr>"
      "w' = w1" "consumed = claims_context claims"
    by (auto simp: consume_for_operation_def consume_for_operation_at_def bnd_Inr_iff lift_def authority_def
        set_state_def ret_def Let_def)
  from read have "tc_capability claims = ob_capability b"
    by (auto simp: read_token_def rbind_Inr_iff claims_match_def split: prod.splits)
  moreover from now have "w_disk w1 = w_disk w"
    by (auto simp: outside_def unix_now_def bnd_def utc_now_def ret_def)
  ultimately show "ast_consumed_tokens (au_state au') (sha256 X token) = Some (iac_expires_at consumed)"
    "iac_capability consumed = ob_capability b" "w_disk w' = w_disk w"
    by (simp_all add: au' claims_context_def)
qed

text \<open>
  C13: a secret that a provider delivers reaches the recipient the request names, and nobody consumed
  its token before. When one of the three sealing operations returns, the delivery opens with the key of
  the recipient, under the associated data it carries, to the secret the operation computed with the
  identity; that identity is the one the request names and the store of the token; the token is
  bound to the request and is marked as consumed, so that it is refused from then on.
\<close>
theorem sealed_secret_reaches_recipient:
  assumes "sealing_ok X H" "request_recipient q = sealed_recipient_public H recipient"
    and "run_sealed X H q ((au, e), w) = (Inr delivery, ((au', e'), w'))"
  shows "served_identity q = named_identity q
    \<and> iac_store_id (ssd_authorization delivery) = ref_store_id (named_identity q)
    \<and> (\<exists>b. request_binding H q = Inr b \<and> iac_capability (ssd_authorization delivery) = ob_capability b)
    \<and> ast_consumed_tokens (au_state au') (sha256 X (request_token q)) = Some (iac_expires_at (ssd_authorization delivery))
    \<and> (\<exists>aad secret w1 w2. b64u_decode X (ssd_aad delivery) = Some aad
         \<and> open_sealed X H recipient (ssd_envelope delivery) aad = Inr secret
         \<and> w_disk w1 = w_disk w \<and> secret_source X q (e, w1) = (Inr secret, (e', w2)))"
  using assms(3)
proof (rule run_sealed_steps)
  fix b consumed w1 secret w2 rnd aad h
  assume s: "request_binding H q = Inr b"
    "consume_for_operation X H (request_token q) b (au, w) = (Inr consumed, (au', w1))"
    "served_identity q = named_identity q" "iac_store_id consumed = ref_store_id (named_identity q)"
    "secret_source X q (e, w1) = (Inr secret, (e', w2))"
    "sealed_seal H rnd (request_recipient q) (sealed_secret_info H) aad secret = Some h"
    and d: "delivery = sealed_delivery X H h aad consumed"
  have "b64u_decode X (b64u_encode X aad) = Some aad" using assms(1) by (simp add: sealing_ok_def)
  with s consumed_token_marked [OF s(2)] sealed_opens [OF assms(1) s(6) [unfolded assms(2)]]
  show ?thesis unfolding d by (auto simp: sealed_delivery_def)
qed

section \<open>A concrete delivery\<close>

definition agreement_metadata :: key_metadata where
  "agreement_metadata = sample_metadata\<lparr>km_kid := sample_did @ ''#k'', km_role := E2eeAgreement\<rparr>"

definition agreement_record :: identity_record where
  "agreement_record = sample_record\<lparr>ir_keys := [agreement_metadata],
     ir_document := json_object [(''id'', JString sample_did), (''keyAgreement'', JArray [JString (sample_did @ ''#k'')])]\<rparr>"

definition agreement_world :: world where
  "agreement_world = snd (ks_seal_if_absent sample_ext (file_key_store_new ''store'') (guard_of ''store'')
     sample_key (key_secret_ref ''i'' agreement_metadata) sample_key (holding_world agreement_record []))"

definition sealing_host :: host_ext where
  "sealing_host = sample_host
     \<lparr>identity_ecdh_binding := (\<lambda>_ kid _ recipient request_id. Some \<lparr>sb_capability = ''c'', sb_identity_id = ''i'',
        sb_operation = ''op'', sb_kid = kid, sb_request_id = request_id, sb_recipient_public_key = recipient,
        sb_operation_input_digest = ''d''\<rparr>),
      identity_operation_aad := (\<lambda>_ _ _. Some ''aad''),
      sealed_seal := (\<lambda>_ recipient info aad m. Some \<lparr>sh_encapped_key = recipient @ info @ aad, sh_ciphertext = m\<rparr>),
      sealed_from_parts := (\<lambda>key ciphertext. Some \<lparr>sh_encapped_key = key, sh_ciphertext = ciphertext\<rparr>),
      sealed_open := (\<lambda>recipient h info aad.
        if sh_encapped_key h = recipient @ info @ aad then Some (sh_ciphertext h) else None)\<rparr>"

definition agreement_request :: sealed_request where
  "agreement_request = (let identity = \<lparr>ref_store_id = ''s'', ref_identity_id = ''i'', ref_did = sample_did\<rparr> in
     Seal_Agreement \<lparr>mi_store_id = ''s'', mi_reference = identity\<rparr>
       \<lparr>kar_identity = identity, kar_kid = ''k'', kar_peer_public = replicate 32 CHR ''o'',
        kar_recipient_public_key = ''r'', kar_request_id = ''1'',
        kar_token = ''u'' @ sample_print (claims_json (sample_claims ''1'' 10)) @ ''.ukey''\<rparr>)"

lemma sealing_host_ok: "sealing_ok sample_ext sealing_host"
  by (simp add: sealing_ok_def sealing_host_def sample_host_def sample_ext_def)

lemma sample_delivers:
  "is_ok (fst (run_sealed sample_ext sealing_host agreement_request
     ((sample_authority, sample_handle agreement_record), agreement_world)))"
  by code_simp

theorem sealed_secret_reaches_recipient_witness:
  "\<exists>delivery aad secret s'. run_sealed sample_ext sealing_host agreement_request
       ((sample_authority, sample_handle agreement_record), agreement_world) = (Inr delivery, s')
     \<and> open_sealed sample_ext sealing_host ''r'' (ssd_envelope delivery) aad = Inr secret
     \<and> ast_consumed_tokens (au_state (fst (fst s'))) (sha256 sample_ext (request_token agreement_request))
         = Some (iac_expires_at (ssd_authorization delivery))"
proof -
  from sample_delivers obtain delivery au' e' w' where
    run: "run_sealed sample_ext sealing_host agreement_request
       ((sample_authority, sample_handle agreement_record), agreement_world) = (Inr delivery, ((au', e'), w'))"
    by (cases "run_sealed sample_ext sealing_host agreement_request
       ((sample_authority, sample_handle agreement_record), agreement_world)") (auto simp: is_ok_iff)
  have to: "request_recipient agreement_request = sealed_recipient_public sealing_host ''r''"
    by (simp add: agreement_request_def Let_def sealing_host_def sample_host_def)
  from sealed_secret_reaches_recipient [OF sealing_host_ok to run] run show ?thesis by auto
qed

end
