(* ===== verification/Signing_Properties.thy ===== *)
theory Signing_Properties
  imports Signing Crypto_Properties
begin

text \<open>
  Signing by purpose: which key signs, what it signs, and that the messages of application
  assertions keep their domains apart.
\<close>

section \<open>Domain separation\<close>

lemma validate_assertion_domain_length:
  "validate_assertion_domain domain = Inr u \<Longrightarrow> length domain \<le> 256"
  by (auto simp: validate_assertion_domain_def MAX_DOMAIN_BYTES_def)

lemma be16_inject: "m < 65536 \<Longrightarrow> n < 65536 \<Longrightarrow> be16 m = be16 n \<longleftrightarrow> m = n"
proof -
  assume mn: "m < 65536" "n < 65536"
  have split: "m = 256 * (m div 256) + m mod 256" "n = 256 * (n div 256) + n mod 256" by simp_all
  have small: "m div 256 < 256" "n div 256 < 256" using mn by auto
  have "be16 m = be16 n \<Longrightarrow> m div 256 = n div 256 \<and> m mod 256 = n mod 256"
  proof -
    assume "be16 m = be16 n"
    then have "of_char (char_of (m div 256) :: char) = (of_char (char_of (n div 256) :: char) :: nat)"
      "of_char (char_of (m mod 256) :: char) = (of_char (char_of (n mod 256) :: char) :: nat)"
      using mn by (simp_all add: be16_def Let_def)
    with small show ?thesis by simp
  qed
  with split show ?thesis by metis
qed

lemma length_be16: "length (be16 n) = 2"
  by (simp add: be16_def Let_def)

lemma application_payload_inject:
  assumes "payload_for_purpose (Sign_ApplicationAssertion d) p = Inr m"
    "payload_for_purpose (Sign_ApplicationAssertion d') p' = Inr m"
  shows "d = d' \<and> p = p'"
proof -
  from assms have len: "length d \<le> 256" "length d' \<le> 256"
    and eq: "be16 (length d) @ d @ p = be16 (length d') @ d' @ p'"
    by (auto simp: rbind_Inr_iff dest: validate_assertion_domain_length)
  then have "be16 (length d) = be16 (length d')" "d @ p = d' @ p'"
    by (simp_all add: length_be16)
  with len show ?thesis by (simp add: be16_inject)
qed

section \<open>The key that signs\<close>

text \<open>The keys of an identity that may sign for a role.\<close>

definition eligible :: "ext \<Rightarrow> did_identity \<Rightarrow> key_role \<Rightarrow> key_metadata \<Rightarrow> bool" where
  "eligible X i role m \<longleftrightarrow> km_role m = role \<and> ready_key m \<and> relationship_authorizes X i m role"

lemma find_key_metadata_set: "find_key_metadata i kid = Inr m \<Longrightarrow> m \<in> set (ir_keys (di_record i))"
  by (auto simp: find_key_metadata_def rbind_Inr_iff find_Some_iff)

lemma select_key_eligible:
  assumes "select_key X i selector role = Inr m"
  shows "m \<in> set (ir_keys (di_record i)) \<and> eligible X i role m
    \<and> (selector = Sel_Default \<longrightarrow> filter (eligible X i role) (ir_keys (di_record i)) = [m])"
proof (cases selector)
  case (Sel_Kid kid)
  with assms show ?thesis
    by (auto simp: select_key_def rbind_Inr_iff require_role_def require_relationship_def eligible_def
        from_engine_def dest: find_key_metadata_set)
next
  case Sel_Default
  have same: "(\<lambda>m. km_role m = role \<and> ready_key m \<and> relationship_authorizes X i m role) = eligible X i role"
    by (simp add: eligible_def fun_eq_iff)
  from assms Sel_Default have "filter (eligible X i role) (ir_keys (di_record i)) = [m]"
    by (auto simp: select_key_def select_only_def same split: list.splits)
  then show ?thesis by (metis filter_eq_Cons_iff in_set_conv_decomp)
qed

lemma ask_Inr:
  "ask m s = (Inr x, s') \<longleftrightarrow> (\<exists>w. m (fst s) (snd s) = (Inr x, w) \<and> s' = (fst s, w))"
  by (auto simp: ask_def split: prod.splits)

lemma mi_sign_steps:
  assumes "mi_sign X request (i, w) = (Inr sg, s')"
  obtains role payload m where "purpose_role (sq_purpose request) = Inr role"
    "payload_for_purpose (sq_purpose request) (sq_payload request) = Inr payload"
    "select_key X i (sq_key request) role = Inr m"
    "sign X i (km_kid m) payload w = (Inr (sg_bytes sg), snd s')" "fst s' = i" "sg_kid sg = km_kid m"
  using assms unfolding mi_sign_def
  by (auto simp: bnd_Inr_iff lift_def engine_def ask_Inr ret_def intro: that)

lemma sign_read_only: "read_only (sign X i kid message)"
  unfolding sign_def require_operational_def load_managed_secret_def by (intro keeps_intros)

text \<open>
  C21: a signature is made by a key whose role belongs to the purpose, that is ready and that the
  document authorises for it; the default selection takes the only such key. What is signed is the
  payload of the purpose, with the secret stored for the key, and nothing on disk changes. The
  message of an application assertion is the message of no other domain and no other payload.
\<close>
theorem signing_respects_purpose:
  assumes "mi_sign X request (i, w) = (Inr sg, (i', w'))"
  shows "i' = i \<and> w_disk w' = w_disk w
    \<and> (\<exists>role m. purpose_role (sq_purpose request) = Inr role \<and> m \<in> set (ir_keys (di_record i))
         \<and> eligible X i role m \<and> sg_kid sg = km_kid m
         \<and> (sq_key request = Sel_Default \<longrightarrow> filter (eligible X i role) (ir_keys (di_record i)) = [m]))
    \<and> (\<exists>payload m secret. payload_for_purpose (sq_purpose request) (sq_payload request) = Inr payload
         \<and> managed_key_metadata i (sg_kid sg) = Inr m
         \<and> secret_at X (rt_root_key (di_runtime i)) (w_disk w) (key_secret_ref (di_identity_id i) m) = Inr secret
         \<and> sg_bytes sg = ed25519_sign X secret payload
         \<and> (\<forall>d d' p'. sq_purpose request = Sign_ApplicationAssertion d
              \<longrightarrow> payload_for_purpose (Sign_ApplicationAssertion d') p' = Inr payload
              \<longrightarrow> d' = d \<and> p' = sq_payload request))"
  using assms
proof (rule mi_sign_steps)
  fix role payload m
  assume s: "purpose_role (sq_purpose request) = Inr role"
    "payload_for_purpose (sq_purpose request) (sq_payload request) = Inr payload"
    "select_key X i (sq_key request) role = Inr m"
    "sign X i (km_kid m) payload w = (Inr (sg_bytes sg), snd (i', w'))" "fst (i', w') = i" "sg_kid sg = km_kid m"
  from sign_Inr [OF s(4)] obtain m' w1 secret where
    m': "managed_key_metadata i (km_kid m) = Inr m'" "load_managed_secret X i m' w1 = (Inr secret, snd (i', w'))"
      "w_disk w1 = w_disk w" "sg_bytes sg = ed25519_sign X secret payload" .
  have "secret_at X (rt_root_key (di_runtime i)) (w_disk w1) (key_secret_ref (di_identity_id i) m') = Inr secret"
    using m'(2) by (auto simp: load_managed_secret_def dest: ks_open_Inr)
  with m' s select_key_eligible [OF s(3)] keepsD [OF sign_read_only s(4)] application_payload_inject
  show ?thesis by (intro conjI exI [of _ role] exI [of _ m] exI [of _ payload] exI [of _ m'] exI [of _ secret]) auto
qed

theorem signing_respects_purpose_witness:
  "\<exists>sg m. fst (mi_sign sample_ext \<lparr>sq_purpose = Sign_Authentication, sq_key = Sel_Default, sq_payload = ''hello''\<rparr>
       (sample_handle sample_record, keyed_world)) = Inr sg
     \<and> sg_kid sg = km_kid m \<and> filter (eligible sample_ext (sample_handle sample_record) RequestSigning)
         (ir_keys sample_record) = [m]"
proof -
  let ?q = "\<lparr>sq_purpose = Sign_Authentication, sq_key = Sel_Default, sq_payload = ''hello''\<rparr>"
  have "is_ok (fst (mi_sign sample_ext ?q (sample_handle sample_record, keyed_world)))" by code_simp
  then obtain sg i' w' where run: "mi_sign sample_ext ?q (sample_handle sample_record, keyed_world) = (Inr sg, (i', w'))"
    by (cases "mi_sign sample_ext ?q (sample_handle sample_record, keyed_world)") (auto simp: is_ok_iff)
  from signing_respects_purpose [OF run] run show ?thesis by auto
qed

section \<open>An advertised purpose\<close>

text \<open>
  The description of a request signing key lists application assertions among its purposes, but
  signing one with that key is refused.
\<close>

theorem advertised_purpose_refused:
  assumes "find_key_metadata i kid = Inr m" "km_role m = RequestSigning" "validate_assertion_domain domain = Inr ()"
  shows "Purpose_ApplicationAssertion \<in> set (snd (role_descriptor (km_role m)))"
    "fst (mi_sign X \<lparr>sq_purpose = Sign_ApplicationAssertion domain, sq_key = Sel_Kid kid, sq_payload = p\<rparr> (i, w))
       = Inl IE_KeyPurposeViolation"
  using assms
  by (simp_all add: mi_sign_def bnd_def lift_def engine_def select_key_def require_role_def from_engine_def)

end
