(* ===== verification/Replay_Properties.thy ===== *)
theory Replay_Properties
  imports Root_Import_Recovery
begin

text \<open>
  Replays of root transfers: how many transfers a record remembers, and that a remembered transfer
  is not imported again.
\<close>

type_synonym transfer = "string \<times> string \<times> string"

fun remember :: "transfer \<Rightarrow> identity_record \<Rightarrow> identity_record" where
  "remember (nonce, digest, expires) r = push_replay r nonce digest expires"

fun transfer_record :: "transfer \<Rightarrow> root_transfer_replay_record" where
  "transfer_record (nonce, digest, expires) =
     \<lparr>rr_nonce = nonce, rr_transfer_digest = digest, rr_expires_at = expires\<rparr>"

lemma remember_replays:
  "ir_root_transfer_replays (remember t r) =
     (let rs = ir_root_transfer_replays r @ [transfer_record t] in drop (length rs - MAX_REPLAY_RECORDS) rs)"
  by (cases t) (simp add: push_replay_def Let_def)

text \<open>The memory is bounded, and the last transfers are in it.\<close>

lemma remember_bounded: "length (ir_root_transfer_replays (remember t r)) \<le> MAX_REPLAY_RECORDS"
  by (simp add: remember_replays Let_def)

lemma remembered_suffix:
  assumes "length later < MAX_REPLAY_RECORDS"
  shows "\<exists>n. ir_root_transfer_replays (fold remember later (remember t r))
    = drop n (ir_root_transfer_replays r) @ transfer_record t # map transfer_record later"
  using assms
proof (induction later rule: rev_induct)
  case Nil
  then show ?case by (auto simp: remember_replays Let_def)
next
  case (snoc u later)
  then obtain n where "ir_root_transfer_replays (fold remember later (remember t r))
      = drop n (ir_root_transfer_replays r) @ transfer_record t # map transfer_record later" by auto
  then have "ir_root_transfer_replays (fold remember (later @ [u]) (remember t r))
      = drop (length (drop n (ir_root_transfer_replays r)) + length later + 2 - MAX_REPLAY_RECORDS)
          (drop n (ir_root_transfer_replays r) @ transfer_record t # map transfer_record (later @ [u]))"
    by (simp add: remember_replays Let_def)
  moreover have "length (drop n (ir_root_transfer_replays r)) + length later + 2 - MAX_REPLAY_RECORDS
      \<le> length (drop n (ir_root_transfer_replays r))" using snoc.prems by simp
  ultimately show ?case by (auto simp: add.commute)
qed

lemma find_after: "\<forall>p \<in> set xs. \<not> P p \<Longrightarrow> P y \<Longrightarrow> find P (xs @ y # ys) = Some y"
  by (induction xs) simp_all

lemma remembered_found:
  assumes "length later < MAX_REPLAY_RECORDS"
    "fst t \<notin> rr_nonce ` set (ir_root_transfer_replays r)"
  shows "find (\<lambda>p. rr_nonce p = fst t) (ir_root_transfer_replays (fold remember later (remember t r)))
    = Some (transfer_record t)"
proof -
  obtain n where n: "ir_root_transfer_replays (fold remember later (remember t r))
      = drop n (ir_root_transfer_replays r) @ transfer_record t # map transfer_record later"
    using remembered_suffix [OF assms(1)] by blast
  have "\<forall>p \<in> set (drop n (ir_root_transfer_replays r)). rr_nonce p \<noteq> fst t"
    using assms(2) by (metis imageI in_set_dropD)
  moreover have "rr_nonce (transfer_record t) = fst t" by (cases t) simp
  ultimately show ?thesis unfolding n by (simp add: find_after)
qed

text \<open>
  C24: a root transfer is not imported twice. After a transfer has been recorded and fewer than 256
  others with it, the record still knows its nonce: an import that presents the nonce again changes
  nothing, is refused unless it is the same transfer, and then only reports how far the first import got. The
  memory never holds more than 256 transfers.
\<close>
theorem replayed_transfer_changes_nothing:
  assumes "identity_at X (w_disk w) (di_identity_id i) = Inr r" "wf_runtime (di_runtime i)"
    and "ir_root_transfer_replays r = ir_root_transfer_replays (fold remember later (remember (nonce, digest, expires) r0))"
    and "length later < MAX_REPLAY_RECORDS" "nonce \<notin> rr_nonce ` set (ir_root_transfer_replays r0)"
    and run: "commit_pending_root X i kid raw public nonce digest' expires' w = (res, w')"
  shows "w_disk w' = w_disk w
    \<and> (\<forall>x. res = Inr x \<longrightarrow> digest' = digest
         \<and> x = (i, if ir_root_capability r = Root_Pending then Import_Pending else Import_Active))
    \<and> length (ir_root_transfer_replays (remember u r)) \<le> MAX_REPLAY_RECORDS"
proof -
  have found: "find (\<lambda>p. rr_nonce p = nonce) (ir_root_transfer_replays r)
      = Some \<lparr>rr_nonce = nonce, rr_transfer_digest = digest, rr_expires_at = expires\<rparr>"
    using remembered_found [OF assms(4), of "(nonce, digest, expires)" r0] assms(3,5) by simp
  have "safe (commit_pending_root X i kid raw public nonce digest' expires')
    (\<lambda>x c'. w_disk c' = w_disk w \<and> digest' = digest
       \<and> x = (i, if ir_root_capability r = Root_Pending then Import_Pending else Import_Active))
    (\<lambda>_ c'. w_disk c' = w_disk w) (core w)"
    unfolding commit_pending_root_def
    using assms(1,2) found
    by (auto intro!: safe_bnd [OF safe_acquire_write] safe_bnd [OF safe_read_identity] safe_bnd [OF safe_lift]
        safe_raise safe_ret split: root_capability_state.split)
  from safe_run_world [OF this run] show ?thesis
    using remember_bounded [of u r] by (cases res) auto
qed

definition replayed_record :: identity_record where
  "replayed_record = push_replay (rootless_record\<lparr>ir_root_capability := Root_Pending\<rparr>) ''n'' ''d'' ''x''"

theorem replayed_transfer_changes_nothing_witness:
  "fst (commit_pending_root sample_ext (sample_handle replayed_record) sample_root_kid sample_key
       (Ed25519 sample_key) ''n'' ''d'' ''y'' (holding_world replayed_record [])) = Inr (sample_handle replayed_record, Import_Pending)
   \<and> w_disk (snd (commit_pending_root sample_ext (sample_handle replayed_record) sample_root_kid sample_key
       (Ed25519 sample_key) ''n'' ''e'' ''y'' (holding_world replayed_record []))) = holding replayed_record"
proof -
  let ?run = "\<lambda>digest. commit_pending_root sample_ext (sample_handle replayed_record) sample_root_kid sample_key
       (Ed25519 sample_key) ''n'' digest ''y'' (holding_world replayed_record [])"
  have at: "identity_at sample_ext (w_disk (holding_world replayed_record [])) (di_identity_id (sample_handle replayed_record))
      = Inr replayed_record" by code_simp
  have wf: "wf_runtime (di_runtime (sample_handle replayed_record))" by simp
  have mem: "ir_root_transfer_replays replayed_record
      = ir_root_transfer_replays (fold remember [] (remember (''n'', ''d'', ''x'') rootless_record))"
    "''n'' \<notin> rr_nonce ` set (ir_root_transfer_replays rootless_record)"
    "ir_root_capability replayed_record = Root_Pending" by code_simp+
  have few: "length ([] :: transfer list) < MAX_REPLAY_RECORDS" by code_simp
  note all = replayed_transfer_changes_nothing [OF at wf mem(1) few mem(2) prod.collapse [symmetric]]
  have "is_ok (fst (?run ''d''))" by code_simp
  then obtain x where "fst (?run ''d'') = Inr x" by (auto simp: is_ok_iff)
  with all [of sample_root_kid sample_key "Ed25519 sample_key" "''d''" "''y''"] mem(3)
    all [of sample_root_kid sample_key "Ed25519 sample_key" "''e''" "''y''"]
  show ?thesis by simp
qed

end
