(* ===== verification/Spec2Isabelle.thy ===== *)
theory Spec2Isabelle
  imports Secret_Properties Input_Properties Adoption_Properties Crypto_Properties Namespace_Properties
    Update_Recovery Provider_Properties Transition_Properties
    Root_Import_Recovery Recovery_Progress Import_Properties Enrolment_Recovery
    Sealed_Properties Signing_Properties Replay_Properties
begin

text \<open>
  Verification library of the crate \<open>anp-identity\<close> (\<open>src/crates/anp-identity/src\<close>), the store of
  decentralised identities (DIDs) and their private keys, and of its Node binding
  (\<open>src/bindings/node/src/lib.rs\<close>).

  \<^bold>\<open>The program.\<close> A store is a directory: a manifest that pins the provider of the root key, a
  registry of identities, one record per identity, sealed private keys, and journals of the
  transactions in progress. An operation that changes the store takes its lock, reads the record again,
  checks it against the handle, writes a journal where it touches several files, and writes each file by
  rename. Opening the store recovers what interrupted operations left, journal by journal: creations
  (and imports and enrolments), root imports, deletions, and preparations and aborts of revisions.
  On top of that engine lie the application facade
  (manager, identities, document changes, transitions, signing by purpose), the ports of a host
  (status, convergence, enrolment, migration, root transfer, proofs, HTTP signatures), an authority of
  leases and one-time tokens that guards the operations offered to an external provider, the hand-off of
  secrets sealed to a recipient, and the Node classes.

  \<^bold>\<open>Representation.\<close> A \<open>String\<close> is the list of its UTF-8 bytes and \<open>u64\<close> is \<open>64 word\<close>; a \<open>Result\<close> is a
  sum whose left side is the error. Operations on the store are programs of the state-and-error monad of
  \<open>Prelude\<close> on the \<open>world\<close> of \<open>Store_Io\<close>: the disk, a schedule of system-call failures, the random
  source, the clock and the passwords the keyring of the operating system holds. Every system call
  consults the schedule, so that a property over all schedules covers every point at which a call can
  fail; a process that stops at such a point leaves the disk of the run in which that call and all later
  ones fail. An operation that holds the
  lock is one step. The facade adds the engine object to the state; a sealed operation adds the authority.

  \<^bold>\<open>Theories and sources.\<close>
  \<^item> \<open>Rust_Std\<close>, \<open>Json\<close>: the standard library on strings, and JSON values with sorted objects.
  \<^item> \<open>Error\<close> (\<open>error.rs\<close>), \<open>Input\<close> (\<open>input.rs\<close>), \<open>Records\<close> (the persisted types), \<open>Store_Io\<close>
    (\<open>fs_util.rs\<close>, \<open>store_lock.rs\<close>), \<open>Document\<close> (\<open>document.rs\<close>), \<open>Registry\<close> (\<open>registry.rs\<close>), \<open>Keystore\<close>
    (\<open>keystore.rs\<close>), \<open>Store\<close> (\<open>platform.rs\<close>, \<open>manifest.rs\<close>, \<open>store.rs\<close>).
  \<^item> \<open>Handle\<close>, \<open>Identity\<close> (\<open>identity.rs\<close>); \<open>Candidate\<close>, \<open>Lifecycle\<close> (\<open>lifecycle.rs\<close>); \<open>Local_Authorization\<close>,
    \<open>Adoption\<close> (\<open>adoption.rs\<close>); \<open>Namespace\<close> (\<open>namespace.rs\<close>); \<open>Crypto_Ops\<close> (\<open>crypto_ops.rs\<close>);
    \<open>Root_Transfer\<close> (\<open>root_transfer.rs\<close>); \<open>Key_Import\<close> (\<open>key_import.rs\<close>).
  \<^item> \<open>Facade\<close>, \<open>Document_Change\<close>, \<open>Identity_Transition\<close>, \<open>Signing\<close> (\<open>facade/\<close>); \<open>Host_Ports\<close>,
    \<open>Provider_Authorization\<close>, \<open>Sealed_Handoff\<close> (\<open>host/\<close>); \<open>Node_Binding\<close>, \<open>Node_Provider\<close>
    (\<open>bindings/node/src/lib.rs\<close>).
  \<^item> \<open>External\<close> and \<open>Host_External\<close> are records of the functions of other crates (\<open>anp\<close>, the cryptographic
    crates, the encoders, the keyring, serde's derived conversions); they are arguments of the definitions
    that call them. What a property relies on is a named hypothesis: \<open>codec_ok\<close> (an encoded or sealed
    value decodes), \<open>anp_documents_ok\<close>, \<open>generators_ok\<close>, \<open>signatures_ok\<close>, \<open>agreement_ok\<close>, \<open>pkcs8_ok\<close>,
    \<open>sealing_ok\<close>, \<open>keyring_ok\<close>. \<open>Sample\<close>, \<open>Sample_Records\<close> and \<open>Sample_Host\<close> instantiate them with functions that
    compute; the witnesses discharge every hypothesis there.

  \<^bold>\<open>Interfaces.\<close> \<open>listed_directory\<close> and its extension \<open>journal_directory\<close> state what a client may assume of
  a directory of records and are interpreted on the three kinds of journals of \<open>Registry\<close>; \<open>secret_store\<close>
  is the contract of the key store, interpreted on the file key store; \<open>stable_provider\<close> is that of a root-key
  provider, interpreted on the injected and on the file provider and proved of the keyring provider
  for every keyring that keeps what it is told (\<open>keyring_ok\<close>).

  \<^bold>\<open>What is shown.\<close>
  \<^item> Atomicity under every failure schedule followed by recovery: creating an identity (\<open>Crash_Safety\<close>),
    importing keys and identities (\<open>Import_Properties\<close>, over \<open>Addition_Recovery\<close>), preparing an enrolment
    (\<open>Enrolment_Recovery\<close>), importing a root key (\<open>Root_Import_Recovery\<close>), deleting a namespace
    (\<open>Namespace_Properties\<close>), aborting a revision (\<open>Update_Recovery\<close>); the last two also when the
    recoveries are themselves interrupted any number of times. \<open>Recovery_Progress\<close>: recovery never adds a
    journal, and one that succeeds leaves none and is idempotent. \<open>Recovery\<close> and \<open>Frames\<close> hold what these
    proofs share.
  \<^item> State machines and refinement: the life of a pending revision (\<open>Publication\<close>) and of a transition
    (\<open>Transition_Properties\<close>) are inductive step relations; each call of the code makes one step or none,
    whatever fails. In every history of calls the stored document is replaced only by a revision that an
    earlier call prepared and a later one began to publish; a transition is committed only on evidence of both
    prepared documents; a stale handle changes nothing. \<open>Facade_Calculus\<close> is the calculus for the facade.
  \<^item> Adoption (\<open>Adoption_Properties\<close>): checkpoints never go back, removed devices never return over
    adoptions and commits, and what each outcome means.
  \<^item> Authority (\<open>Authorization_Properties\<close>, \<open>Provider_Properties\<close>): tokens are consumed at most once while the
    clock does not run backwards, and only for their operation; every operation of a lease needs a live
    lease with its capability. \<open>Sealed_Properties\<close>: a sealed delivery opens to the secret requested.
  \<^item> Keys (\<open>Crypto_Properties\<close>, \<open>Signing_Properties\<close>, \<open>Secret_Properties\<close>, \<open>Replay_Properties\<close>,
    \<open>Creation\<close>): which keys may be used and for what, signatures verify, agreement is symmetric, sealed
    secrets open again and only under their own reference, remembered transfers are not imported again.
  \<^item> Inputs (\<open>Input_Properties\<close>): accepted domains, unique key identifiers, validated specifications.

  \<^bold>\<open>Where the code falls short.\<close> Eight theorems exhibit runs in which the code does not do what it
  means to: \<open>leftover_update_journal_blocks_store\<close>, \<open>web_import_unreadable\<close>,
  \<open>discarded_rotation_key_survives\<close>, \<open>rotated_signing_key_revokes\<close>, \<open>changed_identity_blocks_transition\<close>,
  \<open>failed_read_overwrites_transition\<close>, \<open>clock_step_back_reuses_token\<close>, \<open>advertised_purpose_refused\<close>. The
  properties about the same operations state as hypotheses what these runs violate.

  \<^bold>\<open>Bounds.\<close> No definition uses fuel: loops are structural recursion over the lists the code iterates
  over, or have a termination proof. Constants of the code (256 remembered transfers, token lifetime of five
  minutes, lease of a day, sizes of tokens and identifiers) keep their values. The existence test of a path
  answers no when the system call fails, as the standard library's does; properties about sealing
  therefore ask for distinct storage names, which fresh random identifiers give.

  \<^bold>\<open>Not modelled.\<close> \<open>secret.rs\<close> (a zeroising wrapper: its content is a byte string), \<open>lib.rs\<close> of the crate
  (re-exports), functions compiled only for tests except the sender of root transfers, permission bits of
  other files and the content of temporary files, interleaving of processes inside the lock, the keyring
  service, the JavaScript wrappers and the TypeScript plugin (\<open>index.js\<close>, \<open>provider.js\<close>,
  \<open>packages/dsh-anp-identity\<close>; renaming of fields around the native classes), the demonstration and the
  release scripts. Secrecy against an observer of memory is not expressible in the model.
\<close>

end
